(* ===== verification/Json.thy ===== *)
theory Json
  imports Prelude Complex_Main
begin

text \<open>
  JSON values as the sources use them (\<^verbatim>\<open>serde_json::Value\<close>).  An object is a
  \<^verbatim>\<open>BTreeMap\<close>: an association list kept in strictly increasing key order, so that
  structural equality is equality of maps.  Numbers follow \<^verbatim>\<open>serde_json::Number\<close>:
  non-negative integers, negative integers, and finite floats (their exact value).

  The locale \<open>keyed_map\<close> is the contract of a map built by successive inserts;
  its interpretation on the object representation is \<open>obj\<close>.
\<close>

datatype jnumber = PosInt nat | NegInt int | Float rat

datatype json =
    JNull
  | JBool bool
  | JNumber jnumber
  | JString rstr
  | JArray "json list"
  | JObject "(rstr \<times> json) list"

subsection \<open>Objects\<close>

type_synonym jobject = "(rstr \<times> json) list"

definition obj_get :: "jobject \<Rightarrow> rstr \<Rightarrow> json option" where
  "obj_get m k = map_of m k"

fun obj_insert :: "rstr \<Rightarrow> 'v \<Rightarrow> (rstr \<times> 'v) list \<Rightarrow> (rstr \<times> 'v) list" where
  "obj_insert k v [] = [(k, v)]"
| "obj_insert k v ((k', v') # m) =
     (if k = k' then (k, v) # m
      else if k < k' then (k, v) # (k', v') # m
      else (k', v') # obj_insert k v m)"

definition obj_wf :: "(rstr \<times> 'v) list \<Rightarrow> bool" where
  "obj_wf m \<longleftrightarrow> sorted_wrt (<) (map fst m)"

definition contains_key :: "jobject \<Rightarrow> rstr \<Rightarrow> bool" where
  "contains_key m k \<longleftrightarrow> obj_get m k \<noteq> None"

text \<open>The object a \<^verbatim>\<open>json!({ .. })\<close> literal builds from its fields in order.\<close>

definition json_fields :: "(rstr \<times> 'v) list \<Rightarrow> (rstr \<times> 'v) list" where
  "json_fields kvs = fold (\<lambda>(k, v). obj_insert k v) kvs []"

definition json_object :: "(rstr \<times> json) list \<Rightarrow> json" where
  "json_object kvs = JObject (json_fields kvs)"

subsection \<open>Accessors of \<^verbatim>\<open>serde_json::Value\<close>\<close>

fun as_str :: "json \<Rightarrow> rstr option" where
  "as_str (JString s) = Some s"
| "as_str _ = None"

fun as_object :: "json \<Rightarrow> jobject option" where
  "as_object (JObject m) = Some m"
| "as_object _ = None"

fun as_array :: "json \<Rightarrow> json list option" where
  "as_array (JArray xs) = Some xs"
| "as_array _ = None"

fun as_bool :: "json \<Rightarrow> bool option" where
  "as_bool (JBool b) = Some b"
| "as_bool _ = None"

definition i64_max :: int where
  "i64_max = 9223372036854775807"

fun as_i64 :: "json \<Rightarrow> int option" where
  "as_i64 (JNumber (PosInt n)) = (if int n \<le> i64_max then Some (int n) else None)"
| "as_i64 (JNumber (NegInt i)) = Some i"
| "as_i64 _ = None"

definition is_null :: "json \<Rightarrow> bool" where
  "is_null v \<longleftrightarrow> v = JNull"

definition is_string :: "json \<Rightarrow> bool" where
  "is_string v \<longleftrightarrow> as_str v \<noteq> None"

definition is_boolean :: "json \<Rightarrow> bool" where
  "is_boolean v \<longleftrightarrow> as_bool v \<noteq> None"

text \<open>\<^verbatim>\<open>Value::get(key)\<close>: None on a value that is not an object.\<close>

definition value_get :: "json \<Rightarrow> rstr \<Rightarrow> json option" where
  "value_get v k = (case as_object v of None \<Rightarrow> None | Some m \<Rightarrow> obj_get m k)"

subsection \<open>The contract of a keyed map\<close>

locale keyed_map =
  fixes lookup :: "'m \<Rightarrow> 'k \<Rightarrow> 'v option"
    and insert :: "'k \<Rightarrow> 'v \<Rightarrow> 'm \<Rightarrow> 'm"
    and empty :: "'m"
    and wf :: "'m \<Rightarrow> bool"
  assumes lookup_empty: "lookup empty k = None"
    and lookup_insert: "wf m \<Longrightarrow> lookup (insert k v m) k' = (if k' = k then Some v else lookup m k')"
    and wf_empty: "wf empty"
    and wf_insert: "wf m \<Longrightarrow> wf (insert k v m)"
begin

lemma wf_build: "wf m \<Longrightarrow> wf (fold (\<lambda>(k, v). insert k v) kvs m)"
  by (induction kvs arbitrary: m) (auto simp: wf_insert)

text \<open>A map built by inserts answers the last value inserted for a key.\<close>

lemma lookup_build:
  assumes "wf m"
  shows "lookup (fold (\<lambda>(k, v). insert k v) kvs m) k =
         (case map_of (rev kvs) k of Some v \<Rightarrow> Some v | None \<Rightarrow> lookup m k)"
  using assms
proof (induction kvs arbitrary: m)
  case Nil
  then show ?case by simp
next
  case (Cons kv kvs)
  obtain k0 v0 where kv: "kv = (k0, v0)" by (cases kv)
  have "wf (insert k0 v0 m)" using Cons.prems by (rule wf_insert)
  from Cons.IH [OF this] show ?case
    using Cons.prems by (auto simp: kv map_add_def lookup_insert split: option.splits)
qed

end

lemma map_of_obj_insert:
  "map_of (obj_insert k v m) k' = (if k' = k then Some v else map_of m k')"
  by (induction k v m rule: obj_insert.induct) auto

lemma fst_set_obj_insert: "fst ` set (obj_insert k v m) = insert k (fst ` set m)"
  by (induction k v m rule: obj_insert.induct) auto

lemma obj_wf_insert: "obj_wf m \<Longrightarrow> obj_wf (obj_insert k v m)"
proof (induction k v m rule: obj_insert.induct)
  case (1 k v)
  then show ?case by (simp add: obj_wf_def)
next
  case (2 k v k' v' m)
  then show ?case
    using fst_set_obj_insert [of k v m] by (auto simp: obj_wf_def)
qed

interpretation obj: keyed_map map_of obj_insert "[]" obj_wf
  by unfold_locales (simp_all add: map_of_obj_insert obj_wf_insert, simp add: obj_wf_def)

text \<open>Two objects with the same fields are the same object.\<close>

lemma alist_by_keys: "distinct (map fst m) \<Longrightarrow> map (\<lambda>k. (k, the (map_of m k))) (map fst m) = m"
  by (auto simp: o_def intro!: map_idI)

lemma obj_ext:
  assumes "obj_wf m" and "obj_wf m'" and "\<And>k. map_of m k = map_of m' k"
  shows "m = m'"
proof -
  have s: "sorted_wrt (<) (map fst m)" "sorted_wrt (<) (map fst m')"
    using assms(1,2) by (simp_all add: obj_wf_def)
  then have d: "distinct (map fst m)" "distinct (map fst m')"
    by (simp_all add: strict_sorted_iff)
  have eq: "map_of m = map_of m'" using assms(3) by auto
  have "set (map fst m) = set (map fst m')"
    by (metis eq dom_map_of_conv_image_fst set_map)
  then have "map fst m = map fst m'"
    using s by (intro strict_sorted_equal) auto
  then show ?thesis
    by (metis alist_by_keys d eq)
qed

text \<open>Reading a field of an object literal.\<close>

lemma map_of_json_fields: "map_of (json_fields kvs) k = map_of (rev kvs) k"
  using obj.lookup_build [OF obj.wf_empty, of kvs k]
  by (auto simp: json_fields_def split: option.splits)

lemma obj_get_json_fields [simp]: "obj_get (json_fields kvs) k = map_of (rev kvs) k"
  by (simp add: obj_get_def map_of_json_fields)

lemma obj_wf_json_fields [simp]: "obj_wf (json_fields kvs)"
  unfolding json_fields_def by (rule obj.wf_build) (rule obj.wf_empty)

lemma as_object_json_object [simp]: "as_object (json_object kvs) = Some (json_fields kvs)"
  by (simp add: json_object_def)

lemma value_get_json_object [simp]: "value_get (json_object kvs) k = map_of (rev kvs) k"
  by (simp add: value_get_def)

lemma as_object_Some: "as_object v = Some m \<longleftrightarrow> v = JObject m"
  by (cases v) auto

lemma as_str_Some [simp]: "as_str v = Some s \<longleftrightarrow> v = JString s"
  by (cases v) auto

lemma as_array_Some [simp]: "as_array v = Some s \<longleftrightarrow> v = JArray s"
  by (cases v) auto

lemma as_bool_Some [simp]: "as_bool v = Some s \<longleftrightarrow> v = JBool s"
  by (cases v) auto

text \<open>\<^verbatim>\<open>Value::from(i64)\<close>.\<close>

definition json_int :: "int \<Rightarrow> json" where
  "json_int i = JNumber (if 0 \<le> i then PosInt (nat i) else NegInt i)"

lemma as_i64_json_int: "i \<le> i64_max \<Longrightarrow> as_i64 (json_int i) = Some i"
  by (simp add: json_int_def)

end
