(* ===== verification/MailParser.thy ===== *)
theory MailParser
  imports Json
begin

text \<open>
  The mail parser, \<^verbatim>\<open>crates/postblox-mail/src/parser.rs\<close>.  The RFC 5322 decoding
  itself is the \<^verbatim>\<open>mail-parser\<close> package, a parameter \<open>mp_parse\<close> of the model; what its
  accessors return for a decoded message is the record \<open>mp_message\<close>.  Everything the
  crate does with that message is modelled: header extraction, body selection,
  attachment selection and naming, and the raw header map.
\<close>

subsection \<open>What the decoder hands over\<close>

datatype header_value =
    HText rstr
  | HTextList "rstr list"
  | HAddress "rstr option list"
  | HDateTime rstr
  | HContentType rstr "rstr option"
  | HEmpty
  | HOther rstr

datatype part_body =
    PText rstr
  | PHtml rstr
  | PBinary "byte list"
  | PInlineBinary "byte list"
  | PMessage
  | PMultipart

record mp_part =
  part_disposition :: "rstr option"
  part_attachment_name :: "rstr option"
  part_body :: part_body
  part_content_type :: "(rstr \<times> rstr option) option"
  part_content_id :: "rstr option"

record mp_message =
  mp_message_id :: "rstr option"
  mp_in_reply_to :: header_value
  mp_references :: header_value
  mp_from :: "rstr option list option"
  mp_to :: "rstr option list option"
  mp_cc :: "rstr option list option"
  mp_subject :: "rstr option"
  mp_body_text :: "rstr option"
  mp_body_html :: "rstr option"
  mp_headers :: "(rstr \<times> header_value) list"
  mp_parts :: "mp_part list"

subsection \<open>The parsed message\<close>

datatype Disposition = Inline | Attachment

record ParsedAttachment =
  pa_filename :: rstr
  pa_content_type :: rstr
  pa_data :: "byte list"
  pa_disposition :: Disposition
  pa_content_id :: "rstr option"

record ParsedEmail =
  pe_message_id :: "rstr option"
  pe_in_reply_to :: "rstr option"
  pe_references :: "rstr list"
  pe_from :: rstr
  pe_to :: "rstr list"
  pe_cc :: "rstr list"
  pe_subject :: "rstr option"
  pe_text_body :: "rstr option"
  pe_html_body :: "rstr option"
  pe_raw_headers :: json
  pe_attachments :: "ParsedAttachment list"

datatype MailError = Parse rstr

subsection \<open>Helpers\<close>

definition strip_angles :: "rstr \<Rightarrow> rstr" where
  "strip_angles s = trim (trim_end_matches 62 (trim_start_matches 60 (trim s)))"

fun mime_to_ext :: "rstr \<Rightarrow> rstr" where
  "mime_to_ext ct =
     (if ct = lit ''image/png'' then lit ''png''
      else if ct = lit ''image/jpeg'' then lit ''jpg''
      else if ct = lit ''image/gif'' then lit ''gif''
      else if ct = lit ''image/webp'' then lit ''webp''
      else if ct = lit ''image/svg+xml'' then lit ''svg''
      else if ct = lit ''application/pdf'' then lit ''pdf''
      else if ct = lit ''text/plain'' then lit ''txt''
      else if ct = lit ''text/html'' then lit ''html''
      else if ct = lit ''text/csv'' then lit ''csv''
      else if ct = lit ''application/json'' then lit ''json''
      else if ct = lit ''application/zip'' then lit ''zip''
      else if ct = lit ''application/gzip'' then lit ''gz''
      else lit ''bin'')"

definition extract_addresses :: "rstr option list \<Rightarrow> rstr list" where
  "extract_addresses addrs = List.map_filter id addrs"

fun extract_text_value :: "header_value \<Rightarrow> rstr list" where
  "extract_text_value (HText s) = [s]"
| "extract_text_value (HTextList xs) = xs"
| "extract_text_value _ = []"

fun content_type_text :: "rstr \<times> rstr option \<Rightarrow> rstr" where
  "content_type_text (ctype, Some sub) = ctype @ [47] @ sub"
| "content_type_text (ctype, None) = ctype"

fun header_value_to_json :: "header_value \<Rightarrow> json" where
  "header_value_to_json (HText s) = JString s"
| "header_value_to_json (HTextList xs) = JArray (map JString xs)"
| "header_value_to_json (HAddress addrs) = JArray (map JString (extract_addresses addrs))"
| "header_value_to_json (HDateTime s) = JString s"
| "header_value_to_json (HContentType ctype sub) = JString (content_type_text (ctype, sub))"
| "header_value_to_json HEmpty = JNull"
| "header_value_to_json (HOther s) = JString s"

text \<open>One header into the map: a second occurrence turns the entry into an array.\<close>

definition raw_header_step :: "jobject \<Rightarrow> rstr \<times> header_value \<Rightarrow> jobject" where
  "raw_header_step m h =
     (let name = fst h; value = header_value_to_json (snd h) in
      case obj_get m name of
        None \<Rightarrow> obj_insert name value m
      | Some (JArray arr) \<Rightarrow> obj_insert name (JArray (arr @ [value])) m
      | Some prev \<Rightarrow> obj_insert name (JArray [prev, value]) m)"

definition build_raw_headers :: "mp_message \<Rightarrow> json" where
  "build_raw_headers msg = JObject (foldl raw_header_step [] (mp_headers msg))"

subsection \<open>Attachments\<close>

text \<open>The loop body over \<^verbatim>\<open>message.parts\<close>: None is \<^verbatim>\<open>continue\<close>.\<close>

definition part_attachment :: "nat \<Rightarrow> mp_part \<Rightarrow> ParsedAttachment option" where
  "part_attachment i part =
     (let is_attachment = (part_disposition part = Some (lit ''attachment''));
          is_inline = (part_disposition part = Some (lit ''inline''));
          has_filename = (part_attachment_name part \<noteq> None)
      in if \<not> is_attachment \<and> \<not> is_inline \<and> \<not> has_filename then None
         else if i = 0 then None
         else
           (let skip_text = (\<not> is_attachment \<and> \<not> has_filename);
                data = (case part_body part of
                    PText s \<Rightarrow> if skip_text then None else Some (as_bytes s)
                  | PHtml s \<Rightarrow> if skip_text then None else Some (as_bytes s)
                  | PBinary bs \<Rightarrow> Some bs
                  | PInlineBinary bs \<Rightarrow> Some bs
                  | PMessage \<Rightarrow> None
                  | PMultipart \<Rightarrow> None)
            in case data of
                 None \<Rightarrow> None
               | Some bs \<Rightarrow>
                   (let content_type =
                          (case part_content_type part of
                             None \<Rightarrow> lit ''application/octet-stream''
                           | Some ct \<Rightarrow> content_type_text ct);
                        filename =
                          (case part_attachment_name part of
                             Some n \<Rightarrow> n
                           | None \<Rightarrow> lit ''attachment_'' @ show_nat i @ [46] @ mime_to_ext content_type)
                    in Some \<lparr>pa_filename = filename,
                             pa_content_type = content_type,
                             pa_data = bs,
                             pa_disposition = (if is_inline then Inline else Attachment),
                             pa_content_id = map_option strip_angles (part_content_id part)\<rparr>)))"

definition collect_attachments :: "mp_part list \<Rightarrow> ParsedAttachment list" where
  "collect_attachments parts =
     List.map_filter (\<lambda>(i, p). part_attachment i p) (enumerate 0 parts)"

subsection \<open>The entry points\<close>

definition parse_with_options ::
  "(byte list \<Rightarrow> mp_message option) \<Rightarrow> byte list \<Rightarrow> bool \<Rightarrow> (MailError, ParsedEmail) result" where
  "parse_with_options mp_parse raw include_raw_headers =
     (case mp_parse raw of
        None \<Rightarrow> Err (Parse (lit ''completely unparseable message''))
      | Some message \<Rightarrow>
          Ok \<lparr>pe_message_id = map_option strip_angles (mp_message_id message),
              pe_in_reply_to =
                (case extract_text_value (mp_in_reply_to message) of
                   [] \<Rightarrow> None | s # _ \<Rightarrow> Some (strip_angles s)),
              pe_references = map strip_angles (extract_text_value (mp_references message)),
              pe_from =
                (case mp_from message of
                   None \<Rightarrow> []
                 | Some addrs \<Rightarrow>
                     (case extract_addresses addrs of [] \<Rightarrow> [] | a # _ \<Rightarrow> a)),
              pe_to = (case mp_to message of None \<Rightarrow> [] | Some a \<Rightarrow> extract_addresses a),
              pe_cc = (case mp_cc message of None \<Rightarrow> [] | Some a \<Rightarrow> extract_addresses a),
              pe_subject = mp_subject message,
              pe_text_body = filter_option (\<lambda>s. s \<noteq> []) (mp_body_text message),
              pe_html_body = filter_option (\<lambda>s. s \<noteq> []) (mp_body_html message),
              pe_raw_headers = (if include_raw_headers then build_raw_headers message else JNull),
              pe_attachments = collect_attachments (mp_parts message)\<rparr>)"

definition parse :: "(byte list \<Rightarrow> mp_message option) \<Rightarrow> byte list \<Rightarrow> (MailError, ParsedEmail) result" where
  "parse mp_parse raw = parse_with_options mp_parse raw True"

subsection \<open>Correctness\<close>

text \<open>Which parts become attachments.\<close>

definition is_text_part :: "mp_part \<Rightarrow> bool" where
  "is_text_part p \<longleftrightarrow> (case part_body p of PText _ \<Rightarrow> True | PHtml _ \<Rightarrow> True | _ \<Rightarrow> False)"

definition is_binary_part :: "mp_part \<Rightarrow> bool" where
  "is_binary_part p \<longleftrightarrow> (case part_body p of PBinary _ \<Rightarrow> True | PInlineBinary _ \<Rightarrow> True | _ \<Rightarrow> False)"

lemma part_attachment_iff:
  "part_attachment i p \<noteq> None \<longleftrightarrow>
     0 < i \<and>
     (part_disposition p = Some (lit ''attachment'') \<or> part_attachment_name p \<noteq> None \<or>
      (part_disposition p = Some (lit ''inline'') \<and> is_binary_part p)) \<and>
     (is_text_part p \<or> is_binary_part p)"
  by (cases "part_body p")
     (auto simp: part_attachment_def Let_def is_text_part_def is_binary_part_def split: if_splits)

lemma set_collect_attachments:
  "a \<in> set (collect_attachments parts) \<longleftrightarrow>
     (\<exists>i < length parts. part_attachment i (parts ! i) = Some a)"
proof -
  have "a \<in> set (collect_attachments parts) \<longleftrightarrow>
      (\<exists>ip \<in> set (enumerate 0 parts). part_attachment (fst ip) (snd ip) = Some a)"
    by (force simp: collect_attachments_def List.map_filter_def split_beta)
  also have "\<dots> \<longleftrightarrow> (\<exists>i < length parts. part_attachment i (parts ! i) = Some a)"
    by (auto simp: in_set_enumerate_eq Bex_def)
  finally show ?thesis .
qed

lemma dropWhile_eq_self: "xs = [] \<or> \<not> P (hd xs) \<Longrightarrow> dropWhile P xs = xs"
  by (cases xs) auto

text \<open>Stripping the brackets of a clean message id gives the id back.\<close>

definition clean_id :: "rstr \<Rightarrow> bool" where
  "clean_id s \<longleftrightarrow> s \<noteq> [] \<and> \<not> is_whitespace (hd s) \<and> \<not> is_whitespace (last s) \<and>
     hd s \<noteq> 60 \<and> last s \<noteq> 62"

lemma not_whitespace_angles [simp]: "\<not> is_whitespace 60" "\<not> is_whitespace 62"
  by (simp_all add: is_whitespace_def)

lemma strip_angles_wrapped:
  assumes "clean_id s"
  shows "strip_angles (60 # s @ [62]) = s"
proof -
  have ne: "s \<noteq> []" and h: "hd s \<noteq> 60" and l: "last s \<noteq> 62" and w: "trim s = s"
    using assms trim_id [of s] by (auto simp: clean_id_def)
  have 1: "trim (60 # s @ [62]) = 60 # s @ [62]"
    by (rule trim_id) simp
  have 2: "trim_start_matches 60 (60 # s @ [62]) = s @ [62]"
    using h ne by (simp add: trim_start_matches_def dropWhile_eq_self)
  have "dropWhile (\<lambda>x. x = 62) (rev s) = rev s"
    using l ne by (intro dropWhile_eq_self) (simp add: hd_rev)
  then have 3: "trim_end_matches 62 (s @ [62]) = s"
    by (simp add: trim_end_matches_def)
  show ?thesis by (simp add: strip_angles_def 1 2 3 w)
qed

lemma strip_angles_clean:
  assumes "clean_id s"
  shows "strip_angles s = s"
proof -
  have ne: "s \<noteq> []" and h: "hd s \<noteq> 60" and l: "last s \<noteq> 62" and w: "trim s = s"
    using assms trim_id [of s] by (auto simp: clean_id_def)
  have "dropWhile (\<lambda>x. x = 62) (rev s) = rev s"
    using l ne by (intro dropWhile_eq_self) (simp add: hd_rev)
  then show ?thesis
    using h by (simp add: strip_angles_def w trim_start_matches_def trim_end_matches_def
        dropWhile_eq_self)
qed

text \<open>The raw header map holds exactly the header names, as a well-formed object.\<close>

lemma raw_header_step_wf: "obj_wf m \<Longrightarrow> obj_wf (raw_header_step m h)"
  by (auto simp: raw_header_step_def Let_def obj_wf_insert split: option.splits json.splits)

lemma raw_header_step_keys:
  "fst ` set (raw_header_step m h) = insert (fst h) (fst ` set m)"
  by (auto simp: raw_header_step_def Let_def fst_set_obj_insert split: option.splits json.splits)

lemma foldl_raw_headers:
  "obj_wf m \<Longrightarrow> obj_wf (foldl raw_header_step m hs) \<and>
     fst ` set (foldl raw_header_step m hs) = fst ` set m \<union> fst ` set hs"
  by (induction hs arbitrary: m) (auto simp: raw_header_step_wf raw_header_step_keys)

lemma raw_header_step_get:
  "obj_get (raw_header_step m (n, v)) k =
     (if k = n then
        Some (case obj_get m n of
           None \<Rightarrow> header_value_to_json v
         | Some (JArray arr) \<Rightarrow> JArray (arr @ [header_value_to_json v])
         | Some prev \<Rightarrow> JArray [prev, header_value_to_json v])
      else obj_get m k)"
  by (auto simp: raw_header_step_def Let_def obj_get_def map_of_obj_insert
      split: option.splits json.splits)

lemma foldl_raw_headers_other:
  "k \<notin> fst ` set hs \<Longrightarrow> obj_get (foldl raw_header_step m hs) k = obj_get m k"
  by (induction hs arbitrary: m) (auto simp: raw_header_step_get)

end
