(* ===== verification/Threading.thy ===== *)
theory Threading
  imports MailParser
begin

text \<open>
  Thread assignment, \<^verbatim>\<open>crates/postblox-mail/src/threading.rs\<close>.  Unicode case data is
  the record \<open>unicode\<close>: \<^verbatim>\<open>str::to_lowercase\<close>, \<^verbatim>\<open>char::is_uppercase\<close> and
  \<^verbatim>\<open>char::to_lowercase\<close> are tables of the Unicode database and stay parameters.  Instants are integers (nanoseconds), and
  \<^verbatim>\<open>Utc::now()\<close> is an argument.
\<close>

record unicode =
  to_lowercase :: "rstr \<Rightarrow> rstr"
  is_uppercase :: "rchar \<Rightarrow> bool"
  char_to_lowercase :: "rchar \<Rightarrow> rstr"

type_synonym uuid = nat
type_synonym instant = int

definition days :: "int \<Rightarrow> int" where
  "days n = n * 86400 * 1000000000"

record ThreadRef =
  tr_thread_id :: uuid
  tr_message_ids :: "rstr list"
  tr_subject :: rstr
  tr_last_message_at :: instant

datatype ThreadMatch = Existing uuid | New

subsection \<open>Subject normalisation\<close>

definition eq_ignore_ascii_case :: "rstr \<Rightarrow> rstr \<Rightarrow> bool" where
  "eq_ignore_ascii_case a b \<longleftrightarrow> to_ascii_lowercase a = to_ascii_lowercase b"

text \<open>The number of characters the loop skips, 0 for \<^verbatim>\<open>break\<close>.\<close>

definition prefix_skip :: "rstr \<Rightarrow> nat" where
  "prefix_skip s =
     (if 3 \<le> length s \<and> eq_ignore_ascii_case (take 3 s) (lit ''re:'') then 3
      else if 4 \<le> length s \<and> eq_ignore_ascii_case (take 4 s) (lit ''fwd:'') then 4
      else if 3 \<le> length s \<and> eq_ignore_ascii_case (take 3 s) (lit ''fw:'') then 3
      else 0)"

lemma prefix_skip_le: "prefix_skip s \<le> length s"
  by (auto simp: prefix_skip_def)

function strip_prefixes :: "rstr \<Rightarrow> rstr" where
  "strip_prefixes s =
     (if prefix_skip s = 0 then s else strip_prefixes (trim_start (drop (prefix_skip s) s)))"
  by pat_completeness auto

termination
proof (relation "measure length")
  fix s :: rstr
  assume "prefix_skip s \<noteq> 0"
  moreover have "length (trim_start (drop (prefix_skip s) s)) \<le> length s - prefix_skip s"
    using length_trim_start [of "drop (prefix_skip s) s"] by simp
  ultimately show "(trim_start (drop (prefix_skip s) s), s) \<in> measure length"
    using prefix_skip_le [of s] by (simp add: in_measure)
qed simp

declare strip_prefixes.simps [simp del]

definition normalize_subject :: "unicode \<Rightarrow> rstr \<Rightarrow> rstr" where
  "normalize_subject uc subj =
     (let s = strip_prefixes (trim subj) in
      if s = subj \<and> \<not> (\<exists>c \<in> set s. is_uppercase uc c) then s
      else to_lowercase uc s)"

subsection \<open>Assignment\<close>

definition has_message_id :: "rstr \<Rightarrow> ThreadRef \<Rightarrow> bool" where
  "has_message_id mid t \<longleftrightarrow> (\<exists>i \<in> set (tr_message_ids t). i = mid)"

text \<open>The reference scan: most recent reference first, threads in order.\<close>

fun match_references :: "ThreadRef list \<Rightarrow> rstr list \<Rightarrow> uuid option" where
  "match_references ts [] = None"
| "match_references ts (r # rs) =
     (case find (has_message_id r) ts of
        Some t \<Rightarrow> Some (tr_thread_id t)
      | None \<Rightarrow> match_references ts rs)"

text \<open>\<^verbatim>\<open>Iterator::max_by_key\<close>: the last of the maximal elements.\<close>

fun max_by_key :: "('a \<Rightarrow> 'k::linorder) \<Rightarrow> 'a list \<Rightarrow> 'a option" where
  "max_by_key f [] = None"
| "max_by_key f (x # xs) =
     (case max_by_key f xs of
        None \<Rightarrow> Some x
      | Some y \<Rightarrow> if f x \<le> f y then Some y else Some x)"

definition match_subject :: "unicode \<Rightarrow> instant \<Rightarrow> rstr option \<Rightarrow> ThreadRef list \<Rightarrow> uuid option" where
  "match_subject uc now subj ts =
     (case subj of
        None \<Rightarrow> None
      | Some s \<Rightarrow>
          (let normalized = normalize_subject uc s in
           if normalized = [] then None
           else map_option tr_thread_id
                  (max_by_key tr_last_message_at
                    (filter (\<lambda>t. tr_last_message_at t > now - days 7 \<and>
                                 normalize_subject uc (tr_subject t) = normalized) ts))))"

definition assign_thread ::
  "unicode \<Rightarrow> instant \<Rightarrow> ParsedEmail \<Rightarrow> ThreadRef list \<Rightarrow> ThreadMatch" where
  "assign_thread uc now message existing_threads =
     (case (case pe_in_reply_to message of
              None \<Rightarrow> None
            | Some r \<Rightarrow> map_option tr_thread_id (find (has_message_id r) existing_threads)) of
        Some tid \<Rightarrow> Existing tid
      | None \<Rightarrow>
          (case match_references existing_threads (rev (pe_references message)) of
             Some tid \<Rightarrow> Existing tid
           | None \<Rightarrow>
               (case match_subject uc now (pe_subject message) existing_threads of
                  Some tid \<Rightarrow> Existing tid
                | None \<Rightarrow> New)))"

subsection \<open>Normalised subjects\<close>

lemma strip_prefixes_done: "prefix_skip (strip_prefixes s) = 0"
proof (induction s rule: strip_prefixes.induct)
  case (1 s)
  show ?case
  proof (cases "prefix_skip s = 0")
    case True
    then show ?thesis by (simp add: strip_prefixes.simps [of s])
  next
    case False
    then show ?thesis using "1" by (simp add: strip_prefixes.simps [of s])
  qed
qed

lemma strip_prefixes_suffix: "suffix (strip_prefixes s) s"
proof (induction s rule: strip_prefixes.induct)
  case (1 s)
  show ?case
  proof (cases "prefix_skip s = 0")
    case True
    then show ?thesis by (simp add: strip_prefixes.simps [of s])
  next
    case False
    have "suffix (trim_start (drop (prefix_skip s) s)) s"
      unfolding trim_start_def
      by (rule suffix_order.trans [OF suffix_dropWhile suffix_drop])
    then show ?thesis
      using "1" False by (auto simp: strip_prefixes.simps [of s] intro: suffix_order.trans)
  qed
qed

text \<open>The prefixes that mark a reply or a forward, in any letter case.\<close>

definition reply_marker :: "rstr \<Rightarrow> bool" where
  "reply_marker p \<longleftrightarrow>
     eq_ignore_ascii_case p (lit ''re:'') \<or> eq_ignore_ascii_case p (lit ''fwd:'') \<or>
     eq_ignore_ascii_case p (lit ''fw:'')"

lemma is_whitespace_ascii_lower: "is_whitespace c \<longleftrightarrow> is_whitespace (ascii_lower c)"
  by (auto simp: is_whitespace_def ascii_lower_def)

lemma lit_markers:
  "to_ascii_lowercase (lit ''re:'') = [114, 101, 58]"
  "to_ascii_lowercase (lit ''fwd:'') = [102, 119, 100, 58]"
  "to_ascii_lowercase (lit ''fw:'') = [102, 119, 58]"
  by (simp_all add: to_ascii_lowercase_def lit_def ascii_lower_def)

lemma marker_chars_no_ws:
  "\<not> is_whitespace 114" "\<not> is_whitespace 102" "\<not> is_whitespace 58"
  by (simp_all add: is_whitespace_def)

lemma map_eq3: "map f p = [x, y, z] \<longleftrightarrow> (\<exists>a b c. p = [a, b, c] \<and> f a = x \<and> f b = y \<and> f c = z)"
  by (auto simp: map_eq_Cons_conv)

lemma map_eq4:
  "map f p = [x, y, z, w] \<longleftrightarrow>
     (\<exists>a b c d. p = [a, b, c, d] \<and> f a = x \<and> f b = y \<and> f c = z \<and> f d = w)"
  by (auto simp: map_eq_Cons_conv)

lemma prefix_skip_markers:
  "map ascii_lower p = [114, 101, 58] \<Longrightarrow> prefix_skip (p @ s) = length p"
  "map ascii_lower p = [102, 119, 100, 58] \<Longrightarrow> prefix_skip (p @ s) = length p"
  "map ascii_lower p = [102, 119, 58] \<Longrightarrow> prefix_skip (p @ s) = length p"
  unfolding prefix_skip_def eq_ignore_ascii_case_def lit_markers map_eq3 map_eq4
  by (auto simp: to_ascii_lowercase_def)

lemma reply_marker_shape:
  assumes "reply_marker p"
  shows "p \<noteq> []" "\<not> is_whitespace (hd p)" "\<not> is_whitespace (last p)"
        "prefix_skip (p @ s) = length p"
proof -
  from assms have c: "map ascii_lower p = [114, 101, 58] \<or>
      map ascii_lower p = [102, 119, 100, 58] \<or> map ascii_lower p = [102, 119, 58]"
    unfolding reply_marker_def eq_ignore_ascii_case_def lit_markers
    by (simp add: to_ascii_lowercase_def)
  then show ne: "p \<noteq> []" by auto
  from c have "ascii_lower (hd p) \<in> {114, 102}" "ascii_lower (last p) = 58"
    using ne by (auto simp: map_eq3 map_eq4)
  then show "\<not> is_whitespace (hd p)" "\<not> is_whitespace (last p)"
    using is_whitespace_ascii_lower [of "hd p"] is_whitespace_ascii_lower [of "last p"]
    by (auto simp: marker_chars_no_ws)
  from c show "prefix_skip (p @ s) = length p"
    by (elim disjE) (simp_all only: prefix_skip_markers)
qed

lemma strip_prefixes_marker:
  assumes "reply_marker p"
  shows "strip_prefixes (trim (p @ s)) = strip_prefixes (trim s)"
proof -
  note m = reply_marker_shape [OF assms]
  have "trim_start (p @ s) = p @ s"
    using m by (intro trim_start_id) auto
  then have "trim (p @ s) = p @ trim_end s"
    using m by (simp add: trim_def trim_end_append)
  moreover have "strip_prefixes (p @ trim_end s) = strip_prefixes (trim_start (trim_end s))"
    using m by (subst strip_prefixes.simps) simp
  ultimately show ?thesis by (simp add: trim_start_trim_end)
qed

lemma length_trim: "length (trim s) \<le> length s"
  unfolding trim_def
  using prefix_length_le [OF trim_end_prefix] length_trim_start le_trans by blast

lemma normalize_subject_marker:
  assumes "reply_marker p"
  shows "normalize_subject uc (p @ s) = to_lowercase uc (strip_prefixes (trim s))"
proof -
  have "length (strip_prefixes (trim s)) \<le> length s"
    using suffix_length_le [OF strip_prefixes_suffix [of "trim s"]] length_trim [of s] by simp
  then have "strip_prefixes (trim s) \<noteq> p @ s"
    using reply_marker_shape(1) [OF assms] by (auto dest: arg_cong [where f = length])
  then show ?thesis
    by (simp add: normalize_subject_def strip_prefixes_marker [OF assms] Let_def)
qed

text \<open>
  Prefixing a reply or forward marker (any letter case) to a subject leaves its
  normalised form unchanged, except in one situation, which the statement pins down: the
  subject is already stripped, none of its characters is uppercase, and yet lower-casing
  would change it (title-case letters), because the copy-free path then skips lower-casing.
\<close>

theorem normalize_subject_reply_invariant:
  assumes "reply_marker p"
  shows "normalize_subject uc (p @ s) = normalize_subject uc s \<longleftrightarrow>
     strip_prefixes (trim s) \<noteq> s \<or> (\<exists>c \<in> set s. is_uppercase uc c) \<or> to_lowercase uc s = s"
  using normalize_subject_marker [OF assms, of uc s]
  by (auto simp: normalize_subject_def [of uc s] Let_def)

definition ascii_unicode :: unicode where
  "ascii_unicode = \<lparr>to_lowercase = to_ascii_lowercase, is_uppercase = (\<lambda>c. 65 \<le> c \<and> c \<le> 90),
     char_to_lowercase = (\<lambda>c. [ascii_lower c])\<rparr>"

theorem normalize_subject_reply_invariant_witness:
  "reply_marker (lit ''RE:'') \<and>
   normalize_subject ascii_unicode (lit ''RE:'' @ lit '' Hello'') =
   normalize_subject ascii_unicode (lit '' Hello'')"
proof -
  have m: "reply_marker (lit ''RE:'')"
    by (simp add: reply_marker_def eq_ignore_ascii_case_def to_ascii_lowercase_def lit_def
        ascii_lower_def)
  have "\<exists>c \<in> set (lit '' Hello''). is_uppercase ascii_unicode c"
    by (simp add: lit_def ascii_unicode_def)
  then show ?thesis
    using m normalize_subject_reply_invariant [OF m, of ascii_unicode "lit '' Hello''"] by simp
qed

subsection \<open>Correct assignment\<close>

lemma find_has_message_id_None:
  "find (has_message_id r) ts = None \<longleftrightarrow> (\<forall>t \<in> set ts. r \<notin> set (tr_message_ids t))"
  by (auto simp: find_None_iff has_message_id_def)

lemma find_has_message_id_Some:
  assumes "find (has_message_id r) ts = Some t"
  shows "t \<in> set ts" and "r \<in> set (tr_message_ids t)"
  using assms by (auto simp: find_Some_iff has_message_id_def)

lemma match_references_None:
  "match_references ts rs = None \<longleftrightarrow> (\<forall>r \<in> set rs. \<forall>t \<in> set ts. r \<notin> set (tr_message_ids t))"
  by (induction rs) (auto simp: find_has_message_id_None split: option.splits
      dest: find_has_message_id_Some)

lemma match_references_Some:
  assumes "match_references ts rs = Some tid"
  shows "\<exists>pre r post t. rs = pre @ r # post \<and> t \<in> set ts \<and> tr_thread_id t = tid \<and>
     r \<in> set (tr_message_ids t) \<and> (\<forall>q \<in> set pre. \<forall>t \<in> set ts. q \<notin> set (tr_message_ids t))"
  using assms
proof (induction rs)
  case Nil
  then show ?case by simp
next
  case (Cons r rs)
  show ?case
  proof (cases "find (has_message_id r) ts")
    case None
    with Cons obtain pre r' post t where IH: "rs = pre @ r' # post" "t \<in> set ts"
        "tr_thread_id t = tid" "r' \<in> set (tr_message_ids t)"
        "\<forall>q \<in> set pre. \<forall>t \<in> set ts. q \<notin> set (tr_message_ids t)"
      by auto
    then show ?thesis
      using None [unfolded find_has_message_id_None] by (intro exI [of _ "r # pre"]) auto
  next
    case (Some t)
    with Cons.prems show ?thesis
      using find_has_message_id_Some [OF Some]
      by (intro exI [of _ "[]"] exI [of _ r] exI [of _ rs] exI [of _ t]) auto
  qed
qed

lemma max_by_key_None: "max_by_key f xs = None \<longleftrightarrow> xs = []"
  by (cases xs) (auto split: option.splits)

lemma max_by_key_Some:
  "max_by_key f xs = Some x \<Longrightarrow> x \<in> set xs \<and> (\<forall>y \<in> set xs. f y \<le> f x)"
proof (induction xs arbitrary: x)
  case Nil
  then show ?case by simp
next
  case (Cons a xs)
  then show ?case
    by (cases "max_by_key f xs") (fastforce simp: max_by_key_None split: if_splits)+
qed

text \<open>When a thread is a candidate for the subject fallback.\<close>

definition subject_candidate :: "unicode \<Rightarrow> instant \<Rightarrow> ParsedEmail \<Rightarrow> ThreadRef \<Rightarrow> bool" where
  "subject_candidate uc now m t \<longleftrightarrow>
     (case pe_subject m of None \<Rightarrow> False
      | Some s \<Rightarrow> normalize_subject uc s \<noteq> [] \<and> tr_last_message_at t > now - days 7 \<and>
          normalize_subject uc (tr_subject t) = normalize_subject uc s)"

lemma match_subject_None:
  "match_subject uc now (pe_subject m) ts = None \<longleftrightarrow> (\<forall>t \<in> set ts. \<not> subject_candidate uc now m t)"
  by (auto simp: match_subject_def subject_candidate_def Let_def max_by_key_None filter_empty_conv
      split: option.splits)

lemma match_subject_Some:
  assumes "match_subject uc now (pe_subject m) ts = Some tid"
  shows "\<exists>t \<in> set ts. tr_thread_id t = tid \<and> subject_candidate uc now m t \<and>
     (\<forall>t' \<in> set ts. subject_candidate uc now m t' \<longrightarrow> tr_last_message_at t' \<le> tr_last_message_at t)"
proof -
  from assms obtain s t where s: "pe_subject m = Some s" "normalize_subject uc s \<noteq> []"
    and t: "tr_thread_id t = tid"
      "max_by_key tr_last_message_at (filter (\<lambda>t. tr_last_message_at t > now - days 7 \<and>
         normalize_subject uc (tr_subject t) = normalize_subject uc s) ts) = Some t"
    by (auto simp: match_subject_def Let_def split: option.splits if_splits)
  then show ?thesis
    using max_by_key_Some [OF t(2)] by (auto simp: subject_candidate_def)
qed

text \<open>The ids a message names as ancestors that some thread knows.\<close>

definition known_id :: "ThreadRef list \<Rightarrow> rstr \<Rightarrow> bool" where
  "known_id ts r \<longleftrightarrow> (\<exists>t \<in> set ts. r \<in> set (tr_message_ids t))"

lemma find_known_id: "find (has_message_id r) ts = None \<longleftrightarrow> \<not> known_id ts r"
  by (simp add: known_id_def find_has_message_id_None)

lemma match_references_known: "match_references ts rs = None \<longleftrightarrow> (\<forall>r \<in> set rs. \<not> known_id ts r)"
  by (auto simp: known_id_def match_references_None)

text \<open>The thread a message must join, by the documented priority.\<close>

definition joins :: "unicode \<Rightarrow> instant \<Rightarrow> ParsedEmail \<Rightarrow> ThreadRef list \<Rightarrow> ThreadRef \<Rightarrow> bool" where
  "joins uc now m ts t \<longleftrightarrow>
     (if \<exists>r. pe_in_reply_to m = Some r \<and> known_id ts r
      then \<exists>r. pe_in_reply_to m = Some r \<and> r \<in> set (tr_message_ids t)
      else if \<exists>r \<in> set (pe_references m). known_id ts r
      then \<exists>pre r post. pe_references m = pre @ r # post \<and> r \<in> set (tr_message_ids t) \<and>
             (\<forall>q \<in> set post. \<not> known_id ts q)
      else subject_candidate uc now m t \<and>
           (\<forall>t' \<in> set ts. subject_candidate uc now m t' \<longrightarrow> tr_last_message_at t' \<le> tr_last_message_at t))"

lemma assign_thread_reply_to:
  assumes "pe_in_reply_to m = Some r" and "known_id ts r"
  shows "\<exists>t \<in> set ts. assign_thread uc now m ts = Existing (tr_thread_id t) \<and> r \<in> set (tr_message_ids t)"
proof -
  from assms(2) obtain t where t: "find (has_message_id r) ts = Some t"
    by (metis find_known_id option.exhaust)
  with assms(1) have "assign_thread uc now m ts = Existing (tr_thread_id t)"
    by (simp add: assign_thread_def)
  then show ?thesis using find_has_message_id_Some [OF t] by blast
qed

lemma assign_thread_no_reply_to:
  assumes "\<And>r. pe_in_reply_to m = Some r \<Longrightarrow> \<not> known_id ts r"
  shows "assign_thread uc now m ts =
     (case match_references ts (rev (pe_references m)) of
        Some tid \<Rightarrow> Existing tid
      | None \<Rightarrow> (case match_subject uc now (pe_subject m) ts of
                   Some tid \<Rightarrow> Existing tid | None \<Rightarrow> New))"
proof (cases "pe_in_reply_to m")
  case None
  then show ?thesis by (simp add: assign_thread_def)
next
  case (Some r)
  with assms have "find (has_message_id r) ts = None" by (simp add: find_known_id)
  with Some show ?thesis by (simp add: assign_thread_def)
qed

lemma assign_thread_references:
  assumes "\<And>r. pe_in_reply_to m = Some r \<Longrightarrow> \<not> known_id ts r"
    and "r \<in> set (pe_references m)" and "known_id ts r"
  shows "\<exists>t \<in> set ts. assign_thread uc now m ts = Existing (tr_thread_id t) \<and>
     (\<exists>pre r post. pe_references m = pre @ r # post \<and> r \<in> set (tr_message_ids t) \<and>
        (\<forall>q \<in> set post. \<not> known_id ts q))"
proof -
  from assms(2,3) obtain tid where tid: "match_references ts (rev (pe_references m)) = Some tid"
    using match_references_known [of ts "rev (pe_references m)"] by auto
  from match_references_Some [OF tid] obtain pre r' post t where
    "rev (pe_references m) = pre @ r' # post" "t \<in> set ts" "tr_thread_id t = tid"
    "r' \<in> set (tr_message_ids t)" "\<forall>q \<in> set pre. \<not> known_id ts q"
    by (auto simp: known_id_def)
  moreover from this have "pe_references m = rev post @ r' # rev pre"
    by (metis append.assoc append_Cons append_Nil rev.simps(2) rev_append rev_rev_ident)
  ultimately show ?thesis
    using assign_thread_no_reply_to [OF assms(1)] tid
    by (intro bexI [of _ t] conjI exI [of _ "rev post"] exI [of _ r'] exI [of _ "rev pre"]) auto
qed

text \<open>
  The thread a message joins follows the documented priority.  A known In-Reply-To
  decides alone; otherwise the last known entry of References decides; otherwise the most
  recent thread with the same normalised non-empty subject and activity within seven days;
  and a new thread is started exactly when none of these exists.
\<close>

theorem assign_thread_priority:
  "case assign_thread uc now m ts of
     Existing tid \<Rightarrow> \<exists>t \<in> set ts. tr_thread_id t = tid \<and> joins uc now m ts t
   | New \<Rightarrow> \<not> (\<exists>t \<in> set ts. joins uc now m ts t)"
proof (cases "\<exists>r. pe_in_reply_to m = Some r \<and> known_id ts r")
  case True
  then obtain r where r: "pe_in_reply_to m = Some r" "known_id ts r" by blast
  from assign_thread_reply_to [OF r] obtain t where
    "t \<in> set ts" "assign_thread uc now m ts = Existing (tr_thread_id t)" "r \<in> set (tr_message_ids t)"
    by blast
  moreover from this True r(1) have "joins uc now m ts t" by (simp add: joins_def)
  ultimately show ?thesis by auto
next
  case no_irt: False
  show ?thesis
  proof (cases "\<exists>r \<in> set (pe_references m). known_id ts r")
    case True
    then obtain r where r: "r \<in> set (pe_references m)" "known_id ts r" by blast
    from no_irt assign_thread_references [OF _ r] obtain t where
      "t \<in> set ts" "assign_thread uc now m ts = Existing (tr_thread_id t)"
      "\<exists>pre r post. pe_references m = pre @ r # post \<and> r \<in> set (tr_message_ids t) \<and>
        (\<forall>q \<in> set post. \<not> known_id ts q)"
      by blast
    moreover from this True no_irt have "joins uc now m ts t"
      unfolding joins_def by (simp only: if_True if_False)
    ultimately show ?thesis by auto
  next
    case False
    then have none: "match_references ts (rev (pe_references m)) = None"
      by (auto simp: match_references_known)
    have j: "joins uc now m ts t \<longleftrightarrow> subject_candidate uc now m t \<and>
        (\<forall>t' \<in> set ts. subject_candidate uc now m t' \<longrightarrow> tr_last_message_at t' \<le> tr_last_message_at t)" for t
      unfolding joins_def using no_irt False by (simp only: if_False)
    have a: "assign_thread uc now m ts = (case match_subject uc now (pe_subject m) ts of
        Some tid \<Rightarrow> Existing tid | None \<Rightarrow> New)"
      using assign_thread_no_reply_to [of m ts uc now] no_irt none by auto
    show ?thesis
    proof (cases "match_subject uc now (pe_subject m) ts")
      case None
      then have "\<forall>t \<in> set ts. \<not> subject_candidate uc now m t"
        by (simp add: match_subject_None)
      then show ?thesis using None a j by simp
    next
      case (Some tid)
      then show ?thesis using match_subject_Some [OF Some] a j by simp
    qed
  qed
qed

end
