(* ===== verification/Reply.thy ===== *)
theory Reply
  imports Threading
begin

text \<open>
  Reply and forward drafts, \<^verbatim>\<open>crates/postblox-mail/src/reply.rs\<close>.  Rendering a date is
  \<^verbatim>\<open>chrono\<close>'s, the parameter \<open>format_rfc2822\<close>; everything else is modelled as it stands.
\<close>

definition REFERENCES_MESSAGE_ID_CAP :: nat where
  "REFERENCES_MESSAGE_ID_CAP = 100"

record MessageView =
  mv_id :: uuid
  mv_from_addr :: rstr
  mv_reply_to :: "rstr option"
  mv_subject :: "rstr option"
  mv_message_id_header :: "rstr option"
  mv_references_header :: "rstr option"
  mv_to_addrs :: "rstr list"
  mv_cc_addrs :: "rstr list"
  mv_text_body :: "rstr option"
  mv_html_body :: "rstr option"
  mv_internal_date :: instant

record ReplyDraft =
  rd_to :: "rstr list"
  rd_cc :: "rstr list"
  rd_subject :: rstr
  rd_in_reply_to :: rstr
  rd_references :: rstr
  rd_quoted_body :: rstr

record ForwardAttachmentRef =
  fa_message_id :: uuid
  fa_attachment_id :: uuid
  fa_filename :: rstr
  fa_content_type :: rstr
  fa_size_bytes :: int

record ForwardDraft =
  fd_to :: "rstr list"
  fd_subject :: rstr
  fd_forwarded_body :: rstr
  fd_forwarded_attachments :: "ForwardAttachmentRef list"

subsection \<open>Subjects\<close>

definition has_re_prefix :: "rstr \<Rightarrow> bool" where
  "has_re_prefix subj =
     (case trim_start subj of
        c0 # c1 # c2 # _ \<Rightarrow> (c0 = 82 \<or> c0 = 114) \<and> (c1 = 69 \<or> c1 = 101) \<and> c2 = 58
      | _ \<Rightarrow> False)"

definition re_prefix :: "rstr \<Rightarrow> rstr" where
  "re_prefix subj = (if has_re_prefix subj then subj else lit ''Re: '' @ subj)"

definition has_fwd_prefix :: "unicode \<Rightarrow> rstr \<Rightarrow> bool" where
  "has_fwd_prefix uc subj =
     (let lower = concat (map (char_to_lowercase uc) (take 4 (trim_start subj)))
      in starts_with lower (lit ''fwd:'') \<or> starts_with lower (lit ''fw:''))"

definition fwd_prefix :: "unicode \<Rightarrow> rstr \<Rightarrow> rstr" where
  "fwd_prefix uc subj = (if has_fwd_prefix uc subj then subj else lit ''Fwd: '' @ subj)"

subsection \<open>Threading headers\<close>

definition angle_wrap :: "rstr \<Rightarrow> rstr" where
  "angle_wrap value =
     (let s = trim value in
      if starts_with s [60] \<and> ends_with s [62] then s else [60] @ s @ [62])"

definition reference_ids :: "rstr option \<Rightarrow> rstr option \<Rightarrow> rstr list" where
  "reference_ids existing message_id =
     (case existing of None \<Rightarrow> [] | Some s \<Rightarrow> filter (\<lambda>s. s \<noteq> []) (split_whitespace s)) @
     (case filter_option (\<lambda>s. s \<noteq> []) (map_option trim message_id) of
        None \<Rightarrow> [] | Some mid \<Rightarrow> [angle_wrap mid])"

definition truncate_references :: "rstr list \<Rightarrow> rstr list" where
  "truncate_references ids =
     (if length ids > REFERENCES_MESSAGE_ID_CAP
      then (let tail_start = length ids - (REFERENCES_MESSAGE_ID_CAP - 1)
            in (ids ! 0) # drop tail_start ids)
      else ids)"

definition build_references :: "rstr option \<Rightarrow> rstr option \<Rightarrow> rstr" where
  "build_references existing message_id =
     join [32] (truncate_references (reference_ids existing message_id))"

subsection \<open>Recipients\<close>

definition primary_reply_target :: "MessageView \<Rightarrow> rstr" where
  "primary_reply_target m =
     (case filter_option (\<lambda>s. s \<noteq> []) (map_option trim (mv_reply_to m)) of
        Some s \<Rightarrow> s
      | None \<Rightarrow> trim (mv_from_addr m))"

definition push_lower :: "rstr list \<Rightarrow> rstr \<Rightarrow> rstr list" where
  "push_lower seen addr =
     (let lower = to_ascii_lowercase (trim addr) in
      if lower \<noteq> [] \<and> lower \<notin> set seen then seen @ [lower] else seen)"

definition contains_lower :: "rstr list \<Rightarrow> rstr \<Rightarrow> bool" where
  "contains_lower seen addr \<longleftrightarrow> to_ascii_lowercase (trim addr) \<in> set seen"

text \<open>The carry-over loop; the state is the pair of \<^verbatim>\<open>seen_lower\<close> and \<^verbatim>\<open>cc\<close>.\<close>

fun collect_cc :: "rstr list \<Rightarrow> rstr list \<Rightarrow> rstr list \<Rightarrow> rstr list" where
  "collect_cc seen cc [] = cc"
| "collect_cc seen cc (addr # addrs) =
     (if trim addr \<noteq> [] \<and> \<not> contains_lower seen addr
      then collect_cc (seen @ [to_ascii_lowercase addr]) (cc @ [addr]) addrs
      else collect_cc seen cc addrs)"

definition reply_recipients :: "MessageView \<Rightarrow> rstr \<Rightarrow> bool \<Rightarrow> rstr list \<times> rstr list" where
  "reply_recipients m account_email reply_all =
     (let target = primary_reply_target m;
          to = (if target = [] then [] else [target])
      in if \<not> reply_all then (to, [])
         else
           (let seen = foldl push_lower [] (to @ [account_email]);
                cc = collect_cc seen [] (mv_to_addrs m @ mv_cc_addrs m)
            in if to = [] then
                 (case cc of [] \<Rightarrow> ([], []) | first # rest \<Rightarrow> ([first], rest))
               else (to, cc)))"

subsection \<open>Bodies\<close>

definition body_for_quote :: "MessageView \<Rightarrow> rstr" where
  "body_for_quote m =
     (case filter_option (\<lambda>s. s \<noteq> []) (mv_text_body m) of
        Some text \<Rightarrow> crlf_to_lf text
      | None \<Rightarrow>
          (if (case mv_html_body m of Some s \<Rightarrow> s \<noteq> [] | None \<Rightarrow> False)
           then lit ''[HTML body '' @ [8212] @ lit '' quoted text unavailable]''
           else []))"

text \<open>The loop over the lines; \<open>first\<close> is the flag of the source.\<close>

fun prefix_lines :: "bool \<Rightarrow> rstr \<Rightarrow> rstr list \<Rightarrow> rstr" where
  "prefix_lines first pre [] = []"
| "prefix_lines first pre (l # ls) =
     (if first then [] else [13, 10]) @ pre @ l @ prefix_lines False pre ls"

definition prefix_each_line :: "rstr \<Rightarrow> rstr \<Rightarrow> rstr" where
  "prefix_each_line text pre =
     (if text = [] then pre else prefix_lines True pre (split_char 10 text))"

definition quote_body :: "(instant \<Rightarrow> rstr) \<Rightarrow> MessageView \<Rightarrow> rstr" where
  "quote_body format_rfc2822 m =
     lit ''On '' @ format_rfc2822 (mv_internal_date m) @ lit '', '' @ mv_from_addr m @
     lit '' wrote:'' @ [13, 10] @ prefix_each_line (body_for_quote m) (lit ''> '')"

definition forward_body :: "(instant \<Rightarrow> rstr) \<Rightarrow> MessageView \<Rightarrow> rstr" where
  "forward_body format_rfc2822 m =
     lit ''---------- Forwarded message ----------'' @ [13, 10] @
     lit ''From: '' @ mv_from_addr m @ [13, 10] @
     lit ''Date: '' @ format_rfc2822 (mv_internal_date m) @ [13, 10] @
     lit ''Subject: '' @ unwrap_or [] (mv_subject m) @ [13, 10] @
     lit ''To: '' @ join (lit '', '') (mv_to_addrs m) @ [13, 10] @
     [13, 10] @
     body_for_quote m"

subsection \<open>Drafts\<close>

definition reply_draft :: "(instant \<Rightarrow> rstr) \<Rightarrow> MessageView \<Rightarrow> rstr \<Rightarrow> bool \<Rightarrow> ReplyDraft" where
  "reply_draft format_rfc2822 m account_email reply_all =
     \<lparr>rd_to = fst (reply_recipients m account_email reply_all),
      rd_cc = snd (reply_recipients m account_email reply_all),
      rd_subject = re_prefix (unwrap_or [] (mv_subject m)),
      rd_in_reply_to = unwrap_or [] (map_option angle_wrap (mv_message_id_header m)),
      rd_references = build_references (mv_references_header m) (mv_message_id_header m),
      rd_quoted_body = quote_body format_rfc2822 m\<rparr>"

definition forward_draft ::
  "unicode \<Rightarrow> (instant \<Rightarrow> rstr) \<Rightarrow> MessageView \<Rightarrow> (uuid \<times> rstr \<times> rstr \<times> int) list \<Rightarrow> ForwardDraft" where
  "forward_draft uc format_rfc2822 m atts =
     \<lparr>fd_to = [],
      fd_subject = fwd_prefix uc (unwrap_or [] (mv_subject m)),
      fd_forwarded_body = forward_body format_rfc2822 m,
      fd_forwarded_attachments =
        map (\<lambda>(aid, filename, content_type, size).
               \<lparr>fa_message_id = mv_id m, fa_attachment_id = aid, fa_filename = filename,
                fa_content_type = content_type, fa_size_bytes = size\<rparr>) atts\<rparr>"

subsection \<open>Recipient lists\<close>

text \<open>How two addresses are compared: without surrounding blanks, ASCII case folded.\<close>

definition same_addr :: "rstr \<Rightarrow> rstr \<Rightarrow> bool" where
  "same_addr a b \<longleftrightarrow> to_ascii_lowercase (trim a) = to_ascii_lowercase (trim b)"

lemma to_ascii_lowercase_Nil_iff [simp]: "to_ascii_lowercase s = [] \<longleftrightarrow> s = []"
  by (simp add: to_ascii_lowercase_def)

lemma collect_cc_acc: "collect_cc seen cc addrs = cc @ collect_cc seen [] addrs"
proof (induction addrs arbitrary: seen cc)
  case Nil
  show ?case by simp
next
  case (Cons a addrs)
  show ?case
    using Cons [of "seen @ [to_ascii_lowercase a]" "cc @ [a]"]
      Cons [of "seen @ [to_ascii_lowercase a]" "[a]"] Cons [of seen cc]
    by simp
qed

lemma collect_cc_Cons:
  "collect_cc seen [] (a # addrs) =
     (if trim a \<noteq> [] \<and> \<not> contains_lower seen a
      then a # collect_cc (seen @ [to_ascii_lowercase a]) [] addrs
      else collect_cc seen [] addrs)"
  using collect_cc_acc [of "seen @ [to_ascii_lowercase a]" "[a]" addrs] by simp

declare collect_cc.simps(2) [simp del]

lemma collect_cc_sound:
  assumes "a \<in> set (collect_cc seen [] addrs)"
  shows "a \<in> set addrs \<and> trim a \<noteq> [] \<and> to_ascii_lowercase (trim a) \<notin> set seen"
  using assms
proof (induction addrs arbitrary: seen)
  case Nil
  then show ?case by simp
next
  case (Cons b addrs)
  then show ?case
    unfolding collect_cc_Cons
    using Cons.IH [of "seen @ [to_ascii_lowercase b]"] Cons.IH [of seen]
    by (auto simp: contains_lower_def split: if_splits)
qed

lemma collect_cc_complete:
  assumes "a \<in> set addrs" "trim a \<noteq> []" "to_ascii_lowercase (trim a) \<notin> set seen"
  shows "\<exists>b \<in> set (collect_cc seen [] addrs). b = a \<or> to_ascii_lowercase b = to_ascii_lowercase (trim a)"
  using assms
proof (induction addrs arbitrary: seen)
  case Nil
  then show ?case by simp
next
  case (Cons b addrs)
  show ?case
  proof (cases "a = b")
    case True
    with Cons.prems show ?thesis by (simp add: collect_cc_Cons contains_lower_def)
  next
    case False
    with Cons.prems have a: "a \<in> set addrs" by simp
    show ?thesis
    proof (cases "trim b \<noteq> [] \<and> \<not> contains_lower seen b")
      case True
      show ?thesis
      proof (cases "to_ascii_lowercase (trim a) = to_ascii_lowercase b")
        case True
        with \<open>trim b \<noteq> [] \<and> \<not> contains_lower seen b\<close> show ?thesis
          by (simp add: collect_cc_Cons)
      next
        case False
        with Cons.IH [OF a, of "seen @ [to_ascii_lowercase b]"] Cons.prems True show ?thesis
          by (auto simp: collect_cc_Cons)
      qed
    next
      case False
      with Cons.IH [OF a] Cons.prems show ?thesis by (auto simp: collect_cc_Cons)
    qed
  qed
qed

lemma collect_cc_distinct:
  assumes "\<And>a. a \<in> set addrs \<Longrightarrow> trim a = a"
  shows "distinct (map to_ascii_lowercase (collect_cc seen [] addrs))"
  using assms
proof (induction addrs arbitrary: seen)
  case Nil
  then show ?case by simp
next
  case (Cons b addrs)
  have IH: "distinct (map to_ascii_lowercase (collect_cc s [] addrs))" for s
    using Cons by auto
  have "to_ascii_lowercase b \<notin> to_ascii_lowercase ` set (collect_cc (seen @ [to_ascii_lowercase b]) [] addrs)"
  proof
    assume "to_ascii_lowercase b \<in>
      to_ascii_lowercase ` set (collect_cc (seen @ [to_ascii_lowercase b]) [] addrs)"
    then obtain c where c: "c \<in> set (collect_cc (seen @ [to_ascii_lowercase b]) [] addrs)"
        "to_ascii_lowercase c = to_ascii_lowercase b" by auto
    with collect_cc_sound [OF c(1)] Cons.prems show False by force
  qed
  then show ?case using IH by (simp add: collect_cc_Cons)
qed

lemma push_lower_set:
  "set (push_lower seen a) =
     (if trim a = [] then set seen else insert (to_ascii_lowercase (trim a)) (set seen))"
  by (auto simp: push_lower_def Let_def)

lemma set_reply_seen:
  "set (foldl push_lower [] (to @ [email])) =
     {to_ascii_lowercase (trim a) | a. a \<in> set (to @ [email]) \<and> trim a \<noteq> []}"
proof -
  have "set (foldl push_lower seen xs) =
      set seen \<union> {to_ascii_lowercase (trim a) | a. a \<in> set xs \<and> trim a \<noteq> []}" for seen xs
    by (induction xs arbitrary: seen) (auto simp: push_lower_set)
  from this [of "[]" "to @ [email]"] show ?thesis by (simp del: foldl_append)
qed

lemma trim_to_ascii_lowercase: "trim (to_ascii_lowercase s) = to_ascii_lowercase (trim s)"
proof -
  have ws: "is_whitespace (ascii_lower c) = is_whitespace c" for c
    by (rule is_whitespace_ascii_lower [symmetric])
  have dw: "dropWhile is_whitespace (map ascii_lower t) = map ascii_lower (dropWhile is_whitespace t)"
    for t by (induction t) (auto simp: ws)
  show ?thesis
    by (simp add: trim_def trim_start_def trim_end_def to_ascii_lowercase_def dw rev_map)
qed

lemma to_ascii_lowercase_idem [simp]: "to_ascii_lowercase (to_ascii_lowercase s) = to_ascii_lowercase s"
  by (simp add: to_ascii_lowercase_def ascii_lower_def o_def)

lemma same_addrI: "to_ascii_lowercase b = to_ascii_lowercase (trim a) \<Longrightarrow> same_addr a b"
  by (metis same_addr_def trim_to_ascii_lowercase trim_idem)

lemma primary_reply_target_trimmed [simp]: "trim (primary_reply_target m) = primary_reply_target m"
  by (auto simp: primary_reply_target_def filter_option_Some_iff split: option.splits)

text \<open>The addresses excluded from the copy list.\<close>

abbreviation reply_seen :: "MessageView \<Rightarrow> rstr \<Rightarrow> rstr list" where
  "reply_seen m email \<equiv>
     foldl push_lower [] ((if primary_reply_target m = [] then [] else [primary_reply_target m]) @ [email])"

lemma set_reply_seen_cases:
  "set (reply_seen m email) =
     (if primary_reply_target m = [] then {} else {to_ascii_lowercase (primary_reply_target m)}) \<union>
     (if trim email = [] then {} else {to_ascii_lowercase (trim email)})"
  by (auto simp: push_lower_set)

lemma in_reply_seen_iff:
  assumes "trim a \<noteq> []"
  shows "to_ascii_lowercase (trim a) \<in> set (reply_seen m email) \<longleftrightarrow>
     same_addr a email \<or> same_addr a (primary_reply_target m)"
proof -
  have "to_ascii_lowercase (trim a) \<noteq> []" using assms by simp
  moreover have "to_ascii_lowercase [] = []" by simp
  ultimately show ?thesis
    unfolding set_reply_seen_cases same_addr_def primary_reply_target_trimmed
    by (auto simp del: to_ascii_lowercase_Nil_iff)
qed

text \<open>
  A reply-all draft never copies the responding account or the reply target (compared
  without surrounding blanks and ASCII case), and copies only recipients of the original.
\<close>

theorem reply_all_excludes_self_and_target:
  assumes "a \<in> set (rd_cc (reply_draft fmt m email reply_all))"
  shows "a \<in> set (mv_to_addrs m @ mv_cc_addrs m) \<and> \<not> same_addr a email \<and>
     \<not> same_addr a (primary_reply_target m)"
proof -
  from assms have "a \<in> set (collect_cc (reply_seen m email) [] (mv_to_addrs m @ mv_cc_addrs m))"
    by (auto simp: reply_draft_def reply_recipients_def Let_def split: if_splits list.splits)
  from collect_cc_sound [OF this] show ?thesis
    using in_reply_seen_iff [of a m email] by blast
qed

text \<open>
  A reply-all draft keeps every other recipient of the original: each non-blank address
  of To and Cc that is neither the responder nor the reply target is among the draft's
  recipients, up to surrounding blanks and ASCII case.
\<close>

theorem reply_all_keeps_recipients:
  assumes "a \<in> set (mv_to_addrs m @ mv_cc_addrs m)" and "trim a \<noteq> []"
    and "\<not> same_addr a email" and "\<not> same_addr a (primary_reply_target m)"
  shows "\<exists>b \<in> set (rd_to (reply_draft fmt m email True) @ rd_cc (reply_draft fmt m email True)).
     same_addr a b"
proof -
  let ?cc = "collect_cc (reply_seen m email) [] (mv_to_addrs m @ mv_cc_addrs m)"
  have "to_ascii_lowercase (trim a) \<notin> set (reply_seen m email)"
    using in_reply_seen_iff [OF assms(2)] assms(3,4) by blast
  from collect_cc_complete [OF assms(1,2) this] obtain b where b: "b \<in> set ?cc"
      "b = a \<or> to_ascii_lowercase b = to_ascii_lowercase (trim a)"
    by blast
  from b(2) have "same_addr a b"
    by (elim disjE) (simp add: same_addr_def, rule same_addrI)
  moreover have "set ?cc \<subseteq> set (rd_to (reply_draft fmt m email True) @ rd_cc (reply_draft fmt m email True))"
    by (cases "primary_reply_target m = []")
       (auto simp: reply_draft_def reply_recipients_def Let_def split: list.splits)
  ultimately show ?thesis using b(1) by blast
qed

text \<open>
  When the stored addresses carry no surrounding blanks, the copy list has no duplicates
  up to ASCII case.
\<close>

theorem reply_all_cc_distinct:
  assumes "\<forall>a \<in> set (mv_to_addrs m @ mv_cc_addrs m). trim a = a"
  shows "distinct (map to_ascii_lowercase (rd_cc (reply_draft fmt m email reply_all)))"
proof -
  have "distinct (map to_ascii_lowercase
      (collect_cc (reply_seen m email) [] (mv_to_addrs m @ mv_cc_addrs m)))"
    by (rule collect_cc_distinct) (use assms in blast)
  then show ?thesis
    by (auto simp: reply_draft_def reply_recipients_def Let_def split: if_splits list.splits)
qed

definition sample_view :: MessageView where
  "sample_view =
     \<lparr>mv_id = 1, mv_from_addr = lit ''eve@x.com'', mv_reply_to = None,
      mv_subject = Some (lit ''Hi''), mv_message_id_header = Some (lit ''m1@x.com''),
      mv_references_header = Some (lit ''<r@x.com>''),
      mv_to_addrs = [lit ''me@x.com'', lit ''bob@x.com''], mv_cc_addrs = [lit ''BOB@x.com''],
      mv_text_body = Some (lit ''hello''), mv_html_body = None, mv_internal_date = 0\<rparr>"

definition padded_view :: MessageView where
  "padded_view = sample_view \<lparr>mv_to_addrs := [lit '' bob@x.com''], mv_cc_addrs := [lit ''bob@x.com'']\<rparr>"

lemmas reply_eval = sample_view_def padded_view_def reply_draft_def reply_recipients_def
  primary_reply_target_def push_lower_def contains_lower_def to_ascii_lowercase_def ascii_lower_def
  trim_def trim_start_def trim_end_def is_whitespace_def lit_def same_addr_def collect_cc_Cons

text \<open>
  The deduplication misses an address that differs from an earlier one only by
  surrounding blanks: the loop records the untrimmed lower-cased address but looks up the
  trimmed one, so both spellings are copied.
\<close>

lemma reply_all_padded_duplicate:
  "rd_cc (reply_draft fmt padded_view (lit ''me@x.com'') True) = [lit '' bob@x.com'', lit ''bob@x.com''] \<and>
   same_addr (lit '' bob@x.com'') (lit ''bob@x.com'')"
  by (simp add: reply_eval)

theorem reply_all_excludes_self_and_target_witness:
  "lit ''bob@x.com'' \<in> set (rd_cc (reply_draft (\<lambda>_. []) sample_view (lit ''me@x.com'') True)) \<and>
   \<not> same_addr (lit ''bob@x.com'') (lit ''me@x.com'')"
proof -
  have "lit ''bob@x.com'' \<in> set (rd_cc (reply_draft (\<lambda>_. []) sample_view (lit ''me@x.com'') True))"
    by (simp add: reply_eval)
  with reply_all_excludes_self_and_target [OF this] show ?thesis by blast
qed

theorem reply_all_keeps_recipients_witness:
  "\<exists>b \<in> set (rd_to (reply_draft (\<lambda>_. []) sample_view (lit ''me@x.com'') True) @
             rd_cc (reply_draft (\<lambda>_. []) sample_view (lit ''me@x.com'') True)).
     same_addr (lit ''BOB@x.com'') b"
  by (rule reply_all_keeps_recipients) (simp_all add: reply_eval)

theorem reply_all_cc_distinct_witness:
  "distinct (map to_ascii_lowercase (rd_cc (reply_draft (\<lambda>_. []) sample_view (lit ''me@x.com'') True)))"
  by (rule reply_all_cc_distinct) (simp add: reply_eval)

subsection \<open>Threading headers\<close>

lemma truncate_references_length: "length (truncate_references ids) \<le> REFERENCES_MESSAGE_ID_CAP"
  by (auto simp: truncate_references_def REFERENCES_MESSAGE_ID_CAP_def)

lemma truncate_references_subset: "set (truncate_references ids) \<subseteq> set ids"
  by (auto simp: truncate_references_def Let_def dest: in_set_dropD intro: nth_mem)

definition word :: "rstr \<Rightarrow> bool" where
  "word s \<longleftrightarrow> s \<noteq> [] \<and> (\<forall>c \<in> set s. \<not> is_whitespace c)"

lemma angle_wrap_word:
  assumes "\<forall>c \<in> set (trim s). \<not> is_whitespace c"
  shows "word (angle_wrap s)"
proof -
  have "starts_with (trim s) [60] \<Longrightarrow> trim s \<noteq> []"
    by (auto simp: starts_with_def)
  then show ?thesis using assms by (auto simp: word_def angle_wrap_def Let_def)
qed

lemma reference_ids_words:
  assumes "\<And>mid. message_id = Some mid \<Longrightarrow> \<forall>c \<in> set (trim mid). \<not> is_whitespace c"
    and "p \<in> set (reference_ids existing message_id)"
  shows "word p"
proof -
  have "p \<in> set (split_whitespace s) \<Longrightarrow> word p" for s
    using split_whitespace_props [of p s] by (auto simp: word_def)
  moreover have "word (angle_wrap (trim mid))" if "message_id = Some mid" for mid
    using assms(1) [OF that] by (intro angle_wrap_word) simp
  ultimately show ?thesis
    using assms(2)
    by (cases message_id) (auto simp: reference_ids_def split: option.splits if_splits)
qed

text \<open>
  The References header of a reply, read back word by word, has at most 100 ids: all of
  them when they fit, otherwise the root followed by the 99 most recent ones; the id of the
  message replied to is the last.
\<close>

theorem build_references_bounded:
  assumes "\<And>mid. message_id = Some mid \<Longrightarrow> \<forall>c \<in> set (trim mid). \<not> is_whitespace c"
  shows "split_whitespace (build_references existing message_id) =
           truncate_references (reference_ids existing message_id) \<and>
         length (truncate_references (reference_ids existing message_id)) \<le> 100 \<and>
         (\<forall>mid. message_id = Some mid \<and> trim mid \<noteq> [] \<longrightarrow>
            last (truncate_references (reference_ids existing message_id)) = angle_wrap (trim mid))"
proof (intro conjI allI impI)
  have "word p" if "p \<in> set (truncate_references (reference_ids existing message_id))" for p
    using that reference_ids_words [of message_id p existing] assms truncate_references_subset
    by blast
  then show "split_whitespace (build_references existing message_id) =
           truncate_references (reference_ids existing message_id)"
    unfolding build_references_def by (intro split_whitespace_join) (auto simp: word_def)
  show "length (truncate_references (reference_ids existing message_id)) \<le> 100"
    using truncate_references_length by (simp add: REFERENCES_MESSAGE_ID_CAP_def)
next
  fix mid
  assume "message_id = Some mid \<and> trim mid \<noteq> []"
  then have "reference_ids existing message_id \<noteq> []"
      "last (reference_ids existing message_id) = angle_wrap (trim mid)"
    by (auto simp: reference_ids_def)
  then show "last (truncate_references (reference_ids existing message_id)) = angle_wrap (trim mid)"
    by (auto simp: truncate_references_def REFERENCES_MESSAGE_ID_CAP_def Let_def)
qed

text \<open>Wrapping a clean id and reading it back with the parser's stripping is the identity.\<close>

lemma angle_wrap_clean:
  assumes "clean_id s"
  shows "angle_wrap s = 60 # s @ [62]"
proof -
  have "trim s = s" using assms trim_id [of s] by (auto simp: clean_id_def)
  moreover have "\<not> starts_with s [60]"
    using assms by (cases s) (auto simp: starts_with_def clean_id_def)
  ultimately show ?thesis by (simp add: angle_wrap_def)
qed

lemma strip_angles_angle_wrap: "clean_id s \<Longrightarrow> strip_angles (angle_wrap s) = s"
  by (simp add: angle_wrap_clean strip_angles_wrapped)

lemma angle_wrap_idem: "angle_wrap (angle_wrap s) = angle_wrap s"
proof -
  have w: "trim (angle_wrap s) = angle_wrap s"
    by (auto simp: angle_wrap_def Let_def intro!: trim_id)
  have "starts_with (angle_wrap s) [60]" "ends_with (angle_wrap s) [62]"
    by (auto simp: angle_wrap_def Let_def starts_with_def ends_with_def suffix_def)
  then show ?thesis by (simp add: angle_wrap_def [of "angle_wrap s"] w)
qed


subsection \<open>Subjects\<close>

lemma has_re_prefix_re: "has_re_prefix (lit ''Re: '' @ s)"
  by (simp add: has_re_prefix_def lit_def trim_start_def is_whitespace_def)

text \<open>
  The reply subject is stable: replying again does not add a second prefix, and the
  prefix never changes what the threading fallback compares.
\<close>

theorem re_prefix_stable:
  "re_prefix (re_prefix s) = re_prefix s \<and>
   strip_prefixes (trim (re_prefix s)) = strip_prefixes (trim s)"
proof
  show "re_prefix (re_prefix s) = re_prefix s"
    by (simp add: re_prefix_def has_re_prefix_re)
  have m: "reply_marker (lit ''Re:'')"
    by (simp add: reply_marker_def eq_ignore_ascii_case_def to_ascii_lowercase_def lit_def
        ascii_lower_def)
  have "lit ''Re: '' @ s = lit ''Re:'' @ (32 # s)"
    by (simp add: lit_def)
  moreover have "trim (32 # s) = trim s"
    by (simp add: trim_def trim_start_def is_whitespace_def)
  ultimately have "strip_prefixes (trim (lit ''Re: '' @ s)) = strip_prefixes (trim s)"
    using strip_prefixes_marker [OF m, of "32 # s"] by simp
  then show "strip_prefixes (trim (re_prefix s)) = strip_prefixes (trim s)"
    by (simp add: re_prefix_def)
qed

theorem build_references_bounded_witness:
  "split_whitespace (build_references (Some (lit ''<r@x> <s@x>'')) (Some (lit ''m@x''))) =
     [lit ''<r@x>'', lit ''<s@x>'', lit ''<m@x>''] \<and>
   last (truncate_references (reference_ids (Some (lit ''<r@x> <s@x>'')) (Some (lit ''m@x'')))) =
     angle_wrap (trim (lit ''m@x''))"
proof -
  have h: "Some (lit ''m@x'') = Some mid \<Longrightarrow> \<forall>c \<in> set (trim mid). \<not> is_whitespace c" for mid
    by (auto simp: lit_def trim_def trim_start_def trim_end_def is_whitespace_def)
  have "truncate_references (reference_ids (Some (lit ''<r@x> <s@x>'')) (Some (lit ''m@x''))) =
      [lit ''<r@x>'', lit ''<s@x>'', lit ''<m@x>'']"
    by (simp add: truncate_references_def REFERENCES_MESSAGE_ID_CAP_def reference_ids_def
        split_whitespace_def angle_wrap_def lit_def trim_def trim_start_def trim_end_def
        is_whitespace_def starts_with_def)
  moreover have "trim (lit ''m@x'') \<noteq> []"
    by (simp add: lit_def trim_def trim_start_def trim_end_def is_whitespace_def)
  ultimately show ?thesis
    using build_references_bounded [of "Some (lit ''m@x'')" "Some (lit ''<r@x> <s@x>'')", OF h]
    by simp
qed

definition sample_thread :: ThreadRef where
  "sample_thread = \<lparr>tr_thread_id = 7, tr_message_ids = [lit ''m1@x.com''], tr_subject = [],
     tr_last_message_at = 0\<rparr>"

definition sample_reply :: ParsedEmail where
  "sample_reply = \<lparr>pe_message_id = None, pe_in_reply_to = Some (lit ''m1@x.com''),
     pe_references = [], pe_from = [], pe_to = [], pe_cc = [], pe_subject = None,
     pe_text_body = None, pe_html_body = None, pe_raw_headers = JNull, pe_attachments = []\<rparr>"


end
