(* ===== verification/ReplyExtract.thy ===== *)
theory ReplyExtract
  imports Reply
begin

text \<open>
  Stripping quoted history from a reply body,
  \<^verbatim>\<open>crates/postblox-mail/src/reply_extract.rs\<close>, and its relation to the quote block that
  \<^verbatim>\<open>reply.rs\<close> generates.
\<close>

definition is_signature_separator :: "rstr \<Rightarrow> bool" where
  "is_signature_separator trimmed \<longleftrightarrow> trimmed = lit ''--'' \<or> trimmed = [8212]"

definition is_wrote_marker :: "rstr \<Rightarrow> bool" where
  "is_wrote_marker trimmed \<longleftrightarrow>
     starts_with trimmed (lit ''On '') \<and> ends_with trimmed (lit ''wrote:'')"

definition is_multiline_wrote_marker :: "rstr list \<Rightarrow> nat \<Rightarrow> bool" where
  "is_multiline_wrote_marker lines i \<longleftrightarrow>
     starts_with (trim (lines ! i)) (lit ''On '') \<and>
     (let block = take (min (i + 4) (length lines) - i) (drop i lines) in
        (\<exists>l \<in> set block. ends_with (trim l) (lit ''wrote:'')) \<and>
        (\<exists>l \<in> set block. 64 \<in> set l))"

definition is_outlook_header_block :: "rstr list \<Rightarrow> nat \<Rightarrow> bool" where
  "is_outlook_header_block lines i \<longleftrightarrow>
     i + 3 < length lines \<and>
     starts_with (trim (lines ! i)) (lit ''From:'') \<and>
     starts_with (trim (lines ! (i + 1))) (lit ''Sent:'') \<and>
     starts_with (trim (lines ! (i + 2))) (lit ''To:'') \<and>
     starts_with (trim (lines ! (i + 3))) (lit ''Subject:'')"

definition is_quote_line :: "rstr \<Rightarrow> bool" where
  "is_quote_line line \<longleftrightarrow> starts_with (trim_start line) [62]"

text \<open>One iteration of the scan: does line \<open>i\<close> start the quoted part?\<close>

definition is_cutoff :: "rstr list \<Rightarrow> nat \<Rightarrow> bool" where
  "is_cutoff lines i \<longleftrightarrow>
     is_signature_separator (trim (lines ! i)) \<or>
     is_wrote_marker (trim (lines ! i)) \<or> is_multiline_wrote_marker lines i \<or>
     is_outlook_header_block lines i"

definition find_cutoff :: "rstr list \<Rightarrow> nat" where
  "find_cutoff lines =
     (case find (is_cutoff lines) [0..<length lines] of Some i \<Rightarrow> i | None \<Rightarrow> length lines)"

definition extract_reply :: "rstr \<Rightarrow> rstr" where
  "extract_reply text =
     (let lines = split_char 10 (crlf_to_lf text);
          kept = filter (\<lambda>l. \<not> is_quote_line l) (take (find_cutoff lines) lines)
      in trim (join [10] kept))"

subsection \<open>The cutoff is the first marker line\<close>

lemma find_cutoff_spec:
  "find_cutoff lines \<le> length lines \<and>
   (find_cutoff lines < length lines \<longrightarrow> is_cutoff lines (find_cutoff lines)) \<and>
   (\<forall>j < find_cutoff lines. \<not> is_cutoff lines j)"
proof (cases "find (is_cutoff lines) [0..<length lines]")
  case None
  then have "\<forall>j < length lines. \<not> is_cutoff lines j" by (auto simp: find_None_iff)
  then show ?thesis using None by (simp add: find_cutoff_def)
next
  case (Some i)
  from Some [unfolded find_Some_iff] have "i < length lines \<and> is_cutoff lines i \<and>
      (\<forall>j < i. \<not> is_cutoff lines j)"
    by auto
  then show ?thesis using Some by (simp add: find_cutoff_def)
qed

lemma find_cutoff_le: "find_cutoff lines \<le> length lines"
  using find_cutoff_spec by blast

lemma find_cutoff_first: "i < find_cutoff lines \<Longrightarrow> \<not> is_cutoff lines i"
  using find_cutoff_spec by blast

lemma find_cutoff_eqI:
  assumes "k < length lines" "is_cutoff lines k" "\<And>i. i < k \<Longrightarrow> \<not> is_cutoff lines i"
  shows "find_cutoff lines = k"
  using find_cutoff_spec [of lines] assms by (metis le_less_trans linorder_neqE_nat nat_less_le)

text \<open>
  Nothing quoted survives extraction.  The extracted text is the blank-trimmed join of
  the lines before the first cutoff line, none of which starts with a quote mark, is a
  signature separator or an attribution line, and the rest is dropped.
\<close>

theorem extract_reply_keeps_only_new_text:
  "\<exists>kept k. extract_reply text = trim (join [10] kept) \<and>
     k \<le> length (split_char 10 (crlf_to_lf text)) \<and>
     (k < length (split_char 10 (crlf_to_lf text)) \<longrightarrow> is_cutoff (split_char 10 (crlf_to_lf text)) k) \<and>
     kept = filter (\<lambda>l. \<not> is_quote_line l) (take k (split_char 10 (crlf_to_lf text))) \<and>
     (\<forall>l \<in> set kept. \<not> is_quote_line l \<and> \<not> is_signature_separator (trim l) \<and> \<not> is_wrote_marker (trim l))"
proof -
  let ?ls = "split_char 10 (crlf_to_lf text)"
  let ?k = "find_cutoff ?ls"
  let ?kept = "filter (\<lambda>l. \<not> is_quote_line l) (take ?k ?ls)"
  have "?k < length ?ls \<longrightarrow> is_cutoff ?ls ?k"
    using find_cutoff_spec by blast
  moreover have "\<not> is_signature_separator (trim l) \<and> \<not> is_wrote_marker (trim l)"
    if "l \<in> set (take ?k ?ls)" for l
  proof -
    from that obtain i where "i < ?k" "l = ?ls ! i"
      using find_cutoff_le [of ?ls] by (auto simp: in_set_conv_nth)
    then show ?thesis using find_cutoff_first [of i ?ls] by (auto simp: is_cutoff_def)
  qed
  ultimately show ?thesis
    by (intro exI [of _ ?kept] exI [of _ ?k])
       (auto simp: extract_reply_def Let_def find_cutoff_le)
qed

subsection \<open>Extraction undoes quoting\<close>

lemma crlf_to_lf_append: "13 \<notin> set a \<Longrightarrow> crlf_to_lf (a @ b) = a @ crlf_to_lf b"
proof (induction a)
  case Nil
  show ?case by simp
next
  case (Cons x a)
  then show ?case by (cases "a @ b") auto
qed

text \<open>A line of new text: it cannot be taken for the start of the quoted part.\<close>

definition plain_line :: "rstr \<Rightarrow> bool" where
  "plain_line l \<longleftrightarrow> \<not> starts_with (trim l) (lit ''On '') \<and> \<not> starts_with (trim l) (lit ''From:'') \<and>
     \<not> is_signature_separator (trim l)"

lemma plain_line_no_cutoff: "plain_line (lines ! i) \<Longrightarrow> \<not> is_cutoff lines i"
  by (auto simp: plain_line_def is_cutoff_def is_wrote_marker_def is_multiline_wrote_marker_def
      is_outlook_header_block_def)

lemma attribution_marker:
  "is_wrote_marker (trim (lit ''On '' @ d @ lit '', '' @ f @ lit '' wrote:''))"
proof -
  let ?a = "lit ''On '' @ d @ lit '', '' @ f @ lit '' wrote:''"
  have "hd ?a = 79" "last ?a = 58" by (simp_all add: lit_def)
  moreover have "\<not> is_whitespace 79" "\<not> is_whitespace 58" by (simp_all add: is_whitespace_def)
  ultimately have "trim ?a = ?a" by (intro trim_id) simp
  moreover have "prefix (lit ''On '') ?a" by simp
  moreover have "?a = (lit ''On '' @ d @ lit '', '' @ f @ [32]) @ lit ''wrote:''"
    by (simp add: lit_def)
  then have "suffix (lit ''wrote:'') ?a" unfolding suffix_def by blast
  ultimately show ?thesis by (simp add: is_wrote_marker_def starts_with_def ends_with_def)
qed

text \<open>
  Extraction inverts quoting.  Appending the generated quote block of any message to a
  reply text and extracting the reply gives what extracting the text alone gives, provided
  the text has no line that itself looks like the start of a quote, and the date and sender
  of the attribution have no line breaks.
\<close>

theorem extract_reply_drops_quote_block:
  assumes "13 \<notin> set u" and "\<forall>l \<in> set (split_char 10 u). plain_line l"
    and "13 \<notin> set (fmt (mv_internal_date m) @ mv_from_addr m)"
    and "10 \<notin> set (fmt (mv_internal_date m) @ mv_from_addr m)"
  shows "extract_reply (u @ [10] @ quote_body fmt m) = extract_reply u"
proof -
  let ?att = "lit ''On '' @ fmt (mv_internal_date m) @ lit '', '' @ mv_from_addr m @ lit '' wrote:''"
  let ?q = "crlf_to_lf (prefix_each_line (body_for_quote m) (lit ''> ''))"
  let ?ul = "split_char 10 u"
  have a: "13 \<notin> set ?att" "10 \<notin> set ?att"
    using assms(3,4) by (auto simp: lit_def)
  have e: "u @ [10] @ quote_body fmt m =
      (u @ [10] @ ?att) @ 13 # 10 # prefix_each_line (body_for_quote m) (lit ''> '')"
    by (simp add: quote_body_def)
  have "13 \<notin> set (u @ [10] @ ?att)" using assms(1) a(1) by simp
  from crlf_to_lf_append [OF this]
  have "crlf_to_lf (u @ [10] @ quote_body fmt m) = u @ 10 # ?att @ 10 # ?q"
    unfolding e by simp
  then have lines: "split_char 10 (crlf_to_lf (u @ [10] @ quote_body fmt m)) =
      ?ul @ ?att # split_char 10 ?q"
    using split_char_append [of 10 u "?att @ 10 # ?q"] split_char_append [of 10 ?att ?q]
      split_char_plain [OF a(2)] by simp
  have "find_cutoff (?ul @ ?att # split_char 10 ?q) = length ?ul"
  proof (rule find_cutoff_eqI)
    show "is_cutoff (?ul @ ?att # split_char 10 ?q) (length ?ul)"
      using attribution_marker by (simp add: is_cutoff_def)
    fix i assume "i < length ?ul"
    then have "plain_line ((?ul @ ?att # split_char 10 ?q) ! i)"
      using assms(2) by (simp add: nth_append)
    then show "\<not> is_cutoff (?ul @ ?att # split_char 10 ?q) i" by (rule plain_line_no_cutoff)
  qed simp
  moreover have "crlf_to_lf u = u" using crlf_to_lf_append [OF assms(1), of "[]"] by simp
  moreover have "find_cutoff ?ul = length ?ul"
    using find_cutoff_spec [of ?ul] assms(2) plain_line_no_cutoff
    by (metis le_neq_implies_less nth_mem)
  ultimately show ?thesis by (simp add: extract_reply_def lines del: append_Cons)
qed

theorem extract_reply_drops_quote_block_witness:
  "extract_reply (lit ''Sounds good.'' @ [10] @ quote_body (\<lambda>_. lit ''Mon'') sample_view) =
   extract_reply (lit ''Sounds good.'')"
proof (rule extract_reply_drops_quote_block)
  show "\<forall>l \<in> set (split_char 10 (lit ''Sounds good.'')). plain_line l"
    by (simp add: lit_def plain_line_def starts_with_def trim_def trim_start_def trim_end_def
        is_whitespace_def is_signature_separator_def)
qed (simp_all add: lit_def sample_view_def)

end
