(* ===== verification/MimeBuilder.thy ===== *)
theory MimeBuilder
  imports Prelude
begin

text \<open>
  MIME assembly of outgoing messages, \<^verbatim>\<open>crates/postblox-mail/src/builder.rs\<close>.  The
  environment supplies the rendered current date, the two fresh boundary ids
  (\<^verbatim>\<open>Uuid::new_v4().simple()\<close>) and the base64 encoder of the \<^verbatim>\<open>base64\<close> package, gathered in
  the record \<open>mime_env\<close>.
\<close>

record mime_env =
  env_date :: rstr
  env_mixed_id :: rstr
  env_body_id :: rstr
  env_base64 :: "byte list \<Rightarrow> rstr"

record MimeAttachment =
  ma_filename :: rstr
  ma_content_type :: rstr
  ma_data :: "byte list"
  ma_content_id :: "rstr option"

record ReplyHeaders =
  rh_in_reply_to :: "rstr option"
  rh_references :: "rstr option"

record MimeBuildOptions =
  mo_from :: rstr
  mo_to :: "rstr list"
  mo_cc :: "rstr list"
  mo_subject :: rstr
  mo_text_body :: "rstr option"
  mo_html_body :: "rstr option"
  mo_message_id :: rstr
  mo_attachments :: "MimeAttachment list"
  mo_reply :: ReplyHeaders

definition crlf :: rstr where
  "crlf = [13, 10]"

definition sanitize_header :: "rstr \<Rightarrow> rstr" where
  "sanitize_header value = filter (\<lambda>c. c \<noteq> 13 \<and> c \<noteq> 10) value"

definition build_body_only :: "mime_env \<Rightarrow> rstr option \<Rightarrow> rstr option \<Rightarrow> rstr" where
  "build_body_only env text_body html_body =
     (case (text_body, html_body) of
        (Some text, Some html) \<Rightarrow>
          (let boundary = lit ''postblox-'' @ env_body_id env in
           lit ''Content-Type: multipart/alternative; boundary='' @ [34] @ boundary @ [34] @ crlf @
           crlf @
           lit ''--'' @ boundary @ crlf @
           lit ''Content-Type: text/plain; charset=utf-8'' @ crlf @ crlf @
           text @
           crlf @ lit ''--'' @ boundary @ crlf @
           lit ''Content-Type: text/html; charset=utf-8'' @ crlf @ crlf @
           html @
           crlf @ lit ''--'' @ boundary @ lit ''--'' @ crlf)
      | (Some text, None) \<Rightarrow> lit ''Content-Type: text/plain; charset=utf-8'' @ crlf @ crlf @ text
      | (None, Some html) \<Rightarrow> lit ''Content-Type: text/html; charset=utf-8'' @ crlf @ crlf @ html
      | (None, None) \<Rightarrow> lit ''Content-Type: text/plain; charset=utf-8'' @ crlf @ crlf)"

text \<open>The line-wrapping loop over the encoded attachment.\<close>

function wrap_base64 :: "rstr \<Rightarrow> rstr list" where
  "wrap_base64 rest =
     (if rest = [] then []
      else (let split = min (length rest) 76
            in take split rest # wrap_base64 (drop split rest)))"
  by pat_completeness auto

termination
  by (relation "measure length") auto

declare wrap_base64.simps [simp del]

definition attachment_part :: "mime_env \<Rightarrow> rstr \<Rightarrow> MimeAttachment \<Rightarrow> rstr" where
  "attachment_part env mixed_boundary att =
     crlf @ lit ''--'' @ mixed_boundary @ crlf @
     lit ''Content-Type: '' @ sanitize_header (ma_content_type att) @ lit ''; name='' @ [34] @
       sanitize_header (ma_filename att) @ [34] @ crlf @
     lit ''Content-Transfer-Encoding: base64'' @ crlf @
     (case ma_content_id att of
        Some cid \<Rightarrow>
          lit ''Content-ID: <'' @ sanitize_header cid @ lit ''>'' @ crlf @
          lit ''Content-Disposition: inline; filename='' @ [34] @
            sanitize_header (ma_filename att) @ [34] @ crlf
      | None \<Rightarrow>
          lit ''Content-Disposition: attachment; filename='' @ [34] @
            sanitize_header (ma_filename att) @ [34] @ crlf) @
     crlf @
     concat (map (\<lambda>line. line @ crlf) (wrap_base64 (env_base64 env (ma_data att))))"

definition build_mime_full :: "mime_env \<Rightarrow> MimeBuildOptions \<Rightarrow> rstr" where
  "build_mime_full env options =
     lit ''From: '' @ sanitize_header (mo_from options) @ crlf @
     lit ''To: '' @ sanitize_header (join (lit '', '') (mo_to options)) @ crlf @
     (if mo_cc options = [] then []
      else lit ''Cc: '' @ sanitize_header (join (lit '', '') (mo_cc options)) @ crlf) @
     lit ''Subject: '' @ sanitize_header (mo_subject options) @ crlf @
     lit ''Message-ID: '' @ sanitize_header (mo_message_id options) @ crlf @
     (case filter_option (\<lambda>s. s \<noteq> []) (rh_in_reply_to (mo_reply options)) of
        None \<Rightarrow> []
      | Some value \<Rightarrow> lit ''In-Reply-To: '' @ sanitize_header value @ crlf) @
     (case filter_option (\<lambda>s. s \<noteq> []) (rh_references (mo_reply options)) of
        None \<Rightarrow> []
      | Some value \<Rightarrow> lit ''References: '' @ sanitize_header value @ crlf) @
     lit ''Date: '' @ env_date env @ crlf @
     lit ''MIME-Version: 1.0'' @ crlf @
     (if mo_attachments options = []
      then build_body_only env (mo_text_body options) (mo_html_body options)
      else
        (let mixed_boundary = lit ''postblox-mixed-'' @ env_mixed_id env in
         lit ''Content-Type: multipart/mixed; boundary='' @ [34] @ mixed_boundary @ [34] @ crlf @
         crlf @
         lit ''--'' @ mixed_boundary @ crlf @
         build_body_only env (mo_text_body options) (mo_html_body options) @
         concat (map (attachment_part env mixed_boundary) (mo_attachments options)) @
         lit ''--'' @ mixed_boundary @ lit ''--'' @ crlf))"

definition build_mime ::
  "mime_env \<Rightarrow> rstr \<Rightarrow> rstr list \<Rightarrow> rstr list \<Rightarrow> rstr \<Rightarrow> rstr option \<Rightarrow> rstr option \<Rightarrow> rstr \<Rightarrow> rstr" where
  "build_mime env from to cc subject text_body html_body message_id =
     build_mime_full env
       \<lparr>mo_from = from, mo_to = to, mo_cc = cc, mo_subject = subject, mo_text_body = text_body,
        mo_html_body = html_body, mo_message_id = message_id, mo_attachments = [],
        mo_reply = \<lparr>rh_in_reply_to = None, rh_references = None\<rparr>\<rparr>"

subsection \<open>No header injection\<close>

text \<open>A header value that stays on its line.\<close>

definition one_line :: "rstr \<Rightarrow> bool" where
  "one_line v \<longleftrightarrow> 13 \<notin> set v \<and> 10 \<notin> set v"

lemma one_line_sanitize [simp]: "one_line (sanitize_header v)"
  by (simp add: one_line_def sanitize_header_def)

lemma sanitize_header_id: "one_line v \<Longrightarrow> sanitize_header v = v"
  by (auto simp: sanitize_header_def one_line_def filter_id_conv)

text \<open>The header section the message is meant to have: names fixed by which options are set.\<close>

definition mime_headers :: "mime_env \<Rightarrow> MimeBuildOptions \<Rightarrow> (rstr \<times> rstr) list" where
  "mime_headers env o' =
     [(lit ''From'', sanitize_header (mo_from o')),
      (lit ''To'', sanitize_header (join (lit '', '') (mo_to o')))] @
     (if mo_cc o' = [] then [] else [(lit ''Cc'', sanitize_header (join (lit '', '') (mo_cc o')))]) @
     [(lit ''Subject'', sanitize_header (mo_subject o')),
      (lit ''Message-ID'', sanitize_header (mo_message_id o'))] @
     (case filter_option (\<lambda>s. s \<noteq> []) (rh_in_reply_to (mo_reply o')) of
        None \<Rightarrow> [] | Some v \<Rightarrow> [(lit ''In-Reply-To'', sanitize_header v)]) @
     (case filter_option (\<lambda>s. s \<noteq> []) (rh_references (mo_reply o')) of
        None \<Rightarrow> [] | Some v \<Rightarrow> [(lit ''References'', sanitize_header v)]) @
     [(lit ''Date'', env_date env), (lit ''MIME-Version'', lit ''1.0'')]"

definition render_header :: "rstr \<times> rstr \<Rightarrow> rstr" where
  "render_header h = fst h @ lit '': '' @ snd h @ crlf"

lemma mime_headers_one_line:
  assumes "one_line (env_date env)" and "h \<in> set (mime_headers env o')"
  shows "one_line (fst h) \<and> one_line (snd h)"
  using assms
  by (auto simp: mime_headers_def split: option.splits if_splits) (simp_all add: one_line_def lit_def)

lemma build_mime_full_headers:
  "\<exists>body. build_mime_full env o' = concat (map render_header (mime_headers env o')) @ body \<and>
     starts_with body (lit ''Content-Type: '')"
proof -
  let ?body = "(if mo_attachments o' = []
      then build_body_only env (mo_text_body o') (mo_html_body o')
      else
        (let mixed_boundary = lit ''postblox-mixed-'' @ env_mixed_id env in
         lit ''Content-Type: multipart/mixed; boundary='' @ [34] @ mixed_boundary @ [34] @ crlf @
         crlf @
         lit ''--'' @ mixed_boundary @ crlf @
         build_body_only env (mo_text_body o') (mo_html_body o') @
         concat (map (attachment_part env mixed_boundary) (mo_attachments o')) @
         lit ''--'' @ mixed_boundary @ lit ''--'' @ crlf))"
  have "build_mime_full env o' = concat (map render_header (mime_headers env o')) @ ?body"
    unfolding build_mime_full_def mime_headers_def
    by (auto simp: render_header_def lit_def split: option.splits)
  moreover have "starts_with ?body (lit ''Content-Type: '')"
    by (auto simp: Let_def build_body_only_def starts_with_def lit_def split: option.splits)
  ultimately show ?thesis by blast
qed


subsection \<open>Attachment encoding\<close>

lemma wrap_base64_concat: "concat (wrap_base64 s) = s"
proof (induction s rule: wrap_base64.induct)
  case (1 s)
  show ?case
  proof (cases "s = []")
    case True
    then show ?thesis by (simp add: wrap_base64.simps)
  next
    case False
    then show ?thesis
      using "1" by (subst wrap_base64.simps) (simp add: Let_def)
  qed
qed

text \<open>
  The transfer encoding loses nothing and respects RFC 2045: the wrapped lines
  concatenate to the encoded attachment and every line has between 1 and 76 characters.
\<close>

theorem wrap_base64_lines:
  "concat (wrap_base64 s) = s \<and> list_all (\<lambda>l. l \<noteq> [] \<and> length l \<le> 76) (wrap_base64 s)"
proof
  show "concat (wrap_base64 s) = s" by (rule wrap_base64_concat)
  show "list_all (\<lambda>l. l \<noteq> [] \<and> length l \<le> 76) (wrap_base64 s)"
  proof (induction s rule: wrap_base64.induct)
    case (1 s)
    show ?case
    proof (cases "s = []")
      case True
      then show ?thesis by (simp add: wrap_base64.simps)
    next
      case False
      then show ?thesis using "1" by (subst wrap_base64.simps) (simp add: Let_def)
    qed
  qed
qed

definition sample_env :: mime_env where
  "sample_env = \<lparr>env_date = lit ''Mon, 01 Jan 2024 00:00:00 +0000'', env_mixed_id = lit ''m'',
     env_body_id = lit ''b'', env_base64 = (\<lambda>bs. map (\<lambda>_. 65) bs)\<rparr>"

definition sample_options :: MimeBuildOptions where
  "sample_options =
     \<lparr>mo_from = lit ''a@x'', mo_to = [lit ''b@x''], mo_cc = [],
      mo_subject = lit ''Hi'' @ [13, 10] @ lit ''Bcc: evil@x'', mo_text_body = Some (lit ''t''),
      mo_html_body = None, mo_message_id = lit ''<1@x>'', mo_attachments = [],
      mo_reply = \<lparr>rh_in_reply_to = Some (lit ''<0@x>''), rh_references = None\<rparr>\<rparr>"


text \<open>
  Only line breaks are removed from an attachment name.  A double quote in the file name
  closes the quoted parameter early, so the name can add parameters of its own to the
  part's Content-Disposition header.
\<close>

lemma attachment_name_quote_not_escaped:
  "\<exists>pre post. attachment_part env b
       \<lparr>ma_filename = lit ''a'' @ [34] @ lit ''; x='' @ [34] @ lit ''b'', ma_content_type = lit ''text/plain'',
        ma_data = [], ma_content_id = None\<rparr> =
     pre @ lit ''Content-Disposition: attachment; filename='' @ [34] @ lit ''a'' @ [34] @
     lit ''; x='' @ [34] @ lit ''b'' @ [34] @ crlf @ post"
  unfolding attachment_part_def
  by (rule exI, rule exI [where x = "crlf @ concat (map (\<lambda>line. line @ crlf) (wrap_base64 (env_base64 env [])))"],
      simp add: sanitize_header_def lit_def)

end
