(* ===== verification/Enums.thy ===== *)
theory Enums
  imports Prelude
begin

text \<open>
  The closed vocabularies that cross a text boundary: the SQLite text enums of
  \<^verbatim>\<open>src/models.rs\<close> (macro \<^verbatim>\<open>text_enum!\<close>), the hub topics of \<^verbatim>\<open>src/ipc/hub.rs\<close> and the
  daemon operations of \<^verbatim>\<open>src/daemon/op.rs\<close>.  The locale \<open>text_enum\<close> is the contract each
  of them meets: printing and parsing are inverse, and nothing else parses.
\<close>

record ParseEnumError =
  bad_kind :: rstr
  bad_value :: rstr

datatype ParseTopicError = ParseTopicError rstr
datatype ParseOpError = ParseOpError rstr

locale text_enum =
  fixes to_text :: "'a \<Rightarrow> rstr"
    and from_text :: "rstr \<Rightarrow> ('e, 'a) result"
    and bad :: "rstr \<Rightarrow> 'e"
  assumes from_to: "from_text (to_text x) = Ok x"
    and from_text_cases: "from_text s = Err (bad s) \<or> (\<exists>x. from_text s = Ok x \<and> to_text x = s)"
begin

lemma to_text_inj: "to_text x = to_text y \<longleftrightarrow> x = y"
  by (metis from_to sum.inject(2))

lemma from_text_Ok_iff: "from_text s = Ok x \<longleftrightarrow> s = to_text x"
  by (metis from_to from_text_cases sum.distinct(1) sum.inject(2))

lemma from_text_Err_iff: "from_text s = Err e \<longleftrightarrow> s \<notin> range to_text \<and> e = bad s"
  by (metis from_to from_text_cases rangeE rangeI sum.distinct(1) sum.inject(1))

end

subsection \<open>\<^verbatim>\<open>AuthKind\<close>\<close>

datatype AuthKind =
    Password
  | OAuth2Google

fun auth_kind_as_str :: "AuthKind \<Rightarrow> rstr" where
  "auth_kind_as_str Password = lit ''password''"
| "auth_kind_as_str OAuth2Google = lit ''*************''"

definition auth_kind_from_str :: "rstr \<Rightarrow> (ParseEnumError, AuthKind) result" where
  "auth_kind_from_str s =
     (if s = lit ''password'' then Ok Password
      else if s = lit ''*************'' then Ok OAuth2Google
      else Err (\<lparr>bad_kind = lit ''AuthKind'', bad_value = s\<rparr>))"

lemma auth_kind_from_str_auth_kind_as_str: "auth_kind_from_str (auth_kind_as_str x) = Ok x"
  by (cases x) (simp_all add: auth_kind_from_str_def)

lemma auth_kind_from_str_cases:
  "auth_kind_from_str s = Err ((\<lambda>s. \<lparr>bad_kind = lit ''AuthKind'', bad_value = s\<rparr>) s) \<or> (\<exists>x. auth_kind_from_str s = Ok x \<and> auth_kind_as_str x = s)"
  unfolding auth_kind_from_str_def by simp

interpretation auth_kind: text_enum auth_kind_as_str auth_kind_from_str "(\<lambda>s. \<lparr>bad_kind = lit ''AuthKind'', bad_value = s\<rparr>)"
  by unfold_locales (rule auth_kind_from_str_auth_kind_as_str, rule auth_kind_from_str_cases)

subsection \<open>\<^verbatim>\<open>SyncStatus\<close>\<close>

datatype SyncStatus =
    StatusIdle
  | StatusSyncing
  | StatusError

fun sync_status_as_str :: "SyncStatus \<Rightarrow> rstr" where
  "sync_status_as_str StatusIdle = lit ''idle''"
| "sync_status_as_str StatusSyncing = lit ''syncing''"
| "sync_status_as_str StatusError = lit ''error''"

definition sync_status_from_str :: "rstr \<Rightarrow> (ParseEnumError, SyncStatus) result" where
  "sync_status_from_str s =
     (if s = lit ''idle'' then Ok StatusIdle
      else if s = lit ''syncing'' then Ok StatusSyncing
      else if s = lit ''error'' then Ok StatusError
      else Err (\<lparr>bad_kind = lit ''SyncStatus'', bad_value = s\<rparr>))"

lemma sync_status_from_str_sync_status_as_str: "sync_status_from_str (sync_status_as_str x) = Ok x"
  by (cases x) (simp_all add: sync_status_from_str_def)

lemma sync_status_from_str_cases:
  "sync_status_from_str s = Err ((\<lambda>s. \<lparr>bad_kind = lit ''SyncStatus'', bad_value = s\<rparr>) s) \<or> (\<exists>x. sync_status_from_str s = Ok x \<and> sync_status_as_str x = s)"
  unfolding sync_status_from_str_def by simp

interpretation sync_status: text_enum sync_status_as_str sync_status_from_str "(\<lambda>s. \<lparr>bad_kind = lit ''SyncStatus'', bad_value = s\<rparr>)"
  by unfold_locales (rule sync_status_from_str_sync_status_as_str, rule sync_status_from_str_cases)

subsection \<open>\<^verbatim>\<open>FolderRole\<close>\<close>

datatype FolderRole =
    RoleInbox
  | RoleSent
  | RoleDrafts
  | RoleArchive
  | RoleTrash
  | RoleSpam
  | RoleAll
  | RoleStarred
  | RoleCustom

fun folder_role_as_str :: "FolderRole \<Rightarrow> rstr" where
  "folder_role_as_str RoleInbox = lit ''inbox''"
| "folder_role_as_str RoleSent = lit ''sent''"
| "folder_role_as_str RoleDrafts = lit ''drafts''"
| "folder_role_as_str RoleArchive = lit ''archive''"
| "folder_role_as_str RoleTrash = lit ''trash''"
| "folder_role_as_str RoleSpam = lit ''spam''"
| "folder_role_as_str RoleAll = lit ''all''"
| "folder_role_as_str RoleStarred = lit ''starred''"
| "folder_role_as_str RoleCustom = lit ''custom''"

definition folder_role_from_str :: "rstr \<Rightarrow> (ParseEnumError, FolderRole) result" where
  "folder_role_from_str s =
     (if s = lit ''inbox'' then Ok RoleInbox
      else if s = lit ''sent'' then Ok RoleSent
      else if s = lit ''drafts'' then Ok RoleDrafts
      else if s = lit ''archive'' then Ok RoleArchive
      else if s = lit ''trash'' then Ok RoleTrash
      else if s = lit ''spam'' then Ok RoleSpam
      else if s = lit ''all'' then Ok RoleAll
      else if s = lit ''starred'' then Ok RoleStarred
      else if s = lit ''custom'' then Ok RoleCustom
      else Err (\<lparr>bad_kind = lit ''FolderRole'', bad_value = s\<rparr>))"

lemma folder_role_from_str_folder_role_as_str: "folder_role_from_str (folder_role_as_str x) = Ok x"
  by (cases x) (simp_all add: folder_role_from_str_def)

lemma folder_role_from_str_cases:
  "folder_role_from_str s = Err ((\<lambda>s. \<lparr>bad_kind = lit ''FolderRole'', bad_value = s\<rparr>) s) \<or> (\<exists>x. folder_role_from_str s = Ok x \<and> folder_role_as_str x = s)"
  unfolding folder_role_from_str_def by simp

interpretation folder_role: text_enum folder_role_as_str folder_role_from_str "(\<lambda>s. \<lparr>bad_kind = lit ''FolderRole'', bad_value = s\<rparr>)"
  by unfold_locales (rule folder_role_from_str_folder_role_as_str, rule folder_role_from_str_cases)

subsection \<open>\<^verbatim>\<open>AttachmentDisposition\<close>\<close>

datatype AttachmentDisposition =
    DispInline
  | DispAttachment

fun attachment_disposition_as_str :: "AttachmentDisposition \<Rightarrow> rstr" where
  "attachment_disposition_as_str DispInline = lit ''inline''"
| "attachment_disposition_as_str DispAttachment = lit ''attachment''"

definition attachment_disposition_from_str :: "rstr \<Rightarrow> (ParseEnumError, AttachmentDisposition) result" where
  "attachment_disposition_from_str s =
     (if s = lit ''inline'' then Ok DispInline
      else if s = lit ''attachment'' then Ok DispAttachment
      else Err (\<lparr>bad_kind = lit ''AttachmentDisposition'', bad_value = s\<rparr>))"

lemma attachment_disposition_from_str_attachment_disposition_as_str: "attachment_disposition_from_str (attachment_disposition_as_str x) = Ok x"
  by (cases x) (simp_all add: attachment_disposition_from_str_def)

lemma attachment_disposition_from_str_cases:
  "attachment_disposition_from_str s = Err ((\<lambda>s. \<lparr>bad_kind = lit ''AttachmentDisposition'', bad_value = s\<rparr>) s) \<or> (\<exists>x. attachment_disposition_from_str s = Ok x \<and> attachment_disposition_as_str x = s)"
  unfolding attachment_disposition_from_str_def by simp

interpretation attachment_disposition: text_enum attachment_disposition_as_str attachment_disposition_from_str "(\<lambda>s. \<lparr>bad_kind = lit ''AttachmentDisposition'', bad_value = s\<rparr>)"
  by unfold_locales (rule attachment_disposition_from_str_attachment_disposition_as_str, rule attachment_disposition_from_str_cases)

subsection \<open>\<^verbatim>\<open>GateAction\<close>\<close>

datatype GateAction =
    AutoAllow
  | Require
  | Deny

fun gate_action_as_str :: "GateAction \<Rightarrow> rstr" where
  "gate_action_as_str AutoAllow = lit ''auto_allow''"
| "gate_action_as_str Require = lit ''require''"
| "gate_action_as_str Deny = lit ''deny''"

definition gate_action_from_str :: "rstr \<Rightarrow> (ParseEnumError, GateAction) result" where
  "gate_action_from_str s =
     (if s = lit ''auto_allow'' then Ok AutoAllow
      else if s = lit ''require'' then Ok Require
      else if s = lit ''deny'' then Ok Deny
      else Err (\<lparr>bad_kind = lit ''GateAction'', bad_value = s\<rparr>))"

lemma gate_action_from_str_gate_action_as_str: "gate_action_from_str (gate_action_as_str x) = Ok x"
  by (cases x) (simp_all add: gate_action_from_str_def)

lemma gate_action_from_str_cases:
  "gate_action_from_str s = Err ((\<lambda>s. \<lparr>bad_kind = lit ''GateAction'', bad_value = s\<rparr>) s) \<or> (\<exists>x. gate_action_from_str s = Ok x \<and> gate_action_as_str x = s)"
  unfolding gate_action_from_str_def by simp

interpretation gate_action: text_enum gate_action_as_str gate_action_from_str "(\<lambda>s. \<lparr>bad_kind = lit ''GateAction'', bad_value = s\<rparr>)"
  by unfold_locales (rule gate_action_from_str_gate_action_as_str, rule gate_action_from_str_cases)

subsection \<open>\<^verbatim>\<open>ApprovalState\<close>\<close>

datatype ApprovalState =
    Pending
  | Allowed
  | Denied
  | Expired

fun approval_state_as_str :: "ApprovalState \<Rightarrow> rstr" where
  "approval_state_as_str Pending = lit ''pending''"
| "approval_state_as_str Allowed = lit ''allowed''"
| "approval_state_as_str Denied = lit ''denied''"
| "approval_state_as_str Expired = lit ''expired''"

definition approval_state_from_str :: "rstr \<Rightarrow> (ParseEnumError, ApprovalState) result" where
  "approval_state_from_str s =
     (if s = lit ''pending'' then Ok Pending
      else if s = lit ''allowed'' then Ok Allowed
      else if s = lit ''denied'' then Ok Denied
      else if s = lit ''expired'' then Ok Expired
      else Err (\<lparr>bad_kind = lit ''ApprovalState'', bad_value = s\<rparr>))"

lemma approval_state_from_str_approval_state_as_str: "approval_state_from_str (approval_state_as_str x) = Ok x"
  by (cases x) (simp_all add: approval_state_from_str_def)

lemma approval_state_from_str_cases:
  "approval_state_from_str s = Err ((\<lambda>s. \<lparr>bad_kind = lit ''ApprovalState'', bad_value = s\<rparr>) s) \<or> (\<exists>x. approval_state_from_str s = Ok x \<and> approval_state_as_str x = s)"
  unfolding approval_state_from_str_def by simp

interpretation approval_state: text_enum approval_state_as_str approval_state_from_str "(\<lambda>s. \<lparr>bad_kind = lit ''ApprovalState'', bad_value = s\<rparr>)"
  by unfold_locales (rule approval_state_from_str_approval_state_as_str, rule approval_state_from_str_cases)

subsection \<open>Hub topics\<close>

datatype Topic =
    MailNew
  | MailUpdated
  | AccountSynced
  | SyncStateTopic
  | McpApprovalRequested
  | McpApprovalDecided

fun topic_as_str :: "Topic \<Rightarrow> rstr" where
  "topic_as_str MailNew = lit ''mail.new''"
| "topic_as_str MailUpdated = lit ''mail.updated''"
| "topic_as_str AccountSynced = lit ''account.synced''"
| "topic_as_str SyncStateTopic = lit ''sync.state''"
| "topic_as_str McpApprovalRequested = lit ''mcp.approval_requested''"
| "topic_as_str McpApprovalDecided = lit ''mcp.approval_decided''"

definition topic_from_str :: "rstr \<Rightarrow> (ParseTopicError, Topic) result" where
  "topic_from_str s =
     (if s = lit ''mail.new'' then Ok MailNew
      else if s = lit ''mail.updated'' then Ok MailUpdated
      else if s = lit ''account.synced'' then Ok AccountSynced
      else if s = lit ''sync.state'' then Ok SyncStateTopic
      else if s = lit ''mcp.approval_requested'' then Ok McpApprovalRequested
      else if s = lit ''mcp.approval_decided'' then Ok McpApprovalDecided
      else Err (ParseTopicError s))"

lemma topic_from_str_topic_as_str: "topic_from_str (topic_as_str x) = Ok x"
  by (cases x) (simp_all add: topic_from_str_def)

lemma topic_from_str_cases:
  "topic_from_str s = Err (ParseTopicError s) \<or> (\<exists>x. topic_from_str s = Ok x \<and> topic_as_str x = s)"
  unfolding topic_from_str_def by simp

interpretation topic: text_enum topic_as_str topic_from_str "ParseTopicError"
  by unfold_locales (rule topic_from_str_topic_as_str, rule topic_from_str_cases)

subsection \<open>Daemon operations\<close>

datatype Op =
    OpAccountList
  | OpFolderList
  | OpThreadList
  | OpMessageListByFolder
  | OpMessageListByThread
  | OpMessageGet
  | OpAttachmentList
  | OpAttachmentPreview
  | OpSearch
  | OpSqlQuery
  | OpSqlSchema
  | OpAuditListRecent
  | OpMcpGateList
  | OpMcpGateCreate
  | OpMcpGateDelete
  | OpMcpApprovalCreate
  | OpMcpApprovalList
  | OpMcpApprovalGet
  | OpMcpApprovalDecide
  | OpAccountCreate
  | OpAccountDelete
  | OpFolderUpsert
  | OpMessageSetFlags
  | OpMessageArchive
  | OpMessageDelete
  | OpMessageMove
  | OpDraftCreate
  | OpDraftUpdate
  | OpDraftDelete
  | OpDraftList
  | OpDraftGet
  | OpAttachmentExport
  | OpMessagePrepareReply
  | OpMessagePrepareForward
  | OpAttachmentFetchForForward
  | OpAttachmentFetchForForwardBatch
  | OpMessageSend
  | OpAccountTestLogin
  | OpAccountSyncFolder
  | OpAccountStartSync
  | OpAccountStopSync
  | OpAccountSetSecret
  | OpAccountDeleteSecret
  | OpOauthGoogleAuthUrl
  | OpOauthGoogleComplete

fun op_as_str :: "Op \<Rightarrow> rstr" where
  "op_as_str OpAccountList = lit ''account.list''"
| "op_as_str OpFolderList = lit ''folder.list''"
| "op_as_str OpThreadList = lit ''thread.list''"
| "op_as_str OpMessageListByFolder = lit ''message.list_by_folder''"
| "op_as_str OpMessageListByThread = lit ''message.list_by_thread''"
| "op_as_str OpMessageGet = lit ''message.get''"
| "op_as_str OpAttachmentList = lit ''attachment.list''"
| "op_as_str OpAttachmentPreview = lit ''attachment.preview''"
| "op_as_str OpSearch = lit ''search''"
| "op_as_str OpSqlQuery = lit ''sql.query''"
| "op_as_str OpSqlSchema = lit ''sql.schema''"
| "op_as_str OpAuditListRecent = lit ''audit.list_recent''"
| "op_as_str OpMcpGateList = lit ''mcp.gate.list''"
| "op_as_str OpMcpGateCreate = lit ''mcp.gate.create''"
| "op_as_str OpMcpGateDelete = lit ''mcp.gate.delete''"
| "op_as_str OpMcpApprovalCreate = lit ''mcp.approval.create''"
| "op_as_str OpMcpApprovalList = lit ''mcp.approval.list''"
| "op_as_str OpMcpApprovalGet = lit ''mcp.approval.get''"
| "op_as_str OpMcpApprovalDecide = lit ''mcp.approval.decide''"
| "op_as_str OpAccountCreate = lit ''account.create''"
| "op_as_str OpAccountDelete = lit ''account.delete''"
| "op_as_str OpFolderUpsert = lit ''folder.upsert''"
| "op_as_str OpMessageSetFlags = lit ''message.set_flags''"
| "op_as_str OpMessageArchive = lit ''message.archive''"
| "op_as_str OpMessageDelete = lit ''message.delete''"
| "op_as_str OpMessageMove = lit ''message.move''"
| "op_as_str OpDraftCreate = lit ''draft.create''"
| "op_as_str OpDraftUpdate = lit ''draft.update''"
| "op_as_str OpDraftDelete = lit ''draft.delete''"
| "op_as_str OpDraftList = lit ''draft.list''"
| "op_as_str OpDraftGet = lit ''draft.get''"
| "op_as_str OpAttachmentExport = lit ''attachment.export''"
| "op_as_str OpMessagePrepareReply = lit ''message.prepare_reply''"
| "op_as_str OpMessagePrepareForward = lit ''message.prepare_forward''"
| "op_as_str OpAttachmentFetchForForward = lit ''attachment.fetch_for_forward''"
| "op_as_str OpAttachmentFetchForForwardBatch = lit ''attachment.fetch_for_forward_batch''"
| "op_as_str OpMessageSend = lit ''message.send''"
| "op_as_str OpAccountTestLogin = lit ''account.test_login''"
| "op_as_str OpAccountSyncFolder = lit ''account.sync_folder''"
| "op_as_str OpAccountStartSync = lit ''account.start_sync''"
| "op_as_str OpAccountStopSync = lit ''account.stop_sync''"
| "op_as_str OpAccountSetSecret = lit ''account.set_secret''"
| "op_as_str OpAccountDeleteSecret = lit ''account.delete_secret''"
| "op_as_str OpOauthGoogleAuthUrl = lit ''oauth.google.auth_url''"
| "op_as_str OpOauthGoogleComplete = lit ''oauth.google.complete''"

definition op_from_str :: "rstr \<Rightarrow> (ParseOpError, Op) result" where
  "op_from_str s =
     (if s = lit ''account.list'' then Ok OpAccountList
      else if s = lit ''folder.list'' then Ok OpFolderList
      else if s = lit ''thread.list'' then Ok OpThreadList
      else if s = lit ''message.list_by_folder'' then Ok OpMessageListByFolder
      else if s = lit ''message.list_by_thread'' then Ok OpMessageListByThread
      else if s = lit ''message.get'' then Ok OpMessageGet
      else if s = lit ''attachment.list'' then Ok OpAttachmentList
      else if s = lit ''attachment.preview'' then Ok OpAttachmentPreview
      else if s = lit ''search'' then Ok OpSearch
      else if s = lit ''sql.query'' then Ok OpSqlQuery
      else if s = lit ''sql.schema'' then Ok OpSqlSchema
      else if s = lit ''audit.list_recent'' then Ok OpAuditListRecent
      else if s = lit ''mcp.gate.list'' then Ok OpMcpGateList
      else if s = lit ''mcp.gate.create'' then Ok OpMcpGateCreate
      else if s = lit ''mcp.gate.delete'' then Ok OpMcpGateDelete
      else if s = lit ''mcp.approval.create'' then Ok OpMcpApprovalCreate
      else if s = lit ''mcp.approval.list'' then Ok OpMcpApprovalList
      else if s = lit ''mcp.approval.get'' then Ok OpMcpApprovalGet
      else if s = lit ''mcp.approval.decide'' then Ok OpMcpApprovalDecide
      else if s = lit ''account.create'' then Ok OpAccountCreate
      else if s = lit ''account.delete'' then Ok OpAccountDelete
      else if s = lit ''folder.upsert'' then Ok OpFolderUpsert
      else if s = lit ''message.set_flags'' then Ok OpMessageSetFlags
      else if s = lit ''message.archive'' then Ok OpMessageArchive
      else if s = lit ''message.delete'' then Ok OpMessageDelete
      else if s = lit ''message.move'' then Ok OpMessageMove
      else if s = lit ''draft.create'' then Ok OpDraftCreate
      else if s = lit ''draft.update'' then Ok OpDraftUpdate
      else if s = lit ''draft.delete'' then Ok OpDraftDelete
      else if s = lit ''draft.list'' then Ok OpDraftList
      else if s = lit ''draft.get'' then Ok OpDraftGet
      else if s = lit ''attachment.export'' then Ok OpAttachmentExport
      else if s = lit ''message.prepare_reply'' then Ok OpMessagePrepareReply
      else if s = lit ''message.prepare_forward'' then Ok OpMessagePrepareForward
      else if s = lit ''attachment.fetch_for_forward'' then Ok OpAttachmentFetchForForward
      else if s = lit ''attachment.fetch_for_forward_batch'' then Ok OpAttachmentFetchForForwardBatch
      else if s = lit ''message.send'' then Ok OpMessageSend
      else if s = lit ''account.test_login'' then Ok OpAccountTestLogin
      else if s = lit ''account.sync_folder'' then Ok OpAccountSyncFolder
      else if s = lit ''account.start_sync'' then Ok OpAccountStartSync
      else if s = lit ''account.stop_sync'' then Ok OpAccountStopSync
      else if s = lit ''account.set_secret'' then Ok OpAccountSetSecret
      else if s = lit ''account.delete_secret'' then Ok OpAccountDeleteSecret
      else if s = lit ''oauth.google.auth_url'' then Ok OpOauthGoogleAuthUrl
      else if s = lit ''oauth.google.complete'' then Ok OpOauthGoogleComplete
      else Err (ParseOpError s))"

lemma op_from_str_op_as_str: "op_from_str (op_as_str x) = Ok x"
  by (cases x) (simp_all add: op_from_str_def)

lemma op_from_str_cases:
  "op_from_str s = Err (ParseOpError s) \<or> (\<exists>x. op_from_str s = Ok x \<and> op_as_str x = s)"
  unfolding op_from_str_def by simp

interpretation op: text_enum op_as_str op_from_str "ParseOpError"
  by unfold_locales (rule op_from_str_op_as_str, rule op_from_str_cases)

end
