(* ===== verification/IpcProtocol.thy ===== *)
theory IpcProtocol
  imports Json Enums
begin

text \<open>
  The frames of the daemon socket, \<^verbatim>\<open>src/ipc/protocol.rs\<close>: requests, responses, events, the
  tagged error, and the untagged union the client decodes.  Encoders and decoders follow the
  \<^verbatim>\<open>serde\<close> attributes of the declarations (required keys, defaults, skipped fields); a derived
  decoder also accepts the positional array form.  They work on parsed JSON values.
\<close>

definition u64_bound :: nat where
  "u64_bound = 2 ^ 64"

record Request =
  req_id :: nat
  req_op :: rstr
  req_args :: json

record RpcError =
  err_code :: rstr
  err_message :: rstr

record Response =
  resp_id :: nat
  resp_ok :: bool
  resp_data :: json
  resp_error :: "RpcError option"

record Event =
  ev_sub :: nat
  ev_topic :: rstr
  ev_data :: json

datatype Frame =
    FrameRequest Request
  | FrameResponse Response
  | FrameEvent Event

subsection \<open>Constructors\<close>

definition rpc_error_new :: "rstr \<Rightarrow> rstr \<Rightarrow> RpcError" where
  "rpc_error_new code message = \<lparr>err_code = code, err_message = message\<rparr>"

definition rpc_unknown_op :: "rstr \<Rightarrow> RpcError" where
  "rpc_unknown_op op_name =
     rpc_error_new (lit ''unknown_op'') (lit ''unknown op '' @ [39] @ op_name @ [39])"

definition rpc_bad_args :: "rstr \<Rightarrow> RpcError" where
  "rpc_bad_args message = rpc_error_new (lit ''bad_args'') message"

definition rpc_internal :: "rstr \<Rightarrow> RpcError" where
  "rpc_internal message = rpc_error_new (lit ''internal'') message"

definition rpc_internal_ctx :: "rstr \<Rightarrow> rstr \<Rightarrow> RpcError" where
  "rpc_internal_ctx ctx e = rpc_error_new (lit ''internal'') (ctx @ lit '': '' @ e)"

definition response_ok :: "nat \<Rightarrow> json \<Rightarrow> Response" where
  "response_ok i data = \<lparr>resp_id = i, resp_ok = True, resp_data = data, resp_error = None\<rparr>"

definition response_err :: "nat \<Rightarrow> RpcError \<Rightarrow> Response" where
  "response_err i e = \<lparr>resp_id = i, resp_ok = False, resp_data = JNull, resp_error = Some e\<rparr>"

subsection \<open>Encoding\<close>

definition json_nat :: "nat \<Rightarrow> json" where
  "json_nat n = JNumber (PosInt n)"

definition rpc_error_to_json :: "RpcError \<Rightarrow> json" where
  "rpc_error_to_json e = json_object
     [(lit ''code'', JString (err_code e)), (lit ''message'', JString (err_message e))]"

definition request_to_json :: "Request \<Rightarrow> json" where
  "request_to_json r = json_object
     [(lit ''id'', json_nat (req_id r)), (lit ''op'', JString (req_op r)), (lit ''args'', req_args r)]"

definition response_to_json :: "Response \<Rightarrow> json" where
  "response_to_json r = json_object
     ([(lit ''id'', json_nat (resp_id r)), (lit ''ok'', JBool (resp_ok r))] @
      (if is_null (resp_data r) then [] else [(lit ''data'', resp_data r)]) @
      (case resp_error r of None \<Rightarrow> [] | Some e \<Rightarrow> [(lit ''error'', rpc_error_to_json e)]))"

definition event_to_json :: "Event \<Rightarrow> json" where
  "event_to_json e = json_object
     [(lit ''sub'', json_nat (ev_sub e)), (lit ''topic'', JString (ev_topic e)), (lit ''data'', ev_data e)]"

fun frame_to_json :: "Frame \<Rightarrow> json" where
  "frame_to_json (FrameRequest r) = request_to_json r"
| "frame_to_json (FrameResponse r) = response_to_json r"
| "frame_to_json (FrameEvent e) = event_to_json e"

subsection \<open>Decoding\<close>

text \<open>The value of a field by name (object form) or by position (array form).\<close>

fun field_at :: "nat \<Rightarrow> nat \<Rightarrow> rstr \<Rightarrow> json \<Rightarrow> json option" where
  "field_at arity i name (JObject m) = obj_get m name"
| "field_at arity i name (JArray xs) =
     (if length xs \<le> arity \<and> i < length xs then Some (xs ! i) else None)"
| "field_at arity i name _ = None"

fun is_struct :: "nat \<Rightarrow> json \<Rightarrow> bool" where
  "is_struct arity (JObject m) = True"
| "is_struct arity (JArray xs) = (length xs \<le> arity)"
| "is_struct arity _ = False"

fun as_u64 :: "json \<Rightarrow> nat option" where
  "as_u64 (JNumber (PosInt n)) = (if n < u64_bound then Some n else None)"
| "as_u64 _ = None"

definition rpc_error_of_json :: "json \<Rightarrow> RpcError option" where
  "rpc_error_of_json v =
     (case (Option.bind (field_at 2 0 (lit ''code'') v) as_str,
            Option.bind (field_at 2 1 (lit ''message'') v) as_str) of
        (Some c, Some m) \<Rightarrow> Some \<lparr>err_code = c, err_message = m\<rparr>
      | _ \<Rightarrow> None)"

definition request_of_json :: "json \<Rightarrow> Request option" where
  "request_of_json v =
     (case (Option.bind (field_at 3 0 (lit ''id'') v) as_u64,
            Option.bind (field_at 3 1 (lit ''op'') v) as_str) of
        (Some i, Some o') \<Rightarrow>
          Some \<lparr>req_id = i, req_op = o', req_args = unwrap_or JNull (field_at 3 2 (lit ''args'') v)\<rparr>
      | _ \<Rightarrow> None)"

text \<open>An optional \<^verbatim>\<open>error\<close>: absent and null read as none, anything else must be an error object.\<close>

definition error_field :: "json option \<Rightarrow> RpcError option option" where
  "error_field v =
     (case v of
        None \<Rightarrow> Some None
      | Some e \<Rightarrow> if is_null e then Some None else map_option Some (rpc_error_of_json e))"

definition response_of_json :: "json \<Rightarrow> Response option" where
  "response_of_json v =
     (case (Option.bind (field_at 4 0 (lit ''id'') v) as_u64,
            Option.bind (field_at 4 1 (lit ''ok'') v) as_bool,
            error_field (field_at 4 3 (lit ''error'') v)) of
        (Some i, Some b, Some e) \<Rightarrow>
          Some \<lparr>resp_id = i, resp_ok = b,
                resp_data = unwrap_or JNull (field_at 4 2 (lit ''data'') v), resp_error = e\<rparr>
      | _ \<Rightarrow> None)"

definition event_of_json :: "json \<Rightarrow> Event option" where
  "event_of_json v =
     (case (Option.bind (field_at 3 0 (lit ''sub'') v) as_u64,
            Option.bind (field_at 3 1 (lit ''topic'') v) as_str) of
        (Some i, Some t) \<Rightarrow>
          Some \<lparr>ev_sub = i, ev_topic = t, ev_data = unwrap_or JNull (field_at 3 2 (lit ''data'') v)\<rparr>
      | _ \<Rightarrow> None)"

text \<open>\<^verbatim>\<open>serde(untagged)\<close>: the first variant that decodes, in declaration order.\<close>

definition frame_of_json :: "json \<Rightarrow> Frame option" where
  "frame_of_json v =
     (case request_of_json v of
        Some r \<Rightarrow> Some (FrameRequest r)
      | None \<Rightarrow>
          (case response_of_json v of
             Some r \<Rightarrow> Some (FrameResponse r)
           | None \<Rightarrow> map_option FrameEvent (event_of_json v)))"

fun frame_id :: "Frame \<Rightarrow> nat" where
  "frame_id (FrameRequest r) = req_id r"
| "frame_id (FrameResponse r) = resp_id r"
| "frame_id (FrameEvent e) = ev_sub e"

subsection \<open>Round trips\<close>

lemma field_at_json_object [simp]: "field_at n i k (json_object kvs) = map_of (rev kvs) k"
  by (simp add: json_object_def)

lemma as_u64_json_nat [simp]: "as_u64 (json_nat n) = (if n < u64_bound then Some n else None)"
  by (simp add: json_nat_def)

lemma rpc_error_roundtrip [simp]: "rpc_error_of_json (rpc_error_to_json e) = Some e"
  by (simp add: rpc_error_of_json_def rpc_error_to_json_def)

lemma rpc_error_to_json_not_null [simp]: "\<not> is_null (rpc_error_to_json e)"
  by (simp add: is_null_def rpc_error_to_json_def json_object_def)

lemma response_fields:
  "field_at n i (lit ''id'') (response_to_json r) = Some (json_nat (resp_id r))"
  "field_at n i (lit ''ok'') (response_to_json r) = Some (JBool (resp_ok r))"
  "field_at n i (lit ''op'') (response_to_json r) = None"
  "field_at n i (lit ''error'') (response_to_json r) = map_option rpc_error_to_json (resp_error r)"
  "unwrap_or JNull (field_at n i (lit ''data'') (response_to_json r)) = resp_data r"
  by (auto simp: response_to_json_def is_null_def split: option.splits)

lemma request_roundtrip: "req_id r < u64_bound \<Longrightarrow> request_of_json (request_to_json r) = Some r"
  by (simp add: request_of_json_def request_to_json_def)

lemma response_roundtrip: "resp_id r < u64_bound \<Longrightarrow> response_of_json (response_to_json r) = Some r"
  by (cases "resp_error r") (simp_all add: response_of_json_def response_fields error_field_def)

lemma event_roundtrip: "ev_sub e < u64_bound \<Longrightarrow> event_of_json (event_to_json e) = Some e"
  by (simp add: event_of_json_def event_to_json_def)

lemma response_not_request: "request_of_json (response_to_json r) = None"
  by (simp add: request_of_json_def response_fields split: option.splits)

lemma event_not_other:
  "request_of_json (event_to_json e) = None" "response_of_json (event_to_json e) = None"
  by (simp_all add: request_of_json_def response_of_json_def event_to_json_def)

text \<open>
  C26: the three frame kinds are told apart by their keys alone.  Whatever a request, response
  or event carries, including null payloads that are omitted on the wire, the untagged decoder
  of the client returns the frame that was encoded, of the same kind.
\<close>

theorem frame_roundtrip:
  assumes "frame_id f < u64_bound"
  shows "frame_of_json (frame_to_json f) = Some f"
  using assms
  by (cases f)
     (simp_all add: frame_of_json_def request_roundtrip response_roundtrip event_roundtrip
        response_not_request event_not_other)

theorem frame_roundtrip_witness:
  "frame_id (FrameResponse (response_err 7 (rpc_bad_args []))) < u64_bound \<and>
   frame_of_json (frame_to_json (FrameResponse (response_err 7 (rpc_bad_args [])))) =
     Some (FrameResponse (response_err 7 (rpc_bad_args [])))"
  using frame_roundtrip [of "FrameResponse (response_err 7 (rpc_bad_args []))"]
  by (simp add: response_err_def u64_bound_def)

end
