(* ===== verification/IpcServer.thy ===== *)
theory IpcServer
  imports IpcProtocol "HOL-Library.Multiset"
begin

text \<open>
  One connection of the daemon socket, \<^verbatim>\<open>src/ipc/server.rs\<close>: the bounded set of request
  handlers, the subscription table they share, and the outbound queue; and the accept loop
  with its connection cap.

  Handlers are concurrent tasks.  A step is one atomic action of one task: reading a request,
  allocating a subscription id (\<^verbatim>\<open>fetch_add\<close>), the check-and-insert under the table lock, the
  removal under the lock, queueing one frame.  What the broadcast channel delivers and what the
  dispatcher answers is arbitrary.  \<open>granted\<close>, \<open>received\<close> and \<open>allocs\<close> record history.
\<close>

definition MAX_CONNECTIONS :: nat where
  "MAX_CONNECTIONS = 64"

definition MAX_SUBS_PER_CONN :: nat where
  "MAX_SUBS_PER_CONN = 32"

definition MAX_INFLIGHT_REQUESTS :: nat where
  "MAX_INFLIGHT_REQUESTS = 128"

type_synonym subscriptions = "(nat \<times> Topic) list"

datatype OutFrame =
    OutResponse Response
  | OutEvent nat Topic json

subsection \<open>Request handlers\<close>

definition parse_topic_arg :: "Request \<Rightarrow> (Response, rstr \<times> Topic) result" where
  "parse_topic_arg req =
     (case Option.bind (value_get (req_args req) (lit ''topic'')) as_str of
        None \<Rightarrow> Err (response_err (req_id req) (rpc_bad_args (lit ''missing '' @ [39] @ lit ''topic'' @ [39])))
      | Some s \<Rightarrow>
          (case topic_from_str s of
             Err _ \<Rightarrow> Err (response_err (req_id req)
                          (rpc_bad_args (lit ''unknown topic '' @ [39] @ s @ [39])))
           | Ok t \<Rightarrow> Ok (s, t)))"

text \<open>\<^verbatim>\<open>HashMap::insert\<close> and \<^verbatim>\<open>HashMap::remove\<close> on the subscription table.\<close>

definition subs_remove :: "nat \<Rightarrow> subscriptions \<Rightarrow> subscriptions" where
  "subs_remove i subs = filter (\<lambda>(j, _). j \<noteq> i) subs"

definition subs_insert :: "nat \<Rightarrow> Topic \<Rightarrow> subscriptions \<Rightarrow> subscriptions" where
  "subs_insert i t subs = (i, t) # subs_remove i subs"

text \<open>The part of \<^verbatim>\<open>handle_subscribe\<close> that runs under the table lock.\<close>

definition commit_subscribe ::
  "Request \<Rightarrow> rstr \<Rightarrow> Topic \<Rightarrow> nat \<Rightarrow> subscriptions \<Rightarrow> Response \<times> subscriptions" where
  "commit_subscribe req topic_str topic sub_id subs =
     (if length subs \<ge> MAX_SUBS_PER_CONN
      then (response_err (req_id req)
              (rpc_error_new (lit ''too_many_subs'')
                 (lit ''subscription limit ('' @ show_nat MAX_SUBS_PER_CONN @ lit '') reached'')),
            subs)
      else (response_ok (req_id req)
              (json_object [(lit ''sub_id'', json_nat sub_id), (lit ''topic'', JString topic_str)]),
            subs_insert sub_id topic subs))"

text \<open>\<^verbatim>\<open>handle_subscribe\<close> run without interruption: response, table, next id.\<close>

definition handle_subscribe ::
  "Request \<Rightarrow> subscriptions \<Rightarrow> nat \<Rightarrow> Response \<times> subscriptions \<times> nat" where
  "handle_subscribe req subs next_sub_id =
     (case parse_topic_arg req of
        Err resp \<Rightarrow> (resp, subs, next_sub_id)
      | Ok (s, t) \<Rightarrow>
          (let (resp, subs') = commit_subscribe req s t next_sub_id subs in
           (resp, subs', (next_sub_id + 1) mod u64_bound)))"

definition handle_unsubscribe :: "Request \<Rightarrow> subscriptions \<Rightarrow> Response \<times> subscriptions" where
  "handle_unsubscribe req subs =
     (case Option.bind (value_get (req_args req) (lit ''sub_id'')) as_u64 of
        None \<Rightarrow>
          (response_err (req_id req) (rpc_bad_args (lit ''missing '' @ [39] @ lit ''sub_id'' @ [39])), subs)
      | Some i \<Rightarrow>
          (if map_of subs i \<noteq> None
           then (response_ok (req_id req) (json_object [(lit ''unsubscribed'', JBool True)]),
                 subs_remove i subs)
           else (response_err (req_id req)
                   (rpc_error_new (lit ''unknown_sub'')
                      (lit ''no subscription with id '' @ show_nat i)), subs)))"

definition dispatch_response :: "Request \<Rightarrow> (RpcError, json) result \<Rightarrow> Response" where
  "dispatch_response req r =
     (case r of Ok data \<Rightarrow> response_ok (req_id req) data | Err e \<Rightarrow> response_err (req_id req) e)"

definition pong :: "Request \<Rightarrow> Response" where
  "pong req = response_ok (req_id req) (json_object [(lit ''pong'', JBool True)])"

subsection \<open>The connection as a state machine\<close>

datatype handler =
    Running Request
  | Subscribing Request rstr Topic nat

fun handler_request :: "handler \<Rightarrow> Request" where
  "handler_request (Running req) = req"
| "handler_request (Subscribing req _ _ _) = req"

record conn =
  handlers :: "handler list"
  finished :: nat
  subs :: subscriptions
  forwarders :: subscriptions
  next_sub_id :: nat
  out :: "OutFrame list"
  closed :: bool
  granted :: subscriptions
  received :: "nat list"
  allocs :: nat

definition conn_init :: conn where
  "conn_init = \<lparr>handlers = [], finished = 0, subs = [], forwarders = [], next_sub_id = 1,
                out = [], closed = False, granted = [], received = [], allocs = 0\<rparr>"

text \<open>A handler queues its response and ends.\<close>

definition finish :: "handler \<Rightarrow> Response \<Rightarrow> conn \<Rightarrow> conn" where
  "finish h resp c =
     c\<lparr>handlers := remove1 h (handlers c), finished := finished c + 1,
       out := out c @ [OutResponse resp]\<rparr>"

inductive conn_step :: "conn \<Rightarrow> conn \<Rightarrow> bool" where
  read_request:
    "\<lbrakk>\<not> closed c; length (handlers c) + finished c < MAX_INFLIGHT_REQUESTS\<rbrakk> \<Longrightarrow>
     conn_step c (c\<lparr>handlers := Running req # handlers c, received := req_id req # received c\<rparr>)"
| reap:
    "\<lbrakk>\<not> closed c; length (handlers c) + finished c \<ge> MAX_INFLIGHT_REQUESTS; finished c = Suc n\<rbrakk> \<Longrightarrow>
     conn_step c (c\<lparr>finished := n\<rparr>)"
| subscribe_bad_args:
    "\<lbrakk>Running req \<in> set (handlers c); req_op req = lit ''subscribe''; parse_topic_arg req = Err resp\<rbrakk> \<Longrightarrow>
     conn_step c (finish (Running req) resp c)"
| subscribe_alloc:
    "\<lbrakk>Running req \<in> set (handlers c); req_op req = lit ''subscribe''; parse_topic_arg req = Ok (s, t)\<rbrakk> \<Longrightarrow>
     conn_step c
       (c\<lparr>handlers := Subscribing req s t (next_sub_id c) # remove1 (Running req) (handlers c),
          next_sub_id := (next_sub_id c + 1) mod u64_bound, allocs := allocs c + 1\<rparr>)"
| subscribe_commit:
    "\<lbrakk>Subscribing req s t i \<in> set (handlers c); commit_subscribe req s t i (subs c) = (resp, subs')\<rbrakk> \<Longrightarrow>
     conn_step c
       (finish (Subscribing req s t i) resp
          (if resp_ok resp
           then c\<lparr>subs := subs', forwarders := (i, t) # forwarders c, granted := (i, t) # granted c\<rparr>
           else c))"
| unsubscribe:
    "\<lbrakk>Running req \<in> set (handlers c); req_op req = lit ''unsubscribe'';
      handle_unsubscribe req (subs c) = (resp, subs')\<rbrakk> \<Longrightarrow>
     conn_step c (finish (Running req) resp (c\<lparr>subs := subs'\<rparr>))"
| ping:
    "\<lbrakk>Running req \<in> set (handlers c); req_op req = lit ''ping''\<rbrakk> \<Longrightarrow>
     conn_step c (finish (Running req) (pong req) c)"
| dispatch:
    "\<lbrakk>Running req \<in> set (handlers c);
      req_op req \<notin> set [lit ''subscribe'', lit ''unsubscribe'', lit ''ping''];
      op_from_str (req_op req) = Ok op\<rbrakk> \<Longrightarrow>
     conn_step c (finish (Running req) (dispatch_response req r) c)"
| unknown_op:
    "\<lbrakk>Running req \<in> set (handlers c);
      req_op req \<notin> set [lit ''subscribe'', lit ''unsubscribe'', lit ''ping''];
      op_from_str (req_op req) = Err e\<rbrakk> \<Longrightarrow>
     conn_step c (finish (Running req) (response_err (req_id req) (rpc_unknown_op (req_op req))) c)"
| forward:
    "(i, t) \<in> set (forwarders c) \<Longrightarrow> conn_step c (c\<lparr>out := out c @ [OutEvent i t payload]\<rparr>)"
| lagged:
    "(i, t) \<in> set (forwarders c) \<Longrightarrow>
     conn_step c (c\<lparr>out := out c @ [OutEvent i t (json_object [(lit ''lagged'', json_nat n)])]\<rparr>)"
| forwarder_ends:
    "conn_step c (c\<lparr>forwarders := remove1 ft (forwarders c)\<rparr>)"
| close:
    "conn_step c (c\<lparr>closed := True, handlers := [], finished := 0, subs := [], forwarders := []\<rparr>)"

definition conn_reachable :: "conn \<Rightarrow> bool" where
  "conn_reachable c \<longleftrightarrow> conn_step\<^sup>*\<^sup>* conn_init c"

subsection \<open>The invariant\<close>

definition response_ids :: "OutFrame list \<Rightarrow> nat list" where
  "response_ids fs = List.map_filter (\<lambda>f. case f of OutResponse r \<Rightarrow> Some (resp_id r) | _ \<Rightarrow> None) fs"

definition event_subs :: "OutFrame list \<Rightarrow> subscriptions" where
  "event_subs fs = List.map_filter (\<lambda>f. case f of OutEvent i t _ \<Rightarrow> Some (i, t) | _ \<Rightarrow> None) fs"

definition handler_ids :: "handler list \<Rightarrow> nat list" where
  "handler_ids hs = map (\<lambda>h. req_id (handler_request h)) hs"

definition bounded :: "conn \<Rightarrow> bool" where
  "bounded c \<longleftrightarrow> length (subs c) \<le> MAX_SUBS_PER_CONN \<and> distinct (map fst (subs c)) \<and>
     length (handlers c) + finished c \<le> MAX_INFLIGHT_REQUESTS"

definition answered_once :: "conn \<Rightarrow> bool" where
  "answered_once c \<longleftrightarrow>
     mset (response_ids (out c)) + mset (handler_ids (handlers c)) \<subseteq># mset (received c)"

definition events_granted :: "conn \<Rightarrow> bool" where
  "events_granted c \<longleftrightarrow>
     set (event_subs (out c)) \<union> set (forwarders c) \<union> set (subs c) \<subseteq> set (granted c)"

lemma response_ids_simps [simp]:
  "response_ids [] = []"
  "response_ids (fs @ [OutResponse r]) = response_ids fs @ [resp_id r]"
  "response_ids (fs @ [OutEvent i t d]) = response_ids fs"
  by (simp_all add: response_ids_def List.map_filter_def)

lemma event_subs_simps [simp]:
  "event_subs [] = []"
  "event_subs (fs @ [OutResponse r]) = event_subs fs"
  "event_subs (fs @ [OutEvent i t d]) = event_subs fs @ [(i, t)]"
  by (simp_all add: event_subs_def List.map_filter_def)

lemma finish_simps [simp]:
  "handlers (finish h resp c) = remove1 h (handlers c)"
  "finished (finish h resp c) = finished c + 1"
  "out (finish h resp c) = out c @ [OutResponse resp]"
  "subs (finish h resp c) = subs c"
  "forwarders (finish h resp c) = forwarders c"
  "granted (finish h resp c) = granted c"
  "received (finish h resp c) = received c"
  "next_sub_id (finish h resp c) = next_sub_id c"
  "allocs (finish h resp c) = allocs c"
  by (simp_all add: finish_def)

lemma response_id_simps [simp]:
  "resp_id (response_ok i d) = i" "resp_id (response_err i e) = i"
  "resp_ok (response_ok i d)" "\<not> resp_ok (response_err i e)"
  by (simp_all add: response_ok_def response_err_def)

lemma handler_response_ids:
  "parse_topic_arg req = Err resp \<Longrightarrow> resp_id resp = req_id req"
  "commit_subscribe req s t i ss = (resp, ss') \<Longrightarrow> resp_id resp = req_id req"
  "handle_unsubscribe req ss = (resp, ss') \<Longrightarrow> resp_id resp = req_id req"
  "resp_id (pong req) = req_id req"
  "resp_id (dispatch_response req r) = req_id req"
  by (auto simp: parse_topic_arg_def commit_subscribe_def handle_unsubscribe_def pong_def
                 dispatch_response_def split: option.splits sum.splits if_splits)

lemma length_subs_remove: "length (subs_remove i ss) \<le> length ss"
  by (simp add: subs_remove_def)

lemma subs_remove_keys: "map fst (subs_remove i ss) = filter (\<lambda>j. j \<noteq> i) (map fst ss)"
  by (induction ss) (auto simp: subs_remove_def)

lemma set_subs_remove: "set (subs_remove i ss) \<subseteq> set ss"
  by (auto simp: subs_remove_def)

lemma commit_subscribe_cases:
  assumes "commit_subscribe req s t i ss = (resp, ss')"
  shows "resp_ok resp \<and> ss' = subs_insert i t ss \<and> length ss < MAX_SUBS_PER_CONN \<or>
         \<not> resp_ok resp \<and> ss' = ss"
  using assms by (auto simp: commit_subscribe_def split: if_splits)

lemma unsubscribe_cases:
  assumes "handle_unsubscribe req ss = (resp, ss')"
  shows "ss' = ss \<or> (\<exists>i. ss' = subs_remove i ss)"
  using assms by (auto simp: handle_unsubscribe_def split: option.splits if_splits)

lemma remove1_ids:
  "h \<in> set hs \<Longrightarrow> add_mset (req_id (handler_request h)) (mset (handler_ids (remove1 h hs))) = mset (handler_ids hs)"
  by (induction hs) (auto simp: handler_ids_def)

lemma length_remove1_handler: "h \<in> set hs \<Longrightarrow> Suc (length (remove1 h hs)) = length hs"
  by (induction hs) auto

lemma finish_bounded:
  assumes "h \<in> set (handlers c)"
  shows "bounded (finish h resp c) \<longleftrightarrow> bounded c"
proof -
  have eq: "length (handlers (finish h resp c)) + finished (finish h resp c) = length (handlers c) + finished c"
    using length_remove1_handler [OF assms] by simp
  show ?thesis by (simp only: bounded_def eq finish_simps(4))
qed

lemma finish_answered:
  assumes "h \<in> set (handlers c)" "resp_id resp = req_id (handler_request h)"
  shows "answered_once (finish h resp c) \<longleftrightarrow> answered_once c"
proof -
  have eq: "mset (response_ids (out (finish h resp c))) + mset (handler_ids (handlers (finish h resp c))) =
        mset (response_ids (out c)) + mset (handler_ids (handlers c))"
    using remove1_ids [OF assms(1)] assms(2) by (simp add: ac_simps flip: remove1_ids [OF assms(1)])
  show ?thesis by (simp only: answered_once_def eq finish_simps(7))
qed

lemma step_bounded: "conn_step c c' \<Longrightarrow> bounded c \<Longrightarrow> bounded c'"
proof (induction rule: conn_step.induct)
  case (read_request c req)
  then show ?case by (simp add: bounded_def)
next
  case (subscribe_alloc req c s t)
  then show ?case using length_remove1_handler [of "Running req" "handlers c"] by (simp add: bounded_def)
next
  case (subscribe_commit req s t i c resp subs')
  have "bounded (c\<lparr>subs := subs', forwarders := f, granted := g\<rparr>)" if "resp_ok resp" for f g
    using that commit_subscribe_cases [OF subscribe_commit.hyps(2)] length_subs_remove [of i "subs c"]
      subscribe_commit.prems
    by (auto simp: bounded_def subs_insert_def subs_remove_keys)
  then show ?case using subscribe_commit by (simp add: finish_bounded)
next
  case (unsubscribe req c resp subs')
  have "bounded (c\<lparr>subs := subs'\<rparr>)"
    using unsubscribe.prems unsubscribe_cases [OF unsubscribe.hyps(3)]
      length_subs_remove [of _ "subs c", THEN order_trans]
    by (auto simp: bounded_def subs_remove_keys)
  then show ?case using unsubscribe by (simp add: finish_bounded)
qed (simp_all add: finish_bounded, simp_all add: bounded_def)

lemma step_answered: "conn_step c c' \<Longrightarrow> answered_once c \<Longrightarrow> answered_once c'"
proof (induction rule: conn_step.induct)
  case (read_request c req)
  then show ?case by (simp add: answered_once_def handler_ids_def)
next
  case (subscribe_alloc req c s t)
  then show ?case
    using remove1_ids [OF subscribe_alloc.hyps(1)] by (simp add: answered_once_def handler_ids_def)
next
  case (subscribe_commit req s t i c resp subs')
  then show ?case
    using handler_response_ids(2) [OF subscribe_commit.hyps(2)]
    by (auto simp: finish_answered) (simp_all add: answered_once_def)
next
  case (unsubscribe req c resp subs')
  then show ?case
    using handler_response_ids(3) [OF unsubscribe.hyps(3)]
    by (simp add: finish_answered) (simp add: answered_once_def)
next
  case (close c)
  then show ?case
    by (auto simp: answered_once_def handler_ids_def intro: subset_mset.order_trans [OF mset_subset_eq_add_left])
qed (simp_all add: finish_answered handler_response_ids, simp_all add: answered_once_def)

lemma step_granted: "conn_step c c' \<Longrightarrow> events_granted c \<Longrightarrow> events_granted c'"
proof (induction rule: conn_step.induct)
  case (subscribe_commit req s t i c resp subs')
  then show ?case
    using commit_subscribe_cases [OF subscribe_commit.hyps(2)] set_subs_remove [of i "subs c"]
    by (auto simp: events_granted_def subs_insert_def)
next
  case (unsubscribe req c resp subs')
  then have "set subs' \<subseteq> set (subs c)"
    using unsubscribe_cases [OF unsubscribe.hyps(3)] set_subs_remove by auto
  with unsubscribe.prems show ?case by (auto simp: events_granted_def)
next
  case (forwarder_ends c ft)
  then show ?case using set_remove1_subset [of ft "forwarders c"] by (auto simp: events_granted_def)
qed (auto simp: events_granted_def)

text \<open>Subscription ids are fresh as long as the 64-bit counter has not wrapped.\<close>

definition pending_subs :: "handler list \<Rightarrow> nat list" where
  "pending_subs hs = List.map_filter (\<lambda>h. case h of Subscribing _ _ _ i \<Rightarrow> Some i | _ \<Rightarrow> None) hs"

definition ids_fresh :: "conn \<Rightarrow> bool" where
  "ids_fresh c \<longleftrightarrow> allocs c + 1 < u64_bound \<longrightarrow>
     next_sub_id c = allocs c + 1 \<and>
     distinct (map fst (granted c) @ pending_subs (handlers c)) \<and>
     (\<forall>i \<in> set (map fst (granted c) @ pending_subs (handlers c)). i \<le> allocs c)"

lemma pending_subs_simps [simp]:
  "pending_subs [] = []"
  "pending_subs (Running req # hs) = pending_subs hs"
  "pending_subs (Subscribing req s t i # hs) = i # pending_subs hs"
  by (simp_all add: pending_subs_def List.map_filter_simps)

lemma pending_remove_running [simp]: "pending_subs (remove1 (Running req) hs) = pending_subs hs"
proof (induction hs)
  case (Cons h hs)
  then show ?case by (cases h) auto
qed simp

lemma pending_remove_subscribing:
  "Subscribing req s t i \<in> set hs \<Longrightarrow> distinct (pending_subs hs) \<Longrightarrow>
   pending_subs (remove1 (Subscribing req s t i) hs) = remove1 i (pending_subs hs)"
proof (induction hs)
  case (Cons h hs)
  have "Subscribing req s t i \<in> set hs \<Longrightarrow> i \<in> set (pending_subs hs)" for hs
    by (force simp: pending_subs_def List.map_filter_def)
  with Cons show ?case by (cases h) auto
qed simp

lemma pending_member: "Subscribing req s t i \<in> set hs \<Longrightarrow> i \<in> set (pending_subs hs)"
  by (force simp: pending_subs_def List.map_filter_def)

lemma step_ids: "conn_step c c' \<Longrightarrow> ids_fresh c \<Longrightarrow> ids_fresh c'"
proof (induction rule: conn_step.induct)
  case (subscribe_alloc req c s t)
  let ?used = "map fst (granted c) @ pending_subs (handlers c)"
  have "next_sub_id c \<notin> set ?used \<and> (\<forall>i \<in> set ?used. i \<le> allocs c + 1)"
    if "allocs c + 2 < u64_bound"
    using that subscribe_alloc.prems by (force simp: ids_fresh_def)
  with subscribe_alloc.prems show ?case by (auto simp: ids_fresh_def)
next
  case (subscribe_commit req s t i c resp subs')
  then show ?case
    using pending_remove_subscribing [OF subscribe_commit.hyps(1)] pending_member [OF subscribe_commit.hyps(1)]
    by (auto simp: ids_fresh_def dest: notin_set_remove1)
qed (auto simp: ids_fresh_def)

interpretation conn_bounds: step_invariant conn_init conn_step bounded
  by unfold_locales (simp add: bounded_def conn_init_def, rule step_bounded)

interpretation conn_answers: step_invariant conn_init conn_step answered_once
  by unfold_locales (simp add: answered_once_def conn_init_def handler_ids_def, rule step_answered)

interpretation conn_events: step_invariant conn_init conn_step events_granted
  by unfold_locales (simp add: events_granted_def conn_init_def, rule step_granted)

interpretation conn_ids: step_invariant conn_init conn_step ids_fresh
  by unfold_locales (simp add: ids_fresh_def conn_init_def, rule step_ids)

text \<open>A connection with one granted subscription, reached in three steps.\<close>

definition sample_subscribe :: Request where
  "sample_subscribe = \<lparr>req_id = 5, req_op = lit ''subscribe'',
     req_args = json_object [(lit ''topic'', JString (lit ''mail.new''))]\<rparr>"

definition sample_conn :: conn where
  "sample_conn = \<lparr>handlers = [], finished = 1, subs = [(1, MailNew)], forwarders = [(1, MailNew)],
     next_sub_id = 2,
     out = [OutResponse (response_ok 5 (json_object
              [(lit ''sub_id'', json_nat 1), (lit ''topic'', JString (lit ''mail.new''))]))],
     closed = False, granted = [(1, MailNew)], received = [5], allocs = 1\<rparr>"

lemma sample_topic: "parse_topic_arg sample_subscribe = Ok (lit ''mail.new'', MailNew)"
  by (simp add: parse_topic_arg_def sample_subscribe_def topic_from_str_def)

lemma sample_conn_reachable: "conn_reachable sample_conn"
proof -
  let ?c1 = "conn_init\<lparr>handlers := [Running sample_subscribe], received := [5]\<rparr>"
  let ?c2 = "?c1\<lparr>handlers := [Subscribing sample_subscribe (lit ''mail.new'') MailNew 1],
                 next_sub_id := 2, allocs := 1\<rparr>"
  have "conn_step conn_init ?c1"
    using conn_step.read_request [of conn_init sample_subscribe]
    by (simp add: conn_init_def MAX_INFLIGHT_REQUESTS_def sample_subscribe_def)
  moreover have "conn_step ?c1 ?c2"
    using conn_step.subscribe_alloc [of sample_subscribe ?c1, OF _ _ sample_topic]
    by (simp add: conn_init_def u64_bound_def sample_subscribe_def) (simp add: numeral_2_eq_2)
  moreover have "conn_step ?c2 sample_conn"
    using conn_step.subscribe_commit [of sample_subscribe "lit ''mail.new''" MailNew 1 ?c2]
    by (simp add: conn_init_def commit_subscribe_def MAX_SUBS_PER_CONN_def sample_conn_def finish_def
          subs_insert_def subs_remove_def sample_subscribe_def)
  ultimately show ?thesis
    unfolding conn_reachable_def by (meson rtranclp.rtrancl_into_rtrancl rtranclp.rtrancl_refl)
qed

text \<open>
  C25: under every interleaving of the request handlers of a connection, the subscription table
  holds at most 32 entries with distinct ids, and at most 128 handlers are tracked: two
  pipelined subscribes cannot both pass the length check.
\<close>

theorem connection_bounds:
  assumes "conn_reachable c"
  shows "length (subs c) \<le> 32 \<and> distinct (map fst (subs c)) \<and>
         length (handlers c) + finished c \<le> 128"
  using conn_bounds.reachable_inv [of c] assms
  by (simp add: conn_reachable_def bounded_def MAX_SUBS_PER_CONN_def MAX_INFLIGHT_REQUESTS_def)

theorem connection_bounds_witness:
  "conn_reachable sample_conn \<and> length (subs sample_conn) \<le> 32 \<and>
   distinct (map fst (subs sample_conn)) \<and> length (handlers sample_conn) + finished sample_conn \<le> 128"
  using connection_bounds [OF sample_conn_reachable] sample_conn_reachable by simp

text \<open>
  Every request is answered at most once and every response answers a request.  The ids of
  the responses queued so far, with the ids of the requests still being handled, are contained
  (as a multiset) in the ids received on the connection.
\<close>

theorem answered_at_most_once:
  assumes "conn_reachable c"
  shows "mset (response_ids (out c)) + mset (handler_ids (handlers c)) \<subseteq># mset (received c)"
  using conn_answers.reachable_inv [of c] assms by (simp add: conn_reachable_def answered_once_def)

theorem answered_at_most_once_witness:
  "conn_reachable sample_conn \<and>
   mset (response_ids (out sample_conn)) + mset (handler_ids (handlers sample_conn))
     \<subseteq># mset (received sample_conn)"
  using answered_at_most_once [OF sample_conn_reachable] sample_conn_reachable by simp

text \<open>
  Events reach the right subscription.  As long as the 64-bit id counter has not wrapped,
  an id is granted to one subscription only, and every event queued under an id carries the
  topic that id was granted for.
\<close>

theorem events_carry_granted_topic:
  assumes "conn_reachable c" and "allocs c + 1 < u64_bound"
  shows "distinct (map fst (granted c)) \<and>
         list_all (\<lambda>(i, t). map_of (granted c) i = Some t) (event_subs (out c))"
proof -
  have g: "distinct (map fst (granted c))"
    using conn_ids.reachable_inv [of c] assms by (auto simp: conn_reachable_def ids_fresh_def)
  then have "map_of (granted c) i = Some t" if "(i, t) \<in> set (event_subs (out c))" for i t
    using conn_events.reachable_inv [of c] assms(1) that
    by (intro map_of_is_SomeI) (auto simp: conn_reachable_def events_granted_def)
  with g show ?thesis by (auto simp: list_all_iff)
qed

theorem events_carry_granted_topic_witness:
  "conn_reachable sample_conn \<and> allocs sample_conn + 1 < u64_bound \<and>
   distinct (map fst (granted sample_conn)) \<and>
   list_all (\<lambda>(i, t). map_of (granted sample_conn) i = Some t) (event_subs (out sample_conn))"
proof -
  have "allocs sample_conn + 1 < u64_bound" by (simp add: sample_conn_def u64_bound_def)
  with events_carry_granted_topic [OF sample_conn_reachable] sample_conn_reachable show ?thesis by blast
qed

subsection \<open>The accept loop\<close>

text \<open>
  \<open>conn_count\<close> is the shared counter; \<open>open_conns\<close> counts the connection tasks that run.  A task
  that ends decrements the counter.
\<close>

record accept_state =
  conn_count :: nat
  open_conns :: nat
  cancelled :: bool

definition accept_init :: accept_state where
  "accept_init = \<lparr>conn_count = 0, open_conns = 0, cancelled = False\<rparr>"

definition accept_connection :: "accept_state \<Rightarrow> accept_state" where
  "accept_connection a =
     (if conn_count a \<ge> MAX_CONNECTIONS then a
      else a\<lparr>conn_count := conn_count a + 1, open_conns := open_conns a + 1\<rparr>)"

inductive accept_step :: "accept_state \<Rightarrow> accept_state \<Rightarrow> bool" where
  accepted: "\<not> cancelled a \<Longrightarrow> accept_step a (accept_connection a)"
| connection_ends:
    "open_conns a = Suc n \<Longrightarrow> accept_step a (a\<lparr>open_conns := n, conn_count := conn_count a - 1\<rparr>)"
| cancel: "accept_step a (a\<lparr>cancelled := True\<rparr>)"

definition accept_inv :: "accept_state \<Rightarrow> bool" where
  "accept_inv a \<longleftrightarrow> conn_count a = open_conns a \<and> open_conns a \<le> MAX_CONNECTIONS"

interpretation accept: step_invariant accept_init accept_step accept_inv
proof
  show "accept_step a b \<Longrightarrow> accept_inv a \<Longrightarrow> accept_inv b" for a b
    by (induction rule: accept_step.induct) (auto simp: accept_inv_def accept_connection_def)
qed (simp add: accept_inv_def accept_init_def)

text \<open>
  The daemon never serves more than 64 connections at once, and its counter is the number
  of connections being served.
\<close>

theorem at_most_64_connections:
  assumes "accept_step\<^sup>*\<^sup>* accept_init a"
  shows "open_conns a \<le> 64 \<and> conn_count a = open_conns a"
  using accept.reachable_inv [OF assms] by (simp add: accept_inv_def MAX_CONNECTIONS_def)

theorem at_most_64_connections_witness:
  "accept_step\<^sup>*\<^sup>* accept_init (accept_connection accept_init) \<and>
   open_conns (accept_connection accept_init) \<le> 64 \<and>
   conn_count (accept_connection accept_init) = open_conns (accept_connection accept_init)"
proof -
  have "accept_step\<^sup>*\<^sup>* accept_init (accept_connection accept_init)"
    using accept_step.accepted [of accept_init] by (simp add: accept_init_def r_into_rtranclp)
  with at_most_64_connections [OF this] show ?thesis by simp
qed

end
