(* ===== verification/Wire.thy ===== *)
theory Wire
  imports Prelude
begin

text \<open>
  The length-prefixed frame codec, \<^verbatim>\<open>src/ipc/wire.rs\<close>, and the framing done by the
  connection writer of \<^verbatim>\<open>src/ipc/server.rs\<close>.

  A transport to read from is the bytes still to come and what follows them (end of file or
  an I/O error); a transport to write to is the bytes written and an optional byte count
  after which it fails.  \<^verbatim>\<open>serde_json\<close>'s encoder and decoder are parameters.
\<close>

datatype io_error = UnexpectedEof | OtherIo rstr

datatype 'j WireError =
    Io io_error
  | FrameTooLarge nat
  | Json 'j
  | EmptyPayload
  | Closed

definition MAX_FRAME_BYTES :: nat where
  "MAX_FRAME_BYTES = 4 * 1024 * 1024"

record reader =
  r_bytes :: "byte list"
  r_end :: io_error

record writer =
  w_written :: "byte list"
  w_fail_after :: "nat option"

subsection \<open>Transport primitives\<close>

definition read_exact :: "nat \<Rightarrow> reader \<Rightarrow> (io_error, byte list) result \<times> reader" where
  "read_exact n r =
     (if n \<le> length (r_bytes r)
      then (Ok (take n (r_bytes r)), r\<lparr>r_bytes := drop n (r_bytes r)\<rparr>)
      else (Err (r_end r), r\<lparr>r_bytes := []\<rparr>))"

definition write_all :: "byte list \<Rightarrow> writer \<Rightarrow> (io_error, unit) result \<times> writer" where
  "write_all bs w =
     (case w_fail_after w of
        None \<Rightarrow> (Ok (), w\<lparr>w_written := w_written w @ bs\<rparr>)
      | Some k \<Rightarrow>
          (if length bs \<le> k
           then (Ok (), w\<lparr>w_written := w_written w @ bs, w_fail_after := Some (k - length bs)\<rparr>)
           else (Err (OtherIo []), w\<lparr>w_written := w_written w @ take k bs, w_fail_after := Some 0\<rparr>)))"

text \<open>\<^verbatim>\<open>u32::to_be_bytes\<close> and \<^verbatim>\<open>u32::from_be_bytes\<close>.\<close>

definition to_be_bytes :: "32 word \<Rightarrow> byte list" where
  "to_be_bytes w =
     (let n = unat w in
      [of_nat (n div 16777216), of_nat (n div 65536), of_nat (n div 256), of_nat n])"

definition from_be_bytes :: "byte list \<Rightarrow> 32 word" where
  "from_be_bytes bs =
     of_nat (foldl (\<lambda>acc b. acc * 256 + unat b) 0 bs)"

subsection \<open>Frames\<close>

definition read_frame :: "(byte list \<Rightarrow> ('j, 'v) result) \<Rightarrow> reader \<Rightarrow> ('j WireError, 'v) result \<times> reader" where
  "read_frame from_slice r =
     (case read_exact 4 r of
        (Err e, r1) \<Rightarrow> (if e = UnexpectedEof then (Err Closed, r1) else (Err (Io e), r1))
      | (Ok len_buf, r1) \<Rightarrow>
          (let len = unat (from_be_bytes len_buf) in
           if len = 0 then (Err EmptyPayload, r1)
           else if len > MAX_FRAME_BYTES then (Err (FrameTooLarge len), r1)
           else
             (case read_exact len r1 of
                (Err e, r2) \<Rightarrow> (Err (Io e), r2)
              | (Ok buf, r2) \<Rightarrow> (map_err Json (from_slice buf), r2))))"

definition write_frame :: "('v \<Rightarrow> ('j, byte list) result) \<Rightarrow> 'v \<Rightarrow> writer \<Rightarrow> ('j WireError, unit) result \<times> writer" where
  "write_frame to_vec value w =
     (case to_vec value of
        Err e \<Rightarrow> (Err (Json e), w)
      | Ok payload \<Rightarrow>
          (if length payload > MAX_FRAME_BYTES then (Err (FrameTooLarge (length payload)), w)
           else
             (case write_all (to_be_bytes (of_nat (length payload))) w of
                (Err e, w1) \<Rightarrow> (Err (Io e), w1)
              | (Ok _, w1) \<Rightarrow>
                  (case write_all payload w1 of
                     (Err e, w2) \<Rightarrow> (Err (Io e), w2)
                   | (Ok _, w2) \<Rightarrow> (Ok (), w2)))))"

text \<open>
  One round of the connection writer task: an encoding failure is logged and skipped, a write
  failure ends the task (the boolean).  There is no size check here.
\<close>

definition writer_task_step :: "('v \<Rightarrow> ('j, byte list) result) \<Rightarrow> 'v \<Rightarrow> writer \<Rightarrow> bool \<times> writer" where
  "writer_task_step encode frame w =
     (case encode frame of
        Err e \<Rightarrow> (True, w)
      | Ok buf \<Rightarrow>
          (case write_all (to_be_bytes (of_nat (length buf))) w of
             (Err e, w1) \<Rightarrow> (False, w1)
           | (Ok _, w1) \<Rightarrow>
               (case write_all buf w1 of
                  (Err e, w2) \<Rightarrow> (False, w2)
                | (Ok _, w2) \<Rightarrow> (True, w2))))"

lemma read_exact_length: "snd (read_exact n r) = r' \<Longrightarrow> length (r_bytes r') \<le> length (r_bytes r)"
  by (auto simp: read_exact_def split: if_splits)

lemma read_frame_consumes:
  assumes "read_frame from_slice r = (Ok v, r')"
  shows "length (r_bytes r') < length (r_bytes r)"
proof -
  from assms have four: "4 \<le> length (r_bytes r)"
    by (auto simp: read_frame_def read_exact_def split: if_splits)
  with assms have "length (r_bytes r') \<le> length (r_bytes r) - 4"
    by (auto simp: read_frame_def read_exact_def Let_def split: if_splits)
  with four show ?thesis by simp
qed

text \<open>Reading a stream of frames until the first error, as the reader loop does.\<close>

function read_frames :: "(byte list \<Rightarrow> ('j, 'v) result) \<Rightarrow> reader \<Rightarrow> 'v list \<times> 'j WireError" where
  "read_frames from_slice r =
     (case read_frame from_slice r of
        (Err e, _) \<Rightarrow> ([], e)
      | (Ok v, r') \<Rightarrow> (case read_frames from_slice r' of (vs, e) \<Rightarrow> (v # vs, e)))"
  by pat_completeness auto

termination
  by (relation "measure (\<lambda>(f, r). length (r_bytes r))") (auto dest: read_frame_consumes [OF sym])

declare read_frames.simps [simp del]

subsection \<open>Round trips\<close>

lemma be_digits:
  fixes n :: nat
  assumes "n < 4294967296"
  shows "((n div 16777216 mod 256 * 256 + n div 65536 mod 256) * 256 + n div 256 mod 256) * 256 +
    n mod 256 = n"
proof -
  have "n div 65536 = n div 256 div 256" "n div 16777216 = n div 256 div 256 div 256"
    by (simp_all add: div_mult2_eq [symmetric])
  moreover have "n div 16777216 mod 256 = n div 16777216" using assms by simp
  ultimately show ?thesis by (simp add: div_mult_mod_eq)
qed

lemma from_to_be_bytes: "from_be_bytes (to_be_bytes w) = w"
proof -
  have "unat w < 2 ^ LENGTH(32)" by (rule unsigned_less)
  then have n: "unat w < 4294967296" by simp
  have e: "unat (of_nat k :: byte) = k mod 256" for k
    by (simp add: unat_of_nat)
  have "foldl (\<lambda>acc b. acc * 256 + unat b) 0 (to_be_bytes w) = unat w"
    unfolding to_be_bytes_def Let_def foldl.simps e mult_zero_left add_0_left
    by (rule be_digits [OF n])
  then show ?thesis by (simp add: from_be_bytes_def)
qed

lemma length_to_be_bytes [simp]: "length (to_be_bytes w) = 4"
  by (simp add: to_be_bytes_def Let_def)

lemma unat_len_prefix:
  "n \<le> MAX_FRAME_BYTES \<Longrightarrow> unat (from_be_bytes (to_be_bytes (of_nat n))) = n"
  by (simp add: from_to_be_bytes unat_of_nat MAX_FRAME_BYTES_def)

lemma read_frame_of_payload:
  assumes "payload \<noteq> []" and "length payload \<le> MAX_FRAME_BYTES"
    and "r_bytes r = to_be_bytes (of_nat (length payload)) @ payload @ rest"
  shows "read_frame from_slice r = (map_err Json (from_slice payload), r\<lparr>r_bytes := rest\<rparr>)"
  using assms unat_len_prefix [OF assms(2)]
  by (simp add: read_frame_def read_exact_def Let_def)

lemma write_frame_bytes:
  assumes "write_frame to_vec v w = (Ok (), w')" and "w_fail_after w = None"
  shows "\<exists>payload. to_vec v = Ok payload \<and> length payload \<le> MAX_FRAME_BYTES \<and>
     w' = w\<lparr>w_written := w_written w @ to_be_bytes (of_nat (length payload)) @ payload\<rparr>"
  using assms by (auto simp: write_frame_def write_all_def split: sum.splits if_splits)

text \<open>What the frame codec relies on of the JSON codec: decoding inverts encoding, and no
  encoding is empty.\<close>

definition json_codec :: "('v \<Rightarrow> ('j, byte list) result) \<Rightarrow> (byte list \<Rightarrow> ('j, 'v) result) \<Rightarrow> bool" where
  "json_codec to_vec from_slice \<longleftrightarrow>
     (\<forall>v bs. to_vec v = Ok bs \<longrightarrow> bs \<noteq> [] \<and> from_slice bs = Ok v)"

fun write_frames :: "('v \<Rightarrow> ('j, byte list) result) \<Rightarrow> 'v list \<Rightarrow> writer \<Rightarrow> ('j WireError, unit) result \<times> writer" where
  "write_frames to_vec [] w = (Ok (), w)"
| "write_frames to_vec (v # vs) w =
     (case write_frame to_vec v w of
        (Err e, w1) \<Rightarrow> (Err e, w1)
      | (Ok _, w1) \<Rightarrow> write_frames to_vec vs w1)"

lemma write_frames_read_frames:
  assumes "json_codec to_vec from_slice" and "w_fail_after w = None"
    and "write_frames to_vec vs w = (Ok (), w')"
  shows "\<exists>bs. w_written w' = w_written w @ bs \<and> w_fail_after w' = None \<and>
     read_frames from_slice \<lparr>r_bytes = bs, r_end = UnexpectedEof\<rparr> = (vs, Closed)"
  using assms(2,3)
proof (induction vs arbitrary: w)
  case Nil
  then show ?case
    by (intro exI [of _ "[]"]) (simp add: read_frames.simps read_frame_def read_exact_def)
next
  case (Cons v vs)
  from Cons.prems(2) obtain w1 where w1: "write_frame to_vec v w = (Ok (), w1)"
      "write_frames to_vec vs w1 = (Ok (), w')"
    by (auto split: prod.splits sum.splits)
  from write_frame_bytes [OF w1(1) Cons.prems(1)] obtain p where p: "to_vec v = Ok p"
      "length p \<le> MAX_FRAME_BYTES" "w1 = w\<lparr>w_written := w_written w @ to_be_bytes (of_nat (length p)) @ p\<rparr>"
    by blast
  from Cons.IH [OF _ w1(2)] p(3) Cons.prems(1) obtain bs where bs:
      "w_written w' = w_written w1 @ bs" "w_fail_after w' = None"
      "read_frames from_slice \<lparr>r_bytes = bs, r_end = UnexpectedEof\<rparr> = (vs, Closed)"
    by auto
  have ok: "p \<noteq> []" "from_slice p = Ok v"
    using assms(1) p(1) by (auto simp: json_codec_def)
  have "read_frame from_slice
      \<lparr>r_bytes = to_be_bytes (of_nat (length p)) @ p @ bs, r_end = UnexpectedEof\<rparr> =
      (Ok v, \<lparr>r_bytes = bs, r_end = UnexpectedEof\<rparr>)"
    using read_frame_of_payload [OF ok(1) p(2), of _ bs from_slice] ok(2) by simp
  then have "read_frames from_slice
      \<lparr>r_bytes = to_be_bytes (of_nat (length p)) @ p @ bs, r_end = UnexpectedEof\<rparr> = (v # vs, Closed)"
    by (subst read_frames.simps) (simp add: bs(3))
  then show ?case
    using bs p(3) by (intro exI [of _ "to_be_bytes (of_nat (length p)) @ p @ bs"]) simp
qed

text \<open>
  C27: frames survive the wire.  Whatever values are written as frames without error, a peer
  that reads the bytes up to end of file gets exactly those values, in order, and then a
  clean close.
\<close>

theorem wire_roundtrip:
  assumes "json_codec to_vec from_slice"
    and "write_frames to_vec vs \<lparr>w_written = [], w_fail_after = None\<rparr> = (Ok (), w')"
  shows "read_frames from_slice \<lparr>r_bytes = w_written w', r_end = UnexpectedEof\<rparr> = (vs, Closed)"
  using write_frames_read_frames [OF assms(1) _ assms(2)] by auto

text \<open>A concrete codec for one-byte payloads.\<close>

definition sample_to_vec :: "byte \<Rightarrow> (unit, byte list) result" where
  "sample_to_vec b = Ok [b]"

definition sample_from_slice :: "byte list \<Rightarrow> (unit, byte) result" where
  "sample_from_slice bs = (case bs of [b] \<Rightarrow> Ok b | _ \<Rightarrow> Err ())"

lemma sample_codec: "json_codec sample_to_vec sample_from_slice"
  by (simp add: json_codec_def sample_to_vec_def sample_from_slice_def)

theorem wire_roundtrip_witness:
  "read_frames sample_from_slice \<lparr>r_bytes = [0, 0, 0, 1, 7, 0, 0, 0, 1, 9], r_end = UnexpectedEof\<rparr> =
   ([7, 9], Closed)"
proof -
  have "write_frames sample_to_vec [7, 9] \<lparr>w_written = [], w_fail_after = None\<rparr> =
      (Ok (), \<lparr>w_written = [0, 0, 0, 1, 7, 0, 0, 0, 1, 9], w_fail_after = None\<rparr>)"
    by (simp add: write_frame_def sample_to_vec_def MAX_FRAME_BYTES_def write_all_def
        to_be_bytes_def Let_def)
  from wire_roundtrip [OF sample_codec this] show ?thesis by simp
qed

subsection \<open>Bounds and errors\<close>

text \<open>
  The reader is bounded.  A frame is decoded only from between 1 byte and 4 MiB; a zero
  length and an announced length above the cap are refused right after the four prefix
  bytes, without waiting for or consuming any payload.
\<close>

theorem read_frame_bounds:
  assumes "4 \<le> length (r_bytes r)"
  shows "let n = unat (from_be_bytes (take 4 (r_bytes r))) in
     (n = 0 \<longrightarrow> read_frame from_slice r = (Err EmptyPayload, r\<lparr>r_bytes := drop 4 (r_bytes r)\<rparr>)) \<and>
     (n > MAX_FRAME_BYTES \<longrightarrow>
        read_frame from_slice r = (Err (FrameTooLarge n), r\<lparr>r_bytes := drop 4 (r_bytes r)\<rparr>)) \<and>
     (\<forall>v r'. read_frame from_slice r = (Ok v, r') \<longrightarrow>
        0 < n \<and> n \<le> MAX_FRAME_BYTES \<and> from_slice (take n (drop 4 (r_bytes r))) = Ok v \<and>
        r_bytes r' = drop (4 + n) (r_bytes r))"
  using assms
  by (auto simp: Let_def read_frame_def read_exact_def map_err_Inr_iff add.commute split: if_splits)

theorem read_frame_bounds_witness:
  "4 \<le> length (r_bytes \<lparr>r_bytes = [0, 0, 0, 0, 5] :: byte list, r_end = UnexpectedEof\<rparr>) \<and>
   read_frame sample_from_slice \<lparr>r_bytes = [0, 0, 0, 0, 5], r_end = UnexpectedEof\<rparr> =
     (Err EmptyPayload, \<lparr>r_bytes = [5], r_end = UnexpectedEof\<rparr>)"
proof -
  let ?r = "\<lparr>r_bytes = [0, 0, 0, 0, 5] :: byte list, r_end = UnexpectedEof\<rparr>"
  have h: "4 \<le> length (r_bytes ?r)" by simp
  have "unat (from_be_bytes (take 4 (r_bytes ?r))) = 0"
    by (simp add: from_be_bytes_def)
  with h read_frame_bounds [OF h, of sample_from_slice] show ?thesis by (simp add: Let_def)
qed

text \<open>
  A peer that dies inside the length prefix is indistinguishable from a clean close: one
  to three bytes followed by end of file are reported as Closed.
\<close>

lemma truncated_prefix_reads_as_closed:
  assumes "length (r_bytes r) < 4" and "r_end r = UnexpectedEof"
  shows "fst (read_frame from_slice r) = Err Closed"
  using assms by (simp add: read_frame_def read_exact_def)

lemma truncated_prefix_reads_as_closed_witness:
  "fst (read_frame sample_from_slice \<lparr>r_bytes = [0, 0], r_end = UnexpectedEof\<rparr>) = Err Closed"
  by (rule truncated_prefix_reads_as_closed) simp_all

text \<open>
  The daemon's connection writer applies no size limit, so an outbound frame above the
  cap is sent in full and the peer's reader then refuses it: the response is lost and the
  stream is left in the middle of the payload.
\<close>

theorem writer_task_oversize_frame_unreadable:
  assumes "encode frame = Ok buf" and "MAX_FRAME_BYTES < length buf" and "length buf < 2 ^ 32"
  shows "\<exists>w'. writer_task_step encode frame \<lparr>w_written = [], w_fail_after = None\<rparr> = (True, w') \<and>
     read_frame from_slice \<lparr>r_bytes = w_written w', r_end = e\<rparr> =
       (Err (FrameTooLarge (length buf)), \<lparr>r_bytes = buf, r_end = e\<rparr>)"
proof -
  have "unat (of_nat (length buf) :: 32 word) = length buf"
    using assms(3) by (simp add: unat_of_nat)
  moreover have "buf \<noteq> []" using assms(2) by auto
  ultimately show ?thesis
    using assms(1,2)
    by (simp add: writer_task_step_def write_all_def read_frame_def read_exact_def Let_def
        from_to_be_bytes MAX_FRAME_BYTES_def)
qed

theorem writer_task_oversize_frame_unreadable_witness:
  "\<exists>w'. writer_task_step (\<lambda>_::unit. Ok (replicate 4194305 (0 :: byte)) :: (unit, byte list) result) ()
       \<lparr>w_written = [], w_fail_after = None\<rparr> = (True, w') \<and>
     read_frame sample_from_slice \<lparr>r_bytes = w_written w', r_end = UnexpectedEof\<rparr> =
       (Err (FrameTooLarge 4194305), \<lparr>r_bytes = replicate 4194305 0, r_end = UnexpectedEof\<rparr>)"
  using writer_task_oversize_frame_unreadable
    [of "\<lambda>_::unit. Ok (replicate 4194305 (0 :: byte))" "()" "replicate 4194305 0"
        sample_from_slice UnexpectedEof]
  by (simp add: MAX_FRAME_BYTES_def)

end
