(* ===== verification/IpcClient.thy ===== *)
theory IpcClient
  imports IpcProtocol Wire
begin

text \<open>
  The client end of the daemon socket, \<^verbatim>\<open>src/ipc/client.rs\<close>: requests in flight keyed by id,
  the reader task that demultiplexes inbound frames, and what happens when it stops.  A step is
  one atomic action: registering and writing a request, or one turn of the reader loop.
  \<open>outcomes\<close> records what each awaiting \<^verbatim>\<open>request\<close> call returned.
\<close>

datatype ClientError =
    ClientIo io_error
  | ClientWire "rstr WireError"
  | ClientJson rstr
  | ClientClosed
  | EmptyResponse rstr
  | ServerReturned rstr rstr

record client =
  next_id :: nat
  pending :: "nat list"
  reader_alive :: bool
  responses :: "Response list"
  events :: "Event list"
  sent :: "Request list"
  outcomes :: "(nat \<times> (ClientError, Response) result) list"

definition connected :: client where
  "connected = \<lparr>next_id = 1, pending = [], reader_alive = True, responses = [], events = [],
                sent = [], outcomes = []\<rparr>"

subsection \<open>Writing a request\<close>

text \<open>
  \<^verbatim>\<open>Client::write_frame\<close>: the size check, then the prefix and the payload.  \<open>to_vec\<close> is
  \<^verbatim>\<open>serde_json::to_vec\<close>.
\<close>

definition client_write_frame ::
  "(json \<Rightarrow> (rstr, byte list) result) \<Rightarrow> json \<Rightarrow> writer \<Rightarrow> (ClientError, unit) result \<times> writer" where
  "client_write_frame to_vec value w =
     (case to_vec value of
        Err e \<Rightarrow> (Err (ClientJson e), w)
      | Ok payload \<Rightarrow>
          if length payload > MAX_FRAME_BYTES
          then (Err (ClientWire (FrameTooLarge (length payload))), w)
          else
            (case write_all (to_be_bytes (of_nat (length payload))) w of
               (Err e, w1) \<Rightarrow> (Err (ClientIo e), w1)
             | (Ok _, w1) \<Rightarrow>
                 (case write_all payload w1 of
                    (Err e, w2) \<Rightarrow> (Err (ClientIo e), w2)
                  | (Ok _, w2) \<Rightarrow> (Ok (), w2))))"

definition make_request :: "client \<Rightarrow> rstr \<Rightarrow> json \<Rightarrow> Request" where
  "make_request c op_name args = \<lparr>req_id = next_id c, req_op = op_name, req_args = args\<rparr>"

text \<open>\<^verbatim>\<open>Client::request\<close> up to its await: register, write, and on a write error unregister.\<close>

definition begin_request ::
  "client \<Rightarrow> rstr \<Rightarrow> json \<Rightarrow> (ClientError, unit) result \<Rightarrow> client" where
  "begin_request c op_name args written =
     (let i = next_id c;
          c1 = c\<lparr>next_id := (i + 1) mod u64_bound, pending := i # removeAll i (pending c)\<rparr> in
      case written of
        Ok _ \<Rightarrow> c1\<lparr>sent := sent c @ [make_request c op_name args]\<rparr>
      | Err e \<Rightarrow> c1\<lparr>pending := removeAll i (pending c1), outcomes := (i, Err e) # outcomes c\<rparr>)"

subsection \<open>The reader task\<close>

definition reader_turn :: "client \<Rightarrow> Frame \<Rightarrow> client" where
  "reader_turn c frame =
     (case frame of
        FrameResponse r \<Rightarrow>
          if resp_id r \<in> set (pending c)
          then c\<lparr>pending := removeAll (resp_id r) (pending c),
                 outcomes := (resp_id r, Ok r) # outcomes c\<rparr>
          else c\<lparr>responses := responses c @ [r]\<rparr>
      | FrameEvent e \<Rightarrow> c\<lparr>events := events c @ [e]\<rparr>
      | FrameRequest _ \<Rightarrow> c)"

text \<open>The loop ends on any read error: every awaiting request is woken with \<^verbatim>\<open>Closed\<close>.\<close>

definition reader_exit :: "client \<Rightarrow> client" where
  "reader_exit c =
     c\<lparr>reader_alive := False, pending := [],
       outcomes := map (\<lambda>i. (i, Err ClientClosed)) (pending c) @ outcomes c\<rparr>"

inductive client_step :: "client \<Rightarrow> client \<Rightarrow> bool" where
  request: "client_step c (begin_request c op_name args written)"
| frame: "reader_alive c \<Longrightarrow> client_step c (reader_turn c f)"
| read_error: "reader_alive c \<Longrightarrow> client_step c (reader_exit c)"

inductive_cases client_stepE: "client_step c c'"

text \<open>\<^verbatim>\<open>Client::subscribe\<close>, from the response of the underlying request.\<close>

definition subscribe_result :: "Response \<Rightarrow> (ClientError, nat) result" where
  "subscribe_result resp =
     (if \<not> resp_ok resp
      then (let e = unwrap_or \<lparr>err_code = lit ''unknown'', err_message = lit ''subscribe failed''\<rparr>
                      (resp_error resp) in
            Err (ServerReturned (err_code e) (err_message e)))
      else ok_or (EmptyResponse (lit ''subscribe missing sub_id''))
             (Option.bind (value_get (resp_data resp) (lit ''sub_id'')) as_u64))"

subsection \<open>Correlation\<close>

definition correlated :: "client \<Rightarrow> bool" where
  "correlated c \<longleftrightarrow> list_all (\<lambda>(i, r). case r of Ok resp \<Rightarrow> resp_id resp = i | Err _ \<Rightarrow> True) (outcomes c)"

interpretation client_correlation: step_invariant connected client_step correlated
proof
  show "client_step c c' \<Longrightarrow> correlated c \<Longrightarrow> correlated c'" for c c'
    by (induction rule: client_step.induct)
       (auto simp: correlated_def begin_request_def reader_turn_def reader_exit_def Let_def
             list_all_iff split: sum.splits Frame.splits)
qed (simp add: correlated_def connected_def)

text \<open>
  A request is only ever completed with the response that carries its id, whatever order
  the daemon answers in and whatever else arrives on the socket.
\<close>

theorem responses_match_requests:
  assumes "client_step\<^sup>*\<^sup>* connected c"
  shows "list_all (\<lambda>(i, r). case r of Ok resp \<Rightarrow> resp_id resp = i | Err _ \<Rightarrow> True) (outcomes c)"
  using client_correlation.reachable_inv [OF assms] by (simp add: correlated_def)

definition sample_answered :: client where
  "sample_answered = reader_turn (begin_request connected (lit ''ping'') JNull (Ok ()))
     (FrameResponse (response_ok 1 JNull))"

theorem responses_match_requests_witness:
  "client_step\<^sup>*\<^sup>* connected sample_answered \<and>
   list_all (\<lambda>(i, r). case r of Ok resp \<Rightarrow> resp_id resp = i | Err _ \<Rightarrow> True) (outcomes sample_answered)"
proof -
  let ?c1 = "begin_request connected (lit ''ping'') JNull (Ok ())"
  have "client_step connected ?c1" by (rule client_step.request)
  moreover have "client_step ?c1 sample_answered"
    unfolding sample_answered_def
    by (rule client_step.frame) (simp add: begin_request_def connected_def Let_def)
  ultimately have "client_step\<^sup>*\<^sup>* connected sample_answered" by simp
  with responses_match_requests [OF this] show ?thesis by simp
qed

subsection \<open>Requests after the reader has stopped\<close>

definition stuck :: "nat \<Rightarrow> client \<Rightarrow> bool" where
  "stuck i c \<longleftrightarrow> \<not> reader_alive c \<and> i \<in> set (pending c) \<and> i \<notin> fst ` set (outcomes c) \<and>
     i < next_id c"

lemma stuck_step:
  assumes "client_step c c'" and "stuck i c" and "next_id c + 1 < u64_bound"
  shows "stuck i c'"
  using assms
  by (auto simp: stuck_def begin_request_def Let_def split: sum.splits elim!: client_stepE)

text \<open>
  C28: once the reader task has stopped while the socket still accepts writes, for instance
  after the daemon sent a frame above the size limit, a new request is registered, written, and
  never completed: no further action of the client gives it an outcome (until the id counter
  has run through all 64-bit values).
\<close>

theorem request_after_reader_exit_never_returns:
  assumes "\<not> reader_alive c" and "next_id c \<notin> fst ` set (outcomes c)"
    and "(\<lambda>a b. client_step a b \<and> next_id a + 1 < u64_bound)\<^sup>*\<^sup>*
           (begin_request c op_name args (Ok ())) c'"
    and "next_id c + 1 < u64_bound"
  shows "next_id c \<in> set (pending c') \<and> next_id c \<notin> fst ` set (outcomes c')"
proof -
  have "stuck (next_id c) (begin_request c op_name args (Ok ()))"
    using assms(1,2,4) by (simp add: stuck_def begin_request_def Let_def)
  with assms(3) have "stuck (next_id c) c'"
    by (induction rule: rtranclp_induct) (auto intro: stuck_step)
  then show ?thesis by (simp add: stuck_def)
qed

theorem request_after_reader_exit_never_returns_witness:
  "(let c = reader_exit connected; c' = begin_request c (lit ''ping'') JNull (Ok ()) in
     client_step\<^sup>*\<^sup>* connected c \<and> \<not> reader_alive c \<and> next_id c \<notin> fst ` set (outcomes c) \<and>
     next_id c + 1 < u64_bound \<and> next_id c \<in> set (pending c') \<and> next_id c \<notin> fst ` set (outcomes c'))"
proof -
  let ?c = "reader_exit connected"
  have "client_step\<^sup>*\<^sup>* connected ?c"
    using client_step.read_error [of connected] by (simp add: connected_def r_into_rtranclp)
  moreover have "\<not> reader_alive ?c" "next_id ?c \<notin> fst ` set (outcomes ?c)" "next_id ?c + 1 < u64_bound"
    by (simp_all add: reader_exit_def connected_def u64_bound_def)
  ultimately show ?thesis
    using request_after_reader_exit_never_returns [of ?c "lit ''ping''" JNull, OF _ _ rtranclp.rtrancl_refl]
    by (simp only: Let_def) blast
qed

end
