(* ===== verification/McpProtocol.thy ===== *)
theory McpProtocol
  imports Json
begin

text \<open>
  JSON-RPC framing of the MCP bridge, \<^verbatim>\<open>src/mcp/protocol.rs\<close>.  The text parser
  \<^verbatim>\<open>serde_json::from_str\<close> is the parameter \<open>from_str\<close> (\<open>Err\<close> carries the message of the
  parse error).
\<close>

definition JSONRPC_VERSION :: rstr where
  "JSONRPC_VERSION = lit ''2.0''"

definition MCP_PROTOCOL_VERSION :: rstr where
  "MCP_PROTOCOL_VERSION = lit ''2025-06-18''"

definition CARGO_PKG_VERSION :: rstr where
  "CARGO_PKG_VERSION = lit ''0.1.0''"

datatype Incoming =
    Request json rstr json
  | Notification rstr json
  | Response

record JsonRpcError =
  rpc_code :: int
  rpc_message :: rstr
  rpc_data :: "json option"

definition parse_error :: "rstr \<Rightarrow> JsonRpcError" where
  "parse_error message = \<lparr>rpc_code = - 32700, rpc_message = message, rpc_data = None\<rparr>"

definition invalid_request :: "rstr \<Rightarrow> JsonRpcError" where
  "invalid_request message = \<lparr>rpc_code = - 32600, rpc_message = message, rpc_data = None\<rparr>"

definition method_not_found :: "rstr \<Rightarrow> JsonRpcError" where
  "method_not_found m =
     \<lparr>rpc_code = - 32601, rpc_message = lit ''method not found: '' @ m, rpc_data = None\<rparr>"

definition invalid_params :: "rstr \<Rightarrow> JsonRpcError" where
  "invalid_params message = \<lparr>rpc_code = - 32602, rpc_message = message, rpc_data = None\<rparr>"

definition internal_error :: "rstr \<Rightarrow> JsonRpcError" where
  "internal_error message = \<lparr>rpc_code = - 32603, rpc_message = message, rpc_data = None\<rparr>"

definition server_error :: "rstr \<Rightarrow> rstr \<Rightarrow> JsonRpcError" where
  "server_error code message =
     \<lparr>rpc_code = - 32000, rpc_message = message,
      rpc_data = Some (json_object [(lit ''code'', JString code)])\<rparr>"

lemmas rpc_error_defs =
  parse_error_def invalid_request_def method_not_found_def invalid_params_def internal_error_def
  server_error_def

subsection \<open>Building frames\<close>

text \<open>The serialised \<^verbatim>\<open>JsonRpcError\<close>: \<^verbatim>\<open>data\<close> is skipped when absent.\<close>

definition error_json :: "JsonRpcError \<Rightarrow> json" where
  "error_json e = json_object
     ([(lit ''code'', json_int (rpc_code e)), (lit ''message'', JString (rpc_message e))] @
      (case rpc_data e of None \<Rightarrow> [] | Some d \<Rightarrow> [(lit ''data'', d)]))"

definition success_response :: "json \<Rightarrow> json \<Rightarrow> json" where
  "success_response i result = json_object
     [(lit ''jsonrpc'', JString JSONRPC_VERSION), (lit ''id'', i), (lit ''result'', result)]"

definition error_response :: "json \<Rightarrow> JsonRpcError \<Rightarrow> json" where
  "error_response i error = json_object
     [(lit ''jsonrpc'', JString JSONRPC_VERSION), (lit ''id'', i), (lit ''error'', error_json error)]"

definition notification :: "rstr \<Rightarrow> json \<Rightarrow> json" where
  "notification m params = json_object
     [(lit ''jsonrpc'', JString JSONRPC_VERSION), (lit ''method'', JString m), (lit ''params'', params)]"

definition initialize_result :: "rstr option \<Rightarrow> json" where
  "initialize_result client_protocol = json_object
     [(lit ''protocolVersion'', JString (unwrap_or MCP_PROTOCOL_VERSION client_protocol)),
      (lit ''capabilities'',
         json_object [(lit ''tools'', json_object [(lit ''listChanged'', JBool False)])]),
      (lit ''serverInfo'',
         json_object [(lit ''name'', JString (lit ''postblox-mcp'')),
                      (lit ''version'', JString CARGO_PKG_VERSION)])]"

subsection \<open>Parsing frames\<close>

fun is_valid_id :: "json \<Rightarrow> bool" where
  "is_valid_id (JString _) = True"
| "is_valid_id (JNumber _) = True"
| "is_valid_id JNull = True"
| "is_valid_id _ = False"

fun object_params :: "json \<Rightarrow> (JsonRpcError, jobject) result" where
  "object_params JNull = Ok []"
| "object_params (JObject m) = Ok m"
| "object_params _ = Err (invalid_params (lit ''params must be an object''))"

definition parse_value :: "json \<Rightarrow> (json option \<times> JsonRpcError, Incoming) result" where
  "parse_value value =
     (case as_object value of
        None \<Rightarrow> Err (None, invalid_request (lit ''message must be an object''))
      | Some obj \<Rightarrow>
          (let i = obj_get obj (lit ''id'');
               params = unwrap_or JNull (obj_get obj (lit ''params'')) in
           if Option.bind (obj_get obj (lit ''jsonrpc'')) as_str \<noteq> Some JSONRPC_VERSION
           then Err (i, invalid_request (lit ''jsonrpc must be \"2.0\"''))
           else
             (case filter_option (\<lambda>m. m \<noteq> []) (Option.bind (obj_get obj (lit ''method'')) as_str) of
                None \<Rightarrow>
                  if contains_key obj (lit ''result'') \<or> contains_key obj (lit ''error'')
                  then Ok Response
                  else Err (i, invalid_request (lit ''method must be a non-empty string''))
              | Some m \<Rightarrow>
                  (case i of
                     None \<Rightarrow> Ok (Notification m params)
                   | Some v \<Rightarrow>
                       if \<not> is_valid_id v
                       then Err (Some v, invalid_request (lit ''id must be a string, number, or null''))
                       else Ok (Request v m params)))))"

definition parse_line :: "(rstr \<Rightarrow> (rstr, json) result) \<Rightarrow> rstr \<Rightarrow> (json, Incoming) result" where
  "parse_line from_str line =
     (case from_str line of
        Err e \<Rightarrow> Err (error_response JNull (parse_error e))
      | Ok value \<Rightarrow>
          map_err (\<lambda>(i, err). error_response (unwrap_or JNull i) err) (parse_value value))"

subsection \<open>Lemmas\<close>

lemma error_code_get:
  "value_get (error_response i e) (lit ''error'') = Some (error_json e)"
  "value_get (error_response i e) (lit ''id'') = Some i"
  "value_get (error_json e) (lit ''code'') = Some (json_int (rpc_code e))"
  by (simp_all add: error_response_def error_json_def split: option.splits)

lemma parse_value_error:
  "parse_value value = Err (i, err) \<Longrightarrow> rpc_code err = - 32600 \<and> i = value_get value (lit ''id'')"
  by (auto simp: parse_value_def value_get_def invalid_request_def Let_def
           split: option.splits if_splits)

text \<open>
  The bridge understands the frames it writes itself.  A notification is read back with its
  method and parameters; a success or an error response, of any content, is classified as a
  response, so two bridges talking to each other never answer a response.
\<close>

theorem frames_read_back:
  "parse_value (notification (c # m) params) = Ok (Notification (c # m) params) \<and>
   parse_value (success_response i r) = Ok Response \<and>
   parse_value (error_response i e) = Ok Response"
  by (simp add: parse_value_def notification_def success_response_def error_response_def
                contains_key_def Let_def)

text \<open>
  A line that is not accepted is answered with a complete JSON-RPC error object.  Text that
  is not JSON gets code -32700 and a null id; JSON that is not a JSON-RPC 2.0 message gets code
  -32600 and the id the message carried (null if it carried none).  There is no third case.
\<close>

theorem parse_line_outcomes:
  "(\<exists>v m. from_str line = Ok v \<and> parse_value v = Ok m \<and> parse_line from_str line = Ok m) \<or>
   (\<exists>e. from_str line = Err e \<and> parse_line from_str line = Err (error_response JNull (parse_error e))) \<or>
   (\<exists>v err. from_str line = Ok v \<and> rpc_code err = - 32600 \<and>
      parse_line from_str line =
        Err (error_response (unwrap_or JNull (value_get v (lit ''id''))) err))"
proof (cases "from_str line")
  case (Inl e)
  then show ?thesis by (simp add: parse_line_def)
next
  case (Inr v)
  show ?thesis
  proof (cases "parse_value v")
    case (Inl ie)
    obtain i err where "ie = (i, err)" by (cases ie)
    with Inl Inr parse_value_error [of v i err] show ?thesis by (auto simp: parse_line_def)
  next
    case (Inr m)
    with \<open>from_str line = Ok v\<close> show ?thesis by (simp add: parse_line_def)
  qed
qed

text \<open>
  Exactly the well-formed requests are accepted as requests: an object with the version
  string, a non-empty method and an id that is a string, a number or null; absent parameters
  read as null.
\<close>

theorem parse_value_request_iff:
  "parse_value v = Ok (Request i m p) \<longleftrightarrow>
     value_get v (lit ''jsonrpc'') = Some (JString JSONRPC_VERSION) \<and>
     value_get v (lit ''method'') = Some (JString m) \<and> m \<noteq> [] \<and>
     value_get v (lit ''id'') = Some i \<and> is_valid_id i \<and>
     p = unwrap_or JNull (value_get v (lit ''params''))"
  by (auto simp: parse_value_def value_get_def Let_def bind_eq_Some_conv filter_option_Some_iff
           split: option.splits if_splits)

end
