(* ===== verification/SqlQuery.thy ===== *)
theory SqlQuery
  imports Json
begin

text \<open>
  The read-only SQL surface of the agent tool, \<^verbatim>\<open>src/db/sql_query.rs\<close>: the statement filter,
  the wrapping that caps the rows, the conversion of rows to JSON and the budget of a response.
  SQLite and its driver are parameters: \<open>sql_env\<close> holds the table of \<^verbatim>\<open>char::to_uppercase\<close>, the
  rendering of a float, base64, and the stream of rows a text gives.
\<close>

datatype SqlError = Rejected rstr | SqlSqlx rstr

definition MAX_ROWS :: int where
  "MAX_ROWS = 1000"

definition DEFAULT_ROWS :: int where
  "DEFAULT_ROWS = 200"

definition MAX_SQL_BYTES :: nat where
  "MAX_SQL_BYTES = 16 * 1024"

definition MAX_CELL_BYTES :: nat where
  "MAX_CELL_BYTES = 64 * 1024"

definition MAX_RESPONSE_BYTES :: nat where
  "MAX_RESPONSE_BYTES = 1024 * 1024"

definition QUERY_TIMEOUT_MS :: nat where
  "QUERY_TIMEOUT_MS = 2000"

definition USIZE_MAX :: nat where
  "USIZE_MAX = 2 ^ 64 - 1"

definition saturating_add :: "nat \<Rightarrow> nat \<Rightarrow> nat" where
  "saturating_add a b = min (a + b) USIZE_MAX"

text \<open>
  A cell as the driver presents it: the name of its type and what decoding it as each Rust type
  gives.  A float that is not finite is \<open>None\<close> of the inner option.
\<close>

record sqlite_cell =
  cell_raw_error :: "rstr option"
  cell_null :: bool
  cell_type_name :: rstr
  cell_i64 :: "(rstr, int option) result"
  cell_f64 :: "(rstr, rat option option) result"
  cell_text :: "(rstr, rstr option) result"
  cell_blob :: "(rstr, byte list option) result"

type_synonym sqlite_row = "(rstr \<times> sqlite_cell) list"

text \<open>What awaiting the next row gives; the stream is over when no event is left.\<close>

datatype row_event = NextRow sqlite_row | NextError rstr | TimerFires

record sql_env =
  char_to_uppercase :: "rchar \<Rightarrow> rstr"
  float_text :: "rat \<Rightarrow> rstr"
  base64_standard :: "byte list \<Rightarrow> rstr"
  fetch_rows :: "rstr \<Rightarrow> int \<Rightarrow> row_event list"

subsection \<open>The statement filter\<close>

definition FORBIDDEN_KEYWORDS :: "rstr list" where
  "FORBIDDEN_KEYWORDS = map lit
     [''INSERT'', ''UPDATE'', ''DELETE'', ''REPLACE'', ''MERGE'', ''CREATE'', ''DROP'', ''ALTER'',
      ''TRUNCATE'', ''ATTACH'', ''DETACH'', ''VACUUM'', ''REINDEX'', ''BEGIN'', ''COMMIT'',
      ''ROLLBACK'', ''SAVEPOINT'', ''RELEASE'', ''PRAGMA'']"

definition ascii_upper :: "rchar \<Rightarrow> rchar" where
  "ascii_upper c = (if 97 \<le> c \<and> c \<le> 122 then c - 32 else c)"

definition to_ascii_uppercase :: "rstr \<Rightarrow> rstr" where
  "to_ascii_uppercase s = map ascii_upper s"

definition to_uppercase :: "sql_env \<Rightarrow> rstr \<Rightarrow> rstr" where
  "to_uppercase env s = concat (map (char_to_uppercase env) s)"

definition word_char :: "rchar \<Rightarrow> bool" where
  "word_char c \<longleftrightarrow> (48 \<le> c \<and> c \<le> 57) \<or> (65 \<le> c \<and> c \<le> 90) \<or> (97 \<le> c \<and> c \<le> 122) \<or> c = 95"

text \<open>\<^verbatim>\<open>str::split\<close> with a predicate.\<close>

fun split_by :: "(rchar \<Rightarrow> bool) \<Rightarrow> rstr \<Rightarrow> rstr list" where
  "split_by P [] = [[]]"
| "split_by P (c # cs) =
     (if P c then [] # split_by P cs
      else case split_by P cs of
             [] \<Rightarrow> [[c]]
           | w # ws \<Rightarrow> (c # w) # ws)"

definition trim_one_trailing_semicolon :: "rstr \<Rightarrow> rstr" where
  "trim_one_trailing_semicolon sql =
     (let trimmed = trim sql in
      if ends_with trimmed (lit '';'') then trim_end (butlast trimmed) else trimmed)"

definition validate_query :: "sql_env \<Rightarrow> rstr \<Rightarrow> (SqlError, unit) result" where
  "validate_query env sql =
     (if MAX_SQL_BYTES < str_len sql
      then Err (Rejected (lit ''sql string is '' @ show_nat (str_len sql) @ lit '' bytes, exceeds '' @
             show_nat MAX_SQL_BYTES @ lit '' byte limit''))
      else
        (let sql = trim_one_trailing_semicolon sql in
         if sql = [] then Err (Rejected (lit ''statement must not be empty''))
         else
           (case find (\<lambda>token. token \<noteq> [] \<and> token \<in> set FORBIDDEN_KEYWORDS)
                   (split_by (\<lambda>c. \<not> word_char c) (to_uppercase env sql)) of
              Some kw \<Rightarrow> Err (Rejected (lit ''statement contains forbidden keyword: '' @ kw))
            | None \<Rightarrow>
                (let first_token = to_ascii_uppercase
                       (unwrap_or [] (find (\<lambda>token. token \<noteq> []) (split_by (\<lambda>c. \<not> word_char c) sql))) in
                 if first_token \<noteq> lit ''SELECT'' \<and> first_token \<noteq> lit ''WITH''
                 then Err (Rejected (lit ''statement must start with SELECT or WITH''))
                 else Ok ()))))"

subsection \<open>Cells\<close>

definition ensure_cell_bytes :: "rstr \<Rightarrow> rstr \<Rightarrow> nat \<Rightarrow> (SqlError, unit) result" where
  "ensure_cell_bytes column_name value_kind bytes =
     (if MAX_CELL_BYTES < bytes
      then Err (Rejected (value_kind @ lit '' cell '' @ [39] @ column_name @ [39] @ lit '' is '' @
             show_nat bytes @ lit '' bytes, exceeds '' @ show_nat MAX_CELL_BYTES @ lit '' byte limit''))
      else Ok ())"

definition text_cell :: "rstr \<Rightarrow> sqlite_cell \<Rightarrow> (SqlError, json) result" where
  "text_cell column_name cell =
     and_then (map_err SqlSqlx (cell_text cell)) (\<lambda>v.
       (case v of
          None \<Rightarrow> Ok JNull
        | Some t \<Rightarrow> and_then (ensure_cell_bytes column_name (lit ''text'') (str_len t)) (\<lambda>_. Ok (JString t))))"

definition sqlite_value_to_json :: "sql_env \<Rightarrow> rstr \<Rightarrow> sqlite_cell \<Rightarrow> (SqlError, json) result" where
  "sqlite_value_to_json env column_name cell =
     (case cell_raw_error cell of
        Some e \<Rightarrow> Err (SqlSqlx e)
      | None \<Rightarrow>
          if cell_null cell then Ok JNull
          else if cell_type_name cell \<in> set (map lit [''INTEGER'', ''INT'', ''BIGINT'', ''BOOLEAN''])
          then and_then (map_err SqlSqlx (cell_i64 cell)) (\<lambda>v.
                 Ok (case v of None \<Rightarrow> JNull | Some i \<Rightarrow> json_int i))
          else if cell_type_name cell \<in> set (map lit [''REAL'', ''FLOAT'', ''DOUBLE''])
          then and_then (map_err SqlSqlx (cell_f64 cell)) (\<lambda>v.
                 Ok (case v of Some (Some r) \<Rightarrow> JNumber (Float r) | _ \<Rightarrow> JNull))
          else if cell_type_name cell = lit ''BLOB''
          then and_then (map_err SqlSqlx (cell_blob cell)) (\<lambda>v.
                 (case v of
                    None \<Rightarrow> Ok JNull
                  | Some bytes \<Rightarrow>
                      and_then (ensure_cell_bytes column_name (lit ''blob'') (length bytes))
                        (\<lambda>_. Ok (JString (base64_standard env bytes)))))
          else text_cell column_name cell)"

subsection \<open>Sizes\<close>

definition json_char_bytes :: "rchar \<Rightarrow> nat" where
  "json_char_bytes c =
     (if c = 34 \<or> c = 92 then 2 else if c \<in> {8, 12, 10, 13, 9} then 2 else if c \<le> 31 then 6 else len_utf8 c)"

definition json_string_bytes :: "rstr \<Rightarrow> nat" where
  "json_string_bytes t = foldl (\<lambda>sum c. saturating_add sum (json_char_bytes c)) 2 t"

definition number_text :: "sql_env \<Rightarrow> jnumber \<Rightarrow> rstr" where
  "number_text env n =
     (case n of PosInt k \<Rightarrow> show_nat k | NegInt i \<Rightarrow> show_int i | Float r \<Rightarrow> float_text env r)"

fun json_value_bytes :: "sql_env \<Rightarrow> json \<Rightarrow> nat" where
  "json_value_bytes env JNull = 4"
| "json_value_bytes env (JBool b) = (if b then 4 else 5)"
| "json_value_bytes env (JNumber n) = str_len (number_text env n)"
| "json_value_bytes env (JString t) = json_string_bytes t"
| "json_value_bytes env (JArray vs) =
     foldl (\<lambda>sum bytes. saturating_add (saturating_add sum bytes) 1) 2 (map (json_value_bytes env) vs)"
| "json_value_bytes env (JObject m) =
     foldl (\<lambda>sum (key, bytes). saturating_add (saturating_add (saturating_add sum (json_string_bytes key)) bytes) 2) 2
       (map (\<lambda>kv. (fst kv, json_value_bytes env (snd kv))) m)"

text \<open>\<^verbatim>\<open>ResponseBudget::account\<close> on the bytes used so far.\<close>

definition budget_account :: "nat \<Rightarrow> nat \<Rightarrow> (SqlError, nat) result" where
  "budget_account used cell_bytes =
     (if USIZE_MAX < used + cell_bytes
      then Err (Rejected (lit ''query response exceeds '' @ show_nat MAX_RESPONSE_BYTES @ lit '' byte limit''))
      else if MAX_RESPONSE_BYTES < used + cell_bytes
      then Err (Rejected (lit ''query response is '' @ show_nat (used + cell_bytes) @ lit '' bytes, exceeds '' @
             show_nat MAX_RESPONSE_BYTES @ lit '' byte limit''))
      else Ok (used + cell_bytes))"

subsection \<open>The query\<close>

fun row_to_json :: "sql_env \<Rightarrow> nat \<Rightarrow> jobject \<Rightarrow> sqlite_row \<Rightarrow> (SqlError, nat \<times> jobject) result" where
  "row_to_json env used obj [] = Ok (used, obj)"
| "row_to_json env used obj ((name, cell) # cells) =
     and_then (sqlite_value_to_json env name cell) (\<lambda>v.
     and_then (budget_account used (json_value_bytes env v)) (\<lambda>used.
     row_to_json env used (obj_insert name v obj) cells))"

fun read_rows :: "sql_env \<Rightarrow> nat \<Rightarrow> row_event list \<Rightarrow> (SqlError, jobject list) result" where
  "read_rows env used [] = Ok []"
| "read_rows env used (NextError e # _) = Err (SqlSqlx e)"
| "read_rows env used (TimerFires # _) =
     Err (Rejected (lit ''query timed out after '' @ show_nat QUERY_TIMEOUT_MS @ lit '' ms''))"
| "read_rows env used (NextRow row # rest) =
     and_then (row_to_json env used [] row) (\<lambda>(used, obj).
     and_then (read_rows env used rest) (\<lambda>out. Ok (obj # out)))"

definition capped_sql :: "rstr \<Rightarrow> rstr" where
  "capped_sql sql = lit ''SELECT * FROM ('' @ [10] @ sql @ [10] @ lit '') AS postblox_agent_query LIMIT ?''"

definition sql_query :: "sql_env \<Rightarrow> rstr \<Rightarrow> nat \<Rightarrow> (SqlError, jobject list) result" where
  "sql_query env sql limit =
     and_then (validate_query env sql) (\<lambda>_.
     read_rows env 0 (fetch_rows env (capped_sql (trim_one_trailing_semicolon sql))
                        (min (max (int limit) 1) MAX_ROWS)))"

text \<open>The dump of the schema, over the rows of \<^verbatim>\<open>sqlite_master\<close>; no budget applies.\<close>

fun schema_row :: "sql_env \<Rightarrow> jobject \<Rightarrow> sqlite_row \<Rightarrow> (SqlError, jobject) result" where
  "schema_row env obj [] = Ok obj"
| "schema_row env obj ((name, cell) # cells) =
     and_then (sqlite_value_to_json env name cell) (\<lambda>v. schema_row env (obj_insert name v obj) cells)"

fun schema_rows :: "sql_env \<Rightarrow> sqlite_row list \<Rightarrow> (SqlError, jobject list) result" where
  "schema_rows env [] = Ok []"
| "schema_rows env (row # rows) =
     and_then (schema_row env [] row) (\<lambda>obj. and_then (schema_rows env rows) (\<lambda>out. Ok (obj # out)))"

definition sql_schema :: "sql_env \<Rightarrow> (rstr, sqlite_row list) result \<Rightarrow> (SqlError, jobject list) result" where
  "sql_schema env rows = and_then (map_err SqlSqlx rows) (schema_rows env)"

subsection \<open>What reaches SQLite\<close>

text \<open>
  SQLite's words: maximal runs of identifier characters, to which every character outside ASCII
  and the dollar sign belong.
\<close>

definition ident_char :: "rchar \<Rightarrow> bool" where
  "ident_char c \<longleftrightarrow> word_char c \<or> c = 36 \<or> 128 \<le> c"

definition sql_words :: "rstr \<Rightarrow> rstr list" where
  "sql_words s = filter (\<lambda>w. w \<noteq> []) (split_by (\<lambda>c. \<not> ident_char c) s)"

text \<open>The Unicode table agrees with ASCII on ASCII.\<close>

definition ascii_uppercase_table :: "sql_env \<Rightarrow> bool" where
  "ascii_uppercase_table env \<longleftrightarrow> (\<forall>c < 128. char_to_uppercase env c = [ascii_upper c])"

lemma to_uppercase_ascii:
  "ascii_uppercase_table env \<Longrightarrow> list_all (\<lambda>c. c < 128) s \<Longrightarrow> to_uppercase env s = to_ascii_uppercase s"
  by (induction s) (auto simp: to_uppercase_def to_ascii_uppercase_def ascii_uppercase_table_def)

lemma split_by_ne [simp]: "split_by P s \<noteq> []"
  by (cases s) (auto split: list.splits)

lemma split_by_Cons [simp]:
  "split_by P (c # cs) =
     (if P c then [] # split_by P cs else (c # hd (split_by P cs)) # tl (split_by P cs))"
  by (cases "split_by P cs") auto

declare split_by.simps(2) [simp del]

lemma split_by_append_sep: "P c \<Longrightarrow> split_by P (a @ c # b) = split_by P a @ split_by P b"
  by (induction a) (auto simp: hd_append tl_append split: list.splits)

lemma split_by_tl_append: "set (tl (split_by P b)) \<subseteq> set (tl (split_by P (a @ b)))"
proof (induction a)
  case (Cons c a)
  have "set (tl xs) \<subseteq> set xs" for xs :: "rstr list" by (cases xs) auto
  with Cons show ?case by (simp only: append_Cons split_by_Cons) (auto split: if_splits)
qed simp

lemma word_char_upper: "word_char c \<Longrightarrow> word_char (ascii_upper c)"
  by (auto simp: word_char_def ascii_upper_def)

lemma separator_upper: "\<not> ident_char c \<Longrightarrow> c < 128 \<and> \<not> word_char c \<and> ascii_upper c = c"
  by (auto simp: ident_char_def word_char_def ascii_upper_def)

lemma word_char_small: "word_char c \<Longrightarrow> c < 128"
  by (auto simp: word_char_def)

lemma split_upper:
  assumes env: "ascii_uppercase_table env" and word: "list_all word_char w"
  shows "w = hd (split_by (\<lambda>c. \<not> ident_char c) s) \<Longrightarrow>
           hd (split_by (\<lambda>c. \<not> word_char c) (to_uppercase env s)) = to_ascii_uppercase w"
    and "w \<in> set (tl (split_by (\<lambda>c. \<not> ident_char c) s)) \<Longrightarrow>
           to_ascii_uppercase w \<in> set (tl (split_by (\<lambda>c. \<not> word_char c) (to_uppercase env s)))"
  using word
proof (induction s arbitrary: w)
  case Nil
  { case 1 then show ?case by (simp add: to_uppercase_def to_ascii_uppercase_def) }
  { case 2 then show ?case by simp }
next
  case (Cons c s)
  have split: "set xs = insert (hd xs) (set (tl xs))" if "xs \<noteq> []" for xs :: "rstr list"
    using that by (cases xs) auto
  have up: "to_uppercase env (c # s) = char_to_uppercase env c @ to_uppercase env s"
    by (simp add: to_uppercase_def)
  have low: "char_to_uppercase env c = [ascii_upper c]" if "c < 128"
    using env that by (simp add: ascii_uppercase_table_def)
  { case 1
    show ?case
    proof (cases "ident_char c")
      case True
      with 1 have "word_char c" "list_all word_char (hd (split_by (\<lambda>c. \<not> ident_char c) s))" by auto
      with 1 True Cons.IH(1) show ?thesis
        by (simp add: up low word_char_small word_char_upper to_ascii_uppercase_def)
    next
      case False
      with 1 show ?thesis by (simp add: up low separator_upper to_ascii_uppercase_def)
    qed }
  { case 2
    show ?case
    proof (cases "ident_char c")
      case True
      with 2 Cons.IH(2) have "to_ascii_uppercase w \<in> set (tl (split_by (\<lambda>c. \<not> word_char c) (to_uppercase env s)))"
        by simp
      then show ?thesis using split_by_tl_append unfolding up by blast
    next
      case False
      from 2 False have "w \<in> set (split_by (\<lambda>c. \<not> ident_char c) s)" by simp
      with 2 Cons.IH have "to_ascii_uppercase w \<in> set (split_by (\<lambda>c. \<not> word_char c) (to_uppercase env s))"
        using split [of "split_by (\<lambda>c. \<not> ident_char c) s"]
          split [of "split_by (\<lambda>c. \<not> word_char c) (to_uppercase env s)"] by auto
      with False show ?thesis by (simp add: up low separator_upper)
    qed }
qed

lemma word_of_upper:
  assumes "ascii_uppercase_table env" "list_all word_char w" "w \<in> set (sql_words s)"
  shows "to_ascii_uppercase w \<in> set (split_by (\<lambda>c. \<not> word_char c) (to_uppercase env s))"
  using assms split_upper [of env w s]
  by (cases "split_by (\<lambda>c. \<not> ident_char c) s"; cases "split_by (\<lambda>c. \<not> word_char c) (to_uppercase env s)")
     (auto simp: sql_words_def split: if_splits)

lemma ascii_upper_letter: "65 \<le> ascii_upper c \<Longrightarrow> ascii_upper c \<le> 90 \<Longrightarrow> word_char c"
  by (auto simp: ascii_upper_def word_char_def split: if_splits)

lemma keyword_word:
  assumes "to_ascii_uppercase w \<in> set FORBIDDEN_KEYWORDS"
  shows "list_all word_char w"
proof -
  have "list_all (\<lambda>k. list_all (\<lambda>c. 65 \<le> c \<and> c \<le> 90) k) FORBIDDEN_KEYWORDS" by code_simp
  with assms have "list_all (\<lambda>c. 65 \<le> c \<and> c \<le> 90) (to_ascii_uppercase w)"
    by (auto simp: list_all_iff)
  then show ?thesis by (auto simp: list_all_iff to_ascii_uppercase_def intro: ascii_upper_letter)
qed

lemma sql_words_capped:
  "sql_words (capped_sql s) =
     [lit ''SELECT'', lit ''FROM''] @ sql_words s @ [lit ''AS'', lit ''postblox_agent_query'', lit ''LIMIT'']"
proof -
  have sep: "\<not> ident_char 10" by code_simp
  have "sql_words (capped_sql s) =
      sql_words (lit ''SELECT * FROM ('') @ sql_words s @ sql_words (lit '') AS postblox_agent_query LIMIT ?'')"
    by (simp add: sql_words_def capped_sql_def split_by_append_sep [where P = "\<lambda>c. \<not> ident_char c", OF sep])
  moreover have "sql_words (lit ''SELECT * FROM ('') = [lit ''SELECT'', lit ''FROM'']" by code_simp
  moreover have "sql_words (lit '') AS postblox_agent_query LIMIT ?'') =
      [lit ''AS'', lit ''postblox_agent_query'', lit ''LIMIT'']" by code_simp
  ultimately show ?thesis by simp
qed

text \<open>
  C23: whatever statement the filter accepts, no word of the text handed to SQLite is a forbidden
  keyword in any case, where words are SQLite's own (non-ASCII letters join words), for every
  Unicode case table that agrees with ASCII on ASCII.
\<close>

theorem accepted_query_has_no_forbidden_word:
  assumes "ascii_uppercase_table env" "validate_query env sql = Ok ()"
    "w \<in> set (sql_words (capped_sql (trim_one_trailing_semicolon sql)))"
  shows "to_ascii_uppercase w \<notin> set FORBIDDEN_KEYWORDS"
proof
  assume bad: "to_ascii_uppercase w \<in> set FORBIDDEN_KEYWORDS"
  let ?s = "trim_one_trailing_semicolon sql"
  have "list_all (\<lambda>w. to_ascii_uppercase w \<notin> set FORBIDDEN_KEYWORDS)
      [lit ''SELECT'', lit ''FROM'', lit ''AS'', lit ''postblox_agent_query'', lit ''LIMIT'']" by code_simp
  with bad assms(3) have "w \<in> set (sql_words ?s)"
    unfolding sql_words_capped by auto
  from word_of_upper [OF assms(1) keyword_word [OF bad] this]
  have "to_ascii_uppercase w \<in> set (split_by (\<lambda>c. \<not> word_char c) (to_uppercase env ?s))" .
  moreover have "to_ascii_uppercase w \<noteq> []" using bad by (auto simp: FORBIDDEN_KEYWORDS_def)
  ultimately show False using assms(2) bad
    by (auto simp: validate_query_def Let_def find_None_iff split: if_splits option.splits)
qed


subsection \<open>The size of a response\<close>

text \<open>The compact JSON text of a value (RFC 8259, control characters as escapes).\<close>

definition hex_digit :: "nat \<Rightarrow> rchar" where
  "hex_digit n = (if n < 10 then 48 + n else 87 + n)"

definition json_escape :: "rchar \<Rightarrow> rstr" where
  "json_escape c =
     (if c = 34 \<or> c = 92 then [92, c]
      else if c = 8 then [92, 98] else if c = 12 then [92, 102] else if c = 10 then [92, 110]
      else if c = 13 then [92, 114] else if c = 9 then [92, 116]
      else if c \<le> 31 then [92, 117, 48, 48, hex_digit (c div 16), hex_digit (c mod 16)]
      else [c])"

definition json_string_text :: "rstr \<Rightarrow> rstr" where
  "json_string_text s = [34] @ concat (map json_escape s) @ [34]"

fun json_text :: "sql_env \<Rightarrow> json \<Rightarrow> rstr" where
  "json_text env JNull = lit ''null''"
| "json_text env (JBool b) = (if b then lit ''true'' else lit ''false'')"
| "json_text env (JNumber n) = number_text env n"
| "json_text env (JString t) = json_string_text t"
| "json_text env (JArray vs) = [91] @ join [44] (map (json_text env) vs) @ [93]"
| "json_text env (JObject m) =
     [123] @ join [44] (map (\<lambda>kv. json_string_text (fst kv) @ [58] @ json_text env (snd kv)) m) @ [125]"

lemma str_len_simps [simp]:
  "str_len [] = 0" "str_len (c # s) = len_utf8 c + str_len s" "str_len (a @ b) = str_len a + str_len b"
  by (simp_all add: str_len_def)

lemma str_len_join: "str_len (join [44] ts) \<le> sum_list (map (\<lambda>t. str_len t + 1) ts)"
  by (induction "[44] :: rstr" ts rule: join.induct) (auto simp: len_utf8_def)

lemma str_len_escape: "str_len (json_escape c) = json_char_bytes c"
  by (auto simp: json_escape_def json_char_bytes_def len_utf8_def hex_digit_def lit_def)

lemma str_len_json_string: "str_len (json_string_text s) = 2 + sum_list (map json_char_bytes s)"
proof -
  have "str_len (concat (map json_escape s)) = sum_list (map json_char_bytes s)"
    by (induction s) (auto simp: str_len_escape)
  then show ?thesis by (simp add: json_string_text_def len_utf8_def)
qed

text \<open>A fold of saturating additions is one saturation of the sum.\<close>

lemma saturating_fold:
  "k \<le> USIZE_MAX \<Longrightarrow> foldl (\<lambda>sum x. saturating_add sum (f x)) k xs = min (k + sum_list (map f xs)) USIZE_MAX"
  by (induction xs arbitrary: k) (auto simp: saturating_add_def)

lemma saturating_fold2:
  "k \<le> USIZE_MAX \<Longrightarrow>
   foldl (\<lambda>sum x. saturating_add (saturating_add sum (f x)) 1) k xs = min (k + sum_list (map (\<lambda>x. f x + 1) xs)) USIZE_MAX"
  by (induction xs arbitrary: k) (auto simp: saturating_add_def)

lemma saturating_fold3:
  "k \<le> USIZE_MAX \<Longrightarrow>
   foldl (\<lambda>sum (x, y). saturating_add (saturating_add (saturating_add sum (f x)) y) 2) k xs =
   min (k + sum_list (map (\<lambda>(x, y). f x + y + 2) xs)) USIZE_MAX"
  by (induction xs arbitrary: k) (auto simp: saturating_add_def)

lemma two_usize [simp]: "2 \<le> USIZE_MAX"
  by (simp add: USIZE_MAX_def)

lemma json_string_bytes_text: "json_string_bytes s = min (str_len (json_string_text s)) USIZE_MAX"
  by (simp add: json_string_bytes_def saturating_fold str_len_json_string)

lemma min_le_sum: "min a (m::nat) + min b m \<le> c \<Longrightarrow> c < m \<Longrightarrow> a + b \<le> c"
  by (auto simp: min_def split: if_splits)

text \<open>Below saturation, the size accounted for a value is at least the size of its text.\<close>

lemma json_text_bounded: "json_value_bytes env v < USIZE_MAX \<Longrightarrow> str_len (json_text env v) \<le> json_value_bytes env v"
proof (induction v)
  case (JString t)
  then show ?case by (simp add: json_string_bytes_text)
next
  case (JArray vs)
  let ?b = "\<lambda>v. json_value_bytes env v + 1"
  from JArray.prems have total: "json_value_bytes env (JArray vs) = 2 + sum_list (map ?b vs)"
    and small: "2 + sum_list (map ?b vs) < USIZE_MAX"
    using saturating_fold2 [of 2 "\<lambda>x. x" "map (json_value_bytes env) vs"]
    by (auto simp: o_def min_def split: if_splits)
  have "json_value_bytes env v < USIZE_MAX" if "v \<in> set vs" for v
    using member_le_sum_list [of "?b v" "map ?b vs"] that small by fastforce
  with JArray.IH have "sum_list (map (\<lambda>v. str_len (json_text env v) + 1) vs) \<le> sum_list (map ?b vs)"
    by (intro sum_list_mono) auto
  then show ?case using str_len_join [of "map (json_text env) vs"] total
    by (simp add: len_utf8_def o_def)
next
  case (JObject m)
  let ?b = "\<lambda>kv. json_string_bytes (fst kv) + json_value_bytes env (snd kv) + 2"
  let ?t = "\<lambda>kv. str_len (json_string_text (fst kv)) + str_len (json_text env (snd kv)) + 2"
  from JObject.prems have total: "json_value_bytes env (JObject m) = 2 + sum_list (map ?b m)"
    and small: "2 + sum_list (map ?b m) < USIZE_MAX"
    by (auto simp: saturating_fold3 o_def min_def split: if_splits)
  have "?t kv \<le> ?b kv" if kv: "kv \<in> set m" for kv
  proof -
    have "?b kv < USIZE_MAX" using member_le_sum_list [of "?b kv" "map ?b m"] kv small by fastforce
    moreover have "str_len (json_text env (snd kv)) \<le> json_value_bytes env (snd kv)"
      using calculation kv by (intro JObject.IH [of kv "snd kv"]) (auto simp: snds.simps prod.exhaust_sel)
    ultimately show ?thesis by (auto simp: json_string_bytes_text min_def split: if_splits)
  qed
  then have "sum_list (map ?t m) \<le> sum_list (map ?b m)" by (intro sum_list_mono)
  then show ?case
    using str_len_join [of "map (\<lambda>kv. json_string_text (fst kv) @ [58] @ json_text env (snd kv)) m"] total
    by (simp add: len_utf8_def o_def add.assoc)
qed (auto simp: lit_def len_utf8_def)


definition row_bytes :: "sql_env \<Rightarrow> jobject \<Rightarrow> nat" where
  "row_bytes env obj = sum_list (map (\<lambda>(name, v). str_len (json_text env v)) obj)"

lemma row_bytes_insert: "row_bytes env (obj_insert k v m) \<le> str_len (json_text env v) + row_bytes env m"
  by (induction k v m rule: obj_insert.induct) (auto simp: row_bytes_def)

lemma budget_account_Ok:
  "budget_account used b = Ok used' \<longleftrightarrow> used' = used + b \<and> used + b \<le> MAX_RESPONSE_BYTES"
  by (auto simp: budget_account_def USIZE_MAX_def MAX_RESPONSE_BYTES_def)

lemma budgeted_text:
  "used + json_value_bytes env v \<le> MAX_RESPONSE_BYTES \<Longrightarrow> str_len (json_text env v) \<le> json_value_bytes env v"
  by (rule json_text_bounded) (auto simp: MAX_RESPONSE_BYTES_def USIZE_MAX_def)

lemma row_to_json_budget:
  "row_to_json env used obj row = Ok (used', obj') \<Longrightarrow> used \<le> MAX_RESPONSE_BYTES \<Longrightarrow>
   used' \<le> MAX_RESPONSE_BYTES \<and> used + row_bytes env obj' \<le> used' + row_bytes env obj"
proof (induction env used obj row rule: row_to_json.induct)
  case (2 env used obj name cell cells)
  then obtain v where "sqlite_value_to_json env name cell = Ok v"
    and fits: "used + json_value_bytes env v \<le> MAX_RESPONSE_BYTES"
    and rest: "row_to_json env (used + json_value_bytes env v) (obj_insert name v obj) cells = Ok (used', obj')"
    by (auto simp: result_simps budget_account_Ok)
  with 2 have "used' \<le> MAX_RESPONSE_BYTES"
    "used + json_value_bytes env v + row_bytes env obj' \<le> used' + row_bytes env (obj_insert name v obj)"
    by (auto simp: budget_account_Ok)
  with row_bytes_insert [of env name v obj] budgeted_text [OF fits] show ?case by linarith
qed simp

lemma read_rows_budget:
  "read_rows env used events = Ok out \<Longrightarrow> used \<le> MAX_RESPONSE_BYTES \<Longrightarrow>
   used + sum_list (map (row_bytes env) out) \<le> MAX_RESPONSE_BYTES"
proof (induction env used events arbitrary: out rule: read_rows.induct)
  case (4 env used row rest)
  then obtain used' obj out' where row: "row_to_json env used [] row = Ok (used', obj)"
    and rest: "read_rows env used' rest = Ok out'" and out: "out = obj # out'"
    by (auto simp: result_simps)
  from row_to_json_budget [OF row 4(3)] have "used + row_bytes env obj \<le> used'" "used' \<le> MAX_RESPONSE_BYTES"
    by (auto simp: row_bytes_def)
  with "4.IH" [OF rest] out show ?case by auto
qed simp_all

text \<open>
  C24: however many rows of whatever shape SQLite delivers, an answer is only given when the JSON
  texts of all its cells together take at most one mebibyte.
\<close>

theorem query_response_bounded:
  "sql_query env sql limit = Ok rows \<Longrightarrow>
   sum_list (map (\<lambda>row. sum_list (map (\<lambda>(name, v). length (as_bytes (json_text env v))) row)) rows)
   \<le> MAX_RESPONSE_BYTES"
  using read_rows_budget [of env 0 _ rows]
  by (auto simp: sql_query_def result_simps length_as_bytes row_bytes_def [abs_def])

subsection \<open>The row cap\<close>

text \<open>The text \<^verbatim>\<open>q); SELECT * FROM (r\<close> leaves the parentheses the wrapper puts around it.\<close>

definition escaping :: "rstr \<Rightarrow> rstr \<Rightarrow> rstr" where
  "escaping q r = q @ lit ''); SELECT * FROM ('' @ r"

lemma capped_escaping:
  "capped_sql (escaping q r) =
     (lit ''SELECT * FROM ('' @ [10] @ q @ lit '')'') @ lit '';'' @
     (lit '' SELECT * FROM ('' @ r @ [10] @ lit '') AS postblox_agent_query LIMIT ?'')"
  by (simp add: capped_sql_def escaping_def lit_def)

lemma read_rows_length: "read_rows env used (map NextRow rows) = Ok out \<Longrightarrow> length out = length rows"
  by (induction rows arbitrary: used out) (auto simp: result_simps)

text \<open>
  The row cap binds the last statement of a text only.  The filter accepts
  \<^verbatim>\<open>SELECT * FROM messages); SELECT * FROM (SELECT 1\<close>, the wrapped text is two complete statements,
  and when the driver returns the rows of both in turn the answer has every row of the first,
  uncapped, whatever limit the caller passed.
\<close>

theorem row_cap_escaped:
  assumes "ascii_uppercase_table env"
    and "fetch_rows env
           ((lit ''SELECT * FROM ('' @ [10] @ lit ''SELECT * FROM messages)'') @ lit '';'' @
            (lit '' SELECT * FROM (SELECT 1'' @ [10] @ lit '') AS postblox_agent_query LIMIT ?''))
           (min (max (int limit) 1) MAX_ROWS) =
         map NextRow (all_messages @ capped)"
    and "read_rows env 0 (map NextRow (all_messages @ capped)) = Ok out"
  shows "sql_query env (escaping (lit ''SELECT * FROM messages'') (lit ''SELECT 1'')) limit = Ok out \<and>
         length out = length all_messages + length capped"
proof -
  let ?sql = "escaping (lit ''SELECT * FROM messages'') (lit ''SELECT 1'')"
  have trimmed: "trim_one_trailing_semicolon ?sql = ?sql" by code_simp
  have upper: "to_uppercase env ?sql = to_ascii_uppercase ?sql"
    by (rule to_uppercase_ascii [OF assms(1)]) code_simp
  have "find (\<lambda>token. token \<noteq> [] \<and> token \<in> set FORBIDDEN_KEYWORDS)
          (split_by (\<lambda>c. \<not> word_char c) (to_ascii_uppercase ?sql)) = None" by code_simp
  moreover have "to_ascii_uppercase (unwrap_or [] (find (\<lambda>token. token \<noteq> [])
          (split_by (\<lambda>c. \<not> word_char c) ?sql))) = lit ''SELECT''" by code_simp
  moreover have "\<not> MAX_SQL_BYTES < str_len ?sql" "?sql \<noteq> []" by code_simp+
  ultimately have "validate_query env ?sql = Ok ()"
    by (simp add: validate_query_def trimmed upper Let_def)
  moreover have "fetch_rows env (capped_sql ?sql) (min (max (int limit) 1) MAX_ROWS) = map NextRow (all_messages @ capped)"
    using assms(2) unfolding capped_escaping by (simp add: lit_def)
  ultimately show ?thesis using assms(3) read_rows_length [OF assms(3)]
    by (simp add: sql_query_def trimmed)
qed


subsection \<open>Sample queries\<close>

definition sample_cell :: sqlite_cell where
  "sample_cell = \<lparr>cell_raw_error = None, cell_null = False, cell_type_name = lit ''INTEGER'',
     cell_i64 = Ok (Some 1), cell_f64 = Ok None, cell_text = Ok None, cell_blob = Ok None\<rparr>"

definition sample_row :: sqlite_row where
  "sample_row = [(lit ''id'', sample_cell)]"

definition sample_sql_env :: "nat \<Rightarrow> sql_env" where
  "sample_sql_env n = \<lparr>char_to_uppercase = (\<lambda>c. [ascii_upper c]), float_text = (\<lambda>_. []),
     base64_standard = (\<lambda>_. []), fetch_rows = (\<lambda>_ _. map NextRow (replicate n sample_row))\<rparr>"

lemma sample_table: "ascii_uppercase_table (sample_sql_env n)"
  by (simp add: ascii_uppercase_table_def sample_sql_env_def)

lemma sample_row_json:
  "used < MAX_RESPONSE_BYTES \<Longrightarrow>
   row_to_json (sample_sql_env n) used [] sample_row = Ok (Suc used, [(lit ''id'', JNumber (PosInt 1))])"
  by (simp add: sample_row_def sample_cell_def sqlite_value_to_json_def json_int_def number_text_def
      show_nat.simps len_utf8_def budget_account_def USIZE_MAX_def MAX_RESPONSE_BYTES_def)

lemma sample_rows_json:
  "used + k \<le> MAX_RESPONSE_BYTES \<Longrightarrow>
   read_rows (sample_sql_env n) used (map NextRow (replicate k sample_row)) =
     Ok (replicate k [(lit ''id'', JNumber (PosInt 1))])"
  by (induction k arbitrary: used) (auto simp: sample_row_json)

theorem accepted_query_has_no_forbidden_word_witness:
  "to_ascii_uppercase (lit ''dropbox'') \<notin> set FORBIDDEN_KEYWORDS"
proof (rule accepted_query_has_no_forbidden_word [OF sample_table])
  show "validate_query (sample_sql_env 0) (lit ''select 1 from dropbox;'') = Ok ()" by code_simp
  show "lit ''dropbox'' \<in> set (sql_words (capped_sql (trim_one_trailing_semicolon (lit ''select 1 from dropbox;''))))"
    by code_simp
qed

theorem query_response_bounded_witness:
  "sum_list (map (\<lambda>row. sum_list (map (\<lambda>(name, v). length (as_bytes (json_text (sample_sql_env 2) v))) row))
     (replicate 2 [(lit ''id'', JNumber (PosInt 1))])) \<le> MAX_RESPONSE_BYTES"
proof (rule query_response_bounded [where sql = "lit ''select 1''" and limit = 7])
  have "validate_query (sample_sql_env 2) (lit ''select 1'') = Ok ()" by code_simp
  moreover have "read_rows (sample_sql_env 2) 0 (map NextRow (replicate 2 sample_row)) =
      Ok (replicate 2 [(lit ''id'', JNumber (PosInt 1))])"
    by (rule sample_rows_json) (simp add: MAX_RESPONSE_BYTES_def)
  ultimately show "sql_query (sample_sql_env 2) (lit ''select 1'') 7 = Ok (replicate 2 [(lit ''id'', JNumber (PosInt 1))])"
    by (simp add: sql_query_def sample_sql_env_def)
qed

theorem row_cap_escaped_witness:
  "sql_query (sample_sql_env 2001) (escaping (lit ''SELECT * FROM messages'') (lit ''SELECT 1'')) 10 =
     Ok (replicate 2001 [(lit ''id'', JNumber (PosInt 1))]) \<and>
   length (replicate 2001 [(lit ''id'', JNumber (PosInt 1))]) =
     length (replicate 2000 sample_row) + length [sample_row]"
proof (rule row_cap_escaped [OF sample_table])
  have split: "replicate 2000 sample_row @ [sample_row] = replicate 2001 sample_row"
    by (simp add: numeral_eq_Suc flip: replicate_append_same)
  show "read_rows (sample_sql_env 2001) 0 (map NextRow (replicate 2000 sample_row @ [sample_row])) =
      Ok (replicate 2001 [(lit ''id'', JNumber (PosInt 1))])"
    unfolding split by (rule sample_rows_json) (simp add: MAX_RESPONSE_BYTES_def)
  show "fetch_rows (sample_sql_env 2001)
      ((lit ''SELECT * FROM ('' @ [10] @ lit ''SELECT * FROM messages)'') @ lit '';'' @
       (lit '' SELECT * FROM (SELECT 1'' @ [10] @ lit '') AS postblox_agent_query LIMIT ?''))
      (min (max (int 10) 1) MAX_ROWS) =
    map NextRow (replicate 2000 sample_row @ [sample_row])"
    unfolding split by (simp add: sample_sql_env_def)
qed

end
