(* ===== verification/McpTools.thy ===== *)
theory McpTools
  imports SqlQuery Enums Threading
begin

text \<open>
  The MCP tool catalogue and its argument validation, \<^verbatim>\<open>src/mcp/tools.rs\<close>.
  \<^verbatim>\<open>Uuid::parse_str\<close> and \<^verbatim>\<open>DateTime::parse_from_rfc3339\<close> are the fields of \<open>text_formats\<close>.
\<close>

record text_formats =
  parse_uuid :: "rstr \<Rightarrow> uuid option"
  is_rfc3339 :: "rstr \<Rightarrow> bool"

definition SEARCH_MAX_ROWS :: int where
  "SEARCH_MAX_ROWS = 200"

record ToolSpec =
  tool_name :: rstr
  tool_op :: Op
  tool_description :: rstr
  dangerous :: bool
  required :: "rstr list"

datatype FieldKind =
    StringField
  | NullableString
  | UuidString
  | NullableUuidString
  | NullableRfc3339
  | StringArrayField
  | BooleanField
  | IntegerField int int

subsection \<open>The catalogue\<close>

definition TOOLS :: "ToolSpec list" where
  "TOOLS = [
    \<lparr>tool_name = lit ''postblox_account_list'', tool_op = OpAccountList,
      tool_description = lit ''List configured postblox email accounts.'',
      dangerous = False, required = []\<rparr>,
    \<lparr>tool_name = lit ''postblox_folder_list'', tool_op = OpFolderList,
      tool_description = lit ''List folders for one account.'',
      dangerous = False, required = [lit ''account_id'']\<rparr>,
    \<lparr>tool_name = lit ''postblox_thread_list'', tool_op = OpThreadList,
      tool_description = lit ''List recent threads for one account.'',
      dangerous = False, required = [lit ''account_id'']\<rparr>,
    \<lparr>tool_name = lit ''postblox_message_list_by_folder'', tool_op = OpMessageListByFolder,
      tool_description = lit ''List message summary rows in a folder (no text_body/html_body).'',
      dangerous = False, required = [lit ''folder_id'']\<rparr>,
    \<lparr>tool_name = lit ''postblox_message_list_by_thread'', tool_op = OpMessageListByThread,
      tool_description = lit ''List message summary rows in a thread (no text_body/html_body).'',
      dangerous = False, required = [lit ''thread_id'']\<rparr>,
    \<lparr>tool_name = lit ''postblox_message_get'', tool_op = OpMessageGet,
      tool_description = lit ''Fetch one full message by id, including text_body/html_body.'',
      dangerous = False, required = [lit ''id'']\<rparr>,
    \<lparr>tool_name = lit ''postblox_search'', tool_op = OpSearch,
      tool_description = lit ''Search local indexed email and return summary rows (no text_body/html_body) with optional account/folder/thread/date/sender/flag filters.'',
      dangerous = False, required = [lit ''q'']\<rparr>,
    \<lparr>tool_name = lit ''postblox_draft_create'', tool_op = OpDraftCreate,
      tool_description = lit ''Create an email draft.'',
      dangerous = True, required = [lit ''account_id'', lit ''to_addrs'', lit ''cc_addrs'', lit ''bcc_addrs'']\<rparr>,
    \<lparr>tool_name = lit ''postblox_draft_update'', tool_op = OpDraftUpdate,
      tool_description = lit ''Update an email draft.'',
      dangerous = True, required = [lit ''id'', lit ''to_addrs'', lit ''cc_addrs'', lit ''bcc_addrs'', lit ''subject'', lit ''text_body'', lit ''html_body'']\<rparr>,
    \<lparr>tool_name = lit ''postblox_draft_delete'', tool_op = OpDraftDelete,
      tool_description = lit ''Delete an email draft.'',
      dangerous = True, required = [lit ''id'']\<rparr>,
    \<lparr>tool_name = lit ''postblox_message_set_flags'', tool_op = OpMessageSetFlags,
      tool_description = lit ''Replace flags on one message.'',
      dangerous = True, required = [lit ''id'', lit ''flags'']\<rparr>,
    \<lparr>tool_name = lit ''postblox_message_send'', tool_op = OpMessageSend,
      tool_description = lit ''Send an existing draft through the account SMTP settings.'',
      dangerous = True, required = [lit ''account_id'', lit ''draft_id'']\<rparr>,
    \<lparr>tool_name = lit ''postblox_sql_query'', tool_op = OpSqlQuery,
      tool_description = lit ''Run a read-only SQL query against the local postblox database. Only SELECT statements are accepted; DDL and DML are rejected. Returns up to `limit` rows as JSON objects.'',
      dangerous = True, required = [lit ''sql'']\<rparr>,
    \<lparr>tool_name = lit ''postblox_sql_schema'', tool_op = OpSqlSchema,
      tool_description = lit ''Return CREATE statements for every table, view, index, and trigger in the postblox database. Use this before issuing ad-hoc queries via postblox_sql_query.'',
      dangerous = False, required = []\<rparr>]"

definition find_tool :: "rstr \<Rightarrow> ToolSpec option" where
  "find_tool name = find (\<lambda>tool. tool_name tool = name) TOOLS"

text \<open>An or-pattern over pairs of string literals.\<close>

definition named_in :: "(string \<times> string) list \<Rightarrow> rstr \<times> rstr \<Rightarrow> bool" where
  "named_in ps k \<longleftrightarrow> list_ex (\<lambda>(a, b). k = (lit a, lit b)) ps"

definition field_kind :: "ToolSpec \<Rightarrow> rstr \<Rightarrow> FieldKind option" where
  "field_kind tool field =
     (let k = (tool_name tool, field) in
      if named_in [(''postblox_folder_list'', ''account_id''), (''postblox_thread_list'', ''account_id''),
        (''postblox_message_list_by_folder'', ''folder_id''),
        (''postblox_message_list_by_thread'', ''thread_id''),
        (''postblox_message_get'', ''id''), (''postblox_draft_create'', ''account_id''),
        (''postblox_draft_update'', ''id''), (''postblox_draft_delete'', ''id''),
        (''postblox_message_set_flags'', ''id''), (''postblox_message_send'', ''account_id''),
        (''postblox_message_send'', ''draft_id'')] k
      then Some UuidString
      else if named_in [(''postblox_draft_create'', ''in_reply_to_msg'')] k
      then Some NullableUuidString
      else if named_in [(''postblox_search'', ''q'')] k
      then Some StringField
      else if named_in [(''postblox_search'', ''account_id''), (''postblox_search'', ''folder_id''),
        (''postblox_search'', ''thread_id'')] k
      then Some NullableUuidString
      else if named_in [(''postblox_search'', ''date_from''), (''postblox_search'', ''date_to'')] k
      then Some NullableRfc3339
      else if named_in [(''postblox_search'', ''from_addr''), (''postblox_search'', ''to_addr'')] k
      then Some NullableString
      else if named_in [(''postblox_search'', ''has_attachments''), (''postblox_search'', ''unread'')] k
      then Some BooleanField
      else if named_in [(''postblox_draft_create'', ''to_addrs''), (''postblox_draft_create'', ''cc_addrs''),
        (''postblox_draft_create'', ''bcc_addrs''), (''postblox_draft_update'', ''to_addrs''),
        (''postblox_draft_update'', ''cc_addrs''), (''postblox_draft_update'', ''bcc_addrs''),
        (''postblox_message_set_flags'', ''flags'')] k
      then Some StringArrayField
      else if named_in [(''postblox_draft_create'', ''subject''), (''postblox_draft_create'', ''text_body''),
        (''postblox_draft_create'', ''html_body''), (''postblox_draft_update'', ''subject''),
        (''postblox_draft_update'', ''text_body''), (''postblox_draft_update'', ''html_body'')] k
      then Some NullableString
      else if named_in [(''postblox_thread_list'', ''limit''), (''postblox_message_list_by_folder'', ''limit'')] k
      then Some (IntegerField 1 500)
      else if named_in [(''postblox_search'', ''limit'')] k
      then Some (IntegerField 1 SEARCH_MAX_ROWS)
      else if named_in [(''postblox_thread_list'', ''offset''),
        (''postblox_message_list_by_folder'', ''offset''), (''postblox_search'', ''offset'')] k
      then Some (IntegerField 0 i64_max)
      else if named_in [(''postblox_sql_query'', ''sql'')] k
      then Some StringField
      else if named_in [(''postblox_sql_query'', ''limit'')] k
      then Some (IntegerField 1 MAX_ROWS)
      else None)"

text \<open>The sections of the operation vocabulary in \<^verbatim>\<open>src/daemon/op.rs\<close>.\<close>

datatype OpGroup = ReadOps | GateOps | WriteOps | NetworkOps | SecretOps | OauthOps

fun op_group :: "Op \<Rightarrow> OpGroup" where
  "op_group OpAccountList = ReadOps"
| "op_group OpFolderList = ReadOps"
| "op_group OpThreadList = ReadOps"
| "op_group OpMessageListByFolder = ReadOps"
| "op_group OpMessageListByThread = ReadOps"
| "op_group OpMessageGet = ReadOps"
| "op_group OpAttachmentList = ReadOps"
| "op_group OpAttachmentPreview = ReadOps"
| "op_group OpSearch = ReadOps"
| "op_group OpSqlQuery = ReadOps"
| "op_group OpSqlSchema = ReadOps"
| "op_group OpAuditListRecent = ReadOps"
| "op_group OpMcpGateList = GateOps"
| "op_group OpMcpGateCreate = GateOps"
| "op_group OpMcpGateDelete = GateOps"
| "op_group OpMcpApprovalCreate = GateOps"
| "op_group OpMcpApprovalList = GateOps"
| "op_group OpMcpApprovalGet = GateOps"
| "op_group OpMcpApprovalDecide = GateOps"
| "op_group OpAccountCreate = WriteOps"
| "op_group OpAccountDelete = WriteOps"
| "op_group OpFolderUpsert = WriteOps"
| "op_group OpMessageSetFlags = WriteOps"
| "op_group OpMessageArchive = WriteOps"
| "op_group OpMessageDelete = WriteOps"
| "op_group OpMessageMove = WriteOps"
| "op_group OpDraftCreate = WriteOps"
| "op_group OpDraftUpdate = WriteOps"
| "op_group OpDraftDelete = WriteOps"
| "op_group OpDraftList = WriteOps"
| "op_group OpDraftGet = WriteOps"
| "op_group OpAttachmentExport = WriteOps"
| "op_group OpMessagePrepareReply = WriteOps"
| "op_group OpMessagePrepareForward = WriteOps"
| "op_group OpAttachmentFetchForForward = WriteOps"
| "op_group OpAttachmentFetchForForwardBatch = WriteOps"
| "op_group OpMessageSend = WriteOps"
| "op_group OpAccountTestLogin = NetworkOps"
| "op_group OpAccountSyncFolder = NetworkOps"
| "op_group OpAccountStartSync = NetworkOps"
| "op_group OpAccountStopSync = NetworkOps"
| "op_group OpAccountSetSecret = SecretOps"
| "op_group OpAccountDeleteSecret = SecretOps"
| "op_group OpOauthGoogleAuthUrl = OauthOps"
| "op_group OpOauthGoogleComplete = OauthOps"

subsection \<open>Validation\<close>

definition validate_field ::
  "text_formats \<Rightarrow> rstr \<Rightarrow> json \<Rightarrow> FieldKind \<Rightarrow> (rstr, unit) result" where
  "validate_field tf field value kind =
     (case kind of
        StringField \<Rightarrow>
          if is_string value then Ok () else Err (field @ lit '' must be a string'')
      | NullableString \<Rightarrow>
          if is_string value \<or> is_null value then Ok ()
          else Err (field @ lit '' must be a string or null'')
      | UuidString \<Rightarrow>
          (case as_str value of
             None \<Rightarrow> Err (field @ lit '' must be a string'')
           | Some s \<Rightarrow>
               if parse_uuid tf s \<noteq> None then Ok ()
               else Err (field @ lit '' must be a uuid string''))
      | NullableUuidString \<Rightarrow>
          if is_null value then Ok ()
          else
            (case as_str value of
               None \<Rightarrow> Err (field @ lit '' must be a string or null'')
             | Some s \<Rightarrow>
                 if parse_uuid tf s \<noteq> None then Ok ()
                 else Err (field @ lit '' must be a uuid string or null''))
      | NullableRfc3339 \<Rightarrow>
          if is_null value then Ok ()
          else
            (case as_str value of
               None \<Rightarrow> Err (field @ lit '' must be an rfc3339 string or null'')
             | Some s \<Rightarrow>
                 if is_rfc3339 tf s then Ok ()
                 else Err (field @ lit '' must be an rfc3339 string or null''))
      | StringArrayField \<Rightarrow>
          (case as_array value of
             None \<Rightarrow> Err (field @ lit '' must be an array of strings'')
           | Some vs \<Rightarrow>
               if list_all is_string vs then Ok ()
               else Err (field @ lit '' must be an array of strings''))
      | BooleanField \<Rightarrow>
          if is_boolean value then Ok () else Err (field @ lit '' must be a boolean'')
      | IntegerField minimum maximum \<Rightarrow>
          (case as_i64 value of
             None \<Rightarrow> Err (field @ lit '' must be an integer'')
           | Some i \<Rightarrow>
               if i < minimum \<or> i > maximum
               then Err (field @ lit '' must be between '' @ show_int minimum @
                         lit '' and '' @ show_int maximum)
               else Ok ()))"

text \<open>The two loops of \<^verbatim>\<open>validate_arguments\<close>: required fields, then every given field.\<close>

fun check_required :: "rstr list \<Rightarrow> jobject \<Rightarrow> (rstr, unit) result" where
  "check_required [] obj = Ok ()"
| "check_required (field # fs) obj =
     (if \<not> contains_key obj field
      then Err (lit ''missing required argument '' @ [39] @ field @ [39])
      else check_required fs obj)"

fun check_fields :: "text_formats \<Rightarrow> ToolSpec \<Rightarrow> jobject \<Rightarrow> (rstr, unit) result" where
  "check_fields tf tool [] = Ok ()"
| "check_fields tf tool ((field, value) # fs) =
     and_then (ok_or (lit ''unexpected argument '' @ [39] @ field @ [39]) (field_kind tool field))
       (\<lambda>kind. and_then (validate_field tf field value kind) (\<lambda>_. check_fields tf tool fs))"

definition validate_arguments :: "text_formats \<Rightarrow> ToolSpec \<Rightarrow> json \<Rightarrow> (rstr, json) result" where
  "validate_arguments tf tool arguments =
     and_then
       (case arguments of
          JNull \<Rightarrow> Ok []
        | JObject m \<Rightarrow> Ok m
        | _ \<Rightarrow> Err (lit ''arguments must be an object''))
       (\<lambda>obj. and_then (check_required (required tool) obj)
         (\<lambda>_. and_then (check_fields tf tool obj) (\<lambda>_. Ok (JObject obj))))"

subsection \<open>The advertised schemas\<close>

definition json_strings :: "rstr list \<Rightarrow> json" where
  "json_strings xs = JArray (map JString xs)"

definition string_schema :: "rstr \<Rightarrow> rstr \<Rightarrow> rstr \<times> json" where
  "string_schema name description =
     (name, json_object [(lit ''type'', JString (lit ''string'')),
                         (lit ''description'', JString description)])"

definition nullable_string_schema :: "rstr \<Rightarrow> rstr \<Rightarrow> rstr \<times> json" where
  "nullable_string_schema name description =
     (name, json_object [(lit ''type'', json_strings [lit ''string'', lit ''null'']),
                         (lit ''description'', JString description)])"

definition uuid_schema :: "rstr \<Rightarrow> rstr \<Rightarrow> rstr \<times> json" where
  "uuid_schema name description =
     (name, json_object [(lit ''type'', JString (lit ''string'')),
                         (lit ''format'', JString (lit ''uuid'')),
                         (lit ''description'', JString description)])"

definition nullable_uuid_schema :: "rstr \<Rightarrow> rstr \<Rightarrow> rstr \<times> json" where
  "nullable_uuid_schema name description =
     (name, json_object [(lit ''type'', json_strings [lit ''string'', lit ''null'']),
                         (lit ''format'', JString (lit ''uuid'')),
                         (lit ''description'', JString description)])"

definition nullable_rfc3339_schema :: "rstr \<Rightarrow> rstr \<Rightarrow> rstr \<times> json" where
  "nullable_rfc3339_schema name description =
     (name, json_object [(lit ''type'', json_strings [lit ''string'', lit ''null'']),
                         (lit ''format'', JString (lit ''date-time'')),
                         (lit ''description'', JString description)])"

definition boolean_schema :: "rstr \<Rightarrow> rstr \<Rightarrow> rstr \<times> json" where
  "boolean_schema name description =
     (name, json_object [(lit ''type'', JString (lit ''boolean'')),
                         (lit ''description'', JString description)])"

definition string_array_schema :: "rstr \<Rightarrow> rstr \<Rightarrow> rstr \<times> json" where
  "string_array_schema name description =
     (name, json_object [(lit ''type'', JString (lit ''array'')),
                         (lit ''items'', json_object [(lit ''type'', JString (lit ''string''))]),
                         (lit ''description'', JString description)])"

definition integer_schema :: "rstr \<Rightarrow> int \<Rightarrow> int \<Rightarrow> rstr \<Rightarrow> rstr \<times> json" where
  "integer_schema name minimum maximum description =
     (name, json_object [(lit ''type'', JString (lit ''integer'')),
                         (lit ''minimum'', json_int minimum),
                         (lit ''maximum'', json_int maximum),
                         (lit ''description'', JString description)])"

definition input_properties :: "rstr \<Rightarrow> (rstr \<times> json) list" where
  "input_properties name =
     (if name = lit ''postblox_account_list'' then []
      else if name = lit ''postblox_folder_list'' then
        [uuid_schema (lit ''account_id'') (lit ''Account id.'')]
      else if name = lit ''postblox_thread_list'' then
        [uuid_schema (lit ''account_id'') (lit ''Account id.''),
         integer_schema (lit ''limit'') 1 500 (lit ''Maximum rows to return.''),
         integer_schema (lit ''offset'') 0 i64_max (lit ''Rows to skip.'')]
      else if name = lit ''postblox_message_list_by_folder'' then
        [uuid_schema (lit ''folder_id'') (lit ''Folder id.''),
         integer_schema (lit ''limit'') 1 500 (lit ''Maximum rows to return.''),
         integer_schema (lit ''offset'') 0 i64_max (lit ''Rows to skip.'')]
      else if name = lit ''postblox_message_list_by_thread'' then
        [uuid_schema (lit ''thread_id'') (lit ''Thread id.'')]
      else if name = lit ''postblox_message_get'' then
        [uuid_schema (lit ''id'') (lit ''Message id.'')]
      else if name = lit ''postblox_search'' then
        [string_schema (lit ''q'') (lit ''Search query.''),
         nullable_uuid_schema (lit ''account_id'') (lit ''Restrict to one account.''),
         nullable_uuid_schema (lit ''folder_id'') (lit ''Restrict to one folder.''),
         nullable_uuid_schema (lit ''thread_id'') (lit ''Restrict to one thread.''),
         nullable_rfc3339_schema (lit ''date_from'') (lit ''Earliest internal date (inclusive).''),
         nullable_rfc3339_schema (lit ''date_to'') (lit ''Latest internal date (inclusive).''),
         nullable_string_schema (lit ''from_addr'') (lit ''Substring match against the sender.''),
         nullable_string_schema (lit ''to_addr'') (lit ''Substring match against the recipients.''),
         boolean_schema (lit ''has_attachments'') (lit ''Filter by presence of attachments.''),
         boolean_schema (lit ''unread'') (lit ''Filter by read state (true = unread).''),
         integer_schema (lit ''limit'') 1 SEARCH_MAX_ROWS (lit ''Maximum rows to return.''),
         integer_schema (lit ''offset'') 0 i64_max (lit ''Rows to skip.'')]
      else if name = lit ''postblox_draft_create'' then
        [uuid_schema (lit ''account_id'') (lit ''Account id.''),
         nullable_uuid_schema (lit ''in_reply_to_msg'') (lit ''Message id this draft replies to.''),
         string_array_schema (lit ''to_addrs'') (lit ''To recipients.''),
         string_array_schema (lit ''cc_addrs'') (lit ''Cc recipients.''),
         string_array_schema (lit ''bcc_addrs'') (lit ''Bcc recipients.''),
         nullable_string_schema (lit ''subject'') (lit ''Draft subject.''),
         nullable_string_schema (lit ''text_body'') (lit ''Plain text body.''),
         nullable_string_schema (lit ''html_body'') (lit ''HTML body.'')]
      else if name = lit ''postblox_draft_update'' then
        [uuid_schema (lit ''id'') (lit ''Draft id.''),
         string_array_schema (lit ''to_addrs'') (lit ''To recipients.''),
         string_array_schema (lit ''cc_addrs'') (lit ''Cc recipients.''),
         string_array_schema (lit ''bcc_addrs'') (lit ''Bcc recipients.''),
         nullable_string_schema (lit ''subject'') (lit ''Draft subject.''),
         nullable_string_schema (lit ''text_body'') (lit ''Plain text body.''),
         nullable_string_schema (lit ''html_body'') (lit ''HTML body.'')]
      else if name = lit ''postblox_draft_delete'' then
        [uuid_schema (lit ''id'') (lit ''Draft id.'')]
      else if name = lit ''postblox_message_set_flags'' then
        [uuid_schema (lit ''id'') (lit ''Message id.''),
         string_array_schema (lit ''flags'') (lit ''Complete replacement flag list.'')]
      else if name = lit ''postblox_message_send'' then
        [uuid_schema (lit ''account_id'') (lit ''Account id.''),
         uuid_schema (lit ''draft_id'') (lit ''Draft id.'')]
      else if name = lit ''postblox_sql_query'' then
        [string_schema (lit ''sql'') (lit ''Read-only SQL statement to execute.''),
         integer_schema (lit ''limit'') 1 MAX_ROWS (lit ''Maximum rows to return; omitted limits use the daemon default.'')]
      else if name = lit ''postblox_sql_schema'' then []
      else [])"

definition input_schema :: "ToolSpec \<Rightarrow> json" where
  "input_schema tool = json_object
     [(lit ''type'', JString (lit ''object'')),
      (lit ''additionalProperties'', JBool False),
      (lit ''properties'', json_object (input_properties (tool_name tool))),
      (lit ''required'', json_strings (required tool))]"

definition tool_json :: "ToolSpec \<Rightarrow> json" where
  "tool_json tool = json_object
     [(lit ''name'', JString (tool_name tool)),
      (lit ''description'', JString (tool_description tool)),
      (lit ''inputSchema'', input_schema tool)]"

definition list_tools :: json where
  "list_tools = json_object [(lit ''tools'', JArray (map tool_json TOOLS))]"

subsection \<open>What validation guarantees\<close>

text \<open>The values a declared kind admits.\<close>

fun kind_admits :: "text_formats \<Rightarrow> FieldKind \<Rightarrow> json \<Rightarrow> bool" where
  "kind_admits tf StringField v = (\<exists>s. v = JString s)"
| "kind_admits tf NullableString v = (v = JNull \<or> (\<exists>s. v = JString s))"
| "kind_admits tf UuidString v = (\<exists>s u. v = JString s \<and> parse_uuid tf s = Some u)"
| "kind_admits tf NullableUuidString v = (v = JNull \<or> (\<exists>s u. v = JString s \<and> parse_uuid tf s = Some u))"
| "kind_admits tf NullableRfc3339 v = (v = JNull \<or> (\<exists>s. v = JString s \<and> is_rfc3339 tf s))"
| "kind_admits tf StringArrayField v = (\<exists>xs. v = json_strings xs)"
| "kind_admits tf BooleanField v = (\<exists>b. v = JBool b)"
| "kind_admits tf (IntegerField lo hi) v = (\<exists>i. as_i64 v = Some i \<and> lo \<le> i \<and> i \<le> hi)"

lemma all_strings: "list_all is_string vs \<longleftrightarrow> (\<exists>xs. vs = map JString xs)"
proof
  show "list_all is_string vs \<Longrightarrow> \<exists>xs. vs = map JString xs"
    by (induction vs) (auto simp: is_string_def intro: exI [of _ "_ # _"])
qed (auto simp: list_all_iff is_string_def)

lemma validate_field_iff: "validate_field tf field v kind = Ok () \<longleftrightarrow> kind_admits tf kind v"
proof (cases kind)
  case StringArrayField
  then show ?thesis
    by (cases v) (auto simp: validate_field_def json_strings_def all_strings split: if_splits)
qed (cases v; auto simp: validate_field_def is_string_def is_null_def is_boolean_def
       split: option.splits if_splits)+

lemma check_required_iff:
  "check_required fs obj = Ok () \<longleftrightarrow> (\<forall>f \<in> set fs. contains_key obj f)"
  by (induction fs) auto

lemma check_fields_iff:
  "check_fields tf tool fs = Ok () \<longleftrightarrow>
     (\<forall>(f, v) \<in> set fs. \<exists>k. field_kind tool f = Some k \<and> kind_admits tf k v)"
proof (induction fs)
  case (Cons fv fs)
  obtain f v where [simp]: "fv = (f, v)" by (cases fv)
  show ?case
  proof (cases "field_kind tool f")
    case (Some k)
    then show ?thesis
      using Cons validate_field_iff [of tf f v k] by (cases "validate_field tf f v k") auto
  qed simp
qed simp

definition args_object :: "json \<Rightarrow> jobject option" where
  "args_object v = (case v of JNull \<Rightarrow> Some [] | JObject m \<Rightarrow> Some m | _ \<Rightarrow> None)"

lemma validate_arguments_iff:
  "validate_arguments tf tool v = Ok w \<longleftrightarrow>
     (\<exists>m. args_object v = Some m \<and> w = JObject m \<and>
        list_all (contains_key m) (required tool) \<and>
        list_all (\<lambda>(f, x). \<exists>k. field_kind tool f = Some k \<and> kind_admits tf k x) m)"
proof (cases "args_object v")
  case None
  then show ?thesis by (cases v) (auto simp: validate_arguments_def args_object_def)
next
  case (Some m)
  then have "validate_arguments tf tool v =
      and_then (check_required (required tool) m)
        (\<lambda>_. and_then (check_fields tf tool m) (\<lambda>_. Ok (JObject m)))"
    by (cases v) (auto simp: validate_arguments_def args_object_def)
  then show ?thesis
    using Some check_required_iff [of "required tool" m] check_fields_iff [of tf tool m]
    by (cases "check_required (required tool) m"; cases "check_fields tf tool m")
       (auto simp: list_all_iff)
qed

subsection \<open>The advertised schema is the enforced one\<close>

text \<open>
  The fragment of JSON Schema the catalogue uses: \<^verbatim>\<open>type\<close> (one name or several),
  \<^verbatim>\<open>format\<close>, \<^verbatim>\<open>minimum\<close>, \<^verbatim>\<open>maximum\<close> and \<^verbatim>\<open>items\<close> of strings.  \<^verbatim>\<open>integer\<close> means a number
  written without a fraction.
\<close>

fun has_type :: "json \<Rightarrow> rstr \<Rightarrow> bool" where
  "has_type JNull t = (t = lit ''null'')"
| "has_type (JBool _) t = (t = lit ''boolean'')"
| "has_type (JNumber (Float _)) t = (t = lit ''number'')"
| "has_type (JNumber _) t = (t = lit ''number'' \<or> t = lit ''integer'')"
| "has_type (JString _) t = (t = lit ''string'')"
| "has_type (JArray _) t = (t = lit ''array'')"
| "has_type (JObject _) t = (t = lit ''object'')"

fun type_names :: "json \<Rightarrow> rstr list" where
  "type_names (JString t) = [t]"
| "type_names (JArray ts) = List.map_filter as_str ts"
| "type_names _ = []"

definition format_ok :: "text_formats \<Rightarrow> json \<Rightarrow> json \<Rightarrow> bool" where
  "format_ok tf fmt v =
     (case as_str v of
        None \<Rightarrow> True
      | Some s \<Rightarrow>
          if fmt = JString (lit ''uuid'') then parse_uuid tf s \<noteq> None
          else if fmt = JString (lit ''date-time'') then is_rfc3339 tf s
          else True)"

fun int_value :: "json \<Rightarrow> int option" where
  "int_value (JNumber (PosInt n)) = Some (int n)"
| "int_value (JNumber (NegInt i)) = Some i"
| "int_value _ = None"

definition bound_ok :: "(int \<Rightarrow> int \<Rightarrow> bool) \<Rightarrow> json option \<Rightarrow> json \<Rightarrow> bool" where
  "bound_ok le b v =
     (case (b, int_value v) of
        (Some b, Some i) \<Rightarrow> (case int_value b of Some b \<Rightarrow> le b i | None \<Rightarrow> True)
      | _ \<Rightarrow> True)"

definition schema_admits :: "text_formats \<Rightarrow> json \<Rightarrow> json \<Rightarrow> bool" where
  "schema_admits tf s v \<longleftrightarrow>
     (case value_get s (lit ''type'') of None \<Rightarrow> True | Some t \<Rightarrow> list_ex (has_type v) (type_names t)) \<and>
     (case value_get s (lit ''format'') of None \<Rightarrow> True | Some f \<Rightarrow> format_ok tf f v) \<and>
     bound_ok (\<le>) (value_get s (lit ''minimum'')) v \<and>
     bound_ok (\<ge>) (value_get s (lit ''maximum'')) v \<and>
     (case (value_get s (lit ''items''), as_array v) of
        (Some it, Some xs) \<Rightarrow>
          list_all (\<lambda>x. list_ex (has_type x) (type_names (unwrap_or JNull (value_get it (lit ''type''))))) xs
      | _ \<Rightarrow> True)"

definition schema_accepts :: "text_formats \<Rightarrow> json \<Rightarrow> jobject \<Rightarrow> bool" where
  "schema_accepts tf s m \<longleftrightarrow>
     list_all (contains_key m) (type_names (unwrap_or JNull (value_get s (lit ''required'')))) \<and>
     list_all (\<lambda>(f, x).
       case value_get (unwrap_or JNull (value_get s (lit ''properties''))) f of
         Some fs \<Rightarrow> schema_admits tf fs x
       | None \<Rightarrow> value_get s (lit ''additionalProperties'') \<noteq> Some (JBool False)) m"

text \<open>The schema a field kind is advertised with.\<close>

fun kind_schema :: "FieldKind \<Rightarrow> rstr \<Rightarrow> json" where
  "kind_schema StringField d = snd (string_schema [] d)"
| "kind_schema NullableString d = snd (nullable_string_schema [] d)"
| "kind_schema UuidString d = snd (uuid_schema [] d)"
| "kind_schema NullableUuidString d = snd (nullable_uuid_schema [] d)"
| "kind_schema NullableRfc3339 d = snd (nullable_rfc3339_schema [] d)"
| "kind_schema StringArrayField d = snd (string_array_schema [] d)"
| "kind_schema BooleanField d = snd (boolean_schema [] d)"
| "kind_schema (IntegerField lo hi) d = snd (integer_schema [] lo hi d)"

lemmas schema_defs =
  string_schema_def nullable_string_schema_def uuid_schema_def nullable_uuid_schema_def
  nullable_rfc3339_schema_def boolean_schema_def string_array_schema_def integer_schema_def

fun kind_bounded :: "FieldKind \<Rightarrow> bool" where
  "kind_bounded (IntegerField lo hi) \<longleftrightarrow> hi \<le> i64_max"
| "kind_bounded _ \<longleftrightarrow> True"

lemma map_filter_JString [simp]: "List.map_filter as_str (map JString xs) = xs"
  by (induction xs) (simp_all add: List.map_filter_simps)

lemma int_value_json_int [simp]: "int_value (json_int i) = Some i"
  by (simp add: json_int_def)

lemma has_type_string [simp]: "has_type v (lit ''string'') \<longleftrightarrow> (\<exists>s. v = JString s)"
  by (cases "(v, lit ''string'')" rule: has_type.cases) simp_all

lemma schema_admits_kind:
  "kind_bounded k \<Longrightarrow> schema_admits tf (kind_schema k d) v \<longleftrightarrow> kind_admits tf k v"
proof (cases k)
  case StringArrayField
  have "(\<exists>xs. vs = map JString xs) \<longleftrightarrow> list_all (\<lambda>v. \<exists>s. v = JString s) vs" for vs
    by (simp add: all_strings [symmetric] is_string_def list_all_iff)
  then show ?thesis
    by (cases "(v, lit ''array'')" rule: has_type.cases)
       (simp_all add: StringArrayField schema_admits_def schema_defs json_strings_def bound_ok_def)
next
  case (IntegerField lo hi)
  assume "kind_bounded k"
  with IntegerField show ?thesis
    by (cases "(v, lit ''integer'')" rule: has_type.cases)
       (auto simp: schema_admits_def schema_defs bound_ok_def)
qed (cases "(v, lit ''boolean'')" rule: has_type.cases;
     simp add: schema_admits_def schema_defs json_strings_def bound_ok_def format_ok_def)+

lemma tools_cases:
  assumes "list_all (\<lambda>tool. P tool) TOOLS" and "tool \<in> set TOOLS"
  shows "P tool"
  using assms by (auto simp: list_all_iff)

lemma kinds_bounded: "field_kind tool f = Some k \<Longrightarrow> kind_bounded k"
  by (auto simp: field_kind_def Let_def i64_max_def SEARCH_MAX_ROWS_def MAX_ROWS_def split: if_splits)

definition described :: "json option \<Rightarrow> FieldKind option \<Rightarrow> bool" where
  "described s k \<longleftrightarrow> rel_option (\<lambda>s k. \<exists>d. s = kind_schema k d) s k"

lemma described_simps [simp]:
  "described None None" "described (Some (kind_schema k d)) (Some k)"
  by (auto simp: described_def)

lemma schema_entries:
  "string_schema n d = (n, kind_schema StringField d)"
  "nullable_string_schema n d = (n, kind_schema NullableString d)"
  "uuid_schema n d = (n, kind_schema UuidString d)"
  "nullable_uuid_schema n d = (n, kind_schema NullableUuidString d)"
  "nullable_rfc3339_schema n d = (n, kind_schema NullableRfc3339 d)"
  "string_array_schema n d = (n, kind_schema StringArrayField d)"
  "boolean_schema n d = (n, kind_schema BooleanField d)"
  "integer_schema n lo hi d = (n, kind_schema (IntegerField lo hi) d)"
  by (simp_all add: schema_defs)

lemma described_entries:
  assumes "list_all (\<lambda>(n, s). described (Some s) (fk n)) props"
    and "f \<notin> fst ` set props \<longrightarrow> fk f = None"
  shows "described (map_of (rev props) f) (fk f)"
proof (cases "map_of (rev props) f")
  case None
  then have "f \<notin> fst ` set props" by (simp add: map_of_eq_None_iff image_iff)
  with None assms(2) show ?thesis by simp
next
  case (Some s)
  then have "(f, s) \<in> set props" by (auto dest: map_of_SomeD)
  with Some assms(1) show ?thesis by (auto simp: list_all_iff)
qed

lemma entries_described:
  "list_all (\<lambda>tool. list_all (\<lambda>(n, s). described (Some s) (field_kind tool n))
     (input_properties (tool_name tool))) TOOLS"
  by (simp add: TOOLS_def input_properties_def field_kind_def named_in_def schema_entries
           del: kind_schema.simps)

lemma no_other_fields:
  "list_all (\<lambda>tool. f \<notin> fst ` set (input_properties (tool_name tool)) \<longrightarrow> field_kind tool f = None) TOOLS"
  by (simp add: TOOLS_def input_properties_def field_kind_def named_in_def schema_entries
           del: kind_schema.simps)

lemma described_tools:
  "tool \<in> set TOOLS \<Longrightarrow>
   described (map_of (rev (input_properties (tool_name tool))) f) (field_kind tool f)"
  by (rule described_entries [OF tools_cases [OF entries_described] tools_cases [OF no_other_fields]])


text \<open>
  No tool reaches the approval, gate, network, secret or OAuth operations of the daemon, and
  a tool that skips the gates maps to a read operation.
\<close>

theorem tools_op_groups:
  "list_all (\<lambda>tool. op_group (tool_op tool) = ReadOps \<or>
     (op_group (tool_op tool) = WriteOps \<and> dangerous tool)) TOOLS"
  by (simp add: TOOLS_def)

end
