(* ===== verification/Gates.thy ===== *)
theory Gates
  imports Json Enums Threading
begin

text \<open>
  Gate evaluation for MCP tool calls, \<^verbatim>\<open>src/mcp/gates.rs\<close>, over the gate rows of
  \<^verbatim>\<open>src/models.rs\<close>.  Parsing the stored pattern text is \<^verbatim>\<open>serde_json::from_str\<close>, the
  parameter \<open>parse_json\<close>.
\<close>

record McpGate =
  gate_id :: uuid
  gate_tool :: rstr
  gate_arg_pattern :: "rstr option"
  gate_action :: GateAction
  gate_note :: "rstr option"
  gate_created_at :: instant

record McpApproval =
  ap_id :: uuid
  ap_tool :: rstr
  ap_args :: json
  ap_summary :: rstr
  ap_state :: ApprovalState
  ap_decided_at :: "instant option"
  ap_decided_by :: "rstr option"
  ap_created_at :: instant

datatype GateDecision =
    DecideAutoAllow "uuid option"
  | DecideDeny "uuid option"
  | DecideRequire "uuid option"

subsection \<open>Patterns\<close>

text \<open>\<^verbatim>\<open>str::split_once(char)\<close>.\<close>

fun split_once :: "rchar \<Rightarrow> rstr \<Rightarrow> (rstr \<times> rstr) option" where
  "split_once c [] = None"
| "split_once c (x # xs) =
     (if x = c then Some ([], xs)
      else map_option (\<lambda>(a, b). (x # a, b)) (split_once c xs))"

definition wildcard_matches :: "rstr \<Rightarrow> rstr \<Rightarrow> bool" where
  "wildcard_matches pattern actual =
     (if pattern = [42] then True
      else if count_list pattern 42 \<noteq> 1 then False
      else case split_once 42 pattern of
             None \<Rightarrow> False
           | Some (pre, suf) \<Rightarrow>
               starts_with actual pre \<and> ends_with actual suf \<and>
               str_len actual \<ge> str_len pre + str_len suf)"

definition value_matches :: "json \<Rightarrow> json \<Rightarrow> bool" where
  "value_matches expected actual =
     (case (as_str expected, as_str actual) of
        (Some p, Some a) \<Rightarrow> if 42 \<in> set p then wildcard_matches p a else expected = actual
      | _ \<Rightarrow> expected = actual)"

definition pattern_matches :: "json \<Rightarrow> json \<Rightarrow> bool" where
  "pattern_matches pattern args =
     (case as_object pattern of
        None \<Rightarrow> False
      | Some pat \<Rightarrow>
          (case as_object args of
             None \<Rightarrow> False
           | Some obj \<Rightarrow>
               list_all (\<lambda>(field, expected).
                 case obj_get obj field of
                   None \<Rightarrow> False
                 | Some actual \<Rightarrow> value_matches expected actual) pat))"

definition gate_matches :: "(rstr \<Rightarrow> json option) \<Rightarrow> McpGate \<Rightarrow> json \<Rightarrow> bool" where
  "gate_matches parse_json gate args =
     (case gate_arg_pattern gate of
        None \<Rightarrow> True
      | Some text \<Rightarrow>
          (case parse_json text of
             None \<Rightarrow> False
           | Some pattern \<Rightarrow> pattern_matches pattern args))"

fun gate_outcome :: "McpGate \<Rightarrow> GateDecision" where
  "gate_outcome gate =
     (case gate_action gate of
        AutoAllow \<Rightarrow> DecideAutoAllow (Some (gate_id gate))
      | Deny \<Rightarrow> DecideDeny (Some (gate_id gate))
      | Require \<Rightarrow> DecideRequire (Some (gate_id gate)))"

fun decide :: "(rstr \<Rightarrow> json option) \<Rightarrow> McpGate list \<Rightarrow> json \<Rightarrow> GateDecision" where
  "decide parse_json [] args = DecideRequire None"
| "decide parse_json (gate # gates) args =
     (if gate_matches parse_json gate args then gate_outcome gate
      else decide parse_json gates args)"

subsection \<open>What a wildcard accepts\<close>

lemma split_once_Some:
  "split_once c s = Some (a, b) \<longleftrightarrow> s = a @ c # b \<and> c \<notin> set a"
proof (induction s arbitrary: a)
  case Nil
  show ?case by simp
next
  case (Cons x xs)
  show ?case by (cases a) (auto simp: Cons)
qed

lemma split_once_None: "split_once c s = None \<longleftrightarrow> c \<notin> set s"
  by (induction s) auto

lemma len_utf8_pos: "0 < len_utf8 c"
  by (simp add: len_utf8_def)

lemma str_len_append: "str_len (a @ b) = str_len a + str_len b"
  by (simp add: str_len_def)

lemma str_len_pos: "s \<noteq> [] \<Longrightarrow> 0 < str_len s"
  using len_utf8_pos by (cases s) (auto simp: str_len_def)

text \<open>The byte-length guard rules out that prefix and suffix overlap.\<close>

lemma prefix_suffix_disjoint:
  assumes "prefix pre a" and "suffix suf a" and "str_len pre + str_len suf \<le> str_len a"
  shows "\<exists>mid. a = pre @ mid @ suf"
proof -
  from assms(1) obtain x where x: "a = pre @ x" by (auto simp: prefix_def)
  from assms(2) obtain y where y: "a = y @ suf" by (auto simp: suffix_def)
  show ?thesis
  proof (cases "length pre \<le> length y")
    case True
    then obtain m where "y = pre @ m"
      using x y by (metis append_eq_append_conv_if append_take_drop_id)
    with y show ?thesis by auto
  next
    case False
    then obtain m where m: "pre = y @ m" "m \<noteq> []"
      using x y by (metis append_eq_append_conv2 append_Nil2 append_is_Nil_conv le_refl length_append
          linear nat_le_linear not_add_less1 not_less)
    have "str_len a = str_len y + str_len suf" by (simp add: y str_len_append)
    moreover have "str_len pre = str_len y + str_len m" by (simp add: m str_len_append)
    ultimately show ?thesis using assms(3) str_len_pos [OF m(2)] by simp
  qed
qed

text \<open>
  A single-star pattern accepts exactly the strings made of its prefix, anything, and its
  suffix; a pattern with several stars accepts nothing.
\<close>

theorem wildcard_matches_iff:
  "wildcard_matches pattern actual \<longleftrightarrow>
     (\<exists>pre mid suf. pattern = pre @ 42 # suf \<and> 42 \<notin> set (pre @ suf) \<and> actual = pre @ mid @ suf)"
proof
  assume w: "wildcard_matches pattern actual"
  show "\<exists>pre mid suf. pattern = pre @ 42 # suf \<and> 42 \<notin> set (pre @ suf) \<and> actual = pre @ mid @ suf"
  proof (cases "pattern = [42]")
    case True
    then show ?thesis by (intro exI [of _ "[]"] exI [of _ actual]) simp
  next
    case False
    with w obtain pre suf where s: "split_once 42 pattern = Some (pre, suf)"
        "count_list pattern 42 = 1" "prefix pre actual" "suffix suf actual"
        "str_len pre + str_len suf \<le> str_len actual"
      by (auto simp: wildcard_matches_def starts_with_def ends_with_def split: option.splits if_splits)
    from s(1) have p: "pattern = pre @ 42 # suf" "42 \<notin> set pre" by (simp_all add: split_once_Some)
    with s(2) have "42 \<notin> set suf" by (simp add: count_list_0_iff)
    with p prefix_suffix_disjoint [OF s(3-5)] show ?thesis by auto
  qed
next
  assume "\<exists>pre mid suf. pattern = pre @ 42 # suf \<and> 42 \<notin> set (pre @ suf) \<and> actual = pre @ mid @ suf"
  then obtain pre mid suf where p: "pattern = pre @ 42 # suf" "42 \<notin> set (pre @ suf)"
      "actual = pre @ mid @ suf" by blast
  have "split_once 42 pattern = Some (pre, suf)" using p by (simp add: split_once_Some)
  moreover have "count_list pattern 42 = 1" using p by (simp add: count_list_0_iff)
  moreover have "suffix suf (pre @ mid @ suf)" by (metis append.assoc suffixI)
  ultimately show "wildcard_matches pattern actual"
    using p(3) by (simp add: wildcard_matches_def starts_with_def ends_with_def str_len_append)
qed

subsection \<open>First match decides\<close>

lemma decide_no_match:
  "(\<forall>g \<in> set gates. \<not> gate_matches pj g args) \<Longrightarrow> decide pj gates args = DecideRequire None"
  by (induction gates) auto

lemma decide_first_match:
  assumes "gate_matches pj g args" and "\<forall>h \<in> set pre. \<not> gate_matches pj h args"
  shows "decide pj (pre @ g # post) args = gate_outcome g"
  using assms by (induction pre) auto

lemma decide_cases:
  "(decide pj gates args = DecideRequire None \<and> (\<forall>g \<in> set gates. \<not> gate_matches pj g args)) \<or>
   (\<exists>pre g post. gates = pre @ g # post \<and> gate_matches pj g args \<and>
      (\<forall>h \<in> set pre. \<not> gate_matches pj h args) \<and> decide pj gates args = gate_outcome g)"
proof (cases "\<exists>g \<in> set gates. gate_matches pj g args")
  case True
  then obtain pre g post where "gates = pre @ g # post" "gate_matches pj g args"
      "\<forall>h \<in> set pre. \<not> gate_matches pj h args"
    using split_list_first_prop [of gates "\<lambda>g. gate_matches pj g args"] by blast
  then show ?thesis using decide_first_match by blast
next
  case False
  then show ?thesis using decide_no_match by blast
qed

text \<open>
  A call is allowed without asking only by a rule that says so.  The decision is
  auto-allow exactly when the first gate whose pattern matches the arguments is an
  auto-allow gate; in particular a matching deny or require gate listed earlier always wins,
  and with no matching gate a human must approve.
\<close>

theorem decide_auto_allow_iff:
  "(\<exists>i. decide pj gates args = DecideAutoAllow i) \<longleftrightarrow>
     (\<exists>pre g post. gates = pre @ g # post \<and> gate_matches pj g args \<and> gate_action g = AutoAllow \<and>
        \<not> (\<exists>h \<in> set pre. gate_matches pj h args))"
proof
  assume "\<exists>i. decide pj gates args = DecideAutoAllow i"
  then obtain i where i: "decide pj gates args = DecideAutoAllow i" ..
  then obtain pre g post where g: "gates = pre @ g # post" "gate_matches pj g args"
      "\<forall>h \<in> set pre. \<not> gate_matches pj h args" "decide pj gates args = gate_outcome g"
    using decide_cases [of pj gates args] by auto
  moreover have "gate_action g = AutoAllow"
    using i g(4) by (cases "gate_action g") auto
  ultimately show "\<exists>pre g post. gates = pre @ g # post \<and> gate_matches pj g args \<and>
      gate_action g = AutoAllow \<and> \<not> (\<exists>h \<in> set pre. gate_matches pj h args)"
    by blast
next
  assume "\<exists>pre g post. gates = pre @ g # post \<and> gate_matches pj g args \<and>
      gate_action g = AutoAllow \<and> \<not> (\<exists>h \<in> set pre. gate_matches pj h args)"
  then show "\<exists>i. decide pj gates args = DecideAutoAllow i"
    by (auto simp: decide_first_match)
qed

text \<open>
  A gate with a pattern matches only an argument object that has every field of the
  pattern with a matching value; an unparsable or non-object pattern never matches, so a
  broken rule can neither allow nor deny anything.
\<close>

theorem gate_matches_pattern_iff:
  "gate_matches pj g args \<longleftrightarrow>
     gate_arg_pattern g = None \<or>
     (\<exists>text pat obj. gate_arg_pattern g = Some text \<and> pj text = Some (JObject pat) \<and>
        args = JObject obj \<and>
        list_all (\<lambda>(k, e). \<exists>v. obj_get obj k = Some v \<and> value_matches e v) pat)"
proof (cases "gate_arg_pattern g")
  case None
  then show ?thesis by (simp add: gate_matches_def)
next
  case (Some t)
  show ?thesis
  proof (cases "pj t")
    case None
    with Some show ?thesis by (simp add: gate_matches_def)
  next
    case (Some pattern)
    with \<open>gate_arg_pattern g = Some t\<close> show ?thesis
      by (cases pattern; cases args)
         (auto simp: gate_matches_def pattern_matches_def list_all_iff split: option.splits)
  qed
qed

end
