(* ===== verification/McpBridge.thy ===== *)
theory McpBridge
  imports McpProtocol McpTools Gates IpcProtocol
begin

text \<open>
  The MCP bridge, \<^verbatim>\<open>src/mcp/server.rs\<close>: tool calls mapped to daemon requests through gates
  and approvals, event forwarding with redaction, and the bounded line reader.

  The daemon (\<^verbatim>\<open>DaemonBridge\<close>) is a parameter acting on a state of its own: what it answers to
  a request, and what a subscription delivers until the approval timer fires (a finite list of
  \<^verbatim>\<open>recv\<close> results; the timer branch of the biased \<^verbatim>\<open>select!\<close> is taken at its end).  The bridge
  state records every call with its answer and every event it looked at.  Decoders of rows and
  printers of \<^verbatim>\<open>serde_json\<close> and \<^verbatim>\<open>uuid\<close> are fields of \<open>mcp_env\<close>.
\<close>

datatype BridgeError =
    BridgeIo rstr
  | BridgeJson rstr
  | BridgeIpc rstr
  | BridgeDaemon rstr rstr
  | BadDaemonResponse rstr

fun to_json_rpc :: "BridgeError \<Rightarrow> JsonRpcError" where
  "to_json_rpc (BridgeDaemon code message) = server_error code message"
| "to_json_rpc (BadDaemonResponse message) = internal_error message"
| "to_json_rpc (BridgeIo e) = internal_error e"
| "to_json_rpc (BridgeJson e) = internal_error e"
| "to_json_rpc (BridgeIpc message) = server_error (lit ''ipc_error'') message"

record mcp_env = text_formats +
  show_uuid :: "uuid \<Rightarrow> rstr"
  decode_gates :: "json \<Rightarrow> (rstr, McpGate list) result"
  decode_approval :: "json \<Rightarrow> (rstr, McpApproval) result"
  json_from_str :: "rstr \<Rightarrow> (rstr, json) result"
  json_to_string :: "json \<Rightarrow> rstr"
  json_to_string_pretty :: "json \<Rightarrow> rstr"

record 'w DaemonBridge =
  daemon_request :: "rstr \<Rightarrow> json \<Rightarrow> 'w \<Rightarrow> (BridgeError, json) result \<times> 'w"
  daemon_subscribe :: "Topic \<Rightarrow> 'w \<Rightarrow> (BridgeError, Event option list) result \<times> 'w"

datatype bridge_event =
    Called rstr json "(BridgeError, json) result"
  | Saw Event

record 'w bridge =
  trace :: "bridge_event list"
  world :: 'w

type_synonym ('w, 'a) bridge_op = "'w bridge \<Rightarrow> (BridgeError, 'a) result \<times> 'w bridge"

definition bind_op :: "('w, 'a) bridge_op \<Rightarrow> ('a \<Rightarrow> ('w, 'b) bridge_op) \<Rightarrow> ('w, 'b) bridge_op" where
  "bind_op m f s = (case m s of (Err e, s') \<Rightarrow> (Err e, s') | (Ok x, s') \<Rightarrow> f x s')"

definition give :: "(BridgeError, 'a) result \<Rightarrow> ('w, 'a) bridge_op" where
  "give r s = (r, s)"

definition request :: "'w DaemonBridge \<Rightarrow> rstr \<Rightarrow> json \<Rightarrow> ('w, json) bridge_op" where
  "request d op_name args s =
     (let (r, w) = daemon_request d op_name args (world s) in
      (r, s\<lparr>trace := trace s @ [Called op_name args r], world := w\<rparr>))"

definition subscribe :: "'w DaemonBridge \<Rightarrow> Topic \<Rightarrow> ('w, Event option list) bridge_op" where
  "subscribe d topic s =
     (let (r, w) = daemon_subscribe d topic (world s) in (r, s\<lparr>world := w\<rparr>))"

definition look_at :: "Event \<Rightarrow> 'w bridge \<Rightarrow> 'w bridge" where
  "look_at ev s = s\<lparr>trace := trace s @ [Saw ev]\<rparr>"

subsection \<open>Events\<close>

definition decided_pair :: "mcp_env \<Rightarrow> uuid \<Rightarrow> jobject \<Rightarrow> ApprovalState option" where
  "decided_pair env i payload =
     Option.bind (Option.bind (obj_get payload (lit ''approval_id'')) as_str) (\<lambda>event_id.
     Option.bind (parse_uuid env event_id) (\<lambda>u.
       if u \<noteq> i then None
       else
         Option.bind (Option.bind (obj_get payload (lit ''state'')) as_str) (\<lambda>state.
           (case approval_state_from_str state of Ok s \<Rightarrow> Some s | Err _ \<Rightarrow> None))))"

definition match_decided_event :: "mcp_env \<Rightarrow> uuid \<Rightarrow> Event \<Rightarrow> ApprovalState option" where
  "match_decided_event env i event = Option.bind (as_object (ev_data event)) (decided_pair env i)"

definition event_is_lagged :: "Event \<Rightarrow> bool" where
  "event_is_lagged event =
     (case as_object (ev_data event) of None \<Rightarrow> False | Some m \<Rightarrow> contains_key m (lit ''lagged''))"

definition forwarded_keys :: "rstr list" where
  "forwarded_keys = [lit ''approval_id'', lit ''tool'', lit ''state'', lit ''summary'']"

definition forward_event_data :: "Event \<Rightarrow> json" where
  "forward_event_data event =
     (if ev_topic event \<noteq> topic_as_str McpApprovalRequested then ev_data event
      else
        (case as_object (ev_data event) of
           None \<Rightarrow> json_object []
         | Some payload \<Rightarrow>
             JObject (fold (\<lambda>key m. case obj_get payload key of
                                      None \<Rightarrow> m
                                    | Some v \<Rightarrow> obj_insert key v m) forwarded_keys [])))"

definition notification_topics :: "Topic list" where
  "notification_topics = [MailNew, MailUpdated, AccountSynced, McpApprovalRequested, McpApprovalDecided]"

text \<open>One turn of a notification task: an event, or the end of its subscription.\<close>

definition notify_turn :: "Topic \<Rightarrow> Event option \<Rightarrow> json" where
  "notify_turn topic ev =
     (case ev of
        Some event \<Rightarrow>
          notification (lit ''notifications/postblox/event'')
            (json_object [(lit ''topic'', JString (ev_topic event)),
                          (lit ''data'', forward_event_data event)])
      | None \<Rightarrow>
          notification (lit ''notifications/postblox/error'')
            (json_object [(lit ''topic'', JString (topic_as_str topic)),
                          (lit ''error'', JString (lit ''subscription dropped''))]))"

subsection \<open>Approvals\<close>

definition approval_summary :: "mcp_env \<Rightarrow> ToolSpec \<Rightarrow> json \<Rightarrow> rstr" where
  "approval_summary env tool arguments =
     (let fields = (case as_object arguments of
                      None \<Rightarrow> []
                    | Some obj \<Rightarrow>
                        List.map_filter (\<lambda>key. map_option (Pair key) (obj_get obj key))
                          [lit ''id'', lit ''account_id'', lit ''draft_id'', lit ''subject'']) in
      if fields = [] then lit ''MCP tool '' @ tool_name tool @ lit '' requested''
      else lit ''MCP tool '' @ tool_name tool @ lit '' requested with '' @
           json_to_string env (json_object fields))"

definition actor :: "ToolSpec \<Rightarrow> json" where
  "actor tool = JString (lit ''mcp:'' @ tool_name tool)"

definition uuid_json :: "mcp_env \<Rightarrow> uuid \<Rightarrow> json" where
  "uuid_json env i = JString (show_uuid env i)"

definition approval_request :: "mcp_env \<Rightarrow> ToolSpec \<Rightarrow> json \<Rightarrow> json" where
  "approval_request env tool arguments = json_object
     [(lit ''tool'', JString (tool_name tool)),
      (lit ''args'', arguments),
      (lit ''summary'', JString (approval_summary env tool arguments)),
      (lit ''_actor'', actor tool)]"

definition decoded :: "rstr \<Rightarrow> (rstr, 'a) result \<Rightarrow> (BridgeError, 'a) result" where
  "decoded ctx r = map_err (\<lambda>e. BadDaemonResponse (ctx @ lit '': '' @ e)) r"

definition create_approval ::
  "mcp_env \<Rightarrow> 'w DaemonBridge \<Rightarrow> ToolSpec \<Rightarrow> json \<Rightarrow> ('w, McpApproval) bridge_op" where
  "create_approval env d tool arguments =
     bind_op (request d (lit ''mcp.approval.create'') (approval_request env tool arguments))
       (\<lambda>v. give (decoded (lit ''mcp.approval.create'') (decode_approval env v)))"

definition get_approval :: "mcp_env \<Rightarrow> 'w DaemonBridge \<Rightarrow> uuid \<Rightarrow> ('w, McpApproval) bridge_op" where
  "get_approval env d i =
     bind_op (request d (lit ''mcp.approval.get'') (json_object [(lit ''id'', uuid_json env i)]))
       (\<lambda>v. give
         (if is_null v
          then Err (BadDaemonResponse (lit ''approval '' @ show_uuid env i @ lit '' not found''))
          else decoded (lit ''mcp.approval.get'') (decode_approval env v)))"

definition expire_request :: "mcp_env \<Rightarrow> uuid \<Rightarrow> json" where
  "expire_request env i = json_object
     [(lit ''id'', uuid_json env i),
      (lit ''state'', JString (lit ''expired'')),
      (lit ''decided_by'', JString (lit ''mcp:timeout''))]"

definition expire_approval :: "mcp_env \<Rightarrow> 'w DaemonBridge \<Rightarrow> uuid \<Rightarrow> ('w, ApprovalState) bridge_op" where
  "expire_approval env d i =
     bind_op (request d (lit ''mcp.approval.decide'') (expire_request env i))
       (\<lambda>v. if unwrap_or False (Option.bind (value_get v (lit ''decided'')) as_bool)
            then give (Ok Expired)
            else bind_op (get_approval env d i) (\<lambda>ap. give (Ok (ap_state ap))))"

text \<open>Re-read the approval and stop unless it is still pending.\<close>

definition recheck ::
  "mcp_env \<Rightarrow> 'w DaemonBridge \<Rightarrow> uuid \<Rightarrow> ('w, ApprovalState) bridge_op \<Rightarrow> ('w, ApprovalState) bridge_op" where
  "recheck env d i otherwise =
     bind_op (get_approval env d i)
       (\<lambda>ap. if ap_state ap \<noteq> Pending then give (Ok (ap_state ap)) else otherwise)"

text \<open>The select loop, over what the subscription delivers before the timer fires.\<close>

fun wait_loop :: "mcp_env \<Rightarrow> 'w DaemonBridge \<Rightarrow> uuid \<Rightarrow> Event option list \<Rightarrow> ('w, ApprovalState) bridge_op" where
  "wait_loop env d i [] s = expire_approval env d i s"
| "wait_loop env d i (None # evs) s = recheck env d i (expire_approval env d i) s"
| "wait_loop env d i (Some event # evs) s =
     (let s' = look_at event s in
      case match_decided_event env i event of
        Some state \<Rightarrow> (Ok state, s')
      | None \<Rightarrow>
          if event_is_lagged event then recheck env d i (wait_loop env d i evs) s'
          else wait_loop env d i evs s')"

definition wait_for_approval :: "mcp_env \<Rightarrow> 'w DaemonBridge \<Rightarrow> uuid \<Rightarrow> ('w, ApprovalState) bridge_op" where
  "wait_for_approval env d i =
     bind_op (subscribe d McpApprovalDecided) (\<lambda>evs. recheck env d i (wait_loop env d i evs))"

subsection \<open>Tool calls\<close>

definition with_actor :: "ToolSpec \<Rightarrow> json \<Rightarrow> json" where
  "with_actor tool arguments =
     (case arguments of
        JObject m \<Rightarrow> JObject (obj_insert (lit ''_actor'') (actor tool) m)
      | v \<Rightarrow> v)"

definition forward_dangerous_tool :: "'w DaemonBridge \<Rightarrow> ToolSpec \<Rightarrow> json \<Rightarrow> ('w, json) bridge_op" where
  "forward_dangerous_tool d tool arguments =
     request d (op_as_str (tool_op tool)) (with_actor tool arguments)"

definition parse_pattern :: "mcp_env \<Rightarrow> rstr \<Rightarrow> json option" where
  "parse_pattern env t = (case json_from_str env t of Ok v \<Rightarrow> Some v | Err _ \<Rightarrow> None)"

definition gate_decision ::
  "mcp_env \<Rightarrow> 'w DaemonBridge \<Rightarrow> ToolSpec \<Rightarrow> json \<Rightarrow> ('w, GateDecision) bridge_op" where
  "gate_decision env d tool arguments =
     bind_op (request d (lit ''mcp.gate.list'') (json_object [(lit ''tool'', JString (tool_name tool))]))
       (\<lambda>v. bind_op (give (decoded (lit ''mcp.gate.list'') (decode_gates env v)))
         (\<lambda>gates. give (Ok (decide (parse_pattern env) gates arguments))))"

definition after_decision ::
  "mcp_env \<Rightarrow> 'w DaemonBridge \<Rightarrow> ToolSpec \<Rightarrow> json \<Rightarrow> uuid \<Rightarrow> ApprovalState \<Rightarrow> ('w, json) bridge_op" where
  "after_decision env d tool arguments i state =
     (case state of
        Allowed \<Rightarrow> forward_dangerous_tool d tool arguments
      | Denied \<Rightarrow> give (Err (BridgeDaemon (lit ''approval_denied'')
                    (lit ''MCP approval '' @ show_uuid env i @ lit '' was denied'')))
      | Expired \<Rightarrow> give (Err (BridgeDaemon (lit ''approval_expired'')
                    (lit ''MCP approval '' @ show_uuid env i @ lit '' expired'')))
      | Pending \<Rightarrow> give (Err (BridgeDaemon (lit ''approval_timeout'')
                    (lit ''MCP approval '' @ show_uuid env i @ lit '' timed out''))))"

definition call_after_required_approval ::
  "mcp_env \<Rightarrow> 'w DaemonBridge \<Rightarrow> ToolSpec \<Rightarrow> json \<Rightarrow> ('w, json) bridge_op" where
  "call_after_required_approval env d tool arguments =
     bind_op (create_approval env d tool arguments)
       (\<lambda>ap. bind_op (wait_for_approval env d (ap_id ap))
         (after_decision env d tool arguments (ap_id ap)))"

definition call_tool :: "mcp_env \<Rightarrow> 'w DaemonBridge \<Rightarrow> ToolSpec \<Rightarrow> json \<Rightarrow> ('w, json) bridge_op" where
  "call_tool env d tool arguments =
     (if \<not> dangerous tool then request d (op_as_str (tool_op tool)) arguments
      else
        bind_op (gate_decision env d tool arguments)
          (\<lambda>decision.
            (case decision of
               DecideAutoAllow _ \<Rightarrow> forward_dangerous_tool d tool arguments
             | DecideDeny _ \<Rightarrow> give (Err (BridgeDaemon (lit ''gate_denied'')
                                 (lit ''MCP gate denied '' @ tool_name tool)))
             | DecideRequire _ \<Rightarrow> call_after_required_approval env d tool arguments)))"

definition tool_result :: "mcp_env \<Rightarrow> json \<Rightarrow> json" where
  "tool_result env value = json_object
     [(lit ''content'',
         JArray [json_object [(lit ''type'', JString (lit ''text'')),
                              (lit ''text'', JString (json_to_string_pretty env value))]]),
      (lit ''structuredContent'', value)]"

text \<open>The checks of \<^verbatim>\<open>handle_tool_call\<close> before any daemon call.\<close>

definition checked_call :: "mcp_env \<Rightarrow> json \<Rightarrow> (JsonRpcError, ToolSpec \<times> json) result" where
  "checked_call env params =
     and_then (object_params params) (\<lambda>ps.
     and_then (ok_or (invalid_params (lit ''tools/call missing '' @ [39] @ lit ''name'' @ [39]))
                 (Option.bind (obj_get ps (lit ''name'')) as_str)) (\<lambda>name.
     and_then (ok_or (invalid_params (lit ''unknown tool '' @ [39] @ name @ [39])) (find_tool name)) (\<lambda>tool.
     and_then (map_err invalid_params
                 (validate_arguments (text_formats.truncate env) tool
                    (unwrap_or (json_object []) (obj_get ps (lit ''arguments''))))) (\<lambda>arguments.
     Ok (tool, arguments)))))"

definition handle_tool_call ::
  "mcp_env \<Rightarrow> 'w DaemonBridge \<Rightarrow> json \<Rightarrow> 'w bridge \<Rightarrow> (JsonRpcError, json) result \<times> 'w bridge" where
  "handle_tool_call env d params s =
     (case checked_call env params of
        Err e \<Rightarrow> (Err e, s)
      | Ok (tool, arguments) \<Rightarrow>
          (case call_tool env d tool arguments s of
             (Err e, s') \<Rightarrow> (Err (to_json_rpc e), s')
           | (Ok v, s') \<Rightarrow> (Ok (tool_result env v), s')))"

definition handle_initialize :: "json \<Rightarrow> (JsonRpcError, json) result" where
  "handle_initialize params =
     and_then (object_params params) (\<lambda>ps.
       Ok (initialize_result (Option.bind (obj_get ps (lit ''protocolVersion'')) as_str)))"

definition handle_request ::
  "mcp_env \<Rightarrow> 'w DaemonBridge \<Rightarrow> json \<Rightarrow> rstr \<Rightarrow> json \<Rightarrow> 'w bridge \<Rightarrow> json \<times> 'w bridge" where
  "handle_request env d i m params s =
     (let (result, s') =
        (if m = lit ''initialize'' then (handle_initialize params, s)
         else if m = lit ''tools/list'' then (Ok list_tools, s)
         else if m = lit ''tools/call'' then handle_tool_call env d params s
         else if m = lit ''ping'' then (Ok (json_object []), s)
         else (Err (method_not_found m), s)) in
      (case result of
         Ok r \<Rightarrow> (success_response i r, s')
       | Err e \<Rightarrow> (error_response i e, s')))"

definition handle_incoming ::
  "mcp_env \<Rightarrow> 'w DaemonBridge \<Rightarrow> Incoming \<Rightarrow> 'w bridge \<Rightarrow> json option \<times> 'w bridge" where
  "handle_incoming env d incoming s =
     (case incoming of
        Request i m params \<Rightarrow> (let (r, s') = handle_request env d i m params s in (Some r, s'))
      | Notification _ _ \<Rightarrow> (None, s)
      | Response \<Rightarrow> (None, s))"

definition handle_line ::
  "mcp_env \<Rightarrow> 'w DaemonBridge \<Rightarrow> rstr \<Rightarrow> 'w bridge \<Rightarrow> json option \<times> 'w bridge" where
  "handle_line env d line s =
     (case parse_line (json_from_str env) line of
        Ok incoming \<Rightarrow> handle_incoming env d incoming s
      | Err error_resp \<Rightarrow> (Some error_resp, s))"

subsection \<open>Traces of bridge operations\<close>

text \<open>\<open>ensures m P\<close>: whatever \<open>m\<close> returns, what it appends to the trace satisfies \<open>P\<close>.\<close>

definition ensures :: "('w, 'a) bridge_op \<Rightarrow> ((BridgeError, 'a) result \<Rightarrow> bridge_event list \<Rightarrow> bool) \<Rightarrow> bool" where
  "ensures m P \<longleftrightarrow> (\<forall>s. \<exists>tr. trace (snd (m s)) = trace s @ tr \<and> P (fst (m s)) tr)"

lemma ensures_weaken: "ensures m Q \<Longrightarrow> (\<And>r tr. Q r tr \<Longrightarrow> P r tr) \<Longrightarrow> ensures m P"
  unfolding ensures_def by blast

lemma ensures_give: "P r [] \<Longrightarrow> ensures (give r) P"
  by (simp add: ensures_def give_def)

lemma ensures_request: "(\<And>r. P r [Called op_name args r]) \<Longrightarrow> ensures (request d op_name args) P"
  by (simp add: ensures_def request_def Let_def split: prod.splits)

lemma ensures_subscribe: "(\<And>r. P r []) \<Longrightarrow> ensures (subscribe d topic) P"
  by (simp add: ensures_def subscribe_def Let_def split: prod.splits)

lemma ensures_bind:
  assumes m: "ensures m Q"
    and err: "\<And>e tr. Q (Err e) tr \<Longrightarrow> P (Err e) tr"
    and ok: "\<And>x tr. Q (Ok x) tr \<Longrightarrow> ensures (f x) (\<lambda>r tr'. P r (tr @ tr'))"
  shows "ensures (bind_op m f) P"
  unfolding ensures_def
proof
  fix s
  obtain r s1 where ms: "m s = (r, s1)" by (cases "m s")
  with m obtain tr where tr: "trace s1 = trace s @ tr" "Q r tr"
    unfolding ensures_def by (metis fst_conv snd_conv)
  show "\<exists>tr. trace (snd (bind_op m f s)) = trace s @ tr \<and> P (fst (bind_op m f s)) tr"
  proof (cases r)
    case (Inl e)
    with ms tr err show ?thesis by (auto simp: bind_op_def)
  next
    case (Inr x)
    with ok tr obtain tr' where "trace (snd (f x s1)) = trace s1 @ tr'" "P (fst (f x s1)) (tr @ tr')"
      unfolding ensures_def by metis
    with Inr ms tr show ?thesis by (auto simp: bind_op_def)
  qed
qed

text \<open>Calls to the gate and approval operations only.\<close>

definition gate_ops :: "rstr list" where
  "gate_ops = [lit ''mcp.gate.list'', lit ''mcp.approval.create'', lit ''mcp.approval.get'',
               lit ''mcp.approval.decide'']"

definition gate_calls :: "bridge_event list \<Rightarrow> bool" where
  "gate_calls tr \<longleftrightarrow> list_all (\<lambda>c. case c of Called o' _ _ \<Rightarrow> o' \<in> set gate_ops | Saw _ \<Rightarrow> True) tr"

lemma gate_calls_simps [simp]:
  "gate_calls []" "gate_calls (a @ b) \<longleftrightarrow> gate_calls a \<and> gate_calls b"
  "gate_calls (Called o' args r # tr) \<longleftrightarrow> o' \<in> set gate_ops \<and> gate_calls tr"
  "gate_calls (Saw ev # tr) \<longleftrightarrow> gate_calls tr"
  by (simp_all add: gate_calls_def)

text \<open>What counts as the daemon having allowed approval \<open>i\<close>.\<close>

definition approval_allowed :: "mcp_env \<Rightarrow> uuid \<Rightarrow> bridge_event list \<Rightarrow> bool" where
  "approval_allowed env i tr \<longleftrightarrow>
     (\<exists>v ap. Called (lit ''mcp.approval.get'') (json_object [(lit ''id'', uuid_json env i)]) (Ok v) \<in> set tr \<and>
        decode_approval env v = Ok ap \<and> ap_state ap = Allowed) \<or>
     (\<exists>ev. Saw ev \<in> set tr \<and> match_decided_event env i ev = Some Allowed)"

definition authorised :: "mcp_env \<Rightarrow> ToolSpec \<Rightarrow> json \<Rightarrow> bridge_event list \<Rightarrow> bool" where
  "authorised env tool args tr \<longleftrightarrow>
     (\<exists>v gates. Called (lit ''mcp.gate.list'') (json_object [(lit ''tool'', JString (tool_name tool))]) (Ok v) \<in> set tr \<and>
        decode_gates env v = Ok gates \<and>
        ((\<exists>g. decide (parse_pattern env) gates args = DecideAutoAllow g) \<or>
         (\<exists>g v' ap. decide (parse_pattern env) gates args = DecideRequire g \<and>
            Called (lit ''mcp.approval.create'') (approval_request env tool args) (Ok v') \<in> set tr \<and>
            decode_approval env v' = Ok ap \<and> approval_allowed env (ap_id ap) tr)))"

lemma approval_allowed_append:
  "approval_allowed env i tr \<Longrightarrow> approval_allowed env i (tr @ tr')"
  "approval_allowed env i tr' \<Longrightarrow> approval_allowed env i (tr @ tr')"
  "approval_allowed env i tr \<Longrightarrow> approval_allowed env i (c # tr)"
  unfolding approval_allowed_def by auto

abbreviation waits :: "mcp_env \<Rightarrow> uuid \<Rightarrow> (BridgeError, ApprovalState) result \<Rightarrow> bridge_event list \<Rightarrow> bool" where
  "waits env i r tr \<equiv> gate_calls tr \<and> (r = Ok Allowed \<longrightarrow> approval_allowed env i tr)"

lemma get_approval_ensures:
  "ensures (get_approval env d i)
     (\<lambda>r tr. gate_calls tr \<and> (\<forall>ap. r = Ok ap \<longrightarrow> ap_state ap = Allowed \<longrightarrow> approval_allowed env i tr))"
proof -
  let ?q = "json_object [(lit ''id'', uuid_json env i)]"
  have "ensures (request d (lit ''mcp.approval.get'') ?q) (\<lambda>r tr. tr = [Called (lit ''mcp.approval.get'') ?q r])"
    by (rule ensures_request) simp
  then show ?thesis
    unfolding get_approval_def
    by (rule ensures_bind)
       (auto intro!: ensures_give simp: gate_ops_def approval_allowed_def decoded_def map_err_Inr_iff)
qed

lemma expire_approval_ensures: "ensures (expire_approval env d i) (waits env i)"
proof -
  have "ensures (request d (lit ''mcp.approval.decide'') (expire_request env i))
      (\<lambda>r tr. tr = [Called (lit ''mcp.approval.decide'') (expire_request env i) r])"
    by (rule ensures_request) simp
  then show ?thesis
    unfolding expire_approval_def
  proof (rule ensures_bind)
    fix v tr
    assume tr: "tr = [Called (lit ''mcp.approval.decide'') (expire_request env i) (Ok v)]"
    have "ensures (bind_op (get_approval env d i) (\<lambda>ap. give (Ok (ap_state ap)))) (\<lambda>r tr'. waits env i r (tr @ tr'))"
      by (rule ensures_bind [OF get_approval_ensures])
         (auto intro!: ensures_give approval_allowed_append(3) simp: tr gate_ops_def)
    then show "ensures (if unwrap_or False (Option.bind (value_get v (lit ''decided'')) as_bool) then give (Ok Expired)
                  else bind_op (get_approval env d i) (\<lambda>ap. give (Ok (ap_state ap)))) (\<lambda>r tr'. waits env i r (tr @ tr'))"
      by (auto intro!: ensures_give simp: tr gate_ops_def)
  qed (auto simp: gate_ops_def)
qed

lemma ensures_prefix:
  "ensures m (waits env i) \<Longrightarrow> gate_calls tr \<Longrightarrow> ensures m (\<lambda>r tr'. waits env i r (tr @ tr'))"
  by (erule ensures_weaken) (auto intro: approval_allowed_append)

lemma recheck_ensures:
  assumes "ensures k (waits env i)"
  shows "ensures (recheck env d i k) (waits env i)"
  unfolding recheck_def
proof (rule ensures_bind [OF get_approval_ensures])
  fix ap tr
  assume "gate_calls tr \<and> (\<forall>ap'. Ok ap = Ok ap' \<longrightarrow> ap_state ap' = Allowed \<longrightarrow> approval_allowed env i tr)"
  then show "ensures (if ap_state ap \<noteq> Pending then give (Ok (ap_state ap)) else k) (\<lambda>r tr'. waits env i r (tr @ tr'))"
    using ensures_prefix [OF assms, of tr] by (auto intro!: ensures_give simp del: gate_calls_simps(2))
qed simp

lemma ensures_look_at:
  assumes "ensures m (waits env i)"
  shows "\<exists>tr. trace (snd (m (look_at ev s))) = trace s @ tr \<and> waits env i (fst (m (look_at ev s))) tr"
proof -
  from assms obtain tr where "trace (snd (m (look_at ev s))) = trace (look_at ev s) @ tr"
      "waits env i (fst (m (look_at ev s))) tr"
    unfolding ensures_def by blast
  then show ?thesis
    by (intro exI [of _ "Saw ev # tr"]) (auto simp: look_at_def intro: approval_allowed_append)
qed

lemma wait_loop_ensures: "ensures (wait_loop env d i evs) (waits env i)"
proof (induction evs)
  case Nil
  show ?case using expire_approval_ensures [of env d i] by (simp add: ensures_def)
next
  case (Cons e evs)
  show ?case
  proof (cases e)
    case None
    then show ?thesis
      using recheck_ensures [OF expire_approval_ensures, of env d i d] by (simp add: ensures_def)
  next
    case (Some event)
    have decided: "\<exists>tr. trace (look_at event s) = trace s @ tr \<and> waits env i (Ok state) tr"
      if "match_decided_event env i event = Some state" for state and s :: "'a bridge"
      using that by (auto simp: look_at_def approval_allowed_def)
    show ?thesis
      unfolding ensures_def Some wait_loop.simps Let_def
      using decided ensures_look_at [OF Cons.IH] ensures_look_at [OF recheck_ensures [OF Cons.IH]]
      by (auto split: option.split)
  qed
qed

lemma wait_for_approval_ensures: "ensures (wait_for_approval env d i) (waits env i)"
  unfolding wait_for_approval_def
proof (rule ensures_bind)
  show "ensures (subscribe d McpApprovalDecided) (\<lambda>r tr. tr = [])" by (rule ensures_subscribe) simp
  show "ensures (recheck env d i (wait_loop env d i evs)) (\<lambda>r tr'. waits env i r (tr @ tr'))"
    if "tr = []" for evs tr
    using that recheck_ensures [OF wait_loop_ensures] by simp
qed simp

text \<open>The trace of a tool call: gate calls, then at most the call itself.\<close>

definition forwards :: "ToolSpec \<Rightarrow> json \<Rightarrow> (bridge_event list \<Rightarrow> bool) \<Rightarrow> bridge_event list \<Rightarrow> bool" where
  "forwards tool args A tr \<longleftrightarrow>
     gate_calls tr \<or>
     (\<exists>pre r. tr = pre @ [Called (op_as_str (tool_op tool)) (with_actor tool args) r] \<and> gate_calls pre \<and> A pre)"

lemma forward_ensures:
  "gate_calls pre \<Longrightarrow> A pre \<Longrightarrow>
   ensures (forward_dangerous_tool d tool args) (\<lambda>r tr. forwards tool args A (pre @ tr))"
  unfolding forward_dangerous_tool_def by (rule ensures_request) (auto simp: forwards_def)

definition approved :: "mcp_env \<Rightarrow> ToolSpec \<Rightarrow> json \<Rightarrow> bridge_event list \<Rightarrow> bool" where
  "approved env tool args tr \<longleftrightarrow>
     (\<exists>v ap. Called (lit ''mcp.approval.create'') (approval_request env tool args) (Ok v) \<in> set tr \<and>
        decode_approval env v = Ok ap \<and> approval_allowed env (ap_id ap) tr)"

lemma create_approval_ensures:
  "ensures (create_approval env d tool args)
     (\<lambda>r tr. gate_calls tr \<and> (\<forall>ap. r = Ok ap \<longrightarrow>
        (\<exists>v. Called (lit ''mcp.approval.create'') (approval_request env tool args) (Ok v) \<in> set tr \<and>
          decode_approval env v = Ok ap)))"
proof -
  have "ensures (request d (lit ''mcp.approval.create'') (approval_request env tool args))
      (\<lambda>r tr. tr = [Called (lit ''mcp.approval.create'') (approval_request env tool args) r])"
    by (rule ensures_request) simp
  then show ?thesis
    unfolding create_approval_def
    by (rule ensures_bind) (auto intro!: ensures_give simp: gate_ops_def decoded_def map_err_Inr_iff)
qed

lemma call_after_required_approval_ensures:
  assumes pre: "gate_calls pre" and A: "\<And>tr. approved env tool args (pre @ tr) \<Longrightarrow> A (pre @ tr)"
  shows "ensures (call_after_required_approval env d tool args) (\<lambda>r tr. forwards tool args A (pre @ tr))"
  unfolding call_after_required_approval_def
proof (rule ensures_bind [OF create_approval_ensures])
  fix ap tr
  assume created: "gate_calls tr \<and> (\<forall>ap'. (Ok ap :: (BridgeError, McpApproval) result) = Ok ap' \<longrightarrow>
      (\<exists>v. Called (lit ''mcp.approval.create'') (approval_request env tool args) (Ok v) \<in> set tr \<and>
        decode_approval env v = Ok ap'))"
  show "ensures (bind_op (wait_for_approval env d (ap_id ap)) (after_decision env d tool args (ap_id ap)))
      (\<lambda>r tr'. forwards tool args A (pre @ tr @ tr'))"
  proof (rule ensures_bind [OF wait_for_approval_ensures])
    fix state tr'
    assume w: "waits env (ap_id ap) (Ok state) tr'"
    have "A (pre @ tr @ tr')" if "state = Allowed"
      using that w created by (intro A) (auto simp: approved_def intro!: approval_allowed_append)
    then show "ensures (after_decision env d tool args (ap_id ap) state)
        (\<lambda>r tr''. forwards tool args A (pre @ tr @ tr' @ tr''))"
      using w created pre forward_ensures [of "pre @ tr @ tr'" A d tool args]
      by (cases state) (auto intro!: ensures_give simp: forwards_def after_decision_def)
  qed (use created pre in \<open>auto simp: forwards_def\<close>)
qed (use pre in \<open>auto simp: forwards_def\<close>)

lemma gate_decision_ensures:
  "ensures (gate_decision env d tool args)
     (\<lambda>r tr. gate_calls tr \<and> (\<forall>g. r = Ok g \<longrightarrow>
        (\<exists>v gates. Called (lit ''mcp.gate.list'') (json_object [(lit ''tool'', JString (tool_name tool))]) (Ok v) \<in> set tr \<and>
          decode_gates env v = Ok gates \<and> g = decide (parse_pattern env) gates args)))"
proof -
  let ?q = "json_object [(lit ''tool'', JString (tool_name tool))]"
  have "ensures (request d (lit ''mcp.gate.list'') ?q) (\<lambda>r tr. tr = [Called (lit ''mcp.gate.list'') ?q r])"
    by (rule ensures_request) simp
  then show ?thesis
    unfolding gate_decision_def
  proof (rule ensures_bind)
    fix v tr
    assume "tr = [Called (lit ''mcp.gate.list'') ?q (Ok v)]"
    then show "ensures (bind_op (give (decoded (lit ''mcp.gate.list'') (decode_gates env v)))
        (\<lambda>gates. give (Ok (decide (parse_pattern env) gates args))))
        (\<lambda>r tr'. gate_calls (tr @ tr') \<and> (\<forall>g. r = Ok g \<longrightarrow>
          (\<exists>v gates. Called (lit ''mcp.gate.list'') ?q (Ok v) \<in> set (tr @ tr') \<and>
            decode_gates env v = Ok gates \<and> g = decide (parse_pattern env) gates args)))"
      by (cases "decode_gates env v")
         (auto simp: ensures_def bind_op_def give_def decoded_def gate_ops_def)
  qed (auto simp: gate_ops_def)
qed

lemma call_tool_ensures:
  assumes "dangerous tool"
  shows "ensures (call_tool env d tool args) (\<lambda>r tr. forwards tool args (authorised env tool args) tr)"
  using assms unfolding call_tool_def
proof (simp, intro ensures_bind [OF gate_decision_ensures])
  fix g tr
  assume "gate_calls tr \<and> (\<forall>g'. (Ok g :: (BridgeError, GateDecision) result) = Ok g' \<longrightarrow>
      (\<exists>v gates. Called (lit ''mcp.gate.list'') (json_object [(lit ''tool'', JString (tool_name tool))]) (Ok v) \<in> set tr \<and>
        decode_gates env v = Ok gates \<and> g' = decide (parse_pattern env) gates args))"
  then have tr: "gate_calls tr"
    and auto_ok: "g = DecideAutoAllow j \<Longrightarrow> authorised env tool args tr"
    and approved_ok: "g = DecideRequire j \<Longrightarrow> approved env tool args (tr @ tr') \<Longrightarrow> authorised env tool args (tr @ tr')" for j tr'
    by (auto simp: authorised_def approved_def) metis+
  show "ensures (case g of DecideAutoAllow _ \<Rightarrow> forward_dangerous_tool d tool args
      | DecideDeny _ \<Rightarrow> give (Err (BridgeDaemon (lit ''gate_denied'') (lit ''MCP gate denied '' @ tool_name tool)))
      | DecideRequire _ \<Rightarrow> call_after_required_approval env d tool args)
      (\<lambda>r tr'. forwards tool args (authorised env tool args) (tr @ tr'))"
  proof (cases g)
    case (DecideAutoAllow j)
    with tr auto_ok show ?thesis by (simp add: forward_ensures)
  next
    case (DecideDeny j)
    with tr show ?thesis by (auto intro!: ensures_give simp: forwards_def)
  next
    case (DecideRequire j)
    with tr approved_ok show ?thesis by (simp add: call_after_required_approval_ensures)
  qed
qed (auto simp: forwards_def)

subsection \<open>Every dangerous call is authorised\<close>

lemma distinct_tool_ops: "distinct (map tool_op TOOLS)"
  by (simp add: TOOLS_def)

lemma tool_by_op:
  assumes "t \<in> set TOOLS" and "t' \<in> set TOOLS" and "op_as_str (tool_op t) = op_as_str (tool_op t')"
  shows "t = t'"
  using assms distinct_tool_ops by (auto simp: op.to_text_inj distinct_map dest: inj_onD)

lemma tool_op_not_gate: "t \<in> set TOOLS \<Longrightarrow> op_as_str (tool_op t) \<notin> set gate_ops"
proof -
  have "list_all (\<lambda>t. op_as_str (tool_op t) \<notin> set gate_ops) TOOLS"
    by (simp add: TOOLS_def gate_ops_def)
  then show "t \<in> set TOOLS \<Longrightarrow> op_as_str (tool_op t) \<notin> set gate_ops" by (auto simp: list_all_iff)
qed

lemma actor_not_an_argument: "field_kind tool (lit ''_actor'') = None"
  by (simp add: field_kind_def named_in_def)

lemma find_tool_member: "find_tool n = Some t \<Longrightarrow> t \<in> set TOOLS"
  by (auto simp: find_tool_def find_Some_iff)

lemma checked_call_Ok:
  assumes "checked_call env params = Ok (tool, args)"
  shows "tool \<in> set TOOLS \<and> value_get args (lit ''_actor'') = None"
proof -
  from assms obtain v where v: "tool \<in> set TOOLS"
      "validate_arguments (text_formats.truncate env) tool v = Ok args"
    by (auto simp: checked_call_def and_then_Inr_iff map_err_Inr_iff ok_or_Inr_iff dest: find_tool_member)
  then obtain m where m: "args = JObject m" "list_all (\<lambda>(f, x). \<exists>k. field_kind tool f = Some k \<and>
      kind_admits (text_formats.truncate env) k x) m"
    by (auto simp: validate_arguments_iff)
  then have "lit ''_actor'' \<notin> fst ` set m"
    using actor_not_an_argument [of tool] by (auto simp: list_all_iff)
  with v m show ?thesis by (simp add: value_get_def obj_get_def map_of_eq_None_iff)
qed

text \<open>
  A trace is gated if every call of a dangerous operation in it carries the actor the bridge
  put there, and was authorised, for the very arguments it carries, by what the daemon
  answered earlier in the same trace.
\<close>

definition gated_call :: "mcp_env \<Rightarrow> bridge_event list \<Rightarrow> bridge_event \<Rightarrow> bool" where
  "gated_call env before c \<longleftrightarrow>
     (\<forall>tool args r. tool \<in> set TOOLS \<longrightarrow> dangerous tool \<longrightarrow> c = Called (op_as_str (tool_op tool)) args r \<longrightarrow>
        (\<exists>args0. args = with_actor tool args0 \<and> value_get args0 (lit ''_actor'') = None \<and>
           authorised env tool args0 before))"

definition gated :: "mcp_env \<Rightarrow> bridge_event list \<Rightarrow> bool" where
  "gated env tr \<longleftrightarrow> (\<forall>before c after. tr = before @ c # after \<longrightarrow> gated_call env before c)"

lemma gate_calls_gated: "gate_calls tr \<Longrightarrow> gated env tr"
  using tool_op_not_gate by (auto simp: gated_def gated_call_def)

lemma gated_snoc:
  assumes "gated env tr" and "gated_call env tr c"
  shows "gated env (tr @ [c])"
  unfolding gated_def
proof (intro allI impI)
  fix before c' after
  assume "tr @ [c] = before @ c' # after"
  then show "gated_call env before c'"
    using assms by (cases after rule: rev_cases) (auto simp: gated_def)
qed

lemma handle_tool_call_gated:
  "\<exists>tr. trace (snd (handle_tool_call env d params s)) = trace s @ tr \<and> gated env tr"
proof (cases "checked_call env params")
  case (Inl e)
  then show ?thesis by (simp add: handle_tool_call_def gate_calls_gated)
next
  case (Inr ta)
  obtain tool args where ta: "ta = (tool, args)" by (cases ta)
  with Inr have tool: "tool \<in> set TOOLS" and actor: "value_get args (lit ''_actor'') = None"
    using checked_call_Ok by auto
  have snd_eq: "snd (handle_tool_call env d params s) = snd (call_tool env d tool args s)"
    using Inr ta by (auto simp: handle_tool_call_def split: prod.split sum.split)
  show ?thesis
  proof (cases "dangerous tool")
    case True
    from call_tool_ensures [OF this, of env d args] obtain tr where
      tr: "trace (snd (call_tool env d tool args s)) = trace s @ tr" "forwards tool args (authorised env tool args) tr"
      unfolding ensures_def by blast
    from tr(2) have "gated env tr"
      unfolding forwards_def
      using tool_by_op [OF tool] actor
      by (fastforce intro: gate_calls_gated gated_snoc simp: gated_call_def)
    with tr(1) snd_eq show ?thesis by auto
  next
    case False
    have "ensures (request d (op_as_str (tool_op tool)) args)
        (\<lambda>r tr. tr = [Called (op_as_str (tool_op tool)) args r])"
      by (rule ensures_request) simp
    with False obtain r where
      tr: "trace (snd (call_tool env d tool args s)) = trace s @ [Called (op_as_str (tool_op tool)) args r]"
      unfolding ensures_def call_tool_def by auto
    have "gated env ([] @ [Called (op_as_str (tool_op tool)) args r])"
      using False tool_by_op [OF tool] by (intro gated_snoc gate_calls_gated) (auto simp: gated_call_def)
    with tr snd_eq show ?thesis by auto
  qed
qed

text \<open>
  C1: no dangerous operation reaches the daemon without authorisation.  Whatever line a client
  sends and however the daemon behaves, every call of a gated operation made while handling
  the line was preceded, in the handling of that same line, by a gate list whose decision for
  exactly these arguments is auto-allow, or by an approval created with exactly these arguments
  and reported allowed; and its \<^verbatim>\<open>_actor\<close> is the one the bridge sets, never the client's.
\<close>

theorem dangerous_calls_are_authorised:
  "\<exists>tr. trace (snd (handle_line env d line s)) = trace s @ tr \<and> gated env tr"
proof -
  have none: "\<exists>tr. trace s = trace s @ tr \<and> gated env tr"
    by (simp add: gate_calls_gated)
  have "\<exists>tr. trace (snd (handle_request env d i m params s)) = trace s @ tr \<and> gated env tr" for i m params
    using handle_tool_call_gated [of env d params s] none
    by (auto simp: handle_request_def Let_def split: prod.split sum.split)
  then show ?thesis
    using none
    by (auto simp: handle_line_def handle_incoming_def split: sum.split Incoming.split prod.split)
       (metis snd_conv)+
qed

lemma redact_get:
  "obj_get (fold (\<lambda>key m. case obj_get payload key of None \<Rightarrow> m | Some v \<Rightarrow> obj_insert key v m) ks m) k =
     (if k \<in> set ks \<and> obj_get payload k \<noteq> None then obj_get payload k else obj_get m k)"
proof (induction ks arbitrary: m)
  case (Cons key ks)
  show ?case
    by (cases "obj_get payload key") (auto simp: Cons, auto simp: obj_get_def map_of_obj_insert)
qed simp

text \<open>
  An approval request broadcast to other sessions is redacted.  Of an
  \<^verbatim>\<open>mcp.approval_requested\<close> event only the id, tool, state and summary are forwarded; every
  other topic is forwarded unchanged.
\<close>

theorem forward_event_data_fields:
  "value_get (forward_event_data event) k =
     (if ev_topic event = topic_as_str McpApprovalRequested \<and>
         k \<notin> set [lit ''approval_id'', lit ''tool'', lit ''state'', lit ''summary'']
      then None else value_get (ev_data event) k)"
proof (cases "ev_topic event = topic_as_str McpApprovalRequested")
  case False
  then show ?thesis by (simp add: forward_event_data_def)
next
  case True
  show ?thesis
  proof (cases "as_object (ev_data event)")
    case None
    with True show ?thesis by (simp add: forward_event_data_def value_get_def)
  next
    case (Some payload)
    have "value_get (forward_event_data event) k =
        (if k \<in> set forwarded_keys \<and> obj_get payload k \<noteq> None then obj_get payload k else obj_get [] k)"
      using True Some by (simp add: forward_event_data_def value_get_def redact_get)
    moreover have "value_get (ev_data event) k = obj_get payload k"
      using Some by (simp add: value_get_def)
    ultimately show ?thesis
      using True by (simp add: forwarded_keys_def obj_get_def)
  qed
qed

lemma map_filter_cong: "(\<And>x. x \<in> set xs \<Longrightarrow> f x = g x) \<Longrightarrow> List.map_filter f xs = List.map_filter g xs"
  by (induction xs) (auto simp: List.map_filter_simps split: option.splits)

text \<open>
  The summary of an approval request, which is forwarded, never depends on the draft body:
  replacing the bodies or the recipients of the arguments leaves it unchanged.
\<close>

theorem approval_summary_ignores_body:
  "approval_summary env tool (JObject (obj_insert (lit ''text_body'') a
     (obj_insert (lit ''html_body'') b (obj_insert (lit ''to_addrs'') t m)))) =
   approval_summary env tool (JObject m)"
proof -
  let ?m' = "obj_insert (lit ''text_body'') a (obj_insert (lit ''html_body'') b (obj_insert (lit ''to_addrs'') t m))"
  have "List.map_filter (\<lambda>key. map_option (Pair key) (obj_get ?m' key))
          [lit ''id'', lit ''account_id'', lit ''draft_id'', lit ''subject''] =
        List.map_filter (\<lambda>key. map_option (Pair key) (obj_get m key))
          [lit ''id'', lit ''account_id'', lit ''draft_id'', lit ''subject'']"
    by (rule map_filter_cong) (auto simp: obj_get_def map_of_obj_insert)
  then show ?thesis by (simp only: approval_summary_def as_object.simps option.case)
qed

end
