(* ===== verification/McpStdio.thy ===== *)
theory McpStdio
  imports McpBridge
begin

text \<open>
  The stdio side of the MCP bridge, \<^verbatim>\<open>src/mcp/server.rs\<close>: the bounded line reader and the
  serving loop.  A buffered reader is the list of (non-empty) chunks \<^verbatim>\<open>fill_buf\<close> will show, followed by the
  end of input or by a read error; \<^verbatim>\<open>String::from_utf8\<close> is the parameter \<open>from_utf8\<close>.
\<close>

definition STDIO_MAX_LINE_BYTES :: nat where
  "STDIO_MAX_LINE_BYTES = 4 * 1024 * 1024"

datatype StdioFrame = Line rstr | Oversized

datatype input_end = EndOfInput | ReadFails rstr

definition newline :: byte where "newline = 10"

definition carriage_return :: byte where "carriage_return = 13"

definition decode_stdio_line ::
  "(byte list \<Rightarrow> (rstr, rstr) result) \<Rightarrow> byte list \<Rightarrow> (rstr, StdioFrame) result" where
  "decode_stdio_line from_utf8 line =
     and_then (from_utf8 (if line \<noteq> [] \<and> last line = carriage_return then butlast line else line))
       (\<lambda>s. Ok (Line s))"

text \<open>\<^verbatim>\<open>position(newline)\<close>, and what is left of a chunk after consuming up to and including it.\<close>

definition newline_pos :: "byte list \<Rightarrow> nat option" where
  "newline_pos bs = (if newline \<in> set bs then Some (length (takeWhile (\<lambda>b. b \<noteq> newline) bs)) else None)"

definition consume :: "nat \<Rightarrow> byte list \<Rightarrow> byte list list \<Rightarrow> byte list list" where
  "consume n chunk rest = (if drop n chunk = [] then rest else drop n chunk # rest)"

definition at_end :: "input_end \<Rightarrow> 'a \<Rightarrow> (rstr, 'a) result" where
  "at_end e x = (case e of EndOfInput \<Rightarrow> Ok x | ReadFails msg \<Rightarrow> Err msg)"

fun discard_until_newline :: "input_end \<Rightarrow> byte list list \<Rightarrow> (rstr, unit) result \<times> byte list list" where
  "discard_until_newline e [] = (at_end e (), [])"
| "discard_until_newline e (chunk # rest) =
     (case newline_pos chunk of
        Some n \<Rightarrow> (Ok (), consume (n + 1) chunk rest)
      | None \<Rightarrow> discard_until_newline e rest)"

fun read_bounded_line ::
  "(byte list \<Rightarrow> (rstr, rstr) result) \<Rightarrow> nat \<Rightarrow> input_end \<Rightarrow> byte list \<Rightarrow> byte list list
   \<Rightarrow> (rstr, StdioFrame option) result \<times> byte list list" where
  "read_bounded_line from_utf8 limit e line [] =
     (and_then (at_end e ())
        (\<lambda>_. if line = [] then Ok None
             else and_then (decode_stdio_line from_utf8 line) (\<lambda>f. Ok (Some f))), [])"
| "read_bounded_line from_utf8 limit e line (chunk # rest) =
     (case newline_pos chunk of
        Some n \<Rightarrow>
          if length line + n > limit then (Ok (Some Oversized), consume (n + 1) chunk rest)
          else (and_then (decode_stdio_line from_utf8 (line @ take n chunk)) (\<lambda>f. Ok (Some f)),
                consume (n + 1) chunk rest)
      | None \<Rightarrow>
          if length line + length chunk > limit
          then (let (r, rest') = discard_until_newline e rest in
                (and_then r (\<lambda>_. Ok (Some Oversized)), rest'))
          else read_bounded_line from_utf8 limit e (line @ chunk) rest)"

subsection \<open>The reader does not depend on how input is chunked\<close>

text \<open>The reference: split the whole remaining input at its first newline.\<close>

definition first_line ::
  "(byte list \<Rightarrow> (rstr, rstr) result) \<Rightarrow> nat \<Rightarrow> input_end \<Rightarrow> byte list
   \<Rightarrow> (rstr, StdioFrame option) result \<times> byte list" where
  "first_line from_utf8 limit e input =
     (let line = takeWhile (\<lambda>b. b \<noteq> newline) input;
          rest = drop (length line + 1) input;
          frame = (if length line > limit then Ok (Some Oversized)
                   else and_then (decode_stdio_line from_utf8 line) (\<lambda>f. Ok (Some f))) in
      if newline \<in> set input then (frame, rest)
      else (and_then (at_end e ()) (\<lambda>_. if input = [] then Ok None else frame), rest))"

lemma concat_consume: "concat (consume n chunk rest) = drop n chunk @ concat rest"
  by (simp add: consume_def)

lemma length_line: "newline \<in> set bs \<Longrightarrow> length (takeWhile (\<lambda>b. b \<noteq> newline) bs) < length bs"
  by (induction bs) auto

lemma newline_pos_Some:
  assumes "newline_pos chunk = Some n"
  shows "takeWhile (\<lambda>b. b \<noteq> newline) (chunk @ later) = take n chunk" "n < length chunk" "newline \<in> set chunk"
proof -
  from assms have nl: "newline \<in> set chunk" and n: "n = length (takeWhile (\<lambda>b. b \<noteq> newline) chunk)"
    by (auto simp: newline_pos_def split: if_splits)
  show "newline \<in> set chunk" by (rule nl)
  show "takeWhile (\<lambda>b. b \<noteq> newline) (chunk @ later) = take n chunk"
    using nl n by (simp add: takeWhile_append1 takeWhile_eq_take [symmetric])
  show "n < length chunk"
    using length_line [OF nl] n by simp
qed

lemma newline_pos_None: "newline_pos chunk = None \<longleftrightarrow> newline \<notin> set chunk"
  by (simp add: newline_pos_def)

lemma discard_until_newline_spec:
  "discard_until_newline e chs = (r, rest) \<Longrightarrow>
   concat rest = drop (length (takeWhile (\<lambda>b. b \<noteq> newline) (concat chs)) + 1) (concat chs) \<and>
   r = (if newline \<in> set (concat chs) then Ok () else at_end e ())"
proof (induction chs)
  case (Cons chunk chs)
  show ?case
  proof (cases "newline_pos chunk")
    case None
    with Cons show ?thesis by (simp add: newline_pos_None takeWhile_append)
  next
    case (Some n)
    with Cons.prems newline_pos_Some [OF Some] show ?thesis by (auto simp: concat_consume)
  qed
qed simp

lemma read_bounded_line_spec:
  assumes "newline \<notin> set line" and "length line \<le> limit"
  shows "map_prod id concat (read_bounded_line from_utf8 limit e line chs) =
         first_line from_utf8 limit e (line @ concat chs)"
  using assms
proof (induction chs arbitrary: line)
  case Nil
  then have tw: "takeWhile (\<lambda>b. b \<noteq> newline) line = line" by (auto simp: takeWhile_eq_all_conv)
  with Nil show ?case by (cases e) (simp_all add: first_line_def Let_def at_end_def tw)
next
  case (Cons chunk chs)
  show ?case
  proof (cases "newline_pos chunk")
    case (Some n)
    from newline_pos_Some(1) [OF Some, of "concat chs"] newline_pos_Some(2,3) [OF Some] Cons.prems have
      tw: "takeWhile (\<lambda>b. b \<noteq> newline) (line @ chunk @ concat chs) = line @ take n chunk"
        "length (line @ take n chunk) = length line + n" "newline \<in> set chunk" "n < length chunk"
      by (auto simp: takeWhile_append)
    then have "drop (Suc (length line + n)) (line @ chunk @ concat chs) = drop (Suc n) chunk @ concat chs"
      by simp
    with Some tw show ?thesis
      by (simp add: first_line_def concat_consume del: takeWhile_append)
  next
    case None
    then have nl: "newline \<notin> set chunk" by (simp add: newline_pos_None)
    show ?thesis
    proof (cases "length line + length chunk > limit")
      case False
      with None nl Cons.prems Cons.IH [of "line @ chunk"] show ?thesis by simp
    next
      case True
      obtain r rest where dr: "discard_until_newline e chs = (r, rest)" by fastforce
      have tw: "takeWhile (\<lambda>b. b \<noteq> newline) (line @ chunk @ concat chs) =
          line @ chunk @ takeWhile (\<lambda>b. b \<noteq> newline) (concat chs)"
        using nl Cons.prems by (simp add: takeWhile_append)
      with True None nl Cons.prems dr discard_until_newline_spec [OF dr] show ?thesis
        by (auto simp: first_line_def Let_def simp del: takeWhile_append split: if_splits)
    qed
  qed
qed

text \<open>
  The line reader returns the same frames however the input is split into chunks: reading
  one line from any sequence of chunks is splitting the concatenated input at its first
  newline; a line above the limit is skipped to its end and reported, and what is left to read
  is exactly what follows the line.
\<close>

theorem read_bounded_line_chunking:
  "map_prod id concat (read_bounded_line from_utf8 limit e [] chs) =
   first_line from_utf8 limit e (concat chs)"
  using read_bounded_line_spec [of "[]" limit from_utf8 e chs] by simp

subsection \<open>The serving loop\<close>

definition oversized_input_response :: "nat \<Rightarrow> json" where
  "oversized_input_response limit =
     error_response JNull
       (invalid_request (lit ''input line exceeds '' @ show_nat limit @ lit '' bytes''))"

definition is_initialized_method :: "rstr \<Rightarrow> bool" where
  "is_initialized_method m \<longleftrightarrow> m = lit ''initialized'' \<or> m = lit ''notifications/initialized''"

definition is_initialized_notification :: "mcp_env \<Rightarrow> rstr \<Rightarrow> bool" where
  "is_initialized_notification env line =
     (case parse_line (json_from_str env) line of
        Ok (Notification m _) \<Rightarrow> is_initialized_method m
      | _ \<Rightarrow> False)"

fun bridge_error_text :: "BridgeError \<Rightarrow> rstr" where
  "bridge_error_text (BridgeIo e) = lit ''io: '' @ e"
| "bridge_error_text (BridgeJson e) = lit ''json: '' @ e"
| "bridge_error_text (BridgeIpc e) = lit ''ipc: '' @ e"
| "bridge_error_text (BridgeDaemon code message) =
     lit ''daemon returned error: '' @ code @ lit '': '' @ message"
| "bridge_error_text (BadDaemonResponse e) = lit ''bad daemon response: '' @ e"

text \<open>
  \<^verbatim>\<open>start_notifications\<close>: the topics for which a task was started, and the error notifications
  sent for the others.
\<close>

fun start_notifications ::
  "'w DaemonBridge \<Rightarrow> Topic list \<Rightarrow> 'w bridge \<Rightarrow> Topic list \<times> json list \<times> 'w bridge" where
  "start_notifications d [] s = ([], [], s)"
| "start_notifications d (topic # topics) s =
     (let (r, s1) = subscribe d topic s;
          (handles, msgs, s2) = start_notifications d topics s1 in
      case r of
        Ok _ \<Rightarrow> (topic # handles, msgs, s2)
      | Err e \<Rightarrow>
          (handles,
           notification (lit ''notifications/postblox/error'')
             (json_object [(lit ''topic'', JString (topic_as_str topic)),
                           (lit ''error'', JString (bridge_error_text e))]) # msgs, s2))"

record 'w session =
  session_bridge :: "'w bridge"
  written :: "json list"
  notification_handles :: "Topic list"

definition serve_frame ::
  "mcp_env \<Rightarrow> 'w DaemonBridge \<Rightarrow> nat \<Rightarrow> StdioFrame \<Rightarrow> 'w session \<Rightarrow> 'w session" where
  "serve_frame env d limit frame ses =
     (case frame of
        Line line \<Rightarrow>
          (let starts = is_initialized_notification env line;
               (resp, b) = handle_line env d line (session_bridge ses);
               ses1 = ses\<lparr>session_bridge := b,
                          written := written ses @ (case resp of None \<Rightarrow> [] | Some r \<Rightarrow> [r])\<rparr> in
           if starts \<and> notification_handles ses1 = []
           then (let (handles, msgs, b') = start_notifications d notification_topics b in
                 ses1\<lparr>session_bridge := b', written := written ses1 @ msgs,
                      notification_handles := handles\<rparr>)
           else ses1)
      | Oversized \<Rightarrow> ses\<lparr>written := written ses @ [oversized_input_response limit]\<rparr>)"

lemma handle_request_response:
  "\<exists>r. fst (handle_request env d i m params s) = r \<and> value_get r (lit ''id'') = Some i \<and>
       parse_value r = Ok Response"
proof -
  have ok: "value_get (success_response i x) (lit ''id'') = Some i"
      "parse_value (success_response i x) = Ok Response" for x
    by (simp_all add: success_response_def parse_value_def contains_key_def Let_def)
  have err: "value_get (error_response i e) (lit ''id'') = Some i"
      "parse_value (error_response i e) = Ok Response" for e
    by (simp_all add: error_response_def parse_value_def contains_key_def Let_def)
  show ?thesis
    using ok err by (auto simp: handle_request_def Let_def split: prod.split sum.split)
qed

text \<open>
  C12: a request line gets exactly one answer, a response frame that carries the id of the
  request; a notification or a response gets none and calls nothing; a line that does not parse
  gets its error response and calls nothing.
\<close>

theorem line_answers:
  "case parse_line (json_from_str env) line of
     Ok (Request i m params) \<Rightarrow>
       (\<exists>r. fst (handle_line env d line s) = Some r \<and> value_get r (lit ''id'') = Some i \<and>
            parse_value r = Ok Response)
   | Ok _ \<Rightarrow> handle_line env d line s = (None, s)
   | Err e \<Rightarrow> handle_line env d line s = (Some e, s)"
  using handle_request_response [of env d _ _ _ s]
  by (auto simp: handle_line_def handle_incoming_def split: sum.split Incoming.split prod.split)
     (metis fst_conv)+

end
