(* ===== verification/StoreRows.thy ===== *)
theory StoreRows
  imports Gates
begin

text \<open>
  The tables of the daemon's SQLite database: the row types of \<^verbatim>\<open>src/models.rs\<close>, the schema
  constraints of \<^verbatim>\<open>migrations/*.sql\<close> as a predicate, and what SQLite does on a constraint
  (refuse the statement) and on a foreign key of a deleted row (cascade, or set to null).  A
  table is the list of its rows in insertion order.
\<close>

text \<open>\<^verbatim>\<open>DbError::Sqlx\<close>, with the constraint failures told apart, and \<^verbatim>\<open>DbError::Migrate\<close>.\<close>

datatype DbError =
    UniqueViolation rstr
  | ForeignKeyViolation rstr
  | OtherSqlx rstr
  | Migrate rstr

type_synonym i64 = int

record Account =
  acc_id :: uuid
  acc_email :: rstr
  acc_display_name :: "rstr option"
  acc_auth_kind :: AuthKind
  acc_imap_host :: rstr
  acc_imap_port :: i64
  acc_imap_use_tls :: bool
  acc_smtp_host :: rstr
  acc_smtp_port :: i64
  acc_smtp_use_tls :: bool
  acc_smtp_starttls :: bool
  acc_secret_ref :: "rstr option"
  acc_last_synced_at :: "instant option"
  acc_sync_status :: SyncStatus
  acc_sync_error :: "rstr option"
  acc_created_at :: instant
  acc_updated_at :: instant

record Folder =
  fld_id :: uuid
  fld_account_id :: uuid
  fld_name :: rstr
  fld_delimiter :: rstr
  fld_role :: FolderRole
  fld_uid_validity :: "i64 option"
  fld_uid_next :: "i64 option"
  fld_last_seen_uid :: "i64 option"
  fld_selectable :: bool
  fld_created_at :: instant

record Thread =
  thr_id :: uuid
  thr_account_id :: uuid
  thr_external_id :: "rstr option"
  thr_subject :: "rstr option"
  thr_last_message_at :: "instant option"
  thr_message_count :: i64
  thr_created_at :: instant

record Message =
  msg_id :: uuid
  msg_account_id :: uuid
  msg_folder_id :: uuid
  msg_thread_id :: "uuid option"
  msg_uid :: i64
  msg_message_id_header :: "rstr option"
  msg_in_reply_to :: "rstr option"
  msg_references_header :: "rstr option"
  msg_from_addr :: rstr
  msg_to_addrs :: "rstr list"
  msg_cc_addrs :: "rstr list"
  msg_bcc_addrs :: "rstr list"
  msg_reply_to :: "rstr option"
  msg_subject :: "rstr option"
  msg_snippet :: "rstr option"
  msg_text_body :: "rstr option"
  msg_html_body :: "rstr option"
  msg_raw_size :: i64
  msg_flags :: "rstr list"
  msg_internal_date :: instant
  msg_sent_at :: "instant option"
  msg_created_at :: instant

record MessageSummary =
  ms_id :: uuid
  ms_account_id :: uuid
  ms_folder_id :: uuid
  ms_thread_id :: "uuid option"
  ms_uid :: i64
  ms_message_id_header :: "rstr option"
  ms_in_reply_to :: "rstr option"
  ms_references_header :: "rstr option"
  ms_from_addr :: rstr
  ms_to_addrs :: "rstr list"
  ms_cc_addrs :: "rstr list"
  ms_bcc_addrs :: "rstr list"
  ms_reply_to :: "rstr option"
  ms_subject :: "rstr option"
  ms_snippet :: "rstr option"
  ms_raw_size :: i64
  ms_flags :: "rstr list"
  ms_internal_date :: instant
  ms_sent_at :: "instant option"
  ms_created_at :: instant

text \<open>The projection the summary queries select: every column but the bodies.\<close>

definition message_summary :: "Message \<Rightarrow> MessageSummary" where
  "message_summary m =
     \<lparr>ms_id = msg_id m, ms_account_id = msg_account_id m, ms_folder_id = msg_folder_id m,
      ms_thread_id = msg_thread_id m, ms_uid = msg_uid m,
      ms_message_id_header = msg_message_id_header m, ms_in_reply_to = msg_in_reply_to m,
      ms_references_header = msg_references_header m, ms_from_addr = msg_from_addr m,
      ms_to_addrs = msg_to_addrs m, ms_cc_addrs = msg_cc_addrs m,
      ms_bcc_addrs = msg_bcc_addrs m, ms_reply_to = msg_reply_to m,
      ms_subject = msg_subject m, ms_snippet = msg_snippet m, ms_raw_size = msg_raw_size m,
      ms_flags = msg_flags m, ms_internal_date = msg_internal_date m,
      ms_sent_at = msg_sent_at m, ms_created_at = msg_created_at m\<rparr>"

record Attachment =
  att_id :: uuid
  att_message_id :: uuid
  att_filename :: rstr
  att_content_type :: rstr
  att_content_id :: "rstr option"
  att_size_bytes :: i64
  att_disposition :: AttachmentDisposition
  att_storage_path :: rstr
  att_created_at :: instant

record Draft =
  dft_id :: uuid
  dft_account_id :: uuid
  dft_in_reply_to_msg :: "uuid option"
  dft_to_addrs :: "rstr list"
  dft_cc_addrs :: "rstr list"
  dft_bcc_addrs :: "rstr list"
  dft_subject :: "rstr option"
  dft_text_body :: "rstr option"
  dft_html_body :: "rstr option"
  dft_in_reply_to :: "rstr option"
  dft_references_header :: "rstr option"
  dft_remote_folder_id :: "uuid option"
  dft_remote_uid :: "i64 option"
  dft_created_at :: instant
  dft_updated_at :: instant

text \<open>A draft attachment row with its \<^verbatim>\<open>content\<close> column.\<close>

record DraftAttachment =
  dat_id :: uuid
  dat_draft_id :: uuid
  dat_filename :: rstr
  dat_content_type :: rstr
  dat_size_bytes :: i64
  dat_created_at :: instant
  dat_content :: "byte list"

record AuditEntry =
  aud_id :: uuid
  aud_actor :: rstr
  aud_action :: rstr
  aud_target :: "rstr option"
  aud_details :: json
  aud_created_at :: instant

record store =
  accounts :: "Account list"
  folders :: "Folder list"
  threads :: "Thread list"
  messages :: "Message list"
  attachments :: "Attachment list"
  drafts :: "Draft list"
  draft_attachments :: "DraftAttachment list"
  mcp_gates :: "McpGate list"
  mcp_approvals :: "McpApproval list"
  audit_log :: "AuditEntry list"

definition empty_store :: store where
  "empty_store = \<lparr>accounts = [], folders = [], threads = [], messages = [], attachments = [],
     drafts = [], draft_attachments = [], mcp_gates = [], mcp_approvals = [], audit_log = []\<rparr>"

subsection \<open>Statements on one table\<close>

definition get_row :: "('r \<Rightarrow> 'k) \<Rightarrow> 'k \<Rightarrow> 'r list \<Rightarrow> 'r option" where
  "get_row key k rows = find (\<lambda>r. key r = k) rows"

definition update_rows :: "('r \<Rightarrow> bool) \<Rightarrow> ('r \<Rightarrow> 'r) \<Rightarrow> 'r list \<Rightarrow> 'r list" where
  "update_rows P f rows = map (\<lambda>r. if P r then f r else r) rows"

definition delete_rows :: "('r \<Rightarrow> bool) \<Rightarrow> 'r list \<Rightarrow> 'r list" where
  "delete_rows P rows = filter (\<lambda>r. \<not> P r) rows"

text \<open>\<^verbatim>\<open>LIMIT ? OFFSET ?\<close> with the clamping the callers apply.\<close>

definition page :: "i64 \<Rightarrow> i64 \<Rightarrow> 'r list \<Rightarrow> 'r list" where
  "page limit offset rows = take (nat (min 500 (max 1 limit))) (drop (nat (max 0 offset)) rows)"

text \<open>\<^verbatim>\<open>ORDER BY key\<close> and \<^verbatim>\<open>ORDER BY key DESC\<close>, ties in insertion order.\<close>

definition order_by :: "('r \<Rightarrow> 'k::linorder) \<Rightarrow> 'r list \<Rightarrow> 'r list" where
  "order_by key rows = sort_key key rows"

subsection \<open>The schema\<close>

definition refers :: "('r \<Rightarrow> 'k) \<Rightarrow> 'r list \<Rightarrow> ('p \<Rightarrow> 'k) \<Rightarrow> 'p list \<Rightarrow> bool" where
  "refers fk rows key parents \<longleftrightarrow> list_all (\<lambda>r. fk r \<in> set (map key parents)) rows"

definition refers_opt :: "('r \<Rightarrow> 'k option) \<Rightarrow> 'r list \<Rightarrow> ('p \<Rightarrow> 'k) \<Rightarrow> 'p list \<Rightarrow> bool" where
  "refers_opt fk rows key parents \<longleftrightarrow>
     list_all (\<lambda>r. case fk r of None \<Rightarrow> True | Some k \<Rightarrow> k \<in> set (map key parents)) rows"

definition folder_key :: "Folder \<Rightarrow> uuid \<times> rstr" where
  "folder_key f = (fld_account_id f, fld_name f)"

definition thread_key :: "Thread \<Rightarrow> (uuid \<times> rstr) option" where
  "thread_key t = map_option (Pair (thr_account_id t)) (thr_external_id t)"

definition message_key :: "Message \<Rightarrow> uuid \<times> i64" where
  "message_key m = (msg_folder_id m, msg_uid m)"

text \<open>Primary keys and \<^verbatim>\<open>UNIQUE\<close> constraints; null keys never collide.\<close>

definition uniques :: "store \<Rightarrow> bool" where
  "uniques st \<longleftrightarrow>
     distinct (map acc_id (accounts st)) \<and> distinct (map acc_email (accounts st)) \<and>
     distinct (map fld_id (folders st)) \<and> distinct (map folder_key (folders st)) \<and>
     distinct (map thr_id (threads st)) \<and> distinct (List.map_filter thread_key (threads st)) \<and>
     distinct (map msg_id (messages st)) \<and> distinct (map message_key (messages st)) \<and>
     distinct (map att_id (attachments st)) \<and> distinct (map dft_id (drafts st)) \<and>
     distinct (map dat_id (draft_attachments st)) \<and> distinct (map gate_id (mcp_gates st)) \<and>
     distinct (map ap_id (mcp_approvals st)) \<and> distinct (map aud_id (audit_log st))"

definition references :: "store \<Rightarrow> bool" where
  "references st \<longleftrightarrow>
     refers fld_account_id (folders st) acc_id (accounts st) \<and>
     refers thr_account_id (threads st) acc_id (accounts st) \<and>
     refers msg_account_id (messages st) acc_id (accounts st) \<and>
     refers msg_folder_id (messages st) fld_id (folders st) \<and>
     refers_opt msg_thread_id (messages st) thr_id (threads st) \<and>
     refers att_message_id (attachments st) msg_id (messages st) \<and>
     refers dft_account_id (drafts st) acc_id (accounts st) \<and>
     refers_opt dft_in_reply_to_msg (drafts st) msg_id (messages st) \<and>
     refers_opt dft_remote_folder_id (drafts st) fld_id (folders st) \<and>
     refers dat_draft_id (draft_attachments st) dft_id (drafts st)"

definition db_wf :: "store \<Rightarrow> bool" where
  "db_wf st \<longleftrightarrow> uniques st \<and> references st"

subsection \<open>Foreign key actions\<close>

definition live :: "('p \<Rightarrow> 'k) \<Rightarrow> 'p list \<Rightarrow> ('r \<Rightarrow> 'k) \<Rightarrow> 'r list \<Rightarrow> 'r list" where
  "live key parents fk rows = filter (\<lambda>r. fk r \<in> set (map key parents)) rows"

definition live_opt :: "('p \<Rightarrow> 'k) \<Rightarrow> 'p list \<Rightarrow> 'k option \<Rightarrow> 'k option" where
  "live_opt key parents k = filter_option (\<lambda>k. k \<in> set (map key parents)) k"

text \<open>
  \<^verbatim>\<open>ON DELETE CASCADE\<close> and \<^verbatim>\<open>ON DELETE SET NULL\<close>, applied from parents to children after
  rows were deleted.
\<close>

definition cascade :: "store \<Rightarrow> store" where
  "cascade st =
     (let accs = accounts st;
          flds = live acc_id accs fld_account_id (folders st);
          thrs = live acc_id accs thr_account_id (threads st);
          msgs = map (\<lambda>m. m\<lparr>msg_thread_id := live_opt thr_id thrs (msg_thread_id m)\<rparr>)
                   (live acc_id accs msg_account_id (live fld_id flds msg_folder_id (messages st)));
          atts = live msg_id msgs att_message_id (attachments st);
          dfts = map (\<lambda>d. d\<lparr>dft_in_reply_to_msg := live_opt msg_id msgs (dft_in_reply_to_msg d),
                            dft_remote_folder_id := live_opt fld_id flds (dft_remote_folder_id d)\<rparr>)
                   (live acc_id accs dft_account_id (drafts st));
          dats = live dft_id dfts dat_draft_id (draft_attachments st) in
      st\<lparr>folders := flds, threads := thrs, messages := msgs, attachments := atts, drafts := dfts,
         draft_attachments := dats\<rparr>)"

subsection \<open>Lemmas\<close>

lemma get_row_Some:
  "get_row key k rows = Some r \<Longrightarrow> r \<in> set rows \<and> key r = k"
  by (auto simp: get_row_def find_Some_iff)

lemma get_row_None: "get_row key k rows = None \<longleftrightarrow> k \<notin> key ` set rows"
  by (auto simp: get_row_def find_None_iff)

lemma get_row_distinct:
  "distinct (map key rows) \<Longrightarrow> r \<in> set rows \<Longrightarrow> get_row key (key r) rows = Some r"
  by (induction rows) (auto simp: get_row_def)

lemma get_row_append:
  "k \<notin> key ` set rows \<Longrightarrow> get_row key k (rows @ [r]) = (if key r = k then Some r else None)"
  by (induction rows) (auto simp: get_row_def)

lemma map_update_rows:
  "(\<And>r. P r \<Longrightarrow> key (f r) = key r) \<Longrightarrow> map key (update_rows P f rows) = map key rows"
  by (simp add: update_rows_def)

lemma map_filter_update_rows:
  "(\<And>r. P r \<Longrightarrow> key (f r) = key r) \<Longrightarrow> List.map_filter key (update_rows P f rows) = List.map_filter key rows"
  by (induction rows) (auto simp: update_rows_def List.map_filter_simps split: option.splits)

lemma distinct_map_delete: "distinct (map key rows) \<Longrightarrow> distinct (map key (delete_rows P rows))"
  by (simp add: delete_rows_def distinct_map_filter)

lemma distinct_map_live: "distinct (map key rows) \<Longrightarrow> distinct (map key (live k ps fk rows))"
  by (simp add: live_def distinct_map_filter)

lemma distinct_map_filter_filter:
  "distinct (List.map_filter key rows) \<Longrightarrow> distinct (List.map_filter key (filter P rows))"
proof (induction rows)
  case (Cons r rows)
  have "set (List.map_filter key (filter P rows)) \<subseteq> set (List.map_filter key rows)"
    by (auto simp: List.map_filter_def)
  with Cons show ?case by (auto simp: List.map_filter_simps split: option.splits)
qed simp

lemma refers_append: "refers fk rows key parents \<Longrightarrow> refers fk rows key (parents @ ps)"
  by (auto simp: refers_def list_all_iff)

lemma refers_opt_append: "refers_opt fk rows key parents \<Longrightarrow> refers_opt fk rows key (parents @ ps)"
  by (auto simp: refers_opt_def list_all_iff split: option.splits)

lemma refers_cong:
  "map key ps = map key ps' \<Longrightarrow> refers fk rows key ps = refers fk rows key ps'"
  "map key ps = map key ps' \<Longrightarrow> refers_opt fk' rows key ps = refers_opt fk' rows key ps'"
  by (simp_all only: refers_def refers_opt_def)

lemma refers_update:
  "(\<And>r. P r \<Longrightarrow> fk (f r) = fk r) \<Longrightarrow> refers fk (update_rows P f rows) key ps = refers fk rows key ps"
  "(\<And>r. P r \<Longrightarrow> fk' (f r) = fk' r) \<Longrightarrow> refers_opt fk' (update_rows P f rows) key ps = refers_opt fk' rows key ps"
  unfolding refers_def refers_opt_def update_rows_def by (induction rows) auto

lemma refers_live: "refers fk (live key ps fk rows) key ps"
  by (simp add: refers_def live_def list_all_iff)

lemma refers_live_other: "refers fk rows key ps \<Longrightarrow> refers fk (live k qs fk' rows) key ps"
  by (simp add: refers_def live_def list_all_iff)

lemma live_opt_in: "live_opt key ps k = Some k' \<Longrightarrow> k' \<in> key ` set ps"
  by (cases k) (auto simp: live_opt_def split: if_splits)

text \<open>Whatever was deleted, cascading restores referential integrity and keeps keys unique.\<close>

lemma cascade_references: "references (cascade st)"
  unfolding references_def cascade_def Let_def
  by (auto simp: refers_def refers_opt_def live_def list_all_iff dest!: live_opt_in split: option.splits)

lemma message_key_thread [simp]: "message_key (m\<lparr>msg_thread_id := t\<rparr>) = message_key m"
  by (simp add: message_key_def)

lemma cascade_uniques: "uniques st \<Longrightarrow> uniques (cascade st)"
  unfolding uniques_def cascade_def Let_def
  by (auto simp: live_def o_def distinct_map_filter distinct_map_filter_filter)

lemma cascade_wf: "uniques st \<Longrightarrow> db_wf (cascade st)"
  by (simp add: db_wf_def cascade_references cascade_uniques)

text \<open>On a store that already satisfies its foreign keys, cascading does nothing.\<close>

lemma live_id: "refers fk rows key ps \<Longrightarrow> live key ps fk rows = rows"
  by (simp add: refers_def live_def list_all_iff)

lemma live_opt_id:
  "refers_opt fk rows key ps \<Longrightarrow> r \<in> set rows \<Longrightarrow> live_opt key ps (fk r) = fk r"
  by (cases "fk r") (auto simp: refers_opt_def live_opt_def list_all_iff)

lemma same_thread:
  "refers_opt msg_thread_id msgs key ps \<Longrightarrow> m \<in> set msgs \<Longrightarrow>
   m\<lparr>msg_thread_id := live_opt key ps (msg_thread_id m)\<rparr> = m"
  using live_opt_id [of msg_thread_id msgs key ps m] by (cases m) simp

lemma same_draft_refs:
  "refers_opt dft_in_reply_to_msg ds key ps \<Longrightarrow> refers_opt dft_remote_folder_id ds key' ps' \<Longrightarrow> d \<in> set ds \<Longrightarrow>
   d\<lparr>dft_in_reply_to_msg := live_opt key ps (dft_in_reply_to_msg d),
     dft_remote_folder_id := live_opt key' ps' (dft_remote_folder_id d)\<rparr> = d"
  using live_opt_id [of dft_in_reply_to_msg ds key ps d] live_opt_id [of dft_remote_folder_id ds key' ps' d]
  by (cases d) simp

lemma same_threads:
  "refers_opt msg_thread_id msgs key ps \<Longrightarrow>
   map (\<lambda>m. m\<lparr>msg_thread_id := live_opt key ps (msg_thread_id m)\<rparr>) msgs = msgs"
  by (intro map_idI same_thread)

lemma same_drafts:
  "refers_opt dft_in_reply_to_msg ds key ps \<Longrightarrow> refers_opt dft_remote_folder_id ds key' ps' \<Longrightarrow>
   map (\<lambda>d. d\<lparr>dft_in_reply_to_msg := live_opt key ps (dft_in_reply_to_msg d),
             dft_remote_folder_id := live_opt key' ps' (dft_remote_folder_id d)\<rparr>) ds = ds"
  by (intro map_idI same_draft_refs)

lemma cascade_id: "references st \<Longrightarrow> cascade st = st"
  by (simp add: cascade_def Let_def references_def live_id same_threads same_drafts)

end
