(* ===== verification/Store.thy ===== *)
theory Store
  imports StoreRows
begin

text \<open>
  The data access functions of \<^verbatim>\<open>src/db/*.rs\<close>, one definition per function, acting on the
  tables of \<open>StoreRows\<close>.  The uuid a \<^verbatim>\<open>create\<close> draws and the clock it reads are arguments.
  \<open>db_cmd\<close> and \<open>db_exec\<close> collect every statement that changes the database.
\<close>

subsection \<open>accounts\<close>

record NewAccount =
  na_email :: rstr
  na_display_name :: "rstr option"
  na_auth_kind :: AuthKind
  na_imap_host :: rstr
  na_imap_port :: i64
  na_imap_use_tls :: bool
  na_smtp_host :: rstr
  na_smtp_port :: i64
  na_smtp_use_tls :: bool
  na_smtp_starttls :: bool

definition account_row :: "NewAccount \<Rightarrow> uuid \<Rightarrow> instant \<Rightarrow> Account" where
  "account_row n i now =
     \<lparr>acc_id = i, acc_email = na_email n, acc_display_name = na_display_name n,
      acc_auth_kind = na_auth_kind n, acc_imap_host = na_imap_host n, acc_imap_port = na_imap_port n,
      acc_imap_use_tls = na_imap_use_tls n, acc_smtp_host = na_smtp_host n,
      acc_smtp_port = na_smtp_port n, acc_smtp_use_tls = na_smtp_use_tls n,
      acc_smtp_starttls = na_smtp_starttls n, acc_secret_ref = None, acc_last_synced_at = None,
      acc_sync_status = StatusIdle, acc_sync_error = None, acc_created_at = now, acc_updated_at = now\<rparr>"

definition accounts_create ::
  "NewAccount \<Rightarrow> uuid \<Rightarrow> instant \<Rightarrow> store \<Rightarrow> (DbError, Account \<times> store) result" where
  "accounts_create n i now st =
     (if i \<in> acc_id ` set (accounts st) then Err (UniqueViolation (lit ''accounts.id''))
      else if na_email n \<in> acc_email ` set (accounts st) then Err (UniqueViolation (lit ''accounts.email''))
      else (let r = account_row n i now in Ok (r, st\<lparr>accounts := accounts st @ [r]\<rparr>)))"

definition accounts_list :: "store \<Rightarrow> Account list" where
  "accounts_list st = order_by acc_created_at (accounts st)"

definition accounts_get :: "uuid \<Rightarrow> store \<Rightarrow> Account option" where
  "accounts_get i st = get_row acc_id i (accounts st)"

definition accounts_delete :: "uuid \<Rightarrow> store \<Rightarrow> bool \<times> store" where
  "accounts_delete i st =
     (i \<in> acc_id ` set (accounts st),
      cascade (st\<lparr>accounts := delete_rows (\<lambda>a. acc_id a = i) (accounts st)\<rparr>))"

definition accounts_set_secret_ref :: "uuid \<Rightarrow> rstr option \<Rightarrow> instant \<Rightarrow> store \<Rightarrow> store" where
  "accounts_set_secret_ref i ref now st =
     st\<lparr>accounts := update_rows (\<lambda>a. acc_id a = i)
          (\<lambda>a. a\<lparr>acc_secret_ref := ref, acc_updated_at := now\<rparr>) (accounts st)\<rparr>"

definition accounts_update_sync ::
  "uuid \<Rightarrow> SyncStatus \<Rightarrow> rstr option \<Rightarrow> instant option \<Rightarrow> instant \<Rightarrow> store \<Rightarrow> store" where
  "accounts_update_sync i status err synced now st =
     st\<lparr>accounts := update_rows (\<lambda>a. acc_id a = i)
          (\<lambda>a. a\<lparr>acc_sync_status := status, acc_sync_error := err,
                 acc_last_synced_at := (case synced of None \<Rightarrow> acc_last_synced_at a | Some t \<Rightarrow> Some t),
                 acc_updated_at := now\<rparr>) (accounts st)\<rparr>"

subsection \<open>folders\<close>

record NewFolder =
  nf_account_id :: uuid
  nf_name :: rstr
  nf_delimiter :: rstr
  nf_role :: FolderRole
  nf_selectable :: bool

definition folder_row :: "NewFolder \<Rightarrow> uuid \<Rightarrow> instant \<Rightarrow> Folder" where
  "folder_row n i now =
     \<lparr>fld_id = i, fld_account_id = nf_account_id n, fld_name = nf_name n,
      fld_delimiter = nf_delimiter n, fld_role = nf_role n, fld_uid_validity = None,
      fld_uid_next = None, fld_last_seen_uid = None, fld_selectable = nf_selectable n,
      fld_created_at = now\<rparr>"

definition folders_create ::
  "NewFolder \<Rightarrow> uuid \<Rightarrow> instant \<Rightarrow> store \<Rightarrow> (DbError, Folder \<times> store) result" where
  "folders_create n i now st =
     (let r = folder_row n i now in
      if i \<in> fld_id ` set (folders st) then Err (UniqueViolation (lit ''folders.id''))
      else if folder_key r \<in> folder_key ` set (folders st)
      then Err (UniqueViolation (lit ''folders.account_id, folders.name''))
      else if nf_account_id n \<notin> acc_id ` set (accounts st) then Err (ForeignKeyViolation (lit ''folders''))
      else Ok (r, st\<lparr>folders := folders st @ [r]\<rparr>))"

definition folders_get :: "uuid \<Rightarrow> store \<Rightarrow> Folder option" where
  "folders_get i st = get_row fld_id i (folders st)"

definition folders_get_by_name :: "uuid \<Rightarrow> rstr \<Rightarrow> store \<Rightarrow> Folder option" where
  "folders_get_by_name acc name st = get_row folder_key (acc, name) (folders st)"

text \<open>The reload after the update panics if the row is gone; \<open>None\<close> stands for the panic.\<close>

definition folders_upsert ::
  "NewFolder \<Rightarrow> uuid \<Rightarrow> instant \<Rightarrow> store \<Rightarrow> (DbError, Folder \<times> store) result option" where
  "folders_upsert n i now st =
     (case folders_get_by_name (nf_account_id n) (nf_name n) st of
        Some ex \<Rightarrow>
          (let st' = st\<lparr>folders := update_rows (\<lambda>f. fld_id f = fld_id ex)
                       (\<lambda>f. f\<lparr>fld_delimiter := nf_delimiter n, fld_role := nf_role n,
                              fld_selectable := nf_selectable n\<rparr>) (folders st)\<rparr> in
           map_option (\<lambda>f. Ok (f, st')) (folders_get (fld_id ex) st'))
      | None \<Rightarrow> Some (folders_create n i now st))"

definition folders_list_by_account :: "uuid \<Rightarrow> store \<Rightarrow> Folder list" where
  "folders_list_by_account acc st = order_by fld_name (filter (\<lambda>f. fld_account_id f = acc) (folders st))"

definition coalesce :: "'a option \<Rightarrow> 'a option \<Rightarrow> 'a option" where
  "coalesce new old = (case new of None \<Rightarrow> old | Some x \<Rightarrow> Some x)"

definition folders_update_uid_state ::
  "uuid \<Rightarrow> i64 option \<Rightarrow> i64 option \<Rightarrow> i64 option \<Rightarrow> store \<Rightarrow> store" where
  "folders_update_uid_state i validity uid_next last_seen st =
     st\<lparr>folders := update_rows (\<lambda>f. fld_id f = i)
          (\<lambda>f. f\<lparr>fld_uid_validity := coalesce validity (fld_uid_validity f),
                 fld_uid_next := coalesce uid_next (fld_uid_next f),
                 fld_last_seen_uid := coalesce last_seen (fld_last_seen_uid f)\<rparr>) (folders st)\<rparr>"

subsection \<open>threads\<close>

definition thread_row :: "uuid \<Rightarrow> rstr option \<Rightarrow> rstr option \<Rightarrow> uuid \<Rightarrow> instant \<Rightarrow> Thread" where
  "thread_row acc external_id subject i now =
     \<lparr>thr_id = i, thr_account_id = acc, thr_external_id = external_id, thr_subject = subject,
      thr_last_message_at = None, thr_message_count = 0, thr_created_at = now\<rparr>"

definition threads_create ::
  "uuid \<Rightarrow> rstr option \<Rightarrow> rstr option \<Rightarrow> uuid \<Rightarrow> instant \<Rightarrow> store \<Rightarrow> (DbError, Thread \<times> store) result" where
  "threads_create acc external_id subject i now st =
     (let r = thread_row acc external_id subject i now in
      if i \<in> thr_id ` set (threads st) then Err (UniqueViolation (lit ''threads.id''))
      else if external_id \<noteq> None \<and> thread_key r \<in> thread_key ` set (threads st)
      then Err (UniqueViolation (lit ''threads.account_id, threads.external_id''))
      else if acc \<notin> acc_id ` set (accounts st) then Err (ForeignKeyViolation (lit ''threads''))
      else Ok (r, st\<lparr>threads := threads st @ [r]\<rparr>))"

definition threads_get_by_external_id :: "uuid \<Rightarrow> rstr \<Rightarrow> store \<Rightarrow> Thread option" where
  "threads_get_by_external_id acc ext st = get_row thread_key (Some (acc, ext)) (threads st)"

text \<open>\<^verbatim>\<open>ORDER BY last_message_at DESC NULLS LAST, created_at DESC\<close>.\<close>

definition recency :: "Thread \<Rightarrow> nat \<times> int \<times> int" where
  "recency t =
     (case thr_last_message_at t of
        None \<Rightarrow> (1, 0, - thr_created_at t)
      | Some latest \<Rightarrow> (0, - latest, - thr_created_at t))"

definition more_recent :: "Thread \<Rightarrow> Thread \<Rightarrow> bool" where
  "more_recent a b =
     (case (recency a, recency b) of
        ((n, x, c), (m, y, d)) \<Rightarrow> n < m \<or> (n = m \<and> (x < y \<or> (x = y \<and> c \<le> d))))"

fun insert_recent :: "Thread \<Rightarrow> Thread list \<Rightarrow> Thread list" where
  "insert_recent t [] = [t]"
| "insert_recent t (u # us) = (if more_recent t u then t # u # us else u # insert_recent t us)"

definition threads_list_recent :: "uuid \<Rightarrow> i64 \<Rightarrow> i64 \<Rightarrow> store \<Rightarrow> Thread list" where
  "threads_list_recent acc limit offset st =
     page limit offset (foldr insert_recent (filter (\<lambda>t. thr_account_id t = acc) (threads st)) [])"

definition thread_messages :: "uuid \<Rightarrow> store \<Rightarrow> Message list" where
  "thread_messages i st = filter (\<lambda>m. msg_thread_id m = Some i) (messages st)"

text \<open>SQL \<^verbatim>\<open>max\<close>: null on no rows.\<close>

definition sql_max :: "int list \<Rightarrow> int option" where
  "sql_max xs = (if xs = [] then None else Some (foldr max xs (hd xs)))"

definition threads_refresh_aggregates :: "uuid \<Rightarrow> store \<Rightarrow> store" where
  "threads_refresh_aggregates i st =
     st\<lparr>threads := update_rows (\<lambda>t. thr_id t = i)
          (\<lambda>t. t\<lparr>thr_message_count := int (length (thread_messages i st)),
                 thr_last_message_at := sql_max (map msg_internal_date (thread_messages i st))\<rparr>)
          (threads st)\<rparr>"

definition threads_touch_last_message_at :: "uuid \<Rightarrow> instant \<Rightarrow> store \<Rightarrow> store" where
  "threads_touch_last_message_at i new st =
     st\<lparr>threads := update_rows
          (\<lambda>t. thr_id t = i \<and> (case thr_last_message_at t of None \<Rightarrow> True | Some old \<Rightarrow> old < new))
          (\<lambda>t. t\<lparr>thr_last_message_at := Some new\<rparr>) (threads st)\<rparr>"

subsection \<open>messages\<close>

record NewMessage =
  nm_account_id :: uuid
  nm_folder_id :: uuid
  nm_thread_id :: "uuid option"
  nm_uid :: i64
  nm_message_id_header :: "rstr option"
  nm_in_reply_to :: "rstr option"
  nm_references_header :: "rstr option"
  nm_from_addr :: rstr
  nm_to_addrs :: "rstr list"
  nm_cc_addrs :: "rstr list"
  nm_bcc_addrs :: "rstr list"
  nm_reply_to :: "rstr option"
  nm_subject :: "rstr option"
  nm_snippet :: "rstr option"
  nm_text_body :: "rstr option"
  nm_html_body :: "rstr option"
  nm_raw_size :: i64
  nm_flags :: "rstr list"
  nm_internal_date :: instant
  nm_sent_at :: "instant option"

definition message_row :: "NewMessage \<Rightarrow> uuid \<Rightarrow> instant \<Rightarrow> Message" where
  "message_row n i now =
     \<lparr>msg_id = i, msg_account_id = nm_account_id n, msg_folder_id = nm_folder_id n,
      msg_thread_id = nm_thread_id n, msg_uid = nm_uid n,
      msg_message_id_header = nm_message_id_header n, msg_in_reply_to = nm_in_reply_to n,
      msg_references_header = nm_references_header n, msg_from_addr = nm_from_addr n,
      msg_to_addrs = nm_to_addrs n, msg_cc_addrs = nm_cc_addrs n, msg_bcc_addrs = nm_bcc_addrs n,
      msg_reply_to = nm_reply_to n, msg_subject = nm_subject n, msg_snippet = nm_snippet n,
      msg_text_body = nm_text_body n, msg_html_body = nm_html_body n, msg_raw_size = nm_raw_size n,
      msg_flags = nm_flags n, msg_internal_date = nm_internal_date n, msg_sent_at = nm_sent_at n,
      msg_created_at = now\<rparr>"

definition messages_create ::
  "NewMessage \<Rightarrow> uuid \<Rightarrow> instant \<Rightarrow> store \<Rightarrow> (DbError, Message \<times> store) result" where
  "messages_create n i now st =
     (let r = message_row n i now in
      if i \<in> msg_id ` set (messages st) then Err (UniqueViolation (lit ''messages.id''))
      else if message_key r \<in> message_key ` set (messages st)
      then Err (UniqueViolation (lit ''messages.folder_id, messages.uid''))
      else if nm_account_id n \<notin> acc_id ` set (accounts st) \<or> nm_folder_id n \<notin> fld_id ` set (folders st) \<or>
              (case nm_thread_id n of None \<Rightarrow> False | Some t \<Rightarrow> t \<notin> thr_id ` set (threads st))
      then Err (ForeignKeyViolation (lit ''messages''))
      else Ok (r, st\<lparr>messages := messages st @ [r]\<rparr>))"

definition messages_get :: "uuid \<Rightarrow> store \<Rightarrow> Message option" where
  "messages_get i st = get_row msg_id i (messages st)"

definition messages_get_by_folder_uid :: "uuid \<Rightarrow> i64 \<Rightarrow> store \<Rightarrow> Message option" where
  "messages_get_by_folder_uid f uid st = get_row message_key (f, uid) (messages st)"

definition messages_list_by_folder :: "uuid \<Rightarrow> i64 \<Rightarrow> i64 \<Rightarrow> store \<Rightarrow> MessageSummary list" where
  "messages_list_by_folder f limit offset st =
     map message_summary (page limit offset
       (order_by (\<lambda>m. - msg_internal_date m) (filter (\<lambda>m. msg_folder_id m = f) (messages st))))"

definition messages_list_by_thread :: "uuid \<Rightarrow> store \<Rightarrow> MessageSummary list" where
  "messages_list_by_thread t st = map message_summary (order_by msg_internal_date (thread_messages t st))"

text \<open>Pairs of thread and Message-ID header, for the threads asked for.\<close>

definition message_ids_by_threads :: "uuid list \<Rightarrow> store \<Rightarrow> (uuid \<times> rstr) list" where
  "message_ids_by_threads ts st =
     order_by fst
       (List.map_filter (\<lambda>m. case (msg_thread_id m, msg_message_id_header m) of
                               (Some t, Some h) \<Rightarrow> if t \<in> set ts then Some (t, h) else None
                             | _ \<Rightarrow> None)
          (order_by msg_internal_date (messages st)))"

definition existing_uids :: "uuid \<Rightarrow> i64 list \<Rightarrow> store \<Rightarrow> i64 list" where
  "existing_uids f uids st =
     filter (\<lambda>u. u \<in> set uids) (map msg_uid (filter (\<lambda>m. msg_folder_id m = f) (messages st)))"

record SetFlagsOutcome =
  sf_found :: bool
  sf_changed :: bool

definition messages_set_flags :: "uuid \<Rightarrow> rstr list \<Rightarrow> store \<Rightarrow> SetFlagsOutcome \<times> store" where
  "messages_set_flags i flags st =
     (let hit = (\<lambda>m. msg_id m = i \<and> msg_flags m \<noteq> flags) in
      if list_ex hit (messages st)
      then (\<lparr>sf_found = True, sf_changed = True\<rparr>,
            st\<lparr>messages := update_rows hit (\<lambda>m. m\<lparr>msg_flags := flags\<rparr>) (messages st)\<rparr>)
      else (\<lparr>sf_found = i \<in> msg_id ` set (messages st), sf_changed = False\<rparr>, st))"

text \<open>\<^verbatim>\<open>UPDATE messages SET folder_id\<close>: the uid column stays as it is.\<close>

definition messages_set_folder :: "uuid \<Rightarrow> uuid \<Rightarrow> store \<Rightarrow> (DbError, bool \<times> store) result" where
  "messages_set_folder i f st =
     (case messages_get i st of
        None \<Rightarrow> Ok (False, st)
      | Some m \<Rightarrow>
          if (f, msg_uid m) \<in> message_key ` set (delete_rows (\<lambda>m. msg_id m = i) (messages st))
          then Err (UniqueViolation (lit ''messages.folder_id, messages.uid''))
          else if f \<notin> fld_id ` set (folders st) then Err (ForeignKeyViolation (lit ''messages''))
          else Ok (True, st\<lparr>messages := update_rows (\<lambda>m. msg_id m = i)
                                (\<lambda>m. m\<lparr>msg_folder_id := f\<rparr>) (messages st)\<rparr>))"

definition messages_delete :: "uuid \<Rightarrow> store \<Rightarrow> bool \<times> store" where
  "messages_delete i st =
     (i \<in> msg_id ` set (messages st),
      cascade (st\<lparr>messages := delete_rows (\<lambda>m. msg_id m = i) (messages st)\<rparr>))"

definition delete_all_in_folder :: "uuid \<Rightarrow> store \<Rightarrow> nat \<times> store" where
  "delete_all_in_folder f st =
     (length (filter (\<lambda>m. msg_folder_id m = f) (messages st)),
      cascade (st\<lparr>messages := delete_rows (\<lambda>m. msg_folder_id m = f) (messages st)\<rparr>))"

subsection \<open>attachments\<close>

record NewAttachment =
  nat_message_id :: uuid
  nat_filename :: rstr
  nat_content_type :: rstr
  nat_content_id :: "rstr option"
  nat_size_bytes :: i64
  nat_disposition :: AttachmentDisposition
  nat_storage_path :: rstr

definition attachment_row :: "NewAttachment \<Rightarrow> uuid \<Rightarrow> instant \<Rightarrow> Attachment" where
  "attachment_row n i now =
     \<lparr>att_id = i, att_message_id = nat_message_id n, att_filename = nat_filename n,
      att_content_type = nat_content_type n, att_content_id = nat_content_id n,
      att_size_bytes = nat_size_bytes n, att_disposition = nat_disposition n,
      att_storage_path = nat_storage_path n, att_created_at = now\<rparr>"

definition attachments_create ::
  "NewAttachment \<Rightarrow> uuid \<Rightarrow> instant \<Rightarrow> store \<Rightarrow> (DbError, Attachment \<times> store) result" where
  "attachments_create n i now st =
     (if i \<in> att_id ` set (attachments st) then Err (UniqueViolation (lit ''attachments.id''))
      else if nat_message_id n \<notin> msg_id ` set (messages st) then Err (ForeignKeyViolation (lit ''attachments''))
      else (let r = attachment_row n i now in Ok (r, st\<lparr>attachments := attachments st @ [r]\<rparr>)))"

definition attachments_list_for_message :: "uuid \<Rightarrow> store \<Rightarrow> Attachment list" where
  "attachments_list_for_message m st =
     order_by att_created_at (filter (\<lambda>a. att_message_id a = m) (attachments st))"

definition attachments_get :: "uuid \<Rightarrow> store \<Rightarrow> Attachment option" where
  "attachments_get i st = get_row att_id i (attachments st)"

subsection \<open>drafts\<close>

record NewDraft =
  nd_account_id :: uuid
  nd_in_reply_to_msg :: "uuid option"
  nd_to_addrs :: "rstr list"
  nd_cc_addrs :: "rstr list"
  nd_bcc_addrs :: "rstr list"
  nd_subject :: "rstr option"
  nd_text_body :: "rstr option"
  nd_html_body :: "rstr option"
  nd_in_reply_to :: "rstr option"
  nd_references_header :: "rstr option"

record DraftPatch =
  dp_to_addrs :: "rstr list"
  dp_cc_addrs :: "rstr list"
  dp_bcc_addrs :: "rstr list"
  dp_subject :: "rstr option"
  dp_text_body :: "rstr option"
  dp_html_body :: "rstr option"

definition draft_row :: "NewDraft \<Rightarrow> uuid \<Rightarrow> instant \<Rightarrow> Draft" where
  "draft_row n i now =
     \<lparr>dft_id = i, dft_account_id = nd_account_id n, dft_in_reply_to_msg = nd_in_reply_to_msg n,
      dft_to_addrs = nd_to_addrs n, dft_cc_addrs = nd_cc_addrs n, dft_bcc_addrs = nd_bcc_addrs n,
      dft_subject = nd_subject n, dft_text_body = nd_text_body n, dft_html_body = nd_html_body n,
      dft_in_reply_to = nd_in_reply_to n, dft_references_header = nd_references_header n,
      dft_remote_folder_id = None, dft_remote_uid = None, dft_created_at = now, dft_updated_at = now\<rparr>"

definition drafts_create ::
  "NewDraft \<Rightarrow> uuid \<Rightarrow> instant \<Rightarrow> store \<Rightarrow> (DbError, Draft \<times> store) result" where
  "drafts_create n i now st =
     (if i \<in> dft_id ` set (drafts st) then Err (UniqueViolation (lit ''drafts.id''))
      else if nd_account_id n \<notin> acc_id ` set (accounts st) \<or>
              (case nd_in_reply_to_msg n of None \<Rightarrow> False | Some m \<Rightarrow> m \<notin> msg_id ` set (messages st))
      then Err (ForeignKeyViolation (lit ''drafts''))
      else (let r = draft_row n i now in Ok (r, st\<lparr>drafts := drafts st @ [r]\<rparr>)))"

definition patch_draft :: "DraftPatch \<Rightarrow> instant \<Rightarrow> Draft \<Rightarrow> Draft" where
  "patch_draft p now d =
     d\<lparr>dft_to_addrs := dp_to_addrs p, dft_cc_addrs := dp_cc_addrs p, dft_bcc_addrs := dp_bcc_addrs p,
       dft_subject := dp_subject p, dft_text_body := dp_text_body p, dft_html_body := dp_html_body p,
       dft_updated_at := now\<rparr>"

definition drafts_patch :: "uuid \<Rightarrow> DraftPatch \<Rightarrow> instant \<Rightarrow> store \<Rightarrow> Draft option \<times> store" where
  "drafts_patch i p now st =
     (let st' = st\<lparr>drafts := update_rows (\<lambda>d. dft_id d = i) (patch_draft p now) (drafts st)\<rparr> in
      (get_row dft_id i (drafts st'), st'))"

definition drafts_get :: "uuid \<Rightarrow> store \<Rightarrow> Draft option" where
  "drafts_get i st = get_row dft_id i (drafts st)"

definition drafts_list_by_account :: "uuid \<Rightarrow> store \<Rightarrow> Draft list" where
  "drafts_list_by_account acc st =
     order_by (\<lambda>d. - dft_updated_at d) (filter (\<lambda>d. dft_account_id d = acc) (drafts st))"

definition drafts_delete :: "uuid \<Rightarrow> store \<Rightarrow> bool \<times> store" where
  "drafts_delete i st =
     (i \<in> dft_id ` set (drafts st),
      cascade (st\<lparr>drafts := delete_rows (\<lambda>d. dft_id d = i) (drafts st)\<rparr>))"

subsection \<open>draft attachments\<close>

definition MAX_DRAFT_ATTACHMENT_BYTES :: int where
  "MAX_DRAFT_ATTACHMENT_BYTES = 25 * 1024 * 1024"

record NewDraftAttachment =
  nda_draft_id :: uuid
  nda_filename :: rstr
  nda_content_type :: rstr
  nda_content :: "byte list"

definition draft_attachment_row :: "NewDraftAttachment \<Rightarrow> uuid \<Rightarrow> instant \<Rightarrow> DraftAttachment" where
  "draft_attachment_row n i now =
     \<lparr>dat_id = i, dat_draft_id = nda_draft_id n, dat_filename = nda_filename n,
      dat_content_type = nda_content_type n, dat_size_bytes = int (length (nda_content n)),
      dat_created_at = now, dat_content = nda_content n\<rparr>"

definition draft_attachments_create ::
  "NewDraftAttachment \<Rightarrow> uuid \<Rightarrow> instant \<Rightarrow> store \<Rightarrow> (DbError, DraftAttachment \<times> store) result" where
  "draft_attachments_create n i now st =
     (if i \<in> dat_id ` set (draft_attachments st) then Err (UniqueViolation (lit ''draft_attachments.id''))
      else if nda_draft_id n \<notin> dft_id ` set (drafts st) then Err (ForeignKeyViolation (lit ''draft_attachments''))
      else (let r = draft_attachment_row n i now in
            Ok (r, st\<lparr>draft_attachments := draft_attachments st @ [r]\<rparr>)))"

definition draft_attachments_list_for_draft :: "uuid \<Rightarrow> store \<Rightarrow> DraftAttachment list" where
  "draft_attachments_list_for_draft d st =
     order_by dat_created_at (order_by dat_id (filter (\<lambda>a. dat_draft_id a = d) (draft_attachments st)))"

definition draft_attachments_load_content :: "uuid \<Rightarrow> store \<Rightarrow> byte list option" where
  "draft_attachments_load_content i st = map_option dat_content (get_row dat_id i (draft_attachments st))"

definition aggregate_size_for_draft :: "uuid \<Rightarrow> store \<Rightarrow> int" where
  "aggregate_size_for_draft d st =
     sum_list (map dat_size_bytes (filter (\<lambda>a. dat_draft_id a = d) (draft_attachments st)))"

definition delete_all_for_draft :: "uuid \<Rightarrow> store \<Rightarrow> nat \<times> store" where
  "delete_all_for_draft d st =
     (length (filter (\<lambda>a. dat_draft_id a = d) (draft_attachments st)),
      st\<lparr>draft_attachments := delete_rows (\<lambda>a. dat_draft_id a = d) (draft_attachments st)\<rparr>)"

subsection \<open>MCP gates and approvals\<close>

definition create_gate ::
  "rstr \<Rightarrow> rstr option \<Rightarrow> GateAction \<Rightarrow> rstr option \<Rightarrow> uuid \<Rightarrow> instant \<Rightarrow> store \<Rightarrow> (DbError, McpGate \<times> store) result" where
  "create_gate tool pattern action note i now st =
     (if i \<in> gate_id ` set (mcp_gates st) then Err (UniqueViolation (lit ''mcp_gates.id''))
      else (let r = \<lparr>gate_id = i, gate_tool = tool, gate_arg_pattern = pattern, gate_action = action,
                     gate_note = note, gate_created_at = now\<rparr> in
            Ok (r, st\<lparr>mcp_gates := mcp_gates st @ [r]\<rparr>)))"

definition list_gates :: "store \<Rightarrow> McpGate list" where
  "list_gates st = order_by gate_tool (order_by gate_created_at (mcp_gates st))"

definition list_gates_for_tool :: "rstr \<Rightarrow> store \<Rightarrow> McpGate list" where
  "list_gates_for_tool tool st = order_by gate_created_at (filter (\<lambda>g. gate_tool g = tool) (mcp_gates st))"

definition delete_gate :: "uuid \<Rightarrow> store \<Rightarrow> bool \<times> store" where
  "delete_gate i st =
     (i \<in> gate_id ` set (mcp_gates st),
      st\<lparr>mcp_gates := delete_rows (\<lambda>g. gate_id g = i) (mcp_gates st)\<rparr>)"

definition approvals_create ::
  "rstr \<Rightarrow> json \<Rightarrow> rstr \<Rightarrow> uuid \<Rightarrow> instant \<Rightarrow> store \<Rightarrow> (DbError, McpApproval \<times> store) result" where
  "approvals_create tool args summary i now st =
     (if i \<in> ap_id ` set (mcp_approvals st) then Err (UniqueViolation (lit ''mcp_approvals.id''))
      else (let r = \<lparr>ap_id = i, ap_tool = tool, ap_args = args, ap_summary = summary,
                     ap_state = Pending, ap_decided_at = None, ap_decided_by = None, ap_created_at = now\<rparr> in
            Ok (r, st\<lparr>mcp_approvals := mcp_approvals st @ [r]\<rparr>)))"

definition approvals_get :: "uuid \<Rightarrow> store \<Rightarrow> McpApproval option" where
  "approvals_get i st = get_row ap_id i (mcp_approvals st)"

definition approvals_list :: "ApprovalState option \<Rightarrow> i64 \<Rightarrow> i64 \<Rightarrow> store \<Rightarrow> McpApproval list" where
  "approvals_list state limit offset st =
     page limit offset
       (order_by (\<lambda>a. - ap_created_at a)
          (rev (filter (\<lambda>a. case state of None \<Rightarrow> True | Some s \<Rightarrow> ap_state a = s) (mcp_approvals st))))"

definition decide_approval ::
  "uuid \<Rightarrow> ApprovalState \<Rightarrow> rstr \<Rightarrow> instant \<Rightarrow> store \<Rightarrow> bool \<times> store" where
  "decide_approval i new_state decided_by now st =
     (let hit = (\<lambda>a. ap_id a = i \<and> ap_state a = Pending) in
      (list_ex hit (mcp_approvals st),
       st\<lparr>mcp_approvals := update_rows hit
            (\<lambda>a. a\<lparr>ap_state := new_state, ap_decided_at := Some now, ap_decided_by := Some decided_by\<rparr>)
            (mcp_approvals st)\<rparr>))"

subsection \<open>audit log\<close>

record NewAuditEntry =
  nae_actor :: rstr
  nae_action :: rstr
  nae_target :: "rstr option"
  nae_details :: json

definition audit_record ::
  "NewAuditEntry \<Rightarrow> uuid \<Rightarrow> instant \<Rightarrow> store \<Rightarrow> (DbError, AuditEntry \<times> store) result" where
  "audit_record n i now st =
     (if i \<in> aud_id ` set (audit_log st) then Err (UniqueViolation (lit ''audit_log.id''))
      else (let r = \<lparr>aud_id = i, aud_actor = nae_actor n, aud_action = nae_action n,
                     aud_target = nae_target n, aud_details = nae_details n, aud_created_at = now\<rparr> in
            Ok (r, st\<lparr>audit_log := audit_log st @ [r]\<rparr>)))"

definition audit_list_recent :: "i64 \<Rightarrow> i64 \<Rightarrow> store \<Rightarrow> AuditEntry list" where
  "audit_list_recent limit offset st =
     page limit offset (order_by (\<lambda>a. - aud_created_at a) (rev (audit_log st)))"

definition audit_list_by_actor :: "rstr \<Rightarrow> i64 \<Rightarrow> store \<Rightarrow> AuditEntry list" where
  "audit_list_by_actor actor limit st =
     page limit 0 (order_by (\<lambda>a. - aud_created_at a) (rev (filter (\<lambda>a. aud_actor a = actor) (audit_log st))))"

end
