(* ===== verification/StoreInv.thy ===== *)
theory StoreInv
  imports Store
begin

text \<open>
  What the data access functions keep true: the schema constraints, the single decision of an
  approval, and the effect of the statements other components rely on.
\<close>

named_theorems store_wf

subsection \<open>Inserts\<close>

lemma map_filter_snoc:
  "List.map_filter f (xs @ [x]) = List.map_filter f xs @ (case f x of None \<Rightarrow> [] | Some y \<Rightarrow> [y])"
  by (induction xs) (auto simp: List.map_filter_simps split: option.splits)

lemma in_map_filter: "y \<in> set (List.map_filter f xs) \<longleftrightarrow> Some y \<in> f ` set xs"
  by (induction xs) (auto simp: List.map_filter_simps split: option.splits)

lemma refers_snoc:
  "refers fk (rows @ [r]) key ps \<longleftrightarrow> refers fk rows key ps \<and> fk r \<in> key ` set ps"
  "refers_opt fk' (rows @ [r]) key ps \<longleftrightarrow>
     refers_opt fk' rows key ps \<and> (case fk' r of None \<Rightarrow> True | Some k \<Rightarrow> k \<in> key ` set ps)"
  by (auto simp: refers_def refers_opt_def split: option.splits)

lemmas schema_defs =
  db_wf_def uniques_def references_def

lemmas insert_simps =
  refers_snoc refers_append refers_opt_append map_filter_snoc in_map_filter

lemma accounts_create_wf [store_wf]:
  "db_wf st \<Longrightarrow> accounts_create n i now st = Ok (r, st') \<Longrightarrow> db_wf st'"
  by (auto simp: accounts_create_def Let_def schema_defs insert_simps account_row_def split: if_splits)

lemma folders_create_wf [store_wf]:
  "db_wf st \<Longrightarrow> folders_create n i now st = Ok (r, st') \<Longrightarrow> db_wf st'"
  by (auto simp: folders_create_def Let_def schema_defs insert_simps folder_row_def split: if_splits)

lemma threads_create_wf [store_wf]:
  "db_wf st \<Longrightarrow> threads_create acc ext subj i now st = Ok (r, st') \<Longrightarrow> db_wf st'"
  by (cases ext)
     (auto simp: threads_create_def Let_def schema_defs insert_simps thread_row_def thread_key_def
           split: if_splits)

lemma messages_create_wf [store_wf]:
  "db_wf st \<Longrightarrow> messages_create n i now st = Ok (r, st') \<Longrightarrow> db_wf st'"
  by (auto simp: messages_create_def Let_def schema_defs insert_simps message_row_def
           split: if_splits option.splits)

lemma attachments_create_wf [store_wf]:
  "db_wf st \<Longrightarrow> attachments_create n i now st = Ok (r, st') \<Longrightarrow> db_wf st'"
  by (auto simp: attachments_create_def Let_def schema_defs insert_simps attachment_row_def split: if_splits)

lemma drafts_create_wf [store_wf]:
  "db_wf st \<Longrightarrow> drafts_create n i now st = Ok (r, st') \<Longrightarrow> db_wf st'"
  by (auto simp: drafts_create_def Let_def schema_defs insert_simps draft_row_def
           split: if_splits option.splits)

lemma draft_attachments_create_wf [store_wf]:
  "db_wf st \<Longrightarrow> draft_attachments_create n i now st = Ok (r, st') \<Longrightarrow> db_wf st'"
  by (auto simp: draft_attachments_create_def Let_def schema_defs insert_simps draft_attachment_row_def
           split: if_splits)

lemma create_gate_wf [store_wf]:
  "db_wf st \<Longrightarrow> create_gate tool p a note i now st = Ok (r, st') \<Longrightarrow> db_wf st'"
  by (auto simp: create_gate_def Let_def schema_defs split: if_splits)

lemma approvals_create_wf [store_wf]:
  "db_wf st \<Longrightarrow> approvals_create tool args summary i now st = Ok (r, st') \<Longrightarrow> db_wf st'"
  by (auto simp: approvals_create_def Let_def schema_defs split: if_splits)

lemma audit_record_wf [store_wf]:
  "db_wf st \<Longrightarrow> audit_record n i now st = Ok (r, st') \<Longrightarrow> db_wf st'"
  by (auto simp: audit_record_def Let_def schema_defs split: if_splits)

subsection \<open>Updates\<close>

lemma refers_parent_update:
  "(\<And>r. P r \<Longrightarrow> key (f r) = key r) \<Longrightarrow> refers fk rows key (update_rows P f ps) = refers fk rows key ps"
  "(\<And>r. P r \<Longrightarrow> key (f r) = key r) \<Longrightarrow> refers_opt fk' rows key (update_rows P f ps) = refers_opt fk' rows key ps"
  using map_update_rows [of P key f ps] by (simp_all only: refers_def refers_opt_def)

lemmas update_simps =
  map_update_rows map_filter_update_rows refers_update refers_parent_update

lemma folder_key_simps [simp]:
  "folder_key (f\<lparr>fld_delimiter := a\<rparr>) = folder_key f" "folder_key (f\<lparr>fld_role := b\<rparr>) = folder_key f"
  "folder_key (f\<lparr>fld_selectable := c\<rparr>) = folder_key f" "folder_key (f\<lparr>fld_uid_validity := v\<rparr>) = folder_key f"
  "folder_key (f\<lparr>fld_uid_next := n\<rparr>) = folder_key f" "folder_key (f\<lparr>fld_last_seen_uid := l\<rparr>) = folder_key f"
  by (simp_all add: folder_key_def)

lemma thread_key_simps [simp]:
  "thread_key (t\<lparr>thr_message_count := a\<rparr>) = thread_key t" "thread_key (t\<lparr>thr_last_message_at := b\<rparr>) = thread_key t"
  by (simp_all add: thread_key_def)

lemma message_key_flags [simp]: "message_key (m\<lparr>msg_flags := fl\<rparr>) = message_key m"
  by (simp add: message_key_def)

lemma patch_draft_keys [simp]:
  "dft_id (patch_draft p now d) = dft_id d" "dft_account_id (patch_draft p now d) = dft_account_id d"
  "dft_in_reply_to_msg (patch_draft p now d) = dft_in_reply_to_msg d"
  "dft_remote_folder_id (patch_draft p now d) = dft_remote_folder_id d"
  by (simp_all add: patch_draft_def)

lemma accounts_set_secret_ref_wf [store_wf]: "db_wf st \<Longrightarrow> db_wf (accounts_set_secret_ref i r now st)"
  by (simp add: accounts_set_secret_ref_def schema_defs update_simps)

lemma accounts_update_sync_wf [store_wf]: "db_wf st \<Longrightarrow> db_wf (accounts_update_sync i s e t now st)"
  by (simp add: accounts_update_sync_def schema_defs update_simps)

lemma folders_update_uid_state_wf [store_wf]: "db_wf st \<Longrightarrow> db_wf (folders_update_uid_state i v n l st)"
  by (simp add: folders_update_uid_state_def schema_defs update_simps)

lemma folders_upsert_wf [store_wf]:
  assumes wf: "db_wf st" and ok: "folders_upsert n i now st = Some (Ok (r, st'))"
  shows "db_wf st'"
proof (cases "folders_get_by_name (nf_account_id n) (nf_name n) st")
  case None
  with assms show ?thesis by (simp add: folders_upsert_def folders_create_wf)
next
  case (Some ex)
  with ok have "st' = st\<lparr>folders := update_rows (\<lambda>f. fld_id f = fld_id ex)
      (\<lambda>f. f\<lparr>fld_delimiter := nf_delimiter n, fld_role := nf_role n, fld_selectable := nf_selectable n\<rparr>)
      (folders st)\<rparr>"
    by (auto simp: folders_upsert_def Let_def)
  with wf show ?thesis by (simp add: schema_defs update_simps)
qed

lemma threads_refresh_aggregates_wf [store_wf]: "db_wf st \<Longrightarrow> db_wf (threads_refresh_aggregates i st)"
  by (simp add: threads_refresh_aggregates_def schema_defs update_simps)

lemma threads_touch_wf [store_wf]: "db_wf st \<Longrightarrow> db_wf (threads_touch_last_message_at i t st)"
  by (simp add: threads_touch_last_message_at_def schema_defs update_simps)

lemma messages_set_flags_wf [store_wf]: "db_wf st \<Longrightarrow> db_wf (snd (messages_set_flags i fl st))"
  by (simp add: messages_set_flags_def Let_def schema_defs update_simps)

lemma drafts_patch_wf [store_wf]: "db_wf st \<Longrightarrow> db_wf (snd (drafts_patch i p now st))"
  by (simp add: drafts_patch_def Let_def schema_defs update_simps)

lemma decide_approval_wf [store_wf]: "db_wf st \<Longrightarrow> db_wf (snd (decide_approval i s who now st))"
  by (simp add: decide_approval_def Let_def schema_defs update_simps)

subsection \<open>Deletes\<close>

lemma delete_uniques:
  "uniques st \<Longrightarrow> uniques (st\<lparr>accounts := delete_rows P (accounts st)\<rparr>)"
  "uniques st \<Longrightarrow> uniques (st\<lparr>messages := delete_rows Q (messages st)\<rparr>)"
  "uniques st \<Longrightarrow> uniques (st\<lparr>drafts := delete_rows R (drafts st)\<rparr>)"
  "uniques st \<Longrightarrow> uniques (st\<lparr>draft_attachments := delete_rows S (draft_attachments st)\<rparr>)"
  "uniques st \<Longrightarrow> uniques (st\<lparr>mcp_gates := delete_rows T (mcp_gates st)\<rparr>)"
  by (simp_all add: uniques_def distinct_map_delete)

lemma delete_wf [store_wf]:
  assumes "db_wf st"
  shows "db_wf (snd (accounts_delete i st))" "db_wf (snd (messages_delete i st))"
    "db_wf (snd (delete_all_in_folder i st))" "db_wf (snd (drafts_delete i st))"
  using assms [unfolded db_wf_def]
  by (simp_all add: accounts_delete_def messages_delete_def delete_all_in_folder_def drafts_delete_def
        cascade_wf delete_uniques)

lemma delete_leaf_wf [store_wf]:
  assumes "db_wf st"
  shows "db_wf (snd (delete_all_for_draft i st))" "db_wf (snd (delete_gate i st))"
  using assms
  by (auto simp: delete_all_for_draft_def delete_gate_def db_wf_def delete_uniques references_def)
     (auto simp: refers_def delete_rows_def list_all_iff)

subsection \<open>Moving a message\<close>

lemma update_rows_Cons:
  "update_rows P f (r # rows) = (if P r then f r else r) # update_rows P f rows"
  by (simp add: update_rows_def)

lemma distinct_map_replace:
  assumes "distinct (map key rows)" and "distinct (map k rows)"
    and "v \<notin> key ` set (delete_rows (\<lambda>r. k r = i) rows)"
    and "\<And>r. r \<in> set rows \<Longrightarrow> k r = i \<Longrightarrow> key (f r) = v"
  shows "distinct (map key (update_rows (\<lambda>r. k r = i) f rows))"
  using assms
proof (induction rows)
  case (Cons r rows)
  show ?case
  proof (cases "k r = i")
    case True
    have other: "k x \<noteq> i" if "x \<in> set rows" for x
      using that True Cons.prems(2) by (metis distinct.simps(2) image_eqI list.simps(9) set_map)
    then have same: "update_rows (\<lambda>r. k r = i) f rows = rows"
      by (auto simp: update_rows_def intro!: map_idI)
    have "delete_rows (\<lambda>r. k r = i) (r # rows) = rows"
      using True other by (auto simp: delete_rows_def intro!: filter_True)
    with Cons.prems True have "v \<notin> key ` set rows" "key (f r) = v" by auto
    then show ?thesis using Cons.prems True same by (simp add: update_rows_def)
  next
    case False
    with Cons have IH: "distinct (map key (update_rows (\<lambda>r. k r = i) f rows))"
      by (auto simp: delete_rows_def)
    have "key r \<notin> key ` set (update_rows (\<lambda>r. k r = i) f rows)"
      using Cons.prems False by (auto simp: update_rows_def delete_rows_def)
    with IH False show ?thesis by (simp add: update_rows_Cons)
  qed
qed (simp add: update_rows_def)

lemma messages_set_folder_wf [store_wf]:
  assumes wf: "db_wf st" and ok: "messages_set_folder i f st = Ok (b, st')"
  shows "db_wf st'"
proof (cases "messages_get i st")
  case None
  with assms show ?thesis by (simp add: messages_set_folder_def)
next
  case (Some m)
  with ok have free: "(f, msg_uid m) \<notin> message_key ` set (delete_rows (\<lambda>m. msg_id m = i) (messages st))"
    and fld: "f \<in> fld_id ` set (folders st)"
    and st': "st' = st\<lparr>messages := update_rows (\<lambda>m. msg_id m = i) (\<lambda>m. m\<lparr>msg_folder_id := f\<rparr>) (messages st)\<rparr>"
    by (auto simp: messages_set_folder_def split: if_splits)
  have m: "m \<in> set (messages st)" "msg_id m = i" using Some get_row_Some [of msg_id i "messages st" m] by (auto simp: messages_get_def)
  have "r = m" if "r \<in> set (messages st)" "msg_id r = i" for r
    using wf that m by (auto simp: schema_defs distinct_map dest: inj_onD)
  then have "distinct (map message_key (update_rows (\<lambda>m. msg_id m = i) (\<lambda>m. m\<lparr>msg_folder_id := f\<rparr>) (messages st)))"
    using wf free by (intro distinct_map_replace [where v = "(f, msg_uid m)"])
      (auto simp: schema_defs message_key_def)
  moreover have "refers msg_folder_id (update_rows (\<lambda>m. msg_id m = i) (\<lambda>m. m\<lparr>msg_folder_id := f\<rparr>) (messages st))
      fld_id (folders st)"
    using wf fld by (auto simp: schema_defs refers_def update_rows_def list_all_iff)
  ultimately show ?thesis using wf by (simp add: st' schema_defs update_simps)
qed

subsection \<open>Every reachable database satisfies its schema\<close>

text \<open>The statements that change the database; a failed one leaves it unchanged.\<close>

datatype db_cmd =
    AccountsCreate NewAccount uuid instant
  | AccountsDelete uuid
  | AccountsSetSecretRef uuid "rstr option" instant
  | AccountsUpdateSync uuid SyncStatus "rstr option" "instant option" instant
  | FoldersCreate NewFolder uuid instant
  | FoldersUpsert NewFolder uuid instant
  | FoldersUpdateUidState uuid "i64 option" "i64 option" "i64 option"
  | ThreadsCreate uuid "rstr option" "rstr option" uuid instant
  | ThreadsRefreshAggregates uuid
  | ThreadsTouch uuid instant
  | MessagesCreate NewMessage uuid instant
  | MessagesSetFlags uuid "rstr list"
  | MessagesSetFolder uuid uuid
  | MessagesDelete uuid
  | MessagesDeleteAllInFolder uuid
  | AttachmentsCreate NewAttachment uuid instant
  | DraftsCreate NewDraft uuid instant
  | DraftsUpdate uuid DraftPatch instant
  | DraftsDelete uuid
  | DraftAttachmentsCreate NewDraftAttachment uuid instant
  | DraftAttachmentsDeleteAll uuid
  | GateCreate rstr "rstr option" GateAction "rstr option" uuid instant
  | GateDelete uuid
  | ApprovalCreate rstr json rstr uuid instant
  | ApprovalDecide uuid ApprovalState rstr instant
  | AuditRecord NewAuditEntry uuid instant

definition committed :: "store \<Rightarrow> (DbError, 'r \<times> store) result \<Rightarrow> store" where
  "committed st r = (case r of Err _ \<Rightarrow> st | Ok (_, st') \<Rightarrow> st')"

fun db_exec :: "db_cmd \<Rightarrow> store \<Rightarrow> store" where
  "db_exec (AccountsCreate n i now) st = committed st (accounts_create n i now st)"
| "db_exec (AccountsDelete i) st = snd (accounts_delete i st)"
| "db_exec (AccountsSetSecretRef i r now) st = accounts_set_secret_ref i r now st"
| "db_exec (AccountsUpdateSync i s e t now) st = accounts_update_sync i s e t now st"
| "db_exec (FoldersCreate n i now) st = committed st (folders_create n i now st)"
| "db_exec (FoldersUpsert n i now) st =
     (case folders_upsert n i now st of None \<Rightarrow> st | Some r \<Rightarrow> committed st r)"
| "db_exec (FoldersUpdateUidState i v n l) st = folders_update_uid_state i v n l st"
| "db_exec (ThreadsCreate acc ext subj i now) st = committed st (threads_create acc ext subj i now st)"
| "db_exec (ThreadsRefreshAggregates i) st = threads_refresh_aggregates i st"
| "db_exec (ThreadsTouch i t) st = threads_touch_last_message_at i t st"
| "db_exec (MessagesCreate n i now) st = committed st (messages_create n i now st)"
| "db_exec (MessagesSetFlags i fl) st = snd (messages_set_flags i fl st)"
| "db_exec (MessagesSetFolder i f) st = committed st (messages_set_folder i f st)"
| "db_exec (MessagesDelete i) st = snd (messages_delete i st)"
| "db_exec (MessagesDeleteAllInFolder f) st = snd (delete_all_in_folder f st)"
| "db_exec (AttachmentsCreate n i now) st = committed st (attachments_create n i now st)"
| "db_exec (DraftsCreate n i now) st = committed st (drafts_create n i now st)"
| "db_exec (DraftsUpdate i p now) st = snd (drafts_patch i p now st)"
| "db_exec (DraftsDelete i) st = snd (drafts_delete i st)"
| "db_exec (DraftAttachmentsCreate n i now) st = committed st (draft_attachments_create n i now st)"
| "db_exec (DraftAttachmentsDeleteAll d) st = snd (delete_all_for_draft d st)"
| "db_exec (GateCreate tool p a note i now) st = committed st (create_gate tool p a note i now st)"
| "db_exec (GateDelete i) st = snd (delete_gate i st)"
| "db_exec (ApprovalCreate tool args summary i now) st =
     committed st (approvals_create tool args summary i now st)"
| "db_exec (ApprovalDecide i s who now) st = snd (decide_approval i s who now st)"
| "db_exec (AuditRecord n i now) st = committed st (audit_record n i now st)"

lemma committed_wf:
  "db_wf st \<Longrightarrow> (\<And>x st'. r = Ok (x, st') \<Longrightarrow> db_wf st') \<Longrightarrow> db_wf (committed st r)"
  by (auto simp: committed_def split: sum.splits prod.splits)

lemma db_exec_wf: "db_wf st \<Longrightarrow> db_wf (db_exec c st)"
proof (cases c)
  case (FoldersUpsert n i now)
  then show "db_wf st \<Longrightarrow> ?thesis"
    by (auto split: option.splits intro!: committed_wf intro: store_wf)
qed (auto intro!: committed_wf intro: store_wf)

text \<open>
  The database satisfies its schema after any sequence of statements of the data layer,
  failed ones included: primary keys and unique columns have no duplicates, and every foreign
  key refers to an existing row.
\<close>

theorem database_satisfies_schema: "db_wf (fold db_exec cmds empty_store)"
proof -
  have "db_wf st \<Longrightarrow> db_wf (fold db_exec cmds st)" for st
    by (induction cmds arbitrary: st) (auto intro: db_exec_wf)
  moreover have "db_wf empty_store"
    by (simp add: db_wf_def uniques_def references_def empty_store_def refers_def refers_opt_def
          List.map_filter_simps)
  ultimately show ?thesis by simp
qed

lemma refers_gone:
  "refers fk rows key ps \<Longrightarrow> list_all (\<lambda>p. key p \<noteq> i) ps \<Longrightarrow> list_all (\<lambda>r. fk r \<noteq> i) rows"
  by (force simp: refers_def list_all_iff)

text \<open>
  Deleting an account leaves nothing of it behind: no folder, thread, message or draft of
  the account, and no attachment of a message or draft that is gone.
\<close>

theorem account_delete_cascades:
  "list_all (\<lambda>a. acc_id a \<noteq> i) (accounts (snd (accounts_delete i st))) \<and>
   list_all (\<lambda>f. fld_account_id f \<noteq> i) (folders (snd (accounts_delete i st))) \<and>
   list_all (\<lambda>t. thr_account_id t \<noteq> i) (threads (snd (accounts_delete i st))) \<and>
   list_all (\<lambda>m. msg_account_id m \<noteq> i) (messages (snd (accounts_delete i st))) \<and>
   list_all (\<lambda>d. dft_account_id d \<noteq> i) (drafts (snd (accounts_delete i st))) \<and>
   references (snd (accounts_delete i st))"
proof -
  let ?st = "st\<lparr>accounts := delete_rows (\<lambda>a. acc_id a = i) (accounts st)\<rparr>"
  have gone: "list_all (\<lambda>a. acc_id a \<noteq> i) (accounts (cascade ?st))"
    by (simp add: cascade_def Let_def delete_rows_def list_all_iff)
  have refs: "references (cascade ?st)" by (rule cascade_references)
  with gone show ?thesis
    unfolding accounts_delete_def snd_conv references_def by (intro conjI) (auto intro: refers_gone)
qed

subsection \<open>Approvals are decided once\<close>

lemma find_decided:
  assumes "\<And>a. ap_id (f a) = ap_id a"
  shows "find (\<lambda>a. ap_id a = j) (update_rows (\<lambda>a. ap_id a = i \<and> ap_state a = Pending) f rows) =
    map_option (\<lambda>a. if j = i \<and> ap_state a = Pending then f a else a) (find (\<lambda>a. ap_id a = j) rows)"
  using assms by (induction rows) (auto simp: update_rows_def)

lemma decide_approval_get:
  "approvals_get j (snd (decide_approval i s who now st)) =
     map_option (\<lambda>a. if j = i \<and> ap_state a = Pending
                    then a\<lparr>ap_state := s, ap_decided_at := Some now, ap_decided_by := Some who\<rparr> else a)
       (approvals_get j st)"
  unfolding approvals_get_def get_row_def decide_approval_def Let_def snd_conv
  by (simp, rule find_decided, simp)

lemma get_row_snoc: "get_row key k rows = Some a \<Longrightarrow> get_row key k (rows @ [r]) = Some a"
  by (induction rows) (auto simp: get_row_def)

lemma decided_kept:
  assumes "db_wf st" and "approvals_get i st = Some a" and "ap_state a \<noteq> Pending"
  shows "approvals_get i (db_exec c st) = Some a"
proof -
  have same: "approvals_get i (committed st r) = Some a"
    if "\<And>x st'. r = Ok (x, st') \<Longrightarrow> mcp_approvals st' = mcp_approvals st" for r :: "(DbError, 'x \<times> store) result"
    using assms(2) that by (auto simp: committed_def approvals_get_def split: sum.splits prod.splits)
  show ?thesis
  proof (cases c)
    case (ApprovalDecide j s' who' now')
    then show ?thesis
      using assms decide_approval_get [of i j s' who' now' st] by simp
  next
    case (ApprovalCreate tool args summary j now')
    then show ?thesis
      using assms(2) by (auto simp: committed_def approvals_create_def Let_def approvals_get_def get_row_snoc)
  next
    case (FoldersUpsert n j now')
    have "approvals_get i (committed st r) = Some a" if "folders_upsert n j now' st = Some r" for r
      using that by (intro same) (auto simp: folders_upsert_def Let_def folders_create_def split: option.splits if_splits)
    with FoldersUpsert assms(2) show ?thesis by (auto split: option.split)
  qed (use assms(2) in \<open>auto intro!: same simp: accounts_create_def folders_create_def threads_create_def
        messages_create_def attachments_create_def drafts_create_def draft_attachments_create_def
        create_gate_def audit_record_def messages_set_folder_def Let_def split: if_splits option.splits\<close>,
      auto simp: approvals_get_def accounts_delete_def accounts_set_secret_ref_def accounts_update_sync_def
        folders_update_uid_state_def threads_refresh_aggregates_def threads_touch_last_message_at_def
        messages_set_flags_def messages_delete_def delete_all_in_folder_def drafts_patch_def drafts_delete_def
        delete_all_for_draft_def delete_gate_def cascade_def Let_def)
qed

text \<open>
  An approval is decided at most once.  Deciding reports success exactly when the approval
  exists and is pending, and a decided approval is not changed by any later statement of the
  data layer.
\<close>

theorem approval_decided_once:
  assumes "db_wf st" and "approvals_get i st = Some a" and "ap_state a \<noteq> Pending"
  shows "approvals_get i (db_exec c st) = Some a \<and> \<not> fst (decide_approval i s who now st)"
proof -
  have "\<not> fst (decide_approval i s who now st)"
  proof -
    have "x = a" if "x \<in> set (mcp_approvals st)" "ap_id x = i" for x
      using assms(1,2) get_row_Some [of ap_id i "mcp_approvals st" a] that
      by (auto simp: schema_defs approvals_get_def distinct_map dest: inj_onD)
    with assms(3) show ?thesis by (auto simp: decide_approval_def Let_def list_ex_iff)
  qed
  with decided_kept [OF assms] show ?thesis by simp
qed

definition sample_decided :: store where
  "sample_decided = fold db_exec
     [ApprovalCreate (lit ''t'') JNull [] 1 0, ApprovalDecide 1 Denied (lit ''user'') 5] empty_store"

definition sample_approval :: McpApproval where
  "sample_approval = \<lparr>ap_id = 1, ap_tool = lit ''t'', ap_args = JNull, ap_summary = [], ap_state = Denied,
     ap_decided_at = Some 5, ap_decided_by = Some (lit ''user''), ap_created_at = 0\<rparr>"

lemma sample_decided_get: "approvals_get 1 sample_decided = Some sample_approval"
  by (simp add: sample_decided_def sample_approval_def committed_def approvals_create_def empty_store_def
        Let_def decide_approval_def update_rows_def approvals_get_def get_row_def)

lemma sample_decided_wf: "db_wf sample_decided"
proof -
  have "db_wf empty_store"
    by (simp add: db_wf_def uniques_def references_def empty_store_def refers_def refers_opt_def
          List.map_filter_simps)
  then show ?thesis unfolding sample_decided_def by (simp add: db_exec_wf del: db_exec.simps)
qed

theorem approval_decided_once_witness:
  "db_wf sample_decided \<and> approvals_get 1 sample_decided = Some sample_approval \<and>
   ap_state sample_approval \<noteq> Pending \<and>
   approvals_get 1 (db_exec (ApprovalDecide 1 Allowed (lit ''mcp'') 9) sample_decided) = Some sample_approval \<and>
   \<not> fst (decide_approval 1 Allowed (lit ''mcp'') 9 sample_decided)"
proof -
  have "ap_state sample_approval \<noteq> Pending" by (simp add: sample_approval_def)
  with approval_decided_once [OF sample_decided_wf sample_decided_get this] sample_decided_wf sample_decided_get
  show ?thesis by blast
qed

subsection \<open>Moving a message keeps its old uid\<close>

lemma distinct_singleton: "distinct xs \<Longrightarrow> x \<in> set xs \<Longrightarrow> set xs \<subseteq> {x} \<Longrightarrow> xs = [x]"
  by (cases xs) (auto simp: subset_singleton_iff)

text \<open>
  A message moved to another folder keeps the uid of the folder it came from, so the
  destination folder claims to hold that uid already: the lookup that sync uses to skip known
  messages reports it, whatever the server stores under that uid there.
\<close>

theorem moved_message_claims_uid:
  assumes "db_wf st" and "messages_get i st = Some m" and "messages_set_folder i f st = Ok (True, st')"
  shows "existing_uids f [msg_uid m] st' = [msg_uid m]"
proof -
  have st': "st' = st\<lparr>messages := update_rows (\<lambda>m. msg_id m = i) (\<lambda>m. m\<lparr>msg_folder_id := f\<rparr>) (messages st)\<rparr>"
    using assms(2,3) by (auto simp: messages_set_folder_def split: if_splits)
  have m: "m \<in> set (messages st)" "msg_id m = i"
    using assms(2) get_row_Some [of msg_id i "messages st" m] by (auto simp: messages_get_def)
  let ?m = "m\<lparr>msg_folder_id := f\<rparr>"
  have in': "?m \<in> set (messages st')" using m by (force simp: st' update_rows_def)
  have "distinct (map message_key (messages st'))"
    using messages_set_folder_wf [OF assms(1,3)] by (simp add: schema_defs)
  then have "distinct (existing_uids f [msg_uid m] st')"
    unfolding existing_uids_def
    by (auto simp: distinct_map inj_on_def message_key_def intro!: distinct_filter)
  moreover have "msg_uid m \<in> set (existing_uids f [msg_uid m] st')"
    using in' by (auto simp: existing_uids_def intro!: image_eqI [of _ _ ?m])
  moreover have "set (existing_uids f [msg_uid m] st') \<subseteq> {msg_uid m}"
    by (auto simp: existing_uids_def)
  ultimately show ?thesis by (rule distinct_singleton)
qed

definition sample_message :: Message where
  "sample_message = message_row \<lparr>nm_account_id = 1, nm_folder_id = 2, nm_thread_id = None, nm_uid = 7,
     nm_message_id_header = None, nm_in_reply_to = None, nm_references_header = None, nm_from_addr = [],
     nm_to_addrs = [], nm_cc_addrs = [], nm_bcc_addrs = [], nm_reply_to = None, nm_subject = None,
     nm_snippet = None, nm_text_body = None, nm_html_body = None, nm_raw_size = 1, nm_flags = [],
     nm_internal_date = 0, nm_sent_at = None\<rparr> 4 0"

definition sample_moved :: store where
  "sample_moved = empty_store\<lparr>accounts := [account_row \<lparr>na_email = [], na_display_name = None, na_auth_kind = Password,
       na_imap_host = [], na_imap_port = 993, na_imap_use_tls = True, na_smtp_host = [], na_smtp_port = 465,
       na_smtp_use_tls = True, na_smtp_starttls = False\<rparr> 1 0],
     folders := [folder_row \<lparr>nf_account_id = 1, nf_name = lit ''INBOX'', nf_delimiter = lit ''/'', nf_role = RoleInbox,
                   nf_selectable = True\<rparr> 2 0,
                 folder_row \<lparr>nf_account_id = 1, nf_name = lit ''Archive'', nf_delimiter = lit ''/'', nf_role = RoleArchive,
                   nf_selectable = True\<rparr> 3 0],
     messages := [sample_message]\<rparr>"

lemma sample_moved_facts:
  "db_wf sample_moved" "messages_get 4 sample_moved = Some sample_message"
  "messages_set_folder 4 3 sample_moved =
     Ok (True, sample_moved\<lparr>messages := [sample_message\<lparr>msg_folder_id := 3\<rparr>]\<rparr>)"
  "msg_uid sample_message = 7"
  by (simp_all add: sample_moved_def sample_message_def message_row_def folder_row_def account_row_def empty_store_def
        schema_defs refers_def refers_opt_def folder_key_def List.map_filter_simps messages_get_def get_row_def
        messages_set_folder_def delete_rows_def update_rows_def)

theorem moved_message_claims_uid_witness:
  "db_wf sample_moved \<and> messages_get 4 sample_moved = Some sample_message \<and>
   messages_set_folder 4 3 sample_moved =
     Ok (True, sample_moved\<lparr>messages := [sample_message\<lparr>msg_folder_id := 3\<rparr>]\<rparr>) \<and>
   existing_uids 3 [7] (sample_moved\<lparr>messages := [sample_message\<lparr>msg_folder_id := 3\<rparr>]\<rparr>) = [7]"
  using moved_message_claims_uid [OF sample_moved_facts(1-3)] sample_moved_facts by simp

end
