(* ===== verification/Attachments.thy ===== *)
theory Attachments
  imports Store MailParser
begin

text \<open>
  Attachment storage, \<^verbatim>\<open>src/attachments.rs\<close>: file names made safe, the storage path, and
  persisting the attachments of a message.  The file system is a parameter acting on a state of
  its own (\<open>write_new_file\<close>), the storage root a path text.
\<close>

definition PREVIEW_LIMIT_BYTES :: nat where
  "PREVIEW_LIMIT_BYTES = 16 * 1024"

definition MAX_ATTACHMENT_BYTES :: nat where
  "MAX_ATTACHMENT_BYTES = 25 * 1024 * 1024"

datatype AttachmentError =
    TooLarge rstr nat
  | BadPath rstr
  | AttachmentDb DbError
  | AttachmentIo rstr

subsection \<open>File names\<close>

text \<open>
  \<^verbatim>\<open>Path::file_name\<close> on Unix: the last component unless it is \<^verbatim>\<open>..\<close>; empty and \<^verbatim>\<open>.\<close>
  components do not count.
\<close>

definition path_components :: "rstr \<Rightarrow> rstr list" where
  "path_components p = filter (\<lambda>c. c \<noteq> [] \<and> c \<noteq> lit ''.'') (split_char 47 p)"

definition file_name :: "rstr \<Rightarrow> rstr option" where
  "file_name p =
     (let cs = path_components p in
      if cs = [] \<or> last cs = lit ''..'' then None else Some (last cs))"

definition is_ascii_alphanumeric :: "rchar \<Rightarrow> bool" where
  "is_ascii_alphanumeric c \<longleftrightarrow> (48 \<le> c \<and> c \<le> 57) \<or> (65 \<le> c \<and> c \<le> 90) \<or> (97 \<le> c \<and> c \<le> 122)"

definition safe_char :: "rchar \<Rightarrow> bool" where
  "safe_char c \<longleftrightarrow> is_ascii_alphanumeric c \<or> c = 46 \<or> c = 45 \<or> c = 95 \<or> c = 32"

definition trim_matches :: "(rchar \<Rightarrow> bool) \<Rightarrow> rstr \<Rightarrow> rstr" where
  "trim_matches P s = rev (dropWhile P (rev (dropWhile P s)))"

definition sanitize_filename :: "rstr \<Rightarrow> rstr" where
  "sanitize_filename filename =
     (let leaf = unwrap_or filename (file_name filename);
          out = map (\<lambda>c. if safe_char c then c else 95) (take 120 leaf);
          out = trim (trim_matches (\<lambda>c. c = 46 \<or> c = 32) out) in
      if out = [] then lit ''attachment.bin'' else out)"

text \<open>\<^verbatim>\<open>{:03}\<close>.\<close>

definition pad3 :: "nat \<Rightarrow> rstr" where
  "pad3 n = (let s = show_nat n in replicate (3 - length s) 48 @ s)"

text \<open>\<^verbatim>\<open>Path::join\<close>; an absolute right-hand side replaces the path.\<close>

definition path_join :: "rstr \<Rightarrow> rstr \<Rightarrow> rstr" where
  "path_join p q =
     (if starts_with q [47] then q
      else if p = [] \<or> last p = 47 then p @ q
      else p @ [47] @ q)"

definition stored_attachment_path :: "rstr \<Rightarrow> (uuid \<Rightarrow> rstr) \<Rightarrow> uuid \<Rightarrow> nat \<Rightarrow> rstr \<Rightarrow> rstr" where
  "stored_attachment_path dir show_uuid message_id index filename =
     path_join (path_join dir (show_uuid message_id))
       (pad3 (index + 1) @ [95] @ sanitize_filename filename)"

subsection \<open>Previews\<close>

definition is_text_like :: "rstr \<Rightarrow> bool" where
  "is_text_like content_type =
     (let media_type = to_ascii_lowercase (trim (hd (split_char 59 content_type))) in
      starts_with media_type (lit ''text/'') \<or>
      media_type \<in> set [lit ''application/json'', lit ''application/xml'', lit ''application/csv'',
                        lit ''application/x-ndjson'', lit ''image/svg+xml''] \<or>
      ends_with media_type (lit ''+json'') \<or> ends_with media_type (lit ''+xml''))"

record AttachmentPreview =
  ape_attachment :: Attachment
  ape_inline_text :: "rstr option"
  ape_message :: rstr
  ape_truncated :: bool
  ape_preview_bytes :: nat

record AttachmentExport =
  aex_attachment_id :: uuid
  aex_destination_path :: rstr
  aex_bytes_copied :: nat

text \<open>
  What the code uses of the operating system, on a world \<open>'w\<close>: \<open>open_read\<close> opens a file and gives
  its bytes, \<open>create_new\<close> is \<^verbatim>\<open>OpenOptions::create_new(true).open\<close>, \<open>write_all\<close> writes and
  flushes.  \<open>attachment_root\<close> is the lookup of the storage directory (environment variable,
  database location, platform directory); \<open>utf8\<close> is \<^verbatim>\<open>str::from_utf8\<close>, whose error is
  \<^verbatim>\<open>valid_up_to\<close>; \<open>draw_row\<close> is the random uuid and the timestamp an \<^verbatim>\<open>INSERT\<close> takes.
\<close>

record 'w attachment_env =
  attachment_root :: "'w \<Rightarrow> (AttachmentError, rstr) result"
  uuid_text :: "uuid \<Rightarrow> rstr"
  path_parent :: "rstr \<Rightarrow> rstr option"
  create_dir_all :: "rstr \<Rightarrow> 'w \<Rightarrow> (rstr, unit) result \<times> 'w"
  create_new :: "rstr \<Rightarrow> 'w \<Rightarrow> (rstr, unit) result \<times> 'w"
  write_all :: "rstr \<Rightarrow> byte list \<Rightarrow> 'w \<Rightarrow> (rstr, unit) result \<times> 'w"
  open_read :: "rstr \<Rightarrow> 'w \<Rightarrow> (rstr, byte list) result"
  utf8 :: "byte list \<Rightarrow> (nat, rstr) result"
  draw_row :: "'w \<Rightarrow> (uuid \<times> instant) \<times> 'w"

definition no_preview :: "Attachment \<Rightarrow> rstr \<Rightarrow> AttachmentPreview" where
  "no_preview a msg =
     \<lparr>ape_attachment = a, ape_inline_text = None, ape_message = msg,
      ape_truncated = False, ape_preview_bytes = 0\<rparr>"

definition preview_text :: "'w attachment_env \<Rightarrow> bool \<Rightarrow> byte list \<Rightarrow> rstr option" where
  "preview_text env truncated buf =
     (case utf8 env buf of
        Ok t \<Rightarrow> Some t
      | Err valid_up_to \<Rightarrow>
          if truncated \<and> valid_up_to > 0
          then (case utf8 env (take valid_up_to buf) of Ok t \<Rightarrow> Some t | Err _ \<Rightarrow> None)
          else None)"

definition preview_attachment ::
  "'w attachment_env \<Rightarrow> Attachment \<Rightarrow> 'w \<Rightarrow> (rstr, AttachmentPreview) result" where
  "preview_attachment env a w =
     (if \<not> is_text_like (att_content_type a)
      then Ok (no_preview a (lit ''No inline preview for '' @ att_content_type a @ lit '' attachment (''
                             @ show_int (att_size_bytes a) @ lit '' bytes)''))
      else and_then (open_read env (att_storage_path a) w) (\<lambda>bytes.
        (let got = take (PREVIEW_LIMIT_BYTES + 1) bytes;
             truncated = length got > PREVIEW_LIMIT_BYTES;
             buf = take PREVIEW_LIMIT_BYTES got in
         case preview_text env truncated buf of
           Some t \<Rightarrow>
             Ok \<lparr>ape_attachment = a, ape_inline_text = Some t,
                 ape_message =
                   (if truncated
                    then lit ''Inline UTF-8 preview (first '' @ show_nat PREVIEW_LIMIT_BYTES @ lit '' bytes)''
                    else lit ''Inline UTF-8 preview''),
                 ape_truncated = truncated, ape_preview_bytes = str_len t\<rparr>
         | None \<Rightarrow>
             Ok (no_preview a (lit ''No inline preview: '' @ att_content_type a
                               @ lit '' attachment is not valid UTF-8'')))))"

definition export_attachment ::
  "'w attachment_env \<Rightarrow> Attachment \<Rightarrow> rstr \<Rightarrow> 'w \<Rightarrow> (rstr, AttachmentExport) result \<times> 'w" where
  "export_attachment env a destination_path w =
     (case open_read env (att_storage_path a) w of
        Err e \<Rightarrow> (Err e, w)
      | Ok bytes \<Rightarrow>
          (case create_new env destination_path w of
             (Err e, w') \<Rightarrow> (Err e, w')
           | (Ok _, w') \<Rightarrow>
               (case write_all env destination_path bytes w' of
                  (Err e, w'') \<Rightarrow> (Err e, w'')
                | (Ok _, w'') \<Rightarrow>
                    (Ok \<lparr>aex_attachment_id = att_id a, aex_destination_path = destination_path,
                         aex_bytes_copied = length bytes\<rparr>, w''))))"

subsection \<open>Persisting\<close>

definition write_new_file ::
  "'w attachment_env \<Rightarrow> rstr \<Rightarrow> byte list \<Rightarrow> 'w \<Rightarrow> (AttachmentError, unit) result \<times> 'w" where
  "write_new_file env path bytes w =
     (case path_parent env path of
        None \<Rightarrow> (Err (BadPath path), w)
      | Some parent \<Rightarrow>
          (case create_dir_all env parent w of
             (Err e, w1) \<Rightarrow> (Err (AttachmentIo e), w1)
           | (Ok _, w1) \<Rightarrow>
               (case create_new env path w1 of
                  (Err e, w2) \<Rightarrow> (Err (AttachmentIo e), w2)
                | (Ok _, w2) \<Rightarrow>
                    (case write_all env path bytes w2 of
                       (Err e, w3) \<Rightarrow> (Err (AttachmentIo e), w3)
                     | (Ok _, w3) \<Rightarrow> (Ok (), w3)))))"

fun attachment_disposition :: "Disposition \<Rightarrow> AttachmentDisposition" where
  "attachment_disposition Inline = DispInline"
| "attachment_disposition MailParser.Attachment = DispAttachment"

definition new_attachment :: "uuid \<Rightarrow> ParsedAttachment \<Rightarrow> rstr \<Rightarrow> NewAttachment" where
  "new_attachment message_id a path =
     \<lparr>nat_message_id = message_id, nat_filename = sanitize_filename (pa_filename a),
      nat_content_type = pa_content_type a, nat_content_id = pa_content_id a,
      nat_size_bytes = int (length (pa_data a)),
      nat_disposition = attachment_disposition (pa_disposition a),
      nat_storage_path = path\<rparr>"

text \<open>
  The loop of \<^verbatim>\<open>persist_parsed_for_message\<close>: \<open>k\<close> is the position of the first attachment,
  \<open>stored\<close> the rows so far.  Rows and files of the attachments before a failing one stay.
\<close>

fun persist_from ::
  "'w attachment_env \<Rightarrow> rstr \<Rightarrow> uuid \<Rightarrow> nat \<Rightarrow> ParsedAttachment list \<Rightarrow> Attachment list \<Rightarrow> store \<Rightarrow> 'w
   \<Rightarrow> (AttachmentError, Attachment list) result \<times> store \<times> 'w" where
  "persist_from env dir message_id k [] stored st w = (Ok stored, st, w)"
| "persist_from env dir message_id k (a # as) stored st w =
     (if length (pa_data a) > MAX_ATTACHMENT_BYTES
      then (Err (TooLarge (pa_filename a) MAX_ATTACHMENT_BYTES), st, w)
      else
        (let path = stored_attachment_path dir (uuid_text env) message_id k (pa_filename a) in
         case write_new_file env path (pa_data a) w of
           (Err e, w1) \<Rightarrow> (Err e, st, w1)
         | (Ok _, w1) \<Rightarrow>
             (case draw_row env w1 of ((i, now), w2) \<Rightarrow>
                (case attachments_create (new_attachment message_id a path) i now st of
                   Err e \<Rightarrow> (Err (AttachmentDb e), st, w2)
                 | Ok (row, st') \<Rightarrow> persist_from env dir message_id (k + 1) as (stored @ [row]) st' w2))))"

definition persist_parsed_for_message ::
  "'w attachment_env \<Rightarrow> uuid \<Rightarrow> ParsedAttachment list \<Rightarrow> store \<Rightarrow> 'w
   \<Rightarrow> (AttachmentError, Attachment list) result \<times> store \<times> 'w" where
  "persist_parsed_for_message env message_id as st w =
     (if as = [] then (Ok [], st, w)
      else case attachment_root env w of
             Err e \<Rightarrow> (Err e, st, w)
           | Ok dir \<Rightarrow> persist_from env dir message_id 0 as [] st w)"

subsection \<open>A stored file never leaves its directory\<close>

lemma set_trim_matches: "set (trim_matches P s) \<subseteq> set s"
  unfolding trim_matches_def by (auto dest!: set_dropWhileD)

lemma trim_matches_hd: "trim_matches P s \<noteq> [] \<Longrightarrow> \<not> P (hd (trim_matches P s))"
proof -
  let ?t = "dropWhile P s"
  assume ne: "trim_matches P s \<noteq> []"
  have pre: "prefix (trim_matches P s) ?t"
    unfolding trim_matches_def by (metis append_Nil2 dropWhile_append1 prefixI rev_append rev_rev_ident takeWhile_dropWhile_id)
  with ne have "hd (trim_matches P s) = hd ?t" by (metis hd_append2 prefixE)
  moreover have "?t \<noteq> []" using ne pre by (metis prefix_bot.extremum_uniqueI)
  ultimately show "\<not> P (hd (trim_matches P s))" by (metis hd_dropWhile)
qed

lemma trim_matches_last: "trim_matches P s \<noteq> [] \<Longrightarrow> \<not> P (last (trim_matches P s))"
  unfolding trim_matches_def by (metis hd_dropWhile hd_rev rev.simps(1) rev_rev_ident)

lemma safe_char_trim:
  assumes "list_all safe_char s" and "s \<noteq> []" and "hd s \<noteq> 32" and "last s \<noteq> 32"
  shows "trim s = s"
proof -
  have "safe_char c \<Longrightarrow> is_whitespace c \<Longrightarrow> c = 32" for c
    by (auto simp: safe_char_def is_ascii_alphanumeric_def is_whitespace_def)
  then have "\<not> is_whitespace (hd s) \<and> \<not> is_whitespace (last s)"
    using assms by (metis hd_in_set last_in_set list_all_iff)
  then show ?thesis by (intro trim_id) simp
qed

lemma sanitize_filename_shape:
  "sanitize_filename name \<noteq> [] \<and> length (sanitize_filename name) \<le> 120 \<and>
   list_all safe_char (sanitize_filename name) \<and>
   hd (sanitize_filename name) \<notin> {46, 32} \<and> last (sanitize_filename name) \<notin> {46, 32}"
proof -
  define leaf where "leaf = unwrap_or name (file_name name)"
  define out where "out = map (\<lambda>c. if safe_char c then c else 95) (take 120 leaf)"
  define cut where "cut = trim_matches (\<lambda>c. c = 46 \<or> c = 32) out"
  have "list_all safe_char out" by (auto simp: out_def list_all_iff safe_char_def)
  then have safe: "list_all safe_char cut"
    using set_trim_matches unfolding cut_def list_all_iff by blast
  have len: "length cut \<le> 120"
    unfolding cut_def trim_matches_def out_def
    by (metis (no_types, lifting) length_dropWhile_le length_map length_rev length_take min.cobounded2 min.commute order_trans)
  show ?thesis
  proof (cases "cut = []")
    case True
    then have "sanitize_filename name = lit ''attachment.bin''"
      by (simp add: sanitize_filename_def Let_def flip: leaf_def out_def cut_def)
    then show ?thesis by (simp add: safe_char_def is_ascii_alphanumeric_def lit_def)
  next
    case False
    then have hd: "hd cut \<notin> {46, 32}" and last: "last cut \<notin> {46, 32}"
      using trim_matches_hd [of "\<lambda>c. c = 46 \<or> c = 32" out] trim_matches_last [of "\<lambda>c. c = 46 \<or> c = 32" out]
      unfolding cut_def by auto
    then have "trim cut = cut" using safe False by (intro safe_char_trim) auto
    then have "sanitize_filename name = cut"
      using False by (simp add: sanitize_filename_def Let_def flip: leaf_def out_def cut_def)
    then show ?thesis using safe len hd last False by simp
  qed
qed

lemma file_name_join:
  assumes "47 \<notin> set leaf" and "leaf \<noteq> []" and "leaf \<noteq> lit ''.''" and "leaf \<noteq> lit ''..''"
  shows "file_name (path_join p leaf) = Some leaf"
proof -
  have plain: "path_components (q @ 47 # leaf) = path_components q @ [leaf]"
    and alone: "path_components leaf = [leaf]" for q
    using assms by (simp_all add: path_components_def split_char_append split_char_plain)
  have rel: "\<not> starts_with leaf [47]"
    using assms by (cases leaf) (auto simp: starts_with_def)
  consider "p = []" | q where "p = q @ [47]" | "p \<noteq> []" "last p \<noteq> 47"
    by (metis append_butlast_last_id)
  then show ?thesis
    by cases (use rel plain alone assms in \<open>auto simp: file_name_def path_join_def Let_def\<close>)
qed

text \<open>
  C17: whatever name a message gives an attachment, the name it is stored under is non-empty, at
  most 120 characters long, made of ASCII letters, digits, dots, dashes, underscores and spaces
  only, and neither starts nor ends with a dot or a space; and the file is stored directly in the
  message's own directory: its path is that directory joined with one single path component,
  which is what \<^verbatim>\<open>Path::file_name\<close> gives back.
\<close>

theorem stored_attachment_stays_in_directory:
  "sanitize_filename name \<noteq> [] \<and> length (sanitize_filename name) \<le> 120 \<and>
   list_all safe_char (sanitize_filename name) \<and>
   hd (sanitize_filename name) \<notin> {46, 32} \<and> last (sanitize_filename name) \<notin> {46, 32} \<and>
   (\<exists>leaf. stored_attachment_path dir show_uuid message_id index name
             = path_join (path_join dir (show_uuid message_id)) leaf \<and>
           47 \<notin> set leaf \<and>
           file_name (stored_attachment_path dir show_uuid message_id index name) = Some leaf)"
proof -
  let ?leaf = "pad3 (index + 1) @ [95] @ sanitize_filename name"
  have shape: "sanitize_filename name \<noteq> []" "list_all safe_char (sanitize_filename name)"
    using sanitize_filename_shape [of name] by auto
  have digits: "47 \<notin> set (pad3 (index + 1))"
    using show_nat_digits [of "index + 1"] by (auto simp: pad3_def Let_def list_all_iff)
  have "47 \<notin> set (sanitize_filename name)"
    using shape(2) by (auto simp: list_all_iff safe_char_def is_ascii_alphanumeric_def)
  with digits have sep: "47 \<notin> set ?leaf" by simp
  have "95 \<in> set ?leaf" and "95 \<notin> set (lit ''.'')" and "95 \<notin> set (lit ''..'')"
    by (simp_all add: lit_def)
  then have "?leaf \<noteq> lit ''.''" and "?leaf \<noteq> lit ''..''" by metis+
  then have "file_name (path_join (path_join dir (show_uuid message_id)) ?leaf) = Some ?leaf"
    using sep by (intro file_name_join) auto
  then show ?thesis
    using sanitize_filename_shape [of name] sep unfolding stored_attachment_path_def by blast
qed

end
