(* ===== verification/ImapFetch.thy ===== *)
theory ImapFetch
  imports Threading
begin

text \<open>
  The IMAP client, \<^verbatim>\<open>src/imap/client.rs\<close>, \<^verbatim>\<open>src/imap/mod.rs\<close>, \<^verbatim>\<open>src/imap/error.rs\<close>, and the
  credentials of \<^verbatim>\<open>src/auth.rs\<close>.  The \<^verbatim>\<open>async-imap\<close> session is a parameter: a record of what its
  commands return, where \<open>None\<close> is a phase that did not end before the deadline.  UIDs are the
  \<^verbatim>\<open>u32\<close> values of the protocol, as 32-bit words with the saturating arithmetic written out.
\<close>

type_synonym u32 = "32 word"

subsection \<open>Credentials\<close>

datatype CredentialKind = PasswordKind | OAuth2BearerKind

datatype MailCredential = CredPassword rstr | CredOAuth2Bearer rstr

fun credential_kind :: "MailCredential \<Rightarrow> CredentialKind" where
  "credential_kind (CredPassword _) = PasswordKind"
| "credential_kind (CredOAuth2Bearer _) = OAuth2BearerKind"

fun credential_secret :: "MailCredential \<Rightarrow> rstr" where
  "credential_secret (CredPassword s) = s"
| "credential_secret (CredOAuth2Bearer s) = s"

definition credential_is_empty :: "MailCredential \<Rightarrow> bool" where
  "credential_is_empty c \<longleftrightarrow> credential_secret c = []"

definition xoauth2_sasl_string :: "rstr \<Rightarrow> rstr \<Rightarrow> rstr" where
  "xoauth2_sasl_string username access_token =
     lit ''user='' @ username @ [1] @ lit ''auth=Bearer '' @ access_token @ [1, 1]"

subsection \<open>Errors\<close>

datatype ImapError =
    ImapIo rstr
  | ImapTls rstr
  | ImapProtocol rstr
  | ImapAuth rstr
  | ImapUnsupported rstr
  | ImapInvalidName rstr
  | ImapInvalidPort int
  | ImapTimeout rstr

text \<open>\<^verbatim>\<open>str::contains\<close>, and the conversion from the message of an \<^verbatim>\<open>async-imap\<close> error.\<close>

fun contains_str :: "rstr \<Rightarrow> rstr \<Rightarrow> bool" where
  "contains_str [] p \<longleftrightarrow> p = []"
| "contains_str (c # s) p \<longleftrightarrow> starts_with (c # s) p \<or> contains_str s p"

definition imap_error_from :: "unicode \<Rightarrow> rstr \<Rightarrow> ImapError" where
  "imap_error_from uc msg =
     (if contains_str (to_lowercase uc msg) (lit ''authenticat'') then ImapAuth msg else ImapProtocol msg)"

definition timed :: "rstr \<Rightarrow> ('e \<Rightarrow> ImapError) \<Rightarrow> ('e, 'a) result option \<Rightarrow> (ImapError, 'a) result" where
  "timed phase into fut = (case fut of Some r \<Rightarrow> map_err into r | None \<Rightarrow> Err (ImapTimeout phase))"

definition port_u16 :: "int \<Rightarrow> (ImapError, nat) result" where
  "port_u16 raw = (if 0 \<le> raw \<and> raw < 2 ^ 16 then Ok (nat raw) else Err (ImapInvalidPort raw))"

subsection \<open>Sessions\<close>

datatype ImapFlag =
    FlagSeen | FlagAnswered | FlagFlagged | FlagDeleted | FlagDraft | FlagRecent | FlagMayCreate
  | FlagCustom rstr

fun flag_name :: "ImapFlag \<Rightarrow> rstr" where
  "flag_name FlagSeen = 92 # lit ''Seen''"
| "flag_name FlagAnswered = 92 # lit ''Answered''"
| "flag_name FlagFlagged = 92 # lit ''Flagged''"
| "flag_name FlagDeleted = 92 # lit ''Deleted''"
| "flag_name FlagDraft = 92 # lit ''Draft''"
| "flag_name FlagRecent = 92 # lit ''Recent''"
| "flag_name FlagMayCreate = 92 # lit ''*''"
| "flag_name (FlagCustom c) = c"

record imap_mailbox =
  mb_uid_validity :: "u32 option"
  mb_uid_next :: "u32 option"
  mb_exists :: u32

record imap_fetch =
  fe_uid :: "u32 option"
  fe_body :: "byte list option"
  fe_flags :: "ImapFlag list"
  fe_internal_date :: "instant option"

record imap_name =
  in_name :: rstr
  in_delimiter :: "rstr option"
  in_no_select :: bool

datatype IdleResponse = IdleNewData | IdleTimedOut | IdleManualInterrupt

text \<open>
  \<open>ss_fetch\<close> returns the stream of a \<^verbatim>\<open>UID FETCH\<close>: its inner option is the deadline on the
  collection of the items, each item a fetch or a stream error.  \<open>ss_idle_wait\<close> takes whether the
  wait was cancelled.
\<close>

record imap_session =
  ss_select :: "rstr \<Rightarrow> (rstr, imap_mailbox) result option"
  ss_fetch :: "rstr \<Rightarrow> (rstr, (rstr, imap_fetch) result list option) result option"
  ss_list :: "(rstr, (rstr, imap_name) result list) result"
  ss_capabilities :: "(rstr, rstr list) result option"
  ss_idle_init :: "(rstr, unit) result option"
  ss_idle_wait :: "bool \<Rightarrow> (rstr, IdleResponse) result"
  ss_idle_done :: "(rstr, unit) result"

record 'c imap_net =
  net_connect :: "rstr \<Rightarrow> nat \<Rightarrow> (ImapError, 'c) result option"
  net_greeting :: "'c \<Rightarrow> (rstr, unit option) result option"
  net_login :: "'c \<Rightarrow> rstr \<Rightarrow> rstr \<Rightarrow> (rstr, imap_session) result option"
  net_authenticate :: "'c \<Rightarrow> rstr \<Rightarrow> rstr \<Rightarrow> (rstr, imap_session) result option"

definition connect_with_credential ::
  "unicode \<Rightarrow> 'c imap_net \<Rightarrow> rstr \<Rightarrow> nat \<Rightarrow> rstr \<Rightarrow> MailCredential \<Rightarrow> (ImapError, imap_session) result" where
  "connect_with_credential uc net host port username credential =
     and_then (timed (lit ''connect'') (\<lambda>e. e) (net_connect net host port)) (\<lambda>stream.
     and_then (timed (lit ''greeting'') ImapIo (net_greeting net stream)) (\<lambda>greeting.
     and_then (ok_or (ImapProtocol (lit ''server closed connection before greeting'')) greeting) (\<lambda>_.
     (case credential_kind credential of
        PasswordKind \<Rightarrow>
          timed (lit ''login'') (imap_error_from uc) (net_login net stream username (credential_secret credential))
      | OAuth2BearerKind \<Rightarrow>
          timed (lit ''authenticate'') (imap_error_from uc)
            (net_authenticate net stream (lit ''XOAUTH2'')
               (xoauth2_sasl_string username (credential_secret credential)))))))"

record FolderInfo =
  fi_name :: rstr
  fi_delimiter :: rstr
  fi_selectable :: bool

text \<open>\<^verbatim>\<open>filter_map(|r| r.ok())\<close>: stream errors are dropped.\<close>

definition keep_ok :: "('e, 'a) result list \<Rightarrow> 'a list" where
  "keep_ok rs = List.map_filter (\<lambda>r. case r of Ok x \<Rightarrow> Some x | Err _ \<Rightarrow> None) rs"

definition list_folders :: "unicode \<Rightarrow> imap_session \<Rightarrow> (ImapError, FolderInfo list) result" where
  "list_folders uc s =
     and_then (map_err (imap_error_from uc) (ss_list s)) (\<lambda>names.
       Ok (map (\<lambda>n. \<lparr>fi_name = in_name n, fi_delimiter = unwrap_or (lit ''/'') (in_delimiter n),
                     fi_selectable = (\<not> in_no_select n)\<rparr>) (keep_ok names)))"

subsection \<open>Fetching a window\<close>

record FetchedMessage =
  fm_uid :: u32
  fm_flags :: "rstr list"
  fm_internal_date :: "instant option"
  fm_raw :: "byte list"

record FolderSync =
  fs_uid_validity :: "u32 option"
  fs_uid_next :: "u32 option"
  fs_exists :: u32
  fs_messages :: "FetchedMessage list"
  fs_window_hi :: u32
  fs_has_more :: bool

definition FETCH_WINDOW :: u32 where
  "FETCH_WINDOW = 500"

definition saturating_add_u32 :: "u32 \<Rightarrow> u32 \<Rightarrow> u32" where
  "saturating_add_u32 a b = (if a + b < a then - 1 else a + b)"

definition saturating_sub_u32 :: "u32 \<Rightarrow> u32 \<Rightarrow> u32" where
  "saturating_sub_u32 a b = (if a < b then 0 else a - b)"

text \<open>\<^verbatim>\<open>format!("{lo}:{hi}")\<close>.\<close>

definition uid_range :: "u32 \<Rightarrow> u32 \<Rightarrow> rstr" where
  "uid_range lo hi = show_nat (unat lo) @ [58] @ show_nat (unat hi)"

definition fetched_message :: "imap_fetch \<Rightarrow> FetchedMessage option" where
  "fetched_message f =
     Option.bind (fe_uid f) (\<lambda>uid.
     Option.bind (fe_body f) (\<lambda>raw.
       Some \<lparr>fm_uid = uid, fm_flags = map flag_name (fe_flags f),
             fm_internal_date = fe_internal_date f, fm_raw = raw\<rparr>))"

text \<open>The bounds of the batch: its range, the highest UID it covers, and whether more follow.\<close>

definition fetch_window :: "u32 \<Rightarrow> u32 option \<Rightarrow> rstr \<times> u32 \<times> bool" where
  "fetch_window lo server_hi =
     (let window_top = saturating_add_u32 lo (FETCH_WINDOW - 1) in
      case server_hi of
        Some hi \<Rightarrow> if window_top < hi then (uid_range lo window_top, window_top, True)
                  else (uid_range lo hi, hi, False)
      | None \<Rightarrow> (uid_range lo window_top, window_top, False))"

definition fetch_uid_range ::
  "unicode \<Rightarrow> imap_session \<Rightarrow> rstr \<Rightarrow> u32 \<Rightarrow> (ImapError, FolderSync) result" where
  "fetch_uid_range uc s folder from_uid =
     and_then (timed (lit ''select'') (imap_error_from uc) (ss_select s folder)) (\<lambda>mailbox.
     let lo = max from_uid 1;
         server_hi = map_option (\<lambda>n. saturating_sub_u32 n 1) (mb_uid_next mailbox);
         reply = (\<lambda>ms window_hi more.
           \<lparr>fs_uid_validity = mb_uid_validity mailbox, fs_uid_next = mb_uid_next mailbox,
            fs_exists = mb_exists mailbox, fs_messages = ms, fs_window_hi = window_hi, fs_has_more = more\<rparr>) in
     if mb_exists mailbox = 0 \<or> (case server_hi of None \<Rightarrow> False | Some hi \<Rightarrow> lo > hi)
     then Ok (reply [] (unwrap_or (saturating_sub_u32 lo 1) server_hi) False)
     else
       (case fetch_window lo server_hi of (uids, window_hi, has_more) \<Rightarrow>
          and_then (timed (lit ''uid_fetch'') (imap_error_from uc) (ss_fetch s uids)) (\<lambda>stream.
          and_then (ok_or (ImapTimeout (lit ''uid_fetch body'')) stream) (\<lambda>items.
            Ok (reply (List.map_filter fetched_message (keep_ok items)) window_hi has_more)))))"

definition sync_folder ::
  "unicode \<Rightarrow> 'c imap_net \<Rightarrow> rstr \<Rightarrow> nat \<Rightarrow> rstr \<Rightarrow> MailCredential \<Rightarrow> rstr \<Rightarrow> u32
   \<Rightarrow> (ImapError, FolderSync) result" where
  "sync_folder uc net host port username credential folder from_uid =
     and_then (connect_with_credential uc net host port username credential) (\<lambda>session.
       fetch_uid_range uc session folder from_uid)"

definition test_login ::
  "unicode \<Rightarrow> 'c imap_net \<Rightarrow> rstr \<Rightarrow> nat \<Rightarrow> rstr \<Rightarrow> MailCredential \<Rightarrow> (ImapError, FolderInfo list) result" where
  "test_login uc net host port username credential =
     and_then (connect_with_credential uc net host port username credential) (list_folders uc)"

subsection \<open>Waiting for changes\<close>

datatype IdleOutcome = IdleOutNewData | IdleOutTimeout | IdleOutInterrupted

fun idle_outcome :: "IdleResponse \<Rightarrow> IdleOutcome" where
  "idle_outcome IdleNewData = IdleOutNewData"
| "idle_outcome IdleTimedOut = IdleOutTimeout"
| "idle_outcome IdleManualInterrupt = IdleOutInterrupted"

text \<open>The error of \<^verbatim>\<open>DONE\<close> comes before the error of the wait.\<close>

definition wait_for_idle_change ::
  "unicode \<Rightarrow> 'c imap_net \<Rightarrow> rstr \<Rightarrow> nat \<Rightarrow> rstr \<Rightarrow> MailCredential \<Rightarrow> rstr \<Rightarrow> bool
   \<Rightarrow> (ImapError, IdleOutcome) result" where
  "wait_for_idle_change uc net host port username credential folder cancelled =
     and_then (connect_with_credential uc net host port username credential) (\<lambda>session.
     and_then (timed (lit ''capabilities'') (imap_error_from uc) (ss_capabilities session)) (\<lambda>capabilities.
     if \<not> list_ex (\<lambda>name. eq_ignore_ascii_case name (lit ''IDLE'')) capabilities
     then Err (ImapUnsupported (lit ''server does not advertise IDLE''))
     else
       and_then (timed (lit ''idle select'') (imap_error_from uc) (ss_select session folder)) (\<lambda>_.
       and_then (timed (lit ''idle init'') (imap_error_from uc) (ss_idle_init session)) (\<lambda>_.
       let response = map_err (imap_error_from uc) (ss_idle_wait session cancelled) in
       and_then (map_err (imap_error_from uc) (ss_idle_done session)) (\<lambda>_.
       and_then response (\<lambda>r. Ok (idle_outcome r)))))))"

subsection \<open>Saturating arithmetic\<close>

lemma unat_u32_le: "unat (w :: u32) \<le> 4294967295"
  using unsigned_less [where 'a = nat, of w] by simp

lemma unat_u32_top: "unat (- 1 :: u32) = 4294967295"
  by (simp add: unsigned_minus_1_eq_mask mask_eq_exp_minus_1)

lemma unat_saturating_add: "unat (saturating_add_u32 a b) = min (unat a + unat b) 4294967295"
proof -
  have "unat (a + b) = (unat a + unat b) mod 4294967296" by (simp add: unat_word_ariths)
  then show ?thesis
    using unat_u32_le [of a] unat_u32_le [of b]
    by (auto simp: saturating_add_u32_def word_less_nat_alt mod_if unat_u32_top split: if_splits)
qed

lemma unat_saturating_sub: "unat (saturating_sub_u32 a b) = unat a - unat b"
  by (auto simp: saturating_sub_u32_def word_less_nat_alt unat_sub_if')

lemma unat_max_word: "unat (max a b :: u32) = max (unat a) (unat b)"
  by (auto simp: max_def word_le_nat_alt)

lemmas u32_arith = unat_saturating_add unat_saturating_sub unat_max_word word_less_nat_alt
  word_le_nat_alt unat_u32_top

subsection \<open>What a window promises\<close>

text \<open>
  A fetch that goes in windows: when it says that more follows, the window covered at least the
  UID asked for and ended below the largest \<^verbatim>\<open>u32\<close>, so that the next start is a later UID.
\<close>

locale windowed_fetch =
  fixes fetch :: "u32 \<Rightarrow> ('e, FolderSync) result"
  assumes window_progress:
    "fetch lo = Ok r \<Longrightarrow> fs_has_more r \<Longrightarrow> lo \<le> fs_window_hi r \<and> fs_window_hi r < - 1"
begin

lemma next_window_later:
  assumes "fetch lo = Ok r" and "fs_has_more r"
  shows "lo < saturating_add_u32 (fs_window_hi r) 1"
  using window_progress [OF assms] by (simp add: u32_arith)

end

text \<open>The two replies of a fetch.\<close>

lemma fetch_uid_range_Ok:
  assumes "fetch_uid_range uc s folder from_uid = Ok r"
  obtains (idle) mailbox where "ss_select s folder = Some (Ok mailbox)"
    "fs_uid_next r = mb_uid_next mailbox" "fs_uid_validity r = mb_uid_validity mailbox"
    "fs_exists r = mb_exists mailbox"
    "mb_exists mailbox = 0 \<or> (\<exists>n. mb_uid_next mailbox = Some n \<and> saturating_sub_u32 n 1 < max from_uid 1)"
    "fs_messages r = []" "\<not> fs_has_more r"
    "fs_window_hi r = unwrap_or (saturating_sub_u32 (max from_uid 1) 1)
                        (map_option (\<lambda>n. saturating_sub_u32 n 1) (mb_uid_next mailbox))"
  | (pull) mailbox uids items where "ss_select s folder = Some (Ok mailbox)"
    "fs_uid_next r = mb_uid_next mailbox" "fs_uid_validity r = mb_uid_validity mailbox"
    "fs_exists r = mb_exists mailbox" "mb_exists mailbox \<noteq> 0"
    "\<forall>n. mb_uid_next mailbox = Some n \<longrightarrow> max from_uid 1 \<le> saturating_sub_u32 n 1"
    "fetch_window (max from_uid 1) (map_option (\<lambda>n. saturating_sub_u32 n 1) (mb_uid_next mailbox))
       = (uids, fs_window_hi r, fs_has_more r)"
    "ss_fetch s uids = Some (Ok (Some items))"
    "fs_messages r = List.map_filter fetched_message (keep_ok items)"
proof -
  obtain mailbox where sel: "ss_select s folder = Some (Ok mailbox)"
    using assms unfolding fetch_uid_range_def
    by (auto simp: timed_def result_simps split: option.splits)
  let ?hi = "map_option (\<lambda>n. saturating_sub_u32 n 1) (mb_uid_next mailbox)"
  let ?none = "mb_exists mailbox = 0 \<or> (case ?hi of None \<Rightarrow> False | Some hi \<Rightarrow> max from_uid 1 > hi)"
  show thesis
  proof (cases ?none)
    case True
    show thesis
      by (rule idle [OF sel]) (use assms True sel in \<open>auto simp: fetch_uid_range_def timed_def split: option.splits\<close>)
  next
    case False
    obtain uids hi more where w: "fetch_window (max from_uid 1) ?hi = (uids, hi, more)"
      by (metis prod_cases3)
    with assms False sel obtain items where f: "ss_fetch s uids = Some (Ok (Some items))"
      and r: "r = \<lparr>fs_uid_validity = mb_uid_validity mailbox, fs_uid_next = mb_uid_next mailbox,
            fs_exists = mb_exists mailbox, fs_messages = List.map_filter fetched_message (keep_ok items),
            fs_window_hi = hi, fs_has_more = more\<rparr>"
      unfolding fetch_uid_range_def
      by (auto simp: timed_def result_simps Let_def split: option.splits if_splits)
    show thesis
      by (rule pull [OF sel _ _ _ _ _ _ f]) (use False w r in \<open>auto simp: not_less split: option.splits\<close>)
  qed
qed

lemma fetch_window_bounds:
  assumes "fetch_window lo server_hi = (uids, hi, m)"
  shows "uids = uid_range lo hi" and "unat hi \<le> unat lo + 499"
    and "m \<Longrightarrow> lo \<le> hi \<and> (\<exists>h. server_hi = Some h \<and> hi < h)"
    and "\<not> m \<Longrightarrow> server_hi = Some h \<Longrightarrow> hi = h"
  using assms unat_u32_le [of lo]
  by (auto simp: fetch_window_def Let_def FETCH_WINDOW_def u32_arith split: option.splits if_splits)

lemma fetch_uid_range_progress:
  assumes "fetch_uid_range uc s folder lo = Ok r" and "fs_has_more r"
  shows "lo \<le> fs_window_hi r \<and> fs_window_hi r < - 1"
  using assms(1)
proof (cases rule: fetch_uid_range_Ok)
  case (pull mailbox uids items)
  from fetch_window_bounds(3) [OF pull(7) assms(2)] obtain h
    where "max lo 1 \<le> fs_window_hi r" "fs_window_hi r < h" by blast
  then show ?thesis using unat_u32_le [of h] by (simp add: u32_arith)
qed (use assms in simp)

interpretation uid_fetch: windowed_fetch "fetch_uid_range uc s folder" for uc s folder
  by unfold_locales (rule fetch_uid_range_progress)

interpretation connector_sync: windowed_fetch "sync_folder uc net host port username credential folder"
  for uc net host port username credential folder
  by unfold_locales (auto simp: sync_folder_def result_simps dest: fetch_uid_range_progress)

subsection \<open>Windows are bounded and cover the mailbox\<close>

text \<open>A server that returns only messages of the range it was asked for (RFC 3501, UID FETCH).\<close>

definition honours_ranges :: "imap_session \<Rightarrow> bool" where
  "honours_ranges s \<longleftrightarrow>
     (\<forall>lo hi items f u. ss_fetch s (uid_range lo hi) = Some (Ok (Some items)) \<longrightarrow>
        f \<in> set (keep_ok items) \<longrightarrow> fe_uid f = Some u \<longrightarrow> lo \<le> u \<and> u \<le> hi)"

lemma fetched_message_uid: "fetched_message f = Some m \<Longrightarrow> fe_uid f = Some (fm_uid m)"
  by (auto simp: fetched_message_def bind_eq_Some_conv)

text \<open>
  One fetch from a UID covers a window of at most 500 UIDs and returns only messages of that
  window; when the server announces UIDNEXT, the window never reaches the next UID to be
  assigned, and the reply says that more follows exactly when the window ends below the highest
  assigned UID.
\<close>

theorem fetch_window_bounded:
  assumes "fetch_uid_range uc s folder from_uid = Ok r" and "honours_ranges s"
  shows "(\<forall>m\<in>set (fs_messages r). max from_uid 1 \<le> fm_uid m \<and> fm_uid m \<le> fs_window_hi r \<and>
                                   unat (fm_uid m) < unat (max from_uid 1) + 500) \<and>
         (\<forall>n. fs_uid_next r = Some n \<longrightarrow> 0 < n \<longrightarrow>
              fs_window_hi r < n \<and> (fs_has_more r \<longleftrightarrow> unat (fs_window_hi r) + 1 < unat n))"
  using assms(1)
proof (cases rule: fetch_uid_range_Ok)
  case (idle mailbox)
  then show ?thesis by (auto simp: u32_arith)
next
  case (pull mailbox uids items)
  note b = fetch_window_bounds [OF pull(7)]
  have "max from_uid 1 \<le> fm_uid m \<and> fm_uid m \<le> fs_window_hi r" if "m \<in> set (fs_messages r)" for m
  proof -
    from that pull(9) obtain f where "f \<in> set (keep_ok items)" "fetched_message f = Some m"
      by (auto simp: List.map_filter_def)
    then show ?thesis
      using assms(2) pull(8) b(1) fetched_message_uid unfolding honours_ranges_def by blast
  qed
  moreover have "fs_window_hi r < n \<and> (fs_has_more r \<longleftrightarrow> unat (fs_window_hi r) + 1 < unat n)"
    if "fs_uid_next r = Some n" "0 < n" for n
  proof (cases "fs_has_more r")
    case True
    with b(3) that pull(2) show ?thesis by (auto simp: u32_arith)
  next
    case False
    with b(4) that pull(2) have "fs_window_hi r = saturating_sub_u32 n 1" by simp
    with False that show ?thesis by (auto simp: u32_arith)
  qed
  ultimately show ?thesis using b(2) by (fastforce simp: word_le_nat_alt)
qed

subsection \<open>A mailbox served in windows\<close>

text \<open>
  The specification of a fetch on a mailbox: the messages \<open>box\<close> with UIDs below \<open>n\<close>, the UIDNEXT.
\<close>

definition window_of :: "u32 option \<Rightarrow> u32 \<Rightarrow> FetchedMessage list \<Rightarrow> u32 \<Rightarrow> FolderSync" where
  "window_of v n box from_uid =
     (let lo = max from_uid 1;
          top = saturating_sub_u32 n 1;
          hi = (if box = [] then top else min (saturating_add_u32 lo 499) top) in
      \<lparr>fs_uid_validity = v, fs_uid_next = Some n, fs_exists = of_nat (length box),
       fs_messages = filter (\<lambda>m. lo \<le> fm_uid m \<and> fm_uid m \<le> hi) box,
       fs_window_hi = hi, fs_has_more = (hi < top)\<rparr>)"

definition mailbox_wf :: "u32 \<Rightarrow> FetchedMessage list \<Rightarrow> bool" where
  "mailbox_wf n box \<longleftrightarrow>
     distinct (map fm_uid box) \<and> (\<forall>m\<in>set box. 1 \<le> fm_uid m \<and> fm_uid m < n)"

text \<open>A session that serves such a mailbox.\<close>

definition as_fetch :: "FetchedMessage \<Rightarrow> imap_fetch" where
  "as_fetch m = \<lparr>fe_uid = Some (fm_uid m), fe_body = Some (fm_raw m),
                 fe_flags = map FlagCustom (fm_flags m), fe_internal_date = fm_internal_date m\<rparr>"

definition in_range :: "rstr \<Rightarrow> u32 \<Rightarrow> bool" where
  "in_range r u =
     (let ends = map digits_value (split_char 58 r) in hd ends \<le> unat u \<and> unat u \<le> last ends)"

definition mailbox_session :: "u32 option \<Rightarrow> u32 \<Rightarrow> FetchedMessage list \<Rightarrow> imap_session" where
  "mailbox_session v n box =
     \<lparr>ss_select = (\<lambda>_. Some (Ok \<lparr>mb_uid_validity = v, mb_uid_next = Some n, mb_exists = of_nat (length box)\<rparr>)),
      ss_fetch = (\<lambda>r. Some (Ok (Some (map (Ok \<circ> as_fetch) (filter (\<lambda>m. in_range r (fm_uid m)) box))))),
      ss_list = Ok [], ss_capabilities = Some (Ok []), ss_idle_init = Some (Ok ()),
      ss_idle_wait = (\<lambda>_. Ok IdleTimedOut), ss_idle_done = Ok ()\<rparr>"

lemma show_nat_no_colon: "58 \<notin> set (show_nat n)"
  using show_nat_digits [of n] by (auto simp: list_all_iff)

lemma in_range_uid_range: "in_range (uid_range lo hi) u \<longleftrightarrow> lo \<le> u \<and> u \<le> hi"
  by (simp add: in_range_def uid_range_def split_char_append [where p = "show_nat (unat lo)", simplified]
      split_char_plain show_nat_no_colon word_le_nat_alt)

lemma fetched_message_as_fetch [simp]: "fetched_message (as_fetch m) = Some m"
  by (simp add: fetched_message_def as_fetch_def comp_def)

lemma map_filter_as_fetch [simp]:
  "List.map_filter fetched_message (keep_ok (map (Ok \<circ> as_fetch) ms)) = ms"
  by (induction ms) (simp_all add: keep_ok_def List.map_filter_simps)

lemma mailbox_wf_length:
  assumes "mailbox_wf n box" shows "length box < 4294967296"
proof -
  have "fm_uid ` set box \<subseteq> {1..<n}" using assms by (auto simp: mailbox_wf_def)
  then have "card (fm_uid ` set box) \<le> card (unat ` {1..<n})"
    by (metis card_image card_mono finite inj_onI word_unat_eq_iff)
  also have "\<dots> \<le> card {1..4294967295::nat}"
    using unat_u32_le by (intro card_mono) (auto simp: word_le_nat_alt)
  finally have "card (set (map fm_uid box)) \<le> 4294967295" by simp
  then show ?thesis using assms by (simp add: mailbox_wf_def distinct_card del: set_map)
qed

lemma mailbox_session_honours: "honours_ranges (mailbox_session v n box)"
  by (auto simp: honours_ranges_def mailbox_session_def keep_ok_def List.map_filter_def as_fetch_def
      in_range_uid_range)

text \<open>
  C16: against a server that holds the mailbox, one fetch is the specified window of it: the
  messages between the UID asked for and the end of the window, all of them and nothing else.
\<close>

theorem fetch_uid_range_refines_mailbox:
  assumes "mailbox_wf n box" and "0 < n"
  shows "fetch_uid_range uc (mailbox_session v n box) folder from_uid = Ok (window_of v n box from_uid)"
proof (cases "box = []")
  case True
  then show ?thesis
    by (simp add: fetch_uid_range_def timed_def mailbox_session_def window_of_def)
next
  case False
  then have ne: "(of_nat (length box) :: u32) \<noteq> 0"
    using mailbox_wf_length [OF assms(1)] by (simp add: word_of_nat_eq_0_iff nat_dvd_not_less)
  have top: "fm_uid m \<le> saturating_sub_u32 n 1" if "m \<in> set box" for m
    using that assms by (auto simp: mailbox_wf_def u32_arith)
  let ?lo = "max from_uid 1" and ?top = "saturating_sub_u32 n 1"
  show ?thesis
  proof (cases "?lo > ?top")
    case True
    then have "min (saturating_add_u32 ?lo 499) ?top = ?top"
      using unat_u32_le [of ?lo] by (auto simp: min_def u32_arith)
    moreover from True have "filter (\<lambda>m. ?lo \<le> fm_uid m \<and> fm_uid m \<le> ?top) box = []"
      by (intro filter_False) (meson leD order.trans)
    ultimately show ?thesis
      using True False
      by (simp add: fetch_uid_range_def timed_def mailbox_session_def window_of_def Let_def
          del: max.bounded_iff min.bounded_iff)
  next
    case lo: False
    have w: "fetch_window ?lo (Some ?top)
        = (uid_range ?lo (min (saturating_add_u32 ?lo 499) ?top), min (saturating_add_u32 ?lo 499) ?top,
           min (saturating_add_u32 ?lo 499) ?top < ?top)"
      by (auto simp: fetch_window_def FETCH_WINDOW_def Let_def min_def)
    show ?thesis
      using False lo ne
      by (simp add: fetch_uid_range_def timed_def mailbox_session_def window_of_def Let_def w in_range_uid_range)
  qed
qed

theorem fetch_uid_range_refines_mailbox_witness:
  "fetch_uid_range ascii_unicode
     (mailbox_session (Some 1) 9 [\<lparr>fm_uid = 7, fm_flags = [], fm_internal_date = None, fm_raw = [77]\<rparr>])
     (lit ''INBOX'') 1
   = Ok (window_of (Some 1) 9 [\<lparr>fm_uid = 7, fm_flags = [], fm_internal_date = None, fm_raw = [77]\<rparr>] 1)"
  by (rule fetch_uid_range_refines_mailbox) (simp_all add: mailbox_wf_def)

theorem fetch_window_bounded_witness:
  "unat (fs_window_hi (window_of (Some 1) 9
     [\<lparr>fm_uid = 7, fm_flags = [], fm_internal_date = None, fm_raw = [77]\<rparr>] 1)) = 8"
proof -
  let ?box = "[\<lparr>fm_uid = 7, fm_flags = [], fm_internal_date = None, fm_raw = [77]\<rparr>]"
  have "fetch_uid_range ascii_unicode (mailbox_session (Some 1) 9 ?box) [] 1 = Ok (window_of (Some 1) 9 ?box 1)"
    by (simp add: fetch_uid_range_def timed_def mailbox_session_def window_of_def Let_def
        fetch_window_def FETCH_WINDOW_def saturating_add_u32_def saturating_sub_u32_def
        in_range_uid_range keep_ok_def List.map_filter_def as_fetch_def fetched_message_def comp_def)
  from fetch_window_bounded [OF this mailbox_session_honours]
  have "fs_window_hi (window_of (Some 1) 9 ?box 1) < 9" and "\<not> fs_has_more (window_of (Some 1) 9 ?box 1)"
    "unat (fs_window_hi (window_of (Some 1) 9 ?box 1)) + 1 \<ge> 9"
    by (auto simp: window_of_def Let_def saturating_add_u32_def saturating_sub_u32_def)
  then show ?thesis by (simp add: word_less_nat_alt)
qed

subsection \<open>What a window can lose\<close>

text \<open>The stream of a fetch with its failed items left out.\<close>

definition without_errors ::
  "(rstr, (rstr, imap_fetch) result list option) result option
   \<Rightarrow> (rstr, (rstr, imap_fetch) result list option) result option" where
  "without_errors stream = map_option (map_sum id (map_option (map Ok \<circ> keep_ok))) stream"

lemma keep_ok_map_Ok [simp]: "keep_ok (map Ok xs) = xs"
  by (induction xs) (simp_all add: keep_ok_def List.map_filter_simps)

lemma collect_without_errors:
  "and_then (timed phase into (without_errors x)) (\<lambda>stream. and_then (ok_or e stream) (\<lambda>items. Ok (F (keep_ok items))))
   = and_then (timed phase into x) (\<lambda>stream. and_then (ok_or e stream) (\<lambda>items. Ok (F (keep_ok items))))"
  by (cases x rule: option.exhaust; cases "the x"; cases "projr (the x)")
     (auto simp: without_errors_def timed_def)

text \<open>
  An error the server connection reports while the messages of a window are streamed in is
  dropped: the fetch returns what it returns when the failed items are simply absent, and the end
  of the window is the same, so their UIDs count as fetched.
\<close>

theorem fetch_stream_errors_ignored:
  "fetch_uid_range uc s folder from_uid =
   fetch_uid_range uc (s\<lparr>ss_fetch := \<lambda>r. without_errors (ss_fetch s r)\<rparr>) folder from_uid"
proof -
  let ?R = "\<lambda>a b c d e fs. \<lparr>fs_uid_validity = a, fs_uid_next = b, fs_exists = c,
    fs_messages = List.map_filter fetched_message fs, fs_window_hi = d, fs_has_more = e\<rparr>"
  show ?thesis
    unfolding fetch_uid_range_def
    by (simp add: collect_without_errors [where F = "?R a b c d e" for a b c d e] Let_def case_prod_unfold
        cong: if_cong)
qed

text \<open>
  When the server announces no UIDNEXT, a fetch on a non-empty mailbox reports the 500 UIDs
  from the first as covered whether or not they are assigned yet, and that nothing follows.
\<close>

lemma fetch_without_uidnext:
  assumes "fetch_uid_range uc s folder from_uid = Ok r" and "fs_uid_next r = None" and "fs_exists r \<noteq> 0"
  shows "fs_window_hi r = saturating_add_u32 (max from_uid 1) 499 \<and> \<not> fs_has_more r"
  using assms(1)
proof (cases rule: fetch_uid_range_Ok)
  case (pull mailbox uids items)
  then show ?thesis using assms(2) by (simp add: fetch_window_def FETCH_WINDOW_def Let_def)
qed (use assms in simp)

lemma fetch_without_uidnext_witness:
  "fetch_uid_range ascii_unicode
     ((mailbox_session (Some 1) 9 [])
        \<lparr>ss_select := \<lambda>_. Some (Ok \<lparr>mb_uid_validity = Some 1, mb_uid_next = None, mb_exists = 1\<rparr>)\<rparr>) [] 1
   = Ok \<lparr>fs_uid_validity = Some 1, fs_uid_next = None, fs_exists = 1, fs_messages = [],
         fs_window_hi = 500, fs_has_more = False\<rparr>"
proof -
  let ?s = "(mailbox_session (Some 1) 9 [])
        \<lparr>ss_select := \<lambda>_. Some (Ok \<lparr>mb_uid_validity = Some 1, mb_uid_next = None, mb_exists = 1\<rparr>)\<rparr>"
  have run: "\<exists>r. fetch_uid_range ascii_unicode ?s [] 1 = Ok r \<and> fs_uid_next r = None \<and> fs_exists r = 1 \<and>
      fs_messages r = [] \<and> fs_uid_validity r = Some 1"
    by (simp add: fetch_uid_range_def timed_def mailbox_session_def Let_def fetch_window_def keep_ok_def
        List.map_filter_def)
  then obtain r where "fetch_uid_range ascii_unicode ?s [] 1 = Ok r" "fs_uid_next r = None" "fs_exists r = 1"
    "fs_messages r = []" "fs_uid_validity r = Some 1" by blast
  with fetch_without_uidnext [of ascii_unicode ?s "[]" 1 r] show ?thesis
    by (simp add: saturating_add_u32_def)
qed

end
