(* ===== verification/Reconciler.thy ===== *)
theory Reconciler
  imports StoreInv Attachments ImapFetch
begin

text \<open>
  Reconciling a folder, \<^verbatim>\<open>src/sync/reconciler.rs\<close> with the errors of \<^verbatim>\<open>src/sync/error.rs\<close>.  The IMAP
  server (\<^verbatim>\<open>dyn ImapSync\<close>), the clock, the file system and the message decoder are parameters
  that act on a world \<open>'w\<close>; the database is the \<open>store\<close>, the hub a list of published events.
  One call runs alone: other connections of the daemon do not write in between.
\<close>

datatype SyncError =
    SyncImap ImapError
  | SyncDb DbError
  | SyncAttachment AttachmentError
  | UnknownAccount
  | UnknownFolder rstr
  | MissingCredentials
  | SyncCredential rstr

record 'w sync_env =
  imap_sync :: "rstr \<Rightarrow> nat \<Rightarrow> rstr \<Rightarrow> MailCredential \<Rightarrow> rstr \<Rightarrow> u32 \<Rightarrow> 'w \<Rightarrow> (ImapError, FolderSync) result \<times> 'w"
  sync_files :: "'w attachment_env"
  sync_unicode :: unicode
  sync_decoder :: "byte list \<Rightarrow> mp_message option"
  sync_clock :: "'w \<Rightarrow> instant \<times> 'w"

record 'w sync_state =
  ys_store :: store
  ys_world :: 'w
  ys_published :: "(Topic \<times> json) list"

type_synonym ('w, 'a) sync_op = "'w sync_state \<Rightarrow> (SyncError, 'a) result \<times> 'w sync_state"

definition sync_bind :: "('w, 'a) sync_op \<Rightarrow> ('a \<Rightarrow> ('w, 'b) sync_op) \<Rightarrow> ('w, 'b) sync_op" where
  "sync_bind m f s = (case m s of (Err e, s') \<Rightarrow> (Err e, s') | (Ok x, s') \<Rightarrow> f x s')"

definition sync_give :: "(SyncError, 'a) result \<Rightarrow> ('w, 'a) sync_op" where
  "sync_give r s = (r, s)"

definition utc_now :: "'w sync_env \<Rightarrow> ('w, instant) sync_op" where
  "utc_now env s = (let (t, w) = sync_clock env (ys_world s) in (Ok t, s\<lparr>ys_world := w\<rparr>))"

text \<open>A query, a statement that cannot fail, and an insert, which draws its uuid and timestamp.\<close>

definition db_read :: "(store \<Rightarrow> 'a) \<Rightarrow> ('w, 'a) sync_op" where
  "db_read q s = (Ok (q (ys_store s)), s)"

definition db_run :: "(store \<Rightarrow> 'a \<times> store) \<Rightarrow> ('w, 'a) sync_op" where
  "db_run q s = (let (x, st) = q (ys_store s) in (Ok x, s\<lparr>ys_store := st\<rparr>))"

definition db_insert ::
  "'w sync_env \<Rightarrow> (uuid \<Rightarrow> instant \<Rightarrow> store \<Rightarrow> (DbError, 'r \<times> store) result) \<Rightarrow> ('w, 'r) sync_op" where
  "db_insert env q s =
     (case draw_row (sync_files env) (ys_world s) of ((i, now), w) \<Rightarrow>
        (case q i now (ys_store s) of
           Err e \<Rightarrow> (Err (SyncDb e), s\<lparr>ys_world := w\<rparr>)
         | Ok (r, st) \<Rightarrow> (Ok r, s\<lparr>ys_store := st, ys_world := w\<rparr>)))"

definition publish :: "Topic \<Rightarrow> json \<Rightarrow> ('w, unit) sync_op" where
  "publish topic payload s = (Ok (), s\<lparr>ys_published := ys_published s @ [(topic, payload)]\<rparr>)"

definition fetch_from ::
  "'w sync_env \<Rightarrow> Account \<Rightarrow> nat \<Rightarrow> MailCredential \<Rightarrow> rstr \<Rightarrow> u32 \<Rightarrow> ('w, FolderSync) sync_op" where
  "fetch_from env account port credential folder_name from_uid s =
     (case imap_sync env (acc_imap_host account) port (acc_email account) credential folder_name from_uid
             (ys_world s) of
        (r, w) \<Rightarrow> (map_err SyncImap r, s\<lparr>ys_world := w\<rparr>))"

text \<open>\<^verbatim>\<open>fetched.internal_date.unwrap_or_else(Utc::now)\<close>.\<close>

definition date_or_now :: "'w sync_env \<Rightarrow> instant option \<Rightarrow> ('w, instant) sync_op" where
  "date_or_now env d = (case d of Some t \<Rightarrow> sync_give (Ok t) | None \<Rightarrow> utc_now env)"

record ReconcileReport =
  rr_folder_id :: uuid
  rr_inserted :: nat
  rr_wiped :: nat
  rr_uid_validity :: "i64 option"
  rr_uid_next :: "i64 option"
  rr_last_seen_uid :: "i64 option"

definition uid_i64 :: "u32 \<Rightarrow> i64" where
  "uid_i64 u = uint u"

definition build_message_row ::
  "uuid \<Rightarrow> uuid \<Rightarrow> uuid \<Rightarrow> FetchedMessage \<Rightarrow> ParsedEmail \<Rightarrow> instant \<Rightarrow> NewMessage" where
  "build_message_row account_id folder_id thread_id fetched parsed internal_date =
     \<lparr>nm_account_id = account_id, nm_folder_id = folder_id, nm_thread_id = Some thread_id,
      nm_uid = uid_i64 (fm_uid fetched), nm_message_id_header = pe_message_id parsed,
      nm_in_reply_to = pe_in_reply_to parsed,
      nm_references_header = (if pe_references parsed = [] then None else Some (join [32] (pe_references parsed))),
      nm_from_addr = pe_from parsed, nm_to_addrs = pe_to parsed, nm_cc_addrs = pe_cc parsed,
      nm_bcc_addrs = [], nm_reply_to = None, nm_subject = pe_subject parsed,
      nm_snippet = map_option (\<lambda>t. map (\<lambda>c. if c = 10 \<or> c = 13 then 32 else c) (take 200 t)) (pe_text_body parsed),
      nm_text_body = pe_text_body parsed, nm_html_body = pe_html_body parsed,
      nm_raw_size = int (length (fm_raw fetched)), nm_flags = fm_flags fetched,
      nm_internal_date = internal_date, nm_sent_at = None\<rparr>"

subsection \<open>One message\<close>

definition new_thread_ref :: "uuid \<Rightarrow> ParsedEmail \<Rightarrow> instant \<Rightarrow> ThreadRef" where
  "new_thread_ref i parsed at_time =
     \<lparr>tr_thread_id = i, tr_message_ids = (case pe_message_id parsed of None \<Rightarrow> [] | Some m \<Rightarrow> [m]),
      tr_subject = unwrap_or [] (pe_subject parsed), tr_last_message_at = at_time\<rparr>"

definition pick_thread ::
  "'w sync_env \<Rightarrow> uuid \<Rightarrow> FetchedMessage \<Rightarrow> ParsedEmail \<Rightarrow> ThreadRef list \<Rightarrow> ('w, uuid \<times> ThreadRef list) sync_op" where
  "pick_thread env account_id fetched parsed thread_refs =
     sync_bind (utc_now env) (\<lambda>now.
     (case assign_thread (sync_unicode env) now parsed thread_refs of
        Existing i \<Rightarrow> sync_give (Ok (i, thread_refs))
      | New \<Rightarrow>
          sync_bind (db_insert env (threads_create account_id (pe_message_id parsed) (pe_subject parsed))) (\<lambda>t.
          sync_bind (date_or_now env (fm_internal_date fetched)) (\<lambda>at_time.
            sync_give (Ok (thr_id t, thread_refs @ [new_thread_ref (thr_id t) parsed at_time]))))))"

text \<open>The attachments of an inserted message; on an error the message row is deleted again.\<close>

definition store_attachments ::
  "'w sync_env \<Rightarrow> uuid \<Rightarrow> ParsedAttachment list \<Rightarrow> ('w, unit) sync_op" where
  "store_attachments env message_id attached s =
     (case persist_parsed_for_message (sync_files env) message_id attached (ys_store s) (ys_world s) of
        (Ok _, st, w) \<Rightarrow> (Ok (), s\<lparr>ys_store := st, ys_world := w\<rparr>)
      | (Err e, st, w) \<Rightarrow>
          (Err (SyncAttachment e), s\<lparr>ys_store := snd (messages_delete message_id st), ys_world := w\<rparr>))"

definition mail_new_payload :: "'w sync_env \<Rightarrow> uuid \<Rightarrow> uuid \<Rightarrow> uuid \<Rightarrow> uuid \<Rightarrow> i64 \<Rightarrow> json" where
  "mail_new_payload env account_id folder_id thread_id message_id uid =
     (let show_uuid = (\<lambda>i. JString (uuid_text (sync_files env) i)) in json_object
       [(lit ''account_id'', show_uuid account_id), (lit ''folder_id'', show_uuid folder_id),
        (lit ''thread_id'', show_uuid thread_id), (lit ''message_id'', show_uuid message_id),
        (lit ''uid'', json_int uid)])"

definition insert_message ::
  "'w sync_env \<Rightarrow> uuid \<Rightarrow> uuid \<Rightarrow> FetchedMessage \<Rightarrow> ParsedEmail \<Rightarrow> ThreadRef list \<Rightarrow> ('w, ThreadRef list) sync_op" where
  "insert_message env account_id folder_id fetched parsed thread_refs =
     sync_bind (pick_thread env account_id fetched parsed thread_refs) (\<lambda>(thread_id, thread_refs').
     sync_bind (date_or_now env (fm_internal_date fetched)) (\<lambda>internal_date.
     sync_bind (db_insert env (messages_create
                  (build_message_row account_id folder_id thread_id fetched parsed internal_date))) (\<lambda>row.
     sync_bind (store_attachments env (msg_id row) (pe_attachments parsed)) (\<lambda>_.
     sync_bind (date_or_now env (fm_internal_date fetched)) (\<lambda>touched.
     sync_bind (db_run (\<lambda>st. ((), threads_touch_last_message_at thread_id touched st))) (\<lambda>_.
     sync_bind (db_run (\<lambda>st. ((), threads_refresh_aggregates thread_id st))) (\<lambda>_.
     sync_bind (publish MailNew
                  (mail_new_payload env account_id folder_id thread_id (msg_id row) (uid_i64 (fm_uid fetched)))) (\<lambda>_.
       sync_give (Ok thread_refs')))))))))"

subsection \<open>One window\<close>

fun ingest_messages ::
  "'w sync_env \<Rightarrow> uuid \<Rightarrow> uuid \<Rightarrow> i64 list \<Rightarrow> FetchedMessage list \<Rightarrow> ThreadRef list \<Rightarrow> nat
   \<Rightarrow> ('w, ThreadRef list \<times> nat) sync_op" where
  "ingest_messages env account_id folder_id already [] thread_refs inserted = sync_give (Ok (thread_refs, inserted))"
| "ingest_messages env account_id folder_id already (fetched # rest) thread_refs inserted =
     (if uid_i64 (fm_uid fetched) \<in> set already \<or> fm_raw fetched = []
      then ingest_messages env account_id folder_id already rest thread_refs inserted
      else
        (case parse_with_options (sync_decoder env) (fm_raw fetched) False of
           Err _ \<Rightarrow> ingest_messages env account_id folder_id already rest thread_refs inserted
         | Ok parsed \<Rightarrow>
             sync_bind (insert_message env account_id folder_id fetched parsed thread_refs) (\<lambda>thread_refs'.
               ingest_messages env account_id folder_id already rest thread_refs' (inserted + 1))))"

definition ingest_window ::
  "'w sync_env \<Rightarrow> uuid \<Rightarrow> uuid \<Rightarrow> FolderSync \<Rightarrow> ThreadRef list \<Rightarrow> nat \<Rightarrow> ('w, ThreadRef list \<times> nat) sync_op" where
  "ingest_window env account_id folder_id server thread_refs inserted =
     sync_bind (db_read (existing_uids folder_id (map (uid_i64 \<circ> fm_uid) (fs_messages server)))) (\<lambda>already.
       ingest_messages env account_id folder_id already (fs_messages server) thread_refs inserted)"

text \<open>\<^verbatim>\<open>[last_seen_uid, batch_max, Some(window_hi)].into_iter().flatten().max()\<close>.\<close>

definition advance_last_seen :: "i64 option \<Rightarrow> FolderSync \<Rightarrow> i64 option" where
  "advance_last_seen last_seen server =
     sql_max (List.map_filter (\<lambda>x. x)
       [last_seen, sql_max (map (uid_i64 \<circ> fm_uid) (fs_messages server)), Some (uid_i64 (fs_window_hi server))])"

subsection \<open>The loop over windows\<close>

text \<open>\<open>None\<close> is a loop that does not end.\<close>

partial_function (option) drain_windows ::
  "'w sync_env \<Rightarrow> Account \<Rightarrow> nat \<Rightarrow> Folder \<Rightarrow> MailCredential \<Rightarrow> FolderSync \<Rightarrow> ThreadRef list \<Rightarrow> nat \<Rightarrow> i64 option
   \<Rightarrow> 'w sync_state \<Rightarrow> ((SyncError, FolderSync \<times> nat \<times> i64 option) result \<times> 'w sync_state) option" where
  "drain_windows env account port folder credential server thread_refs inserted last_seen s =
     (case ingest_window env (acc_id account) (fld_id folder) server thread_refs inserted s of
        (Err e, s1) \<Rightarrow> Some (Err e, s1)
      | (Ok (thread_refs', inserted'), s1) \<Rightarrow>
          (let last_seen' = advance_last_seen last_seen server in
           if \<not> fs_has_more server then Some (Ok (server, inserted', last_seen'), s1)
           else
             (case fetch_from env account port credential (fld_name folder)
                     (saturating_add_u32 (fs_window_hi server) 1) s1 of
                (Err e, s2) \<Rightarrow> Some (Err e, s2)
              | (Ok server', s2) \<Rightarrow>
                  drain_windows env account port folder credential server' thread_refs' inserted' last_seen' s2)))"

subsection \<open>The whole folder\<close>

text \<open>\<^verbatim>\<open>clamp(0, u32::MAX) as u32\<close>, then one more.\<close>

definition first_uid :: "i64 option \<Rightarrow> u32" where
  "first_uid last_seen =
     saturating_add_u32 (word_of_int (max 0 (min (unwrap_or 0 last_seen) 4294967295))) 1"

definition needs_full_resync :: "Folder \<Rightarrow> FolderSync \<Rightarrow> bool" where
  "needs_full_resync folder server =
     (case (fld_uid_validity folder, fs_uid_validity server) of
        (Some local, Some v) \<Rightarrow> local \<noteq> uid_i64 v
      | _ \<Rightarrow> False)"

fun load_thread_refs_from :: "'w sync_env \<Rightarrow> (uuid \<times> rstr) list \<Rightarrow> Thread list \<Rightarrow> ('w, ThreadRef list) sync_op" where
  "load_thread_refs_from env pairs [] = sync_give (Ok [])"
| "load_thread_refs_from env pairs (t # ts) =
     sync_bind (date_or_now env (thr_last_message_at t)) (\<lambda>at_time.
     sync_bind (load_thread_refs_from env pairs ts) (\<lambda>refs.
       sync_give (Ok (\<lparr>tr_thread_id = thr_id t,
                       tr_message_ids = map snd (filter (\<lambda>p. fst p = thr_id t) pairs),
                       tr_subject = unwrap_or [] (thr_subject t), tr_last_message_at = at_time\<rparr> # refs))))"

definition load_thread_refs :: "'w sync_env \<Rightarrow> uuid \<Rightarrow> ('w, ThreadRef list) sync_op" where
  "load_thread_refs env account_id =
     sync_bind (db_read (threads_list_recent account_id 200 0)) (\<lambda>recent.
     sync_bind (db_read (message_ids_by_threads (map thr_id recent))) (\<lambda>pairs.
       load_thread_refs_from env pairs recent))"

text \<open>The first fetch, and the wipe and second fetch when UIDVALIDITY changed.\<close>

definition open_folder ::
  "'w sync_env \<Rightarrow> Account \<Rightarrow> nat \<Rightarrow> Folder \<Rightarrow> MailCredential \<Rightarrow> ('w, FolderSync \<times> bool \<times> nat) sync_op" where
  "open_folder env account port folder credential =
     sync_bind (fetch_from env account port credential (fld_name folder) (first_uid (fld_last_seen_uid folder))) (\<lambda>server.
     if needs_full_resync folder server
     then
       sync_bind (db_run (delete_all_in_folder (fld_id folder))) (\<lambda>wiped.
       sync_bind (fetch_from env account port credential (fld_name folder) 1) (\<lambda>server'.
         sync_give (Ok (server', True, wiped))))
     else sync_give (Ok (server, False, 0)))"

definition finish_sync ::
  "'w sync_env \<Rightarrow> Account \<Rightarrow> Folder \<Rightarrow> FolderSync \<Rightarrow> nat \<Rightarrow> nat \<Rightarrow> bool \<Rightarrow> i64 option \<Rightarrow> ('w, ReconcileReport) sync_op" where
  "finish_sync env account folder server inserted wiped resync last_seen =
     (let validity = map_option uid_i64 (fs_uid_validity server);
          uid_next = map_option uid_i64 (fs_uid_next server);
          show_uuid = (\<lambda>i. JString (uuid_text (sync_files env) i)) in
      sync_bind (db_run (\<lambda>st. ((), folders_update_uid_state (fld_id folder) validity uid_next last_seen st))) (\<lambda>_.
      sync_bind (utc_now env) (\<lambda>synced.
      sync_bind (utc_now env) (\<lambda>now.
      sync_bind (db_run (\<lambda>st. ((), accounts_update_sync (acc_id account) StatusIdle None (Some synced) now st))) (\<lambda>_.
      sync_bind (if inserted > 0 \<or> wiped > 0 \<or> resync
                 then publish AccountSynced (json_object
                        [(lit ''account_id'', show_uuid (acc_id account)), (lit ''folder_id'', show_uuid (fld_id folder)),
                         (lit ''inserted'', json_int (int inserted)), (lit ''wiped'', json_int (int wiped))])
                 else sync_give (Ok ())) (\<lambda>_.
        sync_give (Ok \<lparr>rr_folder_id = fld_id folder, rr_inserted = inserted, rr_wiped = wiped,
                       rr_uid_validity = validity, rr_uid_next = uid_next, rr_last_seen_uid = last_seen\<rparr>)))))))"

text \<open>The checks before the server is contacted.\<close>

definition resolve_folder ::
  "uuid \<Rightarrow> rstr \<Rightarrow> MailCredential \<Rightarrow> store \<Rightarrow> (SyncError, Account \<times> Folder \<times> nat) result" where
  "resolve_folder account_id folder_name credential st =
     (if credential_is_empty credential then Err MissingCredentials
      else and_then (ok_or UnknownAccount (accounts_get account_id st)) (\<lambda>account.
           and_then (ok_or (UnknownFolder folder_name) (folders_get_by_name account_id folder_name st)) (\<lambda>folder.
           and_then (map_err SyncImap (port_u16 (acc_imap_port account))) (\<lambda>port. Ok (account, folder, port)))))"

definition reconcile_folder ::
  "'w sync_env \<Rightarrow> uuid \<Rightarrow> rstr \<Rightarrow> MailCredential \<Rightarrow> 'w sync_state
   \<Rightarrow> ((SyncError, ReconcileReport) result \<times> 'w sync_state) option" where
  "reconcile_folder env account_id folder_name credential s =
     (case resolve_folder account_id folder_name credential (ys_store s) of
        Err e \<Rightarrow> Some (Err e, s)
      | Ok (account, folder, port) \<Rightarrow>
          (case open_folder env account port folder credential s of
             (Err e, s1) \<Rightarrow> Some (Err e, s1)
           | (Ok (server, resync, wiped), s1) \<Rightarrow>
               (case load_thread_refs env account_id s1 of
                  (Err e, s2) \<Rightarrow> Some (Err e, s2)
                | (Ok thread_refs, s2) \<Rightarrow>
                    (case drain_windows env account port folder credential server thread_refs 0
                            (if resync then None else fld_last_seen_uid folder) s2 of
                       None \<Rightarrow> None
                     | Some (Err e, s3) \<Rightarrow> Some (Err e, s3)
                     | Some (Ok (server', inserted, last_seen), s3) \<Rightarrow>
                         Some (finish_sync env account folder server' inserted wiped resync last_seen s3)))))"

end
