(* ===== verification/ReconcilerInv.thy ===== *)
theory ReconcilerInv
  imports Reconciler
begin

text \<open>
  What reconciling a folder promises.  Operations on the sync state are reasoned about with
  triples that have one postcondition for the return and one for the error exit; what each
  statement on the database keeps is a contract (a locale) that the loops are proved against
  once, and that is interpreted for the schema, for the folder cursor and for the presence of a
  message.
\<close>

subsection \<open>Triples\<close>

definition triple ::
  "('w sync_state \<Rightarrow> bool) \<Rightarrow> ('w, 'a) sync_op \<Rightarrow> ('a \<Rightarrow> 'w sync_state \<Rightarrow> bool) \<Rightarrow> ('w sync_state \<Rightarrow> bool) \<Rightarrow> bool" where
  "triple P m Q E \<longleftrightarrow>
     (\<forall>s. P s \<longrightarrow> (case m s of (Ok x, s') \<Rightarrow> Q x s' | (Err _, s') \<Rightarrow> E s'))"

named_theorems triples

lemma triple_give [triples]: "triple (\<lambda>s. case r of Ok x \<Rightarrow> Q x s | Err _ \<Rightarrow> E s) (sync_give r) Q E"
  by (simp add: triple_def sync_give_def split: sum.splits)

lemma triple_ok [triples]: "triple (Q x) (sync_give (Ok x)) Q E"
  by (simp add: triple_def sync_give_def)

lemma triple_bind:
  assumes "triple P m R E" and "\<And>x. triple (R x) (f x) Q E"
  shows "triple P (sync_bind m f) Q E"
  using assms unfolding triple_def sync_bind_def
  by (fastforce split: prod.splits sum.splits)

lemma triple_pre: "triple P' m Q E \<Longrightarrow> (\<And>s. P s \<Longrightarrow> P' s) \<Longrightarrow> triple P m Q E"
  by (simp add: triple_def)

lemma triple_post:
  "triple P m Q' E' \<Longrightarrow> (\<And>x s. Q' x s \<Longrightarrow> Q x s) \<Longrightarrow> (\<And>s. E' s \<Longrightarrow> E s) \<Longrightarrow> triple P m Q E"
  unfolding triple_def by (fastforce split: prod.splits sum.splits)

lemma tripleD:
  assumes "triple P m Q E" and "P s"
  shows "m s = (Ok x, s') \<Longrightarrow> Q x s'" and "m s = (Err e, s') \<Longrightarrow> E s'"
  using assms unfolding triple_def by force+

subsection \<open>The loop over windows\<close>

text \<open>
  \<open>I\<close> holds when a window has been fetched, \<open>J\<close> when it has been ingested, \<open>F\<close> when the loop stops
  with an error.
\<close>

lemma drain_windows_rule:
  fixes env :: "'w sync_env"
  assumes run: "drain_windows env account port folder credential server refs n last_seen s = Some (r, s')"
    and init: "I server refs n last_seen s"
    and ingest_fails: "\<And>server refs n l s e s1. I server refs n l s \<Longrightarrow>
      ingest_window env (acc_id account) (fld_id folder) server refs n s = (Err e, s1) \<Longrightarrow> F s1"
    and ingests: "\<And>server refs n l s refs' n' s1. I server refs n l s \<Longrightarrow>
      ingest_window env (acc_id account) (fld_id folder) server refs n s = (Ok (refs', n'), s1) \<Longrightarrow>
      J server refs' n' (advance_last_seen l server) s1"
    and fetch_fails: "\<And>server refs n l s1 e s2. J server refs n l s1 \<Longrightarrow> fs_has_more server \<Longrightarrow>
      fetch_from env account port credential (fld_name folder) (saturating_add_u32 (fs_window_hi server) 1) s1
        = (Err e, s2) \<Longrightarrow> F s2"
    and fetches: "\<And>server refs n l s1 server' s2. J server refs n l s1 \<Longrightarrow> fs_has_more server \<Longrightarrow>
      fetch_from env account port credential (fld_name folder) (saturating_add_u32 (fs_window_hi server) 1) s1
        = (Ok server', s2) \<Longrightarrow> I server' refs n l s2"
  shows "case r of Err _ \<Rightarrow> F s'
         | Ok (server', n', l') \<Rightarrow> \<not> fs_has_more server' \<and> (\<exists>refs'. J server' refs' n' l' s')"
proof -
  let ?goal = "\<lambda>r s'. case r of Err _ \<Rightarrow> F s'
         | Ok (server', n', l') \<Rightarrow> \<not> fs_has_more server' \<and> (\<exists>refs'. J server' refs' n' l' s')"
  have "env' = env \<longrightarrow> ac = account \<longrightarrow> po = port \<longrightarrow> fo = folder \<longrightarrow> cr = credential \<longrightarrow>
        I server refs n l s \<longrightarrow> ?goal (fst y) (snd y)"
    if "drain_windows env' ac po fo cr server refs n l s = Some y" for env' ac po fo cr server refs n l s y
  proof (rule drain_windows.raw_induct [OF _ that], intro impI)
    fix drain and env' :: "'w sync_env" and ac po fo cr server refs n l s y
    assume IH: "\<And>env' ac po fo cr server refs n l s y. drain env' ac po fo cr server refs n l s = Some y \<Longrightarrow>
        env' = env \<longrightarrow> ac = account \<longrightarrow> po = port \<longrightarrow> fo = folder \<longrightarrow> cr = credential \<longrightarrow>
        I server refs n l s \<longrightarrow> ?goal (fst y) (snd y)"
      and body: "(case ingest_window env' (acc_id ac) (fld_id fo) server refs n s of
        (Err e, s1) \<Rightarrow> Some (Err e, s1)
      | (Ok (refs', n'), s1) \<Rightarrow>
          (let l' = advance_last_seen l server in
           if \<not> fs_has_more server then Some (Ok (server, n', l'), s1)
           else
             (case fetch_from env' ac po cr (fld_name fo) (saturating_add_u32 (fs_window_hi server) 1) s1 of
                (Err e, s2) \<Rightarrow> Some (Err e, s2)
              | (Ok server', s2) \<Rightarrow> drain env' ac po fo cr server' refs' n' l' s2))) = Some y"
      and same: "env' = env" "ac = account" "po = port" "fo = folder" "cr = credential"
      and I: "I server refs n l s"
    obtain r1 s1 where w: "ingest_window env (acc_id account) (fld_id folder) server refs n s = (r1, s1)"
      by fastforce
    show "?goal (fst y) (snd y)"
    proof (cases r1)
      case (Inl e)
      with body w same show ?thesis using ingest_fails [OF I] by auto
    next
      case (Inr out)
      obtain refs' n' where out: "out = (refs', n')" by fastforce
      have J: "J server refs' n' (advance_last_seen l server) s1" using ingests [OF I] w Inr out by simp
      obtain r2 s2 where f: "fetch_from env account port credential (fld_name folder)
          (saturating_add_u32 (fs_window_hi server) 1) s1 = (r2, s2)" by fastforce
      show ?thesis
        using body w same Inr out f J IH fetch_fails [OF J] fetches [OF J]
        by (cases r2) (auto simp: Let_def split: if_splits)
    qed
  qed
  from this [OF run] init show ?thesis by (auto split: sum.splits)
qed

subsection \<open>The contract of the ingesting loop\<close>

text \<open>
  \<open>P\<close> is kept by every statement of the loop, and \<open>E\<close> holds wherever it stops with an error, the
  deletion of the half-inserted message included.
\<close>

locale ingest_contract =
  fixes P E :: "store \<Rightarrow> bool"
  assumes thread_kept: "P st \<Longrightarrow> threads_create a x sub i now st = Ok (t, st') \<Longrightarrow> P st'"
    and message_kept: "P st \<Longrightarrow> messages_create n i now st = Ok (m, st') \<Longrightarrow> P st'"
    and attachment_kept: "P st \<Longrightarrow> attachments_create na i now st = Ok (b, st') \<Longrightarrow> P st'"
    and touch_kept: "P st \<Longrightarrow> P (threads_touch_last_message_at i now st)"
    and refresh_kept: "P st \<Longrightarrow> P (threads_refresh_aggregates i st)"
    and stopped: "P st \<Longrightarrow> E st"
    and undone: "P st \<Longrightarrow> E (snd (messages_delete i st))"
begin

abbreviation holds :: "'w sync_state \<Rightarrow> bool" where
  "holds s \<equiv> P (ys_store s)"

abbreviation stops :: "'w sync_state \<Rightarrow> bool" where
  "stops s \<equiv> E (ys_store s)"

lemma keep_utc_now: "triple holds (utc_now env) (\<lambda>_. holds) stops"
  by (simp add: triple_def utc_now_def Let_def split: prod.splits)

lemma keep_date_or_now: "triple holds (date_or_now env d) (\<lambda>_. holds) stops"
  unfolding date_or_now_def by (cases d) (auto intro: keep_utc_now triple_ok)

lemma keep_insert:
  assumes "\<And>i now st r st'. P st \<Longrightarrow> q i now st = Ok (r, st') \<Longrightarrow> P st'"
  shows "triple holds (db_insert env q) (\<lambda>_. holds) stops"
  unfolding triple_def db_insert_def using assms stopped
  by (fastforce split: prod.splits sum.splits)

lemma keep_run:
  assumes "\<And>st. P st \<Longrightarrow> P (snd (q st))"
  shows "triple holds (db_run q) (\<lambda>_. holds) stops"
  unfolding triple_def db_run_def Let_def using assms
  by (auto split: prod.splits) (metis snd_conv)

lemma keep_read: "triple holds (db_read q) (\<lambda>_. holds) stops"
  by (simp add: triple_def db_read_def)

lemma keep_publish: "triple holds (publish topic payload) (\<lambda>_. holds) stops"
  by (simp add: triple_def publish_def)

lemma keep_fetch: "triple holds (fetch_from env account port credential name u) (\<lambda>_. holds) stops"
  using stopped by (auto simp: triple_def fetch_from_def split: prod.splits sum.splits)

lemma keep_give: "triple holds (sync_give r) (\<lambda>_. holds) stops"
  using stopped by (auto simp: triple_def sync_give_def split: sum.splits)

lemma persist_from_keeps:
  "P st \<Longrightarrow> persist_from env dir i k as stored st w = (r, st', w') \<Longrightarrow> P st'"
proof (induction env dir i k as stored st w rule: persist_from.induct)
  case (2 env dir i k a as stored st w)
  then show ?case
    by (auto simp: Let_def split: if_splits prod.splits sum.splits dest: attachment_kept)
qed simp

lemma keep_attachments: "triple holds (store_attachments env i as) (\<lambda>_. holds) stops"
  unfolding triple_def store_attachments_def persist_parsed_for_message_def
  by (auto split: prod.splits sum.splits if_splits dest: persist_from_keeps intro: undone)

lemma keep_thread: "triple holds (db_insert env (threads_create a x sub)) (\<lambda>_. holds) stops"
  by (rule keep_insert) (rule thread_kept)

lemma keep_message: "triple holds (db_insert env (messages_create n)) (\<lambda>_. holds) stops"
  by (rule keep_insert) (rule message_kept)

lemmas keep_steps =
  keep_utc_now keep_date_or_now keep_read keep_publish keep_fetch keep_give keep_attachments
  keep_thread keep_message

lemma keep_pick_thread: "triple holds (pick_thread env a f p refs) (\<lambda>_. holds) stops"
  unfolding pick_thread_def
  by (intro triple_bind [OF keep_utc_now])
     (auto intro!: triple_bind [where R = "\<lambda>_. holds"] keep_steps split: ThreadMatch.splits)

lemma keep_insert_message: "triple holds (insert_message env a fld f p refs) (\<lambda>_. holds) stops"
  unfolding insert_message_def
  by (rule triple_bind [OF keep_pick_thread], clarify)
     (intro triple_bind [where R = "\<lambda>_. holds"] keep_steps keep_run; simp add: touch_kept refresh_kept)

lemma keep_ingest_messages: "triple holds (ingest_messages env a fld already ms refs n) (\<lambda>_. holds) stops"
proof (induction ms arbitrary: refs n)
  case (Cons m ms)
  then show ?case
    by (auto intro!: triple_bind [OF keep_insert_message] split: sum.splits)
qed (simp add: keep_give)

lemma keep_ingest_window: "triple holds (ingest_window env a fld server refs n) (\<lambda>_. holds) stops"
  unfolding ingest_window_def by (intro triple_bind [OF keep_read] keep_ingest_messages)

lemma keep_load_thread_refs: "triple holds (load_thread_refs env a) (\<lambda>_. holds) stops"
proof -
  have "triple holds (load_thread_refs_from env pairs ts) (\<lambda>_. holds) stops" for env :: "'w sync_env" and pairs ts
    by (induction ts) (auto intro!: triple_bind [where R = "\<lambda>_. holds"] keep_steps)
  then show ?thesis unfolding load_thread_refs_def by (intro triple_bind [where R = "\<lambda>_. holds"] keep_steps)
qed

lemma keep_drain_windows:
  assumes "drain_windows env account port folder credential server refs n last_seen s = Some (r, s')" and "holds s"
  shows "if isl r then stops s' else holds s'"
proof -
  have "case r of Err _ \<Rightarrow> stops s' | Ok (server', n', l') \<Rightarrow> \<not> fs_has_more server' \<and> (\<exists>refs'::ThreadRef list. holds s')"
    by (rule drain_windows_rule [OF assms(1), where I = "\<lambda>_ _ _ _. holds" and J = "\<lambda>_ _ _ _. holds"])
       (use assms(2) in \<open>auto dest: tripleD [OF keep_ingest_window] tripleD [OF keep_fetch]\<close>)
  then show ?thesis by (auto split: sum.splits)
qed

end

text \<open>With the wipe of a folder whose UIDVALIDITY changed.\<close>

locale resync_contract = ingest_contract +
  assumes wipe_kept: "P st \<Longrightarrow> P (snd (delete_all_in_folder i st))"
begin

lemma keep_open_folder: "triple holds (open_folder env account port folder credential) (\<lambda>_. holds) stops"
  unfolding open_folder_def
  by (rule triple_bind [OF keep_fetch])
     (auto intro!: triple_bind [where R = "\<lambda>_. holds"] keep_steps keep_run wipe_kept)

text \<open>Everything before the bookkeeping at the end.\<close>

lemma reconcile_cases:
  assumes "reconcile_folder env account_id name credential s = Some (r, s')" and "holds s"
  obtains (halted) e where "r = Err e" and "stops s'"
  | (ended) account folder port server resync wiped refs s1 s2 server' n l s3
    where "resolve_folder account_id name credential (ys_store s) = Ok (account, folder, port)"
      and "open_folder env account port folder credential s = (Ok (server, resync, wiped), s1)"
      and "load_thread_refs env account_id s1 = (Ok refs, s2)"
      and "drain_windows env account port folder credential server refs 0
             (if resync then None else fld_last_seen_uid folder) s2 = Some (Ok (server', n, l), s3)"
      and "holds s3" and "finish_sync env account folder server' n wiped resync l s3 = (r, s')"
proof (cases "resolve_folder account_id name credential (ys_store s)")
  case (Inl e)
  then show ?thesis using assms stopped that(1) by (auto simp: reconcile_folder_def)
next
  case (Inr found)
  obtain account folder port where found: "found = (account, folder, port)" by (cases found) auto
  obtain r1 s1 where o: "open_folder env account port folder credential s = (r1, s1)" by fastforce
  show ?thesis
  proof (cases r1)
    case (Inl e)
    then show ?thesis
      using assms Inr found o that(1) tripleD(2) [OF keep_open_folder assms(2)] by (auto simp: reconcile_folder_def)
  next
    case opened: (Inr out)
    obtain server resync wiped where out: "out = (server, resync, wiped)" by (cases out) auto
    have s1: "holds s1" using tripleD(1) [OF keep_open_folder assms(2)] o opened by blast
    obtain r2 s2 where t: "load_thread_refs env account_id s1 = (r2, s2)" by fastforce
    show ?thesis
    proof (cases r2)
      case (Inl e)
      then show ?thesis
        using assms Inr found o opened out t that(1) tripleD(2) [OF keep_load_thread_refs s1]
        by (auto simp: reconcile_folder_def)
    next
      case loaded: (Inr refs)
      have s2: "holds s2" using tripleD(1) [OF keep_load_thread_refs s1] t loaded by blast
      let ?run = "drain_windows env account port folder credential server refs 0
             (if resync then None else fld_last_seen_uid folder) s2"
      have head: "Inr (account, folder, port) = resolve_folder account_id name credential (ys_store s)"
        using Inr found by simp
      obtain r3 s3 where d: "?run = Some (r3, s3)"
        using assms(1) Inr found o opened out t loaded by (cases ?run) (auto simp: reconcile_folder_def)
      have s3: "if isl r3 then stops s3 else holds s3" using keep_drain_windows [OF d s2] .
      show ?thesis
      proof (cases r3)
        case (Inl e)
        then show ?thesis
          using assms(1) Inr found o opened out t loaded d s3 that(1) by (auto simp: reconcile_folder_def)
      next
        case drained: (Inr res)
        obtain server' n l where res: "res = (server', n, l)" by (cases res) auto
        show ?thesis
          by (rule that(2) [OF head [symmetric] o [unfolded opened out] t [unfolded loaded] d [unfolded drained res]])
             (use assms(1) Inr found o opened out t loaded d drained res s3 in \<open>simp_all add: reconcile_folder_def\<close>)
      qed
    qed
  qed
qed

end

text \<open>With the bookkeeping at the end.\<close>

locale sync_contract = resync_contract +
  assumes cursor_kept: "P st \<Longrightarrow> P (folders_update_uid_state i v u l st)"
    and status_kept: "P st \<Longrightarrow> P (accounts_update_sync i status err t now st)"
begin

lemma keep_finish_sync: "triple holds (finish_sync env account folder server n wiped resync l) (\<lambda>_. holds) stops"
  unfolding finish_sync_def Let_def
  by (intro triple_bind [where R = "\<lambda>_. holds"] keep_steps keep_run)
     (auto intro: keep_publish keep_give cursor_kept status_kept)

lemma reconcile_keeps:
  assumes "reconcile_folder env account_id name credential s = Some (r, s')" and "holds s"
  shows "holds s' \<or> stops s'"
  using assms
proof (cases rule: reconcile_cases)
  case (ended account folder port server resync wiped refs s1 s2 server' n l s3)
  then show ?thesis using tripleD [OF keep_finish_sync \<open>holds s3\<close>] by (cases r) blast+
qed blast

end

subsection \<open>The contracts hold\<close>

interpretation schema: sync_contract db_wf db_wf
  by unfold_locales (auto intro: store_wf)

lemma delete_messages_frame:
  assumes "db_wf st"
  shows "folders (cascade (st\<lparr>messages := ms\<rparr>)) = folders st" "accounts (cascade (st\<lparr>messages := ms\<rparr>)) = accounts st"
  using assms by (auto simp: cascade_def Let_def db_wf_def references_def live_id)

lemma insert_frame:
  "threads_create a x sub i now st = Ok (t, st') \<Longrightarrow> folders st' = folders st \<and> accounts st' = accounts st"
  "messages_create n i now st = Ok (m, st') \<Longrightarrow> folders st' = folders st \<and> accounts st' = accounts st"
  "attachments_create na i now st = Ok (b, st') \<Longrightarrow> folders st' = folders st \<and> accounts st' = accounts st"
  by (auto simp: threads_create_def messages_create_def attachments_create_def Let_def split: if_splits)

lemma thread_update_frame [simp]:
  "folders (threads_touch_last_message_at i now st) = folders st"
  "accounts (threads_touch_last_message_at i now st) = accounts st"
  "folders (threads_refresh_aggregates i st) = folders st"
  "accounts (threads_refresh_aggregates i st) = accounts st"
  by (simp_all add: threads_touch_last_message_at_def threads_refresh_aggregates_def)

interpretation cursor: resync_contract
  "\<lambda>st. db_wf st \<and> folders st = F \<and> accounts st = A" "\<lambda>st. db_wf st \<and> folders st = F \<and> accounts st = A"
  for F A
proof (unfold_locales, goal_cases)
  case (1 st a x sub i now t st')
  then show ?case using insert_frame(1) threads_create_wf by metis
next
  case (2 st n i now m st')
  then show ?case using insert_frame(2) messages_create_wf by metis
next
  case (3 st na i now b st')
  then show ?case using insert_frame(3) attachments_create_wf by metis
qed (auto simp: threads_touch_wf threads_refresh_aggregates_wf delete_wf messages_delete_def
       delete_all_in_folder_def delete_messages_frame
       intro: delete_wf(2,3) [unfolded messages_delete_def delete_all_in_folder_def snd_conv])

interpretation present: ingest_contract "\<lambda>st. k \<in> message_key ` set (messages st)" "\<lambda>_. True" for k
  by unfold_locales
     (auto simp: threads_create_def messages_create_def attachments_create_def threads_touch_last_message_at_def
        threads_refresh_aggregates_def Let_def split: if_splits)

end
