(* ===== verification/ReconcilerSync.thy ===== *)
theory ReconcilerSync
  imports ReconcilerInv
begin

text \<open>
  The theorems about reconciling: it returns, it keeps the schema, a failed run leaves the folder
  cursor alone, a successful run has ingested every message of the mailbox above the cursor; and
  two ways in which a folder can stay stuck.
\<close>

subsection \<open>It returns\<close>

text \<open>The production \<^verbatim>\<open>ImapSync\<close>: a connection per call, whatever the network does at that moment.\<close>

definition connector_auth ::
  "unicode \<Rightarrow> ('w \<Rightarrow> 'c imap_net) \<Rightarrow> ('w \<Rightarrow> 'w)
   \<Rightarrow> rstr \<Rightarrow> nat \<Rightarrow> rstr \<Rightarrow> MailCredential \<Rightarrow> rstr \<Rightarrow> u32 \<Rightarrow> 'w \<Rightarrow> (ImapError, FolderSync) result \<times> 'w" where
  "connector_auth uc net tick host port username credential folder from_uid w =
     (sync_folder uc (net w) host port username credential folder from_uid, tick w)"

definition ends_at :: "FolderSync \<Rightarrow> nat" where
  "ends_at server = (if fs_has_more server then 4294967296 - unat (fs_window_hi server) else 0)"

lemma connector_fetch_progress:
  assumes "imap_sync env = connector_auth uc net tick"
    and "fetch_from env account port credential name lo s = (Ok server, s')"
  shows "fs_has_more server \<Longrightarrow> lo \<le> fs_window_hi server \<and> fs_window_hi server < - 1"
  using assms
  by (auto simp: fetch_from_def connector_auth_def result_simps split: prod.splits
      dest: connector_sync.window_progress)

lemma drain_windows_returns:
  assumes env: "imap_sync env = connector_auth uc net tick"
    and "fs_has_more server \<Longrightarrow> fs_window_hi server < - 1"
  shows "\<exists>out. drain_windows env account port folder credential server refs n l s = Some out"
  using assms(2)
proof (induction "ends_at server" arbitrary: server refs n l s rule: less_induct)
  case less
  obtain r1 s1 where w: "ingest_window env (acc_id account) (fld_id folder) server refs n s = (r1, s1)" by fastforce
  obtain r2 s2 where f: "fetch_from env account port credential (fld_name folder)
      (saturating_add_u32 (fs_window_hi server) 1) s1 = (r2, s2)" by fastforce
  show ?case
  proof (cases "\<exists>server'. r2 = Ok server' \<and> fs_has_more server")
    case True
    then obtain server' where r2: "r2 = Ok server'" and m: "fs_has_more server" by blast
    have p: "fs_has_more server' \<Longrightarrow> saturating_add_u32 (fs_window_hi server) 1 \<le> fs_window_hi server' \<and>
        fs_window_hi server' < - 1"
      using connector_fetch_progress [OF env f [unfolded r2]] .
    have "ends_at server' < ends_at server"
      using p m less.prems unat_u32_le [of "fs_window_hi server"]
      by (auto simp: ends_at_def u32_arith)
    from less.hyps [OF this] p
    have "\<exists>out. drain_windows env account port folder credential server' refs' n' l' s2 = Some out" for refs' n' l'
      by blast
    then show ?thesis
      by (subst drain_windows.simps) (use w f r2 m in \<open>auto simp: Let_def split: sum.splits prod.splits\<close>)
  next
    case False
    then show ?thesis
      by (subst drain_windows.simps) (use w f in \<open>auto simp: Let_def split: sum.splits prod.splits if_splits\<close>)
  qed
qed

lemma open_folder_progress:
  assumes "imap_sync env = connector_auth uc net tick"
    and "open_folder env account port folder credential s = (Ok (server, resync, wiped), s')"
  shows "fs_has_more server \<Longrightarrow> fs_window_hi server < - 1"
  using assms(2) connector_fetch_progress [OF assms(1)]
  by (auto simp: open_folder_def sync_bind_def sync_give_def split: prod.splits sum.splits if_splits)

lemma reconcile_folder_total:
  assumes "imap_sync env = connector_auth uc net tick"
  shows "\<exists>r s'. reconcile_folder env account_id name credential s = Some (r, s')"
proof (cases "resolve_folder account_id name credential (ys_store s)")
  case (Inl e)
  then show ?thesis by (simp add: reconcile_folder_def)
next
  case (Inr found)
  obtain account folder port where found: "found = (account, folder, port)" by (cases found) auto
  obtain r1 s1 where o: "open_folder env account port folder credential s = (r1, s1)" by fastforce
  show ?thesis
  proof (cases r1)
    case (Inl e)
    then show ?thesis using Inr found o by (simp add: reconcile_folder_def)
  next
    case opened: (Inr out)
    obtain server resync wiped where out: "out = (server, resync, wiped)" by (cases out) auto
    have "fs_has_more server \<Longrightarrow> fs_window_hi server < - 1"
      using open_folder_progress [OF assms] o opened out by simp
    note drain = drain_windows_returns [OF assms this]
    obtain r2 s2 where t: "load_thread_refs env account_id s1 = (r2, s2)" by fastforce
    show ?thesis
    proof (cases r2)
      case (Inl e)
      then show ?thesis using Inr found o opened out t by (simp add: reconcile_folder_def)
    next
      case loaded: (Inr refs)
      obtain r3 s3 where d: "drain_windows env account port folder credential server refs 0
          (if resync then None else fld_last_seen_uid folder) s2 = Some (r3, s3)"
        using drain by (metis surj_pair)
      show ?thesis
        using Inr found o opened out t loaded d
        by (cases r3) (auto simp: reconcile_folder_def)
    qed
  qed
qed


subsection \<open>What it keeps\<close>

text \<open>
  Reconciling keeps every schema constraint of the database (unique keys, foreign keys),
  whether it succeeds or stops with an error half-way.
\<close>

theorem reconcile_keeps_schema:
  assumes "db_wf (ys_store s)" and "reconcile_folder env account_id name credential s = Some (r, s')"
  shows "db_wf (ys_store s')"
  using schema.reconcile_keeps [OF assms(2,1)] by simp

lemma finish_sync_Ok: "\<exists>rep s'. finish_sync env account folder server n wiped resync l s = (Ok rep, s')"
  by (auto simp: finish_sync_def Let_def sync_bind_def sync_give_def db_run_def utc_now_def publish_def
      split: prod.splits)

lemma reconcile_error_frame:
  assumes "db_wf (ys_store s)"
    and "reconcile_folder env account_id name credential s = Some (Err e, s')"
  shows "folders (ys_store s') = folders (ys_store s) \<and> accounts (ys_store s') = accounts (ys_store s)"
proof -
  let ?F = "folders (ys_store s)" and ?A = "accounts (ys_store s)"
  have "db_wf (ys_store s) \<and> folders (ys_store s) = ?F \<and> accounts (ys_store s) = ?A" using assms(1) by simp
  from assms(2) this show ?thesis
  proof (cases rule: cursor.reconcile_cases)
    case (ended account folder port server resync wiped refs s1 s2 server' n l s3)
    with finish_sync_Ok [of env account folder server' n wiped resync l s3] show ?thesis by auto
  qed simp
qed


subsection \<open>What a successful run has ingested\<close>

definition ingestible :: "'w sync_env \<Rightarrow> FetchedMessage \<Rightarrow> bool" where
  "ingestible env m \<longleftrightarrow> fm_raw m \<noteq> [] \<and> sync_decoder env (fm_raw m) \<noteq> None"

definition has_message :: "uuid \<Rightarrow> u32 \<Rightarrow> store \<Rightarrow> bool" where
  "has_message folder_id u st \<longleftrightarrow> (folder_id, uid_i64 u) \<in> message_key ` set (messages st)"

definition serves :: "'w sync_env \<Rightarrow> u32 option \<Rightarrow> u32 \<Rightarrow> FetchedMessage list \<Rightarrow> bool" where
  "serves env v n box \<longleftrightarrow>
     (\<forall>h p u c f lo w. fst (imap_sync env h p u c f lo w) = Ok (window_of v n box lo))"

lemma triple_top: "triple P m (\<lambda>_ _. True) (\<lambda>_. True)"
  by (simp add: triple_def split: prod.splits sum.splits)

lemma insert_row_present:
  "triple (\<lambda>_. True) (db_insert env (messages_create (build_message_row a fld t f p d)))
     (\<lambda>_ s. has_message fld (fm_uid f) (ys_store s)) (\<lambda>_. True)"
  by (auto simp: triple_def db_insert_def messages_create_def Let_def has_message_def message_key_def
      message_row_def build_message_row_def split: prod.splits sum.splits if_splits)

lemma insert_message_present:
  "triple (\<lambda>_. True) (insert_message env a fld f p refs) (\<lambda>_ s. has_message fld (fm_uid f) (ys_store s)) (\<lambda>_. True)"
proof -
  note keep = present.keep_steps [of "(fld, uid_i64 (fm_uid f))", folded has_message_def]
  show ?thesis
    unfolding insert_message_def
    by (rule triple_bind [OF triple_top], clarify, rule triple_bind [OF triple_top],
        rule triple_bind [OF insert_row_present])
       (intro triple_bind [where R = "\<lambda>_ s. has_message fld (fm_uid f) (ys_store s)"] keep
          present.keep_run [where k = "(fld, uid_i64 (fm_uid f))", folded has_message_def];
        simp add: has_message_def threads_touch_last_message_at_def threads_refresh_aggregates_def)
qed

lemma ingest_messages_complete:
  assumes "ingest_messages env a fld already ms refs n s = (Ok out, s')"
    and "m \<in> set ms" and "ingestible env m"
    and "uid_i64 (fm_uid m) \<in> set already \<Longrightarrow> has_message fld (fm_uid m) (ys_store s)"
  shows "has_message fld (fm_uid m) (ys_store s')"
  using assms
proof (induction ms arbitrary: refs n s)
  case (Cons x ms)
  note kept = tripleD(1) [OF present.keep_ingest_messages [of "(fld, uid_i64 (fm_uid m))", folded has_message_def]]
    and kept1 = tripleD(1) [OF present.keep_insert_message [of "(fld, uid_i64 (fm_uid m))", folded has_message_def]]
  show ?case
  proof (cases "uid_i64 (fm_uid x) \<in> set already \<or> fm_raw x = [] \<or> sync_decoder env (fm_raw x) = None")
    case True
    have rest: "ingest_messages env a fld already ms refs n s = (Ok out, s')"
      using Cons.prems(1) True by (auto simp: parse_with_options_def split: if_splits)
    show ?thesis
    proof (cases "m = x")
      case True
      then show ?thesis using Cons.prems(3,4) \<open>_ \<or> _\<close> kept [OF _ rest] by (auto simp: ingestible_def)
    qed (use Cons rest in auto)
  next
    case False
    then obtain p where p: "parse_with_options (sync_decoder env) (fm_raw x) False = Ok p"
      by (auto simp: parse_with_options_def)
    with Cons.prems(1) False obtain refs' s1 where i: "insert_message env a fld x p refs s = (Ok refs', s1)"
      and rest: "ingest_messages env a fld already ms refs' (n + 1) s1 = (Ok out, s')"
      by (auto simp: sync_bind_def split: prod.splits sum.splits)
    show ?thesis
    proof (cases "m = x")
      case True
      then show ?thesis using tripleD(1) [OF insert_message_present _ i] kept [OF _ rest] by simp
    next
      case False
      then show ?thesis using Cons.prems Cons.IH [OF rest] kept1 [OF _ i] by auto
    qed
  qed
qed simp

lemma ingest_window_complete:
  assumes "ingest_window env a fld server refs n s = (Ok out, s')" and "m \<in> set (fs_messages server)"
    and "ingestible env m"
  shows "has_message fld (fm_uid m) (ys_store s')"
proof -
  let ?already = "existing_uids fld (map (uid_i64 \<circ> fm_uid) (fs_messages server)) (ys_store s)"
  have "ingest_messages env a fld ?already (fs_messages server) refs n s = (Ok out, s')"
    using assms(1) by (simp add: ingest_window_def sync_bind_def db_read_def)
  from ingest_messages_complete [OF this assms(2,3)] show ?thesis
    by (auto simp: existing_uids_def has_message_def message_key_def image_iff)
qed

lemma sql_max_Max: "xs \<noteq> [] \<Longrightarrow> sql_max xs = Some (Max (set xs))"
proof -
  have "foldr max xs x = Max (insert x (set xs))" for x
    by (induction xs) (auto simp: max.commute max.left_commute Max_insert2 insert_commute)
  then show "xs \<noteq> [] \<Longrightarrow> ?thesis" by (simp add: sql_max_def insert_absorb)
qed

lemma sql_max_in: "sql_max xs = Some y \<Longrightarrow> y \<in> set xs"
  by (cases "xs = []") (auto simp: sql_max_Max sql_max_def [of "[]"])

lemma advance_last_seen_bounds:
  assumes "advance_last_seen l server = Some x"
  shows "uid_i64 (fs_window_hi server) \<le> x"
    and "(\<And>y. l = Some y \<Longrightarrow> y \<le> b) \<Longrightarrow> (\<And>m. m \<in> set (fs_messages server) \<Longrightarrow> uid_i64 (fm_uid m) \<le> b) \<Longrightarrow>
         uid_i64 (fs_window_hi server) \<le> b \<Longrightarrow> x \<le> b"
    and "l = Some y \<Longrightarrow> y \<le> x"
  using assms
  by (auto simp: advance_last_seen_def sql_max_Max List.map_filter_def
      split: option.splits if_splits dest!: sql_max_in)

lemma advance_last_seen_Some: "\<exists>x. advance_last_seen l server = Some x"
  by (simp add: advance_last_seen_def sql_max_Max List.map_filter_def)

lemma serves_fetch:
  assumes "serves env v n box" and "fetch_from env account port credential name lo s = (r, s')"
  shows "r = Ok (window_of v n box lo)" and "ys_store s' = ys_store s"
  using assms by (auto simp: serves_def fetch_from_def split: prod.splits) (metis fst_conv map_err.simps(2))

text \<open>A window of the mailbox: the UIDs it covers, and where it ends.\<close>

lemma window_of_facts:
  fixes v n box lo
  defines "r \<equiv> window_of v n box lo"
  shows "m \<in> set box \<Longrightarrow> max lo 1 \<le> fm_uid m \<Longrightarrow> fm_uid m \<le> fs_window_hi r \<Longrightarrow> m \<in> set (fs_messages r)"
    and "m \<in> set (fs_messages r) \<Longrightarrow> fm_uid m \<le> fs_window_hi r"
    and "fs_window_hi r \<le> saturating_sub_u32 n 1"
    and "\<not> fs_has_more r \<Longrightarrow> fs_window_hi r = saturating_sub_u32 n 1"
    and "fs_uid_validity r = v"
  unfolding r_def window_of_def Let_def by (auto simp: not_less split: if_splits)

text \<open>The loop has covered the mailbox up to the end of the current window.\<close>

definition covered ::
  "'w sync_env \<Rightarrow> u32 option \<Rightarrow> u32 \<Rightarrow> FetchedMessage list \<Rightarrow> uuid \<Rightarrow> u32 \<Rightarrow> (u32 \<Rightarrow> bool) \<Rightarrow> store \<Rightarrow> bool" where
  "covered env v n box fld base seen st \<longleftrightarrow>
     (\<forall>m\<in>set box. ingestible env m \<longrightarrow> base \<le> fm_uid m \<longrightarrow> seen (fm_uid m) \<longrightarrow> has_message fld (fm_uid m) st)"

lemma drain_windows_complete:
  assumes srv: "serves env v n box" and box: "mailbox_wf n box"
    and run: "drain_windows env account port folder credential (window_of v n box base) refs k l s
                = Some (Ok (server', k', l'), s')"
    and low: "\<And>y. l = Some y \<Longrightarrow> y \<le> uid_i64 (saturating_sub_u32 n 1)"
  shows "covered env v n box (fld_id folder) base (\<lambda>_. True) (ys_store s') \<and>
         l' = Some (uid_i64 (saturating_sub_u32 n 1)) \<and> (\<exists>lo. server' = window_of v n box lo)"
proof -
  let ?top = "saturating_sub_u32 n 1" and ?fld = "fld_id folder"
  let ?I = "\<lambda>server refs k l s. \<exists>lo. server = window_of v n box lo \<and>
      covered env v n box ?fld base (\<lambda>u. u < max lo 1) (ys_store s) \<and> (\<forall>y. l = Some y \<longrightarrow> y \<le> uid_i64 ?top)"
  let ?J = "\<lambda>server refs k l s. (\<exists>lo. server = window_of v n box lo) \<and>
      covered env v n box ?fld base (\<lambda>u. u \<le> fs_window_hi server) (ys_store s) \<and>
      (\<exists>y. l = Some y \<and> uid_i64 (fs_window_hi server) \<le> y \<and> y \<le> uid_i64 ?top)"
  have le: "uid_i64 a \<le> uid_i64 b \<longleftrightarrow> a \<le> b" for a b by (simp add: uid_i64_def word_le_def)
  have "case Inr (server', k', l') of Inl (e::SyncError) \<Rightarrow> True
        | Inr (server', k', l') \<Rightarrow> \<not> fs_has_more server' \<and> (\<exists>refs'::ThreadRef list. ?J server' refs' k' l' s')"
  proof (rule drain_windows_rule [OF run, where I = ?I and J = ?J and F = "\<lambda>_. True"], goal_cases)
    case 1
    have "covered env v n box ?fld base (\<lambda>u. u < max base 1) (ys_store s)"
      using box unfolding covered_def mailbox_wf_def by (auto simp: max_def split: if_splits)
    then show ?case using low by blast
  next
    case (3 server refs k l s refs' k' s1)
    then obtain lo where lo: "server = window_of v n box lo"
      and cov: "covered env v n box ?fld base (\<lambda>u. u < max lo 1) (ys_store s)" by blast
    have "has_message ?fld (fm_uid m) (ys_store s1)"
      if "m \<in> set box" "ingestible env m" "base \<le> fm_uid m" "fm_uid m \<le> fs_window_hi server" for m
    proof (cases "fm_uid m < max lo 1")
      case True
      with cov that have "has_message ?fld (fm_uid m) (ys_store s)" by (simp add: covered_def)
      then show ?thesis
        using tripleD(1) [OF present.keep_ingest_window [of "(?fld, uid_i64 (fm_uid m))", folded has_message_def] _ 3(2)]
        by simp
    next
      case False
      with that lo have "m \<in> set (fs_messages server)" using window_of_facts(1) by (metis not_less)
      then show ?thesis using ingest_window_complete [OF 3(2)] that by blast
    qed
    moreover obtain y where y: "advance_last_seen l server = Some y" using advance_last_seen_Some by blast
    moreover have "fm_uid m \<le> ?top" if "m \<in> set (fs_messages server)" for m
      using window_of_facts(2) [of m v n box lo] window_of_facts(3) [of v n box lo] that lo by auto
    ultimately show ?case
      using lo 3(1) window_of_facts(3) [of v n box lo] advance_last_seen_bounds [OF y] le
      unfolding covered_def by (metis (no_types, lifting))
  next
    case (5 server refs k l s1 server2 s2)
    note f = serves_fetch [OF srv 5(3)]
    have "covered env v n box ?fld base (\<lambda>u. u < max (saturating_add_u32 (fs_window_hi server) 1) 1) (ys_store s2)"
      using 5(1) f(2) unfolding covered_def by (auto simp: u32_arith)
    then show ?case using f(1) 5(1) by auto
  qed simp_all
  then have fin: "\<not> fs_has_more server'" and J: "?J server' refs k' l' s'" by simp_all
  then have "fs_window_hi server' = ?top" using window_of_facts(4) by blast
  with J show ?thesis using box by (auto simp: covered_def mailbox_wf_def u32_arith)
qed

definition start_uid :: "Folder \<Rightarrow> u32 option \<Rightarrow> u32 \<Rightarrow> FetchedMessage list \<Rightarrow> u32" where
  "start_uid folder v n box =
     (if needs_full_resync folder (window_of v n box 1) then 1 else first_uid (fld_last_seen_uid folder))"

lemma open_folder_serves:
  assumes "serves env v n box"
    and "open_folder env account port folder credential s = (Ok (server, resync, wiped), s')"
  shows "server = window_of v n box (start_uid folder v n box) \<and>
         resync = needs_full_resync folder (window_of v n box 1)"
proof -
  have v: "needs_full_resync folder (window_of v n box lo) = needs_full_resync folder (window_of v n box 1)" for lo
    by (simp add: needs_full_resync_def window_of_facts(5))
  let ?fetch = "fetch_from env account port credential (fld_name folder)"
  have fetch: "?fetch lo t = (Ok (window_of v n box lo), snd (?fetch lo t))" for lo t
    using serves_fetch(1) [OF assms(1)] by (metis prod.collapse)
  define s1 where "s1 = snd (?fetch (first_uid (fld_last_seen_uid folder)) s)"
  have first: "?fetch (first_uid (fld_last_seen_uid folder)) s
      = (Ok (window_of v n box (first_uid (fld_last_seen_uid folder))), s1)"
    using fetch s1_def by simp
  define s2 where "s2 = s1\<lparr>ys_store := snd (delete_all_in_folder (fld_id folder) (ys_store s1))\<rparr>"
  have wipe: "db_run (delete_all_in_folder (fld_id folder)) s1
      = (Ok (fst (delete_all_in_folder (fld_id folder) (ys_store s1))), s2)"
    by (simp add: db_run_def Let_def s2_def case_prod_unfold)
  define s3 where "s3 = snd (?fetch 1 s2)"
  have second: "?fetch 1 s2 = (Ok (window_of v n box 1), s3)" using fetch s3_def by simp
  from assms(2) show ?thesis
    by (cases "needs_full_resync folder (window_of v n box 1)")
       (simp_all add: open_folder_def sync_bind_def sync_give_def start_uid_def first wipe second
          v [of "first_uid (fld_last_seen_uid folder)"])
qed

lemma finish_sync_frame:
  assumes "finish_sync env account folder server n wiped resync l s = (Ok rep, s')"
  shows "messages (ys_store s') = messages (ys_store s) \<and> rr_last_seen_uid rep = l"
  using assms
  by (auto simp: finish_sync_def Let_def sync_bind_def sync_give_def db_run_def utc_now_def publish_def
      folders_update_uid_state_def accounts_update_sync_def split: prod.splits if_splits)


subsection \<open>How a folder can stay stuck\<close>

definition oversized :: "ParsedEmail \<Rightarrow> bool" where
  "oversized p \<longleftrightarrow> list_ex (\<lambda>a. length (pa_data a) > MAX_ATTACHMENT_BYTES) (pe_attachments p)"

lemma persist_from_small:
  "persist_from env dir i k as stored st w = (Ok rows, st', w') \<Longrightarrow>
   list_all (\<lambda>a. length (pa_data a) \<le> MAX_ATTACHMENT_BYTES) as"
proof (induction env dir i k as stored st w rule: persist_from.induct)
  case (2 env dir i k a as stored st w)
  then show ?case by (auto simp: Let_def split: if_splits prod.splits sum.splits)
qed simp

lemma insert_message_small:
  assumes "insert_message env a fld f p refs s = (Ok refs', s')"
  shows "\<not> oversized p"
proof -
  obtain i t where "\<exists>s2. store_attachments env i (pe_attachments p) t = (Ok (), s2)"
    using assms unfolding insert_message_def sync_bind_def by (auto split: prod.splits sum.splits)
  then have "list_all (\<lambda>a. length (pa_data a) \<le> MAX_ATTACHMENT_BYTES) (pe_attachments p)"
    by (auto simp: store_attachments_def persist_parsed_for_message_def
        split: prod.splits sum.splits if_splits dest!: persist_from_small)
  then show ?thesis by (fastforce simp: oversized_def list_all_iff list_ex_iff)
qed

lemma ingest_messages_small:
  assumes "ingest_messages env a fld already ms refs n s = (Ok out, s')"
    and "m \<in> set ms" and "fm_raw m \<noteq> []" and "uid_i64 (fm_uid m) \<notin> set already"
    and "parse_with_options (sync_decoder env) (fm_raw m) False = Ok p"
  shows "\<not> oversized p"
  using assms
proof (induction ms arbitrary: refs n s)
  case (Cons x ms)
  then show ?case
    by (auto simp: sync_bind_def split: if_splits sum.splits prod.splits dest: insert_message_small)
qed simp

lemma load_thread_refs_frame:
  assumes "load_thread_refs env a s = (r, s')" shows "ys_store s' = ys_store s"
proof -
  have date: "date_or_now env d t = (x, t') \<Longrightarrow> ys_store t' = ys_store t" for d t x t'
    by (auto simp: date_or_now_def utc_now_def sync_give_def Let_def split: option.splits prod.splits)
  have "load_thread_refs_from env pairs ts t = (x, t') \<Longrightarrow> ys_store t' = ys_store t" for pairs ts t x t'
    by (induction ts arbitrary: t x t')
       (auto simp: sync_bind_def sync_give_def split: prod.splits sum.splits dest!: date)
  then show ?thesis using assms by (auto simp: load_thread_refs_def sync_bind_def db_read_def)
qed

lemma wipe_absent:
  "\<not> has_message fld u st \<Longrightarrow> \<not> has_message fld u (snd (delete_all_in_folder i st))"
  by (force simp: has_message_def delete_all_in_folder_def cascade_def Let_def live_def delete_rows_def message_key_def)

lemma fetch_frame: "fetch_from env account port credential name lo s = (r, s') \<Longrightarrow> ys_store s' = ys_store s"
  by (auto simp: fetch_from_def split: prod.splits)

lemma open_folder_absent:
  assumes "open_folder env account port folder credential s = (Ok out, s')" and "\<not> has_message fld u (ys_store s)"
  shows "\<not> has_message fld u (ys_store s')"
  using assms
  by (auto simp: open_folder_def sync_bind_def sync_give_def db_run_def Let_def
      split: prod.splits sum.splits if_splits dest!: fetch_frame)
     (metis snd_conv wipe_absent)

text \<open>
  A new message with an attachment above the 25 MiB limit among the next 500 UIDs makes every
  sync of its folder fail: no run succeeds, and since a failed run leaves the cursor where it
  was, the messages after it never arrive.
\<close>

theorem oversized_attachment_blocks_folder:
  assumes wf: "db_wf (ys_store s)" and srv: "serves env v n box"
    and fld: "folders_get_by_name account_id name (ys_store s) = Some folder"
    and m: "m \<in> set (fs_messages (window_of v n box (start_uid folder v n box)))" "fm_raw m \<noteq> []"
    and new: "\<not> has_message (fld_id folder) (fm_uid m) (ys_store s)"
    and p: "parse_with_options (sync_decoder env) (fm_raw m) False = Ok p" "oversized p"
    and run: "reconcile_folder env account_id name credential s = Some (r, s')"
  shows "isl r \<and> folders (ys_store s') = folders (ys_store s)"
proof -
  have "isl r"
  proof (rule ccontr)
    assume "\<not> isl r"
    then obtain rep where r: "r = Ok rep" by (cases r) auto
    from run wf show False
    proof (cases rule: schema.reconcile_cases)
      case (ended account folder' port server resync wiped refs s1 s2 server' k l s3)
      from ended(1) fld have same: "folder' = folder" by (auto simp: resolve_folder_def result_simps split: if_splits)
      have server: "server = window_of v n box (start_uid folder v n box)"
        using open_folder_serves [OF srv ended(2)] same by simp
      have "\<not> has_message (fld_id folder) (fm_uid m) (ys_store s2)"
        using open_folder_absent [OF ended(2) new] load_thread_refs_frame [OF ended(3)] by simp
      then have "uid_i64 (fm_uid m) \<notin> set (existing_uids (fld_id folder) us (ys_store s2))" for us
        by (auto simp: has_message_def existing_uids_def message_key_def image_iff)
      moreover obtain out s4 where "ingest_window env (acc_id account) (fld_id folder) server refs 0 s2 = (Ok out, s4)"
        using ended(4) same by (subst (asm) drain_windows.simps) (auto split: prod.splits sum.splits)
      ultimately show False
        using ingest_messages_small [OF _ _ m(2) _ p(1)] m(1) p(2) server
        unfolding ingest_window_def sync_bind_def db_read_def by fastforce
    qed (use r in simp)
  qed
  moreover from this obtain e where "r = Err e" by (cases r) auto
  ultimately show ?thesis using reconcile_error_frame wf run by blast
qed

text \<open>
  A message that the thread matcher assigns to no known thread, while a thread with its
  Message-ID as external id exists in the account (a thread emptied by a UIDVALIDITY wipe, or the
  same old message seen in another folder), fails the sync with a unique-constraint error.
\<close>

theorem emptied_thread_blocks_message:
  assumes "\<And>now. assign_thread (sync_unicode env) now parsed refs = New"
    and "pe_message_id parsed = Some h"
    and "t \<in> set (threads (ys_store s))" "thr_account_id t = account_id" "thr_external_id t = Some h"
  shows "\<exists>e s'. insert_message env account_id folder_id fetched parsed refs s = (Err (SyncDb (UniqueViolation e)), s')"
proof -
  have key: "Some (account_id, h) \<in> thread_key ` set (threads (ys_store s))"
    using assms(3-5) by (force simp: thread_key_def)
  have row: "thread_key (thread_row account_id (Some h) sub i now) = Some (account_id, h)" for sub i now
    by (simp add: thread_key_def thread_row_def)
  obtain clock w where c: "sync_clock env (ys_world s) = (clock, w)" by fastforce
  obtain i now w' where d: "draw_row (sync_files env) w = ((i, now), w')" by (metis surj_pair)
  have "\<exists>e. threads_create account_id (Some h) (pe_subject parsed) i now (ys_store s) = Err (UniqueViolation e)"
    using key by (simp add: threads_create_def Let_def row)
  then show ?thesis
    using assms(2) by (auto simp: insert_message_def pick_thread_def sync_bind_def db_insert_def utc_now_def c d assms(1))
qed

subsection \<open>A sample server\<close>

definition sample_mail :: mp_message where
  "sample_mail =
     \<lparr>mp_message_id = Some (lit ''m1@x''), mp_in_reply_to = HEmpty, mp_references = HEmpty,
      mp_from = Some [Some (lit ''a@x'')], mp_to = None, mp_cc = None, mp_subject = Some (lit ''hello''),
      mp_body_text = Some (lit ''hi''), mp_body_html = None, mp_headers = [], mp_parts = []\<rparr>"

definition no_files :: "nat attachment_env" where
  "no_files =
     \<lparr>attachment_root = (\<lambda>_. Ok (lit ''/d'')), uuid_text = show_nat, path_parent = (\<lambda>p. Some p),
      create_dir_all = (\<lambda>_ w. (Ok (), w)), create_new = (\<lambda>_ w. (Ok (), w)), write_all = (\<lambda>_ _ w. (Ok (), w)),
      open_read = (\<lambda>_ _. Err []), utf8 = (\<lambda>_. Err 0), draw_row = (\<lambda>w. ((w, 0), w + 1))\<rparr>"

definition sample_env :: "FetchedMessage list \<Rightarrow> u32 \<Rightarrow> mp_message \<Rightarrow> nat sync_env" where
  "sample_env box n mail =
     \<lparr>imap_sync = (\<lambda>_ _ _ _ _ lo w. (Ok (window_of (Some 1) n box lo), w)), sync_files = no_files,
      sync_unicode = ascii_unicode, sync_decoder = (\<lambda>_. Some mail), sync_clock = (\<lambda>w. (0, w))\<rparr>"

definition sample_account :: Account where
  "sample_account = account_row
     \<lparr>na_email = lit ''me@x'', na_display_name = None, na_auth_kind = Password, na_imap_host = lit ''h'',
      na_imap_port = 993, na_imap_use_tls = True, na_smtp_host = lit ''h'', na_smtp_port = 465,
      na_smtp_use_tls = True, na_smtp_starttls = False\<rparr> 0 0"

definition sample_folder :: Folder where
  "sample_folder = folder_row
     \<lparr>nf_account_id = 0, nf_name = lit ''INBOX'', nf_delimiter = lit ''/'', nf_role = RoleInbox, nf_selectable = True\<rparr> 1 0"

definition sample_state :: "nat sync_state" where
  "sample_state =
     \<lparr>ys_store = empty_store\<lparr>accounts := [sample_account], folders := [sample_folder]\<rparr>,
      ys_world = 10, ys_published = []\<rparr>"

definition sample_fetched :: "u32 \<Rightarrow> FetchedMessage" where
  "sample_fetched u = \<lparr>fm_uid = u, fm_flags = [], fm_internal_date = Some 5, fm_raw = [77]\<rparr>"

lemma sample_serves: "serves (sample_env box n mail) (Some 1) n box"
  by (simp add: serves_def sample_env_def)

lemma sample_steps:
  "utc_now (sample_env box n mail) s = (Ok 0, s)"
  "date_or_now (sample_env box n mail) (Some d) s = (Ok d, s)"
  "db_insert (sample_env box n mail) q s =
     (case q (ys_world s) 0 (ys_store s) of
        Err e \<Rightarrow> (Err (SyncDb e), s\<lparr>ys_world := Suc (ys_world s)\<rparr>)
      | Ok (r, st) \<Rightarrow> (Ok r, s\<lparr>ys_store := st, ys_world := Suc (ys_world s)\<rparr>))"
  "store_attachments env i [] s = (Ok (), s)"
  by (simp_all add: utc_now_def date_or_now_def db_insert_def sample_env_def no_files_def sync_give_def
      store_attachments_def persist_parsed_for_message_def)

lemma assign_thread_none:
  assumes "pe_in_reply_to p = None" and "pe_references p = []"
  shows "assign_thread uc now p [] = New"
  using assms by (simp add: assign_thread_def match_subject_def Let_def split: option.splits)

lemma sample_insert:
  assumes "pe_in_reply_to p = None" "pe_references p = []" "pe_attachments p = []"
  shows "\<exists>refs s'. insert_message (sample_env box n mail) 0 1 (sample_fetched u) p [] sample_state = (Ok refs, s')"
  using assms
  by (simp add: insert_message_def pick_thread_def sync_bind_def sync_give_def sample_steps assign_thread_none
      threads_create_def messages_create_def sample_state_def empty_store_def sample_account_def account_row_def
      sample_folder_def folder_row_def thread_row_def build_message_row_def message_row_def db_run_def publish_def
      sample_fetched_def Let_def)

lemma sample_window:
  "window_of (Some 1) 5 [sample_fetched 3] 1 =
     \<lparr>fs_uid_validity = Some 1, fs_uid_next = Some 5, fs_exists = 1, fs_messages = [sample_fetched 3],
      fs_window_hi = 4, fs_has_more = False\<rparr>"
  by (simp add: window_of_def Let_def saturating_add_u32_def saturating_sub_u32_def sample_fetched_def)

lemma sample_prefix:
  "resolve_folder 0 (lit ''INBOX'') (CredPassword (lit ''s'')) (ys_store sample_state) = Ok (sample_account, sample_folder, 993)"
  "open_folder (sample_env [sample_fetched 3] 5 mail) sample_account 993 sample_folder (CredPassword (lit ''s'')) sample_state
     = (Ok (window_of (Some 1) 5 [sample_fetched 3] 1, False, 0), sample_state)"
  "load_thread_refs (sample_env [sample_fetched 3] 5 mail) 0 sample_state = (Ok [], sample_state)"
proof -
  show "resolve_folder 0 (lit ''INBOX'') (CredPassword (lit ''s'')) (ys_store sample_state)
      = Ok (sample_account, sample_folder, 993)"
    by (simp add: resolve_folder_def credential_is_empty_def accounts_get_def folders_get_by_name_def get_row_def
        folder_key_def port_u16_def sample_state_def sample_account_def sample_folder_def account_row_def folder_row_def)
  show "open_folder (sample_env [sample_fetched 3] 5 mail) sample_account 993 sample_folder (CredPassword (lit ''s'')) sample_state
      = (Ok (window_of (Some 1) 5 [sample_fetched 3] 1, False, 0), sample_state)"
    by (simp add: open_folder_def sync_bind_def sync_give_def fetch_from_def sample_env_def needs_full_resync_def
        sample_folder_def folder_row_def first_uid_def saturating_add_u32_def)
  show "load_thread_refs (sample_env [sample_fetched 3] 5 mail) 0 sample_state = (Ok [], sample_state)"
    by (simp add: load_thread_refs_def sync_bind_def sync_give_def db_read_def sample_state_def empty_store_def
        threads_list_recent_def page_def)
qed

lemma drain_last_window:
  assumes "\<not> fs_has_more server"
  shows "\<exists>r s'. drain_windows env account port folder credential server refs n l s = Some (r, s')"
  by (subst drain_windows.simps) (use assms in \<open>auto simp: Let_def split: prod.split sum.split\<close>)

abbreviation run_sample where
  "run_sample mail \<equiv> reconcile_folder (sample_env [sample_fetched 3] 5 mail) 0 (lit ''INBOX'') (CredPassword (lit ''s'')) sample_state"

lemma run_sample_returns: "\<exists>r s'. run_sample mail = Some (r, s')"
proof -
  have "\<not> fs_has_more (window_of (Some 1) 5 [sample_fetched 3] 1)" by (simp add: sample_window)
  from drain_last_window [OF this] obtain r s' where
    d: "drain_windows (sample_env [sample_fetched 3] 5 mail) sample_account 993 sample_folder (CredPassword (lit ''s''))
      (window_of (Some 1) 5 [sample_fetched 3] 1) [] 0 (fld_last_seen_uid sample_folder) sample_state = Some (r, s')"
    by blast
  show ?thesis using d by (cases r) (auto simp: reconcile_folder_def sample_prefix)
qed

abbreviation sample_run where
  "sample_run \<equiv> run_sample sample_mail"

lemma sample_run_ok: "\<exists>rep s'. sample_run = Some (Ok rep, s')"
proof -
  let ?env = "sample_env [sample_fetched 3] 5 sample_mail"
  obtain p where p: "parse_with_options (sync_decoder ?env) [77] False = Ok p"
      "pe_in_reply_to p = None" "pe_references p = []" "pe_attachments p = []"
    by (simp add: parse_with_options_def sample_env_def sample_mail_def collect_attachments_def List.map_filter_def)
  from sample_insert [OF p(2-4)] obtain refs s1
    where i: "insert_message ?env 0 1 (sample_fetched 3) p [] sample_state = (Ok refs, s1)" by blast
  have none: "existing_uids 1 [3] (ys_store sample_state) = []"
    by (simp add: existing_uids_def sample_state_def empty_store_def)
  have "ingest_window ?env 0 1 (window_of (Some 1) 5 [sample_fetched 3] 1) [] 0 sample_state = (Ok (refs, 1), s1)"
    using p(1) i none
    by (simp add: ingest_window_def sync_bind_def db_read_def sample_window sync_give_def)
       (simp add: sample_fetched_def uid_i64_def sync_give_def sync_bind_def)
  moreover have "acc_id sample_account = 0" "fld_id sample_folder = 1"
    by (simp_all add: sample_account_def account_row_def sample_folder_def folder_row_def)
  ultimately have "drain_windows ?env sample_account 993 sample_folder (CredPassword (lit ''s''))
      (window_of (Some 1) 5 [sample_fetched 3] 1) [] 0 l sample_state
      = Some (Ok (window_of (Some 1) 5 [sample_fetched 3] 1, 1, advance_last_seen l (window_of (Some 1) 5 [sample_fetched 3] 1)), s1)" for l
    by (subst drain_windows.simps) (simp add: Let_def, simp add: sample_window)
  with sample_prefix finish_sync_Ok show ?thesis
    by (simp add: reconcile_folder_def)
qed

lemma sample_wf: "db_wf (ys_store sample_state)"
  by (simp add: schema_defs sample_state_def empty_store_def refers_def refers_opt_def sample_account_def
      sample_folder_def account_row_def folder_row_def List.map_filter_def)


theorem reconcile_keeps_schema_witness:
  "\<exists>rep s'. sample_run = Some (Ok rep, s') \<and> db_wf (ys_store s')"
  using sample_run_ok reconcile_keeps_schema [OF sample_wf] by blast



definition big_mail :: mp_message where
  "big_mail = sample_mail\<lparr>mp_parts :=
     [\<lparr>part_disposition = None, part_attachment_name = None, part_body = PText [], part_content_type = None,
       part_content_id = None\<rparr>,
      \<lparr>part_disposition = Some (lit ''attachment''), part_attachment_name = Some (lit ''big''),
       part_body = PBinary (replicate 26214401 0), part_content_type = None, part_content_id = None\<rparr>]\<rparr>"

theorem oversized_attachment_blocks_folder_witness:
  "\<exists>r s'. run_sample big_mail = Some (r, s') \<and> isl r \<and> folders (ys_store s') = [sample_folder]"
proof -
  obtain r s' where run: "run_sample big_mail = Some (r, s')" using run_sample_returns by blast
  have fld: "folders_get_by_name 0 (lit ''INBOX'') (ys_store sample_state) = Some sample_folder"
    by (simp add: folders_get_by_name_def get_row_def folder_key_def sample_state_def sample_folder_def folder_row_def)
  have start: "start_uid sample_folder (Some 1) 5 [sample_fetched 3] = 1"
    by (simp add: start_uid_def needs_full_resync_def first_uid_def sample_folder_def folder_row_def saturating_add_u32_def)
  obtain p where p: "parse_with_options (sync_decoder (sample_env [sample_fetched 3] 5 big_mail)) (fm_raw (sample_fetched 3)) False = Ok p"
      "oversized p"
    by (simp add: parse_with_options_def sample_env_def big_mail_def sample_mail_def collect_attachments_def
        List.map_filter_def part_attachment_def oversized_def MAX_ATTACHMENT_BYTES_def)
  have "isl r \<and> folders (ys_store s') = folders (ys_store sample_state)"
    by (rule oversized_attachment_blocks_folder [OF sample_wf sample_serves fld _ _ _ p run])
       (simp_all add: start sample_window, simp_all add: sample_fetched_def has_message_def sample_state_def empty_store_def)
  with run show ?thesis by (auto simp: sample_state_def)
qed

theorem emptied_thread_blocks_message_witness:
  "\<exists>e s'. insert_message (sample_env [] 5 sample_mail) 0 1 (sample_fetched 3)
     \<lparr>pe_message_id = Some (lit ''m1@x''), pe_in_reply_to = None, pe_references = [], pe_from = [], pe_to = [],
      pe_cc = [], pe_subject = None, pe_text_body = None, pe_html_body = None, pe_raw_headers = JNull,
      pe_attachments = []\<rparr> []
     (sample_state\<lparr>ys_store := (ys_store sample_state)
        \<lparr>threads := [thread_row 0 (Some (lit ''m1@x'')) None 7 0]\<rparr>\<rparr>)
   = (Err (SyncDb (UniqueViolation e)), s')"
  by (rule emptied_thread_blocks_message [where h = "lit ''m1@x''" and t = "thread_row 0 (Some (lit ''m1@x'')) None 7 0"])
     (simp_all add: assign_thread_none thread_row_def)

end
