(* ===== verification/SyncWorker.thy ===== *)
theory SyncWorker
  imports ReconcilerInv
begin

text \<open>
  The sync worker of one folder, \<^verbatim>\<open>src/sync/worker.rs\<close>, and the state events of
  \<^verbatim>\<open>src/sync/state.rs\<close>.  One turn of each loop is a function; the worker is the step relation
  over its turns.  Cancellation, the timer, the credential resolver and the IDLE connection are
  parameters acting on the world.  Durations are counted in nanoseconds.
\<close>

subsection \<open>State events\<close>

datatype SyncState = StateIdle | StatePolling | StateSyncing | StateError

fun sync_state_text :: "SyncState \<Rightarrow> rstr" where
  "sync_state_text StateIdle = lit ''idle''"
| "sync_state_text StatePolling = lit ''polling''"
| "sync_state_text StateSyncing = lit ''syncing''"
| "sync_state_text StateError = lit ''error''"

record SyncStateEvent =
  sse_account_id :: uuid
  sse_state :: SyncState
  sse_last_error :: "rstr option"

definition sync_state_json :: "(uuid \<Rightarrow> rstr) \<Rightarrow> SyncStateEvent \<Rightarrow> json" where
  "sync_state_json show_uuid ev = json_object
     ([(lit ''account_id'', JString (show_uuid (sse_account_id ev))),
       (lit ''state'', JString (sync_state_text (sse_state ev)))] @
      (case sse_last_error ev of None \<Rightarrow> [] | Some e \<Rightarrow> [(lit ''last_error'', JString e)]))"

definition publish_sync_state :: "'w sync_env \<Rightarrow> SyncStateEvent \<Rightarrow> 'w sync_state \<Rightarrow> 'w sync_state" where
  "publish_sync_state env ev s =
     snd (publish SyncStateTopic (sync_state_json (uuid_text (sync_files env)) ev) s)"

subsection \<open>Error texts\<close>

fun imap_error_text :: "ImapError \<Rightarrow> rstr" where
  "imap_error_text (ImapIo m) = lit ''io: '' @ m"
| "imap_error_text (ImapTls m) = lit ''tls: '' @ m"
| "imap_error_text (ImapProtocol m) = lit ''imap protocol: '' @ m"
| "imap_error_text (ImapAuth m) = lit ''auth failed: '' @ m"
| "imap_error_text (ImapUnsupported m) = lit ''unsupported: '' @ m"
| "imap_error_text (ImapInvalidName m) = lit ''invalid server name: '' @ m"
| "imap_error_text (ImapInvalidPort p) = lit ''invalid port: '' @ show_int p"
| "imap_error_text (ImapTimeout m) = lit ''timed out: '' @ m"

fun attachment_error_text :: "(DbError \<Rightarrow> rstr) \<Rightarrow> AttachmentError \<Rightarrow> rstr" where
  "attachment_error_text db_text (TooLarge f n) =
     lit ''attachment '' @ [39] @ f @ [39] @ lit '' exceeds '' @ show_nat n @ lit '' byte limit''"
| "attachment_error_text db_text (BadPath p) = lit ''invalid attachment path: '' @ p"
| "attachment_error_text db_text (AttachmentDb e) = lit ''db: '' @ db_text e"
| "attachment_error_text db_text (AttachmentIo m) = lit ''io: '' @ m"

fun sync_error_text :: "(DbError \<Rightarrow> rstr) \<Rightarrow> SyncError \<Rightarrow> rstr" where
  "sync_error_text db_text (SyncImap e) = lit ''imap: '' @ imap_error_text e"
| "sync_error_text db_text (SyncDb e) = lit ''db: '' @ db_text e"
| "sync_error_text db_text (SyncAttachment e) = lit ''attachment: '' @ attachment_error_text db_text e"
| "sync_error_text db_text UnknownAccount = lit ''unknown account''"
| "sync_error_text db_text (UnknownFolder f) = lit ''unknown folder '' @ [39] @ f @ [39]"
| "sync_error_text db_text MissingCredentials = lit ''missing credentials for account''"
| "sync_error_text db_text (SyncCredential m) = lit ''credential resolution failed: '' @ m"

subsection \<open>Configuration and parameters\<close>

record WorkerConfig =
  wc_poll_interval :: nat
  wc_idle_timeout :: nat
  wc_initial_backoff :: nat
  wc_max_backoff :: nat

definition seconds :: "nat \<Rightarrow> nat" where
  "seconds n = n * 1000000000"

definition default_worker_config :: WorkerConfig where
  "default_worker_config =
     \<lparr>wc_poll_interval = seconds 60, wc_idle_timeout = seconds (29 * 60),
      wc_initial_backoff = seconds 5, wc_max_backoff = seconds 60\<rparr>"

datatype WorkerCredentialSource = StaticCredential MailCredential | DynamicCredential uuid

text \<open>
  \<open>we_sleep d\<close> says whether the cancellation token fired before the delay \<open>d\<close> was over;
  \<open>we_resolve\<close> returns nothing when it fired before the resolver answered; \<open>we_abandon\<close> returns
  the state in which \<^verbatim>\<open>select!\<close> left a reconcile that it dropped because the token fired.
  \<open>we_db_error\<close> is a failing account lookup.
\<close>

record 'w worker_env =
  we_sync :: "'w sync_env"
  we_cancelled :: "'w \<Rightarrow> bool"
  we_sleep :: "nat \<Rightarrow> 'w \<Rightarrow> bool \<times> 'w"
  we_resolve :: "uuid \<Rightarrow> 'w \<Rightarrow> (SyncError, MailCredential) result option \<times> 'w"
  we_abandon :: "'w sync_state \<Rightarrow> 'w sync_state option"
  we_db_error :: "'w \<Rightarrow> DbError option"
  we_idle :: "rstr \<Rightarrow> nat \<Rightarrow> rstr \<Rightarrow> MailCredential \<Rightarrow> rstr \<Rightarrow> nat \<Rightarrow> 'w \<Rightarrow> (ImapError, IdleOutcome) result \<times> 'w"
  we_db_text :: "DbError \<Rightarrow> rstr"

record SyncWorker =
  sw_account_id :: uuid
  sw_folder_name :: rstr
  sw_credential :: WorkerCredentialSource
  sw_config :: WorkerConfig

text \<open>The running worker: its loop variable \<^verbatim>\<open>backoff\<close>, and the backoff delays it has started.\<close>

record 'w worker =
  wk_state :: "'w sync_state"
  wk_backoff :: nat
  wk_delays :: "nat list"

subsection \<open>Helpers\<close>

fun is_auth_error :: "SyncError \<Rightarrow> bool" where
  "is_auth_error (SyncImap (ImapAuth _)) = True"
| "is_auth_error MissingCredentials = True"
| "is_auth_error _ = False"

definition DURATION_MAX :: nat where
  "DURATION_MAX = 2 ^ 64 * 1000000000 - 1"

definition next_backoff :: "nat \<Rightarrow> nat \<Rightarrow> nat" where
  "next_backoff current limit = min (min (current * 2) DURATION_MAX) limit"

definition on_world :: "('w \<Rightarrow> 'a \<times> 'w) \<Rightarrow> 'w worker \<Rightarrow> 'a \<times> 'w worker" where
  "on_world f k =
     (let (x, w) = f (ys_world (wk_state k)) in (x, k\<lparr>wk_state := (wk_state k)\<lparr>ys_world := w\<rparr>\<rparr>))"

definition sleep_or_cancel :: "'w worker_env \<Rightarrow> nat \<Rightarrow> 'w worker \<Rightarrow> bool \<times> 'w worker" where
  "sleep_or_cancel env d k = on_world (we_sleep env d) k"

text \<open>\<^verbatim>\<open>StateReporter::transition\<close>: an error is also written to the account row.\<close>

definition transition ::
  "'w worker_env \<Rightarrow> uuid \<Rightarrow> SyncState \<Rightarrow> rstr option \<Rightarrow> 'w worker \<Rightarrow> 'w worker" where
  "transition env account_id state last_error k =
     (let s = wk_state k;
          s1 = (if state = StateError
                then (let (now, w) = sync_clock (we_sync env) (ys_world s) in
                      s\<lparr>ys_store := accounts_update_sync account_id StatusError last_error None now (ys_store s),
                        ys_world := w\<rparr>)
                else s) in
      k\<lparr>wk_state := publish_sync_state (we_sync env)
           \<lparr>sse_account_id = account_id, sse_state = state, sse_last_error = last_error\<rparr> s1\<rparr>)"

datatype turn = Again | Stop | FallBack

text \<open>The report of a failure that is retried: sleep the current backoff, then double it.\<close>

definition retry_later ::
  "'w worker_env \<Rightarrow> SyncWorker \<Rightarrow> rstr \<Rightarrow> 'w worker \<Rightarrow> turn \<times> 'w worker" where
  "retry_later env sw message k =
     (let k1 = transition env (sw_account_id sw) StateError (Some message) k;
          (cancelled, k2) = sleep_or_cancel env (wk_backoff k1) (k1\<lparr>wk_delays := wk_delays k1 @ [wk_backoff k1]\<rparr>) in
      if cancelled then (Stop, k2)
      else (Again, k2\<lparr>wk_backoff := next_backoff (wk_backoff k2) (wc_max_backoff (sw_config sw))\<rparr>))"

definition stop_with ::
  "'w worker_env \<Rightarrow> SyncWorker \<Rightarrow> rstr \<Rightarrow> 'w worker \<Rightarrow> turn \<times> 'w worker" where
  "stop_with env sw message k = (Stop, transition env (sw_account_id sw) StateError (Some message) k)"

definition failed ::
  "'w worker_env \<Rightarrow> SyncWorker \<Rightarrow> SyncError \<Rightarrow> 'w worker \<Rightarrow> turn \<times> 'w worker" where
  "failed env sw err k =
     (if is_auth_error err then stop_with env sw (sync_error_text (we_db_text env) err) k
      else retry_later env sw (sync_error_text (we_db_text env) err) k)"

definition resolve_credential ::
  "'w worker_env \<Rightarrow> WorkerCredentialSource \<Rightarrow> 'w worker \<Rightarrow> (SyncError, MailCredential) result option \<times> 'w worker" where
  "resolve_credential env source k =
     (case source of
        StaticCredential c \<Rightarrow> (Some (Ok c), k)
      | DynamicCredential account_id \<Rightarrow> on_world (we_resolve env account_id) k)"

text \<open>\<^verbatim>\<open>credential_for_cycle\<close>: the credential, or how the turn ends (retry or stop).\<close>

definition credential_for_cycle ::
  "'w worker_env \<Rightarrow> SyncWorker \<Rightarrow> 'w worker \<Rightarrow> (turn, MailCredential) result \<times> 'w worker" where
  "credential_for_cycle env sw k =
     (case resolve_credential env (sw_credential sw) k of
        (None, k1) \<Rightarrow> (Err Stop, k1)
      | (Some (Ok c), k1) \<Rightarrow> (Ok c, k1)
      | (Some (Err e), k1) \<Rightarrow> (case failed env sw e k1 of (t, k2) \<Rightarrow> (Err t, k2)))"

text \<open>\<^verbatim>\<open>select!\<close> between the token and \<^verbatim>\<open>reconcile_folder\<close>; the inner option is empty when the token won.\<close>

definition reconcile_or_cancel ::
  "'w worker_env \<Rightarrow> SyncWorker \<Rightarrow> MailCredential \<Rightarrow> 'w worker
   \<Rightarrow> ((SyncError, ReconcileReport) result option \<times> 'w worker) option" where
  "reconcile_or_cancel env sw c k =
     (case we_abandon env (wk_state k) of
        Some s \<Rightarrow> Some (None, k\<lparr>wk_state := s\<rparr>)
      | None \<Rightarrow>
          map_option (\<lambda>(r, s). (Some r, k\<lparr>wk_state := s\<rparr>))
            (reconcile_folder (we_sync env) (sw_account_id sw) (sw_folder_name sw) c (wk_state k)))"

subsection \<open>One turn of the polling loop\<close>

definition polled ::
  "'w worker_env \<Rightarrow> SyncWorker \<Rightarrow> (SyncError, ReconcileReport) result \<Rightarrow> 'w worker \<Rightarrow> turn \<times> 'w worker" where
  "polled env sw r k =
     (case r of
        Err e \<Rightarrow> failed env sw e k
      | Ok _ \<Rightarrow>
          (let k1 = transition env (sw_account_id sw) StatePolling None
                      (k\<lparr>wk_backoff := wc_initial_backoff (sw_config sw)\<rparr>);
               (cancelled, k2) = sleep_or_cancel env (wc_poll_interval (sw_config sw)) k1 in
           (if cancelled then Stop else Again, k2)))"

definition polling_turn ::
  "'w worker_env \<Rightarrow> SyncWorker \<Rightarrow> 'w worker \<Rightarrow> (turn \<times> 'w worker) option" where
  "polling_turn env sw k =
     (if we_cancelled env (ys_world (wk_state k)) then Some (Stop, k)
      else
        (case credential_for_cycle env sw k of
           (Err t, k1) \<Rightarrow> Some (t, k1)
         | (Ok c, k1) \<Rightarrow>
             (case reconcile_or_cancel env sw c (transition env (sw_account_id sw) StateSyncing None k1) of
                None \<Rightarrow> None
              | Some (None, k2) \<Rightarrow> Some (Stop, k2)
              | Some (Some r, k2) \<Rightarrow> Some (polled env sw r k2))))"

subsection \<open>One turn of the IDLE loop\<close>

definition after_idle ::
  "'w worker_env \<Rightarrow> SyncWorker \<Rightarrow> (ImapError, IdleOutcome) result \<Rightarrow> 'w worker \<Rightarrow> turn \<times> 'w worker" where
  "after_idle env sw wait k =
     (let reset = k\<lparr>wk_backoff := wc_initial_backoff (sw_config sw)\<rparr> in
      case wait of
        Ok IdleOutInterrupted \<Rightarrow> if we_cancelled env (ys_world (wk_state k)) then (Stop, k) else (Again, reset)
      | Ok _ \<Rightarrow> (Again, reset)
      | Err (ImapUnsupported _) \<Rightarrow> (FallBack, k)
      | Err (ImapAuth m) \<Rightarrow> stop_with env sw (imap_error_text (ImapAuth m)) k
      | Err e \<Rightarrow> retry_later env sw (imap_error_text e) k)"

definition wait_for_change ::
  "'w worker_env \<Rightarrow> SyncWorker \<Rightarrow> MailCredential \<Rightarrow> 'w worker \<Rightarrow> turn \<times> 'w worker" where
  "wait_for_change env sw c k =
     (case we_db_error env (ys_world (wk_state k)) of
        Some e \<Rightarrow> retry_later env sw (we_db_text env e) k
      | None \<Rightarrow>
          (case accounts_get (sw_account_id sw) (ys_store (wk_state k)) of
             None \<Rightarrow> (Stop, k)
           | Some account \<Rightarrow>
               (case port_u16 (acc_imap_port account) of
                  Err e \<Rightarrow> stop_with env sw (imap_error_text e) k
                | Ok port \<Rightarrow>
                    (let k1 = transition env (sw_account_id sw) StateIdle None k;
                         (wait, k2) = on_world (we_idle env (acc_imap_host account) port (acc_email account) c
                                        (sw_folder_name sw) (wc_idle_timeout (sw_config sw))) k1 in
                     after_idle env sw wait k2))))"

definition reconciled ::
  "'w worker_env \<Rightarrow> SyncWorker \<Rightarrow> MailCredential \<Rightarrow> (SyncError, ReconcileReport) result \<Rightarrow> 'w worker
   \<Rightarrow> turn \<times> 'w worker" where
  "reconciled env sw c r k =
     (case r of
        Err e \<Rightarrow> failed env sw e k
      | Ok _ \<Rightarrow> wait_for_change env sw c (k\<lparr>wk_backoff := wc_initial_backoff (sw_config sw)\<rparr>))"

definition idle_turn ::
  "'w worker_env \<Rightarrow> SyncWorker \<Rightarrow> 'w worker \<Rightarrow> (turn \<times> 'w worker) option" where
  "idle_turn env sw k =
     (if we_cancelled env (ys_world (wk_state k)) then Some (Stop, k)
      else
        (case credential_for_cycle env sw k of
           (Err t, k1) \<Rightarrow> Some (t, k1)
         | (Ok c, k1) \<Rightarrow>
             (case reconcile_or_cancel env sw c (transition env (sw_account_id sw) StateSyncing None k1) of
                None \<Rightarrow> None
              | Some (None, k2) \<Rightarrow> Some (Stop, k2)
              | Some (Some r, k2) \<Rightarrow> Some (reconciled env sw c r k2))))"

subsection \<open>The worker\<close>

datatype 'w worker_phase = IdleLoop "'w worker" | PollingLoop "'w worker" | Ended "'w worker"

text \<open>Entering a loop: the initial backoff and the first state event.\<close>

definition enter_polling :: "'w worker_env \<Rightarrow> SyncWorker \<Rightarrow> 'w worker \<Rightarrow> 'w worker_phase" where
  "enter_polling env sw k =
     PollingLoop (transition env (sw_account_id sw) StatePolling None
       (k\<lparr>wk_backoff := wc_initial_backoff (sw_config sw)\<rparr>))"

definition run_sync_worker :: "'w worker_env \<Rightarrow> SyncWorker \<Rightarrow> bool \<Rightarrow> 'w sync_state \<Rightarrow> 'w worker_phase" where
  "run_sync_worker env sw has_idle s =
     (let k = \<lparr>wk_state = s, wk_backoff = wc_initial_backoff (sw_config sw), wk_delays = []\<rparr> in
      if has_idle then IdleLoop (transition env (sw_account_id sw) StateIdle None k)
      else enter_polling env sw k)"

inductive worker_step :: "'w worker_env \<Rightarrow> SyncWorker \<Rightarrow> 'w worker_phase \<Rightarrow> 'w worker_phase \<Rightarrow> bool"
  for env sw where
  poll_again: "polling_turn env sw k = Some (Again, k') \<Longrightarrow> worker_step env sw (PollingLoop k) (PollingLoop k')"
| poll_stop: "polling_turn env sw k = Some (Stop, k') \<Longrightarrow> worker_step env sw (PollingLoop k) (Ended k')"
| idle_again: "idle_turn env sw k = Some (Again, k') \<Longrightarrow> worker_step env sw (IdleLoop k) (IdleLoop k')"
| idle_stop: "idle_turn env sw k = Some (Stop, k') \<Longrightarrow> worker_step env sw (IdleLoop k) (Ended k')"
| idle_fall_back: "idle_turn env sw k = Some (FallBack, k') \<Longrightarrow>
    worker_step env sw (IdleLoop k) (enter_polling env sw k')"

inductive_cases worker_stepE: "worker_step env sw p q"

end
