(* ===== verification/SyncWorkerInv.thy ===== *)
theory SyncWorkerInv
  imports SyncWorker
begin

text \<open>
  What the sync worker promises: its delays follow the backoff schedule, and only cancellation or
  a lasting failure ends it.
\<close>

subsection \<open>The backoff schedule\<close>

text \<open>Each delay is the initial one or the doubled and capped successor of the delay before it.\<close>

definition next_delays :: "WorkerConfig \<Rightarrow> nat list \<Rightarrow> nat set" where
  "next_delays cfg ds =
     {wc_initial_backoff cfg} \<union> (if ds = [] then {} else {next_backoff (last ds) (wc_max_backoff cfg)})"

inductive scheduled :: "WorkerConfig \<Rightarrow> nat list \<Rightarrow> bool" for cfg where
  none: "scheduled cfg []"
| delay: "scheduled cfg ds \<Longrightarrow> d \<in> next_delays cfg ds \<Longrightarrow> scheduled cfg (ds @ [d])"

lemma scheduled_bounded:
  "scheduled cfg ds \<Longrightarrow> d \<in> set ds \<Longrightarrow> d \<le> max (wc_initial_backoff cfg) (wc_max_backoff cfg)"
  by (induction rule: scheduled.induct) (auto simp: next_delays_def next_backoff_def split: if_splits)

definition on_schedule :: "WorkerConfig \<Rightarrow> 'w worker \<Rightarrow> bool" where
  "on_schedule cfg k \<longleftrightarrow> scheduled cfg (wk_delays k) \<and> wk_backoff k \<in> next_delays cfg (wk_delays k)"

lemma transition_frame [simp]:
  "wk_backoff (transition env a st e k) = wk_backoff k" "wk_delays (transition env a st e k) = wk_delays k"
  by (simp_all add: transition_def Let_def)

lemma on_world_frame:
  "on_world f k = (x, k') \<Longrightarrow> wk_backoff k' = wk_backoff k \<and> wk_delays k' = wk_delays k"
  by (auto simp: on_world_def Let_def split: prod.splits)

lemma reconcile_or_cancel_frame:
  "reconcile_or_cancel env sw c k = Some (r, k') \<Longrightarrow> wk_backoff k' = wk_backoff k \<and> wk_delays k' = wk_delays k"
  by (auto simp: reconcile_or_cancel_def split: option.splits)

lemma on_schedule_simps [simp]:
  "on_schedule cfg (transition env a st e k) = on_schedule cfg k"
  "wc_initial_backoff cfg = b \<Longrightarrow> scheduled cfg (wk_delays k) \<Longrightarrow> on_schedule cfg (k\<lparr>wk_backoff := b\<rparr>)"
  by (auto simp: on_schedule_def next_delays_def)

lemma on_schedule_cong:
  "wk_backoff k' = wk_backoff k \<and> wk_delays k' = wk_delays k \<Longrightarrow> on_schedule cfg k' = on_schedule cfg k"
  by (simp add: on_schedule_def)

lemma on_schedule_scheduled: "on_schedule cfg k \<Longrightarrow> scheduled cfg (wk_delays k)"
  by (simp add: on_schedule_def)

text \<open>What a turn leaves: the delays are on schedule, and so is the next one if the loop goes on.\<close>

definition turn_ok :: "WorkerConfig \<Rightarrow> turn \<times> 'w worker \<Rightarrow> bool" where
  "turn_ok cfg p \<longleftrightarrow> scheduled cfg (wk_delays (snd p)) \<and> (fst p \<noteq> Stop \<longrightarrow> on_schedule cfg (snd p))"

named_theorems turn_rules

lemma retry_later_ok [turn_rules]:
  assumes "on_schedule (sw_config sw) k"
  shows "turn_ok (sw_config sw) (retry_later env sw m k)"
proof -
  let ?k1 = "transition env (sw_account_id sw) StateError (Some m) k"
  obtain cancelled k2 where s: "sleep_or_cancel env (wk_backoff ?k1) (?k1\<lparr>wk_delays := wk_delays ?k1 @ [wk_backoff ?k1]\<rparr>)
      = (cancelled, k2)" by fastforce
  then have k2: "wk_backoff k2 = wk_backoff k" "wk_delays k2 = wk_delays k @ [wk_backoff k]"
    unfolding sleep_or_cancel_def by (auto dest!: on_world_frame)
  have "scheduled (sw_config sw) (wk_delays k @ [wk_backoff k])"
    using assms by (auto simp: on_schedule_def intro: scheduled.delay)
  then show ?thesis
    unfolding retry_later_def Let_def s using k2
    by (auto simp: turn_ok_def on_schedule_def next_delays_def)
qed

lemma stop_with_ok [turn_rules]: "on_schedule (sw_config sw) k \<Longrightarrow> turn_ok (sw_config sw) (stop_with env sw m k)"
  by (simp add: stop_with_def turn_ok_def on_schedule_def)

lemma failed_ok [turn_rules]: "on_schedule (sw_config sw) k \<Longrightarrow> turn_ok (sw_config sw) (failed env sw e k)"
  by (simp add: failed_def turn_rules)

lemma polled_ok [turn_rules]:
  assumes "on_schedule (sw_config sw) k" shows "turn_ok (sw_config sw) (polled env sw r k)"
proof (cases r)
  case (Inl e)
  then show ?thesis using assms by (simp add: polled_def turn_rules)
next
  case (Inr rep)
  let ?k1 = "transition env (sw_account_id sw) StatePolling None (k\<lparr>wk_backoff := wc_initial_backoff (sw_config sw)\<rparr>)"
  obtain c k2 where s: "sleep_or_cancel env (wc_poll_interval (sw_config sw)) ?k1 = (c, k2)" by fastforce
  then have "on_schedule (sw_config sw) k2 = on_schedule (sw_config sw) ?k1"
    unfolding sleep_or_cancel_def by (intro on_schedule_cong) (auto dest!: on_world_frame)
  then show ?thesis
    using assms Inr s by (auto simp: polled_def Let_def turn_ok_def dest: on_schedule_scheduled)
qed

lemma after_idle_ok [turn_rules]:
  assumes "on_schedule (sw_config sw) k" shows "turn_ok (sw_config sw) (after_idle env sw wait k)"
  using assms
  by (auto simp: after_idle_def Let_def turn_rules split: sum.splits IdleOutcome.splits ImapError.splits)
     (auto simp: turn_ok_def dest: on_schedule_scheduled)

lemma wait_for_change_ok [turn_rules]:
  assumes "on_schedule (sw_config sw) k" shows "turn_ok (sw_config sw) (wait_for_change env sw c k)"
proof -
  have idle: "turn_ok (sw_config sw) (after_idle env sw wait k2)"
    if "on_world f (transition env (sw_account_id sw) StateIdle None k) = (wait, k2)" for f wait k2
  proof -
    have "on_schedule (sw_config sw) k2 = on_schedule (sw_config sw) (transition env (sw_account_id sw) StateIdle None k)"
      by (rule on_schedule_cong [OF on_world_frame [OF that]])
    then show ?thesis using assms by (intro after_idle_ok) simp
  qed
  show ?thesis
    using assms
    by (auto simp: wait_for_change_def Let_def turn_rules idle split: option.splits sum.splits prod.splits)
       (auto simp: turn_ok_def dest: on_schedule_scheduled)
qed

lemma reconciled_ok [turn_rules]:
  "on_schedule (sw_config sw) k \<Longrightarrow> turn_ok (sw_config sw) (reconciled env sw c r k)"
  by (auto simp: reconciled_def turn_rules dest: on_schedule_scheduled split: sum.splits)

lemma credential_for_cycle_ok:
  assumes "on_schedule (sw_config sw) k" and "credential_for_cycle env sw k = (r, k')"
  shows "case r of Err t \<Rightarrow> turn_ok (sw_config sw) (t, k') | Ok _ \<Rightarrow> on_schedule (sw_config sw) k'"
proof -
  obtain x k1 where x: "resolve_credential env (sw_credential sw) k = (x, k1)" by fastforce
  then have "wk_backoff k1 = wk_backoff k \<and> wk_delays k1 = wk_delays k"
    by (auto simp: resolve_credential_def split: WorkerCredentialSource.splits dest!: on_world_frame)
  then have "on_schedule (sw_config sw) k1" using assms(1) on_schedule_cong by blast
  note k1 = this on_schedule_scheduled [OF this]
  show ?thesis
  proof (cases x)
    case None
    then show ?thesis using assms(2) x k1 by (auto simp: credential_for_cycle_def turn_ok_def)
  next
    case (Some res)
    obtain t k2 where f: "failed env sw (projl res) k1 = (t, k2)" by fastforce
    show ?thesis
      using assms(2) x k1 Some f failed_ok [OF k1(1), of env "projl res"]
      by (cases res) (auto simp: credential_for_cycle_def)
  qed
qed

lemma turns_ok:
  assumes "on_schedule (sw_config sw) k"
  shows "polling_turn env sw k = Some p \<Longrightarrow> turn_ok (sw_config sw) p"
    and "idle_turn env sw k = Some p \<Longrightarrow> turn_ok (sw_config sw) p"
proof -
  obtain r k1 where c: "credential_for_cycle env sw k = (r, k1)" by fastforce
  note cred = credential_for_cycle_ok [OF assms c]
  have run: "on_schedule (sw_config sw) k2"
    if "r = Ok x" "reconcile_or_cancel env sw x (transition env a st e k1) = Some (y, k2)" for x a st e y k2
    using that cred on_schedule_cong [OF reconcile_or_cancel_frame [OF that(2)]] by auto
  have stop: "turn_ok (sw_config sw) (Stop, k)" using assms by (simp add: turn_ok_def on_schedule_scheduled)
  show "polling_turn env sw k = Some p \<Longrightarrow> turn_ok (sw_config sw) p"
    and "idle_turn env sw k = Some p \<Longrightarrow> turn_ok (sw_config sw) p"
    using c cred run stop
    by (auto simp: polling_turn_def idle_turn_def turn_rules split: if_splits sum.splits option.splits prod.splits)
       (simp_all add: turn_ok_def, (blast intro: on_schedule_scheduled)+)
qed

text \<open>The invariant of the worker, in each of its phases.\<close>

fun phase_ok :: "WorkerConfig \<Rightarrow> 'w worker_phase \<Rightarrow> bool" where
  "phase_ok cfg (IdleLoop k) = on_schedule cfg k"
| "phase_ok cfg (PollingLoop k) = on_schedule cfg k"
| "phase_ok cfg (Ended k) = scheduled cfg (wk_delays k)"

fun phase_worker :: "'w worker_phase \<Rightarrow> 'w worker" where
  "phase_worker (IdleLoop k) = k"
| "phase_worker (PollingLoop k) = k"
| "phase_worker (Ended k) = k"

lemma enter_polling_ok:
  "scheduled (sw_config sw) (wk_delays k) \<Longrightarrow> phase_ok (sw_config sw) (enter_polling env sw k)"
  by (simp add: enter_polling_def)

interpretation worker: step_invariant "run_sync_worker env sw has_idle s" "worker_step env sw" "phase_ok (sw_config sw)"
  for env sw has_idle s
proof (unfold_locales, goal_cases)
  case 1
  then show ?case
    by (simp add: run_sync_worker_def Let_def enter_polling_ok scheduled.none on_schedule_def next_delays_def)
next
  case (2 p q)
  from 2(1) show ?case
  proof cases
    case (poll_again k k')
    then show ?thesis using turns_ok(1) [of sw k env] 2(2) by (force simp: turn_ok_def)
  next
    case (poll_stop k k')
    then show ?thesis using turns_ok(1) [of sw k env] 2(2) by (force simp: turn_ok_def)
  next
    case (idle_again k k')
    then show ?thesis using turns_ok(2) [of sw k env] 2(2) by (force simp: turn_ok_def)
  next
    case (idle_stop k k')
    then show ?thesis using turns_ok(2) [of sw k env] 2(2) by (force simp: turn_ok_def)
  next
    case (idle_fall_back k k')
    then show ?thesis using turns_ok(2) [of sw k env] 2(2) enter_polling_ok by (force simp: turn_ok_def)
  qed
qed


subsection \<open>Why a worker ends\<close>

text \<open>An environment in which the cancellation token does not fire.\<close>

definition uncancelled :: "'w worker_env \<Rightarrow> bool" where
  "uncancelled env \<longleftrightarrow>
     (\<forall>w. \<not> we_cancelled env w) \<and> (\<forall>d w. \<not> fst (we_sleep env d w)) \<and>
     (\<forall>i w. fst (we_resolve env i w) \<noteq> None) \<and> (\<forall>s. we_abandon env s = None)"

text \<open>The turn reported a failure as its last act, an authentication failure or an unusable port.\<close>

definition lasting :: "'w worker_env \<Rightarrow> rstr \<Rightarrow> bool" where
  "lasting env m \<longleftrightarrow>
     (\<exists>e. is_auth_error e \<and> m = sync_error_text (we_db_text env) e) \<or>
     (\<exists>x. m = imap_error_text (ImapAuth x)) \<or> (\<exists>p. m = imap_error_text (ImapInvalidPort p))"

definition gave_up :: "'w worker_env \<Rightarrow> SyncWorker \<Rightarrow> 'w worker \<Rightarrow> bool" where
  "gave_up env sw k \<longleftrightarrow>
     (\<exists>m k1. lasting env m \<and> k = transition env (sw_account_id sw) StateError (Some m) k1)"

lemma uncancelled_sleep:
  "uncancelled env \<Longrightarrow> sleep_or_cancel env d k = (c, k') \<Longrightarrow> \<not> c"
  by (auto simp: uncancelled_def sleep_or_cancel_def on_world_def Let_def split: prod.splits) (metis fst_conv)

lemma retry_later_again: "uncancelled env \<Longrightarrow> fst (retry_later env sw m k) = Again"
  by (auto simp: retry_later_def Let_def split: prod.splits dest: uncancelled_sleep)

lemma retry_later_not_stop: "uncancelled env \<Longrightarrow> retry_later env sw m k \<noteq> (Stop, k')"
  using retry_later_again [of env sw m k] by auto

lemma stop_with_gave_up: "lasting env m \<Longrightarrow> stop_with env sw m k = (Stop, k') \<Longrightarrow> gave_up env sw k'"
  by (auto simp: stop_with_def gave_up_def)

lemma lasting_intros [intro]:
  "is_auth_error e \<Longrightarrow> lasting env (sync_error_text (we_db_text env) e)"
  "lasting env (imap_error_text (ImapAuth x))" "lasting env (imap_error_text (ImapInvalidPort p))"
  by (auto simp: lasting_def simp del: imap_error_text.simps)

lemma failed_stop: "uncancelled env \<Longrightarrow> failed env sw e k = (Stop, k') \<Longrightarrow> gave_up env sw k'"
  by (cases "is_auth_error e") (auto simp: failed_def retry_later_not_stop intro: stop_with_gave_up)

lemma polled_stop: "uncancelled env \<Longrightarrow> polled env sw r k = (Stop, k') \<Longrightarrow> gave_up env sw k'"
  by (auto simp: polled_def Let_def intro: failed_stop dest: uncancelled_sleep split: sum.splits prod.splits if_splits)

lemma after_idle_stop: "uncancelled env \<Longrightarrow> after_idle env sw wait k = (Stop, k') \<Longrightarrow> gave_up env sw k'"
  by (auto simp: after_idle_def Let_def retry_later_not_stop simp del: imap_error_text.simps
      split: sum.splits IdleOutcome.splits ImapError.splits if_splits
      intro: stop_with_gave_up [OF lasting_intros(2)] simp: uncancelled_def)

lemma port_u16_Err: "port_u16 x = Err e \<Longrightarrow> e = ImapInvalidPort x"
  by (auto simp: port_u16_def split: if_splits)

lemma wait_for_change_stop:
  assumes "uncancelled env" and "wait_for_change env sw c k = (Stop, k')"
  shows "gave_up env sw k' \<or> accounts_get (sw_account_id sw) (ys_store (wk_state k')) = None"
proof -
  have port: "stop_with env sw (imap_error_text e) k = (Stop, k') \<Longrightarrow> port_u16 x = Err e \<Longrightarrow> gave_up env sw k'" for e x
    using stop_with_gave_up [OF lasting_intros(3)] port_u16_Err by blast
  show ?thesis
    using assms(2) after_idle_stop [OF assms(1)] port retry_later_not_stop [OF assms(1)]
    by (auto simp: wait_for_change_def Let_def simp del: imap_error_text.simps
        split: option.splits sum.splits prod.splits)
qed

lemma credential_stop:
  assumes "uncancelled env" and "credential_for_cycle env sw k = (Err Stop, k')"
  shows "gave_up env sw k'"
proof -
  have "fst (resolve_credential env (sw_credential sw) k) \<noteq> None"
    using assms(1)
    by (auto simp: resolve_credential_def uncancelled_def on_world_def Let_def split: WorkerCredentialSource.splits prod.splits)
       (metis fst_conv)
  then show ?thesis
    using assms by (auto simp: credential_for_cycle_def intro: failed_stop split: prod.splits option.splits sum.splits)
qed

text \<open>
  C19: a worker whose cancellation token does not fire stops only after an authentication failure
  or an unusable port, which it has reported and stored as the account's sync error just before,
  or when its account is gone; every other error is retried.
\<close>

theorem worker_stops_only_for_lasting_errors:
  assumes "uncancelled env" and "worker_step env sw p (Ended k)"
  shows "gave_up env sw k \<or> accounts_get (sw_account_id sw) (ys_store (wk_state k)) = None"
  using assms(2)
proof cases
  case (poll_stop k0)
  then show ?thesis
    using assms(1) unfolding polling_turn_def reconcile_or_cancel_def
    by (auto simp: uncancelled_def [THEN iffD1, OF assms(1)] intro: credential_stop polled_stop
        split: if_splits sum.splits prod.splits option.splits)
next
  case (idle_stop k0)
  then show ?thesis
    using assms(1) unfolding idle_turn_def reconcile_or_cancel_def reconciled_def
    by (auto intro: credential_stop failed_stop dest: wait_for_change_stop [OF assms(1)]
        simp: uncancelled_def [THEN iffD1, OF assms(1)]
        split: if_splits sum.splits prod.splits option.splits)
qed (simp add: enter_polling_def)

subsection \<open>IDLE failures do not back off\<close>

lemma retry_later_delays:
  "retry_later env sw m k = (t, k') \<Longrightarrow> wk_delays k' = wk_delays k @ [wk_backoff k]"
  unfolding retry_later_def Let_def sleep_or_cancel_def
  by (auto split: prod.splits if_splits dest!: on_world_frame)

lemma after_idle_delays:
  "after_idle env sw wait k = (t, k') \<Longrightarrow> wk_delays k' = wk_delays k \<or> wk_delays k' = wk_delays k @ [wk_backoff k]"
  by (auto simp: after_idle_def Let_def stop_with_def simp del: imap_error_text.simps
      split: sum.splits IdleOutcome.splits ImapError.splits if_splits dest: retry_later_delays)

text \<open>
  In the IDLE loop a turn whose reconcile succeeded waits at most the initial backoff, however
  many turns have failed before: failing IDLE waits are retried at a constant rate and never back
  off.
\<close>

theorem idle_failures_never_back_off:
  assumes "reconciled env sw c (Ok rep) k = (t, k')"
  shows "wk_delays k' = wk_delays k \<or> wk_delays k' = wk_delays k @ [wc_initial_backoff (sw_config sw)]"
proof -
  let ?k = "k\<lparr>wk_backoff := wc_initial_backoff (sw_config sw)\<rparr>"
  have idle: "after_idle env sw wait k2 = (t, k') \<Longrightarrow>
      on_world f (transition env (sw_account_id sw) StateIdle None ?k) = (wait, k2) \<Longrightarrow> ?thesis" for wait k2 f
    by (auto dest!: after_idle_delays on_world_frame)
  have "wait_for_change env sw c ?k = (t, k')" using assms by (simp add: reconciled_def)
  then show ?thesis
    by (auto simp: wait_for_change_def Let_def stop_with_def simp del: imap_error_text.simps
        split: option.splits sum.splits prod.splits dest: retry_later_delays idle)
qed

subsection \<open>Samples\<close>

definition flaky_env :: "nat worker_env" where
  "flaky_env =
     \<lparr>we_sync = \<lparr>imap_sync = (\<lambda>_ _ _ _ _ _ w. (Err (ImapTimeout []), w)),
        sync_files = \<lparr>attachment_root = (\<lambda>_. Ok []), uuid_text = show_nat, path_parent = (\<lambda>p. Some p),
          create_dir_all = (\<lambda>_ w. (Ok (), w)), create_new = (\<lambda>_ w. (Ok (), w)), write_all = (\<lambda>_ _ w. (Ok (), w)),
          open_read = (\<lambda>_ _. Err []), utf8 = (\<lambda>_. Err 0), draw_row = (\<lambda>w. ((w, 0), w + 1))\<rparr>,
        sync_unicode = ascii_unicode, sync_decoder = (\<lambda>_. None), sync_clock = (\<lambda>w. (0, w))\<rparr>,
      we_cancelled = (\<lambda>_. False), we_sleep = (\<lambda>_ w. (False, w)),
      we_resolve = (\<lambda>_ w. (Some (Err (SyncCredential [])), w)), we_abandon = (\<lambda>_. None),
      we_db_error = (\<lambda>_. Some (OtherSqlx [])), we_idle = (\<lambda>_ _ _ _ _ _ w. (Err (ImapTimeout []), w)),
      we_db_text = (\<lambda>_. [])\<rparr>"

definition sample_worker :: "WorkerCredentialSource \<Rightarrow> SyncWorker" where
  "sample_worker source =
     \<lparr>sw_account_id = 0, sw_folder_name = lit ''INBOX'', sw_credential = source, sw_config = default_worker_config\<rparr>"

definition blank_state :: "nat sync_state" where
  "blank_state = \<lparr>ys_store = empty_store, ys_world = 0, ys_published = []\<rparr>"

abbreviation waiting_worker where
  "waiting_worker \<equiv> sample_worker (DynamicCredential 0)"

lemma flaky_uncancelled: "uncancelled flaky_env"
  by (simp add: uncancelled_def flaky_env_def)

text \<open>One turn whose credential cannot be resolved.\<close>

lemma flaky_turn:
  "\<exists>k'. worker_step flaky_env waiting_worker (run_sync_worker flaky_env waiting_worker False blank_state) (PollingLoop k')
        \<and> wk_delays k' = [seconds 5]"
proof -
  define k where "k = transition flaky_env 0 StatePolling None
    \<lparr>wk_state = blank_state, wk_backoff = seconds 5, wk_delays = []\<rparr>"
  have start: "run_sync_worker flaky_env waiting_worker False blank_state = PollingLoop k"
    by (simp add: run_sync_worker_def enter_polling_def Let_def sample_worker_def default_worker_config_def k_def)
  have cred: "credential_for_cycle flaky_env waiting_worker k
      = (case retry_later flaky_env waiting_worker (sync_error_text (we_db_text flaky_env) (SyncCredential [])) k of (t, k2) \<Rightarrow> (Err t, k2))"
    by (simp add: credential_for_cycle_def resolve_credential_def on_world_def sample_worker_def failed_def)
       (simp add: flaky_env_def failed_def)
  obtain k' where r: "retry_later flaky_env waiting_worker (sync_error_text (we_db_text flaky_env) (SyncCredential [])) k = (Again, k')"
    using retry_later_again [OF flaky_uncancelled] by (metis prod.collapse)
  have "polling_turn flaky_env waiting_worker k = Some (Again, k')"
    using cred r by (simp add: polling_turn_def) (simp add: flaky_env_def)
  moreover have "wk_delays k' = [seconds 5]"
    using retry_later_delays [OF r] by (simp add: k_def)
  ultimately show ?thesis using start worker_step.poll_again by metis
qed


theorem idle_failures_never_back_off_witness:
  "\<exists>k'. reconciled flaky_env waiting_worker (CredPassword [])
          (Ok \<lparr>rr_folder_id = 0, rr_inserted = 0, rr_wiped = 0, rr_uid_validity = None, rr_uid_next = None, rr_last_seen_uid = None\<rparr>)
          \<lparr>wk_state = blank_state, wk_backoff = seconds 40, wk_delays = [seconds 5, seconds 10, seconds 20]\<rparr> = (Again, k') \<and>
        wk_delays k' = [seconds 5, seconds 10, seconds 20, seconds 5]"
proof -
  let ?rep = "\<lparr>rr_folder_id = 0, rr_inserted = 0, rr_wiped = 0, rr_uid_validity = None, rr_uid_next = None, rr_last_seen_uid = None\<rparr>"
  let ?k = "\<lparr>wk_state = blank_state, wk_backoff = seconds 40, wk_delays = [seconds 5, seconds 10, seconds 20]\<rparr>"
  have step: "reconciled flaky_env waiting_worker (CredPassword []) (Ok ?rep) ?k
      = retry_later flaky_env waiting_worker [] (?k\<lparr>wk_backoff := wc_initial_backoff (sw_config waiting_worker)\<rparr>)"
    by (simp add: reconciled_def wait_for_change_def) (simp add: flaky_env_def)
  obtain k' where r: "reconciled flaky_env waiting_worker (CredPassword []) (Ok ?rep) ?k = (Again, k')"
    unfolding step using retry_later_again [OF flaky_uncancelled] by (metis prod.collapse)
  have "wk_delays k' \<noteq> wk_delays ?k" using r step retry_later_delays by fastforce
  with idle_failures_never_back_off [OF r] r show ?thesis
    by (auto simp: sample_worker_def default_worker_config_def)
qed

theorem worker_stops_only_for_lasting_errors_witness:
  "\<exists>k. worker_step (flaky_env\<lparr>we_resolve := \<lambda>_ w. (Some (Err MissingCredentials), w)\<rparr>) waiting_worker
         (PollingLoop \<lparr>wk_state = blank_state, wk_backoff = seconds 5, wk_delays = []\<rparr>) (Ended k) \<and>
       (gave_up (flaky_env\<lparr>we_resolve := \<lambda>_ w. (Some (Err MissingCredentials), w)\<rparr>) waiting_worker k \<or>
        accounts_get 0 (ys_store (wk_state k)) = None)"
proof -
  let ?env = "flaky_env\<lparr>we_resolve := \<lambda>_ w. (Some (Err MissingCredentials), w)\<rparr>"
  let ?k = "\<lparr>wk_state = blank_state, wk_backoff = seconds 5, wk_delays = []\<rparr>"
  have un: "uncancelled ?env" by (simp add: uncancelled_def flaky_env_def)
  have "polling_turn ?env waiting_worker ?k = Some (stop_with ?env waiting_worker (sync_error_text (we_db_text ?env) MissingCredentials) ?k)"
    by (simp add: polling_turn_def credential_for_cycle_def resolve_credential_def sample_worker_def on_world_def failed_def stop_with_def)
       (simp add: flaky_env_def)
  then obtain k where "worker_step ?env waiting_worker (PollingLoop ?k) (Ended k)"
    unfolding stop_with_def using worker_step.poll_stop by blast
  with worker_stops_only_for_lasting_errors [OF un this] show ?thesis by (auto simp: sample_worker_def)
qed

end
