(* ===== verification/SyncManager.thy ===== *)
theory SyncManager
  imports SyncWorker
begin

text \<open>
  The worker registry, \<^verbatim>\<open>src/sync/manager.rs\<close>.  Workers are numbered tasks with a key, a
  credential source and the flags of their cancellation token and join handle; what a task does
  is \<open>SyncWorker\<close>.  The mutex makes each access to the registry one step; \<^verbatim>\<open>stop\<close> takes the handle
  out, cancels it and waits for it in separate steps, so that other calls come in between.
\<close>

type_synonym worker_key = "uuid \<times> rstr"

record task =
  tk_key :: worker_key
  tk_source :: WorkerCredentialSource
  tk_cancelled :: bool
  tk_finished :: bool

record manager =
  mg_workers :: "worker_key \<rightharpoonup> nat"
  mg_tasks :: "task list"
  mg_stopping :: "nat list"
  mg_events :: "SyncStateEvent list"

definition new_manager :: manager where
  "new_manager = \<lparr>mg_workers = Map.empty, mg_tasks = [], mg_stopping = [], mg_events = []\<rparr>"

definition credential_source :: "bool \<Rightarrow> uuid \<Rightarrow> MailCredential \<Rightarrow> WorkerCredentialSource" where
  "credential_source has_resolver account_id credential =
     (if credential_kind credential = OAuth2BearerKind \<and> has_resolver then DynamicCredential account_id
      else StaticCredential credential)"

definition manager_start ::
  "bool \<Rightarrow> bool \<Rightarrow> uuid \<Rightarrow> rstr \<Rightarrow> MailCredential \<Rightarrow> manager \<Rightarrow> bool \<times> manager" where
  "manager_start has_idle has_resolver account_id folder_name credential mg =
     (let key = (account_id, folder_name);
          running = (case mg_workers mg key of None \<Rightarrow> False | Some i \<Rightarrow> \<not> tk_finished (mg_tasks mg ! i)) in
      if running then (False, mg)
      else
        (True,
         mg\<lparr>mg_workers := (mg_workers mg)(key \<mapsto> length (mg_tasks mg)),
            mg_tasks := mg_tasks mg @
              [\<lparr>tk_key = key, tk_source = credential_source has_resolver account_id credential,
                tk_cancelled = False, tk_finished = False\<rparr>],
            mg_events := mg_events mg @
              [\<lparr>sse_account_id = account_id, sse_state = (if has_idle then StateIdle else StatePolling),
                sse_last_error = None\<rparr>]\<rparr>))"

text \<open>\<^verbatim>\<open>stop\<close>: the handle leaves the registry; false when there is none.\<close>

definition stop_take :: "worker_key \<Rightarrow> manager \<Rightarrow> bool \<times> manager" where
  "stop_take key mg =
     (case mg_workers mg key of
        None \<Rightarrow> (False, mg)
      | Some i \<Rightarrow> (True, mg\<lparr>mg_workers := (mg_workers mg)(key := None), mg_stopping := i # mg_stopping mg\<rparr>))"

definition cancel_task :: "nat \<Rightarrow> manager \<Rightarrow> manager" where
  "cancel_task i mg = mg\<lparr>mg_tasks := (mg_tasks mg)[i := (mg_tasks mg ! i)\<lparr>tk_cancelled := True\<rparr>]\<rparr>"

text \<open>The task returns, or is aborted after the join timeout.\<close>

definition finish_task :: "nat \<Rightarrow> manager \<Rightarrow> manager" where
  "finish_task i mg = mg\<lparr>mg_tasks := (mg_tasks mg)[i := (mg_tasks mg ! i)\<lparr>tk_finished := True\<rparr>]\<rparr>"

definition end_stop :: "nat \<Rightarrow> manager \<Rightarrow> manager" where
  "end_stop i mg = mg\<lparr>mg_stopping := filter (\<lambda>j. j \<noteq> i) (mg_stopping mg)\<rparr>"

text \<open>\<^verbatim>\<open>stop_all\<close>: every handle leaves the registry.\<close>

definition drain_workers :: "nat list \<Rightarrow> manager \<Rightarrow> manager" where
  "drain_workers order mg = mg\<lparr>mg_workers := Map.empty, mg_stopping := order @ mg_stopping mg\<rparr>"

inductive manager_step :: "manager \<Rightarrow> manager \<Rightarrow> bool" where
  m_start: "manager_start has_idle has_resolver a f c mg = (b, mg') \<Longrightarrow> manager_step mg mg'"
| m_stop: "stop_take key mg = (b, mg') \<Longrightarrow> manager_step mg mg'"
| m_stop_all: "set order = ran (mg_workers mg) \<Longrightarrow> manager_step mg (drain_workers order mg)"
| m_cancel: "i \<in> set (mg_stopping mg) \<Longrightarrow> manager_step mg (cancel_task i mg)"
| m_return: "i < length (mg_tasks mg) \<Longrightarrow> manager_step mg (finish_task i mg)"
| m_joined: "i \<in> set (mg_stopping mg) \<Longrightarrow> tk_cancelled (mg_tasks mg ! i) \<Longrightarrow> tk_finished (mg_tasks mg ! i) \<Longrightarrow>
    manager_step mg (end_stop i mg)"

subsection \<open>One worker per folder\<close>

text \<open>
  The registry points at tasks of its keys; a task that still runs and was not cancelled is
  registered, or a stop has taken it out and is about to cancel it.
\<close>

definition manager_inv :: "manager \<Rightarrow> bool" where
  "manager_inv mg \<longleftrightarrow>
     (\<forall>key i. mg_workers mg key = Some i \<longrightarrow> i < length (mg_tasks mg) \<and> tk_key (mg_tasks mg ! i) = key) \<and>
     (\<forall>i. i < length (mg_tasks mg) \<longrightarrow> \<not> tk_finished (mg_tasks mg ! i) \<longrightarrow> \<not> tk_cancelled (mg_tasks mg ! i) \<longrightarrow>
        i \<in> set (mg_stopping mg) \<or> mg_workers mg (tk_key (mg_tasks mg ! i)) = Some i) \<and>
     (\<forall>i \<in> set (mg_stopping mg). i < length (mg_tasks mg))"

lemma manager_invD:
  assumes "manager_inv mg"
  shows "mg_workers mg key = Some i \<Longrightarrow> i < length (mg_tasks mg)"
    and "mg_workers mg key = Some i \<Longrightarrow> tk_key (mg_tasks mg ! i) = key"
    and "i < length (mg_tasks mg) \<Longrightarrow> \<not> tk_finished (mg_tasks mg ! i) \<Longrightarrow> \<not> tk_cancelled (mg_tasks mg ! i) \<Longrightarrow>
         i \<in> set (mg_stopping mg) \<or> mg_workers mg (tk_key (mg_tasks mg ! i)) = Some i"
    and "i \<in> set (mg_stopping mg) \<Longrightarrow> i < length (mg_tasks mg)"
  using assms unfolding manager_inv_def by blast+

lemma start_cases:
  assumes "manager_start has_idle has_resolver a f c mg = (b, mg')"
  obtains (busy) "mg' = mg"
  | (fresh) t where "tk_key t = (a, f)" "mg_workers mg' = (mg_workers mg)((a, f) \<mapsto> length (mg_tasks mg))"
      "mg_tasks mg' = mg_tasks mg @ [t]" "mg_stopping mg' = mg_stopping mg"
      "\<And>i. mg_workers mg (a, f) = Some i \<Longrightarrow> tk_finished (mg_tasks mg ! i)"
  using assms unfolding manager_start_def Let_def by (fastforce split: if_splits option.splits)

lemma start_inv:
  assumes inv: "manager_inv mg" and start: "manager_start has_idle has_resolver a f c mg = (b, mg')"
  shows "manager_inv mg'"
  using start
proof (cases rule: start_cases)
  case (fresh t)
  have "i < length (mg_tasks mg') \<and> tk_key (mg_tasks mg' ! i) = key" if "mg_workers mg' key = Some i" for key i
    using that fresh(1-3) manager_invD(1,2) [OF inv, of key i] by (auto simp: nth_append split: if_splits)
  moreover have "i \<in> set (mg_stopping mg') \<or> mg_workers mg' (tk_key (mg_tasks mg' ! i)) = Some i"
    if "i < length (mg_tasks mg')" "\<not> tk_finished (mg_tasks mg' ! i)" "\<not> tk_cancelled (mg_tasks mg' ! i)" for i
    using that fresh manager_invD(3) [OF inv, of i] by (cases "i = length (mg_tasks mg)") (auto simp: nth_append)
  moreover have "i < length (mg_tasks mg')" if "i \<in> set (mg_stopping mg')" for i
    using that fresh(3,4) manager_invD(4) [OF inv, of i] by simp
  ultimately show ?thesis unfolding manager_inv_def by blast
qed (use inv in simp)

lemma stop_take_inv:
  assumes inv: "manager_inv mg" and take: "stop_take key mg = (b, mg')"
  shows "manager_inv mg'"
proof (cases "mg_workers mg key")
  case None
  then show ?thesis using assms by (simp add: stop_take_def)
next
  case (Some i)
  then have mg': "mg' = mg\<lparr>mg_workers := (mg_workers mg)(key := None), mg_stopping := i # mg_stopping mg\<rparr>"
    using take by (simp add: stop_take_def)
  have "j \<in> set (mg_stopping mg') \<or> mg_workers mg' (tk_key (mg_tasks mg' ! j)) = Some j"
    if "j < length (mg_tasks mg')" "\<not> tk_finished (mg_tasks mg' ! j)" "\<not> tk_cancelled (mg_tasks mg' ! j)" for j
    using that manager_invD(3) [OF inv, of j] Some mg' by auto
  then show ?thesis
    using manager_invD(1,2,4) [OF inv] Some unfolding manager_inv_def mg'
    by (auto simp del: split_paired_All split: if_splits)
qed

lemma drain_inv:
  assumes "manager_inv mg" and "set order = ran (mg_workers mg)"
  shows "manager_inv (drain_workers order mg)"
proof -
  have "i \<in> set order \<longleftrightarrow> (\<exists>key. mg_workers mg key = Some i)" for i using assms(2) by (auto simp: ran_def)
  then show ?thesis
    using manager_invD [OF assms(1)] unfolding manager_inv_def drain_workers_def
    by (simp del: split_paired_All split_paired_Ex) blast
qed

lemma task_update_inv:
  assumes "manager_inv mg" and "i < length (mg_tasks mg)" and "tk_key t = tk_key (mg_tasks mg ! i)"
    and "tk_cancelled t \<or> tk_finished t"
  shows "manager_inv (mg\<lparr>mg_tasks := (mg_tasks mg)[i := t]\<rparr>)"
  using assms by (auto simp: manager_inv_def nth_list_update simp del: split_paired_All)

lemma end_stop_inv:
  assumes "manager_inv mg" and "tk_cancelled (mg_tasks mg ! i)"
  shows "manager_inv (end_stop i mg)"
  using assms by (auto simp: manager_inv_def end_stop_def simp del: split_paired_All)

interpretation manager: step_invariant new_manager manager_step manager_inv
proof (unfold_locales, goal_cases)
  case 1
  show ?case by (simp add: manager_inv_def new_manager_def)
next
  case (2 s t)
  then show ?case
    by (cases rule: manager_step.cases)
       (auto simp: cancel_task_def finish_task_def intro: start_inv stop_take_inv drain_inv task_update_inv end_stop_inv
          dest: manager_invD(4))
qed


text \<open>Stopping a worker and starting it again before the stop has cancelled the old one.\<close>

definition overlapping :: manager where
  "overlapping =
     (let key = (1, lit ''INBOX'');
          start = (\<lambda>mg. snd (manager_start False False 1 (lit ''INBOX'') (CredPassword []) mg)) in
      start (snd (stop_take key (start new_manager))))"

lemma overlapping_reachable: "manager_step\<^sup>*\<^sup>* new_manager overlapping"
proof -
  have start: "manager_step mg (snd (manager_start False False 1 (lit ''INBOX'') (CredPassword []) mg))" for mg
    by (rule m_start [of False False 1 "lit ''INBOX''" "CredPassword []"]) (simp add: prod_eq_iff)
  have stop: "manager_step mg (snd (stop_take (1, lit ''INBOX'') mg))" for mg
    by (rule m_stop [of "(1, lit ''INBOX'')"]) (simp add: prod_eq_iff)
  let ?m1 = "snd (manager_start False False 1 (lit ''INBOX'') (CredPassword []) new_manager)"
  let ?m2 = "snd (stop_take (1, lit ''INBOX'') ?m1)"
  have "manager_step\<^sup>*\<^sup>* new_manager ?m2"
    by (rule rtranclp.rtrancl_into_rtrancl [where b = ?m1], rule r_into_rtranclp, rule start, rule stop)
  then have "manager_step\<^sup>*\<^sup>* new_manager
      (snd (manager_start False False 1 (lit ''INBOX'') (CredPassword []) ?m2))"
    by (rule rtranclp.rtrancl_into_rtrancl) (rule start)
  then show ?thesis unfolding overlapping_def Let_def .
qed


end
