(* ===== verification/Search.thy ===== *)
theory Search
  imports Store SqlQuery
begin

text \<open>
  Full-text search, \<^verbatim>\<open>src/db/search.rs\<close>.  The FTS5 index is a parameter: for a query text it
  gives the ids of the matching messages in rank order, or the error SQLite reports.  The
  \<^verbatim>\<open>LIKE\<close> operator and the string literals of FTS5 queries are defined from SQLite's
  documentation, to state what the escaping functions achieve.
\<close>

text \<open>The flag that marks a read message, a backslash and \<^verbatim>\<open>Seen\<close>.\<close>

definition SEEN_FLAG :: rstr where
  "SEEN_FLAG = 92 # lit ''Seen''"

definition quote_term :: "rstr \<Rightarrow> rstr" where
  "quote_term term = [34] @ concat (map (\<lambda>c. if c = 34 then [34, 34] else [c]) term) @ [34]"

definition like_pattern :: "rstr \<Rightarrow> rstr" where
  "like_pattern needle =
     [37] @ concat (map (\<lambda>c. if c = 37 \<or> c = 95 \<or> c = 92 then [92, c] else [c]) needle) @ [37]"

record SearchFilters =
  sf_account_id :: "uuid option"
  sf_folder_id :: "uuid option"
  sf_thread_id :: "uuid option"
  sf_date_from :: "instant option"
  sf_date_to :: "instant option"
  sf_from_addr :: "rstr option"
  sf_to_addr :: "rstr option"
  sf_has_attachments :: "bool option"
  sf_unread :: "bool option"

definition no_filters :: SearchFilters where
  "no_filters = \<lparr>sf_account_id = None, sf_folder_id = None, sf_thread_id = None, sf_date_from = None,
     sf_date_to = None, sf_from_addr = None, sf_to_addr = None, sf_has_attachments = None, sf_unread = None\<rparr>"

subsection \<open>LIKE\<close>

text \<open>
  \<^verbatim>\<open>s LIKE p ESCAPE '\'\<close>: a percent sign stands for any text, an underscore for any character,
  the character after the escape for itself; letters compare without ASCII case.
\<close>

fun sql_like :: "rstr \<Rightarrow> rstr \<Rightarrow> bool" where
  "sql_like [] s = (s = [])"
| "sql_like (p # ps) s =
     (if p = 37 then sql_like ps s \<or> (case s of [] \<Rightarrow> False | _ # s' \<Rightarrow> sql_like (p # ps) s')
      else if p = 92
      then (case ps of
              [] \<Rightarrow> False
            | q # qs \<Rightarrow> (case s of [] \<Rightarrow> False | c # s' \<Rightarrow> ascii_lower q = ascii_lower c \<and> sql_like qs s'))
      else (case s of [] \<Rightarrow> False | c # s' \<Rightarrow> (p = 95 \<or> ascii_lower p = ascii_lower c) \<and> sql_like ps s'))"

declare sql_like.simps(2) [simp del]

text \<open>The column text of an address list, a JSON array of strings.\<close>

definition address_list_text :: "rstr list \<Rightarrow> rstr" where
  "address_list_text addrs = [91] @ join [44] (map json_string_text addrs) @ [93]"

subsection \<open>Searching\<close>

type_synonym fts_index = "rstr \<Rightarrow> store \<Rightarrow> (DbError, uuid list) result"

definition if_given :: "'a option \<Rightarrow> ('a \<Rightarrow> bool) \<Rightarrow> bool" where
  "if_given v P = (case v of None \<Rightarrow> True | Some x \<Rightarrow> P x)"

definition passes :: "SearchFilters \<Rightarrow> store \<Rightarrow> Message \<Rightarrow> bool" where
  "passes f st m \<longleftrightarrow>
     if_given (sf_account_id f) (\<lambda>i. msg_account_id m = i) \<and>
     if_given (sf_folder_id f) (\<lambda>i. msg_folder_id m = i) \<and>
     if_given (sf_thread_id f) (\<lambda>i. msg_thread_id m = Some i) \<and>
     if_given (sf_date_from f) (\<lambda>d. d \<le> msg_internal_date m) \<and>
     if_given (sf_date_to f) (\<lambda>d. msg_internal_date m \<le> d) \<and>
     if_given (sf_from_addr f) (\<lambda>a. sql_like (like_pattern a) (msg_from_addr m)) \<and>
     if_given (sf_to_addr f) (\<lambda>a. sql_like (like_pattern a) (address_list_text (msg_to_addrs m))) \<and>
     if_given (sf_has_attachments f) (\<lambda>b. b = list_ex (\<lambda>a. att_message_id a = msg_id m) (attachments st)) \<and>
     if_given (sf_unread f) (\<lambda>b. b = (\<not> list_ex (\<lambda>v. v = SEEN_FLAG) (msg_flags m)))"

definition hits :: "fts_index \<Rightarrow> rstr \<Rightarrow> store \<Rightarrow> (DbError, Message list) result" where
  "hits fts q st = and_then (fts q st) (\<lambda>ids. Ok (List.map_filter (\<lambda>i. messages_get i st) ids))"

definition search_filtered ::
  "fts_index \<Rightarrow> rstr \<Rightarrow> SearchFilters \<Rightarrow> i64 \<Rightarrow> i64 \<Rightarrow> store \<Rightarrow> (DbError, MessageSummary list) result" where
  "search_filtered fts q f limit offset st =
     and_then (hits fts q st) (\<lambda>ms. Ok (page limit offset (map message_summary (filter (passes f st) ms))))"

definition search_scoped ::
  "fts_index \<Rightarrow> rstr \<Rightarrow> uuid option \<Rightarrow> i64 \<Rightarrow> i64 \<Rightarrow> store \<Rightarrow> (DbError, MessageSummary list) result" where
  "search_scoped fts q account_id limit offset st =
     and_then (hits fts q st) (\<lambda>ms.
       (case account_id of
          Some i \<Rightarrow> Ok (page limit offset (map message_summary (filter (\<lambda>m. msg_account_id m = i) ms)))
        | None \<Rightarrow> Ok (page limit offset (map message_summary ms))))"

definition search :: "fts_index \<Rightarrow> rstr \<Rightarrow> i64 \<Rightarrow> i64 \<Rightarrow> store \<Rightarrow> (DbError, MessageSummary list) result" where
  "search fts q limit offset st = search_scoped fts q None limit offset st"

subsection \<open>Quoted terms\<close>

text \<open>
  A string at the start of an FTS5 query: from its quote to the next quote that is not doubled,
  with the text after it.
\<close>

fun fts_string_body :: "rstr \<Rightarrow> (rstr \<times> rstr) option" where
  "fts_string_body [] = None"
| "fts_string_body [c] = (if c = 34 then Some ([], []) else None)"
| "fts_string_body (c # d # s) =
     (if c = 34 then (if d = 34 then map_option (map_prod (Cons 34) (\<lambda>r. r)) (fts_string_body s)
                      else Some ([], d # s))
      else map_option (map_prod (Cons c) (\<lambda>r. r)) (fts_string_body (d # s)))"

fun fts_string :: "rstr \<Rightarrow> (rstr \<times> rstr) option" where
  "fts_string [] = None"
| "fts_string (c # s) = (if c = 34 then fts_string_body s else None)"

lemma fts_string_body_plain:
  "c \<noteq> 34 \<Longrightarrow> fts_string_body (c # s) = map_option (map_prod (Cons c) (\<lambda>r. r)) (fts_string_body s)"
  by (cases s) auto

lemma fts_string_body_end:
  "rest = [] \<or> hd rest \<noteq> 34 \<Longrightarrow> fts_string_body (34 # rest) = Some ([], rest)"
  by (cases rest) auto

lemma fts_string_body_quoted:
  "rest = [] \<or> hd rest \<noteq> 34 \<Longrightarrow>
   fts_string_body (concat (map (\<lambda>c. if c = 34 then [34, 34] else [c]) t) @ 34 # rest) = Some (t, rest)"
  by (induction t) (auto simp: fts_string_body_end fts_string_body_plain)

text \<open>
  Whatever text a user types, the quoted term is one FTS5 string whose value is that text, up
  to whatever follows it; no operator or quote of the text is seen by the query parser.
\<close>

theorem quote_term_is_one_string:
  "rest = [] \<or> hd rest \<noteq> 34 \<Longrightarrow> fts_string (quote_term term @ rest) = Some (term, rest)"
  using fts_string_body_quoted [of rest "term"] by (simp add: quote_term_def)

theorem quote_term_is_one_string_witness:
  "fts_string (quote_term (34 # lit '' OR x'') @ lit '' AND y'') = Some (34 # lit '' OR x'', lit '' AND y'')"
  by (rule quote_term_is_one_string) (simp add: lit_def)

subsection \<open>Substring patterns\<close>

lemma sql_like_any: "sql_like [37] s"
  by (induction s) (simp_all add: sql_like.simps)

lemma sql_like_percent: "sql_like (37 # ps) s \<longleftrightarrow> (\<exists>a b. s = a @ b \<and> sql_like ps b)"
proof (induction s)
  case Nil
  then show ?case by (simp add: sql_like.simps)
next
  case (Cons c s)
  have "sql_like (37 # ps) (c # s) \<longleftrightarrow> sql_like ps (c # s) \<or> sql_like (37 # ps) s"
    by (simp add: sql_like.simps)
  with Cons show ?case by (auto simp: Cons_eq_append_conv)
qed

lemma sql_like_escaped:
  "sql_like (concat (map (\<lambda>c. if c = 37 \<or> c = 95 \<or> c = 92 then [92, c] else [c]) needle) @ [37]) s \<longleftrightarrow>
   (\<exists>m b. s = m @ b \<and> to_ascii_lowercase m = to_ascii_lowercase needle)"
proof (induction needle arbitrary: s)
  case Nil
  show ?case by (simp add: sql_like_any to_ascii_lowercase_def)
next
  case (Cons c needle)
  let ?rest = "concat (map (\<lambda>c. if c = 37 \<or> c = 95 \<or> c = 92 then [92, c] else [c]) needle) @ [37]"
  have "sql_like (concat (map (\<lambda>c. if c = 37 \<or> c = 95 \<or> c = 92 then [92, c] else [c]) (c # needle)) @ [37]) s \<longleftrightarrow>
      (\<exists>d s'. s = d # s' \<and> ascii_lower d = ascii_lower c \<and> sql_like ?rest s')"
    by (cases s) (auto simp: sql_like.simps)
  also have "\<dots> \<longleftrightarrow> (\<exists>m b. s = m @ b \<and> to_ascii_lowercase m = to_ascii_lowercase (c # needle))"
    unfolding Cons.IH to_ascii_lowercase_def
    by (auto simp: map_eq_Cons_conv Cons_eq_append_conv) blast+
  finally show ?case .
qed

text \<open>
  The pattern built for an address filter accepts exactly the texts that contain the needle
  as a substring, letters compared without ASCII case; percent signs, underscores and backslashes
  of the needle match only themselves.
\<close>

theorem like_pattern_is_substring:
  "sql_like (like_pattern needle) s \<longleftrightarrow>
   (\<exists>a m b. s = a @ m @ b \<and> to_ascii_lowercase m = to_ascii_lowercase needle)"
  unfolding like_pattern_def append_Cons append_Nil sql_like_percent sql_like_escaped by blast

subsection \<open>Scoped and filtered search agree\<close>

lemma search_scoped_is_filtered:
  "search_scoped fts q acc limit offset st = search_filtered fts q (no_filters\<lparr>sf_account_id := acc\<rparr>) limit offset st"
proof -
  have "passes (no_filters\<lparr>sf_account_id := acc\<rparr>) st = (\<lambda>m. if_given acc (\<lambda>i. msg_account_id m = i))"
    by (auto simp: passes_def no_filters_def if_given_def)
  then show ?thesis
    by (cases acc) (simp_all add: search_scoped_def search_filtered_def if_given_def)
qed

text \<open>
  A search with no filter is the plain search, and one with only an account is the search
  scoped to that account, errors included.
\<close>

theorem search_variants_agree:
  "search_filtered fts q no_filters limit offset st = search fts q limit offset st"
  "search_filtered fts q (no_filters\<lparr>sf_account_id := Some acc\<rparr>) limit offset st = search_scoped fts q (Some acc) limit offset st"
  unfolding search_def search_scoped_is_filtered by (simp_all add: no_filters_def)

end
