(* ===== verification/Secrets.thy ===== *)
theory Secrets
  imports Attachments
begin

text \<open>
  Secret storage, \<^verbatim>\<open>src/secrets/mod.rs\<close>, \<^verbatim>\<open>file.rs\<close> and \<^verbatim>\<open>keyring.rs\<close>.  The trait \<^verbatim>\<open>SecretStore\<close>
  is the locale \<open>secret_store\<close>; its two implementations are its interpretations.  Argon2,
  AES-GCM, the JSON text of the map and the operating system's keyring are parameters; files and
  their failures are modelled.
\<close>

datatype KeyringSecretError =
    KeyringPlatform rstr
  | StorageUnavailable rstr
  | KeyringNotFound
  | KeyringBadEncoding
  | KeyringTooLong rstr nat
  | KeyringInvalid rstr rstr
  | KeyringAmbiguous
  | KeyringTask rstr

datatype SecretError =
    SecretIo rstr
  | SecretCrypto rstr
  | SecretDecode rstr
  | SecretBackend rstr
  | SecretKeyring KeyringSecretError

definition secret_ref :: "(uuid \<Rightarrow> rstr) \<Rightarrow> uuid \<Rightarrow> rstr" where
  "secret_ref show_uuid account_id = lit ''account:'' @ show_uuid account_id"

subsection \<open>The contract\<close>

text \<open>
  \<open>contents\<close> is what a store holds, \<open>None\<close> when it cannot be read; \<open>sound\<close> says that the
  libraries behind the store behave as documented.
\<close>

locale secret_store =
  fixes put :: "uuid \<Rightarrow> rstr \<Rightarrow> 's \<Rightarrow> (SecretError, unit) result \<times> 's"
    and get :: "uuid \<Rightarrow> 's \<Rightarrow> (SecretError, rstr option) result \<times> 's"
    and del :: "uuid \<Rightarrow> 's \<Rightarrow> (SecretError, unit) result \<times> 's"
    and contents :: "'s \<Rightarrow> (uuid \<Rightarrow> rstr option) option"
    and sound :: "'s \<Rightarrow> bool"
  assumes sound_put: "sound s \<Longrightarrow> sound (snd (put i x s))"
    and sound_get: "sound s \<Longrightarrow> sound (snd (get i s))"
    and sound_del: "sound s \<Longrightarrow> sound (snd (del i s))"
    and put_ok: "sound s \<Longrightarrow> put i x s = (Inr u, s') \<Longrightarrow> \<exists>m. contents s = Some m \<and> contents s' = Some (m(i := Some x))"
    and put_err: "sound s \<Longrightarrow> put i x s = (Inl e, s') \<Longrightarrow> contents s' = contents s"
    and get_ok: "sound s \<Longrightarrow> get i s = (Inr r, s') \<Longrightarrow> \<exists>m. contents s = Some m \<and> r = m i"
    and get_keeps: "sound s \<Longrightarrow> contents (snd (get i s)) = contents s"
    and del_ok: "sound s \<Longrightarrow> del i s = (Inr u, s') \<Longrightarrow> \<exists>m. contents s = Some m \<and> contents s' = Some (m(i := None))"
    and del_err: "sound s \<Longrightarrow> del i s = (Inl e, s') \<Longrightarrow> contents s' = contents s"
begin

text \<open>A secret that was stored is what a later read returns, and no other account's changes.\<close>

lemma get_after_put:
  assumes "sound s" "put i x s = (Inr u, s1)" "get j s1 = (Inr r, s2)"
  shows "r = (if j = i then Some x else the (contents s) j)"
proof -
  from put_ok [OF assms(1,2)] obtain m where m: "contents s = Some m" "contents s1 = Some (m(i := Some x))"
    by blast
  from sound_put [OF assms(1), of i x] assms(2) have "sound s1" by simp
  from get_ok [OF this assms(3)] m show ?thesis by auto
qed

lemma get_after_del:
  assumes "sound s" "del i s = (Inr u, s1)" "get j s1 = (Inr r, s2)"
  shows "r = (if j = i then None else the (contents s) j)"
proof -
  from del_ok [OF assms(1,2)] obtain m where m: "contents s = Some m" "contents s1 = Some (m(i := None))"
    by blast
  from sound_del [OF assms(1), of i] assms(2) have "sound s1" by simp
  from get_ok [OF this assms(3)] m show ?thesis by auto
qed

text \<open>A failed write or removal loses nothing.\<close>

lemma failed_write_keeps:
  assumes "sound s" "put i x s = (Inl e, s') \<or> del i s = (Inl e, s')"
  shows "contents s' = contents s"
  using assms put_err del_err by blast

end

subsection \<open>The file backend\<close>

definition VERSION :: byte where
  "VERSION = 1"

definition SALT_LEN :: nat where
  "SALT_LEN = 16"

definition NONCE_LEN :: nat where
  "NONCE_LEN = 12"

record KdfParams =
  kdf_mem_kib :: nat
  kdf_iterations :: nat
  kdf_parallelism :: nat

definition default_kdf :: KdfParams where
  "default_kdf = \<lparr>kdf_mem_kib = 19456, kdf_iterations = 2, kdf_parallelism = 1\<rparr>"

text \<open>The map is a \<^verbatim>\<open>BTreeMap\<close>: entries in the order of their keys.\<close>

type_synonym secret_map = "(uuid \<times> rstr) list"

fun map_insert :: "uuid \<Rightarrow> rstr \<Rightarrow> secret_map \<Rightarrow> secret_map" where
  "map_insert k v [] = [(k, v)]"
| "map_insert k v ((k', v') # m) =
     (if k = k' then (k, v) # m else if k < k' then (k, v) # (k', v') # m else (k', v') # map_insert k v m)"

definition map_remove :: "uuid \<Rightarrow> secret_map \<Rightarrow> secret_map" where
  "map_remove k m = filter (\<lambda>(k', _). k' \<noteq> k) m"

record secret_crypto =
  argon2_params :: "KdfParams \<Rightarrow> (rstr, unit) result"
  argon2_hash :: "KdfParams \<Rightarrow> rstr \<Rightarrow> byte list \<Rightarrow> (rstr, byte list) result"
  aes_encrypt :: "byte list \<Rightarrow> byte list \<Rightarrow> byte list \<Rightarrow> (rstr, byte list) result"
  aes_decrypt :: "byte list \<Rightarrow> byte list \<Rightarrow> byte list \<Rightarrow> byte list option"
  map_to_vec :: "secret_map \<Rightarrow> (rstr, byte list) result"
  map_from_slice :: "byte list \<Rightarrow> (rstr, secret_map) result"

text \<open>
  A store and the files it works on.  \<open>fs_faults\<close> are the outcomes of the coming file operations:
  \<open>None\<close> succeeds, as does every operation after the end of the list; a fault names the error and
  what had reached the file by then.  \<open>fs_random\<close> is the random source with the bytes drawn.
\<close>

record file_store =
  fs_path :: rstr
  fs_passphrase :: rstr
  fs_kdf :: KdfParams
  fs_crypto :: secret_crypto
  fs_files :: "rstr \<Rightarrow> byte list option"
  fs_faults :: "(rstr \<times> byte list) option list"
  fs_random :: "nat \<Rightarrow> byte"
  fs_drawn :: nat

definition next_fault :: "file_store \<Rightarrow> (rstr \<times> byte list) option \<times> file_store" where
  "next_fault s = (case fs_faults s of [] \<Rightarrow> (None, s) | f # rest \<Rightarrow> (f, s\<lparr>fs_faults := rest\<rparr>))"

definition fill_bytes :: "nat \<Rightarrow> file_store \<Rightarrow> byte list \<times> file_store" where
  "fill_bytes n s = (map (fs_random s) [fs_drawn s ..< fs_drawn s + n], s\<lparr>fs_drawn := fs_drawn s + n\<rparr>)"

definition tmp_path :: "rstr \<Rightarrow> rstr" where
  "tmp_path p = p @ lit ''.tmp''"

definition derive_key :: "secret_crypto \<Rightarrow> rstr \<Rightarrow> byte list \<Rightarrow> KdfParams \<Rightarrow> (SecretError, byte list) result" where
  "derive_key c passphrase salt kdf =
     and_then (map_err (\<lambda>e. SecretCrypto (lit ''argon2 params: '' @ e)) (argon2_params c kdf)) (\<lambda>_.
     map_err (\<lambda>e. SecretCrypto (lit ''argon2: '' @ e)) (argon2_hash c kdf passphrase salt))"

definition encrypt :: "secret_map \<Rightarrow> file_store \<Rightarrow> (SecretError, byte list) result \<times> file_store" where
  "encrypt m s =
     (let (salt, s1) = fill_bytes SALT_LEN s;
          (nonce, s2) = fill_bytes NONCE_LEN s1;
          c = fs_crypto s in
      (and_then (derive_key c (fs_passphrase s) salt (fs_kdf s)) (\<lambda>key.
       and_then (map_err (\<lambda>e. SecretDecode (lit ''serialise map: '' @ e)) (map_to_vec c m)) (\<lambda>plaintext.
       and_then (map_err (\<lambda>e. SecretCrypto (lit ''encrypt: '' @ e)) (aes_encrypt c key nonce plaintext)) (\<lambda>ct.
       Ok ([VERSION] @ salt @ nonce @ ct)))), s2))"

definition decrypt :: "secret_crypto \<Rightarrow> byte list \<Rightarrow> rstr \<Rightarrow> KdfParams \<Rightarrow> (SecretError, secret_map) result" where
  "decrypt c bytes passphrase kdf =
     (if length bytes < 1 + SALT_LEN + NONCE_LEN + 16 then Err (SecretDecode (lit ''file too short''))
      else if hd bytes \<noteq> VERSION
      then Err (SecretDecode (lit ''unknown version 0x'' @
             (let hex = (\<lambda>n. if n < 10 then 48 + n else 87 + n); n = unat (hd bytes) in [hex (n div 16), hex (n mod 16)])))
      else
        (let salt = take SALT_LEN (drop 1 bytes);
             nonce = take NONCE_LEN (drop (1 + SALT_LEN) bytes);
             ct = drop (1 + SALT_LEN + NONCE_LEN) bytes in
         and_then (derive_key c passphrase salt kdf) (\<lambda>key.
         and_then (ok_or (SecretCrypto (lit ''aead authentication failed'')) (aes_decrypt c key nonce ct)) (\<lambda>plaintext.
         map_err (\<lambda>e. SecretDecode (lit ''plaintext json: '' @ e)) (map_from_slice c plaintext)))))"

text \<open>The bytes of a secrets file as a map; a missing and an empty file hold none.\<close>

definition decode_file :: "file_store \<Rightarrow> (SecretError, secret_map) result" where
  "decode_file s =
     (case fs_files s (fs_path s) of
        None \<Rightarrow> Ok []
      | Some bytes \<Rightarrow> if bytes = [] then Ok [] else decrypt (fs_crypto s) bytes (fs_passphrase s) (fs_kdf s))"

definition read_map :: "file_store \<Rightarrow> (SecretError, secret_map) result \<times> file_store" where
  "read_map s =
     (case next_fault s of
        (Some (e, _), s1) \<Rightarrow> (Err (SecretIo e), s1)
      | (None, s1) \<Rightarrow> (decode_file s1, s1))"

definition fs_create_dir_all :: "file_store \<Rightarrow> (SecretError, unit) result \<times> file_store" where
  "fs_create_dir_all s =
     (case next_fault s of (Some (e, _), s1) \<Rightarrow> (Err (SecretIo e), s1) | (None, s1) \<Rightarrow> (Ok (), s1))"

definition fs_write :: "rstr \<Rightarrow> byte list \<Rightarrow> file_store \<Rightarrow> (SecretError, unit) result \<times> file_store" where
  "fs_write p bytes s =
     (case next_fault s of
        (Some (e, partly), s1) \<Rightarrow> (Err (SecretIo e), s1\<lparr>fs_files := (fs_files s1)(p \<mapsto> partly)\<rparr>)
      | (None, s1) \<Rightarrow> (Ok (), s1\<lparr>fs_files := (fs_files s1)(p \<mapsto> bytes)\<rparr>))"

definition fs_rename :: "rstr \<Rightarrow> rstr \<Rightarrow> file_store \<Rightarrow> (SecretError, unit) result \<times> file_store" where
  "fs_rename p q s =
     (case next_fault s of
        (Some (e, _), s1) \<Rightarrow> (Err (SecretIo e), s1)
      | (None, s1) \<Rightarrow> (Ok (), s1\<lparr>fs_files := (fs_files s1)(q := fs_files s1 p, p := None)\<rparr>))"

definition fs_bind ::
  "('s \<Rightarrow> (SecretError, 'a) result \<times> 's) \<Rightarrow> ('a \<Rightarrow> 's \<Rightarrow> (SecretError, 'b) result \<times> 's)
   \<Rightarrow> 's \<Rightarrow> (SecretError, 'b) result \<times> 's" where
  "fs_bind m f s = (case m s of (Inl e, s1) \<Rightarrow> (Inl e, s1) | (Inr x, s1) \<Rightarrow> f x s1)"

text \<open>Whether \<^verbatim>\<open>Path::parent\<close> names a directory: a leading dot counts as a component.\<close>

definition has_parent :: "rstr \<Rightarrow> bool" where
  "has_parent p \<longleftrightarrow>
     (let n = length (path_components p);
          dot = p = lit ''.'' \<or> starts_with p (lit ''./'') in
      if starts_with p (lit ''/'') then 0 < n else 2 \<le> n + (if dot then 1 else 0))"

definition write_map :: "secret_map \<Rightarrow> file_store \<Rightarrow> (SecretError, unit) result \<times> file_store" where
  "write_map m s =
     fs_bind (if has_parent (fs_path s) then fs_create_dir_all else (\<lambda>s. (Ok (), s))) (\<lambda>_.
     fs_bind (encrypt m) (\<lambda>payload.
     fs_bind (fs_write (tmp_path (fs_path s)) payload) (\<lambda>_.
     fs_rename (tmp_path (fs_path s)) (fs_path s)))) s"

definition file_put :: "uuid \<Rightarrow> rstr \<Rightarrow> file_store \<Rightarrow> (SecretError, unit) result \<times> file_store" where
  "file_put account_id secret = fs_bind read_map (\<lambda>m. write_map (map_insert account_id secret m))"

definition file_get :: "uuid \<Rightarrow> file_store \<Rightarrow> (SecretError, rstr option) result \<times> file_store" where
  "file_get account_id = fs_bind read_map (\<lambda>m s. (Ok (map_of m account_id), s))"

definition file_delete :: "uuid \<Rightarrow> file_store \<Rightarrow> (SecretError, unit) result \<times> file_store" where
  "file_delete account_id =
     fs_bind read_map (\<lambda>m.
       (case map_of m account_id of
          Some _ \<Rightarrow> write_map (map_remove account_id m)
        | None \<Rightarrow> (\<lambda>s. (Ok (), s))))"


subsection \<open>The file backend keeps the contract\<close>

definition sorted_map :: "secret_map \<Rightarrow> bool" where
  "sorted_map m \<longleftrightarrow> sorted_wrt (<) (map fst m)"

text \<open>
  Authenticated encryption is undone by decryption and adds a 16-byte tag; the JSON text of a map
  reads back as that map, and only ordered maps are read.
\<close>

definition crypto_ok :: "secret_crypto \<Rightarrow> bool" where
  "crypto_ok c \<longleftrightarrow>
     (\<forall>key nonce p ct. aes_encrypt c key nonce p = Ok ct \<longrightarrow>
        aes_decrypt c key nonce ct = Some p \<and> length ct = length p + 16) \<and>
     (\<forall>m b. sorted_map m \<longrightarrow> map_to_vec c m = Ok b \<longrightarrow> map_from_slice c b = Ok m) \<and>
     (\<forall>b m. map_from_slice c b = Ok m \<longrightarrow> sorted_map m)"

definition file_sound :: "file_store \<Rightarrow> bool" where
  "file_sound s \<longleftrightarrow> crypto_ok (fs_crypto s)"

definition file_contents :: "file_store \<Rightarrow> (uuid \<Rightarrow> rstr option) option" where
  "file_contents s = (case decode_file s of Inl _ \<Rightarrow> None | Inr m \<Rightarrow> Some (map_of m))"

text \<open>What no file operation changes.\<close>

definition same_settings :: "file_store \<Rightarrow> file_store \<Rightarrow> bool" where
  "same_settings s s' \<longleftrightarrow>
     fs_path s' = fs_path s \<and> fs_passphrase s' = fs_passphrase s \<and> fs_kdf s' = fs_kdf s \<and> fs_crypto s' = fs_crypto s"

lemma map_of_insert: "map_of (map_insert k v m) = (map_of m)(k \<mapsto> v)"
  by (induction k v m rule: map_insert.induct) auto

lemma keys_insert: "fst ` set (map_insert k v m) = insert k (fst ` set m)"
  by (induction k v m rule: map_insert.induct) auto

lemma sorted_insert: "sorted_map m \<Longrightarrow> sorted_map (map_insert k v m)"
  unfolding sorted_map_def
proof (induction k v m rule: map_insert.induct)
  case (2 k v k' v' m)
  then show ?case using keys_insert [of k v m] by (auto simp: image_iff)
qed simp

lemma map_of_remove: "map_of (map_remove k m) = (map_of m)(k := None)"
  by (induction m) (auto simp: map_remove_def)

lemma sorted_remove: "sorted_map m \<Longrightarrow> sorted_map (map_remove k m)"
  by (simp add: sorted_map_def map_remove_def sorted_wrt_map sorted_wrt_filter)

lemma decode_file_cong:
  "same_settings s s' \<Longrightarrow> fs_files s' (fs_path s) = fs_files s (fs_path s) \<Longrightarrow> decode_file s' = decode_file s"
  by (auto simp: same_settings_def decode_file_def split: option.splits)

lemma next_fault_keeps: "next_fault s = (f, s') \<Longrightarrow> same_settings s s' \<and> fs_files s' = fs_files s"
  by (auto simp: next_fault_def same_settings_def split: list.splits)

lemma read_map_keeps: "same_settings s (snd (read_map s)) \<and> fs_files (snd (read_map s)) = fs_files s"
  using next_fault_keeps [of s] by (auto simp: read_map_def split: prod.splits option.splits)

lemma read_map_Ok: "read_map s = (Inr m, s') \<Longrightarrow> decode_file s = Inr m"
  using next_fault_keeps [of s]
  by (auto simp: read_map_def decode_file_cong split: prod.splits option.splits)

lemma tmp_path_ne: "tmp_path p \<noteq> p"
  by (simp add: tmp_path_def)

lemma same_settings_trans: "same_settings s s1 \<Longrightarrow> same_settings s1 s2 \<Longrightarrow> same_settings s s2"
  by (simp add: same_settings_def)

text \<open>Every stage before the rename leaves the secrets file alone.\<close>

definition spares :: "rstr \<Rightarrow> (file_store \<Rightarrow> ('e, 'a) result \<times> file_store) \<Rightarrow> bool" where
  "spares p f \<longleftrightarrow> (\<forall>s. same_settings s (snd (f s)) \<and> fs_files (snd (f s)) p = fs_files s p)"

lemma sparesD: "spares p f \<Longrightarrow> f s = (r, s') \<Longrightarrow> same_settings s s' \<and> fs_files s' p = fs_files s p"
  unfolding spares_def by (metis snd_conv)

lemma spares_pure: "spares p (\<lambda>s. (r, s))"
  by (simp add: spares_def same_settings_def)

lemma spares_stages:
  "spares p fs_create_dir_all"
  "spares p (encrypt m)"
  "q \<noteq> p \<Longrightarrow> spares p (fs_write q bytes)"
  unfolding spares_def using next_fault_keeps
  by (auto simp: same_settings_def fs_create_dir_all_def encrypt_def fill_bytes_def Let_def fs_write_def
      split: prod.splits option.splits)

lemma decrypt_payload:
  assumes "length salt = SALT_LEN" "length nonce = NONCE_LEN" "16 \<le> length ct"
  shows "decrypt c (VERSION # salt @ nonce @ ct) passphrase kdf =
     and_then (derive_key c passphrase salt kdf) (\<lambda>key.
     and_then (ok_or (SecretCrypto (lit ''aead authentication failed'')) (aes_decrypt c key nonce ct)) (\<lambda>plaintext.
     map_err (\<lambda>e. SecretDecode (lit ''plaintext json: '' @ e)) (map_from_slice c plaintext)))"
  using assms by (simp add: decrypt_def Let_def)

lemma encrypt_decrypt:
  assumes "crypto_ok (fs_crypto s)" "sorted_map m" "encrypt m s = (Inr payload, s')"
  shows "payload \<noteq> [] \<and> decrypt (fs_crypto s) payload (fs_passphrase s) (fs_kdf s) = Ok m"
proof -
  let ?c = "fs_crypto s"
  define salt where "salt = fst (fill_bytes SALT_LEN s)"
  define nonce where "nonce = fst (fill_bytes NONCE_LEN (snd (fill_bytes SALT_LEN s)))"
  have len: "length salt = SALT_LEN" "length nonce = NONCE_LEN"
    by (simp_all add: salt_def nonce_def fill_bytes_def)
  from assms(3) obtain key plaintext ct where
    key: "derive_key ?c (fs_passphrase s) salt (fs_kdf s) = Ok key"
    and plain: "map_to_vec ?c m = Ok plaintext" and ct: "aes_encrypt ?c key nonce plaintext = Ok ct"
    and payload: "payload = VERSION # salt @ nonce @ ct"
    by (auto simp: encrypt_def Let_def result_simps salt_def nonce_def split: prod.splits)
  from assms(1) ct have dec: "aes_decrypt ?c key nonce ct = Some plaintext" and tag: "length ct = length plaintext + 16"
    unfolding crypto_ok_def by blast+
  from assms(1,2) plain have map: "map_from_slice ?c plaintext = Ok m" unfolding crypto_ok_def by blast
  show ?thesis unfolding payload using decrypt_payload [OF len, of ct] tag key dec map by simp
qed

lemma fs_bind_split:
  "fs_bind m f s = (r, s2) \<longleftrightarrow>
   (\<exists>e. m s = (Inl e, s2) \<and> r = Inl e) \<or> (\<exists>x s1. m s = (Inr x, s1) \<and> f x s1 = (r, s2))"
  by (auto simp: fs_bind_def split: prod.splits sum.splits)

lemma fs_bind_assoc: "fs_bind (fs_bind m f) g = fs_bind m (\<lambda>x. fs_bind (f x) g)"
  by (auto simp: fs_bind_def fun_eq_iff split: prod.splits sum.splits)

lemma fs_bind_Ok: "fs_bind (\<lambda>s. (Inr x, s)) f = f x"
  by (simp add: fs_bind_def fun_eq_iff)

lemma spares_bind:
  assumes "spares p m" "\<And>x. spares p (f x)"
  shows "spares p (fs_bind m f)"
  unfolding spares_def
proof
  fix s
  obtain r s2 where run: "fs_bind m f s = (r, s2)" by fastforce
  then have "same_settings s s2 \<and> fs_files s2 p = fs_files s p"
    using assms [THEN sparesD] same_settings_trans unfolding fs_bind_split by metis
  with run show "same_settings s (snd (fs_bind m f s)) \<and> fs_files (snd (fs_bind m f s)) p = fs_files s p" by simp
qed

text \<open>Writing splits into the preparation of the temporary file and the rename.\<close>

definition prepare :: "secret_map \<Rightarrow> rstr \<Rightarrow> file_store \<Rightarrow> (SecretError, byte list) result \<times> file_store" where
  "prepare m p =
     fs_bind (if has_parent p then fs_create_dir_all else (\<lambda>s. (Ok (), s))) (\<lambda>_.
     fs_bind (encrypt m) (\<lambda>payload.
     fs_bind (fs_write (tmp_path p) payload) (\<lambda>_ s. (Ok payload, s))))"

lemma write_map_prepare:
  "write_map m s = fs_bind (prepare m (fs_path s)) (\<lambda>_. fs_rename (tmp_path (fs_path s)) (fs_path s)) s"
  by (simp add: write_map_def prepare_def fs_bind_assoc fs_bind_Ok)

lemma spares_prepare: "spares p (prepare m p)"
  unfolding prepare_def
  by (intro spares_bind) (simp_all add: spares_stages spares_pure tmp_path_ne)

lemma prepare_Ok:
  assumes "file_sound s" "sorted_map m" "prepare m (fs_path s) s = (Inr payload, s')"
  shows "payload \<noteq> []" "decrypt (fs_crypto s) payload (fs_passphrase s) (fs_kdf s) = Ok m"
    "fs_files s' (tmp_path (fs_path s)) = Some payload"
proof -
  from assms(3) obtain r1 s1 s2 where
    dir: "(if has_parent (fs_path s) then fs_create_dir_all else (\<lambda>s. (Ok (), s))) s = (r1, s1)"
    and enc: "encrypt m s1 = (Inr payload, s2)"
    and written: "fs_write (tmp_path (fs_path s)) payload s2 = (Inr (), s')"
    unfolding prepare_def fs_bind_split by auto
  have "spares (fs_path s) (if has_parent (fs_path s) then fs_create_dir_all else (\<lambda>s. (Ok (), s)))"
    by (simp add: spares_stages spares_pure)
  from sparesD [OF this dir] assms(1) have "crypto_ok (fs_crypto s1)" "same_settings s s1"
    by (auto simp: file_sound_def same_settings_def)
  with encrypt_decrypt [OF _ assms(2) enc] show "payload \<noteq> []"
    "decrypt (fs_crypto s) payload (fs_passphrase s) (fs_kdf s) = Ok m"
    by (auto simp: same_settings_def)
  show "fs_files s' (tmp_path (fs_path s)) = Some payload"
    using written by (auto simp: fs_write_def split: prod.splits option.splits)
qed

lemma fs_rename_cases:
  "fs_rename p q s = (r, s') \<Longrightarrow>
   same_settings s s' \<and> (case r of Inl _ \<Rightarrow> fs_files s' = fs_files s | Inr _ \<Rightarrow> fs_files s' = (fs_files s)(q := fs_files s p, p := None))"
  using next_fault_keeps [of s] by (auto simp: fs_rename_def same_settings_def split: prod.splits option.splits)

lemma write_map_result:
  assumes ok: "file_sound s" "sorted_map m" and run: "write_map m s = (r, s')"
  shows "same_settings s s' \<and> (case r of Inl _ \<Rightarrow> decode_file s' = decode_file s | Inr _ \<Rightarrow> decode_file s' = Inr m)"
proof -
  let ?p = "fs_path s"
  from run consider (failed) e where "prepare m ?p s = (Inl e, s')" "r = Inl e"
    | (renamed) payload s1 where "prepare m ?p s = (Inr payload, s1)" "fs_rename (tmp_path ?p) ?p s1 = (r, s')"
    unfolding write_map_prepare fs_bind_split by blast
  then show ?thesis
  proof cases
    case failed
    with sparesD [OF spares_prepare failed(1)] show ?thesis using decode_file_cong [of s s'] by simp
  next
    case renamed
    note prep = sparesD [OF spares_prepare renamed(1)] and move = fs_rename_cases [OF renamed(2)]
    from prep move have settings: "same_settings s s'" by (blast intro: same_settings_trans)
    show ?thesis
    proof (cases r)
      case (Inl e)
      with prep move settings show ?thesis using decode_file_cong [of s s'] by simp
    next
      case (Inr u)
      with move settings tmp_path_ne [of ?p] prepare_Ok [OF ok renamed(1)] show ?thesis
        by (auto simp: decode_file_def same_settings_def)
    qed
  qed
qed

lemma sound_same: "same_settings s s' \<Longrightarrow> file_sound s' = file_sound s"
  by (simp add: same_settings_def file_sound_def)

lemma decrypt_Ok: "decrypt c bytes passphrase kdf = Ok m \<Longrightarrow> \<exists>plaintext. map_from_slice c plaintext = Ok m"
  unfolding decrypt_def Let_def by (simp add: result_simps split: if_splits) blast

lemma decode_sorted:
  assumes "file_sound s" "decode_file s = Inr m"
  shows "sorted_map m"
proof (cases "m = []")
  case False
  with assms(2) obtain bytes where "decrypt (fs_crypto s) bytes (fs_passphrase s) (fs_kdf s) = Ok m"
    by (auto simp: decode_file_def split: option.splits if_splits)
  from decrypt_Ok [OF this] assms(1) show ?thesis unfolding file_sound_def crypto_ok_def by blast
qed (simp add: sorted_map_def)

text \<open>A read followed by a write of a changed map.\<close>

lemma file_change:
  assumes sound: "file_sound s" and sorted: "\<And>m. sorted_map m \<Longrightarrow> sorted_map (f m)"
    and run: "fs_bind read_map (\<lambda>m. write_map (f m)) s = (r, s')"
  shows "same_settings s s' \<and>
     (case r of Inl _ \<Rightarrow> decode_file s' = decode_file s
              | Inr _ \<Rightarrow> \<exists>m. decode_file s = Inr m \<and> decode_file s' = Inr (f m))"
proof -
  from run consider (unread) e where "read_map s = (Inl e, s')" "r = Inl e"
    | (changed) m s1 where "read_map s = (Inr m, s1)" "write_map (f m) s1 = (r, s')"
    unfolding fs_bind_split by blast
  then show ?thesis
  proof cases
    case unread
    with read_map_keeps [of s] show ?thesis using decode_file_cong [of s s'] by simp
  next
    case changed
    from read_map_keeps [of s] changed(1) have keep: "same_settings s s1" "decode_file s1 = decode_file s"
      using decode_file_cong [of s s1] by auto
    from read_map_Ok [OF changed(1)] have m: "decode_file s = Inr m" .
    have "sorted_map (f m)" using decode_sorted [OF sound m] by (rule sorted)
    from write_map_result [OF _ this changed(2)] sound keep m show ?thesis
      by (auto simp: sound_same intro: same_settings_trans split: sum.splits)
  qed
qed


lemma file_del_change:
  assumes sound: "file_sound s" and run: "file_delete i s = (r, s')"
  shows "same_settings s s' \<and>
     (case r of Inl _ \<Rightarrow> decode_file s' = decode_file s
              | Inr _ \<Rightarrow> \<exists>m. decode_file s = Inr m \<and> decode_file s' = Inr (map_remove i m))"
proof (cases "\<exists>m s1. read_map s = (Inr m, s1) \<and> map_of m i = None")
  case True
  then obtain m s1 where m: "read_map s = (Inr m, s1)" "map_of m i = None" by blast
  then have "map_remove i m = m" by (force simp: map_remove_def filter_id_conv map_of_eq_None_iff)
  moreover from m run have "r = Inr ()" "s' = s1" by (auto simp: file_delete_def fs_bind_def)
  ultimately show ?thesis
    using read_map_keeps [of s] read_map_Ok [OF m(1)] decode_file_cong [of s s1] m(1) by auto
next
  case False
  with run have "fs_bind read_map (\<lambda>m. write_map (map_remove i m)) s = (r, s')"
    by (auto simp: file_delete_def fs_bind_def split: prod.splits sum.splits option.splits)
  from file_change [OF sound sorted_remove this] show ?thesis .
qed

lemma file_put_change:
  "file_sound s \<Longrightarrow> file_put i x s = (r, s') \<Longrightarrow>
   same_settings s s' \<and>
     (case r of Inl _ \<Rightarrow> decode_file s' = decode_file s
              | Inr _ \<Rightarrow> \<exists>m. decode_file s = Inr m \<and> decode_file s' = Inr (map_insert i x m))"
  unfolding file_put_def by (rule file_change [OF _ sorted_insert])

lemma file_get_keeps: "same_settings s (snd (file_get i s)) \<and> decode_file (snd (file_get i s)) = decode_file s"
  using read_map_keeps [of s] decode_file_cong [of s "snd (read_map s)"]
  by (auto simp: file_get_def fs_bind_def split: prod.splits sum.splits)

lemma file_get_Ok: "file_get i s = (Inr r, s') \<Longrightarrow> \<exists>m. decode_file s = Inr m \<and> r = map_of m i"
  by (auto simp: file_get_def fs_bind_def read_map_Ok split: prod.splits sum.splits)

interpretation file_secrets: secret_store file_put file_get file_delete file_contents file_sound
proof
  fix s i x u s' e r
  assume sound: "file_sound s"
  show "file_sound (snd (file_put i x s))"
    using file_put_change [OF sound surjective_pairing] sound sound_same by blast
  show "file_sound (snd (file_get i s))" using file_get_keeps [of s i] sound by (auto simp: sound_same)
  show "file_sound (snd (file_delete i s))"
    using file_del_change [OF sound surjective_pairing] sound sound_same by blast
  show "\<exists>m. file_contents s = Some m \<and> file_contents s' = Some (m(i \<mapsto> x))" if "file_put i x s = (Inr u, s')"
    using file_put_change [OF sound that] by (auto simp: file_contents_def map_of_insert)
  show "file_contents s' = file_contents s" if "file_put i x s = (Inl e, s')"
    using file_put_change [OF sound that] by (simp add: file_contents_def)
  show "\<exists>m. file_contents s = Some m \<and> r = m i" if "file_get i s = (Inr r, s')"
    using file_get_Ok [OF that] by (auto simp: file_contents_def)
  show "file_contents (snd (file_get i s)) = file_contents s"
    using file_get_keeps [of s i] by (simp add: file_contents_def)
  show "\<exists>m. file_contents s = Some m \<and> file_contents s' = Some (m(i := None))" if "file_delete i s = (Inr u, s')"
    using file_del_change [OF sound that] by (auto simp: file_contents_def map_of_remove)
  show "file_contents s' = file_contents s" if "file_delete i s = (Inl e, s')"
    using file_del_change [OF sound that] by (simp add: file_contents_def)
qed


subsection \<open>The keyring backend\<close>

datatype keyring_error =
    PlatformFailure rstr
  | NoStorageAccess rstr
  | NoEntry
  | BadEncoding "byte list"
  | TooLong rstr nat
  | Invalid rstr rstr
  | AmbiguousEntries
  | OtherKeyring rstr

text \<open>
  The \<^verbatim>\<open>keyring\<close> crate on the service and account of an entry, over the state of the operating
  system's keyring; \<open>kr_spawn\<close> is an error of the blocking task that runs a call.  \<open>kr_holds\<close> is
  what the keyring holds for a service and account; no operation reads it.
\<close>

record 'w keyring =
  kr_spawn :: "'w \<Rightarrow> rstr option"
  kr_entry :: "rstr \<Rightarrow> rstr \<Rightarrow> (keyring_error, unit) result"
  kr_set :: "rstr \<Rightarrow> rstr \<Rightarrow> rstr \<Rightarrow> 'w \<Rightarrow> (keyring_error, unit) result \<times> 'w"
  kr_get :: "rstr \<Rightarrow> rstr \<Rightarrow> 'w \<Rightarrow> (keyring_error, rstr) result \<times> 'w"
  kr_delete :: "rstr \<Rightarrow> rstr \<Rightarrow> 'w \<Rightarrow> (keyring_error, unit) result \<times> 'w"
  kr_show_uuid :: "uuid \<Rightarrow> rstr"
  kr_holds :: "'w \<Rightarrow> rstr \<times> rstr \<Rightarrow> rstr option"

record 'w keyring_store =
  ks_service :: rstr
  ks_keyring :: "'w keyring"
  ks_world :: 'w

definition DEFAULT_SERVICE :: rstr where
  "DEFAULT_SERVICE = lit ''postblox''"

fun map_keyring_error :: "keyring_error \<Rightarrow> KeyringSecretError" where
  "map_keyring_error (PlatformFailure e) = KeyringPlatform e"
| "map_keyring_error (NoStorageAccess e) = StorageUnavailable e"
| "map_keyring_error NoEntry = KeyringNotFound"
| "map_keyring_error (BadEncoding _) = KeyringBadEncoding"
| "map_keyring_error (TooLong name limit) = KeyringTooLong name limit"
| "map_keyring_error (Invalid name reason) = KeyringInvalid name reason"
| "map_keyring_error AmbiguousEntries = KeyringAmbiguous"
| "map_keyring_error (OtherKeyring e) = KeyringPlatform e"

definition account_key :: "'w keyring \<Rightarrow> uuid \<Rightarrow> rstr" where
  "account_key kr account_id = kr_show_uuid kr account_id"

definition keyring_ref :: "'w keyring_store \<Rightarrow> uuid \<Rightarrow> rstr" where
  "keyring_ref s account_id = lit ''keyring:'' @ ks_service s @ lit '':'' @ account_key (ks_keyring s) account_id"

text \<open>One call: the blocking task, the entry, then the operation on it.\<close>

definition keyring_call ::
  "uuid \<Rightarrow> (rstr \<Rightarrow> rstr \<Rightarrow> 'w \<Rightarrow> (keyring_error, 'a) result \<times> 'w) \<Rightarrow> ((keyring_error, 'a) result \<Rightarrow> (KeyringSecretError, 'b) result)
   \<Rightarrow> 'w keyring_store \<Rightarrow> (SecretError, 'b) result \<times> 'w keyring_store" where
  "keyring_call account_id call finish s =
     (let kr = ks_keyring s; key = account_key kr account_id in
      case kr_spawn kr (ks_world s) of
        Some e \<Rightarrow> (Err (SecretKeyring (KeyringTask e)), s)
      | None \<Rightarrow>
          (case kr_entry kr (ks_service s) key of
             Inl e \<Rightarrow> (Err (SecretKeyring (map_keyring_error e)), s)
           | Inr _ \<Rightarrow>
               (case call (ks_service s) key (ks_world s) of
                  (r, w) \<Rightarrow> (map_err SecretKeyring (finish r), s\<lparr>ks_world := w\<rparr>))))"

definition keyring_put :: "uuid \<Rightarrow> rstr \<Rightarrow> 'w keyring_store \<Rightarrow> (SecretError, unit) result \<times> 'w keyring_store" where
  "keyring_put account_id secret s =
     keyring_call account_id (\<lambda>service key. kr_set (ks_keyring s) service key secret) (map_err map_keyring_error) s"

definition keyring_get :: "uuid \<Rightarrow> 'w keyring_store \<Rightarrow> (SecretError, rstr option) result \<times> 'w keyring_store" where
  "keyring_get account_id s =
     keyring_call account_id (kr_get (ks_keyring s))
       (\<lambda>r. case r of
              Inr secret \<Rightarrow> Ok (Some secret)
            | Inl e \<Rightarrow> if e = NoEntry then Ok None else Err (map_keyring_error e)) s"

definition keyring_delete :: "uuid \<Rightarrow> 'w keyring_store \<Rightarrow> (SecretError, unit) result \<times> 'w keyring_store" where
  "keyring_delete account_id s =
     keyring_call account_id (kr_delete (ks_keyring s))
       (\<lambda>r. case r of
              Inr _ \<Rightarrow> Ok ()
            | Inl e \<Rightarrow> if e = NoEntry then Ok () else Err (map_keyring_error e)) s"


text \<open>The documented behaviour of the keyring: a call that fails changes nothing.\<close>

definition keyring_ok :: "'w keyring \<Rightarrow> bool" where
  "keyring_ok kr \<longleftrightarrow>
     inj (kr_show_uuid kr) \<and>
     (\<forall>service key x w w' e. kr_set kr service key x w = (Inl e, w') \<longrightarrow> kr_holds kr w' = kr_holds kr w) \<and>
     (\<forall>service key x w w' u. kr_set kr service key x w = (Inr u, w') \<longrightarrow>
        kr_holds kr w' = (kr_holds kr w)((service, key) := Some x)) \<and>
     (\<forall>service key w w' r. kr_get kr service key w = (r, w') \<longrightarrow> kr_holds kr w' = kr_holds kr w) \<and>
     (\<forall>service key w w' x. kr_get kr service key w = (Inr x, w') \<longrightarrow> kr_holds kr w (service, key) = Some x) \<and>
     (\<forall>service key w w'. kr_get kr service key w = (Inl NoEntry, w') \<longrightarrow> kr_holds kr w (service, key) = None) \<and>
     (\<forall>service key w w' e. kr_delete kr service key w = (Inl e, w') \<longrightarrow> kr_holds kr w' = kr_holds kr w) \<and>
     (\<forall>service key w w'. kr_delete kr service key w = (Inl NoEntry, w') \<longrightarrow> kr_holds kr w (service, key) = None) \<and>
     (\<forall>service key w w' u. kr_delete kr service key w = (Inr u, w') \<longrightarrow>
        kr_holds kr w' = (kr_holds kr w)((service, key) := None))"

definition keyring_sound :: "'w keyring_store \<Rightarrow> bool" where
  "keyring_sound s \<longleftrightarrow> keyring_ok (ks_keyring s)"

definition keyring_contents :: "'w keyring_store \<Rightarrow> (uuid \<Rightarrow> rstr option) option" where
  "keyring_contents s =
     Some (\<lambda>i. kr_holds (ks_keyring s) (ks_world s) (ks_service s, account_key (ks_keyring s) i))"

lemma keyring_okD:
  assumes "keyring_ok kr"
  shows "kr_show_uuid kr i = kr_show_uuid kr j \<longleftrightarrow> i = j"
    and "kr_set kr service key x w = (Inl e, w') \<Longrightarrow> kr_holds kr w' = kr_holds kr w"
    and "kr_set kr service key x w = (Inr u, w') \<Longrightarrow> kr_holds kr w' = (kr_holds kr w)((service, key) := Some x)"
    and "kr_get kr service key w = (r, w') \<Longrightarrow> kr_holds kr w' = kr_holds kr w"
    and "kr_get kr service key w = (Inr y, w') \<Longrightarrow> kr_holds kr w (service, key) = Some y"
    and "kr_get kr service key w = (Inl NoEntry, w') \<Longrightarrow> kr_holds kr w (service, key) = None"
    and "kr_delete kr service key w = (Inl e, w') \<Longrightarrow> kr_holds kr w' = kr_holds kr w"
    and "kr_delete kr service key w = (Inl NoEntry, w') \<Longrightarrow> kr_holds kr w (service, key) = None"
    and "kr_delete kr service key w = (Inr u, w') \<Longrightarrow> kr_holds kr w' = (kr_holds kr w)((service, key) := None)"
proof -
  from assms have "inj (kr_show_uuid kr)" by (simp add: keyring_ok_def)
  then show "kr_show_uuid kr i = kr_show_uuid kr j \<longleftrightarrow> i = j" by (simp add: inj_eq)
qed (use assms in \<open>simp_all add: keyring_ok_def, metis+\<close>)

lemma keyring_contents_upd:
  assumes "keyring_ok (ks_keyring s)"
    "kr_holds (ks_keyring s) w = (kr_holds (ks_keyring s) (ks_world s))((ks_service s, account_key (ks_keyring s) i) := v)"
  shows "\<exists>m. keyring_contents s = Some m \<and> keyring_contents (s\<lparr>ks_world := w\<rparr>) = Some (m(i := v))"
proof -
  let ?m = "\<lambda>i. kr_holds (ks_keyring s) (ks_world s) (ks_service s, account_key (ks_keyring s) i)"
  have "keyring_contents s = Some ?m" by (simp add: keyring_contents_def)
  moreover have "keyring_contents (s\<lparr>ks_world := w\<rparr>) = Some (?m(i := v))"
    unfolding keyring_contents_def using assms(2) keyring_okD(1) [OF assms(1)]
    by (auto simp: fun_eq_iff account_key_def)
  ultimately show ?thesis by blast
qed

lemma keyring_contents_same:
  "kr_holds (ks_keyring s) w = kr_holds (ks_keyring s) (ks_world s) \<Longrightarrow>
   keyring_contents (s\<lparr>ks_world := w\<rparr>) = keyring_contents s"
  by (simp add: keyring_contents_def)

lemma keyring_call_cases:
  assumes "keyring_call i call finish s = (r, s')"
  shows "(\<exists>e. r = Inl e \<and> s' = s) \<or>
     (\<exists>q w. call (ks_service s) (account_key (ks_keyring s) i) (ks_world s) = (q, w) \<and>
        map_err SecretKeyring (finish q) = r \<and> s' = s\<lparr>ks_world := w\<rparr>)"
proof (cases "kr_spawn (ks_keyring s) (ks_world s)")
  case None
  then show ?thesis using assms
    by (cases "kr_entry (ks_keyring s) (ks_service s) (account_key (ks_keyring s) i)")
       (auto simp: keyring_call_def Let_def split: prod.splits)
qed (use assms in \<open>auto simp: keyring_call_def Let_def\<close>)

lemma keyring_call_sound: "keyring_sound s \<Longrightarrow> keyring_sound (snd (keyring_call i call finish s))"
  unfolding keyring_sound_def keyring_call_def Let_def by (simp split: option.splits sum.splits prod.splits)

lemmas keyring_calls = keyring_put_def keyring_get_def keyring_delete_def

interpretation keyring_secrets: secret_store keyring_put keyring_get keyring_delete keyring_contents keyring_sound
proof
  fix s :: "'w keyring_store" and i x u s' e r
  assume sound: "keyring_sound s"
  then have ok: "keyring_ok (ks_keyring s)" by (simp add: keyring_sound_def)
  note laws = keyring_okD [OF ok]
  show "keyring_sound (snd (keyring_put i x s))" "keyring_sound (snd (keyring_get i s))"
    "keyring_sound (snd (keyring_delete i s))"
    unfolding keyring_calls using keyring_call_sound [OF sound] by blast+
  show "\<exists>m. keyring_contents s = Some m \<and> keyring_contents s' = Some (m(i \<mapsto> x))" if "keyring_put i x s = (Inr u, s')"
    using keyring_call_cases [OF that [unfolded keyring_put_def]] keyring_contents_upd [OF ok laws(3)]
    by (auto simp: result_simps)
  show "keyring_contents s' = keyring_contents s" if "keyring_put i x s = (Inl e, s')"
    using keyring_call_cases [OF that [unfolded keyring_put_def]] keyring_contents_same [OF laws(2)]
    by (auto simp: result_simps)
  show "\<exists>m. keyring_contents s = Some m \<and> r = m i" if "keyring_get i s = (Inr r, s')"
    using keyring_call_cases [OF that [unfolded keyring_get_def]] laws(5,6)
    by (fastforce simp: keyring_contents_def result_simps split: sum.splits if_splits)
  show "keyring_contents (snd (keyring_get i s)) = keyring_contents s"
  proof -
    obtain q s2 where run: "keyring_get i s = (q, s2)" by fastforce
    from keyring_call_cases [OF run [unfolded keyring_get_def]] keyring_contents_same [OF laws(4)] run
    show ?thesis by auto
  qed
  show "\<exists>m. keyring_contents s = Some m \<and> keyring_contents s' = Some (m(i := None))" if del: "keyring_delete i s = (Inr u, s')"
  proof -
    from keyring_call_cases [OF del [unfolded keyring_delete_def]] obtain q w where
      call: "kr_delete (ks_keyring s) (ks_service s) (account_key (ks_keyring s) i) (ks_world s) = (q, w)"
      and fin: "(case q of Inl e \<Rightarrow> if e = NoEntry then Ok () else Err (map_keyring_error e) | Inr _ \<Rightarrow> Ok ()) = Ok u"
      and s': "s' = s\<lparr>ks_world := w\<rparr>"
      unfolding map_err_Inr_iff by blast
    have q: "q = Inl NoEntry \<or> (\<exists>u. q = Inr u)" using fin by (cases q) (auto split: if_splits)
    from q have "kr_holds (ks_keyring s) w =
        (kr_holds (ks_keyring s) (ks_world s))((ks_service s, account_key (ks_keyring s) i) := None)"
    proof
      assume "q = Inl NoEntry"
      with call laws(7,8) show ?thesis by (metis fun_upd_triv)
    next
      assume "\<exists>u. q = Inr u"
      with call laws(9) show ?thesis by blast
    qed
    from keyring_contents_upd [OF ok this] s' show ?thesis by simp
  qed
  show "keyring_contents s' = keyring_contents s" if del: "keyring_delete i s = (Inl e, s')"
    using keyring_call_cases [OF del [unfolded keyring_delete_def]]
  proof (elim disjE exE conjE)
    fix q w
    assume call: "kr_delete (ks_keyring s) (ks_service s) (account_key (ks_keyring s) i) (ks_world s) = (q, w)"
      and "map_err SecretKeyring (case q of Inl e \<Rightarrow> if e = NoEntry then Ok () else Err (map_keyring_error e) | Inr _ \<Rightarrow> Ok ()) = Inl e"
      and s': "s' = s\<lparr>ks_world := w\<rparr>"
    then obtain e' where "q = Inl e'" by (cases q) auto
    with keyring_contents_same [OF laws(7)] call s' show ?thesis by simp
  qed simp
qed

text \<open>
  C21: whatever input and output errors occur, and whatever part of the temporary file had been
  written when one occurred, a failed store or removal of a secret leaves every secret of the file
  as it was, and a successful store changes only the secret of its account.
\<close>

theorem file_secret_store_atomic:
  assumes "crypto_ok (fs_crypto s)"
  shows "(case file_put i x s of
            (Inl _, s') \<Rightarrow> file_contents s' = file_contents s
          | (Inr _, s') \<Rightarrow> \<exists>m. file_contents s = Some m \<and> file_contents s' = Some (m(i \<mapsto> x))) \<and>
         (case file_delete i s of
            (Inl _, s') \<Rightarrow> file_contents s' = file_contents s
          | (Inr _, s') \<Rightarrow> \<exists>m. file_contents s = Some m \<and> file_contents s' = Some (m(i := None)))"
  using assms file_secrets.put_ok [of s i x] file_secrets.del_ok [of s i]
    file_secrets.failed_write_keeps [of s i x]
  by (auto simp: file_sound_def split: sum.splits prod.splits)

subsection \<open>A sample store\<close>

text \<open>A code for maps and a cipher that only appends its tag, enough to run the file backend.\<close>

definition sample_crypto :: secret_crypto where
  "sample_crypto = \<lparr>argon2_params = (\<lambda>_. Ok ()), argon2_hash = (\<lambda>_ _ _. Ok []),
     aes_encrypt = (\<lambda>_ _ p. Ok (p @ replicate 16 0)),
     aes_decrypt = (\<lambda>_ _ ct. if 16 \<le> length ct then Some (take (length ct - 16) ct) else None),
     map_to_vec = (\<lambda>m. if m = [(1, lit ''pw'')] then Ok [7] else if m = [] then Ok [8] else Err []),
     map_from_slice = (\<lambda>b. if b = [7] then Ok [(1, lit ''pw'')] else if b = [8] then Ok [] else Err [])\<rparr>"

definition sample_files :: "(rstr \<times> byte list) option list \<Rightarrow> file_store" where
  "sample_files faults = \<lparr>fs_path = lit ''s'', fs_passphrase = [], fs_kdf = default_kdf, fs_crypto = sample_crypto,
     fs_files = (\<lambda>_. None), fs_faults = faults, fs_random = (\<lambda>_. 0), fs_drawn = 0\<rparr>"

lemma sample_crypto_ok: "crypto_ok sample_crypto"
  by (auto simp: crypto_ok_def sample_crypto_def sorted_map_def split: if_splits)

text \<open>A write that stops after the second byte of the temporary file.\<close>

theorem file_secret_store_atomic_witness:
  "file_put 1 (lit ''pw'') (sample_files [None, Some (lit ''disk full'', [1, 0])]) =
     (Err (SecretIo (lit ''disk full'')),
      snd (file_put 1 (lit ''pw'') (sample_files [None, Some (lit ''disk full'', [1, 0])]))) \<and>
   file_contents (snd (file_put 1 (lit ''pw'') (sample_files [None, Some (lit ''disk full'', [1, 0])]))) =
     file_contents (sample_files [None, Some (lit ''disk full'', [1, 0])])"
proof -
  let ?s = "sample_files [None, Some (lit ''disk full'', [1, 0])]"
  have run: "file_put 1 (lit ''pw'') ?s = (Err (SecretIo (lit ''disk full'')), snd (file_put 1 (lit ''pw'') ?s))"
    by (simp add: sample_files_def sample_crypto_def file_put_def fs_bind_def read_map_def next_fault_def decode_file_def
        write_map_def has_parent_def path_components_def lit_def starts_with_def encrypt_def fill_bytes_def
        derive_key_def fs_write_def Let_def)
  moreover have "crypto_ok (fs_crypto ?s)" by (simp add: sample_files_def sample_crypto_ok)
  ultimately show ?thesis using file_secret_store_atomic [of ?s 1 "lit ''pw''"] by (auto split: prod.splits)
qed

end
