(* ===== verification/OAuth.thy ===== *)
theory OAuth
  imports Secrets ImapFetch
begin

text \<open>
  Gmail OAuth, \<^verbatim>\<open>src/oauth/google.rs\<close>: configurations, tokens, the token endpoint's answers, the
  authorization URL and the stored bundle.  The HTTP request, the clock and the JSON text of a
  bundle are parameters.
\<close>

definition AUTH_ENDPOINT :: rstr where
  "AUTH_ENDPOINT = lit ''https://accounts.google.com/o/oauth2/v2/auth''"

definition GMAIL_SCOPE :: rstr where
  "GMAIL_SCOPE = lit ''https://mail.google.com/''"

definition REFRESH_SKEW_SECONDS :: int where
  "REFRESH_SKEW_SECONDS = 60"

definition MAX_EXPIRES_IN_SECONDS :: int where
  "MAX_EXPIRES_IN_SECONDS = 24 * 60 * 60"

definition duration_seconds :: "int \<Rightarrow> int" where
  "duration_seconds n = n * 1000000000"

record GoogleOAuthConfig =
  oc_client_id :: rstr
  oc_client_secret :: rstr
  oc_redirect_uri :: rstr
  oc_scopes :: "rstr list"

record GoogleOAuthToken =
  ot_access_token :: rstr
  ot_refresh_token :: rstr
  ot_expires_at :: instant
  ot_token_type :: rstr
  ot_scope :: "rstr option"

record StoredGoogleOAuth =
  so_client_id :: rstr
  so_client_secret :: rstr
  so_redirect_uri :: rstr
  so_scopes :: "rstr list"
  so_token :: GoogleOAuthToken

datatype GoogleOAuthError =
    InvalidInput rstr
  | MissingRefreshToken
  | HttpStatus nat
  | OAuthHttp rstr
  | OAuthSecret SecretError
  | OAuthDecode rstr

definition gmail_config :: "rstr \<Rightarrow> rstr \<Rightarrow> rstr \<Rightarrow> GoogleOAuthConfig" where
  "gmail_config client_id client_secret redirect_uri =
     \<lparr>oc_client_id = client_id, oc_client_secret = client_secret, oc_redirect_uri = redirect_uri,
      oc_scopes = [GMAIL_SCOPE]\<rparr>"

definition validate_non_empty :: "rstr \<Rightarrow> rstr \<Rightarrow> (GoogleOAuthError, unit) result" where
  "validate_non_empty field value =
     (if trim value = [] then Err (InvalidInput (field @ lit '' must be non-empty'')) else Ok ())"

definition validate_gmail_scope :: "GoogleOAuthConfig \<Rightarrow> (GoogleOAuthError, unit) result" where
  "validate_gmail_scope c =
     (if length (oc_scopes c) = 1 \<and> hd (oc_scopes c) = GMAIL_SCOPE then Ok ()
      else Err (InvalidInput (lit ''only the Gmail OAuth scope is supported'')))"

definition validate_for_auth_url :: "GoogleOAuthConfig \<Rightarrow> rstr \<Rightarrow> (GoogleOAuthError, unit) result" where
  "validate_for_auth_url c state =
     and_then (validate_non_empty (lit ''client_id'') (oc_client_id c)) (\<lambda>_.
     and_then (validate_non_empty (lit ''redirect_uri'') (oc_redirect_uri c)) (\<lambda>_.
     and_then (validate_non_empty (lit ''state'') state) (\<lambda>_.
     validate_gmail_scope c)))"

definition validate_for_token_request :: "GoogleOAuthConfig \<Rightarrow> (GoogleOAuthError, unit) result" where
  "validate_for_token_request c =
     and_then (validate_non_empty (lit ''client_id'') (oc_client_id c)) (\<lambda>_.
     and_then (validate_non_empty (lit ''client_secret'') (oc_client_secret c)) (\<lambda>_.
     and_then (validate_non_empty (lit ''redirect_uri'') (oc_redirect_uri c)) (\<lambda>_.
     validate_gmail_scope c)))"

definition needs_refresh :: "GoogleOAuthToken \<Rightarrow> instant \<Rightarrow> bool" where
  "needs_refresh t now \<longleftrightarrow> ot_expires_at t \<le> now + duration_seconds REFRESH_SKEW_SECONDS"

definition stored_new :: "GoogleOAuthConfig \<Rightarrow> GoogleOAuthToken \<Rightarrow> StoredGoogleOAuth" where
  "stored_new c t = \<lparr>so_client_id = oc_client_id c, so_client_secret = oc_client_secret c,
     so_redirect_uri = oc_redirect_uri c, so_scopes = oc_scopes c, so_token = t\<rparr>"

definition stored_config :: "StoredGoogleOAuth \<Rightarrow> GoogleOAuthConfig" where
  "stored_config s = \<lparr>oc_client_id = so_client_id s, oc_client_secret = so_client_secret s,
     oc_redirect_uri = so_redirect_uri s, oc_scopes = so_scopes s\<rparr>"

subsection \<open>The token endpoint\<close>

record TokenEndpointResponse =
  te_access_token :: rstr
  te_expires_in :: int
  te_refresh_token :: "rstr option"
  te_token_type :: rstr
  te_scope :: "rstr option"

text \<open>
  \<open>http_post_form\<close> sends a form to the token endpoint: a transport error, or the status with the
  decoding of the body.  \<open>checked_add\<close> is \<^verbatim>\<open>DateTime::checked_add_signed\<close>.
\<close>

record 'w oauth_env =
  http_post_form :: "(rstr \<times> rstr) list \<Rightarrow> 'w \<Rightarrow> (rstr, nat \<times> (rstr, TokenEndpointResponse) result) result \<times> 'w"
  oauth_clock :: "'w \<Rightarrow> instant \<times> 'w"
  checked_add :: "instant \<Rightarrow> int \<Rightarrow> instant option"

definition is_success :: "nat \<Rightarrow> bool" where
  "is_success status \<longleftrightarrow> 200 \<le> status \<and> status < 300"

definition post_token_form ::
  "'w oauth_env \<Rightarrow> (rstr \<times> rstr) list \<Rightarrow> 'w \<Rightarrow> (GoogleOAuthError, TokenEndpointResponse) result \<times> 'w" where
  "post_token_form env form w =
     (case http_post_form env form w of
        (r, w1) \<Rightarrow>
          (and_then (map_err OAuthHttp r) (\<lambda>(status, body).
             if \<not> is_success status then Err (HttpStatus status) else map_err OAuthHttp body), w1))"

definition into_token ::
  "'w oauth_env \<Rightarrow> TokenEndpointResponse \<Rightarrow> rstr option \<Rightarrow> 'w \<Rightarrow> (GoogleOAuthError, GoogleOAuthToken) result \<times> 'w" where
  "into_token env r existing w =
     (case validate_non_empty (lit ''access_token'') (te_access_token r) of
        Inl e \<Rightarrow> (Err e, w)
      | Inr _ \<Rightarrow>
          if te_expires_in r \<le> 0 then (Err (InvalidInput (lit ''expires_in must be positive'')), w)
          else
            (case oauth_clock env w of
               (now, w1) \<Rightarrow>
                 (and_then (ok_or (InvalidInput (lit ''expires_in out of range''))
                              (checked_add env now (duration_seconds (min (te_expires_in r) MAX_EXPIRES_IN_SECONDS)))) (\<lambda>expires_at.
                  and_then (case filter_option (\<lambda>t. t \<noteq> []) (te_refresh_token r) of
                              Some t \<Rightarrow> Ok t
                            | None \<Rightarrow> ok_or MissingRefreshToken (filter_option (\<lambda>t. t \<noteq> []) existing)) (\<lambda>refresh_token.
                  Ok \<lparr>ot_access_token = te_access_token r, ot_refresh_token = refresh_token,
                      ot_expires_at = expires_at, ot_token_type = te_token_type r, ot_scope = te_scope r\<rparr>)), w1)))"

definition oauth_then ::
  "('w \<Rightarrow> (GoogleOAuthError, 'a) result \<times> 'w) \<Rightarrow> ('a \<Rightarrow> 'w \<Rightarrow> (GoogleOAuthError, 'b) result \<times> 'w)
   \<Rightarrow> 'w \<Rightarrow> (GoogleOAuthError, 'b) result \<times> 'w" where
  "oauth_then m f w = (case m w of (Inl e, w1) \<Rightarrow> (Inl e, w1) | (Inr x, w1) \<Rightarrow> f x w1)"

definition exchange_code ::
  "'w oauth_env \<Rightarrow> GoogleOAuthConfig \<Rightarrow> rstr \<Rightarrow> 'w \<Rightarrow> (GoogleOAuthError, GoogleOAuthToken) result \<times> 'w" where
  "exchange_code env config code =
     oauth_then (\<lambda>w. (and_then (validate_for_token_request config) (\<lambda>_. validate_non_empty (lit ''code'') code), w)) (\<lambda>_.
     oauth_then (post_token_form env
       [(lit ''client_id'', oc_client_id config), (lit ''client_secret'', oc_client_secret config),
        (lit ''code'', code), (lit ''grant_type'', lit ''authorization_code''),
        (lit ''redirect_uri'', oc_redirect_uri config)]) (\<lambda>response.
     into_token env response None))"

definition refresh_token ::
  "'w oauth_env \<Rightarrow> GoogleOAuthConfig \<Rightarrow> GoogleOAuthToken \<Rightarrow> 'w \<Rightarrow> (GoogleOAuthError, GoogleOAuthToken) result \<times> 'w" where
  "refresh_token env config token =
     oauth_then (\<lambda>w. (and_then (validate_for_token_request config)
                        (\<lambda>_. validate_non_empty (lit ''refresh_token'') (ot_refresh_token token)), w)) (\<lambda>_.
     oauth_then (post_token_form env
       [(lit ''client_id'', oc_client_id config), (lit ''client_secret'', oc_client_secret config),
        (lit ''grant_type'', lit ''refresh_token''), (lit ''refresh_token'', ot_refresh_token token)]) (\<lambda>response.
     into_token env response (Some (ot_refresh_token token))))"

subsection \<open>The authorization URL\<close>

definition unreserved :: "nat \<Rightarrow> bool" where
  "unreserved b \<longleftrightarrow> (65 \<le> b \<and> b \<le> 90) \<or> (97 \<le> b \<and> b \<le> 122) \<or> (48 \<le> b \<and> b \<le> 57) \<or> b = 45 \<or> b = 46 \<or> b = 95 \<or> b = 126"

definition upper_hex :: "nat \<Rightarrow> rchar" where
  "upper_hex n = (if n < 10 then 48 + n else 55 + n)"

definition percent_byte :: "byte \<Rightarrow> rstr" where
  "percent_byte b = (if unreserved (unat b) then [unat b] else [37, upper_hex (unat b div 16), upper_hex (unat b mod 16)])"

definition percent_encode :: "rstr \<Rightarrow> rstr" where
  "percent_encode input = concat (map percent_byte (as_bytes input))"

definition auth_params :: "GoogleOAuthConfig \<Rightarrow> rstr \<Rightarrow> (rstr \<times> rstr) list" where
  "auth_params config state =
     [(lit ''client_id'', oc_client_id config), (lit ''redirect_uri'', oc_redirect_uri config),
      (lit ''response_type'', lit ''code''), (lit ''scope'', join [32] (oc_scopes config)), (lit ''state'', state),
      (lit ''access_type'', lit ''offline''), (lit ''prompt'', lit ''consent'')]"

definition authorization_url :: "GoogleOAuthConfig \<Rightarrow> rstr \<Rightarrow> (GoogleOAuthError, rstr) result" where
  "authorization_url config state =
     and_then (validate_for_auth_url config state) (\<lambda>_.
     Ok (AUTH_ENDPOINT @ lit ''?'' @
         join [38] (map (\<lambda>(key, value). percent_encode key @ [61] @ percent_encode value) (auth_params config state))))"

subsection \<open>Stored bundles\<close>

text \<open>The secret store and the JSON text of a bundle, as the functions that use them see them.\<close>

record 'w secret_ops =
  secrets_put :: "uuid \<Rightarrow> rstr \<Rightarrow> 'w \<Rightarrow> (SecretError, unit) result \<times> 'w"
  secrets_get :: "uuid \<Rightarrow> 'w \<Rightarrow> (SecretError, rstr option) result \<times> 'w"
  secrets_delete :: "uuid \<Rightarrow> 'w \<Rightarrow> (SecretError, unit) result \<times> 'w"
  secrets_ref :: "uuid \<Rightarrow> rstr"
  stored_to_string :: "StoredGoogleOAuth \<Rightarrow> (rstr, rstr) result"
  stored_from_str :: "rstr \<Rightarrow> (rstr, StoredGoogleOAuth) result"

definition load_stored_oauth ::
  "'w secret_ops \<Rightarrow> uuid \<Rightarrow> 'w \<Rightarrow> (GoogleOAuthError, StoredGoogleOAuth option) result \<times> 'w" where
  "load_stored_oauth secrets account_id w =
     (case secrets_get secrets account_id w of
        (r, w1) \<Rightarrow>
          (and_then (map_err OAuthSecret r) (\<lambda>secret.
             (case secret of
                None \<Rightarrow> Ok None
              | Some text \<Rightarrow>
                  and_then (map_err (\<lambda>e. OAuthDecode (lit ''stored oauth json: '' @ e)) (stored_from_str secrets text))
                    (\<lambda>s. Ok (Some s)))), w1))"

definition store_stored_oauth ::
  "'w secret_ops \<Rightarrow> uuid \<Rightarrow> StoredGoogleOAuth \<Rightarrow> 'w \<Rightarrow> (GoogleOAuthError, unit) result \<times> 'w" where
  "store_stored_oauth secrets account_id stored w =
     (case stored_to_string secrets stored of
        Inl e \<Rightarrow> (Err (OAuthDecode (lit ''stored oauth json: '' @ e)), w)
      | Inr text \<Rightarrow> (case secrets_put secrets account_id text w of (r, w1) \<Rightarrow> (map_err OAuthSecret r, w1)))"


subsection \<open>Reading a URL back\<close>

definition unhex :: "rchar \<Rightarrow> nat" where
  "unhex c = (if c \<le> 57 then c - 48 else c - 55)"

fun percent_decode :: "rstr \<Rightarrow> byte list" where
  "percent_decode [] = []"
| "percent_decode (c # s) =
     (if c = 37 then (case s of a # b # s' \<Rightarrow> of_nat (16 * unhex a + unhex b) # percent_decode s' | _ \<Rightarrow> [])
      else of_nat c # percent_decode s)"

declare percent_decode.simps(2) [simp del]

text \<open>The parameters of a query: pairs separated by ampersands, a key up to the first equals sign.\<close>

definition parse_param :: "rstr \<Rightarrow> byte list \<times> byte list" where
  "parse_param p = (percent_decode (takeWhile (\<lambda>c. c \<noteq> 61) p), percent_decode (drop 1 (dropWhile (\<lambda>c. c \<noteq> 61) p)))"

definition parse_query :: "rstr \<Rightarrow> (byte list \<times> byte list) list" where
  "parse_query q = map parse_param (split_char 38 q)"

lemma unhex_upper_hex: "n < 16 \<Longrightarrow> unhex (upper_hex n) = n"
  by (auto simp: unhex_def upper_hex_def)

lemma percent_decode_byte: "percent_decode (percent_byte b @ s) = b # percent_decode s"
proof (cases "unreserved (unat b)")
  case True
  then have "unat b \<noteq> 37" by (auto simp: unreserved_def)
  with True show ?thesis by (simp add: percent_byte_def percent_decode.simps(2))
next
  case False
  have "unat b div 16 < 16" using unsigned_less [of b, where ?'a = nat] by (simp add: less_mult_imp_div_less)
  moreover have "16 * (unat b div 16) + unat b mod 16 = unat b" by simp
  ultimately show ?thesis using False
    by (simp add: percent_byte_def percent_decode.simps(2) unhex_upper_hex del: of_nat_add of_nat_mult)
qed

lemma percent_decode_encode: "percent_decode (percent_encode s) = as_bytes s"
proof -
  have "percent_decode (concat (map percent_byte bs)) = bs" for bs
    by (induction bs) (simp_all add: percent_decode_byte)
  then show ?thesis by (simp add: percent_encode_def)
qed

lemma percent_byte_plain: "c \<in> set (percent_byte b) \<Longrightarrow> c \<noteq> 38 \<and> c \<noteq> 61"
  by (auto simp: percent_byte_def unreserved_def upper_hex_def split: if_splits)

lemma percent_encode_plain: "38 \<notin> set (percent_encode s)" "61 \<notin> set (percent_encode s)"
  unfolding percent_encode_def using percent_byte_plain by auto

lemma parse_param_encoded:
  "parse_param (percent_encode k @ 61 # percent_encode v) = (as_bytes k, as_bytes v)"
proof -
  have "takeWhile (\<lambda>c. c \<noteq> 61) (percent_encode k @ 61 # percent_encode v) = percent_encode k"
    "dropWhile (\<lambda>c. c \<noteq> 61) (percent_encode k @ 61 # percent_encode v) = 61 # percent_encode v"
    using percent_encode_plain(2) [of k] by (auto simp: takeWhile_append dropWhile_append takeWhile_eq_all_conv)
  then show ?thesis by (simp add: parse_param_def percent_decode_encode)
qed

lemma split_join_plain:
  "ps \<noteq> [] \<Longrightarrow> (\<And>p. p \<in> set ps \<Longrightarrow> c \<notin> set p) \<Longrightarrow> split_char c (join [c] ps) = ps"
  by (induction "[c] :: rstr" ps rule: join.induct) (simp_all add: split_char_plain split_char_append)

text \<open>
  The authorization URL carries exactly its seven parameters with the values given, whatever
  characters the client id, the redirect URI and the state contain; a value cannot add or replace
  a parameter.
\<close>

theorem authorization_url_reads_back:
  assumes "authorization_url config state = Ok url"
  shows "\<exists>q. url = AUTH_ENDPOINT @ lit ''?'' @ q \<and>
     parse_query q = map (\<lambda>(key, value). (as_bytes key, as_bytes value)) (auth_params config state)"
proof -
  let ?ps = "map (\<lambda>(key, value). percent_encode key @ [61] @ percent_encode value) (auth_params config state)"
  have "split_char 38 (join [38] ?ps) = ?ps"
    by (rule split_join_plain) (auto simp: auth_params_def percent_encode_plain)
  then have "parse_query (join [38] ?ps) = map (\<lambda>(key, value). (as_bytes key, as_bytes value)) (auth_params config state)"
    by (simp add: parse_query_def o_def split_def parse_param_encoded)
  with assms show ?thesis unfolding authorization_url_def by (auto simp: result_simps)
qed

theorem authorization_url_reads_back_witness:
  "\<exists>url. authorization_url (gmail_config (lit ''a&b=c'') [] (lit ''h?a=b'')) (lit ''s t'') = Ok url \<and>
     (\<exists>q. url = AUTH_ENDPOINT @ lit ''?'' @ q \<and>
        parse_query q = map (\<lambda>(key, value). (as_bytes key, as_bytes value))
          (auth_params (gmail_config (lit ''a&b=c'') [] (lit ''h?a=b'')) (lit ''s t'')))"
proof -
  let ?c = "gmail_config (lit ''a&b=c'') [] (lit ''h?a=b'')"
  have "validate_for_auth_url ?c (lit ''s t'') = Ok ()"
    by (simp add: validate_for_auth_url_def validate_non_empty_def validate_gmail_scope_def gmail_config_def
        trim_def trim_start_def trim_end_def is_whitespace_def lit_def)
  then obtain url where "authorization_url ?c (lit ''s t'') = Ok url" by (simp add: authorization_url_def)
  with authorization_url_reads_back [OF this] show ?thesis by blast
qed

subsection \<open>Tokens\<close>

text \<open>
  A token made from an answer of the token endpoint has a refresh token, and expires after
  now and within a day of it, whatever lifetime the endpoint claims.
\<close>

theorem token_lifetime_bounded:
  assumes "into_token env response existing w = (Ok token, w')"
    and "\<And>t d t'. checked_add env t d = Some t' \<Longrightarrow> t' = t + d"
  shows "ot_refresh_token token \<noteq> [] \<and> trim (ot_access_token token) \<noteq> [] \<and>
     fst (oauth_clock env w) < ot_expires_at token \<and>
     ot_expires_at token \<le> fst (oauth_clock env w) + duration_seconds (24 * 60 * 60)"
proof -
  obtain now w1 where clock: "oauth_clock env w = (now, w1)" by fastforce
  from assms(1) clock obtain expires_at where
    access: "trim (te_access_token response) \<noteq> []" "ot_access_token token = te_access_token response"
    and pos: "0 < te_expires_in response"
    and sum: "checked_add env now (duration_seconds (min (te_expires_in response) MAX_EXPIRES_IN_SECONDS)) = Some expires_at"
    and at: "ot_expires_at token = expires_at" and refresh: "ot_refresh_token token \<noteq> []"
    by (auto simp: into_token_def validate_non_empty_def result_simps split: sum.splits if_splits option.splits)
  from assms(2) [OF sum] pos have "now < expires_at" "expires_at \<le> now + duration_seconds (24 * 60 * 60)"
    by (auto simp: duration_seconds_def MAX_EXPIRES_IN_SECONDS_def)
  with clock access at refresh show ?thesis by simp
qed

definition sample_oauth :: "unit oauth_env" where
  "sample_oauth = \<lparr>http_post_form = (\<lambda>_ w. (Err [], w)), oauth_clock = (\<lambda>w. (1000, w)), checked_add = (\<lambda>t d. Some (t + d))\<rparr>"

definition sample_response :: TokenEndpointResponse where
  "sample_response = \<lparr>te_access_token = lit ''a'', te_expires_in = 2 ^ 62, te_refresh_token = Some (lit ''r''),
     te_token_type = lit ''Bearer'', te_scope = None\<rparr>"

theorem token_lifetime_bounded_witness:
  "\<exists>token. into_token sample_oauth sample_response None () = (Ok token, ()) \<and>
     (ot_refresh_token token \<noteq> [] \<and> trim (ot_access_token token) \<noteq> [] \<and>
      fst (oauth_clock sample_oauth ()) < ot_expires_at token \<and>
      ot_expires_at token \<le> fst (oauth_clock sample_oauth ()) + duration_seconds (24 * 60 * 60))"
proof -
  have "trim (lit ''a'') \<noteq> []" by code_simp
  then obtain token where token: "into_token sample_oauth sample_response None () = (Ok token, ())"
    by (simp add: into_token_def sample_oauth_def sample_response_def validate_non_empty_def)
  have "t' = t + d" if "checked_add sample_oauth t d = Some t'" for t d t'
    using that by (simp add: sample_oauth_def)
  from token_lifetime_bounded [OF token this] token show ?thesis by blast
qed

end
