(* ===== verification/Smtp.thy ===== *)
theory Smtp
  imports ImapFetch
begin

text \<open>
  SMTP submission, \<^verbatim>\<open>src/smtp/mod.rs\<close>.  The \<^verbatim>\<open>lettre\<close> crate is a parameter: address parsing,
  envelopes, TLS parameters and sending through a transport.
\<close>

record SmtpServer =
  smtp_server_host :: rstr
  smtp_server_port :: nat
  smtp_server_use_tls :: bool
  smtp_server_starttls :: bool

record SmtpSubmitRequest =
  sub_server :: SmtpServer
  sub_username :: rstr
  sub_credential :: MailCredential
  sub_from :: rstr
  sub_recipients :: "rstr list"
  sub_mime :: "byte list"

datatype SmtpError =
    SmtpAuth rstr
  | SmtpInvalidRequest rstr
  | SmtpInvalidConfig rstr
  | SmtpTransient rstr
  | SmtpInternal rstr

datatype SmtpSecurity = SecurityWrapper | SecurityStartTls | SecurityNone

datatype 'tls lettre_tls = TlsWrapper 'tls | TlsRequired 'tls | TlsNone

record 'tls smtp_transport =
  tp_host :: rstr
  tp_port :: nat
  tp_timeout_secs :: nat
  tp_username :: rstr
  tp_secret :: rstr
  tp_tls :: "'tls lettre_tls"
  tp_mechanism :: "rstr option"

record lettre_error =
  le_text :: rstr
  le_status :: "nat option"
  le_transient :: bool
  le_timeout :: bool

record ('addr, 'env, 'tls, 'w) lettre =
  lt_parse_address :: "rstr \<Rightarrow> (rstr, 'addr) result"
  lt_envelope :: "'addr \<Rightarrow> 'addr list \<Rightarrow> (rstr, 'env) result"
  lt_tls_parameters :: "rstr \<Rightarrow> (rstr, 'tls) result"
  lt_send_raw :: "'tls smtp_transport \<Rightarrow> 'env \<Rightarrow> byte list \<Rightarrow> 'w \<Rightarrow> (lettre_error, unit) result \<times> 'w"
  lt_shutdown :: "'tls smtp_transport \<Rightarrow> 'w \<Rightarrow> 'w"

definition security_for :: "SmtpServer \<Rightarrow> (SmtpError, SmtpSecurity) result" where
  "security_for server =
     (case (smtp_server_use_tls server, smtp_server_starttls server) of
        (True, False) \<Rightarrow> Ok SecurityWrapper
      | (False, True) \<Rightarrow> Ok SecurityStartTls
      | (False, False) \<Rightarrow> Ok SecurityNone
      | (True, True) \<Rightarrow> Err (SmtpInvalidConfig (lit ''smtp_use_tls and smtp_starttls cannot both be true'')))"

fun parse_addresses :: "('addr, 'env, 'tls, 'w) lettre \<Rightarrow> rstr list \<Rightarrow> (SmtpError, 'addr list) result" where
  "parse_addresses l [] = Ok []"
| "parse_addresses l (a # as) =
     and_then (map_err (\<lambda>e. SmtpInvalidRequest (lit ''bad recipient address: '' @ e)) (lt_parse_address l a)) (\<lambda>x.
     and_then (parse_addresses l as) (\<lambda>xs. Ok (x # xs)))"

definition build_envelope ::
  "('addr, 'env, 'tls, 'w) lettre \<Rightarrow> rstr \<Rightarrow> rstr list \<Rightarrow> (SmtpError, 'env) result" where
  "build_envelope l from_addr recipients =
     and_then (map_err (\<lambda>e. SmtpInvalidRequest (lit ''bad from address: '' @ e)) (lt_parse_address l from_addr)) (\<lambda>f.
     and_then (parse_addresses l recipients) (\<lambda>to_addrs.
     map_err (\<lambda>e. SmtpInvalidRequest (lit ''bad envelope: '' @ e)) (lt_envelope l f to_addrs)))"

fun chosen_mechanism :: "CredentialKind \<Rightarrow> rstr option" where
  "chosen_mechanism OAuth2BearerKind = Some (lit ''XOAUTH2'')"
| "chosen_mechanism PasswordKind = None"

definition tls_parameters :: "('addr, 'env, 'tls, 'w) lettre \<Rightarrow> rstr \<Rightarrow> (SmtpError, 'tls) result" where
  "tls_parameters l host = map_err SmtpInvalidConfig (lt_tls_parameters l host)"

definition build_transport ::
  "('addr, 'env, 'tls, 'w) lettre \<Rightarrow> SmtpSubmitRequest \<Rightarrow> (SmtpError, 'tls smtp_transport) result" where
  "build_transport l request =
     (let server = sub_server request; host = smtp_server_host server in
      if trim host = [] then Err (SmtpInvalidConfig (lit ''smtp host is empty''))
      else
        and_then (security_for server) (\<lambda>security.
        if security = SecurityNone \<and> \<not> credential_is_empty (sub_credential request)
        then Err (SmtpInvalidConfig (lit ''refusing to send credentials over an unencrypted connection''))
        else
          and_then (case security of
                      SecurityWrapper \<Rightarrow> and_then (tls_parameters l host) (\<lambda>t. Ok (TlsWrapper t))
                    | SecurityStartTls \<Rightarrow> and_then (tls_parameters l host) (\<lambda>t. Ok (TlsRequired t))
                    | SecurityNone \<Rightarrow> Ok TlsNone) (\<lambda>tls.
          Ok \<lparr>tp_host = host, tp_port = smtp_server_port server, tp_timeout_secs = 30,
              tp_username = sub_username request, tp_secret = credential_secret (sub_credential request),
              tp_tls = tls, tp_mechanism = chosen_mechanism (credential_kind (sub_credential request))\<rparr>)))"

definition map_lettre_error :: "lettre_error \<Rightarrow> SmtpError" where
  "map_lettre_error e =
     (let message = le_text e in
      if (case le_status e of None \<Rightarrow> False | Some code \<Rightarrow> code \<in> {530, 534, 535, 538}) then SmtpAuth message
      else if le_transient e \<or> le_timeout e then SmtpTransient message
      else if le_status e = None \<and> contains_str (to_ascii_lowercase message) (lit ''authenticat'') then SmtpAuth message
      else SmtpInternal message)"

definition smtp_submit ::
  "('addr, 'env, 'tls, 'w) lettre \<Rightarrow> SmtpSubmitRequest \<Rightarrow> 'w \<Rightarrow> (SmtpError, unit) result \<times> 'w" where
  "smtp_submit l request w =
     (case and_then (build_envelope l (sub_from request) (sub_recipients request)) (\<lambda>envelope.
           and_then (build_transport l request) (\<lambda>mailer. Ok (envelope, mailer))) of
        Inl e \<Rightarrow> (Err e, w)
      | Inr (envelope, mailer) \<Rightarrow>
          (case lt_send_raw l mailer envelope (sub_mime request) w of
             (Inl e, w1) \<Rightarrow> (Err (map_lettre_error e), w1)
           | (Inr _, w1) \<Rightarrow> (Ok (), lt_shutdown l mailer w1)))"

subsection \<open>Credentials travel encrypted\<close>

text \<open>
  C22: whatever a request asks for, the outcome of a submission only depends on sending through
  transports that carry no secret or are encrypted: replacing what the network does with secrets
  sent in the clear changes nothing.
\<close>

theorem smtp_secret_never_in_clear:
  assumes "\<And>t env mime w. tp_tls t \<noteq> TlsNone \<or> tp_secret t = [] \<Longrightarrow> lt_send_raw l t env mime w = send t env mime w"
  shows "smtp_submit (l\<lparr>lt_send_raw := send\<rparr>) request w = smtp_submit l request w"
proof -
  have build: "build_transport (l\<lparr>lt_send_raw := send\<rparr>) request = build_transport l request"
    "build_envelope (l\<lparr>lt_send_raw := send\<rparr>) f rs = build_envelope l f rs" for f rs
  proof -
    have "parse_addresses (l\<lparr>lt_send_raw := send\<rparr>) as = parse_addresses l as" for as
      by (induction as) simp_all
    then show "build_envelope (l\<lparr>lt_send_raw := send\<rparr>) f rs = build_envelope l f rs" by (simp add: build_envelope_def)
    have tls: "tls_parameters (l\<lparr>lt_send_raw := send\<rparr>) = tls_parameters l" by (simp add: fun_eq_iff tls_parameters_def)
    show "build_transport (l\<lparr>lt_send_raw := send\<rparr>) request = build_transport l request"
      unfolding build_transport_def tls ..
  qed
  have safe: "tp_tls t \<noteq> TlsNone \<or> tp_secret t = []" if "build_transport l request = Ok t" for t
    using that
    by (auto simp: build_transport_def Let_def result_simps credential_is_empty_def split: if_splits SmtpSecurity.splits)
  show ?thesis
  proof (cases "build_envelope l (sub_from request) (sub_recipients request)")
    case (Inr envelope)
    then show ?thesis using safe assms
      by (cases "build_transport l request") (simp_all add: smtp_submit_def build split: prod.splits sum.splits)
  qed (simp add: smtp_submit_def build)
qed

definition sample_lettre :: "(rstr, unit, unit, nat) lettre" where
  "sample_lettre = \<lparr>lt_parse_address = Ok, lt_envelope = (\<lambda>_ _. Ok ()), lt_tls_parameters = (\<lambda>_. Ok ()),
     lt_send_raw = (\<lambda>_ _ _ w. (Ok (), w + 1)), lt_shutdown = (\<lambda>_ w. w)\<rparr>"

text \<open>A network that would leak: the sample counts what is sent in the clear.\<close>

theorem smtp_secret_never_in_clear_witness:
  "smtp_submit (sample_lettre\<lparr>lt_send_raw :=
       \<lambda>t env mime w. if tp_tls t \<noteq> TlsNone \<or> tp_secret t = [] then (Ok (), w + 1) else (Ok (), w + 1000)\<rparr>)
     \<lparr>sub_server = \<lparr>smtp_server_host = lit ''h'', smtp_server_port = 25, smtp_server_use_tls = False,
        smtp_server_starttls = False\<rparr>,
      sub_username = lit ''u'', sub_credential = CredPassword (lit ''p''), sub_from = lit ''u'',
      sub_recipients = [lit ''v''], sub_mime = []\<rparr> 0 =
   smtp_submit sample_lettre
     \<lparr>sub_server = \<lparr>smtp_server_host = lit ''h'', smtp_server_port = 25, smtp_server_use_tls = False,
        smtp_server_starttls = False\<rparr>,
      sub_username = lit ''u'', sub_credential = CredPassword (lit ''p''), sub_from = lit ''u'',
      sub_recipients = [lit ''v''], sub_mime = []\<rparr> 0"
  by (rule smtp_secret_never_in_clear) (simp add: sample_lettre_def)

end
