(* ===== verification/DaemonBase.thy ===== *)
theory DaemonBase
  imports SyncManager Search OAuth Smtp MimeBuilder Reply IpcProtocol ReconcilerSync
begin

text \<open>
  The ground of the request dispatcher, \<^verbatim>\<open>src/daemon/dispatcher.rs\<close>: the state a request works
  on, the services it calls (\<^verbatim>\<open>DaemonDispatcher\<close>'s fields, as parameters), the monad its handlers
  are written in, the helpers that read arguments and the audit trail.

  An action returns \<open>None\<close> when it never returns (a loop that does not end, a panic), otherwise a
  result and the state.  A predicate \<open>runs tot Q m\<close> says that \<open>m\<close> keeps \<open>Q\<close> of the tables, the
  published events and the workers, on success and on error, and, if \<open>tot\<close>, that it returns.
\<close>

subsection \<open>State and services\<close>

record 'w daemon =
  dm_sync :: "'w sync_state"
  dm_manager :: manager

abbreviation dm_store :: "'w daemon \<Rightarrow> store" where
  "dm_store s \<equiv> ys_store (dm_sync s)"

abbreviation dm_world :: "'w daemon \<Rightarrow> 'w" where
  "dm_world s \<equiv> ys_world (dm_sync s)"

datatype io_kind = IoNotFound | IoPermissionDenied | IoAlreadyExists | IoInvalidInput | IoOther

text \<open>
  \<open>dn_db_fault\<close> is the outcome of a database call apart from the constraints the tables enforce:
  a fault (a lock timeout, a full disk) makes the call fail without effect.  A file error is known
  by its text, from which \<open>dn_io_kind\<close> gives its kind.  \<open>dn_serde_error\<close> is the text of a
  deserialisation error for a type.
\<close>

record 'w daemon_env =
  dn_sync :: "'w sync_env"
  dn_db_fault :: "rstr \<Rightarrow> 'w \<Rightarrow> DbError option \<times> 'w"
  dn_db_text :: "DbError \<Rightarrow> rstr"
  dn_sql :: "store \<Rightarrow> sql_env"
  dn_schema_rows :: "store \<Rightarrow> (rstr, sqlite_row list) result"
  dn_fts :: fts_index
  dn_parse_uuid :: "rstr \<Rightarrow> (rstr, uuid) result"
  dn_parse_rfc3339 :: "rstr \<Rightarrow> (rstr, instant) result"
  dn_json_from_str :: "rstr \<Rightarrow> (rstr, json) result"
  dn_serde_error :: "rstr \<Rightarrow> json \<Rightarrow> rstr"
  dn_time_text :: "instant \<Rightarrow> rstr"
  dn_rfc2822 :: "instant \<Rightarrow> rstr"
  dn_base64 :: "byte list \<Rightarrow> rstr"
  dn_new_uuid :: "'w \<Rightarrow> uuid \<times> 'w"
  dn_mime :: "'w \<Rightarrow> mime_env \<times> 'w"
  dn_metadata :: "rstr \<Rightarrow> 'w \<Rightarrow> (rstr, bool \<times> nat) result"
  dn_fs_write :: "rstr \<Rightarrow> byte list \<Rightarrow> 'w \<Rightarrow> (rstr, unit) result \<times> 'w"
  dn_io_kind :: "rstr \<Rightarrow> io_kind"
  dn_mime_guess :: "rstr \<Rightarrow> rstr option"
  dn_imap :: "rstr \<Rightarrow> nat \<Rightarrow> rstr \<Rightarrow> MailCredential \<Rightarrow> 'w \<Rightarrow> (ImapError, FolderInfo list) result \<times> 'w"
  dn_secrets :: "'w secret_ops"
  dn_oauth :: "'w oauth_env"
  dn_smtp :: "SmtpSubmitRequest \<Rightarrow> 'w \<Rightarrow> (SmtpError, unit) result \<times> 'w"
  dn_has_idle :: bool
  dn_has_resolver :: bool

abbreviation dn_files :: "'w daemon_env \<Rightarrow> 'w attachment_env" where
  "dn_files env \<equiv> sync_files (dn_sync env)"

definition show_id :: "'w daemon_env \<Rightarrow> uuid \<Rightarrow> rstr" where
  "show_id env i = uuid_text (dn_files env) i"

definition id_json :: "'w daemon_env \<Rightarrow> uuid \<Rightarrow> json" where
  "id_json env i = JString (show_id env i)"

subsection \<open>Actions\<close>

type_synonym ('w, 'e, 'a) act = "'w daemon \<Rightarrow> (('e, 'a) result \<times> 'w daemon) option"

definition act_give :: "('e, 'a) result \<Rightarrow> ('w, 'e, 'a) act" where
  "act_give r s = Some (r, s)"

definition act_bind :: "('w, 'e, 'a) act \<Rightarrow> ('a \<Rightarrow> ('w, 'e, 'b) act) \<Rightarrow> ('w, 'e, 'b) act" where
  "act_bind m f s =
     (case m s of
        None \<Rightarrow> None
      | Some (r, s') \<Rightarrow> (case r of Inl e \<Rightarrow> Some (Inl e, s') | Inr x \<Rightarrow> f x s'))"

text \<open>The \<^verbatim>\<open>?\<close> on a value computed without effects.\<close>

definition act_let :: "('e, 'a) result \<Rightarrow> ('a \<Rightarrow> ('w, 'e, 'b) act) \<Rightarrow> ('w, 'e, 'b) act" where
  "act_let r f = (case r of Inl e \<Rightarrow> act_give (Inl e) | Inr x \<Rightarrow> f x)"

definition act_map_err :: "('e \<Rightarrow> 'f) \<Rightarrow> ('w, 'e, 'a) act \<Rightarrow> ('w, 'f, 'a) act" where
  "act_map_err g m s = map_option (\<lambda>(r, s'). (map_err g r, s')) (m s)"

text \<open>The result as a value, for the callers that match on it.\<close>

definition act_attempt :: "('w, 'e, 'a) act \<Rightarrow> ('w, 'f, ('e, 'a) result) act" where
  "act_attempt m s = map_option (\<lambda>(r, s'). (Inr r, s')) (m s)"

definition act_world :: "('w \<Rightarrow> ('e, 'a) result \<times> 'w) \<Rightarrow> ('w, 'e, 'a) act" where
  "act_world f s = (case f (dm_world s) of (r, w) \<Rightarrow> Some (r, s\<lparr>dm_sync := (dm_sync s)\<lparr>ys_world := w\<rparr>\<rparr>))"

definition act_peek :: "('w \<Rightarrow> ('e, 'a) result) \<Rightarrow> ('w, 'e, 'a) act" where
  "act_peek f = act_world (\<lambda>w. (f w, w))"

fun act_each :: "('x \<Rightarrow> ('w, 'e, 'a) act) \<Rightarrow> 'x list \<Rightarrow> ('w, 'e, 'a list) act" where
  "act_each f [] = act_give (Ok [])"
| "act_each f (x # xs) = act_bind (f x) (\<lambda>y. act_bind (act_each f xs) (\<lambda>ys. act_give (Ok (y # ys))))"

named_theorems act_iffs \<open>when an action ends in a given result\<close>

lemma act_give_iff [act_iffs]: "act_give r s = Some (r', s') \<longleftrightarrow> r' = r \<and> s' = s"
  by (auto simp: act_give_def)

lemma act_bind_Ok_iff [act_iffs]:
  "act_bind m f s = Some (Ok y, s') \<longleftrightarrow> (\<exists>x s1. m s = Some (Ok x, s1) \<and> f x s1 = Some (Ok y, s'))"
  by (auto simp: act_bind_def split: option.splits sum.splits)

lemma act_bind_Err_iff [act_iffs]:
  "act_bind m f s = Some (Err e, s') \<longleftrightarrow>
     m s = Some (Err e, s') \<or> (\<exists>x s1. m s = Some (Ok x, s1) \<and> f x s1 = Some (Err e, s'))"
  by (auto simp: act_bind_def split: option.splits sum.splits)

lemma act_let_Ok_iff [act_iffs]: "act_let r f s = Some (Ok y, s') \<longleftrightarrow> (\<exists>x. r = Ok x \<and> f x s = Some (Ok y, s'))"
  by (cases r) (auto simp: act_let_def act_give_def)

lemma act_let_Err_iff [act_iffs]:
  "act_let r f s = Some (Err e, s') \<longleftrightarrow> (r = Err e \<and> s' = s) \<or> (\<exists>x. r = Ok x \<and> f x s = Some (Err e, s'))"
  by (cases r) (auto simp: act_let_def act_give_def)

lemma act_map_err_Ok_iff [act_iffs]: "act_map_err g m s = Some (Ok x, s') \<longleftrightarrow> m s = Some (Ok x, s')"
  by (cases "m s") (auto simp: act_map_err_def result_simps)

lemma act_map_err_Err_iff [act_iffs]:
  "act_map_err g m s = Some (Err e, s') \<longleftrightarrow> (\<exists>e'. m s = Some (Err e', s') \<and> e = g e')"
  by (cases "m s") (auto simp: act_map_err_def result_simps)

lemma act_attempt_iff [act_iffs]: "act_attempt m s = Some (q, s') \<longleftrightarrow> (\<exists>r. q = Ok r \<and> m s = Some (r, s'))"
  by (cases "m s") (auto simp: act_attempt_def)

lemma act_if_iff [act_iffs]: "(if b then m else n) s = Some r \<longleftrightarrow> (if b then m s = Some r else n s = Some r)"
  by simp

text \<open>A call to the database, under the name the code gives it in its errors.\<close>

definition db_attempt ::
  "'w daemon_env \<Rightarrow> rstr \<Rightarrow> (store \<Rightarrow> (DbError, 'a \<times> store) result) \<Rightarrow> ('w, DbError, 'a) act" where
  "db_attempt env ctx f s =
     (case dn_db_fault env ctx (dm_world s) of
        (Some e, w) \<Rightarrow> Some (Err e, s\<lparr>dm_sync := (dm_sync s)\<lparr>ys_world := w\<rparr>\<rparr>)
      | (None, w) \<Rightarrow>
          (case f (dm_store s) of
             Inl e \<Rightarrow> Some (Err e, s\<lparr>dm_sync := (dm_sync s)\<lparr>ys_world := w\<rparr>\<rparr>)
           | Inr (x, st) \<Rightarrow> Some (Ok x, s\<lparr>dm_sync := (dm_sync s)\<lparr>ys_store := st, ys_world := w\<rparr>\<rparr>)))"

definition internal :: "'w daemon_env \<Rightarrow> rstr \<Rightarrow> ('w, DbError, 'a) act \<Rightarrow> ('w, RpcError, 'a) act" where
  "internal env ctx m = act_map_err (\<lambda>e. rpc_internal_ctx ctx (dn_db_text env e)) m"

definition db_query :: "'w daemon_env \<Rightarrow> rstr \<Rightarrow> (store \<Rightarrow> 'a) \<Rightarrow> ('w, RpcError, 'a) act" where
  "db_query env ctx q = internal env ctx (db_attempt env ctx (\<lambda>st. Ok (q st, st)))"

text \<open>A statement that draws a uuid and a timestamp, and one that reads the clock.\<close>

definition db_create ::
  "'w daemon_env \<Rightarrow> rstr \<Rightarrow> (uuid \<Rightarrow> instant \<Rightarrow> store \<Rightarrow> (DbError, 'a \<times> store) result) \<Rightarrow> ('w, DbError, 'a) act" where
  "db_create env ctx f =
     act_bind (act_world (\<lambda>w. case draw_row (dn_files env) w of (x, w') \<Rightarrow> (Ok x, w')))
       (\<lambda>(i, now). db_attempt env ctx (f i now))"

definition db_stamped ::
  "'w daemon_env \<Rightarrow> rstr \<Rightarrow> (instant \<Rightarrow> store \<Rightarrow> (DbError, 'a \<times> store) result) \<Rightarrow> ('w, DbError, 'a) act" where
  "db_stamped env ctx f =
     act_bind (act_world (\<lambda>w. case sync_clock (dn_sync env) w of (t, w') \<Rightarrow> (Ok t, w')))
       (\<lambda>now. db_attempt env ctx (f now))"

text \<open>
  A transaction: on an error inside it, or when it cannot be committed, it is rolled back as it is
  dropped.
\<close>

definition transaction ::
  "'w daemon_env \<Rightarrow> rstr \<Rightarrow> rstr \<Rightarrow> ('w, RpcError, 'a) act \<Rightarrow> ('w, RpcError, 'a) act" where
  "transaction env begin_ctx commit_ctx m =
     act_bind (db_query env begin_ctx (\<lambda>st. st)) (\<lambda>before s.
       (case act_bind m (\<lambda>x. act_bind (db_query env commit_ctx (\<lambda>_. ())) (\<lambda>_. act_give (Ok x))) s of
          Some (Inl e, s') \<Rightarrow> Some (Inl e, s'\<lparr>dm_sync := (dm_sync s')\<lparr>ys_store := before\<rparr>\<rparr>)
        | r \<Rightarrow> r))"

definition hub_publish :: "Topic \<Rightarrow> json \<Rightarrow> ('w, 'e, unit) act" where
  "hub_publish topic payload s = Some (Ok (), s\<lparr>dm_sync := snd (publish topic payload (dm_sync s))\<rparr>)"

subsection \<open>Reading arguments\<close>

definition quoted_key :: "rstr \<Rightarrow> rstr \<Rightarrow> rstr \<Rightarrow> rstr" where
  "quoted_key before key after = before @ [39] @ key @ [39] @ after"

definition missing :: "rstr \<Rightarrow> RpcError" where
  "missing key = rpc_bad_args (quoted_key (lit ''missing '') key [])"

definition get_str :: "json \<Rightarrow> rstr \<Rightarrow> rstr option" where
  "get_str args key = Option.bind (value_get args key) as_str"

definition parse_id :: "'w daemon_env \<Rightarrow> json \<Rightarrow> rstr \<Rightarrow> (RpcError, uuid) result" where
  "parse_id env args key =
     and_then (ok_or (missing key) (get_str args key)) (\<lambda>t.
     map_err (\<lambda>e. rpc_bad_args (quoted_key (lit ''bad '') key (lit '': '' @ e))) (dn_parse_uuid env t))"

definition parse_uuid :: "'w daemon_env \<Rightarrow> json \<Rightarrow> rstr \<Rightarrow> (RpcError, uuid) result" where
  "parse_uuid env args key = parse_id env args key"

fun parse_ids_from :: "'w daemon_env \<Rightarrow> rstr \<Rightarrow> nat \<Rightarrow> json list \<Rightarrow> (RpcError, uuid list) result" where
  "parse_ids_from env key index [] = Ok []"
| "parse_ids_from env key index (v # vs) =
     (let at_index = key @ [91] @ show_nat index @ [93] in
      and_then (ok_or (rpc_bad_args (quoted_key [] at_index (lit '' must be a string''))) (as_str v)) (\<lambda>t.
      and_then (map_err (\<lambda>e. rpc_bad_args (quoted_key (lit ''bad '') at_index (lit '': '' @ e))) (dn_parse_uuid env t)) (\<lambda>i.
      and_then (parse_ids_from env key (index + 1) vs) (\<lambda>is. Ok (i # is)))))"

definition parse_id_array :: "'w daemon_env \<Rightarrow> json \<Rightarrow> rstr \<Rightarrow> nat \<Rightarrow> (RpcError, uuid list) result" where
  "parse_id_array env args key max_len =
     and_then (ok_or (missing key) (Option.bind (value_get args key) as_array)) (\<lambda>values.
     if values = [] then Err (rpc_bad_args (quoted_key [] key (lit '' cannot be empty'')))
     else if length values > max_len
     then Err (rpc_bad_args (quoted_key [] key (lit '' cannot contain more than '' @ show_nat max_len @ lit '' ids'')))
     else parse_ids_from env key 0 values)"

definition parse_str :: "json \<Rightarrow> rstr \<Rightarrow> (RpcError, rstr) result" where
  "parse_str args key = ok_or (missing key) (filter_option (\<lambda>t. t \<noteq> []) (get_str args key))"

definition optional_str :: "json \<Rightarrow> rstr \<Rightarrow> (RpcError, rstr option) result" where
  "optional_str args key =
     (case value_get args key of
        None \<Rightarrow> Ok None
      | Some JNull \<Rightarrow> Ok None
      | Some (JString t) \<Rightarrow> Ok (Some t)
      | Some _ \<Rightarrow> Err (rpc_bad_args (quoted_key [] key (lit '' must be a string''))))"

definition optional_id :: "'w daemon_env \<Rightarrow> json \<Rightarrow> rstr \<Rightarrow> (RpcError, uuid option) result" where
  "optional_id env args key =
     (case value_get args key of
        None \<Rightarrow> Ok None
      | Some JNull \<Rightarrow> Ok None
      | Some _ \<Rightarrow> and_then (parse_id env args key) (\<lambda>i. Ok (Some i)))"

definition optional_bool :: "json \<Rightarrow> rstr \<Rightarrow> (RpcError, bool option) result" where
  "optional_bool args key =
     (case value_get args key of
        None \<Rightarrow> Ok None
      | Some JNull \<Rightarrow> Ok None
      | Some (JBool b) \<Rightarrow> Ok (Some b)
      | Some _ \<Rightarrow> Err (rpc_bad_args (quoted_key [] key (lit '' must be a boolean''))))"

definition optional_rfc3339 :: "'w daemon_env \<Rightarrow> json \<Rightarrow> rstr \<Rightarrow> (RpcError, instant option) result" where
  "optional_rfc3339 env args key =
     and_then (optional_str args key) (\<lambda>v.
       (case v of
          None \<Rightarrow> Ok None
        | Some t \<Rightarrow>
            and_then (map_err (\<lambda>e. rpc_bad_args (quoted_key [] key (lit '' must be rfc3339: '' @ e)))
                        (dn_parse_rfc3339 env t)) (\<lambda>d. Ok (Some d))))"

definition optional_nonempty_string :: "json \<Rightarrow> rstr \<Rightarrow> (RpcError, rstr option) result" where
  "optional_nonempty_string args key =
     and_then (optional_str args key) (\<lambda>v.
       (case v of
          None \<Rightarrow> Ok None
        | Some t \<Rightarrow>
            if t = [] then Err (rpc_bad_args (quoted_key [] key (lit '' must not be empty''))) else Ok (Some t)))"

definition get_i64 :: "json \<Rightarrow> rstr \<Rightarrow> i64 \<Rightarrow> i64" where
  "get_i64 args key d = unwrap_or d (Option.bind (value_get args key) as_i64)"

subsection \<open>Actors and the audit trail\<close>

definition actor_is_allowed :: "rstr \<Rightarrow> bool" where
  "actor_is_allowed actor \<longleftrightarrow>
     actor = lit ''user'' \<or>
     (starts_with actor (lit ''mcp:'') \<and>
      (let name = drop 4 actor in name \<noteq> [] \<and> str_len name \<le> 128))"

definition actor_from_args :: "json \<Rightarrow> rstr" where
  "actor_from_args args = unwrap_or (lit ''user'') (filter_option actor_is_allowed (get_str args (lit ''_actor'')))"

definition audit_actor ::
  "'w daemon_env \<Rightarrow> rstr \<Rightarrow> rstr \<Rightarrow> rstr option \<Rightarrow> json \<Rightarrow> ('w, 'e, unit) act" where
  "audit_actor env actor action target details =
     act_bind (act_attempt (db_create env (lit ''audit::record'') (audit_record
       \<lparr>nae_actor = actor, nae_action = action, nae_target = target, nae_details = details\<rparr>)))
       (\<lambda>_. act_give (Ok ()))"

definition audit :: "'w daemon_env \<Rightarrow> rstr \<Rightarrow> rstr option \<Rightarrow> json \<Rightarrow> ('w, 'e, unit) act" where
  "audit env action target details = audit_actor env (lit ''user'') action target details"

subsection \<open>What actions keep\<close>

type_synonym daemon_view = "store \<times> (Topic \<times> json) list \<times> manager"

definition dm_view :: "'w daemon \<Rightarrow> daemon_view" where
  "dm_view s = (dm_store s, ys_published (dm_sync s), dm_manager s)"

definition runs :: "bool \<Rightarrow> (daemon_view \<Rightarrow> bool) \<Rightarrow> ('w, 'e, 'a) act \<Rightarrow> bool" where
  "runs tot Q m \<longleftrightarrow>
     (\<forall>s. Q (dm_view s) \<longrightarrow> (case m s of None \<Rightarrow> \<not> tot | Some (_, s') \<Rightarrow> Q (dm_view s')))"

named_theorems runs_intros \<open>rules for the parts a handler is made of\<close>

lemma runsD: "runs tot Q m \<Longrightarrow> Q (dm_view s) \<Longrightarrow> m s = Some (r, s') \<Longrightarrow> Q (dm_view s')"
  by (auto simp: runs_def split: option.splits)

lemma runs_returns: "runs True Q m \<Longrightarrow> Q (dm_view s) \<Longrightarrow> \<exists>r s'. m s = Some (r, s') \<and> Q (dm_view s')"
  by (force simp: runs_def split: option.splits)

lemma runs_give [runs_intros]: "runs tot Q (act_give r)"
  by (simp add: runs_def act_give_def)

lemma runs_bind [runs_intros]:
  assumes m: "runs tot Q m" and f: "\<And>x. runs tot Q (f x)"
  shows "runs tot Q (act_bind m f)"
proof -
  have "case act_bind m f s of None \<Rightarrow> \<not> tot | Some (_, s') \<Rightarrow> Q (dm_view s')" if "Q (dm_view s)" for s
  proof (cases "m s")
    case None
    with m that show ?thesis by (auto simp: act_bind_def runs_def)
  next
    case (Some out)
    obtain r s1 where out: "out = (r, s1)" by (cases out)
    with runsD [OF m that] Some have q: "Q (dm_view s1)" by simp
    show ?thesis
    proof (cases r)
      case (Inr x)
      have "case f x s1 of None \<Rightarrow> \<not> tot | Some (_, s') \<Rightarrow> Q (dm_view s')"
        using f [of x] q unfolding runs_def by blast
      then show ?thesis by (simp add: act_bind_def Some out Inr)
    qed (simp add: act_bind_def Some out q)
  qed
  then show ?thesis unfolding runs_def by blast
qed

lemma runs_let [runs_intros]: "(\<And>x. r = Ok x \<Longrightarrow> runs tot Q (f x)) \<Longrightarrow> runs tot Q (act_let r f)"
  by (cases r) (simp_all add: act_let_def runs_give)

lemma runs_map_err [runs_intros]: "runs tot Q m \<Longrightarrow> runs tot Q (act_map_err g m)"
  by (fastforce simp: runs_def act_map_err_def split: option.splits)

lemma runs_attempt [runs_intros]: "runs tot Q m \<Longrightarrow> runs tot Q (act_attempt m)"
  by (fastforce simp: runs_def act_attempt_def split: option.splits)

lemma runs_world [runs_intros]: "runs tot Q (act_world f)"
  by (simp add: runs_def act_world_def dm_view_def split: prod.splits)

lemma runs_peek [runs_intros]: "runs tot Q (act_peek f)"
  by (simp add: act_peek_def runs_world)

lemma runs_each [runs_intros]: "(\<And>x. x \<in> set xs \<Longrightarrow> runs tot Q (f x)) \<Longrightarrow> runs tot Q (act_each f xs)"
  by (induction xs) (simp_all add: runs_bind runs_give)

lemma runs_if [runs_intros]: "(b \<Longrightarrow> runs tot Q m) \<Longrightarrow> (\<not> b \<Longrightarrow> runs tot Q n) \<Longrightarrow> runs tot Q (if b then m else n)"
  by simp

lemma runs_option [runs_intros]:
  "(x = None \<Longrightarrow> runs tot Q m) \<Longrightarrow> (\<And>y. x = Some y \<Longrightarrow> runs tot Q (f y)) \<Longrightarrow> runs tot Q (case x of None \<Rightarrow> m | Some y \<Rightarrow> f y)"
  by (cases x) simp_all

lemma runs_sum [runs_intros]:
  "(\<And>y. x = Inl y \<Longrightarrow> runs tot Q (f y)) \<Longrightarrow> (\<And>y. x = Inr y \<Longrightarrow> runs tot Q (g y)) \<Longrightarrow>
   runs tot Q (case x of Inl y \<Rightarrow> f y | Inr y \<Rightarrow> g y)"
  by (cases x) simp_all

lemma runs_prod [runs_intros]: "(\<And>a b. x = (a, b) \<Longrightarrow> runs tot Q (f a b)) \<Longrightarrow> runs tot Q (case x of (a, b) \<Rightarrow> f a b)"
  by (cases x) simp

lemma runs_db_attempt:
  "(\<And>st p m x st'. Q (st, p, m) \<Longrightarrow> f st = Ok (x, st') \<Longrightarrow> Q (st', p, m)) \<Longrightarrow> runs tot Q (db_attempt env ctx f)"
  by (fastforce simp: runs_def db_attempt_def dm_view_def split: option.splits prod.splits sum.splits)

lemma runs_statement:
  "(\<And>st p m. Q (st, p, m) \<Longrightarrow> Q (snd (q st), p, m)) \<Longrightarrow> runs tot Q (db_attempt env ctx (\<lambda>st. Ok (q st)))"
  by (rule runs_db_attempt) (metis Inr_inject snd_conv)

lemma runs_internal [runs_intros]: "runs tot Q m \<Longrightarrow> runs tot Q (internal env ctx m)"
  by (simp add: internal_def runs_map_err)

lemma runs_query [runs_intros]: "runs tot Q (db_query env ctx q)"
  unfolding db_query_def by (intro runs_internal runs_db_attempt) auto

lemma runs_create:
  "(\<And>i now st p m x st'. Q (st, p, m) \<Longrightarrow> f i now st = Ok (x, st') \<Longrightarrow> Q (st', p, m)) \<Longrightarrow> runs tot Q (db_create env ctx f)"
  unfolding db_create_def by (intro runs_bind runs_world runs_prod runs_db_attempt)

lemma runs_stamped:
  "(\<And>now st p m x st'. Q (st, p, m) \<Longrightarrow> f now st = Ok (x, st') \<Longrightarrow> Q (st', p, m)) \<Longrightarrow> runs tot Q (db_stamped env ctx f)"
  unfolding db_stamped_def by (intro runs_bind runs_world runs_db_attempt)

lemma runs_stamped_statement:
  "(\<And>now st p m. Q (st, p, m) \<Longrightarrow> Q (snd (q now st), p, m)) \<Longrightarrow> runs tot Q (db_stamped env ctx (\<lambda>now st. Ok (q now st)))"
  unfolding db_stamped_def by (intro runs_bind runs_world runs_statement)

lemma runs_publish: "(\<And>st p m. Q (st, p, m) \<Longrightarrow> Q (st, p @ [(topic, v)], m)) \<Longrightarrow> runs tot Q (hub_publish topic v)"
  by (simp add: runs_def hub_publish_def publish_def dm_view_def)

text \<open>A database call that succeeds has made its change and no other; one that fails, none.\<close>

lemma db_attempt_Ok:
  assumes "db_attempt env ctx f s = Some (Ok x, s')"
  shows "f (dm_store s) = Ok (x, dm_store s')" and "snd (dm_view s') = snd (dm_view s)"
  using assms by (auto simp: db_attempt_def dm_view_def split: prod.splits option.splits sum.splits)

lemma db_attempt_Err: "db_attempt env ctx f s = Some (Err e, s') \<Longrightarrow> dm_view s' = dm_view s"
  by (auto simp: db_attempt_def dm_view_def split: prod.splits option.splits sum.splits)

lemma act_world_view: "act_world f s = Some (r, s') \<Longrightarrow> dm_view s' = dm_view s"
  by (auto simp: act_world_def dm_view_def split: prod.splits)

lemma dm_view_store: "dm_view s' = dm_view s \<Longrightarrow> dm_store s' = dm_store s"
  by (simp add: dm_view_def)

lemma db_create_Ok:
  assumes "db_create env ctx f s = Some (Ok x, s')"
  shows "\<exists>i now. f i now (dm_store s) = Ok (x, dm_store s')" and "snd (dm_view s') = snd (dm_view s)"
proof -
  from assms obtain i now s1 where w: "dm_view s1 = dm_view s" and a: "db_attempt env ctx (f i now) s1 = Some (Ok x, s')"
    by (auto simp: db_create_def act_iffs dest!: act_world_view)
  from db_attempt_Ok [OF a] w dm_view_store [OF w]
  show "\<exists>i now. f i now (dm_store s) = Ok (x, dm_store s')" "snd (dm_view s') = snd (dm_view s)" by auto
qed

lemma db_create_Err: "db_create env ctx f s = Some (Err e, s') \<Longrightarrow> dm_view s' = dm_view s"
  by (auto simp: db_create_def act_iffs dest!: act_world_view db_attempt_Err)

end
