(* ===== verification/DaemonJson.thy ===== *)
theory DaemonJson
  imports DaemonBase
begin

text \<open>
  The JSON of rows and requests: what \<^verbatim>\<open>serde\<close> makes of the derives of \<^verbatim>\<open>src/models.rs\<close>,
  \<^verbatim>\<open>src/attachments.rs\<close> and \<^verbatim>\<open>src/sync/reconciler.rs\<close> when the dispatcher answers, and of the
  \<^verbatim>\<open>Deserialize\<close> types of \<^verbatim>\<open>src/db\<close> and \<^verbatim>\<open>dispatcher.rs\<close> when it reads arguments.
\<close>

subsection \<open>Values\<close>

definition opt_json :: "('a \<Rightarrow> json) \<Rightarrow> 'a option \<Rightarrow> json" where
  "opt_json f v = (case v of None \<Rightarrow> JNull | Some x \<Rightarrow> f x)"

definition strings_json :: "rstr list \<Rightarrow> json" where
  "strings_json xs = JArray (map JString xs)"

definition time_json :: "'w daemon_env \<Rightarrow> instant \<Rightarrow> json" where
  "time_json env t = JString (dn_time_text env t)"

text \<open>
  \<^verbatim>\<open>rename_all = "snake_case"\<close> puts an underscore before every capital but the first, which for
  \<^verbatim>\<open>OAuth2Google\<close> is neither its \<^verbatim>\<open>as_str\<close> nor the name the error messages use.  The other
  enumerations are single words, or two with a capital each, and get their \<^verbatim>\<open>as_str\<close>.
\<close>

fun auth_kind_serde :: "AuthKind \<Rightarrow> rstr" where
  "auth_kind_serde Password = lit ''password''"
| "auth_kind_serde OAuth2Google = lit ''o_auth2_google''"

subsection \<open>Rows\<close>

definition account_json :: "'w daemon_env \<Rightarrow> Account \<Rightarrow> json" where
  "account_json env a = json_object
     [(lit ''id'', id_json env (acc_id a)), (lit ''email'', JString (acc_email a)),
      (lit ''display_name'', opt_json JString (acc_display_name a)),
      (lit ''auth_kind'', JString (auth_kind_serde (acc_auth_kind a))),
      (lit ''imap_host'', JString (acc_imap_host a)), (lit ''imap_port'', json_int (acc_imap_port a)),
      (lit ''imap_use_tls'', JBool (acc_imap_use_tls a)), (lit ''smtp_host'', JString (acc_smtp_host a)),
      (lit ''smtp_port'', json_int (acc_smtp_port a)), (lit ''smtp_use_tls'', JBool (acc_smtp_use_tls a)),
      (lit ''smtp_starttls'', JBool (acc_smtp_starttls a)),
      (lit ''secret_ref'', opt_json JString (acc_secret_ref a)),
      (lit ''last_synced_at'', opt_json (time_json env) (acc_last_synced_at a)),
      (lit ''sync_status'', JString (sync_status_as_str (acc_sync_status a))),
      (lit ''sync_error'', opt_json JString (acc_sync_error a)),
      (lit ''created_at'', time_json env (acc_created_at a)),
      (lit ''updated_at'', time_json env (acc_updated_at a))]"

definition folder_json :: "'w daemon_env \<Rightarrow> Folder \<Rightarrow> json" where
  "folder_json env f = json_object
     [(lit ''id'', id_json env (fld_id f)), (lit ''account_id'', id_json env (fld_account_id f)),
      (lit ''name'', JString (fld_name f)), (lit ''delimiter'', JString (fld_delimiter f)),
      (lit ''role'', JString (folder_role_as_str (fld_role f))),
      (lit ''uid_validity'', opt_json json_int (fld_uid_validity f)),
      (lit ''uid_next'', opt_json json_int (fld_uid_next f)),
      (lit ''last_seen_uid'', opt_json json_int (fld_last_seen_uid f)),
      (lit ''selectable'', JBool (fld_selectable f)),
      (lit ''created_at'', time_json env (fld_created_at f))]"

definition thread_json :: "'w daemon_env \<Rightarrow> Thread \<Rightarrow> json" where
  "thread_json env t = json_object
     [(lit ''id'', id_json env (thr_id t)), (lit ''account_id'', id_json env (thr_account_id t)),
      (lit ''external_id'', opt_json JString (thr_external_id t)),
      (lit ''subject'', opt_json JString (thr_subject t)),
      (lit ''last_message_at'', opt_json (time_json env) (thr_last_message_at t)),
      (lit ''message_count'', json_int (thr_message_count t)),
      (lit ''created_at'', time_json env (thr_created_at t))]"

definition summary_json :: "'w daemon_env \<Rightarrow> MessageSummary \<Rightarrow> json" where
  "summary_json env m = json_object
     [(lit ''id'', id_json env (ms_id m)), (lit ''account_id'', id_json env (ms_account_id m)),
      (lit ''folder_id'', id_json env (ms_folder_id m)),
      (lit ''thread_id'', opt_json (id_json env) (ms_thread_id m)), (lit ''uid'', json_int (ms_uid m)),
      (lit ''message_id_header'', opt_json JString (ms_message_id_header m)),
      (lit ''in_reply_to'', opt_json JString (ms_in_reply_to m)),
      (lit ''references_header'', opt_json JString (ms_references_header m)),
      (lit ''from_addr'', JString (ms_from_addr m)), (lit ''to_addrs'', strings_json (ms_to_addrs m)),
      (lit ''cc_addrs'', strings_json (ms_cc_addrs m)), (lit ''bcc_addrs'', strings_json (ms_bcc_addrs m)),
      (lit ''reply_to'', opt_json JString (ms_reply_to m)), (lit ''subject'', opt_json JString (ms_subject m)),
      (lit ''snippet'', opt_json JString (ms_snippet m)), (lit ''raw_size'', json_int (ms_raw_size m)),
      (lit ''flags'', strings_json (ms_flags m)), (lit ''internal_date'', time_json env (ms_internal_date m)),
      (lit ''sent_at'', opt_json (time_json env) (ms_sent_at m)),
      (lit ''created_at'', time_json env (ms_created_at m))]"

definition message_json :: "'w daemon_env \<Rightarrow> Message \<Rightarrow> json" where
  "message_json env m = json_object
     [(lit ''id'', id_json env (msg_id m)), (lit ''account_id'', id_json env (msg_account_id m)),
      (lit ''folder_id'', id_json env (msg_folder_id m)),
      (lit ''thread_id'', opt_json (id_json env) (msg_thread_id m)), (lit ''uid'', json_int (msg_uid m)),
      (lit ''message_id_header'', opt_json JString (msg_message_id_header m)),
      (lit ''in_reply_to'', opt_json JString (msg_in_reply_to m)),
      (lit ''references_header'', opt_json JString (msg_references_header m)),
      (lit ''from_addr'', JString (msg_from_addr m)), (lit ''to_addrs'', strings_json (msg_to_addrs m)),
      (lit ''cc_addrs'', strings_json (msg_cc_addrs m)), (lit ''bcc_addrs'', strings_json (msg_bcc_addrs m)),
      (lit ''reply_to'', opt_json JString (msg_reply_to m)), (lit ''subject'', opt_json JString (msg_subject m)),
      (lit ''snippet'', opt_json JString (msg_snippet m)), (lit ''text_body'', opt_json JString (msg_text_body m)),
      (lit ''html_body'', opt_json JString (msg_html_body m)), (lit ''raw_size'', json_int (msg_raw_size m)),
      (lit ''flags'', strings_json (msg_flags m)), (lit ''internal_date'', time_json env (msg_internal_date m)),
      (lit ''sent_at'', opt_json (time_json env) (msg_sent_at m)),
      (lit ''created_at'', time_json env (msg_created_at m))]"

definition attachment_json :: "'w daemon_env \<Rightarrow> Attachment \<Rightarrow> json" where
  "attachment_json env a = json_object
     [(lit ''id'', id_json env (att_id a)), (lit ''message_id'', id_json env (att_message_id a)),
      (lit ''filename'', JString (att_filename a)), (lit ''content_type'', JString (att_content_type a)),
      (lit ''content_id'', opt_json JString (att_content_id a)), (lit ''size_bytes'', json_int (att_size_bytes a)),
      (lit ''disposition'', JString (attachment_disposition_as_str (att_disposition a))),
      (lit ''storage_path'', JString (att_storage_path a)),
      (lit ''created_at'', time_json env (att_created_at a))]"

definition draft_json :: "'w daemon_env \<Rightarrow> Draft \<Rightarrow> json" where
  "draft_json env d = json_object
     [(lit ''id'', id_json env (dft_id d)), (lit ''account_id'', id_json env (dft_account_id d)),
      (lit ''in_reply_to_msg'', opt_json (id_json env) (dft_in_reply_to_msg d)),
      (lit ''to_addrs'', strings_json (dft_to_addrs d)), (lit ''cc_addrs'', strings_json (dft_cc_addrs d)),
      (lit ''bcc_addrs'', strings_json (dft_bcc_addrs d)), (lit ''subject'', opt_json JString (dft_subject d)),
      (lit ''text_body'', opt_json JString (dft_text_body d)),
      (lit ''html_body'', opt_json JString (dft_html_body d)),
      (lit ''in_reply_to'', opt_json JString (dft_in_reply_to d)),
      (lit ''references_header'', opt_json JString (dft_references_header d)),
      (lit ''remote_folder_id'', opt_json (id_json env) (dft_remote_folder_id d)),
      (lit ''remote_uid'', opt_json json_int (dft_remote_uid d)),
      (lit ''created_at'', time_json env (dft_created_at d)), (lit ''updated_at'', time_json env (dft_updated_at d))]"

definition gate_json :: "'w daemon_env \<Rightarrow> McpGate \<Rightarrow> json" where
  "gate_json env g = json_object
     [(lit ''id'', id_json env (gate_id g)), (lit ''tool'', JString (gate_tool g)),
      (lit ''arg_pattern'', opt_json JString (gate_arg_pattern g)),
      (lit ''action'', JString (gate_action_as_str (gate_action g))),
      (lit ''note'', opt_json JString (gate_note g)), (lit ''created_at'', time_json env (gate_created_at g))]"

definition approval_json :: "'w daemon_env \<Rightarrow> McpApproval \<Rightarrow> json" where
  "approval_json env a = json_object
     [(lit ''id'', id_json env (ap_id a)), (lit ''tool'', JString (ap_tool a)), (lit ''args'', ap_args a),
      (lit ''summary'', JString (ap_summary a)), (lit ''state'', JString (approval_state_as_str (ap_state a))),
      (lit ''decided_at'', opt_json (time_json env) (ap_decided_at a)),
      (lit ''decided_by'', opt_json JString (ap_decided_by a)),
      (lit ''created_at'', time_json env (ap_created_at a))]"

definition audit_json :: "'w daemon_env \<Rightarrow> AuditEntry \<Rightarrow> json" where
  "audit_json env a = json_object
     [(lit ''id'', id_json env (aud_id a)), (lit ''actor'', JString (aud_actor a)),
      (lit ''action'', JString (aud_action a)), (lit ''target'', opt_json JString (aud_target a)),
      (lit ''details'', aud_details a), (lit ''created_at'', time_json env (aud_created_at a))]"

definition preview_json :: "'w daemon_env \<Rightarrow> AttachmentPreview \<Rightarrow> json" where
  "preview_json env p = json_object
     [(lit ''attachment'', attachment_json env (ape_attachment p)),
      (lit ''inline_text'', opt_json JString (ape_inline_text p)), (lit ''message'', JString (ape_message p)),
      (lit ''truncated'', JBool (ape_truncated p)), (lit ''preview_bytes'', json_nat (ape_preview_bytes p))]"

definition export_json :: "'w daemon_env \<Rightarrow> AttachmentExport \<Rightarrow> json" where
  "export_json env x = json_object
     [(lit ''attachment_id'', id_json env (aex_attachment_id x)),
      (lit ''destination_path'', JString (aex_destination_path x)),
      (lit ''bytes_copied'', json_nat (aex_bytes_copied x))]"

definition report_json :: "'w daemon_env \<Rightarrow> ReconcileReport \<Rightarrow> json" where
  "report_json env r = json_object
     [(lit ''folder_id'', id_json env (rr_folder_id r)), (lit ''inserted'', json_nat (rr_inserted r)),
      (lit ''wiped'', json_nat (rr_wiped r)), (lit ''uid_validity'', opt_json json_int (rr_uid_validity r)),
      (lit ''uid_next'', opt_json json_int (rr_uid_next r)),
      (lit ''last_seen_uid'', opt_json json_int (rr_last_seen_uid r))]"

subsection \<open>Decoding arguments\<close>

text \<open>
  A derived decoder reads an object by name, ignoring other keys, or an array by position.  An
  \<^verbatim>\<open>Option\<close> may be missing from an object but not from an array; a field with a default may be
  missing from both.
\<close>

definition as_strings :: "json \<Rightarrow> rstr list option" where
  "as_strings v = Option.bind (as_array v) (\<lambda>xs. if list_all is_string xs then Some (List.map_filter as_str xs) else None)"

definition as_id :: "'w daemon_env \<Rightarrow> json \<Rightarrow> uuid option" where
  "as_id env v =
     Option.bind (as_str v) (\<lambda>t. case dn_parse_uuid env t of Inl _ \<Rightarrow> None | Inr i \<Rightarrow> Some i)"

definition as_optional :: "(json \<Rightarrow> 'a option) \<Rightarrow> json \<Rightarrow> 'a option option" where
  "as_optional dec v = (if is_null v then Some None else map_option Some (dec v))"

text \<open>A unit variant: its name, or an object with the name as only key and null as its value.\<close>

definition as_variant :: "('a \<Rightarrow> rstr) \<Rightarrow> 'a list \<Rightarrow> json \<Rightarrow> 'a option" where
  "as_variant name variants v =
     (case v of
        JString t \<Rightarrow> find (\<lambda>x. name x = t) variants
      | JObject [(t, JNull)] \<Rightarrow> find (\<lambda>x. name x = t) variants
      | _ \<Rightarrow> None)"

definition required_field :: "nat \<Rightarrow> nat \<Rightarrow> rstr \<Rightarrow> (json \<Rightarrow> 'a option) \<Rightarrow> json \<Rightarrow> 'a option" where
  "required_field arity i name dec v = Option.bind (field_at arity i name v) dec"

definition optional_field :: "nat \<Rightarrow> nat \<Rightarrow> rstr \<Rightarrow> (json \<Rightarrow> 'a option) \<Rightarrow> json \<Rightarrow> 'a option option" where
  "optional_field arity i name dec v =
     (case field_at arity i name v of
        None \<Rightarrow> if as_object v = None then None else Some None
      | Some x \<Rightarrow> as_optional dec x)"

definition defaulted_field :: "nat \<Rightarrow> nat \<Rightarrow> rstr \<Rightarrow> 'a \<Rightarrow> (json \<Rightarrow> 'a option) \<Rightarrow> json \<Rightarrow> 'a option" where
  "defaulted_field arity i name d dec v =
     (case field_at arity i name v of None \<Rightarrow> if is_struct arity v then Some d else None | Some x \<Rightarrow> dec x)"

definition new_account_of_json :: "'w daemon_env \<Rightarrow> json \<Rightarrow> NewAccount option" where
  "new_account_of_json env v =
     Option.bind (required_field 10 0 (lit ''email'') as_str v) (\<lambda>email.
     Option.bind (optional_field 10 1 (lit ''display_name'') as_str v) (\<lambda>display_name.
     Option.bind (required_field 10 2 (lit ''auth_kind'') (as_variant auth_kind_serde [Password, OAuth2Google]) v) (\<lambda>auth_kind.
     Option.bind (required_field 10 3 (lit ''imap_host'') as_str v) (\<lambda>imap_host.
     Option.bind (required_field 10 4 (lit ''imap_port'') as_i64 v) (\<lambda>imap_port.
     Option.bind (required_field 10 5 (lit ''imap_use_tls'') as_bool v) (\<lambda>imap_use_tls.
     Option.bind (required_field 10 6 (lit ''smtp_host'') as_str v) (\<lambda>smtp_host.
     Option.bind (required_field 10 7 (lit ''smtp_port'') as_i64 v) (\<lambda>smtp_port.
     Option.bind (required_field 10 8 (lit ''smtp_use_tls'') as_bool v) (\<lambda>smtp_use_tls.
     Option.bind (required_field 10 9 (lit ''smtp_starttls'') as_bool v) (\<lambda>smtp_starttls.
     Some \<lparr>na_email = email, na_display_name = display_name, na_auth_kind = auth_kind, na_imap_host = imap_host,
           na_imap_port = imap_port, na_imap_use_tls = imap_use_tls, na_smtp_host = smtp_host,
           na_smtp_port = smtp_port, na_smtp_use_tls = smtp_use_tls, na_smtp_starttls = smtp_starttls\<rparr>))))))))))"

definition folder_roles :: "FolderRole list" where
  "folder_roles = [RoleInbox, RoleSent, RoleDrafts, RoleArchive, RoleTrash, RoleSpam, RoleAll, RoleStarred, RoleCustom]"

definition new_folder_of_json :: "'w daemon_env \<Rightarrow> json \<Rightarrow> NewFolder option" where
  "new_folder_of_json env v =
     Option.bind (required_field 5 0 (lit ''account_id'') (as_id env) v) (\<lambda>account_id.
     Option.bind (required_field 5 1 (lit ''name'') as_str v) (\<lambda>name.
     Option.bind (required_field 5 2 (lit ''delimiter'') as_str v) (\<lambda>delimiter.
     Option.bind (required_field 5 3 (lit ''role'') (as_variant folder_role_as_str folder_roles) v) (\<lambda>role.
     Option.bind (required_field 5 4 (lit ''selectable'') as_bool v) (\<lambda>selectable.
     Some \<lparr>nf_account_id = account_id, nf_name = name, nf_delimiter = delimiter, nf_role = role,
           nf_selectable = selectable\<rparr>)))))"

definition new_draft_of_json :: "'w daemon_env \<Rightarrow> json \<Rightarrow> NewDraft option" where
  "new_draft_of_json env v =
     Option.bind (required_field 10 0 (lit ''account_id'') (as_id env) v) (\<lambda>account_id.
     Option.bind (optional_field 10 1 (lit ''in_reply_to_msg'') (as_id env) v) (\<lambda>in_reply_to_msg.
     Option.bind (required_field 10 2 (lit ''to_addrs'') as_strings v) (\<lambda>to_addrs.
     Option.bind (required_field 10 3 (lit ''cc_addrs'') as_strings v) (\<lambda>cc_addrs.
     Option.bind (required_field 10 4 (lit ''bcc_addrs'') as_strings v) (\<lambda>bcc_addrs.
     Option.bind (optional_field 10 5 (lit ''subject'') as_str v) (\<lambda>subject.
     Option.bind (optional_field 10 6 (lit ''text_body'') as_str v) (\<lambda>text_body.
     Option.bind (optional_field 10 7 (lit ''html_body'') as_str v) (\<lambda>html_body.
     Option.bind (defaulted_field 10 8 (lit ''in_reply_to'') None (as_optional as_str) v) (\<lambda>in_reply_to.
     Option.bind (defaulted_field 10 9 (lit ''references_header'') None (as_optional as_str) v) (\<lambda>references_header.
     Some \<lparr>nd_account_id = account_id, nd_in_reply_to_msg = in_reply_to_msg, nd_to_addrs = to_addrs,
           nd_cc_addrs = cc_addrs, nd_bcc_addrs = bcc_addrs, nd_subject = subject, nd_text_body = text_body,
           nd_html_body = html_body, nd_in_reply_to = in_reply_to, nd_references_header = references_header\<rparr>))))))))))"

record DraftUpdate =
  du_id :: uuid
  du_to_addrs :: "rstr list"
  du_cc_addrs :: "rstr list"
  du_bcc_addrs :: "rstr list"
  du_subject :: "rstr option"
  du_text_body :: "rstr option"
  du_html_body :: "rstr option"

definition draft_update_of_json :: "'w daemon_env \<Rightarrow> json \<Rightarrow> DraftUpdate option" where
  "draft_update_of_json env v =
     Option.bind (required_field 7 0 (lit ''id'') (as_id env) v) (\<lambda>draft_id.
     Option.bind (defaulted_field 7 1 (lit ''to_addrs'') [] as_strings v) (\<lambda>to_addrs.
     Option.bind (defaulted_field 7 2 (lit ''cc_addrs'') [] as_strings v) (\<lambda>cc_addrs.
     Option.bind (defaulted_field 7 3 (lit ''bcc_addrs'') [] as_strings v) (\<lambda>bcc_addrs.
     Option.bind (defaulted_field 7 4 (lit ''subject'') None (as_optional as_str) v) (\<lambda>subject.
     Option.bind (defaulted_field 7 5 (lit ''text_body'') None (as_optional as_str) v) (\<lambda>text_body.
     Option.bind (defaulted_field 7 6 (lit ''html_body'') None (as_optional as_str) v) (\<lambda>html_body.
     Some \<lparr>du_id = draft_id, du_to_addrs = to_addrs, du_cc_addrs = cc_addrs, du_bcc_addrs = bcc_addrs,
           du_subject = subject, du_text_body = text_body, du_html_body = html_body\<rparr>)))))))"

record DraftAttachmentSpec =
  das_path :: rstr
  das_content_type :: "rstr option"
  das_filename :: "rstr option"

definition spec_of_json :: "json \<Rightarrow> DraftAttachmentSpec option" where
  "spec_of_json v =
     Option.bind (required_field 3 0 (lit ''path'') as_str v) (\<lambda>path.
     Option.bind (defaulted_field 3 1 (lit ''content_type'') None (as_optional as_str) v) (\<lambda>content_type.
     Option.bind (defaulted_field 3 2 (lit ''filename'') None (as_optional as_str) v) (\<lambda>filename.
     Some \<lparr>das_path = path, das_content_type = content_type, das_filename = filename\<rparr>)))"

fun specs_of_json :: "json list \<Rightarrow> DraftAttachmentSpec list option" where
  "specs_of_json [] = Some []"
| "specs_of_json (v # vs) =
     Option.bind (spec_of_json v) (\<lambda>x. Option.bind (specs_of_json vs) (\<lambda>xs. Some (x # xs)))"

text \<open>\<^verbatim>\<open>serde_json::from_value(..).map_err(..)\<close>, with the text of the error from the library.\<close>

definition from_value :: "'w daemon_env \<Rightarrow> rstr \<Rightarrow> (json \<Rightarrow> 'a option) \<Rightarrow> json \<Rightarrow> (RpcError, 'a) result" where
  "from_value env type_name dec v = ok_or (rpc_bad_args (dn_serde_error env type_name v)) (dec v)"

end
