(* ===== verification/DaemonRead.thy ===== *)
theory DaemonRead
  imports DaemonJson
begin

text \<open>
  The operations of \<^verbatim>\<open>src/daemon/dispatcher.rs\<close> that answer from the database, and those on MCP
  gates and approvals.
\<close>

subsection \<open>Reading the database\<close>

text \<open>\<^verbatim>\<open>encode\<close>: the JSON of these types cannot fail to be built.\<close>

definition encode_rows :: "'w daemon_env \<Rightarrow> rstr \<Rightarrow> ('r \<Rightarrow> json) \<Rightarrow> (store \<Rightarrow> 'r list) \<Rightarrow> ('w, RpcError, json) act" where
  "encode_rows env ctx to_json q = act_bind (db_query env ctx q) (\<lambda>rows. act_give (Ok (JArray (map to_json rows))))"

definition encode_row :: "'w daemon_env \<Rightarrow> rstr \<Rightarrow> ('r \<Rightarrow> json) \<Rightarrow> (store \<Rightarrow> 'r option) \<Rightarrow> ('w, RpcError, json) act" where
  "encode_row env ctx to_json q = act_bind (db_query env ctx q) (\<lambda>row. act_give (Ok (opt_json to_json row)))"

definition op_account_list :: "'w daemon_env \<Rightarrow> ('w, RpcError, json) act" where
  "op_account_list env = encode_rows env (lit ''accounts::list'') (account_json env) accounts_list"

definition op_folder_list :: "'w daemon_env \<Rightarrow> json \<Rightarrow> ('w, RpcError, json) act" where
  "op_folder_list env args =
     act_let (parse_id env args (lit ''account_id'')) (\<lambda>account_id.
     encode_rows env (lit ''folders::list_by_account'') (folder_json env) (folders_list_by_account account_id))"

definition op_thread_list :: "'w daemon_env \<Rightarrow> json \<Rightarrow> ('w, RpcError, json) act" where
  "op_thread_list env args =
     act_let (parse_id env args (lit ''account_id'')) (\<lambda>account_id.
     encode_rows env (lit ''threads::list_recent'') (thread_json env)
       (threads_list_recent account_id (get_i64 args (lit ''limit'') 50) (get_i64 args (lit ''offset'') 0)))"

definition op_messages_by_folder :: "'w daemon_env \<Rightarrow> json \<Rightarrow> ('w, RpcError, json) act" where
  "op_messages_by_folder env args =
     act_let (parse_id env args (lit ''folder_id'')) (\<lambda>folder_id.
     encode_rows env (lit ''messages::list_by_folder'') (summary_json env)
       (messages_list_by_folder folder_id (get_i64 args (lit ''limit'') 50) (get_i64 args (lit ''offset'') 0)))"

definition op_messages_by_thread :: "'w daemon_env \<Rightarrow> json \<Rightarrow> ('w, RpcError, json) act" where
  "op_messages_by_thread env args =
     act_let (parse_id env args (lit ''thread_id'')) (\<lambda>thread_id.
     encode_rows env (lit ''messages::list_by_thread'') (summary_json env) (messages_list_by_thread thread_id))"

definition op_message_get :: "'w daemon_env \<Rightarrow> json \<Rightarrow> ('w, RpcError, json) act" where
  "op_message_get env args =
     act_let (parse_id env args (lit ''id'')) (\<lambda>i.
     encode_row env (lit ''messages::get'') (message_json env) (messages_get i))"

definition op_attachment_list :: "'w daemon_env \<Rightarrow> json \<Rightarrow> ('w, RpcError, json) act" where
  "op_attachment_list env args =
     act_let (parse_id env args (lit ''message_id'')) (\<lambda>message_id.
     encode_rows env (lit ''attachments::list_for_message'') (attachment_json env)
       (attachments_list_for_message message_id))"

definition require_attachment :: "'w daemon_env \<Rightarrow> uuid \<Rightarrow> ('w, RpcError, Attachment) act" where
  "require_attachment env i =
     act_bind (db_query env (lit ''attachments::get'') (attachments_get i)) (\<lambda>found.
     act_give (ok_or (rpc_bad_args (lit ''unknown attachment id'')) found))"

definition op_attachment_preview :: "'w daemon_env \<Rightarrow> json \<Rightarrow> ('w, RpcError, json) act" where
  "op_attachment_preview env args =
     act_let (parse_id env args (lit ''id'')) (\<lambda>i.
     act_bind (require_attachment env i) (\<lambda>attachment.
     act_bind (act_map_err (rpc_internal_ctx (lit ''attachment preview''))
                 (act_peek (preview_attachment (dn_files env) attachment))) (\<lambda>preview.
     act_give (Ok (preview_json env preview)))))"

definition search_filters :: "'w daemon_env \<Rightarrow> json \<Rightarrow> (RpcError, SearchFilters) result" where
  "search_filters env args =
     and_then (optional_id env args (lit ''account_id'')) (\<lambda>account_id.
     and_then (optional_id env args (lit ''folder_id'')) (\<lambda>folder_id.
     and_then (optional_id env args (lit ''thread_id'')) (\<lambda>thread_id.
     and_then (optional_rfc3339 env args (lit ''date_from'')) (\<lambda>date_from.
     and_then (optional_rfc3339 env args (lit ''date_to'')) (\<lambda>date_to.
     and_then (optional_nonempty_string args (lit ''from_addr'')) (\<lambda>from_addr.
     and_then (optional_nonempty_string args (lit ''to_addr'')) (\<lambda>to_addr.
     and_then (optional_bool args (lit ''has_attachments'')) (\<lambda>has_attachments.
     and_then (optional_bool args (lit ''unread'')) (\<lambda>unread.
     Ok \<lparr>sf_account_id = account_id, sf_folder_id = folder_id, sf_thread_id = thread_id,
         sf_date_from = date_from, sf_date_to = date_to, sf_from_addr = from_addr, sf_to_addr = to_addr,
         sf_has_attachments = has_attachments, sf_unread = unread\<rparr>)))))))))"

definition op_search :: "'w daemon_env \<Rightarrow> json \<Rightarrow> ('w, RpcError, json) act" where
  "op_search env args =
     act_let (ok_or (missing (lit ''q'')) (get_str args (lit ''q''))) (\<lambda>q.
     if trim q = [] then act_give (Err (rpc_bad_args (quoted_key [] (lit ''q'') (lit '' must not be empty''))))
     else
       act_let (search_filters env args) (\<lambda>filters.
       act_bind (internal env (lit ''search'') (db_attempt env (lit ''search'') (\<lambda>st.
         and_then (search_filtered (dn_fts env) (quote_term q) filters
                     (min 200 (max 1 (get_i64 args (lit ''limit'') 50))) (get_i64 args (lit ''offset'') 0) st)
           (\<lambda>rows. Ok (rows, st))))) (\<lambda>rows.
       act_give (Ok (JArray (map (summary_json env) rows))))))"

text \<open>The read-only pool sees the same tables.\<close>

definition sql_limit :: "json \<Rightarrow> (RpcError, nat) result" where
  "sql_limit args =
     (case value_get args (lit ''limit'') of
        None \<Rightarrow> Ok (nat DEFAULT_ROWS)
      | Some v \<Rightarrow>
          ok_or (rpc_bad_args (quoted_key [] (lit ''limit'') (lit '' must be a positive integer'')))
            (map_option (\<lambda>n. min n (nat MAX_ROWS)) (filter_option (\<lambda>n. n > 0) (as_u64 v))))"

definition op_sql_query :: "'w daemon_env \<Rightarrow> json \<Rightarrow> ('w, RpcError, json) act" where
  "op_sql_query env args =
     act_let (ok_or (missing (lit ''sql'')) (get_str args (lit ''sql''))) (\<lambda>sql.
     act_let (sql_limit args) (\<lambda>limit s.
       (case sql_query (dn_sql env (dm_store s)) sql limit of
          Inr rows \<Rightarrow> act_give (Ok (JArray (map JObject rows))) s
        | Inl (Rejected reason) \<Rightarrow> act_give (Err (rpc_bad_args reason)) s
        | Inl (SqlSqlx e) \<Rightarrow> act_give (Err (rpc_internal_ctx (lit ''sql_query'') e)) s)))"

definition op_sql_schema :: "'w daemon_env \<Rightarrow> ('w, RpcError, json) act" where
  "op_sql_schema env s =
     (case sql_schema (dn_sql env (dm_store s)) (dn_schema_rows env (dm_store s)) of
        Inr rows \<Rightarrow> act_give (Ok (JArray (map JObject rows))) s
      | Inl (SqlSqlx e) \<Rightarrow> act_give (Err (rpc_internal_ctx (lit ''sql_schema'') e)) s
      | Inl (Rejected reason) \<Rightarrow> act_give (Err (rpc_internal_ctx (lit ''sql_schema rejected'') reason)) s)"

definition op_audit_list :: "'w daemon_env \<Rightarrow> json \<Rightarrow> ('w, RpcError, json) act" where
  "op_audit_list env args =
     encode_rows env (lit ''audit::list_recent'') (audit_json env)
       (audit_list_recent (get_i64 args (lit ''limit'') 50) (get_i64 args (lit ''offset'') 0))"

subsection \<open>Gates and approvals\<close>

definition op_mcp_gate_list :: "'w daemon_env \<Rightarrow> json \<Rightarrow> ('w, RpcError, json) act" where
  "op_mcp_gate_list env args =
     (case get_str args (lit ''tool'') of
        Some tool \<Rightarrow> encode_rows env (lit ''mcp::list_gates_for_tool'') (gate_json env) (list_gates_for_tool tool)
      | None \<Rightarrow> encode_rows env (lit ''mcp::list_gates'') (gate_json env) list_gates)"

definition enum_error :: "ParseEnumError \<Rightarrow> RpcError" where
  "enum_error e = rpc_bad_args (lit ''invalid '' @ bad_kind e @ lit '': '' @ bad_value e)"

definition check_arg_pattern :: "'w daemon_env \<Rightarrow> rstr option \<Rightarrow> (RpcError, unit) result" where
  "check_arg_pattern env arg_pattern =
     (case arg_pattern of
        None \<Rightarrow> Ok ()
      | Some p \<Rightarrow>
          and_then (map_err (\<lambda>e. rpc_bad_args (quoted_key (lit ''bad '') (lit ''arg_pattern'') (lit '': '' @ e)))
                      (dn_json_from_str env p)) (\<lambda>parsed.
          if as_object parsed = None
          then Err (rpc_bad_args (quoted_key [] (lit ''arg_pattern'') (lit '' must be a JSON object'')))
          else Ok ()))"

definition op_mcp_gate_create :: "'w daemon_env \<Rightarrow> json \<Rightarrow> ('w, RpcError, json) act" where
  "op_mcp_gate_create env args =
     act_let (parse_str args (lit ''tool'')) (\<lambda>tool.
     act_let (parse_str args (lit ''action'')) (\<lambda>action_text.
     act_let (map_err enum_error (gate_action_from_str action_text)) (\<lambda>action.
     act_let (optional_str args (lit ''arg_pattern'')) (\<lambda>arg_pattern.
     act_let (check_arg_pattern env arg_pattern) (\<lambda>_.
     act_let (optional_str args (lit ''note'')) (\<lambda>note.
     act_bind (internal env (lit ''mcp::create_gate'')
                 (db_create env (lit ''mcp::create_gate'') (create_gate tool arg_pattern action note))) (\<lambda>gate.
     act_bind (audit_actor env (actor_from_args args) (lit ''mcp.gate.create'') (Some (show_id env (gate_id gate)))
                 (json_object [(lit ''tool'', JString tool), (lit ''action'', JString (gate_action_as_str action))])) (\<lambda>_.
     act_give (Ok (gate_json env gate))))))))))"

definition op_mcp_gate_delete :: "'w daemon_env \<Rightarrow> json \<Rightarrow> ('w, RpcError, json) act" where
  "op_mcp_gate_delete env args =
     act_let (parse_uuid env args (lit ''id'')) (\<lambda>i.
     act_bind (internal env (lit ''mcp::delete_gate'')
                 (db_attempt env (lit ''mcp::delete_gate'') (\<lambda>st. Ok (delete_gate i st)))) (\<lambda>removed.
     act_bind (audit_actor env (actor_from_args args) (lit ''mcp.gate.delete'') (Some (show_id env i))
                 (json_object [(lit ''removed'', JBool removed)])) (\<lambda>_.
     act_give (Ok (json_object [(lit ''removed'', JBool removed)])))))"

definition op_mcp_approval_create :: "'w daemon_env \<Rightarrow> json \<Rightarrow> ('w, RpcError, json) act" where
  "op_mcp_approval_create env args =
     act_let (parse_str args (lit ''tool'')) (\<lambda>tool.
     act_let (parse_str args (lit ''summary'')) (\<lambda>summary.
     act_bind (internal env (lit ''mcp::create_approval'') (db_create env (lit ''mcp::create_approval'')
                 (approvals_create tool (unwrap_or (JObject []) (value_get args (lit ''args''))) summary))) (\<lambda>approval.
     act_bind (audit_actor env (actor_from_args args) (lit ''mcp.approval.create'')
                 (Some (show_id env (ap_id approval))) (json_object [(lit ''tool'', JString tool)])) (\<lambda>_.
     act_bind (hub_publish McpApprovalRequested (json_object
                 [(lit ''approval_id'', id_json env (ap_id approval)), (lit ''tool'', JString (ap_tool approval)),
                  (lit ''summary'', JString (ap_summary approval)),
                  (lit ''state'', JString (approval_state_as_str (ap_state approval))),
                  (lit ''args'', ap_args approval)])) (\<lambda>_.
     act_give (Ok (approval_json env approval)))))))"

definition op_mcp_approval_list :: "'w daemon_env \<Rightarrow> json \<Rightarrow> ('w, RpcError, json) act" where
  "op_mcp_approval_list env args =
     act_let (case get_str args (lit ''state'') of
                Some t \<Rightarrow> map_err enum_error (and_then (approval_state_from_str t) (\<lambda>x. Ok (Some x)))
              | None \<Rightarrow> Ok None) (\<lambda>state.
     encode_rows env (lit ''mcp::list_approvals'') (approval_json env)
       (approvals_list state (get_i64 args (lit ''limit'') 50) (get_i64 args (lit ''offset'') 0)))"

definition op_mcp_approval_get :: "'w daemon_env \<Rightarrow> json \<Rightarrow> ('w, RpcError, json) act" where
  "op_mcp_approval_get env args =
     act_let (parse_uuid env args (lit ''id'')) (\<lambda>i.
     encode_row env (lit ''mcp::get_approval'') (approval_json env) (approvals_get i))"

definition decided_by :: "json \<Rightarrow> (RpcError, rstr) result" where
  "decided_by args =
     (case get_str args (lit ''decided_by'') of
        Some who \<Rightarrow>
          if actor_is_allowed who then Ok who
          else Err (rpc_bad_args (quoted_key (lit ''invalid '') (lit ''decided_by'') []))
      | None \<Rightarrow> Ok (actor_from_args args))"

definition op_mcp_approval_decide :: "'w daemon_env \<Rightarrow> json \<Rightarrow> ('w, RpcError, json) act" where
  "op_mcp_approval_decide env args =
     act_let (parse_uuid env args (lit ''id'')) (\<lambda>i.
     act_let (parse_str args (lit ''state'')) (\<lambda>state_text.
     act_let (map_err enum_error (approval_state_from_str state_text)) (\<lambda>state.
     if state = Pending
     then act_give (Err (rpc_bad_args (quoted_key [] (lit ''state'') (lit '' must be allowed, denied, or expired''))))
     else
       act_let (decided_by args) (\<lambda>who.
       act_bind (internal env (lit ''mcp::decide'')
                   (db_stamped env (lit ''mcp::decide'') (\<lambda>now st. Ok (decide_approval i state who now st)))) (\<lambda>decided.
       act_bind (audit_actor env (actor_from_args args) (lit ''mcp.approval.decide'') (Some (show_id env i))
                   (json_object [(lit ''state'', JString (approval_state_as_str state)),
                                 (lit ''decided'', JBool decided)])) (\<lambda>_.
       act_bind (if decided
                 then act_bind (db_query env (lit ''mcp::get_approval'') (approvals_get i)) (\<lambda>found.
                        (case found of
                           None \<Rightarrow> act_give (Ok ())
                         | Some approval \<Rightarrow> hub_publish McpApprovalDecided (json_object
                             [(lit ''approval_id'', id_json env (ap_id approval)), (lit ''tool'', JString (ap_tool approval)),
                              (lit ''state'', JString (approval_state_as_str (ap_state approval))),
                              (lit ''decided_by'', opt_json JString (ap_decided_by approval))])))
                 else act_give (Ok ())) (\<lambda>_.
       act_give (Ok (json_object [(lit ''decided'', JBool decided)])))))))))"

subsection \<open>Reading changes nothing\<close>

text \<open>An action that only reads keeps every property of the tables, the events and the workers.\<close>

lemma runs_encode [runs_intros]: "runs tot Q (encode_rows env ctx f q)" "runs tot Q (encode_row env ctx f q')"
  by (auto simp: encode_rows_def encode_row_def intro!: runs_intros)

lemma runs_read_ops:
  "runs tot Q (op_account_list env)" "runs tot Q (op_folder_list env args)" "runs tot Q (op_thread_list env args)"
  "runs tot Q (op_messages_by_folder env args)" "runs tot Q (op_messages_by_thread env args)"
  "runs tot Q (op_message_get env args)" "runs tot Q (op_attachment_list env args)"
  "runs tot Q (op_audit_list env args)" "runs tot Q (op_mcp_gate_list env args)"
  "runs tot Q (op_mcp_approval_list env args)" "runs tot Q (op_mcp_approval_get env args)"
  unfolding op_account_list_def op_folder_list_def op_thread_list_def op_messages_by_folder_def
    op_messages_by_thread_def op_message_get_def op_attachment_list_def op_audit_list_def op_mcp_gate_list_def
    op_mcp_approval_list_def op_mcp_approval_get_def
  by (intro runs_intros)+

lemma runs_attachment_preview: "runs tot Q (op_attachment_preview env args)"
  unfolding op_attachment_preview_def require_attachment_def by (intro runs_intros)

lemma runs_search: "runs tot Q (op_search env args)"
  unfolding op_search_def by (intro runs_intros runs_db_attempt) (auto simp: result_simps)

lemma runs_sql: "runs tot Q (op_sql_query env args)" "runs tot Q (op_sql_schema env)"
proof -
  show "runs tot Q (op_sql_query env args)"
    unfolding op_sql_query_def
    by (intro runs_let) (simp add: runs_def act_give_def split: sum.split SqlError.split)
  show "runs tot Q (op_sql_schema env)"
    by (simp add: runs_def op_sql_schema_def act_give_def split: sum.split SqlError.split)
qed

end
