(* ===== verification/DaemonWrite.thy ===== *)
theory DaemonWrite
  imports DaemonRead
begin

text \<open>
  The operations of \<^verbatim>\<open>src/daemon/dispatcher.rs\<close> that change accounts, folders, messages and drafts,
  and those that prepare replies and forwards.
\<close>

subsection \<open>Accounts and folders\<close>

definition op_account_create :: "'w daemon_env \<Rightarrow> json \<Rightarrow> ('w, RpcError, json) act" where
  "op_account_create env args =
     act_let (from_value env (lit ''NewAccount'') (new_account_of_json env) args) (\<lambda>new.
     act_bind (internal env (lit ''accounts::create'') (db_create env (lit ''accounts::create'') (accounts_create new))) (\<lambda>acc.
     act_bind (audit env (lit ''account.create'') (Some (show_id env (acc_id acc))) (JObject [])) (\<lambda>_.
     act_give (Ok (account_json env acc)))))"

definition op_account_delete :: "'w daemon_env \<Rightarrow> json \<Rightarrow> ('w, RpcError, json) act" where
  "op_account_delete env args =
     act_let (parse_id env args (lit ''id'')) (\<lambda>i.
     act_bind (internal env (lit ''accounts::delete'')
                 (db_attempt env (lit ''accounts::delete'') (\<lambda>st. Ok (accounts_delete i st)))) (\<lambda>removed.
     act_bind (audit env (lit ''account.delete'') (Some (show_id env i)) (JObject [])) (\<lambda>_.
     act_give (Ok (json_object [(lit ''removed'', JBool removed)])))))"

text \<open>\<open>None\<close> of \<open>folders_upsert\<close> is the panic of the reload.\<close>

definition db_upsert_folder :: "'w daemon_env \<Rightarrow> NewFolder \<Rightarrow> ('w, DbError, Folder) act" where
  "db_upsert_folder env new =
     act_bind (act_world (\<lambda>w. case draw_row (dn_files env) w of (x, w') \<Rightarrow> (Ok x, w'))) (\<lambda>(i, now) s.
       (case folders_upsert new i now (dm_store s) of
          None \<Rightarrow> None
        | Some r \<Rightarrow> db_attempt env (lit ''folders::upsert'') (\<lambda>_. r) s))"

definition op_folder_upsert :: "'w daemon_env \<Rightarrow> json \<Rightarrow> ('w, RpcError, json) act" where
  "op_folder_upsert env args =
     act_let (from_value env (lit ''NewFolder'') (new_folder_of_json env) args) (\<lambda>new.
     act_bind (internal env (lit ''folders::upsert'') (db_upsert_folder env new)) (\<lambda>folder.
     act_give (Ok (folder_json env folder))))"

subsection \<open>Messages\<close>

definition parse_message_flags :: "json \<Rightarrow> (RpcError, rstr list) result" where
  "parse_message_flags v = ok_or (rpc_bad_args (lit ''flags must be an array of strings'')) (as_strings v)"

definition ok_json :: json where
  "ok_json = json_object [(lit ''ok'', JBool True)]"

definition op_message_set_flags :: "'w daemon_env \<Rightarrow> json \<Rightarrow> ('w, RpcError, json) act" where
  "op_message_set_flags env args =
     act_let (parse_id env args (lit ''id'')) (\<lambda>i.
     act_let (and_then (ok_or (missing (lit ''flags'')) (value_get args (lit ''flags''))) parse_message_flags) (\<lambda>flags.
     act_bind (internal env (lit ''messages::set_flags'')
                 (db_attempt env (lit ''messages::set_flags'') (\<lambda>st. Ok (messages_set_flags i flags st)))) (\<lambda>outcome.
     act_bind (if sf_changed outcome
               then act_bind (audit_actor env (actor_from_args args) (lit ''message.set_flags'') (Some (show_id env i))
                                (json_object [(lit ''flags'', strings_json flags)])) (\<lambda>_.
                    hub_publish MailUpdated (json_object
                      [(lit ''message_id'', id_json env i), (lit ''flags'', strings_json flags)]))
               else act_give (Ok ())) (\<lambda>_.
     act_give (Ok ok_json)))))"

definition require_message :: "'w daemon_env \<Rightarrow> uuid \<Rightarrow> ('w, RpcError, Message) act" where
  "require_message env i =
     act_bind (db_query env (lit ''messages::get'') (messages_get i)) (\<lambda>found.
     act_give (ok_or (rpc_bad_args (lit ''unknown message id'')) found))"

definition require_role_folder :: "'w daemon_env \<Rightarrow> uuid \<Rightarrow> FolderRole \<Rightarrow> ('w, RpcError, Folder) act" where
  "require_role_folder env account_id role =
     act_bind (db_query env (lit ''folders::list_by_account'') (folders_list_by_account account_id)) (\<lambda>folders.
     act_give (ok_or (rpc_bad_args (lit ''no '' @ [39] @ folder_role_as_str role @ [39] @ lit '' folder for account''))
                 (find (\<lambda>f. fld_role f = role) folders)))"

text \<open>The part that archiving, deleting and moving a message share.\<close>

definition moved_json :: "'w daemon_env \<Rightarrow> uuid \<Rightarrow> json" where
  "moved_json env folder_id = json_object [(lit ''ok'', JBool True), (lit ''folder_id'', id_json env folder_id)]"

definition move_message ::
  "'w daemon_env \<Rightarrow> rstr \<Rightarrow> rstr \<Rightarrow> (rstr \<times> json) list \<Rightarrow> Message \<Rightarrow> uuid \<Rightarrow> ('w, RpcError, json) act" where
  "move_message env actor action details message target_id =
     (if msg_folder_id message = target_id then act_give (Ok (moved_json env target_id))
      else
        act_bind (internal env (lit ''messages::set_folder'')
                    (db_attempt env (lit ''messages::set_folder'') (messages_set_folder (msg_id message) target_id))) (\<lambda>_.
        act_bind (audit_actor env actor action (Some (show_id env (msg_id message)))
                    (json_object ((lit ''folder_id'', id_json env target_id) # details))) (\<lambda>_.
        act_bind (hub_publish MailUpdated (json_object
                    [(lit ''message_id'', id_json env (msg_id message)), (lit ''folder_id'', id_json env target_id),
                     (lit ''from_folder_id'', id_json env (msg_folder_id message))])) (\<lambda>_.
        act_give (Ok (moved_json env target_id))))))"

definition op_message_archive :: "'w daemon_env \<Rightarrow> json \<Rightarrow> ('w, RpcError, json) act" where
  "op_message_archive env args =
     act_let (parse_id env args (lit ''id'')) (\<lambda>i.
     act_bind (require_message env i) (\<lambda>message.
     act_bind (require_role_folder env (msg_account_id message) RoleArchive) (\<lambda>archive.
     move_message env (actor_from_args args) (lit ''message.archive'') [] message (fld_id archive))))"

definition op_message_delete :: "'w daemon_env \<Rightarrow> json \<Rightarrow> ('w, RpcError, json) act" where
  "op_message_delete env args =
     act_let (parse_id env args (lit ''id'')) (\<lambda>i.
     act_bind (require_message env i) (\<lambda>message.
     act_bind (require_role_folder env (msg_account_id message) RoleTrash) (\<lambda>trash.
     move_message env (actor_from_args args) (lit ''message.delete'') [] message (fld_id trash))))"

definition op_message_move :: "'w daemon_env \<Rightarrow> json \<Rightarrow> ('w, RpcError, json) act" where
  "op_message_move env args =
     act_let (parse_id env args (lit ''id'')) (\<lambda>i.
     act_let (parse_str args (lit ''folder_name'')) (\<lambda>folder_name.
     act_bind (require_message env i) (\<lambda>message.
     act_bind (db_query env (lit ''folders::get_by_name'') (folders_get_by_name (msg_account_id message) folder_name)) (\<lambda>found.
     act_let (ok_or (rpc_bad_args (quoted_key (lit ''unknown folder '') folder_name [])) found) (\<lambda>target.
     move_message env (actor_from_args args) (lit ''message.move'')
       [(lit ''folder_name'', JString folder_name)] message (fld_id target))))))"

subsection \<open>Draft attachments\<close>

definition take_attachment_specs :: "'w daemon_env \<Rightarrow> json \<Rightarrow> (RpcError, DraftAttachmentSpec list option) result" where
  "take_attachment_specs env args =
     (case value_get args (lit ''attachments'') of
        None \<Rightarrow> Ok None
      | Some JNull \<Rightarrow> Ok None
      | Some v \<Rightarrow>
          and_then (ok_or (rpc_bad_args (quoted_key (lit ''bad '') (lit ''attachments'')
                             (lit '': '' @ dn_serde_error env (lit ''Vec<DraftAttachmentSpec>'') v)))
                      (Option.bind (as_array v) specs_of_json)) (\<lambda>specs. Ok (Some specs)))"

record PendingDraftAttachment =
  pda_path :: rstr
  pda_original_path :: rstr
  pda_metadata_size :: nat
  pda_filename :: rstr
  pda_content_type :: rstr

record PreparedDraftAttachment =
  pre_filename :: rstr
  pre_content_type :: rstr
  pre_content :: "byte list"

definition draft_limit :: nat where
  "draft_limit = nat MAX_DRAFT_ATTACHMENT_BYTES"

definition attachment_too_large_error :: "rstr \<Rightarrow> nat \<Rightarrow> RpcError" where
  "attachment_too_large_error path bytes_len =
     rpc_error_new (lit ''attachment_too_large'')
       (quoted_key (lit ''attachment '') path (lit '' is '' @ show_nat bytes_len @ lit '' bytes, exceeds '' @
          show_nat draft_limit @ lit '' byte limit''))"

definition aggregate_attachments_too_large_error :: "nat \<Rightarrow> RpcError" where
  "aggregate_attachments_too_large_error bytes_len =
     rpc_error_new (lit ''attachment_too_large'')
       (lit ''aggregate draft attachments '' @ show_nat bytes_len @ lit '' bytes exceed '' @ show_nat draft_limit @ lit '' byte limit'')"

definition map_attachment_read_error :: "'w daemon_env \<Rightarrow> rstr \<Rightarrow> rstr \<Rightarrow> RpcError" where
  "map_attachment_read_error env path e =
     (case dn_io_kind env e of
        IoNotFound \<Rightarrow> rpc_bad_args (lit ''file not found: '' @ path)
      | IoPermissionDenied \<Rightarrow> rpc_bad_args (lit ''permission denied: '' @ path)
      | _ \<Rightarrow> rpc_bad_args (lit ''cannot read '' @ path @ lit '': '' @ e))"

definition guess_content_type_for_path :: "'w daemon_env \<Rightarrow> rstr \<Rightarrow> rstr" where
  "guess_content_type_for_path env path = unwrap_or (lit ''application/octet-stream'') (dn_mime_guess env path)"

definition saturating_add_u64 :: "nat \<Rightarrow> nat \<Rightarrow> nat" where
  "saturating_add_u64 a b = min (a + b) (u64_bound - 1)"

text \<open>The first loop of \<^verbatim>\<open>prepare_draft_attachments\<close>: sizes as the file system reports them.\<close>

fun check_specs ::
  "'w daemon_env \<Rightarrow> nat \<Rightarrow> DraftAttachmentSpec list \<Rightarrow> ('w, RpcError, PendingDraftAttachment list) act" where
  "check_specs env aggregate [] = act_give (Ok [])"
| "check_specs env aggregate (spec # specs) =
     (let path = das_path spec in
      act_bind (act_map_err (map_attachment_read_error env path) (act_peek (dn_metadata env path))) (\<lambda>(is_file, bytes_len).
      if \<not> is_file then act_give (Err (rpc_bad_args (lit ''not a regular file: '' @ path)))
      else if bytes_len > draft_limit then act_give (Err (attachment_too_large_error path bytes_len))
      else
        (let aggregate' = saturating_add_u64 aggregate bytes_len in
         if aggregate' > draft_limit then act_give (Err (aggregate_attachments_too_large_error aggregate'))
         else
           act_bind (check_specs env aggregate' specs) (\<lambda>pending.
           act_give (Ok
             (\<lparr>pda_path = path, pda_original_path = das_path spec, pda_metadata_size = bytes_len,
               pda_filename = (case das_filename spec of
                                 Some n \<Rightarrow> n
                               | None \<Rightarrow> unwrap_or (lit ''attachment.bin'') (file_name path)),
               pda_content_type = (case filter_option (\<lambda>t. trim t \<noteq> []) (das_content_type spec) of
                                     Some t \<Rightarrow> t
                                   | None \<Rightarrow> guess_content_type_for_path env path)\<rparr> # pending))))))"

text \<open>The reported size only sizes the buffer; what counts is what the file holds when it is read.\<close>

definition read_attachment_bounded :: "'w daemon_env \<Rightarrow> rstr \<Rightarrow> rstr \<Rightarrow> nat \<Rightarrow> ('w, RpcError, byte list) act" where
  "read_attachment_bounded env path display_path metadata_size =
     act_bind (act_map_err (map_attachment_read_error env display_path) (act_peek (open_read (dn_files env) path))) (\<lambda>all.
     (let bytes = take (draft_limit + 1) all in
      if length bytes > draft_limit then act_give (Err (attachment_too_large_error display_path (length bytes)))
      else act_give (Ok bytes)))"

text \<open>The second loop: the sizes of what was really read.\<close>

fun read_pending ::
  "'w daemon_env \<Rightarrow> nat \<Rightarrow> PendingDraftAttachment list \<Rightarrow> ('w, RpcError, PreparedDraftAttachment list) act" where
  "read_pending env aggregate [] = act_give (Ok [])"
| "read_pending env aggregate (p # ps) =
     act_bind (read_attachment_bounded env (pda_path p) (pda_original_path p) (pda_metadata_size p)) (\<lambda>content.
     (let aggregate' = saturating_add_u64 aggregate (length content) in
      if aggregate' > draft_limit then act_give (Err (aggregate_attachments_too_large_error aggregate'))
      else
        act_bind (read_pending env aggregate' ps) (\<lambda>prepared.
        act_give (Ok (\<lparr>pre_filename = pda_filename p, pre_content_type = pda_content_type p, pre_content = content\<rparr>
                      # prepared)))))"

definition prepare_draft_attachments ::
  "'w daemon_env \<Rightarrow> DraftAttachmentSpec list option \<Rightarrow> ('w, RpcError, PreparedDraftAttachment list option) act" where
  "prepare_draft_attachments env specs =
     (case specs of
        None \<Rightarrow> act_give (Ok None)
      | Some specs \<Rightarrow>
          act_bind (check_specs env 0 specs) (\<lambda>pending.
          act_bind (read_pending env 0 pending) (\<lambda>prepared. act_give (Ok (Some prepared)))))"

definition attach_to_draft ::
  "'w daemon_env \<Rightarrow> uuid \<Rightarrow> PreparedDraftAttachment \<Rightarrow> ('w, RpcError, DraftAttachment) act" where
  "attach_to_draft env draft_id a =
     internal env (lit ''draft_attachments::create'') (db_create env (lit ''draft_attachments::create'')
       (draft_attachments_create
          \<lparr>nda_draft_id = draft_id, nda_filename = pre_filename a, nda_content_type = pre_content_type a,
           nda_content = pre_content a\<rparr>))"

definition replace_draft_attachments ::
  "'w daemon_env \<Rightarrow> uuid \<Rightarrow> PreparedDraftAttachment list \<Rightarrow> ('w, RpcError, unit) act" where
  "replace_draft_attachments env draft_id atts =
     act_bind (internal env (lit ''draft_attachments::delete_all'') (db_attempt env (lit ''draft_attachments::delete_all'')
                 (\<lambda>st. Ok (delete_all_for_draft draft_id st)))) (\<lambda>_.
     act_bind (act_each (attach_to_draft env draft_id) atts) (\<lambda>_. act_give (Ok ())))"

subsection \<open>Drafts\<close>

definition op_draft_create :: "'w daemon_env \<Rightarrow> json \<Rightarrow> ('w, RpcError, json) act" where
  "op_draft_create env args =
     act_let (take_attachment_specs env args) (\<lambda>specs.
     act_let (from_value env (lit ''NewDraft'') (new_draft_of_json env) args) (\<lambda>new.
     act_bind (prepare_draft_attachments env specs) (\<lambda>attachments.
     act_bind (internal env (lit ''drafts::create'') (db_create env (lit ''drafts::create'') (drafts_create new))) (\<lambda>draft.
     act_bind (case attachments of
                 None \<Rightarrow> act_give (Ok ())
               | Some atts \<Rightarrow>
                   act_bind (act_attempt (replace_draft_attachments env (dft_id draft) atts)) (\<lambda>replaced.
                   (case replaced of
                      Inr _ \<Rightarrow> act_give (Ok ())
                    | Inl e \<Rightarrow>
                        act_bind (act_attempt (db_attempt env (lit ''drafts::delete'') (\<lambda>st. Ok (drafts_delete (dft_id draft) st)))) (\<lambda>_.
                        act_give (Err e))))) (\<lambda>_.
     act_bind (audit_actor env (actor_from_args args) (lit ''draft.create'') (Some (show_id env (dft_id draft))) (JObject [])) (\<lambda>_.
     act_give (Ok (draft_json env draft))))))))"

definition draft_patch :: "DraftUpdate \<Rightarrow> DraftPatch" where
  "draft_patch u =
     \<lparr>dp_to_addrs = du_to_addrs u, dp_cc_addrs = du_cc_addrs u, dp_bcc_addrs = du_bcc_addrs u,
      dp_subject = du_subject u, dp_text_body = du_text_body u, dp_html_body = du_html_body u\<rparr>"

definition update_draft_tx ::
  "'w daemon_env \<Rightarrow> DraftUpdate \<Rightarrow> PreparedDraftAttachment list option \<Rightarrow> ('w, RpcError, Draft option) act" where
  "update_draft_tx env u atts =
     transaction env (lit ''begin draft update transaction'') (lit ''commit draft update transaction'')
       (act_bind (internal env (lit ''drafts::update'') (db_stamped env (lit ''drafts::update'')
                    (\<lambda>now st. Ok (drafts_patch (du_id u) (draft_patch u) now st)))) (\<lambda>draft.
        act_bind (case (atts, draft) of
                    (Some new, Some _) \<Rightarrow> replace_draft_attachments env (du_id u) new
                  | _ \<Rightarrow> act_give (Ok ())) (\<lambda>_.
        act_give (Ok draft))))"

definition op_draft_update :: "'w daemon_env \<Rightarrow> json \<Rightarrow> ('w, RpcError, json) act" where
  "op_draft_update env args =
     act_let (take_attachment_specs env args) (\<lambda>specs.
     act_let (from_value env (lit ''DraftUpdate'') (draft_update_of_json env) args) (\<lambda>u.
     act_bind (prepare_draft_attachments env specs) (\<lambda>attachments.
     act_bind (update_draft_tx env u attachments) (\<lambda>draft.
     act_bind (audit_actor env (actor_from_args args) (lit ''draft.update'') (Some (show_id env (du_id u))) (JObject [])) (\<lambda>_.
     act_give (Ok (opt_json (draft_json env) draft)))))))"

definition op_draft_delete :: "'w daemon_env \<Rightarrow> json \<Rightarrow> ('w, RpcError, json) act" where
  "op_draft_delete env args =
     act_let (parse_id env args (lit ''id'')) (\<lambda>i.
     act_bind (internal env (lit ''drafts::delete'')
                 (db_attempt env (lit ''drafts::delete'') (\<lambda>st. Ok (drafts_delete i st)))) (\<lambda>removed.
     act_bind (audit_actor env (actor_from_args args) (lit ''draft.delete'') (Some (show_id env i)) (JObject [])) (\<lambda>_.
     act_give (Ok (json_object [(lit ''removed'', JBool removed)])))))"

definition op_draft_list :: "'w daemon_env \<Rightarrow> json \<Rightarrow> ('w, RpcError, json) act" where
  "op_draft_list env args =
     act_let (parse_id env args (lit ''account_id'')) (\<lambda>account_id.
     encode_rows env (lit ''drafts::list_by_account'') (draft_json env) (drafts_list_by_account account_id))"

definition require_draft_attachment_content :: "'w daemon_env \<Rightarrow> uuid \<Rightarrow> byte list option \<Rightarrow> (RpcError, byte list) result" where
  "require_draft_attachment_content env i content =
     ok_or (rpc_internal (lit ''draft attachment content missing for '' @ show_id env i)) content"

definition draft_attachment_payload :: "'w daemon_env \<Rightarrow> DraftAttachment \<Rightarrow> ('w, RpcError, json) act" where
  "draft_attachment_payload env row =
     act_bind (db_query env (lit ''draft_attachments::load_content'') (draft_attachments_load_content (dat_id row))) (\<lambda>content.
     act_let (require_draft_attachment_content env (dat_id row) content) (\<lambda>bytes.
     act_give (Ok (json_object
       [(lit ''id'', id_json env (dat_id row)), (lit ''draft_id'', id_json env (dat_draft_id row)),
        (lit ''filename'', JString (dat_filename row)), (lit ''content_type'', JString (dat_content_type row)),
        (lit ''size_bytes'', json_int (dat_size_bytes row)), (lit ''content_base64'', JString (dn_base64 env bytes))]))))"

definition op_draft_get :: "'w daemon_env \<Rightarrow> json \<Rightarrow> ('w, RpcError, json) act" where
  "op_draft_get env args =
     act_let (parse_id env args (lit ''id'')) (\<lambda>i.
     act_bind (db_query env (lit ''drafts::get'') (drafts_get i)) (\<lambda>found.
     (case found of
        None \<Rightarrow> act_give (Ok JNull)
      | Some draft \<Rightarrow>
          act_bind (db_query env (lit ''draft_attachments::list_for_draft'') (draft_attachments_list_for_draft i)) (\<lambda>rows.
          act_bind (act_each (draft_attachment_payload env) rows) (\<lambda>attachments.
          act_give (Ok (json_object [(lit ''draft'', draft_json env draft), (lit ''attachments'', JArray attachments)])))))))"

subsection \<open>Replies, forwards and exports\<close>

definition message_view :: "Message \<Rightarrow> MessageView" where
  "message_view m =
     \<lparr>mv_id = msg_id m, mv_from_addr = msg_from_addr m, mv_reply_to = msg_reply_to m, mv_subject = msg_subject m,
      mv_message_id_header = msg_message_id_header m, mv_references_header = msg_references_header m,
      mv_to_addrs = msg_to_addrs m, mv_cc_addrs = msg_cc_addrs m, mv_text_body = msg_text_body m,
      mv_html_body = msg_html_body m, mv_internal_date = msg_internal_date m\<rparr>"

definition account_of_message :: "'w daemon_env \<Rightarrow> Message \<Rightarrow> ('w, RpcError, Account) act" where
  "account_of_message env message =
     act_bind (db_query env (lit ''accounts::get'') (accounts_get (msg_account_id message))) (\<lambda>found.
     act_give (ok_or (rpc_bad_args (lit ''unknown account for message'')) found))"

definition op_message_prepare_reply :: "'w daemon_env \<Rightarrow> json \<Rightarrow> ('w, RpcError, json) act" where
  "op_message_prepare_reply env args =
     act_let (parse_id env args (lit ''message_id'')) (\<lambda>message_id.
     act_bind (require_message env message_id) (\<lambda>message.
     act_bind (account_of_message env message) (\<lambda>account.
     (let draft = reply_draft (dn_rfc2822 env) (message_view message) (acc_email account)
                    (unwrap_or False (Option.bind (value_get args (lit ''reply_all'')) as_bool)) in
      act_give (Ok (json_object
        [(lit ''message_id'', id_json env (msg_id message)), (lit ''account_id'', id_json env (acc_id account)),
         (lit ''to'', strings_json (rd_to draft)), (lit ''cc'', strings_json (rd_cc draft)),
         (lit ''subject'', JString (rd_subject draft)), (lit ''in_reply_to'', JString (rd_in_reply_to draft)),
         (lit ''references'', JString (rd_references draft)), (lit ''quoted_body'', JString (rd_quoted_body draft))]))))))"

definition op_message_prepare_forward :: "'w daemon_env \<Rightarrow> json \<Rightarrow> ('w, RpcError, json) act" where
  "op_message_prepare_forward env args =
     act_let (parse_id env args (lit ''message_id'')) (\<lambda>message_id.
     act_bind (require_message env message_id) (\<lambda>message.
     act_bind (account_of_message env message) (\<lambda>account.
     act_bind (db_query env (lit ''attachments::list_for_message'') (attachments_list_for_message (msg_id message))) (\<lambda>atts.
     (let draft = forward_draft (sync_unicode (dn_sync env)) (dn_rfc2822 env) (message_view message)
                    (map (\<lambda>a. (att_id a, att_filename a, att_content_type a, att_size_bytes a)) atts) in
      act_give (Ok (json_object
        [(lit ''message_id'', id_json env (msg_id message)), (lit ''account_id'', id_json env (acc_id account)),
         (lit ''subject'', JString (fd_subject draft)), (lit ''forwarded_body'', JString (fd_forwarded_body draft)),
         (lit ''forwarded_attachments'', JArray (map (\<lambda>a. json_object
            [(lit ''message_id'', id_json env (fa_message_id a)), (lit ''attachment_id'', id_json env (fa_attachment_id a)),
             (lit ''filename'', JString (fa_filename a)), (lit ''content_type'', JString (fa_content_type a)),
             (lit ''size_bytes'', json_int (fa_size_bytes a))]) (fd_forwarded_attachments draft)))])))))))"

definition map_attachment_export_error :: "'w daemon_env \<Rightarrow> rstr \<Rightarrow> RpcError" where
  "map_attachment_export_error env e =
     (if dn_io_kind env e \<in> {IoAlreadyExists, IoNotFound, IoInvalidInput} then rpc_bad_args e
      else rpc_internal_ctx (lit ''attachment export'') e)"

definition op_attachment_export :: "'w daemon_env \<Rightarrow> json \<Rightarrow> ('w, RpcError, json) act" where
  "op_attachment_export env args =
     act_let (parse_id env args (lit ''id'')) (\<lambda>i.
     act_let (parse_str args (lit ''destination_path'')) (\<lambda>destination_path.
     act_bind (require_attachment env i) (\<lambda>attachment.
     act_bind (act_map_err (map_attachment_export_error env)
                 (act_world (export_attachment (dn_files env) attachment destination_path))) (\<lambda>exported.
     act_bind (audit_actor env (actor_from_args args) (lit ''attachment.export'') (Some (show_id env i))
                 (json_object [(lit ''destination_path'', JString (aex_destination_path exported))])) (\<lambda>_.
     act_give (Ok (export_json env exported)))))))"

end
