(* ===== verification/DaemonNet.thy ===== *)
theory DaemonNet
  imports DaemonWrite
begin

text \<open>
  The operations of \<^verbatim>\<open>src/daemon/dispatcher.rs\<close> that use credentials: sending, logging in, syncing,
  fetching attachments again for a forward, storing secrets and the OAuth exchange; and the
  resolver the sync workers take their credentials from.
\<close>

subsection \<open>Credentials\<close>

fun keyring_error_text :: "KeyringSecretError \<Rightarrow> rstr" where
  "keyring_error_text (KeyringPlatform m) = lit ''platform failure: '' @ m"
| "keyring_error_text (StorageUnavailable m) = lit ''storage unavailable: '' @ m"
| "keyring_error_text KeyringNotFound = lit ''entry not found''"
| "keyring_error_text KeyringBadEncoding = lit ''secret was not UTF-8''"
| "keyring_error_text (KeyringTooLong n limit) =
     quoted_key (lit ''attribute '') n (lit '' exceeded platform limit '' @ show_nat limit)"
| "keyring_error_text (KeyringInvalid n reason) = quoted_key (lit ''attribute '') n (lit '' is invalid: '' @ reason)"
| "keyring_error_text KeyringAmbiguous = lit ''multiple matching entries''"
| "keyring_error_text (KeyringTask m) = lit ''keyring task failed: '' @ m"

fun secret_error_text :: "SecretError \<Rightarrow> rstr" where
  "secret_error_text (SecretIo m) = lit ''io: '' @ m"
| "secret_error_text (SecretCrypto m) = lit ''crypto: '' @ m"
| "secret_error_text (SecretDecode m) = lit ''decode: '' @ m"
| "secret_error_text (SecretBackend m) = lit ''backend: '' @ m"
| "secret_error_text (SecretKeyring e) = lit ''keyring: '' @ keyring_error_text e"

fun is_oauth_reauth :: "GoogleOAuthError \<Rightarrow> bool" where
  "is_oauth_reauth (HttpStatus status) \<longleftrightarrow> status \<in> {400, 401, 403}"
| "is_oauth_reauth MissingRefreshToken \<longleftrightarrow> True"
| "is_oauth_reauth _ \<longleftrightarrow> False"

fun map_oauth_error :: "GoogleOAuthError \<Rightarrow> RpcError" where
  "map_oauth_error (InvalidInput m) = rpc_bad_args m"
| "map_oauth_error MissingRefreshToken =
     rpc_error_new (lit ''oauth_reauth_required'')
       (lit ''OAuth response did not include a refresh token; re-authentication required'')"
| "map_oauth_error (HttpStatus status) =
     (if status \<in> {400, 401, 403}
      then rpc_error_new (lit ''oauth_reauth_required'')
             (lit ''OAuth refresh rejected (status '' @ show_nat status @ lit ''); re-authentication required'')
      else rpc_error_new (lit ''oauth_failed'') (lit ''OAuth token endpoint returned status '' @ show_nat status))"
| "map_oauth_error (OAuthHttp _) =
     rpc_error_new (lit ''oauth_failed'') (lit ''OAuth token endpoint request failed'')"
| "map_oauth_error (OAuthSecret e) = rpc_internal_ctx (lit ''oauth secrets'') (secret_error_text e)"
| "map_oauth_error (OAuthDecode m) = rpc_internal_ctx (lit ''oauth decode'') m"

definition oauth_now :: "'w daemon_env \<Rightarrow> ('w, 'e, instant) act" where
  "oauth_now env = act_world (\<lambda>w. case oauth_clock (dn_oauth env) w of (t, w') \<Rightarrow> (Ok t, w'))"

definition secrets_err :: "rstr \<Rightarrow> ('w, SecretError, 'a) act \<Rightarrow> ('w, RpcError, 'a) act" where
  "secrets_err ctx m = act_map_err (\<lambda>e. rpc_internal_ctx ctx (secret_error_text e)) m"

text \<open>A token that must be refreshed: a failed refresh may fall back on the token itself.\<close>

definition refresh_stored :: "'w daemon_env \<Rightarrow> uuid \<Rightarrow> StoredGoogleOAuth \<Rightarrow> ('w, RpcError, StoredGoogleOAuth) act" where
  "refresh_stored env account_id stored =
     act_bind (act_attempt (act_world (refresh_token (dn_oauth env) (stored_config stored) (so_token stored)))) (\<lambda>refreshed.
     (case refreshed of
        Inr token \<Rightarrow>
          (let stored' = stored\<lparr>so_token := token\<rparr> in
           act_bind (act_map_err map_oauth_error (act_world (store_stored_oauth (dn_secrets env) account_id stored'))) (\<lambda>_.
           act_give (Ok stored')))
      | Inl e \<Rightarrow>
          if is_oauth_reauth e then act_give (Err (map_oauth_error e))
          else
            act_bind (oauth_now env) (\<lambda>now.
            if ot_expires_at (so_token stored) > now then act_give (Ok stored)
            else act_give (Err (map_oauth_error e)))))"

definition credential_for_account :: "'w daemon_env \<Rightarrow> Account \<Rightarrow> ('w, RpcError, MailCredential) act" where
  "credential_for_account env account =
     (case acc_auth_kind account of
        Password \<Rightarrow>
          act_bind (secrets_err (lit ''secrets::get'') (act_world (secrets_get (dn_secrets env) (acc_id account)))) (\<lambda>secret.
          act_let (ok_or (rpc_error_new (lit ''missing_secret'') (lit ''no stored secret for account'')) secret) (\<lambda>secret.
          act_give (Ok (CredPassword secret))))
      | OAuth2Google \<Rightarrow>
          act_bind (act_map_err map_oauth_error (act_world (load_stored_oauth (dn_secrets env) (acc_id account)))) (\<lambda>loaded.
          act_let (ok_or (rpc_error_new (lit ''missing_secret'') (lit ''no stored OAuth token for account'')) loaded) (\<lambda>stored.
          act_bind (oauth_now env) (\<lambda>now.
          act_bind (if needs_refresh (so_token stored) now then refresh_stored env (acc_id account) stored
                    else act_give (Ok stored)) (\<lambda>stored.
          act_give (Ok (CredOAuth2Bearer (ot_access_token (so_token stored)))))))))"

text \<open>\<^verbatim>\<open>DaemonCredentialResolver\<close>, for the sync workers.\<close>

definition resolve_for_worker :: "'w daemon_env \<Rightarrow> uuid \<Rightarrow> ('w, SyncError, MailCredential) act" where
  "resolve_for_worker env account_id =
     act_bind (act_map_err SyncDb (db_attempt env (lit ''accounts::get'') (\<lambda>st. Ok (accounts_get account_id st, st)))) (\<lambda>found.
     act_let (ok_or UnknownAccount found) (\<lambda>account.
     act_map_err (\<lambda>e. if err_code e = lit ''missing_secret'' then MissingCredentials
                      else SyncCredential (err_code e @ lit '': '' @ err_message e))
       (credential_for_account env account)))"

definition require_account :: "'w daemon_env \<Rightarrow> uuid \<Rightarrow> ('w, RpcError, Account) act" where
  "require_account env account_id =
     act_bind (db_query env (lit ''accounts::get'') (accounts_get account_id)) (\<lambda>found.
     act_give (ok_or (rpc_bad_args (lit ''unknown account_id'')) found))"

subsection \<open>Attachments of a forward\<close>

definition unavailable :: "rstr \<Rightarrow> RpcError" where
  "unavailable detail = rpc_error_new (lit ''unavailable_offline'') (lit ''attachment unavailable offline'' @ detail)"

definition forward_attachment_payload :: "'w daemon_env \<Rightarrow> Attachment \<Rightarrow> byte list \<Rightarrow> rstr \<Rightarrow> json" where
  "forward_attachment_payload env a bytes source = json_object
     [(lit ''attachment_id'', id_json env (att_id a)), (lit ''filename'', JString (att_filename a)),
      (lit ''content_type'', JString (att_content_type a)), (lit ''size_bytes'', json_int (int (length bytes))),
      (lit ''content_base64'', JString (dn_base64 env bytes)), (lit ''source'', JString source)]"

definition forward_attachment_failure :: "'w daemon_env \<Rightarrow> Attachment \<Rightarrow> RpcError \<Rightarrow> json" where
  "forward_attachment_failure env a e = json_object
     [(lit ''attachment_id'', id_json env (att_id a)), (lit ''filename'', JString (att_filename a)),
      (lit ''code'', JString (err_code e)), (lit ''message'', JString (err_message e))]"

definition position :: "('a \<Rightarrow> bool) \<Rightarrow> 'a list \<Rightarrow> nat option" where
  "position P xs = (if list_ex P xs then Some (length (takeWhile (\<lambda>x. \<not> P x) xs)) else None)"

definition swap_remove :: "nat \<Rightarrow> 'a list \<Rightarrow> 'a list" where
  "swap_remove i xs = (if i + 1 = length xs then butlast xs else (butlast xs)[i := last xs])"

definition pick_attachment_bytes :: "ParsedAttachment list \<Rightarrow> Attachment \<Rightarrow> byte list option \<times> ParsedAttachment list" where
  "pick_attachment_bytes parsed a =
     (let cid = filter_option (\<lambda>c. c \<noteq> []) (att_content_id a);
          by_cid = (case cid of None \<Rightarrow> None | Some c \<Rightarrow> position (\<lambda>p. pa_content_id p = Some c) parsed);
          by_name_and_type = position (\<lambda>p. pa_filename p = att_filename a \<and> pa_content_type p = att_content_type a) parsed;
          by_name = position (\<lambda>p. pa_filename p = att_filename a) parsed in
      case coalesce by_cid (coalesce by_name_and_type by_name) of
        None \<Rightarrow> (None, parsed)
      | Some i \<Rightarrow> (Some (pa_data (parsed ! i)), swap_remove i parsed))"

definition persist_refetched_bytes :: "'w daemon_env \<Rightarrow> rstr \<Rightarrow> byte list \<Rightarrow> ('w, rstr, unit) act" where
  "persist_refetched_bytes env path bytes =
     (if path = [] then act_give (Ok ())
      else
        act_bind (case filter_option (\<lambda>p. p \<noteq> []) (path_parent (dn_files env) path) of
                    Some parent \<Rightarrow> act_world (create_dir_all (dn_files env) parent)
                  | None \<Rightarrow> act_give (Ok ())) (\<lambda>_.
        act_world (dn_fs_write env path bytes)))"

definition forward_parent_message :: "'w daemon_env \<Rightarrow> uuid \<Rightarrow> ('w, RpcError, Message) act" where
  "forward_parent_message env message_id =
     act_bind (db_query env (lit ''messages::get'') (messages_get message_id)) (\<lambda>found.
     act_give (ok_or (unavailable (lit '' (parent message missing)'')) found))"

definition to_u32 :: "i64 \<Rightarrow> u32 option" where
  "to_u32 n = (if 0 \<le> n \<and> n < 2 ^ 32 then Some (of_int n) else None)"

definition refetch_forward_attachments :: "'w daemon_env \<Rightarrow> Message \<Rightarrow> ('w, RpcError, ParsedAttachment list) act" where
  "refetch_forward_attachments env message =
     act_bind (db_query env (lit ''folders/accounts::get'') (folders_get (msg_folder_id message))) (\<lambda>folder.
     act_bind (db_query env (lit ''folders/accounts::get'') (accounts_get (msg_account_id message))) (\<lambda>account.
     act_let (ok_or (unavailable (lit '' (folder missing)'')) folder) (\<lambda>folder.
     act_let (ok_or (unavailable (lit '' (account missing)'')) account) (\<lambda>account.
     act_bind (act_map_err (\<lambda>_. unavailable []) (credential_for_account env account)) (\<lambda>credential.
     act_let (ok_or (unavailable []) (to_u32 (msg_uid message))) (\<lambda>target_uid.
     act_let (map_err (\<lambda>_. unavailable []) (port_u16 (acc_imap_port account))) (\<lambda>imap_port.
     act_bind (act_map_err (\<lambda>_. unavailable [])
                 (act_world (imap_sync (dn_sync env) (acc_imap_host account) imap_port (acc_email account) credential
                    (fld_name folder) target_uid))) (\<lambda>server.
     act_let (ok_or (unavailable []) (find (\<lambda>m. fm_uid m = target_uid) (fs_messages server))) (\<lambda>fetched.
     act_let (map_err (\<lambda>_. unavailable []) (parse (sync_decoder (dn_sync env)) (fm_raw fetched))) (\<lambda>parsed.
     act_give (Ok (pe_attachments parsed))))))))))))"

definition op_attachment_fetch_for_forward :: "'w daemon_env \<Rightarrow> json \<Rightarrow> ('w, RpcError, json) act" where
  "op_attachment_fetch_for_forward env args =
     act_let (parse_id env args (lit ''attachment_id'')) (\<lambda>attachment_id.
     act_bind (require_attachment env attachment_id) (\<lambda>attachment.
     act_bind (act_attempt (act_peek (open_read (dn_files env) (att_storage_path attachment)))) (\<lambda>cached.
     (case cached of
        Inr bytes \<Rightarrow> act_give (Ok (forward_attachment_payload env attachment bytes (lit ''cache'')))
      | Inl _ \<Rightarrow>
          act_bind (forward_parent_message env (att_message_id attachment)) (\<lambda>message.
          act_bind (refetch_forward_attachments env message) (\<lambda>parsed.
          act_let (ok_or (unavailable []) (fst (pick_attachment_bytes parsed attachment))) (\<lambda>bytes.
          act_bind (act_attempt (persist_refetched_bytes env (att_storage_path attachment) bytes)) (\<lambda>_.
          act_give (Ok (forward_attachment_payload env attachment bytes (lit ''imap'')))))))))))"

definition MAX_FORWARD_ATTACHMENT_BATCH :: nat where
  "MAX_FORWARD_ATTACHMENT_BATCH = 32"

definition unknown_attachment_failure :: "'w daemon_env \<Rightarrow> uuid \<Rightarrow> json" where
  "unknown_attachment_failure env i = json_object
     [(lit ''attachment_id'', id_json env i), (lit ''filename'', JString []), (lit ''code'', JString (lit ''bad_args'')),
      (lit ''message'', JString (lit ''unknown attachment id for message''))]"

text \<open>
  The first loop of a batch, over the ids not yet looked at: the slots of the answer, the
  failures, and the attachments to fetch again with their slots.  A repeated id is unknown the
  second time, since it was taken from the map.
\<close>

fun forward_cached ::
  "'w daemon_env \<Rightarrow> nat \<Rightarrow> uuid list \<Rightarrow> (uuid \<rightharpoonup> Attachment)
   \<Rightarrow> ('w, RpcError, json option list \<times> json list \<times> (nat \<times> Attachment) list) act" where
  "forward_cached env index [] known = act_give (Ok ([], [], []))"
| "forward_cached env index (i # ids) known =
     (case known i of
        None \<Rightarrow>
          act_bind (forward_cached env (index + 1) ids known) (\<lambda>(slots, lost, misses).
          act_give (Ok (None # slots, unknown_attachment_failure env i # lost, misses)))
      | Some a \<Rightarrow>
          act_bind (act_attempt (act_peek (open_read (dn_files env) (att_storage_path a)))) (\<lambda>cached.
          act_bind (forward_cached env (index + 1) ids (known(i := None))) (\<lambda>(slots, lost, misses).
          act_give (Ok
            (case cached of
               Inr bytes \<Rightarrow> (Some (forward_attachment_payload env a bytes (lit ''cache'')) # slots, lost, misses)
             | Inl _ \<Rightarrow> (None # slots, lost, (index, a) # misses))))))"

fun forward_misses ::
  "'w daemon_env \<Rightarrow> ParsedAttachment list \<Rightarrow> (nat \<times> Attachment) list \<Rightarrow> json option list \<Rightarrow> json list
   \<Rightarrow> ('w, RpcError, json option list \<times> json list) act" where
  "forward_misses env parsed [] slots lost = act_give (Ok (slots, lost))"
| "forward_misses env parsed ((index, a) # misses) slots lost =
     (case pick_attachment_bytes parsed a of
        (Some bytes, parsed') \<Rightarrow>
          act_bind (act_attempt (persist_refetched_bytes env (att_storage_path a) bytes)) (\<lambda>_.
          forward_misses env parsed' misses
            (slots[index := Some (forward_attachment_payload env a bytes (lit ''imap''))]) lost)
      | (None, parsed') \<Rightarrow>
          forward_misses env parsed' misses slots (lost @ [forward_attachment_failure env a (unavailable [])]))"

definition op_attachment_fetch_for_forward_batch :: "'w daemon_env \<Rightarrow> json \<Rightarrow> ('w, RpcError, json) act" where
  "op_attachment_fetch_for_forward_batch env args =
     act_let (parse_id env args (lit ''message_id'')) (\<lambda>message_id.
     act_let (parse_id_array env args (lit ''attachment_ids'') MAX_FORWARD_ATTACHMENT_BATCH) (\<lambda>ids.
     act_bind (require_message env message_id) (\<lambda>message.
     act_bind (db_query env (lit ''attachments::list_for_message'') (attachments_list_for_message message_id)) (\<lambda>rows.
     act_bind (forward_cached env 0 ids (map_of (rev (map (\<lambda>a. (att_id a, a)) rows)))) (\<lambda>(slots, lost, misses).
     act_bind (if misses = [] then act_give (Ok (slots, lost))
               else
                 act_bind (act_attempt (refetch_forward_attachments env message)) (\<lambda>refetched.
                 (case refetched of
                    Inr parsed \<Rightarrow> forward_misses env parsed misses slots lost
                  | Inl e \<Rightarrow> act_give (Ok (slots, lost @ map (\<lambda>(_, a). forward_attachment_failure env a e) misses))))) (\<lambda>(slots, lost).
     act_give (Ok (json_object
       [(lit ''attachments'', JArray (List.map_filter (\<lambda>x. x) slots)), (lit ''failed'', JArray lost)]))))))))"

subsection \<open>Sending\<close>

fun parse_addr_array :: "rstr list \<Rightarrow> rstr \<Rightarrow> (RpcError, rstr list) result" where
  "parse_addr_array [] field = Ok []"
| "parse_addr_array (a # as) field =
     (if trim a = [] then Err (rpc_bad_args (field @ lit '' must not contain empty addresses''))
      else and_then (parse_addr_array as field) (\<lambda>xs. Ok (trim a # xs)))"

definition all_recipients :: "rstr list \<Rightarrow> rstr list \<Rightarrow> rstr list \<Rightarrow> (RpcError, rstr list) result" where
  "all_recipients to_list cc_list bcc_list =
     (let recipients = to_list @ cc_list @ bcc_list in
      if recipients = [] then Err (rpc_bad_args (lit ''at least one recipient is required'')) else Ok recipients)"

fun map_smtp_error :: "SmtpError \<Rightarrow> RpcError" where
  "map_smtp_error (SmtpAuth m) = rpc_error_new (lit ''auth_failed'') m"
| "map_smtp_error (SmtpInvalidRequest m) = rpc_bad_args m"
| "map_smtp_error (SmtpTransient m) = rpc_error_new (lit ''smtp_transient'') m"
| "map_smtp_error (SmtpInvalidConfig m) = rpc_internal m"
| "map_smtp_error (SmtpInternal m) = rpc_internal m"

definition load_draft_mime_attachments :: "'w daemon_env \<Rightarrow> uuid \<Rightarrow> ('w, RpcError, MimeAttachment list) act" where
  "load_draft_mime_attachments env draft_id =
     act_bind (db_query env (lit ''draft_attachments::list_for_draft'') (draft_attachments_list_for_draft draft_id)) (\<lambda>rows.
     act_each (\<lambda>row.
       act_bind (db_query env (lit ''draft_attachments::load_content'') (draft_attachments_load_content (dat_id row))) (\<lambda>content.
       act_let (ok_or (rpc_internal (lit ''draft attachment '' @ show_id env (dat_id row) @ lit '' disappeared mid-send'')) content) (\<lambda>bytes.
       act_give (Ok \<lparr>ma_filename = dat_filename row, ma_content_type = dat_content_type row, ma_data = bytes,
                     ma_content_id = None\<rparr>)))) rows)"

definition smtp_port_u16 :: "i64 \<Rightarrow> (RpcError, nat) result" where
  "smtp_port_u16 port = (if 0 \<le> port \<and> port < 2 ^ 16 then Ok (nat port) else Err (rpc_bad_args (lit ''bad smtp_port'')))"

definition send_options ::
  "Account \<Rightarrow> Draft \<Rightarrow> rstr list \<Rightarrow> rstr list \<Rightarrow> rstr \<Rightarrow> MimeAttachment list \<Rightarrow> MimeBuildOptions" where
  "send_options account draft to_list cc_list message_id atts =
     \<lparr>mo_from = acc_email account, mo_to = to_list, mo_cc = cc_list, mo_subject = unwrap_or [] (dft_subject draft),
      mo_text_body = dft_text_body draft, mo_html_body = dft_html_body draft, mo_message_id = message_id,
      mo_attachments = atts,
      mo_reply = \<lparr>rh_in_reply_to = dft_in_reply_to draft, rh_references = dft_references_header draft\<rparr>\<rparr>"

definition submit_request ::
  "Account \<Rightarrow> nat \<Rightarrow> MailCredential \<Rightarrow> rstr list \<Rightarrow> rstr \<Rightarrow> SmtpSubmitRequest" where
  "submit_request account smtp_port credential recipients mime =
     \<lparr>sub_server = \<lparr>smtp_server_host = acc_smtp_host account, smtp_server_port = smtp_port,
        smtp_server_use_tls = acc_smtp_use_tls account, smtp_server_starttls = acc_smtp_starttls account\<rparr>,
      sub_username = acc_email account, sub_credential = credential, sub_from = acc_email account,
      sub_recipients = recipients, sub_mime = as_bytes mime\<rparr>"

text \<open>Everything up to the submission: the request, the message id and the number of attachments.\<close>

definition prepare_send ::
  "'w daemon_env \<Rightarrow> uuid \<Rightarrow> uuid \<Rightarrow> ('w, RpcError, SmtpSubmitRequest \<times> rstr \<times> nat) act" where
  "prepare_send env account_id draft_id =
     act_bind (require_account env account_id) (\<lambda>account.
     act_bind (db_query env (lit ''drafts::get'') (drafts_get draft_id)) (\<lambda>found.
     act_let (ok_or (rpc_bad_args (lit ''unknown draft_id'')) found) (\<lambda>draft.
     if dft_account_id draft \<noteq> account_id
     then act_give (Err (rpc_bad_args (lit ''draft does not belong to account'')))
     else
       act_let (parse_addr_array (dft_to_addrs draft) (lit ''to_addrs'')) (\<lambda>to_list.
       act_let (parse_addr_array (dft_cc_addrs draft) (lit ''cc_addrs'')) (\<lambda>cc_list.
       act_let (parse_addr_array (dft_bcc_addrs draft) (lit ''bcc_addrs'')) (\<lambda>bcc_list.
       act_let (all_recipients to_list cc_list bcc_list) (\<lambda>recipients.
       act_let (smtp_port_u16 (acc_smtp_port account)) (\<lambda>smtp_port.
       act_bind (credential_for_account env account) (\<lambda>credential.
       act_bind (act_world (\<lambda>w. case dn_new_uuid env w of (i, w') \<Rightarrow> (Ok i, w'))) (\<lambda>fresh.
       (let message_id = lit ''<'' @ show_id env fresh @ lit ''@postblox.local>'' in
        act_bind (load_draft_mime_attachments env draft_id) (\<lambda>atts.
        act_bind (act_world (\<lambda>w. case dn_mime env w of (m, w') \<Rightarrow> (Ok m, w'))) (\<lambda>mime_parts.
        act_give (Ok
          (submit_request account smtp_port credential recipients
             (build_mime_full mime_parts (send_options account draft to_list cc_list message_id atts)),
           message_id, length atts)))))))))))))))"

text \<open>After the server took the message: the draft goes; a failure to remove it is only logged.\<close>

definition after_send :: "'w daemon_env \<Rightarrow> uuid \<Rightarrow> uuid \<Rightarrow> ('w, RpcError, unit) act" where
  "after_send env account_id draft_id =
     act_bind (act_attempt (db_attempt env (lit ''drafts::delete'') (\<lambda>st. Ok (drafts_delete draft_id st)))) (\<lambda>deleted.
     (case deleted of
        Inl _ \<Rightarrow> act_give (Ok ())
      | Inr _ \<Rightarrow> hub_publish MailUpdated (json_object
          [(lit ''account_id'', id_json env account_id), (lit ''draft_id'', id_json env draft_id),
           (lit ''removed'', JBool True)])))"

definition op_message_send :: "'w daemon_env \<Rightarrow> json \<Rightarrow> ('w, RpcError, json) act" where
  "op_message_send env args =
     act_let (parse_id env args (lit ''account_id'')) (\<lambda>account_id.
     act_let (parse_id env args (lit ''draft_id'')) (\<lambda>draft_id.
     act_bind (prepare_send env account_id draft_id) (\<lambda>(request, message_id, attachment_count).
     act_bind (act_map_err map_smtp_error (act_world (dn_smtp env request))) (\<lambda>_.
     act_bind (after_send env account_id draft_id) (\<lambda>_.
     act_bind (audit_actor env (actor_from_args args) (lit ''message.send'') (Some (show_id env draft_id))
                 (json_object [(lit ''account_id'', id_json env account_id), (lit ''message_id'', JString message_id),
                               (lit ''attachment_count'', json_nat attachment_count)])) (\<lambda>_.
     act_give (Ok (json_object [(lit ''ok'', JBool True), (lit ''message_id'', JString message_id)]))))))))"

subsection \<open>Logging in and syncing\<close>

definition role_for :: "rstr \<Rightarrow> FolderRole" where
  "role_for name =
     (let n = to_ascii_uppercase name in
      if n = lit ''INBOX'' then RoleInbox
      else if n \<in> set (map lit [''SENT'', ''SENT ITEMS'', ''[GMAIL]/SENT MAIL'']) then RoleSent
      else if n \<in> set (map lit [''DRAFTS'', ''[GMAIL]/DRAFTS'']) then RoleDrafts
      else if n \<in> set (map lit [''TRASH'', ''DELETED ITEMS'', ''[GMAIL]/TRASH'']) then RoleTrash
      else if n = lit ''ARCHIVE'' then RoleArchive
      else if n \<in> set (map lit [''ALL MAIL'', ''[GMAIL]/ALL MAIL'']) then RoleAll
      else if n \<in> set (map lit [''SPAM'', ''JUNK'', ''[GMAIL]/SPAM'']) then RoleSpam
      else if n \<in> set (map lit [''STARRED'', ''[GMAIL]/STARRED'']) then RoleStarred
      else RoleCustom)"

definition login_error :: "ImapError \<Rightarrow> RpcError" where
  "login_error e = (case e of ImapAuth m \<Rightarrow> rpc_error_new (lit ''auth_failed'') m | _ \<Rightarrow> rpc_internal (imap_error_text e))"

definition login_credential :: "'w daemon_env \<Rightarrow> json \<Rightarrow> Account \<Rightarrow> ('w, RpcError, MailCredential) act" where
  "login_credential env args account =
     (case acc_auth_kind account of
        Password \<Rightarrow>
          act_let (ok_or (missing (lit ''password'')) (get_str args (lit ''password''))) (\<lambda>p. act_give (Ok (CredPassword p)))
      | OAuth2Google \<Rightarrow> credential_for_account env account)"

definition op_account_test_login :: "'w daemon_env \<Rightarrow> json \<Rightarrow> ('w, RpcError, json) act" where
  "op_account_test_login env args =
     act_let (parse_id env args (lit ''account_id'')) (\<lambda>account_id.
     act_bind (require_account env account_id) (\<lambda>account.
     act_bind (login_credential env args account) (\<lambda>credential.
     act_let (map_err (\<lambda>_. rpc_bad_args (lit ''bad imap_port'')) (port_u16 (acc_imap_port account))) (\<lambda>port.
     act_bind (act_map_err login_error
                 (act_world (dn_imap env (acc_imap_host account) port (acc_email account) credential))) (\<lambda>found.
     act_bind (act_each (\<lambda>f. act_attempt (db_upsert_folder env
                 \<lparr>nf_account_id = account_id, nf_name = fi_name f, nf_delimiter = fi_delimiter f,
                  nf_role = role_for (fi_name f), nf_selectable = fi_selectable f\<rparr>)) found) (\<lambda>_.
     act_bind (audit env (lit ''account.test_login'') (Some (show_id env account_id))
                 (json_object [(lit ''folders'', json_nat (length found))])) (\<lambda>_.
     act_give (Ok (json_object
       [(lit ''ok'', JBool True), (lit ''folders'', strings_json (map fi_name found))])))))))))"

definition act_publish_state :: "'w daemon_env \<Rightarrow> SyncStateEvent \<Rightarrow> ('w, 'e, unit) act" where
  "act_publish_state env ev s = Some (Ok (), s\<lparr>dm_sync := publish_sync_state (dn_sync env) ev (dm_sync s)\<rparr>)"

definition act_reconcile ::
  "'w daemon_env \<Rightarrow> uuid \<Rightarrow> rstr \<Rightarrow> MailCredential \<Rightarrow> ('w, SyncError, ReconcileReport) act" where
  "act_reconcile env account_id folder_name credential s =
     map_option (\<lambda>(r, y). (r, s\<lparr>dm_sync := y\<rparr>))
       (reconcile_folder (dn_sync env) account_id folder_name credential (dm_sync s))"

definition sync_failure :: "'w daemon_env \<Rightarrow> SyncError \<Rightarrow> RpcError" where
  "sync_failure env e =
     (case e of
        SyncImap (ImapAuth m) \<Rightarrow> rpc_error_new (lit ''auth_failed'') m
      | UnknownAccount \<Rightarrow> rpc_bad_args (lit ''unknown account_id'')
      | UnknownFolder _ \<Rightarrow> rpc_bad_args (sync_error_text (dn_db_text env) e)
      | MissingCredentials \<Rightarrow> rpc_error_new (lit ''missing_secret'') (lit ''no stored secret'')
      | _ \<Rightarrow> rpc_internal (sync_error_text (dn_db_text env) e))"

definition get_folder_name :: "json \<Rightarrow> (RpcError, rstr) result" where
  "get_folder_name args = ok_or (missing (lit ''folder_name'')) (get_str args (lit ''folder_name''))"

definition op_account_sync_folder :: "'w daemon_env \<Rightarrow> json \<Rightarrow> ('w, RpcError, json) act" where
  "op_account_sync_folder env args =
     act_let (parse_id env args (lit ''account_id'')) (\<lambda>account_id.
     act_let (get_folder_name args) (\<lambda>folder_name.
     act_bind (require_account env account_id) (\<lambda>account.
     act_bind (credential_for_account env account) (\<lambda>credential.
     (let event = (\<lambda>state e. \<lparr>sse_account_id = account_id, sse_state = state, sse_last_error = e\<rparr>) in
      act_bind (act_publish_state env (event StateSyncing None)) (\<lambda>_.
      act_bind (act_attempt (act_reconcile env account_id folder_name credential)) (\<lambda>outcome.
      (case outcome of
         Inl e \<Rightarrow>
           act_bind (act_publish_state env (event StateError (Some (sync_error_text (dn_db_text env) e)))) (\<lambda>_.
           act_give (Err (sync_failure env e)))
       | Inr report \<Rightarrow>
           act_bind (act_publish_state env (event StateIdle None)) (\<lambda>_.
           act_bind (audit env (lit ''account.sync_folder'') (Some (show_id env account_id))
                       (json_object [(lit ''folder_name'', JString folder_name), (lit ''inserted'', json_nat (rr_inserted report)),
                                     (lit ''wiped'', json_nat (rr_wiped report))])) (\<lambda>_.
           act_give (Ok (report_json env report))))))))))))"

definition ensure_account_folder :: "'w daemon_env \<Rightarrow> uuid \<Rightarrow> rstr \<Rightarrow> ('w, RpcError, unit) act" where
  "ensure_account_folder env account_id folder_name =
     act_bind (require_account env account_id) (\<lambda>_.
     act_bind (db_query env (lit ''folders::get_by_name'') (folders_get_by_name account_id folder_name)) (\<lambda>folder.
     if folder = None then act_give (Err (rpc_bad_args (quoted_key (lit ''unknown folder '') folder_name [])))
     else act_give (Ok ())))"

definition act_manager :: "(manager \<Rightarrow> 'a \<times> manager) \<Rightarrow> ('w, 'e, 'a) act" where
  "act_manager f s = (case f (dm_manager s) of (x, mg) \<Rightarrow> Some (Ok x, s\<lparr>dm_manager := mg\<rparr>))"

text \<open>\<^verbatim>\<open>WorkerManager::stop\<close> run alone: take the handle, cancel it and wait for it.\<close>

definition manager_stop :: "worker_key \<Rightarrow> manager \<Rightarrow> bool \<times> manager" where
  "manager_stop key mg =
     (case mg_workers mg key of
        None \<Rightarrow> (False, mg)
      | Some i \<Rightarrow> (True, end_stop i (finish_task i (cancel_task i (snd (stop_take key mg))))))"

definition op_account_start_sync :: "'w daemon_env \<Rightarrow> json \<Rightarrow> ('w, RpcError, json) act" where
  "op_account_start_sync env args =
     act_let (parse_id env args (lit ''account_id'')) (\<lambda>account_id.
     act_let (get_folder_name args) (\<lambda>folder_name.
     act_bind (ensure_account_folder env account_id folder_name) (\<lambda>_.
     act_bind (require_account env account_id) (\<lambda>account.
     act_bind (credential_for_account env account) (\<lambda>credential.
     act_bind (act_manager (manager_start (dn_has_idle env) (dn_has_resolver env) account_id folder_name credential)) (\<lambda>started.
     act_bind (audit env (lit ''account.start_sync'') (Some (show_id env account_id))
                 (json_object [(lit ''folder_name'', JString folder_name), (lit ''started'', JBool started)])) (\<lambda>_.
     act_give (Ok (json_object [(lit ''ok'', JBool True), (lit ''started'', JBool started)])))))))))"

definition op_account_stop_sync :: "'w daemon_env \<Rightarrow> json \<Rightarrow> ('w, RpcError, json) act" where
  "op_account_stop_sync env args =
     act_let (parse_id env args (lit ''account_id'')) (\<lambda>account_id.
     act_let (get_folder_name args) (\<lambda>folder_name.
     act_bind (act_manager (manager_stop (account_id, folder_name))) (\<lambda>stopped.
     act_bind (audit env (lit ''account.stop_sync'') (Some (show_id env account_id))
                 (json_object [(lit ''folder_name'', JString folder_name), (lit ''stopped'', JBool stopped)])) (\<lambda>_.
     act_give (Ok (json_object [(lit ''ok'', JBool True), (lit ''stopped'', JBool stopped)]))))))"

subsection \<open>Secrets and OAuth\<close>

definition set_secret_ref :: "'w daemon_env \<Rightarrow> uuid \<Rightarrow> rstr option \<Rightarrow> ('w, RpcError, unit) act" where
  "set_secret_ref env account_id ref =
     internal env (lit ''accounts::set_secret_ref'') (db_stamped env (lit ''accounts::set_secret_ref'')
       (\<lambda>now st. Ok ((), accounts_set_secret_ref account_id ref now st)))"

definition op_account_set_secret :: "'w daemon_env \<Rightarrow> json \<Rightarrow> ('w, RpcError, json) act" where
  "op_account_set_secret env args =
     act_let (parse_id env args (lit ''account_id'')) (\<lambda>account_id.
     act_let (ok_or (missing (lit ''password'')) (get_str args (lit ''password''))) (\<lambda>password.
     if password = [] then act_give (Err (rpc_bad_args (quoted_key [] (lit ''password'') (lit '' must be non-empty''))))
     else
       act_bind (require_account env account_id) (\<lambda>account.
       if acc_auth_kind account \<noteq> Password
       then act_give (Err (rpc_bad_args (lit ''account.set_secret only supports password accounts'')))
       else
         act_bind (secrets_err (lit ''secrets::put'') (act_world (secrets_put (dn_secrets env) account_id password))) (\<lambda>_.
         act_bind (set_secret_ref env account_id (Some (secrets_ref (dn_secrets env) account_id))) (\<lambda>_.
         act_bind (audit env (lit ''account.set_secret'') (Some (show_id env account_id)) (JObject [])) (\<lambda>_.
         act_give (Ok ok_json)))))))"

definition op_account_delete_secret :: "'w daemon_env \<Rightarrow> json \<Rightarrow> ('w, RpcError, json) act" where
  "op_account_delete_secret env args =
     act_let (parse_id env args (lit ''account_id'')) (\<lambda>account_id.
     act_bind (secrets_err (lit ''secrets::delete'') (act_world (secrets_delete (dn_secrets env) account_id))) (\<lambda>_.
     act_bind (set_secret_ref env account_id None) (\<lambda>_.
     act_bind (audit env (lit ''account.delete_secret'') (Some (show_id env account_id)) (JObject [])) (\<lambda>_.
     act_give (Ok ok_json)))))"

definition ensure_oauth_google_account :: "'w daemon_env \<Rightarrow> uuid \<Rightarrow> ('w, RpcError, unit) act" where
  "ensure_oauth_google_account env account_id =
     act_bind (require_account env account_id) (\<lambda>account.
     if acc_auth_kind account \<noteq> OAuth2Google
     then act_give (Err (rpc_bad_args (lit ''account auth_kind must be oauth2_google'')))
     else act_give (Ok ()))"

fun parse_scopes :: "json list \<Rightarrow> (RpcError, rstr list) result" where
  "parse_scopes [] = Ok []"
| "parse_scopes (v # vs) =
     and_then (ok_or (rpc_bad_args (quoted_key [] (lit ''scopes'') (lit '' must contain strings''))) (as_str v)) (\<lambda>scope.
     if trim scope = [] then Err (rpc_bad_args (quoted_key [] (lit ''scopes'') (lit '' must not contain empty strings'')))
     else and_then (parse_scopes vs) (\<lambda>scopes. Ok (trim scope # scopes)))"

definition parse_optional_scopes :: "json \<Rightarrow> (RpcError, rstr list option) result" where
  "parse_optional_scopes args =
     (case value_get args (lit ''scopes'') of
        None \<Rightarrow> Ok None
      | Some v \<Rightarrow>
          and_then (ok_or (rpc_bad_args (quoted_key [] (lit ''scopes'') (lit '' must be an array''))) (as_array v)) (\<lambda>values.
          and_then (parse_scopes values) (\<lambda>scopes. Ok (Some scopes))))"

definition ensure_requested_scopes_are_gmail :: "json \<Rightarrow> (RpcError, unit) result" where
  "ensure_requested_scopes_are_gmail args =
     and_then (parse_optional_scopes args) (\<lambda>scopes.
       (case scopes of
          None \<Rightarrow> Ok ()
        | Some scopes \<Rightarrow>
            if scopes = [GMAIL_SCOPE] then Ok () else Err (rpc_bad_args (lit ''only the Gmail OAuth scope is supported''))))"

definition op_oauth_google_auth_url :: "'w daemon_env \<Rightarrow> json \<Rightarrow> ('w, RpcError, json) act" where
  "op_oauth_google_auth_url env args =
     act_let (parse_id env args (lit ''account_id'')) (\<lambda>account_id.
     act_let (parse_str args (lit ''client_id'')) (\<lambda>client_id.
     act_let (parse_str args (lit ''redirect_uri'')) (\<lambda>redirect_uri.
     act_let (parse_str args (lit ''state'')) (\<lambda>state.
     act_bind (ensure_oauth_google_account env account_id) (\<lambda>_.
     act_let (ensure_requested_scopes_are_gmail args) (\<lambda>_.
     act_let (map_err map_oauth_error (authorization_url (gmail_config client_id [] redirect_uri) state)) (\<lambda>url.
     act_bind (audit env (lit ''oauth.google.auth_url'') (Some (show_id env account_id)) (JObject [])) (\<lambda>_.
     act_give (Ok (json_object [(lit ''authorization_url'', JString url)]))))))))))"

definition op_oauth_google_complete :: "'w daemon_env \<Rightarrow> json \<Rightarrow> ('w, RpcError, json) act" where
  "op_oauth_google_complete env args =
     act_let (parse_id env args (lit ''account_id'')) (\<lambda>account_id.
     act_let (parse_str args (lit ''client_id'')) (\<lambda>client_id.
     act_let (parse_str args (lit ''client_secret'')) (\<lambda>client_secret.
     act_let (parse_str args (lit ''redirect_uri'')) (\<lambda>redirect_uri.
     act_let (parse_str args (lit ''code'')) (\<lambda>code.
     act_let (parse_str args (lit ''state'')) (\<lambda>state.
     act_let (parse_str args (lit ''expected_state'')) (\<lambda>expected_state.
     if state \<noteq> expected_state
     then act_give (Err (rpc_bad_args (quoted_key [] (lit ''state'') (lit '' does not match '' @ [39] @ lit ''expected_state'' @ [39]))))
     else
       act_bind (ensure_oauth_google_account env account_id) (\<lambda>_.
       act_let (ensure_requested_scopes_are_gmail args) (\<lambda>_.
       (let config = gmail_config client_id client_secret redirect_uri in
        act_bind (act_map_err map_oauth_error (act_world (exchange_code (dn_oauth env) config code))) (\<lambda>token.
        act_bind (act_map_err map_oauth_error
                    (act_world (store_stored_oauth (dn_secrets env) account_id (stored_new config token)))) (\<lambda>_.
        act_bind (set_secret_ref env account_id (Some (secrets_ref (dn_secrets env) account_id))) (\<lambda>_.
        act_bind (audit env (lit ''oauth.google.complete'') (Some (show_id env account_id)) (JObject [])) (\<lambda>_.
        act_give (Ok (json_object
          [(lit ''ok'', JBool True), (lit ''expires_at'', time_json env (ot_expires_at token))]))))))))))))))))"

end
