(* ===== verification/Dispatcher.thy ===== *)
theory Dispatcher
  imports DaemonNet McpTools
begin

text \<open>
  The dispatcher of \<^verbatim>\<open>src/daemon/dispatcher.rs\<close> as a whole, and what every request keeps.  The
  contract \<open>dispatch_contract\<close> lists, for a property of the tables, the statements that must keep
  it; inside it every handler is shown to keep it once.  \<open>statement_invariant\<close> gives the contract
  for a property that every statement of the data layer keeps.
\<close>

definition dispatch :: "'w daemon_env \<Rightarrow> Op \<Rightarrow> json \<Rightarrow> ('w, RpcError, json) act" where
  "dispatch env op args =
     (case op of
        OpAccountList \<Rightarrow> op_account_list env
      | OpFolderList \<Rightarrow> op_folder_list env args
      | OpThreadList \<Rightarrow> op_thread_list env args
      | OpMessageListByFolder \<Rightarrow> op_messages_by_folder env args
      | OpMessageListByThread \<Rightarrow> op_messages_by_thread env args
      | OpMessageGet \<Rightarrow> op_message_get env args
      | OpAttachmentList \<Rightarrow> op_attachment_list env args
      | OpAttachmentPreview \<Rightarrow> op_attachment_preview env args
      | OpSearch \<Rightarrow> op_search env args
      | OpSqlQuery \<Rightarrow> op_sql_query env args
      | OpSqlSchema \<Rightarrow> op_sql_schema env
      | OpAuditListRecent \<Rightarrow> op_audit_list env args
      | OpMcpGateList \<Rightarrow> op_mcp_gate_list env args
      | OpMcpGateCreate \<Rightarrow> op_mcp_gate_create env args
      | OpMcpGateDelete \<Rightarrow> op_mcp_gate_delete env args
      | OpMcpApprovalCreate \<Rightarrow> op_mcp_approval_create env args
      | OpMcpApprovalList \<Rightarrow> op_mcp_approval_list env args
      | OpMcpApprovalGet \<Rightarrow> op_mcp_approval_get env args
      | OpMcpApprovalDecide \<Rightarrow> op_mcp_approval_decide env args
      | OpAccountCreate \<Rightarrow> op_account_create env args
      | OpAccountDelete \<Rightarrow> op_account_delete env args
      | OpFolderUpsert \<Rightarrow> op_folder_upsert env args
      | OpMessageSetFlags \<Rightarrow> op_message_set_flags env args
      | OpMessageArchive \<Rightarrow> op_message_archive env args
      | OpMessageDelete \<Rightarrow> op_message_delete env args
      | OpMessageMove \<Rightarrow> op_message_move env args
      | OpDraftCreate \<Rightarrow> op_draft_create env args
      | OpDraftUpdate \<Rightarrow> op_draft_update env args
      | OpDraftDelete \<Rightarrow> op_draft_delete env args
      | OpDraftList \<Rightarrow> op_draft_list env args
      | OpDraftGet \<Rightarrow> op_draft_get env args
      | OpAttachmentExport \<Rightarrow> op_attachment_export env args
      | OpMessagePrepareReply \<Rightarrow> op_message_prepare_reply env args
      | OpMessagePrepareForward \<Rightarrow> op_message_prepare_forward env args
      | OpAttachmentFetchForForward \<Rightarrow> op_attachment_fetch_for_forward env args
      | OpAttachmentFetchForForwardBatch \<Rightarrow> op_attachment_fetch_for_forward_batch env args
      | OpMessageSend \<Rightarrow> op_message_send env args
      | OpAccountTestLogin \<Rightarrow> op_account_test_login env args
      | OpAccountSyncFolder \<Rightarrow> op_account_sync_folder env args
      | OpAccountStartSync \<Rightarrow> op_account_start_sync env args
      | OpAccountStopSync \<Rightarrow> op_account_stop_sync env args
      | OpAccountSetSecret \<Rightarrow> op_account_set_secret env args
      | OpAccountDeleteSecret \<Rightarrow> op_account_delete_secret env args
      | OpOauthGoogleAuthUrl \<Rightarrow> op_oauth_google_auth_url env args
      | OpOauthGoogleComplete \<Rightarrow> op_oauth_google_complete env args)"

subsection \<open>Operations that only read\<close>

lemma runs_require [runs_intros]:
  "runs tot Q (require_message env i)" "runs tot Q (require_account env i)" "runs tot Q (require_attachment env i)"
  "runs tot Q (require_role_folder env i role)" "runs tot Q (account_of_message env m)"
  "runs tot Q (forward_parent_message env i)" "runs tot Q (ensure_account_folder env i name)"
  "runs tot Q (ensure_oauth_google_account env i)"
  unfolding require_message_def require_account_def require_attachment_def require_role_folder_def
    account_of_message_def forward_parent_message_def ensure_account_folder_def ensure_oauth_google_account_def
  by (intro runs_intros)+

lemma runs_draft_reads: "runs tot Q (op_draft_list env args)" "runs tot Q (op_draft_get env args)"
  unfolding op_draft_list_def op_draft_get_def draft_attachment_payload_def by (intro runs_intros)+

lemma runs_prepare_ops: "runs tot Q (op_message_prepare_reply env args)" "runs tot Q (op_message_prepare_forward env args)"
  unfolding op_message_prepare_reply_def op_message_prepare_forward_def Let_def by (intro runs_intros)+

text \<open>Credentials are read, and perhaps refreshed, outside the database.\<close>

lemma runs_credential [runs_intros]: "runs tot Q (credential_for_account env account)"
  unfolding credential_for_account_def secrets_err_def refresh_stored_def oauth_now_def Let_def
  by (auto split: AuthKind.split intro!: runs_intros)

lemma runs_login_credential [runs_intros]: "runs tot Q (login_credential env args account)"
  unfolding login_credential_def by (auto split: AuthKind.split intro!: runs_intros)

lemma runs_refetch [runs_intros]:
  "runs tot Q (refetch_forward_attachments env message)" "runs tot Q (persist_refetched_bytes env path bytes)"
  unfolding refetch_forward_attachments_def persist_refetched_bytes_def by (intro runs_intros)+

lemma runs_forward_cached [runs_intros]: "runs tot Q (forward_cached env index ids known)"
  by (induction ids arbitrary: index known) (auto intro!: runs_intros split: option.split)

lemma runs_forward_misses [runs_intros]: "runs tot Q (forward_misses env parsed misses slots lost)"
  by (induction env parsed misses slots lost rule: forward_misses.induct)
     (auto intro!: runs_intros split: prod.split option.split)

lemma runs_forward_ops:
  "runs tot Q (op_attachment_fetch_for_forward env args)" "runs tot Q (op_attachment_fetch_for_forward_batch env args)"
  unfolding op_attachment_fetch_for_forward_def op_attachment_fetch_for_forward_batch_def by (intro runs_intros)+

lemma runs_prepare_send [runs_intros]: "runs tot Q (prepare_send env account_id draft_id)"
  unfolding prepare_send_def load_draft_mime_attachments_def Let_def by (intro runs_intros)

lemma runs_check_specs [runs_intros]: "runs tot Q (check_specs env n specs)"
  by (induction env n specs rule: check_specs.induct) (auto simp: Let_def intro!: runs_intros)

lemma runs_read_pending [runs_intros]: "runs tot Q (read_pending env n ps)"
  by (induction env n ps rule: read_pending.induct) (auto simp: Let_def read_attachment_bounded_def intro!: runs_intros)

lemma runs_prepare_attachments [runs_intros]: "runs tot Q (prepare_draft_attachments env specs)"
  unfolding prepare_draft_attachments_def by (intro runs_intros)

subsection \<open>The contract of a property of the tables\<close>

text \<open>The rows a list of new attachments adds to a draft, one after the other.\<close>

inductive attached :: "NewDraftAttachment list \<Rightarrow> store \<Rightarrow> store \<Rightarrow> bool" where
  attached_none: "attached [] st st"
| attached_one: "draft_attachments_create n i now st = Ok (row, st1) \<Longrightarrow> attached ns st1 st2 \<Longrightarrow> attached (n # ns) st st2"

inductive_cases attached_ConsE: "attached (n # ns) st st'"

definition content_bytes :: "NewDraftAttachment list \<Rightarrow> nat" where
  "content_bytes ns = sum_list (map (\<lambda>n. length (nda_content n)) ns)"

locale dispatch_contract = sync_contract K K for K :: "store \<Rightarrow> bool" +
  assumes account_created: "K st \<Longrightarrow> accounts_create na i now st = Ok (a, st') \<Longrightarrow> K st'"
    and account_deleted: "K st \<Longrightarrow> K (snd (accounts_delete i st))"
    and secret_ref_set: "K st \<Longrightarrow> K (accounts_set_secret_ref i ref now st)"
    and folder_upserted: "K st \<Longrightarrow> folders_upsert nf i now st = Some (Ok (f, st')) \<Longrightarrow> K st'"
    and flags_set: "K st \<Longrightarrow> K (snd (messages_set_flags i flags st))"
    and message_moved: "K st \<Longrightarrow> messages_set_folder i f' st = Ok (b, st') \<Longrightarrow> K st'"
    and draft_created: "K st \<Longrightarrow> drafts_create nd i now st = Ok (d, st') \<Longrightarrow> K st'"
    and draft_patched: "K st \<Longrightarrow> K (snd (drafts_patch i p now st))"
    and draft_deleted: "K st \<Longrightarrow> K (snd (drafts_delete i st))"
    and attachments_replaced:
      "K st \<Longrightarrow> content_bytes ns \<le> draft_limit \<Longrightarrow> (\<And>n. n \<in> set ns \<Longrightarrow> nda_draft_id n = i) \<Longrightarrow>
       attached ns (snd (delete_all_for_draft i st)) st' \<Longrightarrow> K st'"
    and gate_created: "K st \<Longrightarrow> create_gate tool pat action note i now st = Ok (g, st') \<Longrightarrow> K st'"
    and gate_deleted: "K st \<Longrightarrow> K (snd (delete_gate i st))"
    and approval_created: "K st \<Longrightarrow> approvals_create tool args summary i now st = Ok (ap, st') \<Longrightarrow> K st'"
    and approval_decided: "K st \<Longrightarrow> actor_is_allowed who \<Longrightarrow> K (snd (decide_approval i state who now st))"
    and audited: "audit_record nae i now st = Ok (e, st') \<Longrightarrow> actor_is_allowed (nae_actor nae) \<Longrightarrow> K st \<Longrightarrow> K st'"

text \<open>A property that every statement keeps meets the contract.\<close>

locale statement_invariant =
  fixes K :: "store \<Rightarrow> bool"
  assumes exec: "K st \<Longrightarrow> K (db_exec c st)"
begin

lemma exec_Ok: "K st \<Longrightarrow> db_exec c st = committed st (Ok (x, st')) \<Longrightarrow> K st'"
  using exec [of st c] by (simp add: committed_def)

lemma exec_attached: "attached ns st st' \<Longrightarrow> K st \<Longrightarrow> K st'"
  by (induction rule: attached.induct) (metis exec_Ok db_exec.simps(20))+

end

sublocale statement_invariant \<subseteq> statements: dispatch_contract K
proof (unfold_locales, goal_cases)
  case (1 st a x sub i now t st') then show ?case using exec [of st "ThreadsCreate a x sub i now"] by (simp add: committed_def)
next
  case (2 st n i now m st') then show ?case using exec [of st "MessagesCreate n i now"] by (simp add: committed_def)
next
  case (3 st na i now b st') then show ?case using exec [of st "AttachmentsCreate na i now"] by (simp add: committed_def)
next
  case (4 st i now) then show ?case using exec [of st "ThreadsTouch i now"] by simp
next
  case (5 st i) then show ?case using exec [of st "ThreadsRefreshAggregates i"] by simp
next
  case (7 st i) then show ?case using exec [of st "MessagesDelete i"] by simp
next
  case (8 st i) then show ?case using exec [of st "MessagesDeleteAllInFolder i"] by simp
next
  case (9 st i v u l) then show ?case using exec [of st "FoldersUpdateUidState i v u l"] by simp
next
  case (10 st i status err t now) then show ?case using exec [of st "AccountsUpdateSync i status err t now"] by simp
next
  case (11 st na i now a st') then show ?case using exec [of st "AccountsCreate na i now"] by (simp add: committed_def)
next
  case (12 st i) then show ?case using exec [of st "AccountsDelete i"] by simp
next
  case (13 st i ref now) then show ?case using exec [of st "AccountsSetSecretRef i ref now"] by simp
next
  case (14 st nf i now f st') then show ?case using exec [of st "FoldersUpsert nf i now"] by (simp add: committed_def)
next
  case (15 st i flags) then show ?case using exec [of st "MessagesSetFlags i flags"] by simp
next
  case (16 st i f' b st') then show ?case using exec [of st "MessagesSetFolder i f'"] by (simp add: committed_def)
next
  case (17 st nd i now d st') then show ?case using exec [of st "DraftsCreate nd i now"] by (simp add: committed_def)
next
  case (18 st i p now) then show ?case using exec [of st "DraftsUpdate i p now"] by simp
next
  case (19 st i) then show ?case using exec [of st "DraftsDelete i"] by simp
next
  case (20 st ns i st') then show ?case using exec [of st "DraftAttachmentsDeleteAll i"] exec_attached by simp
next
  case (21 st tool pat action nt i now g st')
  then show ?case using exec [of st "GateCreate tool pat action nt i now"] by (simp add: committed_def)
next
  case (22 st i) then show ?case using exec [of st "GateDelete i"] by simp
next
  case (23 st tool args summary i now ap st')
  then show ?case using exec [of st "ApprovalCreate tool args summary i now"] by (simp add: committed_def)
next
  case (24 st who i state now) then show ?case using exec [of st "ApprovalDecide i state who now"] by simp
next
  case (25 nae i now st e st') then show ?case using exec [of st "AuditRecord nae i now"] by (simp add: committed_def)
qed

text \<open>The reload of an upserted folder finds it: the panic cannot happen.\<close>

lemma folders_upsert_returns: "\<exists>r. folders_upsert n i now st = Some r"
proof (cases "folders_get_by_name (nf_account_id n) (nf_name n) st")
  case (Some ex)
  then have "fld_id ex \<in> fld_id ` set (folders st)"
    by (auto simp: folders_get_by_name_def dest!: get_row_Some)
  moreover have "map fld_id (update_rows P (\<lambda>f. f\<lparr>fld_delimiter := nf_delimiter n, fld_role := nf_role n,
      fld_selectable := nf_selectable n\<rparr>) (folders st)) = map fld_id (folders st)" for P
    by (rule map_update_rows) simp
  ultimately have "get_row fld_id (fld_id ex) (update_rows P (\<lambda>f. f\<lparr>fld_delimiter := nf_delimiter n,
      fld_role := nf_role n, fld_selectable := nf_selectable n\<rparr>) (folders st)) \<noteq> None" for P
    by (metis get_row_None list.set_map)
  then show ?thesis using Some by (fastforce simp: folders_upsert_def Let_def folders_get_def)
qed (simp add: folders_upsert_def)

lemma actor_from_args_allowed: "actor_is_allowed (actor_from_args args)"
proof (cases "get_str args (lit ''_actor'')")
  case (Some a)
  then show ?thesis by (simp add: actor_from_args_def actor_is_allowed_def)
qed (simp add: actor_from_args_def actor_is_allowed_def)

lemma decided_by_allowed: "decided_by args = Ok who \<Longrightarrow> actor_is_allowed who"
  by (auto simp: decided_by_def actor_from_args_allowed split: option.splits if_splits)

text \<open>What the second loop hands over fits the limit.\<close>

lemma read_pending_bytes:
  assumes "read_pending env n ps s = Some (Ok prepared, s')" and "n \<le> draft_limit"
  shows "n + sum_list (map (\<lambda>p. length (pre_content p)) prepared) \<le> draft_limit"
  using assms
proof (induction ps arbitrary: n prepared s s')
  case Nil
  then show ?case by (simp add: act_give_def)
next
  case (Cons p ps)
  have bound: "draft_limit < u64_bound - 1" by (simp add: draft_limit_def MAX_DRAFT_ATTACHMENT_BYTES_def u64_bound_def)
  from Cons.prems(1) obtain content s1 rest r where
    c: "saturating_add_u64 n (length content) \<le> draft_limit"
    and tail: "read_pending env (saturating_add_u64 n (length content)) ps s1 = Some (Ok rest, s')"
    and prepared: "prepared = r # rest" "pre_content r = content"
    by (auto simp: act_iffs Let_def not_less split: if_splits)
  from c bound have "saturating_add_u64 n (length content) = n + length content"
    by (simp add: saturating_add_u64_def)
  with Cons.IH [OF tail] c prepared show ?case by simp
qed

definition new_rows :: "uuid \<Rightarrow> PreparedDraftAttachment list \<Rightarrow> NewDraftAttachment list" where
  "new_rows draft_id ps = map (\<lambda>a.
     \<lparr>nda_draft_id = draft_id, nda_filename = pre_filename a, nda_content_type = pre_content_type a,
      nda_content = pre_content a\<rparr>) ps"

lemma new_rows_draft: "n \<in> set (new_rows d ps) \<Longrightarrow> nda_draft_id n = d"
  by (auto simp: new_rows_def)

lemma prepare_attachments_bytes:
  assumes "prepare_draft_attachments env specs s = Some (Ok (Some prepared), s')"
  shows "content_bytes (new_rows draft_id prepared) \<le> draft_limit"
proof -
  obtain ps s1 where "read_pending env 0 ps s1 = Some (Ok prepared, s')"
    using assms
    by (auto simp: prepare_draft_attachments_def act_iffs split: option.splits)
  from read_pending_bytes [OF this] show ?thesis by (simp add: content_bytes_def new_rows_def o_def)
qed

text \<open>Attaching stops at the first failure, with a prefix of the rows in place.\<close>

lemma attach_to_draft_Ok:
  assumes "attach_to_draft env d p s = Some (Ok x, s')"
  shows "\<exists>i now. draft_attachments_create (hd (new_rows d [p])) i now (dm_store s) = Ok (x, dm_store s')"
    and "snd (dm_view s') = snd (dm_view s)"
proof -
  from assms have "db_create env (lit ''draft_attachments::create'') (draft_attachments_create (hd (new_rows d [p]))) s = Some (Ok x, s')"
    by (simp add: attach_to_draft_def internal_def act_map_err_Ok_iff new_rows_def)
  from db_create_Ok [OF this]
  show "\<exists>i now. draft_attachments_create (hd (new_rows d [p])) i now (dm_store s) = Ok (x, dm_store s')"
    "snd (dm_view s') = snd (dm_view s)" .
qed

lemma attach_to_draft_Err: "attach_to_draft env d p s = Some (Err e, s') \<Longrightarrow> dm_view s' = dm_view s"
  by (auto simp: attach_to_draft_def internal_def act_map_err_Err_iff dest: db_create_Err)

lemma attach_each:
  assumes "act_each (attach_to_draft env d) ps s = Some (r, s')"
  shows "\<exists>k. attached (new_rows d (take k ps)) (dm_store s) (dm_store s')"
  using assms
proof (induction ps arbitrary: s r)
  case Nil
  then show ?case by (simp add: act_give_iff new_rows_def attached_none)
next
  case (Cons p ps)
  obtain out where one: "attach_to_draft env d p s = Some out"
    using Cons.prems by (cases "attach_to_draft env d p s") (simp_all add: act_bind_def)
  obtain r1 s1 where out: "out = (r1, s1)" by (cases out)
  show ?case
  proof (cases r1)
    case (Inl e)
    then have "s' = s1" using Cons.prems by (simp add: act_bind_def one out)
    with attach_to_draft_Err one out Inl have "dm_store s' = dm_store s" by (blast intro: dm_view_store)
    then have "attached (new_rows d (take 0 (p # ps))) (dm_store s) (dm_store s')"
      by (simp add: new_rows_def attached_none)
    then show ?thesis by (rule exI)
  next
    case (Inr x)
    with attach_to_draft_Ok(1) one out obtain i now
      where created: "draft_attachments_create (hd (new_rows d [p])) i now (dm_store s) = Ok (x, dm_store s1)" by blast
    have "act_bind (act_each (attach_to_draft env d) ps) (\<lambda>ys. act_give (Ok (x # ys))) s1 = Some (r, s')"
      using Cons.prems by (simp add: act_bind_def one out Inr)
    then obtain r2 where "act_each (attach_to_draft env d) ps s1 = Some (r2, s')"
      by (cases r) (auto simp: act_bind_Ok_iff act_bind_Err_iff act_give_iff)
    from Cons.IH [OF this] obtain k where "attached (new_rows d (take k ps)) (dm_store s1) (dm_store s')" by blast
    then have "attached (hd (new_rows d [p]) # new_rows d (take k ps)) (dm_store s) (dm_store s')"
      by (rule attached_one [OF created])
    then have "attached (new_rows d (take (Suc k) (p # ps))) (dm_store s) (dm_store s')" by (simp add: new_rows_def)
    then show ?thesis by (rule exI)
  qed
qed

lemma content_bytes_take: "content_bytes (new_rows d (take k ps)) \<le> content_bytes (new_rows d ps)"
proof -
  have "new_rows d ps = new_rows d (take k ps) @ new_rows d (drop k ps)"
    by (simp add: new_rows_def flip: map_append)
  then show ?thesis by (simp add: content_bytes_def)
qed

lemma each_returns: "\<exists>r s'. act_each (attach_to_draft env d) ps s = Some (r, s')"
proof -
  have "runs True (\<lambda>v. v = v) (act_each (attach_to_draft env d) ps)"
    unfolding attach_to_draft_def by (intro runs_each runs_internal runs_create) simp
  from runs_returns [OF this refl] show ?thesis by blast
qed

context dispatch_contract
begin

abbreviation kept :: "daemon_view \<Rightarrow> bool" where
  "kept v \<equiv> K (fst v)"

lemma keep_audit_actor: "actor_is_allowed actor \<Longrightarrow> runs tot kept (audit_actor env actor action target details)"
  unfolding audit_actor_def by (intro runs_intros runs_create) (auto dest: audited)

lemma keep_audit: "runs tot kept (audit env action target details)"
  unfolding audit_def by (rule keep_audit_actor) (simp add: actor_is_allowed_def)

lemma keep_hub_publish: "runs tot kept (hub_publish topic v)"
  by (rule runs_publish) simp

lemmas keep_intros = runs_intros keep_audit keep_hub_publish keep_audit_actor [OF actor_from_args_allowed]

lemma keep_gate_ops:
  "runs tot kept (op_mcp_gate_create env args)" "runs tot kept (op_mcp_gate_delete env args)"
  unfolding op_mcp_gate_create_def op_mcp_gate_delete_def
  by (intro keep_intros runs_create runs_statement; auto intro: gate_created gate_deleted)+

lemma keep_approval_ops:
  "runs tot kept (op_mcp_approval_create env args)" "runs tot kept (op_mcp_approval_decide env args)"
  unfolding op_mcp_approval_create_def op_mcp_approval_decide_def
  by (intro keep_intros runs_create runs_stamped_statement;
      auto intro: approval_created approval_decided decided_by_allowed)+

lemma keep_account_ops:
  "runs tot kept (op_account_create env args)" "runs tot kept (op_account_delete env args)"
  unfolding op_account_create_def op_account_delete_def
  by (intro keep_intros runs_create runs_statement; auto intro: account_created account_deleted)+

lemma keep_message_ops:
  "runs tot kept (op_message_set_flags env args)" "runs tot kept (op_message_archive env args)"
  "runs tot kept (op_message_delete env args)" "runs tot kept (op_message_move env args)"
  unfolding op_message_set_flags_def op_message_archive_def op_message_delete_def op_message_move_def move_message_def
  by (intro keep_intros runs_statement runs_db_attempt; auto intro: flags_set message_moved)+

lemma keep_draft_delete: "runs tot kept (op_draft_delete env args)"
  unfolding op_draft_delete_def by (intro keep_intros runs_statement; auto intro: draft_deleted)

lemma keep_export: "runs tot kept (op_attachment_export env args)"
  unfolding op_attachment_export_def by (intro keep_intros)

lemma keep_send: "runs tot kept (op_message_send env args)"
  unfolding op_message_send_def after_send_def by (intro keep_intros runs_statement; auto intro: draft_deleted)

lemma keep_manager: "runs tot kept (act_manager f)"
  by (auto simp: runs_def act_manager_def dm_view_def split: prod.split)

lemma keep_worker_ops:
  "runs tot kept (op_account_start_sync env args)" "runs tot kept (op_account_stop_sync env args)"
  unfolding op_account_start_sync_def op_account_stop_sync_def by (intro keep_intros keep_manager)+

lemma keep_set_secret_ref: "runs tot kept (set_secret_ref env i ref)"
  unfolding set_secret_ref_def by (intro runs_internal runs_stamped_statement) (simp add: secret_ref_set)

lemma keep_secret_ops:
  "runs tot kept (op_account_set_secret env args)" "runs tot kept (op_account_delete_secret env args)"
  "runs tot kept (op_oauth_google_auth_url env args)" "runs tot kept (op_oauth_google_complete env args)"
  unfolding op_account_set_secret_def op_account_delete_secret_def op_oauth_google_auth_url_def
    op_oauth_google_complete_def secrets_err_def Let_def
  by (intro keep_intros keep_set_secret_ref)+

subsubsection \<open>Drafts and their attachments\<close>

lemma keep_replace:
  assumes "content_bytes (new_rows d ps) \<le> draft_limit"
  shows "runs tot kept (replace_draft_attachments env d ps)"
proof -
  let ?del = "db_attempt env (lit ''draft_attachments::delete_all'') (\<lambda>st. Ok (delete_all_for_draft d st))"
  have step: "\<exists>r s'. replace_draft_attachments env d ps s = Some (r, s') \<and> kept (dm_view s')"
    if q: "kept (dm_view s)" for s
  proof -
    obtain r1 s1 where del: "?del s = Some (r1, s1)"
      by (cases "?del s") (auto simp: db_attempt_def split: prod.splits option.splits sum.splits)
    show ?thesis
    proof (cases r1)
      case (Inl e)
      then have "dm_view s1 = dm_view s" using del by (simp add: db_attempt_Err)
      then show ?thesis
        using q del Inl by (simp add: replace_draft_attachments_def act_bind_def internal_def act_map_err_def)
    next
      case (Inr x)
      with del have "?del s = Some (Ok x, s1)" by simp
      from db_attempt_Ok(1) [OF this] have st: "dm_store s1 = snd (delete_all_for_draft d (dm_store s))" by simp
      obtain r2 s2 where each: "act_each (attach_to_draft env d) ps s1 = Some (r2, s2)"
        using each_returns by blast
      from attach_each [OF each] obtain k where
        "attached (new_rows d (take k ps)) (snd (delete_all_for_draft d (dm_store s))) (dm_store s2)"
        unfolding st by blast
      moreover have "content_bytes (new_rows d (take k ps)) \<le> draft_limit"
        using assms content_bytes_take [of d k ps] by simp
      ultimately have "K (dm_store s2)"
        using q attachments_replaced [OF _ _ new_rows_draft] by (simp add: dm_view_def)
      then show ?thesis
        using del Inr each
        by (cases r2) (simp_all add: replace_draft_attachments_def act_bind_def internal_def act_map_err_def act_give_def dm_view_def)
    qed
  qed
  show ?thesis unfolding runs_def using step by fastforce
qed

text \<open>A handler that reads the attachments first and then stores what it read.\<close>

lemma keep_with_attachments:
  assumes "\<And>atts. (\<And>ps d. atts = Some ps \<Longrightarrow> content_bytes (new_rows d ps) \<le> draft_limit) \<Longrightarrow> runs tot kept (f atts)"
  shows "runs tot kept (act_bind (prepare_draft_attachments env specs) f)"
proof -
  have "case act_bind (prepare_draft_attachments env specs) f s of None \<Rightarrow> \<not> tot | Some (_, s') \<Rightarrow> kept (dm_view s')"
    if q: "kept (dm_view s)" for s
  proof -
    obtain r s1 where prep: "prepare_draft_attachments env specs s = Some (r, s1)" and q1: "kept (dm_view s1)"
      using runs_returns [of kept "prepare_draft_attachments env specs" s, OF runs_prepare_attachments q] by blast
    show ?thesis
    proof (cases r)
      case (Inr atts)
      have "runs tot kept (f atts)"
        using prepare_attachments_bytes [of env specs s] prep Inr by (intro assms) blast
      then show ?thesis using q1 by (simp add: act_bind_def prep Inr runs_def)
    qed (simp add: act_bind_def prep q1)
  qed
  then show ?thesis unfolding runs_def by blast
qed

lemma keep_draft_create: "runs tot kept (op_draft_create env args)"
  unfolding op_draft_create_def
  by (intro keep_with_attachments keep_intros runs_create runs_statement keep_replace;
      auto intro: draft_created draft_deleted)

lemma keep_transaction:
  assumes "runs tot kept m"
  shows "runs tot kept (transaction env b c m)"
proof -
  let ?m = "act_bind m (\<lambda>x. act_bind (db_query env c (\<lambda>_. ())) (\<lambda>_. act_give (Ok x)))"
  have m: "runs tot kept ?m" by (intro keep_intros assms)
  have "case transaction env b c m s of None \<Rightarrow> \<not> tot | Some (_, s') \<Rightarrow> kept (dm_view s')" if q: "kept (dm_view s)" for s
  proof -
    obtain r s1 where begin_r: "db_query env b (\<lambda>st. st) s = Some (r, s1)" and q1: "kept (dm_view s1)"
      using runs_returns [of kept "db_query env b (\<lambda>st. st)" s, OF runs_query q] by blast
    show ?thesis
    proof (cases r)
      case (Inr before)
      then have "before = dm_store s"
        using begin_r db_attempt_Ok(1) by (fastforce simp: db_query_def internal_def act_map_err_Ok_iff)
      then have "K before" using q by (simp add: dm_view_def)
      moreover have "case ?m s1 of None \<Rightarrow> \<not> tot | Some (_, s') \<Rightarrow> kept (dm_view s')"
        using m q1 unfolding runs_def by blast
      ultimately show ?thesis
        by (simp add: transaction_def act_bind_def [of "db_query env b (\<lambda>st. st)"] begin_r Inr dm_view_def
            split: option.splits prod.splits sum.splits)
    qed (simp add: transaction_def act_bind_def begin_r q1)
  qed
  then show ?thesis unfolding runs_def by blast
qed

lemma keep_draft_update: "runs tot kept (op_draft_update env args)"
  unfolding op_draft_update_def update_draft_tx_def
  by (intro keep_with_attachments keep_intros keep_transaction runs_stamped_statement)
     (auto intro!: keep_intros keep_replace intro: draft_patched split: option.split)

subsubsection \<open>Folders and syncing\<close>

lemma keep_upsert_folder: "runs tot kept (db_upsert_folder env new)"
proof -
  have step: "runs tot kept (\<lambda>s. case folders_upsert new i now (dm_store s) of
      None \<Rightarrow> None | Some r \<Rightarrow> db_attempt env (lit ''folders::upsert'') (\<lambda>_. r) s)" for i now
    unfolding runs_def
  proof (intro allI impI)
    fix s :: "'a daemon"
    assume q: "kept (dm_view s)"
    obtain r where r: "folders_upsert new i now (dm_store s) = Some r" using folders_upsert_returns by blast
    show "case (case folders_upsert new i now (dm_store s) of
        None \<Rightarrow> None | Some r \<Rightarrow> db_attempt env (lit ''folders::upsert'') (\<lambda>_. r) s) of
      None \<Rightarrow> \<not> tot | Some (_, s') \<Rightarrow> kept (dm_view s')"
      using q r folder_upserted [of "dm_store s" new i now]
      by (auto simp: db_attempt_def dm_view_def split: prod.split option.split sum.split)
  qed
  show ?thesis unfolding db_upsert_folder_def by (intro runs_bind runs_world runs_prod step)
qed

lemma keep_folder_ops: "runs tot kept (op_folder_upsert env args)" "runs tot kept (op_account_test_login env args)"
  unfolding op_folder_upsert_def op_account_test_login_def by (intro keep_intros keep_upsert_folder)+

lemma keep_publish_state: "runs tot kept (act_publish_state env ev)"
  by (auto simp: runs_def act_publish_state_def publish_sync_state_def publish_def dm_view_def)

lemma keep_reconcile:
  assumes "tot \<Longrightarrow> imap_sync (dn_sync env) = connector_auth uc net tick"
  shows "runs tot kept (act_reconcile env i name credential)"
  unfolding runs_def
proof (intro allI impI)
  fix s :: "'a daemon"
  assume "kept (dm_view s)"
  then have k: "K (ys_store (dm_sync s))" by (simp add: dm_view_def)
  show "case act_reconcile env i name credential s of None \<Rightarrow> \<not> tot | Some (_, s') \<Rightarrow> kept (dm_view s')"
  proof (cases "reconcile_folder (dn_sync env) i name credential (dm_sync s)")
    case None
    have "\<not> tot"
    proof
      assume tot
      with assms have "imap_sync (dn_sync env) = connector_auth uc net tick" .
      from reconcile_folder_total [OF this] None show False by (metis option.distinct(1))
    qed
    then show ?thesis by (simp add: act_reconcile_def None)
  next
    case (Some out)
    with reconcile_keeps [of "dn_sync env" i name credential "dm_sync s"] k show ?thesis
      by (cases out) (auto simp: act_reconcile_def dm_view_def)
  qed
qed

lemma keep_sync_folder:
  assumes "tot \<Longrightarrow> imap_sync (dn_sync env) = connector_auth uc net tick"
  shows "runs tot kept (op_account_sync_folder env args)"
proof -
  note reconcile = keep_reconcile [OF assms]
  show ?thesis
    unfolding op_account_sync_folder_def Let_def by (intro keep_intros keep_publish_state reconcile)
qed

text \<open>Every request keeps the property.\<close>

lemma keep_dispatch:
  assumes "tot \<Longrightarrow> imap_sync (dn_sync env) = connector_auth uc net tick"
  shows "runs tot kept (dispatch env op args)"
  unfolding dispatch_def
  by (cases op)
     (simp_all add: runs_read_ops runs_attachment_preview runs_search runs_sql runs_draft_reads runs_prepare_ops
        runs_forward_ops keep_gate_ops keep_approval_ops keep_account_ops keep_message_ops keep_draft_delete
        keep_export keep_send keep_worker_ops keep_secret_ops keep_draft_create keep_draft_update keep_folder_ops
        keep_sync_folder [OF assms])

lemma dispatch_keeps:
  assumes "K (dm_store s)" and "dispatch env op args s = Some (r, s')"
  shows "K (dm_store s')"
proof -
  have "runs False kept (dispatch env op args)" by (rule keep_dispatch) simp
  from runsD [OF this _ assms(2)] assms(1) show ?thesis by (simp add: dm_view_def)
qed

lemma dispatch_returns:
  assumes "imap_sync (dn_sync env) = connector_auth uc net tick" and "K (dm_store s)"
  shows "\<exists>r s'. dispatch env op args s = Some (r, s') \<and> K (dm_store s')"
proof -
  have "runs True kept (dispatch env op args)" by (rule keep_dispatch [OF assms(1)])
  from runs_returns [OF this, of s] assms(2) show ?thesis by (simp add: dm_view_def)
qed

end

subsection \<open>Properties every request keeps\<close>

interpretation request_schema: statement_invariant db_wf
  by unfold_locales (rule db_exec_wf)

interpretation request_decision: statement_invariant
  "\<lambda>st. db_wf st \<and> approvals_get i st = Some a \<and> ap_state a \<noteq> Pending" for i a
  by unfold_locales (auto intro: db_exec_wf decided_kept)

text \<open>The identities on record: actors of the audit trail and deciders of approvals.\<close>

definition identities_allowed :: "store \<Rightarrow> bool" where
  "identities_allowed st \<longleftrightarrow>
     list_all (\<lambda>e. actor_is_allowed (aud_actor e)) (audit_log st) \<and>
     list_all (\<lambda>a. pred_option actor_is_allowed (ap_decided_by a)) (mcp_approvals st)"

lemma identities_frame:
  "audit_log st' = audit_log st \<Longrightarrow> mcp_approvals st' = mcp_approvals st \<Longrightarrow> identities_allowed st' = identities_allowed st"
  by (simp add: identities_allowed_def)

lemma cascade_frame [simp]:
  "audit_log (cascade st) = audit_log st" "mcp_approvals (cascade st) = mcp_approvals st"
  by (simp_all add: cascade_def Let_def)

lemma attached_frame: "attached ns st st' \<Longrightarrow> audit_log st' = audit_log st \<and> mcp_approvals st' = mcp_approvals st"
  by (induction rule: attached.induct) (auto simp: draft_attachments_create_def Let_def split: if_splits)

lemmas create_defs = threads_create_def messages_create_def attachments_create_def accounts_create_def
  folders_create_def drafts_create_def create_gate_def approvals_create_def audit_record_def

lemmas change_defs = threads_touch_last_message_at_def threads_refresh_aggregates_def messages_delete_def
  delete_all_in_folder_def folders_update_uid_state_def accounts_update_sync_def accounts_delete_def
  accounts_set_secret_ref_def folders_upsert_def messages_set_flags_def messages_set_folder_def drafts_patch_def
  drafts_delete_def delete_all_for_draft_def delete_gate_def decide_approval_def

interpretation request_identities: dispatch_contract identities_allowed
proof (unfold_locales, goal_cases)
  case (20 st ns i st')
  then show ?case using attached_frame identities_frame [of st' st] by (simp add: delete_all_for_draft_def)
next
  case (24 st who i state now)
  then show ?case by (auto simp: identities_allowed_def decide_approval_def Let_def update_rows_def list_all_iff)
next
  case (25 nae i now st e st')
  then show ?case by (auto simp: identities_allowed_def audit_record_def Let_def split: if_splits)
next
  case (23 st tool args summary i now ap st')
  then show ?case by (auto simp: identities_allowed_def approvals_create_def Let_def split: if_splits)
qed (auto simp: identities_allowed_def create_defs change_defs Let_def split: if_splits option.splits)

text \<open>The bytes attached to one draft stay within the limit.\<close>

definition drafts_within_limit :: "store \<Rightarrow> bool" where
  "drafts_within_limit st \<longleftrightarrow>
     list_all (\<lambda>a. aggregate_size_for_draft (dat_draft_id a) st \<le> MAX_DRAFT_ATTACHMENT_BYTES) (draft_attachments st)"

lemma within_limit_iff:
  "drafts_within_limit st \<longleftrightarrow> (\<forall>d. aggregate_size_for_draft d st \<le> MAX_DRAFT_ATTACHMENT_BYTES)"
proof -
  have "aggregate_size_for_draft d st = 0" if "d \<notin> dat_draft_id ` set (draft_attachments st)" for d
  proof -
    have "filter (\<lambda>a. dat_draft_id a = d) (draft_attachments st) = []" using that by (auto simp: filter_empty_conv)
    then show ?thesis by (simp add: aggregate_size_for_draft_def)
  qed
  then have "aggregate_size_for_draft d st \<le> MAX_DRAFT_ATTACHMENT_BYTES" if "drafts_within_limit st" for d
    using that
    by (cases "d \<in> dat_draft_id ` set (draft_attachments st)")
       (auto simp: drafts_within_limit_def list_all_iff MAX_DRAFT_ATTACHMENT_BYTES_def)
  then show ?thesis by (auto simp: drafts_within_limit_def list_all_iff)
qed

lemma within_limit_filter:
  assumes "drafts_within_limit st" and "draft_attachments st' = filter (\<lambda>a. P (dat_draft_id a)) (draft_attachments st)"
  shows "drafts_within_limit st'"
proof -
  have "aggregate_size_for_draft d st' = (if P d then aggregate_size_for_draft d st else 0)" for d
  proof -
    have "filter (\<lambda>a. dat_draft_id a = d) (draft_attachments st') =
        (if P d then filter (\<lambda>a. dat_draft_id a = d) (draft_attachments st) else [])"
      unfolding assms(2) by (auto simp: filter_empty_conv intro!: filter_cong)
    then show ?thesis by (simp add: aggregate_size_for_draft_def)
  qed
  with assms(1) show ?thesis by (auto simp: within_limit_iff MAX_DRAFT_ATTACHMENT_BYTES_def)
qed

lemma within_limit_frame [simp]:
  "drafts_within_limit (st\<lparr>accounts := as\<rparr>) = drafts_within_limit st"
  "drafts_within_limit (st\<lparr>folders := fs\<rparr>) = drafts_within_limit st"
  "drafts_within_limit (st\<lparr>threads := ts\<rparr>) = drafts_within_limit st"
  "drafts_within_limit (st\<lparr>messages := ms\<rparr>) = drafts_within_limit st"
  "drafts_within_limit (st\<lparr>attachments := bs\<rparr>) = drafts_within_limit st"
  "drafts_within_limit (st\<lparr>drafts := ds\<rparr>) = drafts_within_limit st"
  "drafts_within_limit (st\<lparr>mcp_gates := gs\<rparr>) = drafts_within_limit st"
  "drafts_within_limit (st\<lparr>mcp_approvals := ps\<rparr>) = drafts_within_limit st"
  "drafts_within_limit (st\<lparr>audit_log := es\<rparr>) = drafts_within_limit st"
  by (simp_all add: drafts_within_limit_def aggregate_size_for_draft_def)

lemma within_limit_cascade: "drafts_within_limit st \<Longrightarrow> drafts_within_limit (cascade st)"
  by (rule within_limit_filter) (simp_all add: cascade_def Let_def live_def)

lemma attached_aggregate:
  assumes "attached ns st st'" and "\<And>n. n \<in> set ns \<Longrightarrow> nda_draft_id n = i"
  shows "aggregate_size_for_draft d st' = aggregate_size_for_draft d st + (if d = i then int (content_bytes ns) else 0)"
  using assms
proof (induction rule: attached.induct)
  case (attached_one n j now st row st1 ns st2)
  have "aggregate_size_for_draft d st1 = aggregate_size_for_draft d st + (if d = i then int (length (nda_content n)) else 0)"
    using attached_one.hyps(1) attached_one.prems [of n]
    by (auto simp: draft_attachments_create_def Let_def aggregate_size_for_draft_def draft_attachment_row_def split: if_splits)
  with attached_one.IH attached_one.prems show ?case by (simp add: content_bytes_def)
qed (simp add: content_bytes_def)

interpretation request_sizes: dispatch_contract drafts_within_limit
proof (unfold_locales, goal_cases)
  case (20 st ns i st')
  have del: "drafts_within_limit (snd (delete_all_for_draft i st))"
    by (rule within_limit_filter [OF 20(1), where P = "\<lambda>d. d \<noteq> i"]) (simp add: delete_all_for_draft_def delete_rows_def)
  have "aggregate_size_for_draft i (snd (delete_all_for_draft i st)) = 0"
    by (simp add: aggregate_size_for_draft_def delete_all_for_draft_def delete_rows_def filter_empty_conv)
  with del 20(2) attached_aggregate [OF 20(4,3)] show ?case
    by (auto simp: within_limit_iff draft_limit_def MAX_DRAFT_ATTACHMENT_BYTES_def)
qed (auto simp: create_defs change_defs within_limit_cascade Let_def split: if_splits option.splits)

subsection \<open>A daemon to run requests on\<close>

definition sample_net :: "nat \<Rightarrow> unit imap_net" where
  "sample_net _ = \<lparr>net_connect = (\<lambda>_ _. Some (Ok ())), net_greeting = (\<lambda>_. Some (Ok (Some ()))),
     net_login = (\<lambda>_ _ _. Some (Ok (mailbox_session (Some 1) 5 []))), net_authenticate = (\<lambda>_ _ _. None)\<rparr>"

definition sample_secrets :: "nat secret_ops" where
  "sample_secrets = \<lparr>secrets_put = (\<lambda>_ _ w. (Ok (), w)), secrets_get = (\<lambda>_ w. (Ok (Some (lit ''pw'')), w)),
     secrets_delete = (\<lambda>_ w. (Ok (), w)), secrets_ref = show_nat, stored_to_string = (\<lambda>_. Err []),
     stored_from_str = (\<lambda>_. Err [])\<rparr>"

definition sample_daemon_env :: "nat daemon_env" where
  "sample_daemon_env =
     \<lparr>dn_sync = (sample_env [] 5 sample_mail)\<lparr>imap_sync := connector_auth ascii_unicode sample_net Suc\<rparr>,
      dn_db_fault = (\<lambda>_ w. (None, w)), dn_db_text = (\<lambda>_. []), dn_sql = (\<lambda>_. sample_sql_env 0),
      dn_schema_rows = (\<lambda>_. Ok []), dn_fts = (\<lambda>_ _. Ok []), dn_parse_uuid = (\<lambda>t. Ok (length t)),
      dn_parse_rfc3339 = (\<lambda>_. Err []), dn_json_from_str = (\<lambda>_. Err []), dn_serde_error = (\<lambda>_ _. []),
      dn_time_text = show_int, dn_rfc2822 = show_int, dn_base64 = (\<lambda>_. []), dn_new_uuid = (\<lambda>w. (w, w + 1)),
      dn_mime = (\<lambda>w. (MimeBuilder.sample_env, w)), dn_metadata = (\<lambda>_ _. Err []), dn_fs_write = (\<lambda>_ _ w. (Ok (), w)),
      dn_io_kind = (\<lambda>_. IoOther), dn_mime_guess = (\<lambda>_. None), dn_imap = (\<lambda>_ _ _ _ w. (Ok [], w)),
      dn_secrets = sample_secrets,
      dn_oauth = \<lparr>http_post_form = (\<lambda>_ w. (Err [], w)), oauth_clock = (\<lambda>w. (0, w)), checked_add = (\<lambda>t d. Some (t + d))\<rparr>,
      dn_smtp = (\<lambda>_ w. (Ok (), w + 100)), dn_has_idle = True, dn_has_resolver = True\<rparr>"

definition sample_daemon :: "nat daemon" where
  "sample_daemon = \<lparr>dm_sync = sample_state, dm_manager = new_manager\<rparr>"

lemma sample_daemon_imap: "imap_sync (dn_sync sample_daemon_env) = connector_auth ascii_unicode sample_net Suc"
  by (simp add: sample_daemon_env_def)

lemma sample_daemon_store [simp]: "dm_store sample_daemon = ys_store sample_state"
  by (simp add: sample_daemon_def)

subsection \<open>The daemon as a whole\<close>

text \<open>Requests handled one after the other.\<close>

fun serve :: "'w daemon_env \<Rightarrow> (Op \<times> json) list \<Rightarrow> 'w daemon \<Rightarrow> 'w daemon option" where
  "serve env [] s = Some s"
| "serve env ((op, args) # requests) s =
     (case dispatch env op args s of None \<Rightarrow> None | Some (_, s') \<Rightarrow> serve env requests s')"



lemma sample_dispatch: "\<exists>r s'. dispatch sample_daemon_env op args sample_daemon = Some (r, s')"
  using request_schema.statements.dispatch_returns [OF sample_daemon_imap, of sample_daemon op args] sample_wf by auto

text \<open>
  C5: every entry of the audit trail and every decision on an approval carries an allowed
  identity, \<^verbatim>\<open>user\<close> or \<^verbatim>\<open>mcp:\<close> with a name of at most 128 bytes, whatever identity a request claims.
\<close>

theorem recorded_identities_allowed:
  assumes "identities_allowed (dm_store s)" and "dispatch env op args s = Some (r, s')"
  shows "identities_allowed (dm_store s')"
  using assms by (rule request_identities.dispatch_keeps)

theorem recorded_identities_allowed_witness:
  "\<exists>r s'. dispatch sample_daemon_env OpMcpGateDelete
       (JObject [(lit ''_actor'', JString (lit ''root'')), (lit ''id'', JString [])]) sample_daemon = Some (r, s') \<and>
     identities_allowed (dm_store s')"
proof -
  have "identities_allowed (dm_store sample_daemon)"
    by (simp add: identities_allowed_def sample_state_def empty_store_def)
  from sample_dispatch recorded_identities_allowed [OF this] show ?thesis by blast
qed

text \<open>
  C10: whatever draft requests the daemon handles, the attachments of one draft never hold more than
  25 MiB together, although each file is measured before it is read and may grow in between.
\<close>

theorem draft_attachments_bounded:
  assumes "drafts_within_limit (dm_store s)" and "dispatch env op args s = Some (r, s')"
  shows "drafts_within_limit (dm_store s')"
  using assms by (rule request_sizes.dispatch_keeps)

theorem draft_attachments_bounded_witness:
  "\<exists>r s'. dispatch sample_daemon_env OpDraftCreate JNull sample_daemon = Some (r, s') \<and> drafts_within_limit (dm_store s')"
proof -
  have "drafts_within_limit (dm_store sample_daemon)"
    by (simp add: drafts_within_limit_def sample_state_def empty_store_def)
  from sample_dispatch draft_attachments_bounded [OF this] show ?thesis by blast
qed

text \<open>
  C6: a decision on an approval is final: no request of any kind changes or removes a decided
  approval.
\<close>

theorem decided_approval_final:
  assumes "db_wf (dm_store s)" and "approvals_get i (dm_store s) = Some a" and "ap_state a \<noteq> Pending"
    and "dispatch env op args s = Some (r, s')"
  shows "approvals_get i (dm_store s') = Some a"
proof -
  have "db_wf (dm_store s) \<and> approvals_get i (dm_store s) = Some a \<and> ap_state a \<noteq> Pending" using assms by blast
  from request_decision.statements.dispatch_keeps [OF this assms(4)] show ?thesis by blast
qed

theorem decided_approval_final_witness:
  "\<exists>r s'. dispatch sample_daemon_env OpMcpApprovalDecide
       (JObject [(lit ''id'', JString [0]), (lit ''state'', JString (lit ''allowed''))])
       (sample_daemon\<lparr>dm_sync := sample_state\<lparr>ys_store := sample_decided\<rparr>\<rparr>) = Some (r, s') \<and>
     approvals_get 1 (dm_store s') = Some sample_approval"
proof -
  let ?s = "sample_daemon\<lparr>dm_sync := sample_state\<lparr>ys_store := sample_decided\<rparr>\<rparr>"
  let ?args = "JObject [(lit ''id'', JString [0]), (lit ''state'', JString (lit ''allowed''))]"
  have wf: "db_wf (dm_store ?s)" using sample_decided_wf by simp
  obtain r s' where run: "dispatch sample_daemon_env OpMcpApprovalDecide ?args ?s = Some (r, s')"
    using request_schema.statements.dispatch_returns [OF sample_daemon_imap wf] by blast
  have "approvals_get 1 (dm_store ?s) = Some sample_approval" "ap_state sample_approval \<noteq> Pending"
    using sample_decided_get by (simp_all add: sample_approval_def)
  from decided_approval_final [OF wf this run] run show ?thesis by blast
qed

text \<open>
  C4: a tool that an MCP client may call without passing the gates changes nothing: its daemon
  request returns and leaves the database, the published events and the workers as they were.
\<close>

theorem ungated_tools_change_nothing:
  assumes "tool \<in> set TOOLS" and "\<not> dangerous tool"
  shows "\<exists>r s'. dispatch env (tool_op tool) args s = Some (r, s') \<and> dm_view s' = dm_view s"
proof -
  have "op_group (tool_op tool) = ReadOps" using assms by (auto simp: TOOLS_def)
  then have "runs True (\<lambda>v. v = dm_view s) (dispatch env (tool_op tool) args)"
    by (cases "tool_op tool")
       (simp_all add: dispatch_def runs_read_ops runs_attachment_preview runs_search runs_sql)
  from runs_returns [OF this, of s] show ?thesis by blast
qed

theorem ungated_tools_change_nothing_witness:
  "hd TOOLS \<in> set TOOLS \<and> \<not> dangerous (hd TOOLS) \<and>
   (\<exists>r s'. dispatch sample_daemon_env (tool_op (hd TOOLS)) JNull sample_daemon = Some (r, s') \<and>
      dm_view s' = dm_view sample_daemon)"
proof -
  have "hd TOOLS \<in> set TOOLS" "\<not> dangerous (hd TOOLS)" by (simp_all add: TOOLS_def)
  with ungated_tools_change_nothing [OF this] show ?thesis by blast
qed

end
