(* ===== verification/DaemonProps.thy ===== *)
theory DaemonProps
  imports Dispatcher
begin

text \<open>
  Properties of single operations of the daemon: sending a draft, updating one, credentials and
  the attachments of a forward.
\<close>

subsection \<open>Sending\<close>

lemma parse_addr_array_Ok:
  "parse_addr_array as field = Ok xs \<Longrightarrow> xs = map trim as \<and> list_all (\<lambda>x. x \<noteq> []) xs"
  by (induction as arbitrary: xs) (force simp: result_simps split: if_splits)+

lemma view_frame: "runs True (\<lambda>v. v = dm_view s) m \<Longrightarrow> m s = Some (r, s') \<Longrightarrow> dm_view s' = dm_view s"
  using runsD [of True "\<lambda>v. v = dm_view s" m s r s'] by simp

lemma db_query_Ok:
  assumes "db_query env ctx q s = Some (Ok x, s')"
  shows "x = q (dm_store s)" and "dm_view s' = dm_view s"
proof -
  from assms have "db_attempt env ctx (\<lambda>st. Ok (q st, st)) s = Some (Ok x, s')"
    by (simp add: db_query_def internal_def act_map_err_Ok_iff)
  from db_attempt_Ok(1) [OF this] show "x = q (dm_store s)" by auto
  show "dm_view s' = dm_view s" by (rule view_frame [OF runs_query assms])
qed

lemma require_account_Ok:
  assumes "require_account env i s = Some (Ok account, s')"
  shows "accounts_get i (dm_store s) = Some account" and "dm_view s' = dm_view s"
proof -
  from assms show "accounts_get i (dm_store s) = Some account"
    by (auto simp: require_account_def act_iffs dest!: db_query_Ok(1) dest: sym simp: result_simps eq_commute [of "Inr _" "ok_or _ _"])
  show "dm_view s' = dm_view s" by (rule view_frame [OF runs_require(2) assms])
qed

lemma prepare_send_Ok:
  assumes "prepare_send env account_id draft_id s = Some (Ok (request, message_id, n), s')"
  shows "\<exists>account draft mime_parts atts.
     accounts_get account_id (dm_store s) = Some account \<and> drafts_get draft_id (dm_store s) = Some draft \<and>
     dft_account_id draft = account_id \<and> sub_from request = acc_email account \<and>
     sub_recipients request = map trim (dft_to_addrs draft @ dft_cc_addrs draft @ dft_bcc_addrs draft) \<and>
     sub_recipients request \<noteq> [] \<and> list_all (\<lambda>a. a \<noteq> []) (sub_recipients request) \<and>
     (\<forall>bcc. sub_mime request = as_bytes (build_mime_full mime_parts
        (send_options account (draft\<lparr>dft_bcc_addrs := bcc\<rparr>) (map trim (dft_to_addrs draft))
           (map trim (dft_cc_addrs draft)) message_id atts)))"
proof -
  from assms obtain account draft s1 s2 to_list cc_list bcc_list recipients smtp_port credential mime_parts atts where
    acc: "require_account env account_id s = Some (Ok account, s1)"
    and get: "db_query env (lit ''drafts::get'') (drafts_get draft_id) s1 = Some (Ok (Some draft), s2)"
    and own: "dft_account_id draft = account_id"
    and lists: "parse_addr_array (dft_to_addrs draft) (lit ''to_addrs'') = Ok to_list"
      "parse_addr_array (dft_cc_addrs draft) (lit ''cc_addrs'') = Ok cc_list"
      "parse_addr_array (dft_bcc_addrs draft) (lit ''bcc_addrs'') = Ok bcc_list"
      "all_recipients to_list cc_list bcc_list = Ok recipients"
    and request: "request = submit_request account smtp_port credential recipients
       (build_mime_full mime_parts (send_options account draft to_list cc_list message_id atts))"
    unfolding prepare_send_def act_bind_Ok_iff act_let_Ok_iff act_if_iff Let_def act_give_iff
    by (auto simp: result_simps split: if_splits)
  from db_query_Ok(1) [OF get] require_account_Ok(2) [OF acc]
  have draft: "drafts_get draft_id (dm_store s) = Some draft" by (simp add: dm_view_def)
  note addrs = lists(1-3) [THEN parse_addr_array_Ok]
  have "recipients = map trim (dft_to_addrs draft @ dft_cc_addrs draft @ dft_bcc_addrs draft)" "recipients \<noteq> []"
    "list_all (\<lambda>a. a \<noteq> []) recipients"
    using lists(4) addrs by (auto simp: all_recipients_def Let_def split: if_splits)
  moreover have "send_options account (draft\<lparr>dft_bcc_addrs := bcc\<rparr>) = send_options account draft" for bcc
    by (simp add: fun_eq_iff send_options_def)
  ultimately show ?thesis
    using require_account_Ok(1) [OF acc] draft own request addrs
    by (auto simp: submit_request_def)
qed

text \<open>A delivery that fails leaves the draft where it is.\<close>

lemma audit_actor_Ok: "audit_actor env actor action target details s = Some (r, s') \<Longrightarrow> r = Ok ()"
  by (auto simp: audit_actor_def act_bind_def act_attempt_def act_give_def split: option.splits sum.splits)

lemma after_send_Ok: "after_send env account_id draft_id s = Some (r, s') \<Longrightarrow> r = Ok ()"
  by (auto simp: after_send_def hub_publish_def act_bind_def act_attempt_def act_give_def split: option.splits sum.splits)

lemma send_error_frame:
  assumes "op_message_send env args s = Some (Err e, s')"
  shows "dm_view s' = dm_view s"
proof -
  have prep: "prepare_send env a d s = Some (r, s1) \<Longrightarrow> dm_view s1 = dm_view s" for a d r s1
    by (rule view_frame [OF runs_prepare_send])
  show ?thesis
    using assms
    by (auto simp: op_message_send_def act_iffs dest!: audit_actor_Ok after_send_Ok act_world_view prep)
qed

lemma after_send_deletes:
  assumes "after_send env account_id draft_id s = Some (r, s')"
    and "\<And>w. fst (dn_db_fault env (lit ''drafts::delete'') w) = None"
  shows "drafts_get draft_id (dm_store s') = None"
proof -
  let ?del = "db_attempt env (lit ''drafts::delete'') (\<lambda>st. Ok (drafts_delete draft_id st))"
  obtain w where del: "?del s = Some (Ok (fst (drafts_delete draft_id (dm_store s))),
      s\<lparr>dm_sync := (dm_sync s)\<lparr>ys_store := snd (drafts_delete draft_id (dm_store s)), ys_world := w\<rparr>\<rparr>)"
    using assms(2) [of "dm_world s"]
    by (cases "dn_db_fault env (lit ''drafts::delete'') (dm_world s)") (auto simp: db_attempt_def drafts_delete_def)
  have "dft_id d \<noteq> draft_id" if "d \<in> set (drafts (snd (drafts_delete draft_id st)))" for d st
    using that by (auto simp: drafts_delete_def cascade_def Let_def live_def delete_rows_def)
  then have "drafts_get draft_id (snd (drafts_delete draft_id st)) = None" for st
    by (auto simp: drafts_get_def get_row_None)
  with assms(1) del show ?thesis
    by (auto simp: after_send_def act_bind_def act_attempt_def hub_publish_def publish_def)
qed

text \<open>
  The request handed to the SMTP server for a draft of the account goes to every address of the
  draft, none of them empty, and its text does not depend on the blind copies.
\<close>

theorem sent_request_shape:
  assumes "prepare_send env account_id draft_id s = Some (Ok (request, message_id, n), s')"
  shows "\<exists>account draft mime_parts atts.
     accounts_get account_id (dm_store s) = Some account \<and> drafts_get draft_id (dm_store s) = Some draft \<and>
     dft_account_id draft = account_id \<and> sub_from request = acc_email account \<and>
     sub_recipients request = map trim (dft_to_addrs draft @ dft_cc_addrs draft @ dft_bcc_addrs draft) \<and>
     sub_recipients request \<noteq> [] \<and> list_all (\<lambda>a. a \<noteq> []) (sub_recipients request) \<and>
     (\<forall>bcc. sub_mime request = as_bytes (build_mime_full mime_parts
        (send_options account (draft\<lparr>dft_bcc_addrs := bcc\<rparr>) (map trim (dft_to_addrs draft))
           (map trim (dft_cc_addrs draft)) message_id atts)))"
  using assms by (rule prepare_send_Ok)

definition sample_draft :: Draft where
  "sample_draft = \<lparr>dft_id = 0, dft_account_id = 0, dft_in_reply_to_msg = None,
     dft_to_addrs = [lit '' a@x'', lit ''b@x''], dft_cc_addrs = [], dft_bcc_addrs = [lit ''c@x''],
     dft_subject = Some (lit ''hi''), dft_text_body = Some (lit ''t''), dft_html_body = None,
     dft_in_reply_to = None, dft_references_header = None, dft_remote_folder_id = None, dft_remote_uid = None,
     dft_created_at = 0, dft_updated_at = 0\<rparr>"

definition sample_drafts :: "nat daemon" where
  "sample_drafts = sample_daemon\<lparr>dm_sync := sample_state\<lparr>ys_store := (ys_store sample_state)\<lparr>drafts := [sample_draft]\<rparr>\<rparr>\<rparr>"

lemma sample_query: "db_query sample_daemon_env ctx q s = Some (Ok (q (dm_store s)), s)"
  by (simp add: db_query_def internal_def act_map_err_def db_attempt_def sample_daemon_env_def result_simps)

lemma sample_rows:
  "accounts_get 0 (dm_store sample_drafts) = Some sample_account"
  "drafts_get 0 (dm_store sample_drafts) = Some sample_draft"
  "draft_attachments_list_for_draft 0 (dm_store sample_drafts) = []"
  by (simp_all add: sample_drafts_def sample_state_def empty_store_def sample_account_def account_row_def sample_draft_def
      accounts_get_def drafts_get_def draft_attachments_list_for_draft_def get_row_def order_by_def)

lemma sample_trims: "trim (lit '' a@x'') = lit ''a@x''" "trim (lit ''b@x'') = lit ''b@x''" "trim (lit ''c@x'') = lit ''c@x''"
  by (simp_all add: trim_def trim_start_def trim_end_def lit_def is_whitespace_def)

lemma lit_empty: "lit t = [] \<longleftrightarrow> t = []"
  by (simp add: lit_def)

lemma sample_lists:
  "parse_addr_array (dft_to_addrs sample_draft) f = Ok [lit ''a@x'', lit ''b@x'']"
  "parse_addr_array (dft_cc_addrs sample_draft) f = Ok []"
  "parse_addr_array (dft_bcc_addrs sample_draft) f = Ok [lit ''c@x'']"
  "all_recipients [lit ''a@x'', lit ''b@x''] [] [lit ''c@x''] = Ok [lit ''a@x'', lit ''b@x'', lit ''c@x'']"
  "smtp_port_u16 (acc_smtp_port sample_account) = Ok 465" "dft_account_id sample_draft = 0"
  by (simp_all add: sample_draft_def sample_trims all_recipients_def sample_account_def account_row_def
      smtp_port_u16_def result_simps lit_empty)

lemma sample_credential: "credential_for_account sample_daemon_env sample_account s = Some (Ok (CredPassword (lit ''pw'')), s)"
  by (simp add: credential_for_account_def secrets_err_def act_bind_def act_map_err_def act_world_def act_let_def
      act_give_def sample_daemon_env_def sample_secrets_def sample_account_def account_row_def result_simps)

lemma sample_prepare: "\<exists>request mid n s'. prepare_send sample_daemon_env 0 0 sample_drafts = Some (Ok (request, mid, n), s')"
  by (simp add: prepare_send_def require_account_def act_bind_def act_let_def act_give_def sample_query sample_rows
      sample_lists sample_credential result_simps act_world_def load_draft_mime_attachments_def Let_def
      split: prod.splits)

theorem sent_request_shape_witness:
  "\<exists>request mid n s' account mime_parts atts.
     prepare_send sample_daemon_env 0 0 sample_drafts = Some (Ok (request, mid, n), s') \<and>
     sub_recipients request = [lit ''a@x'', lit ''b@x'', lit ''c@x''] \<and>
     (\<forall>bcc. sub_mime request = as_bytes (build_mime_full mime_parts
        (send_options account (sample_draft\<lparr>dft_bcc_addrs := bcc\<rparr>) [lit ''a@x'', lit ''b@x''] [] mid atts)))"
proof -
  obtain request mid n s' where run: "prepare_send sample_daemon_env 0 0 sample_drafts = Some (Ok (request, mid, n), s')"
    using sample_prepare by blast
  have draft: "drafts_get 0 (dm_store sample_drafts) = Some sample_draft"
    by (rule sample_rows)
  have addrs: "map trim (dft_to_addrs sample_draft) = [lit ''a@x'', lit ''b@x'']" "map trim (dft_cc_addrs sample_draft) = []"
    "map trim (dft_bcc_addrs sample_draft) = [lit ''c@x'']"
    by (simp_all add: sample_draft_def sample_trims)
  from sent_request_shape [OF run] draft addrs run show ?thesis by fastforce
qed

lemma audit_frame:
  assumes "audit_actor env actor action target details s = Some (r, s')"
  shows "(dm_store s')\<lparr>audit_log := []\<rparr> = (dm_store s)\<lparr>audit_log := []\<rparr>"
proof -
  let ?Q = "\<lambda>(st :: store, _, _). st\<lparr>audit_log := []\<rparr> = (dm_store s)\<lparr>audit_log := []\<rparr>"
  have "runs True ?Q (audit_actor env actor action target details)"
    unfolding audit_actor_def
    by (intro runs_bind runs_attempt runs_create runs_give) (auto simp: audit_record_def Let_def split: if_splits)
  from runsD [OF this _ assms] show ?thesis by (simp add: dm_view_def)
qed

lemma drafts_get_frame: "drafts_get i (st\<lparr>audit_log := es\<rparr>) = drafts_get i st"
  by (simp add: drafts_get_def)

lemma accounts_get_frame: "accounts_get i (st\<lparr>audit_log := es\<rparr>) = accounts_get i st"
  by (simp add: accounts_get_def)

lemma send_Ok:
  assumes "op_message_send env args s = Some (Ok v, s')"
    and "\<And>w. fst (dn_db_fault env (lit ''drafts::delete'') w) = None"
  shows "\<exists>draft_id. parse_id env args (lit ''draft_id'') = Ok draft_id \<and> drafts_get draft_id (dm_store s') = None"
proof -
  from assms(1) obtain draft_id account_id s1 s2 details action target where
    "parse_id env args (lit ''draft_id'') = Ok draft_id"
    and after: "after_send env account_id draft_id s1 = Some (Ok (), s2)"
    and audit: "audit_actor env (actor_from_args args) action target details s2 = Some (Ok () :: (RpcError, unit) result, s')"
    by (auto simp: op_message_send_def act_iffs)
  moreover have "drafts_get draft_id (dm_store s') = drafts_get draft_id (dm_store s2)"
    using audit_frame [OF audit] drafts_get_frame by metis
  ultimately show ?thesis using after_send_deletes [OF after assms(2)] by simp
qed


definition sample_send_args :: json where
  "sample_send_args = JObject [(lit ''account_id'', JString []), (lit ''draft_id'', JString [])]"

lemma sample_send_ids:
  "parse_id sample_daemon_env sample_send_args (lit ''account_id'') = Ok 0"
  "parse_id sample_daemon_env sample_send_args (lit ''draft_id'') = Ok 0"
  by (simp_all add: parse_id_def get_str_def sample_send_args_def sample_daemon_env_def value_get_def obj_get_def result_simps lit_def)

lemma sample_send: "\<exists>v s'. op_message_send sample_daemon_env sample_send_args sample_drafts = Some (Ok v, s')"
proof -
  have after: "\<exists>s'. after_send sample_daemon_env 0 0 s = Some (Ok (), s')" for s
  proof -
    have "runs True (\<lambda>_. True) (after_send sample_daemon_env 0 0)"
      unfolding after_send_def by (intro runs_intros runs_statement runs_publish) simp_all
    from runs_returns [OF this, of s] show ?thesis by (auto dest: after_send_Ok)
  qed
  have audit: "\<exists>s'. audit_actor sample_daemon_env a b c d s = Some (Ok () :: (RpcError, unit) result, s')" for a b c d s
  proof -
    have "runs True (\<lambda>_. True) (audit_actor sample_daemon_env a b c d :: (nat, RpcError, unit) act)"
      unfolding audit_actor_def by (intro runs_intros runs_create) simp
    from runs_returns [OF this, of s] show ?thesis by (auto dest: audit_actor_Ok)
  qed
  have smtp: "\<exists>s'. act_world (dn_smtp sample_daemon_env request) s = Some (Ok (), s')" for request s
    by (simp add: act_world_def sample_daemon_env_def)
  obtain request mid n s1 where "prepare_send sample_daemon_env 0 0 sample_drafts = Some (Ok (request, mid, n), s1)"
    using sample_prepare by blast
  moreover obtain s2 where "act_world (dn_smtp sample_daemon_env request) s1 = Some (Ok (), s2)" using smtp by blast
  moreover obtain s3 where "after_send sample_daemon_env 0 0 s2 = Some (Ok (), s3)" using after by blast
  ultimately show ?thesis using audit [of _ _ _ _ s3] by (fastforce simp: op_message_send_def sample_send_ids act_iffs)
qed


subsection \<open>Updating a draft\<close>

lemma transaction_Err:
  assumes "transaction env b c m s = Some (Err e, s')"
    and "\<And>s1 s2 r. m s1 = Some (r, s2) \<Longrightarrow> snd (dm_view s2) = snd (dm_view s1)"
  shows "dm_view s' = dm_view s"
proof -
  have q: "db_query env ctx f s1 = Some (r, s2) \<Longrightarrow> dm_view s2 = dm_view s1" for ctx f s1 s2 r
    by (rule view_frame [OF runs_query])
  from assms(1) show ?thesis
    unfolding transaction_def act_bind_Err_iff
  proof (elim disjE exE conjE)
    fix before s1
    assume begun: "db_query env b (\<lambda>st. st) s = Some (Ok before, s1)"
      and run: "(case act_bind m (\<lambda>x. act_bind (db_query env c (\<lambda>_. ())) (\<lambda>_. act_give (Ok x))) s1 of
          Some (Inl e, s') \<Rightarrow> Some (Inl e, s'\<lparr>dm_sync := (dm_sync s')\<lparr>ys_store := before\<rparr>\<rparr>) | r \<Rightarrow> r) = Some (Err e, s')"
    from run obtain s2 where
      inner: "act_bind m (\<lambda>x. act_bind (db_query env c (\<lambda>_. ())) (\<lambda>_. act_give (Ok x))) s1 = Some (Err e, s2)"
      and s': "s' = s2\<lparr>dm_sync := (dm_sync s2)\<lparr>ys_store := before\<rparr>\<rparr>"
      by (auto split: option.splits sum.splits)
    from inner have "snd (dm_view s2) = snd (dm_view s1)"
      by (auto simp: act_iffs dest!: q dest: assms(2))
    with db_query_Ok [OF begun] s' show ?thesis by (simp add: dm_view_def)
  qed (simp add: q)
qed

lemma snd_frame: "runs True (\<lambda>(_, v). v = snd (dm_view s)) m \<Longrightarrow> m s = Some (r, s') \<Longrightarrow> snd (dm_view s') = snd (dm_view s)"
  using runsD [of True "\<lambda>(_, v). v = snd (dm_view s)" m s r s'] by (simp add: case_prod_beta)

lemma runs_update_draft:
  "runs True (\<lambda>(_, v). v = snd (dm_view s)) (act_bind (internal env ctx (db_stamped env ctx'
       (\<lambda>now st. Ok (drafts_patch i patch now st)))) (\<lambda>draft.
     act_bind (case (atts, draft) of (Some new, Some _) \<Rightarrow> replace_draft_attachments env i new | _ \<Rightarrow> act_give (Ok ())) (\<lambda>_.
     act_give (Ok draft))))"
  unfolding replace_draft_attachments_def attach_to_draft_def
  by (intro runs_intros runs_stamped runs_db_attempt runs_create) auto

lemma update_draft_Err: "update_draft_tx env u atts s = Some (Err e, s') \<Longrightarrow> dm_view s' = dm_view s"
  unfolding update_draft_tx_def by (erule transaction_Err, rule snd_frame [OF runs_update_draft])

text \<open>
  C11: an update of a draft is all or nothing: when it fails, whatever attachment or step it fails
  at, the draft and all its attachments are as they were, and nothing else has changed.
\<close>

theorem draft_update_atomic:
  assumes "op_draft_update env args s = Some (Err e, s')"
  shows "dm_view s' = dm_view s"
proof -
  have prep: "prepare_draft_attachments env specs s = Some (r, s1) \<Longrightarrow> dm_view s1 = dm_view s" for specs r s1
    unfolding prepare_draft_attachments_def by (erule view_frame [rotated]) (intro runs_intros)
  from assms show ?thesis
    by (auto simp: op_draft_update_def act_iffs dest!: audit_actor_Ok dest: prep update_draft_Err)
       (metis prep update_draft_Err)
qed

text \<open>A database that cannot commit.\<close>

definition sample_locked :: "nat daemon_env" where
  "sample_locked = sample_daemon_env\<lparr>dn_db_fault := (\<lambda>ctx w.
     (if ctx = lit ''commit draft update transaction'' then Some (OtherSqlx []) else None, w))\<rparr>"

definition sample_update_args :: json where
  "sample_update_args = JObject [(lit ''id'', JString []), (lit ''subject'', JString (lit ''new''))]"

lemma sample_update_fails: "\<exists>e s'. op_draft_update sample_locked sample_update_args sample_drafts = Some (Err e, s')"
proof -
  have specs: "take_attachment_specs sample_locked sample_update_args = Ok None"
    by (simp add: take_attachment_specs_def sample_update_args_def value_get_def obj_get_def lit_def)
  obtain u where u: "from_value sample_locked (lit ''DraftUpdate'') (draft_update_of_json sample_locked) sample_update_args = Ok u"
    by (simp add: from_value_def draft_update_of_json_def sample_update_args_def required_field_def defaulted_field_def
        obj_get_def is_null_def as_id_def as_optional_def sample_locked_def sample_daemon_env_def result_simps lit_def)
  have "\<exists>e s'. update_draft_tx sample_locked u None s = Some (Err e, s')" for s
    by (simp add: update_draft_tx_def transaction_def act_bind_def act_give_def db_query_def internal_def act_map_err_def
        db_stamped_def act_world_def db_attempt_def result_simps sample_locked_def sample_daemon_env_def sample_env_def
        lit_def split: prod.splits)
  then show ?thesis
    by (fastforce simp: op_draft_update_def act_iffs specs u prepare_draft_attachments_def)
qed

theorem draft_update_atomic_witness:
  "\<exists>e s'. op_draft_update sample_locked sample_update_args sample_drafts = Some (Err e, s') \<and>
     dm_view s' = dm_view sample_drafts"
  using sample_update_fails draft_update_atomic by blast

subsection \<open>Credentials\<close>

text \<open>That the database, the clock and the source of row ids leave the secrets alone.\<close>

definition apart_from_secrets :: "'w daemon_env \<Rightarrow> ('w \<Rightarrow> 'c) \<Rightarrow> ('w \<Rightarrow> bool) \<Rightarrow> bool" where
  "apart_from_secrets env contents sound \<longleftrightarrow>
     (\<forall>w. sound w \<longrightarrow>
        (\<forall>ctx. contents (snd (dn_db_fault env ctx w)) = contents w \<and> sound (snd (dn_db_fault env ctx w))) \<and>
        contents (snd (sync_clock (dn_sync env) w)) = contents w \<and> sound (snd (sync_clock (dn_sync env) w)) \<and>
        contents (snd (draw_row (dn_files env) w)) = contents w \<and> sound (snd (draw_row (dn_files env) w)))"

definition keeps_secrets :: "('w \<Rightarrow> 'c) \<Rightarrow> ('w \<Rightarrow> bool) \<Rightarrow> ('w, 'e, 'a) act \<Rightarrow> bool" where
  "keeps_secrets contents sound m \<longleftrightarrow>
     (\<forall>s r s'. m s = Some (r, s') \<longrightarrow> sound (dm_world s) \<longrightarrow>
        sound (dm_world s') \<and> contents (dm_world s') = contents (dm_world s))"

lemma keeps_secrets_attempt:
  "apart_from_secrets env contents sound \<Longrightarrow> keeps_secrets contents sound (db_attempt env ctx f)"
  unfolding keeps_secrets_def apart_from_secrets_def
  by (auto simp: db_attempt_def split: prod.splits option.splits sum.splits) (metis snd_conv)+

lemma keeps_secrets_bind:
  assumes "keeps_secrets contents sound m" and "\<And>x. keeps_secrets contents sound (f x)"
  shows "keeps_secrets contents sound (act_bind m f)"
  using assms unfolding keeps_secrets_def
  by (auto simp: act_bind_def split: option.splits sum.splits)

lemma keeps_secrets_wrap:
  "keeps_secrets contents sound m \<Longrightarrow> keeps_secrets contents sound (act_map_err g m)"
  "keeps_secrets contents sound m \<Longrightarrow> keeps_secrets contents sound (act_attempt m)"
  "keeps_secrets contents sound (act_give r)"
  by (auto simp: keeps_secrets_def act_map_err_def act_attempt_def act_give_def)

lemma keeps_secrets_clock:
  assumes "apart_from_secrets env contents sound"
  shows "keeps_secrets contents sound (act_world (\<lambda>w. case sync_clock (dn_sync env) w of (t, w') \<Rightarrow> (Ok t, w')))"
    and "keeps_secrets contents sound (act_world (\<lambda>w. case draw_row (dn_files env) w of (x, w') \<Rightarrow> (Ok x, w')))"
  using assms unfolding keeps_secrets_def apart_from_secrets_def
  by (auto simp: act_world_def split: prod.splits)

lemma keeps_secrets_rows:
  assumes "apart_from_secrets env contents sound"
  shows "keeps_secrets contents sound (require_account env i)"
    and "keeps_secrets contents sound (set_secret_ref env i ref)"
    and "keeps_secrets contents sound (audit env action target details)"
  unfolding require_account_def db_query_def set_secret_ref_def db_stamped_def audit_def audit_actor_def db_create_def
    internal_def case_prod_beta
  by (intro keeps_secrets_bind keeps_secrets_wrap keeps_secrets_attempt [OF assms]
      keeps_secrets_clock [OF assms, unfolded case_prod_beta])+

lemma keeps_secretsD:
  "keeps_secrets contents sound m \<Longrightarrow> m s = Some (r, s') \<Longrightarrow> sound (dm_world s) \<Longrightarrow>
   sound (dm_world s') \<and> contents (dm_world s') = contents (dm_world s)"
  by (auto simp: keeps_secrets_def)

lemma set_secret_ref_Ok:
  assumes "set_secret_ref env i ref s = Some (Ok (), s')"
  shows "\<exists>now. accounts_get i (dm_store s') =
     map_option (\<lambda>a. a\<lparr>acc_secret_ref := ref, acc_updated_at := now\<rparr>) (accounts_get i (dm_store s))"
proof -
  have "find (\<lambda>r. acc_id r = i) (map (\<lambda>r. if acc_id r = i then r\<lparr>acc_secret_ref := ref, acc_updated_at := now\<rparr> else r) rows) =
      map_option (\<lambda>a. a\<lparr>acc_secret_ref := ref, acc_updated_at := now\<rparr>) (find (\<lambda>r. acc_id r = i) rows)" for now rows
    by (induction rows) auto
  then have get: "accounts_get i (accounts_set_secret_ref i ref now st) =
      map_option (\<lambda>a. a\<lparr>acc_secret_ref := ref, acc_updated_at := now\<rparr>) (accounts_get i st)" for now st
    by (simp add: accounts_get_def accounts_set_secret_ref_def get_row_def update_rows_def)
  from assms obtain now s1 where "dm_view s1 = dm_view s"
    and run: "db_attempt env (lit ''accounts::set_secret_ref'') (\<lambda>st. Ok ((), accounts_set_secret_ref i ref now st)) s1 = Some (Ok (), s')"
    by (auto simp: set_secret_ref_def internal_def db_stamped_def act_iffs dest!: act_world_view)
  moreover from db_attempt_Ok(1) [OF run] have "dm_store s' = accounts_set_secret_ref i ref now (dm_store s1)" by simp
  ultimately show ?thesis using dm_view_store [of s1 s] get [of now "dm_store s"] by auto
qed

lemma credential_reads:
  assumes "secret_store (secrets_put (dn_secrets env)) (secrets_get (dn_secrets env)) (secrets_delete (dn_secrets env)) contents sound"
    and "sound (dm_world s)" and "contents (dm_world s) = Some m" and "m (acc_id account) = Some password"
    and "acc_auth_kind account = Password"
  shows "case credential_for_account env account s of
           Some (Inr c, _) \<Rightarrow> c = CredPassword password
         | Some (Inl e, _) \<Rightarrow> err_code e = lit ''internal''
         | None \<Rightarrow> False"
proof -
  obtain r w where get: "secrets_get (dn_secrets env) (acc_id account) (dm_world s) = (r, w)" by fastforce
  have "r = Inr x \<Longrightarrow> x = Some password" for x
    using secret_store.get_ok [OF assms(1,2)] get assms(3,4) by (metis option.inject)
  then show ?thesis
    using assms(5) get
    by (cases r) (auto simp: credential_for_account_def secrets_err_def act_bind_def act_map_err_def act_world_def
        act_let_def act_give_def result_simps rpc_internal_ctx_def rpc_error_new_def)
qed

text \<open>
  C8: with a secret store that keeps its contract, a password that a client set for an account is
  the credential the daemon then uses for it, and the row of the account refers to it.  A later
  read may fail in the store, but never because the secret is missing.
\<close>

theorem set_secret_is_credential:
  assumes "secret_store (secrets_put (dn_secrets env)) (secrets_get (dn_secrets env)) (secrets_delete (dn_secrets env)) contents sound"
    and "apart_from_secrets env contents sound" and "sound (dm_world s)"
    and "op_account_set_secret env args s = Some (Ok v, s')"
  shows "\<exists>account_id password account.
     parse_id env args (lit ''account_id'') = Ok account_id \<and> get_str args (lit ''password'') = Some password \<and>
     accounts_get account_id (dm_store s') = Some account \<and>
     acc_secret_ref account = Some (secrets_ref (dn_secrets env) account_id) \<and>
     (case credential_for_account env account s' of
        Some (Inr c, _) \<Rightarrow> c = CredPassword password
      | Some (Inl e, _) \<Rightarrow> err_code e = lit ''internal''
      | None \<Rightarrow> False)"
proof -
  from assms(4) obtain account_id password account s1 s2 s3 action target details where
    args: "parse_id env args (lit ''account_id'') = Ok account_id" "get_str args (lit ''password'') = Some password"
    and acc: "require_account env account_id s = Some (Ok account, s1)" and kind: "acc_auth_kind account = Password"
    and put: "act_world (secrets_put (dn_secrets env) account_id password) s1 = Some (Ok (), s2)"
    and ref: "set_secret_ref env account_id (Some (secrets_ref (dn_secrets env) account_id)) s2 = Some (Ok (), s3)"
    and aud: "audit env action target details s3 = Some (Ok () :: (RpcError, unit) result, s')"
    by (auto simp: op_account_set_secret_def act_iffs secrets_err_def result_simps split: if_splits)
  note rows = keeps_secrets_rows [OF assms(2), THEN keeps_secretsD]
  have "sound (dm_world s1)" using rows(1) [OF acc assms(3)] by blast
  moreover from put obtain w where w: "secrets_put (dn_secrets env) account_id password (dm_world s1) = (Ok (), w)"
    and s2: "s2 = s1\<lparr>dm_sync := (dm_sync s1)\<lparr>ys_world := w\<rparr>\<rparr>"
    by (auto simp: act_world_def split: prod.splits)
  ultimately obtain m where m: "contents w = Some (m(account_id := Some password))" and "sound w"
    using secret_store.put_ok [OF assms(1)] secret_store.sound_put [OF assms(1)] by (metis snd_conv)
  then have "sound (dm_world s2)" "contents (dm_world s2) = Some (m(account_id := Some password))" by (simp_all add: s2)
  with rows(2) [OF ref] rows(3) [OF aud] have w': "sound (dm_world s')" "contents (dm_world s') = Some (m(account_id := Some password))"
    by auto
  have old: "accounts_get account_id (dm_store s2) = Some account"
    using require_account_Ok [OF acc] by (simp add: s2 dm_view_def)
  with set_secret_ref_Ok [OF ref] obtain now where "accounts_get account_id (dm_store s3) =
      Some (account\<lparr>acc_secret_ref := Some (secrets_ref (dn_secrets env) account_id), acc_updated_at := now\<rparr>)" (is "_ = Some ?new")
    by auto
  then have new: "accounts_get account_id (dm_store s') = Some ?new"
    using audit_frame [OF aud [unfolded audit_def]] accounts_get_frame by metis
  have "acc_id ?new = account_id" using old by (simp add: accounts_get_def get_row_def find_Some_iff) blast
  with credential_reads [OF assms(1) w', of ?new password] kind
  have "case credential_for_account env ?new s' of Some (Inr c, _) \<Rightarrow> c = CredPassword password
      | Some (Inl e, _) \<Rightarrow> err_code e = lit ''internal'' | None \<Rightarrow> False" by simp
  with args new show ?thesis by auto
qed

text \<open>A daemon whose secrets are in the encrypted file.\<close>

definition file_daemon_env :: "file_store daemon_env" where
  "file_daemon_env =
     \<lparr>dn_sync = \<lparr>imap_sync = (\<lambda>_ _ _ _ _ _ w. (Err (ImapAuth []), w)),
        sync_files = \<lparr>attachment_root = (\<lambda>_. Ok []), uuid_text = show_nat, path_parent = (\<lambda>_. None),
          create_dir_all = (\<lambda>_ w. (Ok (), w)), create_new = (\<lambda>_ w. (Ok (), w)), write_all = (\<lambda>_ _ w. (Ok (), w)),
          open_read = (\<lambda>_ _. Ok []), utf8 = (\<lambda>_. Ok []), draw_row = (\<lambda>w. ((7, 0), w))\<rparr>,
        sync_unicode = ascii_unicode, sync_decoder = (\<lambda>_. None), sync_clock = (\<lambda>w. (0, w))\<rparr>,
      dn_db_fault = (\<lambda>_ w. (None, w)), dn_db_text = (\<lambda>_. []), dn_sql = (\<lambda>_. sample_sql_env 0),
      dn_schema_rows = (\<lambda>_. Ok []), dn_fts = (\<lambda>_ _. Ok []), dn_parse_uuid = (\<lambda>t. Ok (length t)),
      dn_parse_rfc3339 = (\<lambda>_. Err []), dn_json_from_str = (\<lambda>_. Err []), dn_serde_error = (\<lambda>_ _. []),
      dn_time_text = show_int, dn_rfc2822 = show_int, dn_base64 = (\<lambda>_. []), dn_new_uuid = (\<lambda>w. (0, w)),
      dn_mime = (\<lambda>w. (MimeBuilder.sample_env, w)), dn_metadata = (\<lambda>_ _. Err []), dn_fs_write = (\<lambda>_ _ w. (Ok (), w)),
      dn_io_kind = (\<lambda>_. IoOther), dn_mime_guess = (\<lambda>_. None), dn_imap = (\<lambda>_ _ _ _ w. (Ok [], w)),
      dn_secrets = \<lparr>secrets_put = file_put, secrets_get = file_get, secrets_delete = file_delete, secrets_ref = show_nat,
        stored_to_string = (\<lambda>_. Err []), stored_from_str = (\<lambda>_. Err [])\<rparr>,
      dn_oauth = \<lparr>http_post_form = (\<lambda>_ w. (Err [], w)), oauth_clock = (\<lambda>w. (0, w)), checked_add = (\<lambda>t d. Some (t + d))\<rparr>,
      dn_smtp = (\<lambda>_ w. (Ok (), w)), dn_has_idle = True, dn_has_resolver = True\<rparr>"

definition file_daemon :: "file_store daemon" where
  "file_daemon =
     \<lparr>dm_sync = \<lparr>ys_store = empty_store\<lparr>accounts := [sample_account\<lparr>acc_id := 1\<rparr>]\<rparr>, ys_world = sample_files [], ys_published = []\<rparr>,
      dm_manager = new_manager\<rparr>"

definition sample_secret_args :: json where
  "sample_secret_args = JObject [(lit ''account_id'', JString [0]), (lit ''password'', JString (lit ''pw''))]"

lemma sample_file_put: "\<exists>w. file_put 1 (lit ''pw'') (sample_files []) = (Ok (), w)"
  by (simp add: sample_files_def sample_crypto_def file_put_def fs_bind_def read_map_def next_fault_def decode_file_def
      write_map_def has_parent_def path_components_def lit_def starts_with_def encrypt_def fill_bytes_def
      derive_key_def fs_write_def fs_rename_def tmp_path_def Let_def)

lemma file_daemon_set: "\<exists>v s'. op_account_set_secret file_daemon_env sample_secret_args file_daemon = Some (Ok v, s')"
proof -
  have ids: "parse_id file_daemon_env sample_secret_args (lit ''account_id'') = Ok 1"
    "get_str sample_secret_args (lit ''password'') = Some (lit ''pw'')"
    by (simp_all add: parse_id_def get_str_def sample_secret_args_def file_daemon_env_def value_get_def obj_get_def
        result_simps lit_def)
  have acc: "require_account file_daemon_env 1 file_daemon = Some (Ok (sample_account\<lparr>acc_id := 1\<rparr>), file_daemon)"
    by (simp add: require_account_def act_bind_def act_give_def db_query_def internal_def act_map_err_def db_attempt_def
        result_simps file_daemon_env_def file_daemon_def accounts_get_def get_row_def)
  obtain w where put: "file_put 1 (lit ''pw'') (sample_files []) = (Ok (), w)" using sample_file_put by blast
  have put': "\<exists>s'. act_world (secrets_put (dn_secrets file_daemon_env) 1 (lit ''pw'')) file_daemon = Some (Ok (), s')"
    by (simp add: act_world_def file_daemon_env_def file_daemon_def put [simplified])
  have ref: "\<exists>s'. set_secret_ref file_daemon_env i r s = Some (Ok (), s')" for i r s
    by (simp add: set_secret_ref_def internal_def act_map_err_def db_stamped_def act_bind_def act_world_def db_attempt_def
        result_simps file_daemon_env_def)
  have aud: "\<exists>s'. audit file_daemon_env b c d s = Some (Ok () :: (RpcError, unit) result, s')" for b c d s
  proof -
    have "runs True (\<lambda>_. True) (audit file_daemon_env b c d :: (file_store, RpcError, unit) act)"
      unfolding audit_def audit_actor_def by (intro runs_intros runs_create) simp
    from runs_returns [OF this, of s] show ?thesis by (auto simp: audit_def dest: audit_actor_Ok)
  qed
  have kind: "acc_auth_kind (sample_account\<lparr>acc_id := 1\<rparr>) = Password" by (simp add: sample_account_def account_row_def)
  from put' obtain s1 where s1: "act_world (secrets_put (dn_secrets file_daemon_env) 1 (lit ''pw'')) file_daemon = Some (Ok (), s1)" ..
  from ref [of 1 "Some (secrets_ref (dn_secrets file_daemon_env) 1)" s1] obtain s2
    where s2: "set_secret_ref file_daemon_env 1 (Some (secrets_ref (dn_secrets file_daemon_env) 1)) s1 = Some (Ok (), s2)" ..
  from aud [of _ _ _ s2] ids acc kind s1 s2 show ?thesis
    by (fastforce simp: op_account_set_secret_def act_iffs secrets_err_def result_simps lit_empty)
qed

theorem set_secret_is_credential_witness:
  "\<exists>v s' account. op_account_set_secret file_daemon_env sample_secret_args file_daemon = Some (Ok v, s') \<and>
     accounts_get 1 (dm_store s') = Some account \<and>
     (case credential_for_account file_daemon_env account s' of
        Some (Inr c, _) \<Rightarrow> c = CredPassword (lit ''pw'')
      | Some (Inl e, _) \<Rightarrow> err_code e = lit ''internal''
      | None \<Rightarrow> False)"
proof -
  obtain v s' where run: "op_account_set_secret file_daemon_env sample_secret_args file_daemon = Some (Ok v, s')"
    using file_daemon_set by blast
  have "secret_store (secrets_put (dn_secrets file_daemon_env)) (secrets_get (dn_secrets file_daemon_env))
      (secrets_delete (dn_secrets file_daemon_env)) file_contents file_sound"
    using file_secrets.secret_store_axioms by (simp add: file_daemon_env_def)
  moreover have "apart_from_secrets file_daemon_env file_contents file_sound"
    by (simp add: apart_from_secrets_def file_daemon_env_def)
  moreover have "file_sound (dm_world file_daemon)"
    by (simp add: file_daemon_def file_sound_def sample_files_def sample_crypto_ok)
  moreover have "parse_id file_daemon_env sample_secret_args (lit ''account_id'') = Ok 1"
    "get_str sample_secret_args (lit ''password'') = Some (lit ''pw'')"
    by (simp_all add: parse_id_def get_str_def sample_secret_args_def file_daemon_env_def value_get_def obj_get_def
        result_simps lit_def)
  ultimately show ?thesis using set_secret_is_credential [OF _ _ _ run] run by fastforce
qed

subsection \<open>Bearer tokens\<close>

text \<open>
  C9: a bearer token the daemon hands out is the stored one only if that had not expired at a
  reading of the clock made for the request; otherwise the endpoint issued it for this request and
  it was saved first.
\<close>

theorem bearer_token_fresh:
  assumes "credential_for_account env account s = Some (Ok (CredOAuth2Bearer bearer), s')"
    and "load_stored_oauth (dn_secrets env) (acc_id account) (dm_world s) = (Ok (Some stored), w1)"
    and "oauth_clock (dn_oauth env) w1 = (now, w2)"
    and "refresh_token (dn_oauth env) (stored_config stored) (so_token stored) w2 = (outcome, w3)"
  shows "(bearer = ot_access_token (so_token stored) \<and>
          (now + duration_seconds REFRESH_SKEW_SECONDS < ot_expires_at (so_token stored) \<or>
           (\<exists>e. outcome = Err e \<and> \<not> is_oauth_reauth e) \<and> fst (oauth_clock (dn_oauth env) w3) < ot_expires_at (so_token stored))) \<or>
         (\<exists>token w4. outcome = Ok token \<and> bearer = ot_access_token token \<and> dm_world s' = w4 \<and>
            store_stored_oauth (dn_secrets env) (acc_id account) (stored\<lparr>so_token := token\<rparr>) w3 = (Ok (), w4))"
proof -
  have "acc_auth_kind account = OAuth2Google"
    using assms(1) by (cases "acc_auth_kind account") (auto simp: credential_for_account_def act_iffs)
  with assms show ?thesis
    by (auto simp: credential_for_account_def act_bind_def act_map_err_def act_world_def act_let_def act_give_def
        oauth_now_def refresh_stored_def act_attempt_def needs_refresh_def result_simps Let_def
        split: sum.splits if_splits prod.splits)
qed

text \<open>A token that is about to expire, and an endpoint that cannot be reached.\<close>

definition sample_stored :: StoredGoogleOAuth where
  "sample_stored = \<lparr>so_client_id = lit ''c'', so_client_secret = lit ''s'', so_redirect_uri = lit ''u'', so_scopes = [GMAIL_SCOPE],
     so_token = \<lparr>ot_access_token = lit ''t'', ot_refresh_token = lit ''r'', ot_expires_at = 5, ot_token_type = [], ot_scope = None\<rparr>\<rparr>"

definition sample_oauth_env :: "nat daemon_env" where
  "sample_oauth_env = sample_daemon_env\<lparr>dn_secrets := sample_secrets\<lparr>stored_from_str := (\<lambda>_. Ok sample_stored)\<rparr>\<rparr>"

lemma sample_oauth_steps:
  "load_stored_oauth (dn_secrets sample_oauth_env) i w = (Ok (Some sample_stored), w)"
  "oauth_clock (dn_oauth sample_oauth_env) w = (0, w)"
  "refresh_token (dn_oauth sample_oauth_env) (stored_config sample_stored) (so_token sample_stored) w = (Err (OAuthHttp []), w)"
  by (simp_all add: load_stored_oauth_def sample_oauth_env_def sample_daemon_env_def sample_secrets_def result_simps
      refresh_token_def oauth_then_def validate_for_token_request_def validate_non_empty_def validate_gmail_scope_def post_token_form_def
      sample_stored_def stored_config_def trim_def trim_start_def trim_end_def is_whitespace_def lit_def)

theorem bearer_token_fresh_witness:
  "credential_for_account sample_oauth_env (sample_account\<lparr>acc_auth_kind := OAuth2Google\<rparr>) sample_daemon =
     Some (Ok (CredOAuth2Bearer (lit ''t'')), sample_daemon) \<and>
   fst (oauth_clock (dn_oauth sample_oauth_env) (dm_world sample_daemon)) < ot_expires_at (so_token sample_stored)"
proof -
  have run: "credential_for_account sample_oauth_env (sample_account\<lparr>acc_auth_kind := OAuth2Google\<rparr>) sample_daemon =
     Some (Ok (CredOAuth2Bearer (lit ''t'')), sample_daemon)"
    by (simp add: credential_for_account_def act_bind_def act_map_err_def act_world_def act_let_def act_give_def
        oauth_now_def refresh_stored_def act_attempt_def needs_refresh_def sample_oauth_steps result_simps)
       (simp add: sample_stored_def duration_seconds_def REFRESH_SKEW_SECONDS_def)
  from bearer_token_fresh [OF run sample_oauth_steps(1,2,3)] run sample_oauth_steps(2) show ?thesis
    by (auto simp: sample_stored_def duration_seconds_def REFRESH_SKEW_SECONDS_def)
qed

subsection \<open>Attachments fetched again\<close>

lemma position_None: "position P xs = None \<longleftrightarrow> list_all (\<lambda>x. \<not> P x) xs"
  by (simp add: position_def list_ex_iff list_all_iff)

lemma position_Some: "position P xs = Some i \<Longrightarrow> i < length xs \<and> P (xs ! i)"
  by (induction xs arbitrary: i) (auto simp: position_def split: if_splits)

text \<open>
  An attachment without a content id that has to be fetched again is found under its name if
  storing it left the name as it was; if storing it changed the name to one no part of the mail
  has, it is never found and its forward fails, although the mail still has it.
\<close>

theorem refetched_attachment_found:
  assumes "a \<in> set parsed" and "distinct (map pa_filename parsed)" and "pa_content_id a = None"
  shows "let row = attachment_row (new_attachment message_id a path) i now in
     (sanitize_filename (pa_filename a) = pa_filename a \<longrightarrow> fst (pick_attachment_bytes parsed row) = Some (pa_data a)) \<and>
     (sanitize_filename (pa_filename a) \<notin> pa_filename ` set parsed \<longrightarrow> pick_attachment_bytes parsed row = (None, parsed))"
proof -
  define row where "row = attachment_row (new_attachment message_id a path) i now"
  have row: "att_content_id row = None" "att_filename row = sanitize_filename (pa_filename a)"
    "att_content_type row = pa_content_type a"
    using assms(3) by (simp_all add: row_def attachment_row_def new_attachment_def)
  let ?both = "position (\<lambda>p. pa_filename p = att_filename row \<and> pa_content_type p = att_content_type row) parsed"
  let ?name = "position (\<lambda>p. pa_filename p = att_filename row) parsed"
  have pick: "pick_attachment_bytes parsed row =
      (case coalesce ?both ?name of None \<Rightarrow> (None, parsed) | Some k \<Rightarrow> (Some (pa_data (parsed ! k)), swap_remove k parsed))"
    by (simp add: pick_attachment_bytes_def row(1) coalesce_def Let_def)
  have "fst (pick_attachment_bytes parsed row) = Some (pa_data a)" if same: "sanitize_filename (pa_filename a) = pa_filename a"
  proof -
    have "?both \<noteq> None" using assms(1) same by (auto simp: position_None list_all_iff row)
    then obtain k where k: "?both = Some k" by blast
    from position_Some [OF k] same have "k < length parsed" "pa_filename (parsed ! k) = pa_filename a" by (simp_all add: row)
    then have "parsed ! k = a" using assms(1,2) by (metis distinct_map inj_onD nth_mem)
    with k show ?thesis by (simp add: pick coalesce_def)
  qed
  moreover have "pick_attachment_bytes parsed row = (None, parsed)" if "sanitize_filename (pa_filename a) \<notin> pa_filename ` set parsed"
  proof -
    have "?both = None" "?name = None" using that by (force simp: position_None list_all_iff row)+
    then show ?thesis by (simp add: pick coalesce_def)
  qed
  ultimately show ?thesis by (simp add: row_def Let_def)
qed

definition sample_part :: ParsedAttachment where
  "sample_part = \<lparr>pa_filename = lit ''a:b'', pa_content_type = [], pa_data = [1], pa_disposition = Inline,
     pa_content_id = None\<rparr>"

theorem refetched_attachment_found_witness:
  "sanitize_filename (lit ''a:b'') = lit ''a_b'' \<and>
   pick_attachment_bytes [sample_part] (attachment_row (new_attachment 0 sample_part []) 0 0) = (None, [sample_part])"
proof -
  have "sanitize_filename (lit ''a:b'') = lit ''a_b''"
    by (simp add: sanitize_filename_def file_name_def path_components_def safe_char_def is_ascii_alphanumeric_def Let_def
        trim_matches_def trim_def trim_start_def trim_end_def is_whitespace_def lit_def)
  with refetched_attachment_found [of sample_part "[sample_part]" 0 "[]" 0 0] show ?thesis
    by (simp add: sample_part_def Let_def lit_def)
qed

subsection \<open>The name of an authentication kind\<close>

text \<open>
  A request to create an account with the authentication kind \<^verbatim>\<open>oauth2_google\<close>, the name the
  documentation and the daemon's own error text use, is always refused.
\<close>

theorem documented_auth_kind_refused:
  assumes "get_str args (lit ''auth_kind'') = Some (lit ''oauth2_google'')"
  shows "op_account_create env args s = Some (Err (rpc_bad_args (dn_serde_error env (lit ''NewAccount'') args)), s)"
proof -
  obtain kvs where args: "args = JObject kvs" and get: "obj_get kvs (lit ''auth_kind'') = Some (JString (lit ''oauth2_google''))"
    using assms by (cases args) (auto simp: get_str_def value_get_def bind_eq_Some_conv elim!: as_str.elims)
  have "required_field 10 2 (lit ''auth_kind'') (as_variant auth_kind_serde [Password, OAuth2Google]) args = None"
    by (simp add: required_field_def args get as_variant_def)
  then have "new_account_of_json env args = None"
    by (simp add: new_account_of_json_def bind_eq_None_conv split: option.splits)
  then show ?thesis by (simp add: op_account_create_def from_value_def act_let_def act_give_def result_simps)
qed

theorem documented_auth_kind_refused_witness:
  "op_account_create sample_daemon_env (JObject [(lit ''auth_kind'', JString (lit ''oauth2_google''))]) sample_daemon =
     Some (Err (rpc_bad_args []), sample_daemon)"
  using documented_auth_kind_refused [of "JObject [(lit ''auth_kind'', JString (lit ''oauth2_google''))]" sample_daemon_env sample_daemon]
  by (simp add: get_str_def value_get_def obj_get_def sample_daemon_env_def)

end
