(* ===== verification/Theme.thy ===== *)
theory Theme
  imports Prelude
begin

text \<open>
  \<^verbatim>\<open>src/tui/theme.rs\<close>: the names of the colour themes, their rotation and the palettes.
\<close>

datatype ThemeName = Dark | Light | HighContrast

definition default_theme :: ThemeName where
  "default_theme = Dark"

fun theme_as_str :: "ThemeName \<Rightarrow> rstr" where
  "theme_as_str Light = lit ''light''"
| "theme_as_str Dark = lit ''dark''"
| "theme_as_str HighContrast = lit ''high-contrast''"

fun theme_next :: "ThemeName \<Rightarrow> ThemeName" where
  "theme_next Dark = Light"
| "theme_next Light = HighContrast"
| "theme_next HighContrast = Dark"

datatype ThemeParseError = UnknownTheme rstr

definition theme_from_str :: "rstr \<Rightarrow> (ThemeParseError, ThemeName) result" where
  "theme_from_str value =
     (if value = lit ''light'' then Ok Light
      else if value = lit ''dark'' then Ok Dark
      else if value = lit ''high-contrast'' \<or> value = lit ''hc'' then Ok HighContrast
      else Err (UnknownTheme value))"

fun theme_error_text :: "ThemeParseError \<Rightarrow> rstr" where
  "theme_error_text (UnknownTheme other) = lit ''unknown theme '' @ [39] @ other @ [39]"

subsection \<open>Palettes\<close>

text \<open>The part of \<^verbatim>\<open>ratatui::style\<close> the palettes use: a style sets a foreground, a background and modifiers.\<close>

datatype color = Rgb nat nat nat | White | Black | Yellow | Red | Cyan

datatype modifier = Bold | Dim | Underlined

record style =
  st_fg :: "color option"
  st_bg :: "color option"
  st_modifiers :: "modifier list"

definition colors :: "color \<Rightarrow> color \<Rightarrow> modifier list \<Rightarrow> style" where
  "colors f b ms = \<lparr>st_fg = Some f, st_bg = Some b, st_modifiers = ms\<rparr>"

record Theme =
  th_text :: style
  th_muted :: style
  th_pane :: style
  th_active_pane :: style
  th_selection :: style
  th_status :: style
  th_error :: style
  th_command :: style
  th_unread :: style
  th_flagged :: style

definition dark_theme :: Theme where
  "dark_theme =
     (let bg = Rgb 0x1e 0x1e 0x2e; fg = Rgb 0xcd 0xd6 0xf4; accent = Rgb 0x89 0xb4 0xfa in
      \<lparr>th_text = colors fg bg [], th_muted = colors (Rgb 0x93 0x99 0xb2) bg [], th_pane = colors (Rgb 0x6c 0x70 0x86) bg [],
       th_active_pane = colors accent bg [Bold], th_selection = colors fg (Rgb 0x45 0x47 0x5a) [Bold],
       th_status = colors fg (Rgb 0x31 0x32 0x44) [], th_error = colors bg (Rgb 0xf3 0x8b 0xa8) [Bold],
       th_command = colors (Rgb 0x11 0x11 0x1b) accent [], th_unread = colors (Rgb 0xa6 0xe3 0xa1) bg [Bold],
       th_flagged = colors (Rgb 0xf9 0xe2 0xaf) bg [Bold]\<rparr>)"

definition light_theme :: Theme where
  "light_theme =
     (let bg = Rgb 0xef 0xf1 0xf5; fg = Rgb 0x4c 0x4f 0x69; accent = Rgb 0x1e 0x66 0xf5 in
      \<lparr>th_text = colors fg bg [], th_muted = colors (Rgb 0x6c 0x6f 0x85) bg [], th_pane = colors (Rgb 0x8c 0x8f 0xa1) bg [],
       th_active_pane = colors accent bg [Bold], th_selection = colors fg (Rgb 0xcc 0xd0 0xda) [Bold],
       th_status = colors fg (Rgb 0xcc 0xd0 0xda) [], th_error = colors bg (Rgb 0xd2 0x0f 0x39) [Bold],
       th_command = colors bg accent [], th_unread = colors (Rgb 0x40 0xa0 0x2b) bg [Bold],
       th_flagged = colors (Rgb 0xdf 0x8e 0x1d) bg [Bold]\<rparr>)"

definition high_contrast_theme :: Theme where
  "high_contrast_theme =
      \<lparr>th_text = colors White Black [], th_muted = colors White Black [Dim], th_pane = colors White Black [Dim],
       th_active_pane = colors Black White [Bold], th_selection = colors Black Yellow [Bold],
       th_status = colors Black White [], th_error = colors White Red [Bold],
       th_command = colors Black Cyan [], th_unread = colors White Black [Bold, Underlined],
       th_flagged = colors Black Yellow [Bold]\<rparr>"

fun theme_of :: "ThemeName \<Rightarrow> Theme" where
  "theme_of Dark = dark_theme"
| "theme_of Light = light_theme"
| "theme_of HighContrast = high_contrast_theme"

subsection \<open>Lemmas\<close>

lemma theme_name_roundtrip: "theme_from_str (theme_as_str t) = Ok t"
  by (cases t) (simp_all add: theme_from_str_def)

lemma theme_rotation: "theme_next (theme_next (theme_next t)) = t \<and> theme_next t \<noteq> t"
  by (cases t) simp_all

text \<open>Every slot of every palette sets both colours, and two different ones.\<close>

definition readable :: "style \<Rightarrow> bool" where
  "readable s \<longleftrightarrow> st_fg s \<noteq> None \<and> st_bg s \<noteq> None \<and> st_fg s \<noteq> st_bg s"

lemma palettes_readable:
  "list_all (\<lambda>slot. readable (slot (theme_of t)))
     [th_text, th_muted, th_pane, th_active_pane, th_selection, th_status, th_error, th_command, th_unread, th_flagged]"
  by (cases t) (simp_all add: readable_def colors_def dark_theme_def light_theme_def high_contrast_theme_def Let_def)

end
