(* ===== verification/Config.thy ===== *)
theory Config
  imports Theme Secrets
begin

text \<open>
  \<^verbatim>\<open>src/config.rs\<close>: the configuration file of the daemon.  The TOML decoder (\<^verbatim>\<open>toml::from_str\<close>) and the
  file system are parameters; what the decoder delivers is the raw record, and everything after it
  is modelled.
\<close>

datatype SecretsBackend = Keyring | FileBackend

record SecretsConfig =
  sc_backend :: SecretsBackend
  sc_passphrase :: "rstr option"
  sc_path :: "rstr option"

record TuiConfig =
  tc_theme :: "ThemeName option"

record Config =
  cf_secrets :: SecretsConfig
  cf_tui :: TuiConfig

definition default_secrets_config :: SecretsConfig where
  "default_secrets_config = \<lparr>sc_backend = Keyring, sc_passphrase = None, sc_path = None\<rparr>"

definition default_tui_config :: TuiConfig where
  "default_tui_config = \<lparr>tc_theme = None\<rparr>"

definition default_config :: Config where
  "default_config = \<lparr>cf_secrets = default_secrets_config, cf_tui = default_tui_config\<rparr>"

record RawTuiConfig =
  rt_theme :: "rstr option"

record RawSecretsConfig =
  rs_backend :: "SecretsBackend option"
  rs_passphrase :: "rstr option"
  rs_path :: "rstr option"

record RawConfig =
  rc_secrets :: "RawSecretsConfig option"
  rc_tui :: "RawTuiConfig option"

datatype ConfigError = ConfigIo rstr | ConfigToml rstr | ConfigInvalid rstr

definition normalize_tui :: "RawTuiConfig option \<Rightarrow> (ConfigError, TuiConfig) result" where
  "normalize_tui raw =
     (case raw of
        None \<Rightarrow> Ok default_tui_config
      | Some raw \<Rightarrow>
          (case map_option trim (rt_theme raw) of
             None \<Rightarrow> Ok \<lparr>tc_theme = None\<rparr>
           | Some name \<Rightarrow>
               if name = [] then Ok \<lparr>tc_theme = None\<rparr>
               else
                 and_then (map_err (\<lambda>e. ConfigInvalid (lit ''[tui] '' @ theme_error_text e @
                             lit ''; valid: light, dark, high-contrast (or hc)'')) (theme_from_str name))
                   (\<lambda>theme. Ok \<lparr>tc_theme = Some theme\<rparr>)))"

definition normalize :: "RawConfig \<Rightarrow> (ConfigError, Config) result" where
  "normalize raw =
     and_then (normalize_tui (rc_tui raw)) (\<lambda>tui.
       (case rc_secrets raw of
          None \<Rightarrow> Ok (default_config\<lparr>cf_tui := tui\<rparr>)
        | Some secrets \<Rightarrow>
            (let backend = unwrap_or (if rs_passphrase secrets \<noteq> None then FileBackend else Keyring) (rs_backend secrets) in
             if backend = Keyring \<and> rs_path secrets \<noteq> None
             then Err (ConfigInvalid (lit ''[secrets] path requires backend = '' @ [34] @ lit ''file'' @ [34] @
                         lit '' with passphrase; remove path for keyring''))
             else if backend = FileBackend \<and> (case rs_passphrase secrets of None \<Rightarrow> True | Some p \<Rightarrow> p = [])
             then Err (ConfigInvalid (lit ''[secrets] backend = '' @ [34] @ lit ''file'' @ [34] @
                         lit '' requires non-empty passphrase''))
             else Ok \<lparr>cf_secrets = \<lparr>sc_backend = backend, sc_passphrase = rs_passphrase secrets, sc_path = rs_path secrets\<rparr>,
                      cf_tui = tui\<rparr>)))"

text \<open>A read fails because there is no file or with an error text.\<close>

datatype read_failure = NotFound | ReadError rstr

definition parse_config :: "(rstr \<Rightarrow> (rstr, RawConfig) result) \<Rightarrow> rstr \<Rightarrow> (ConfigError, Config) result" where
  "parse_config from_str input = and_then (map_err ConfigToml (from_str input)) normalize"

definition load :: "(rstr \<Rightarrow> (rstr, RawConfig) result) \<Rightarrow> (rstr \<Rightarrow> (read_failure, rstr) result) \<Rightarrow> rstr \<Rightarrow> (ConfigError, Config) result" where
  "load from_str read_to_string path =
     (case read_to_string path of
        Inr s \<Rightarrow> parse_config from_str s
      | Inl NotFound \<Rightarrow> Ok default_config
      | Inl (ReadError e) \<Rightarrow> Err (ConfigIo e))"

text \<open>\<^verbatim>\<open>redacted\<close>, and what the debug output of the secrets block shows.\<close>

definition redacted :: "rstr option \<Rightarrow> rstr option" where
  "redacted secret = map_option (\<lambda>_. lit ''<redacted>'') secret"

definition debug_secrets :: "SecretsConfig \<Rightarrow> SecretsBackend \<times> rstr option \<times> rstr option" where
  "debug_secrets c = (sc_backend c, redacted (sc_passphrase c), sc_path c)"

definition debug_raw_secrets :: "RawSecretsConfig \<Rightarrow> SecretsBackend option \<times> rstr option \<times> rstr option" where
  "debug_raw_secrets c = (rs_backend c, redacted (rs_passphrase c), rs_path c)"

subsection \<open>What a loaded configuration satisfies\<close>

definition config_wf :: "Config \<Rightarrow> bool" where
  "config_wf c \<longleftrightarrow>
     (case sc_backend (cf_secrets c) of
        Keyring \<Rightarrow> sc_path (cf_secrets c) = None
      | FileBackend \<Rightarrow> (\<exists>p. sc_passphrase (cf_secrets c) = Some p \<and> p \<noteq> []))"

text \<open>
  C39: every configuration that loads is consistent: the encrypted file has a non-empty passphrase
  and the keyring has no path; a missing file is the default configuration, and the debug output
  does not depend on the passphrase beyond its presence.
\<close>

theorem loaded_config_wf:
  assumes "load from_str read_to_string path = Ok c"
  shows "config_wf c \<and>
         (read_to_string path = Err NotFound \<longrightarrow> c = default_config) \<and>
         (\<forall>p q. debug_secrets ((cf_secrets c)\<lparr>sc_passphrase := Some p\<rparr>) = debug_secrets ((cf_secrets c)\<lparr>sc_passphrase := Some q\<rparr>))"
proof -
  have "config_wf c" if ok: "normalize raw = Ok c" for raw
  proof (cases "rc_secrets raw")
    case None
    with ok show ?thesis
      by (auto simp: normalize_def config_wf_def default_config_def default_secrets_config_def result_simps)
  next
    case (Some secrets)
    with ok show ?thesis
      by (cases "rs_backend secrets"; cases "the (rs_backend secrets)"; cases "rs_passphrase secrets")
         (auto simp: normalize_def config_wf_def result_simps split: if_split_asm)
  qed
  moreover have "config_wf default_config"
    by (simp add: config_wf_def default_config_def default_secrets_config_def)
  ultimately have "config_wf c"
    using assms by (auto simp: load_def parse_config_def result_simps split: sum.splits read_failure.splits)
  then show ?thesis using assms by (auto simp: load_def debug_secrets_def redacted_def)
qed

theorem loaded_config_wf_witness:
  "load (\<lambda>_. Ok \<lparr>rc_secrets = Some \<lparr>rs_backend = None, rs_passphrase = Some (lit ''pw''), rs_path = None\<rparr>, rc_tui = None\<rparr>)
     (\<lambda>_. Ok []) [] = Ok \<lparr>cf_secrets = \<lparr>sc_backend = FileBackend, sc_passphrase = Some (lit ''pw''), sc_path = None\<rparr>,
       cf_tui = default_tui_config\<rparr> \<and>
   config_wf \<lparr>cf_secrets = \<lparr>sc_backend = FileBackend, sc_passphrase = Some (lit ''pw''), sc_path = None\<rparr>,
       cf_tui = default_tui_config\<rparr>"
  using loaded_config_wf [of "\<lambda>_. Ok \<lparr>rc_secrets = Some \<lparr>rs_backend = None, rs_passphrase = Some (lit ''pw''), rs_path = None\<rparr>, rc_tui = None\<rparr>"
      "\<lambda>_. Ok []" "[]"]
  by (simp add: load_def parse_config_def normalize_def normalize_tui_def result_simps)

end
