(* ===== verification/Command.thy ===== *)
theory Command
  imports Theme
begin

text \<open>
  \<^verbatim>\<open>src/tui/command.rs\<close>: the command bar of the terminal interface.  Parsing a line into a command,
  the suggestion for a misspelt name by edit distance, and completion of a prefix.
\<close>

subsection \<open>Commands\<close>

datatype Command =
    CmdSync | CmdStartSync | CmdStopSync | CmdSeen | CmdUnseen | CmdFlag | CmdUnflag | CmdArchive
  | CmdApprovals | CmdApprove | CmdDelete | CmdDeny | CmdMove rstr | CmdThemeNext | CmdTheme ThemeName
  | CmdCompose | CmdReply | CmdReplyAll | CmdForward | CmdGoto rstr | CmdHelp | CmdAccount rstr
  | CmdSearch "rstr option" rstr | CmdWrite

definition COMMAND_NAMES :: "rstr list" where
  "COMMAND_NAMES = map lit
     [''account'', ''approvals'', ''approve'', ''archive'', ''compose'', ''delete'', ''deny'', ''flag'', ''forward'',
      ''goto'', ''help'', ''move'', ''reply'', ''reply-all'', ''search'', ''seen'', ''start-sync'', ''stop-sync'',
      ''sync'', ''theme'', ''unflag'', ''unseen'', ''w'']"

datatype CommandError = CmdEmpty | CmdUnknown rstr | CmdUsage rstr

definition parse_no_args :: "Command \<Rightarrow> rstr \<Rightarrow> rstr list \<Rightarrow> (CommandError, Command) result" where
  "parse_no_args command usage parts = (if parts \<noteq> [] then Err (CmdUsage usage) else Ok command)"

definition usage_for :: "rstr \<Rightarrow> CommandError" where
  "usage_for token =
     (if token = lit ''move'' then CmdUsage (lit ''move <folder>'')
      else if token = lit ''goto'' then CmdUsage (lit ''goto <folder>'')
      else CmdUsage (lit ''missing argument''))"

definition remainder_after_token :: "rstr \<Rightarrow> rstr \<Rightarrow> rstr" where
  "remainder_after_token input token =
     (let trimmed = trim_start input in
      if starts_with trimmed token then drop (length token) trimmed else trimmed)"

definition parse_remainder :: "rstr \<Rightarrow> rstr \<Rightarrow> rstr list \<Rightarrow> (CommandError, rstr) result" where
  "parse_remainder input token parts =
     (if parts = [] then Err (usage_for token)
      else
        (let value = trim (remainder_after_token input token) in
         if value = [] then Err (usage_for token) else Ok value))"

definition account_usage :: rstr where
  "account_usage = lit ''account <name|email>''"

definition parse_account :: "rstr list \<Rightarrow> (CommandError, Command) result" where
  "parse_account parts =
     (case parts of
        [] \<Rightarrow> Err (CmdUsage account_usage)
      | name # rest \<Rightarrow> if rest \<noteq> [] then Err (CmdUsage account_usage) else Ok (CmdAccount name))"

definition search_usage :: rstr where
  "search_usage = lit ''search [--account <name>] <query>''"

text \<open>The loop of \<^verbatim>\<open>parse_search\<close>, with the account found and the words of the query so far.\<close>

fun search_parts :: "rstr list \<Rightarrow> rstr option \<Rightarrow> rstr list \<Rightarrow> (CommandError, rstr option \<times> rstr list) result" where
  "search_parts [] account words = Ok (account, words)"
| "search_parts (part # parts) account words =
     (if part = lit ''--account'' then
        (case parts of
           [] \<Rightarrow> Err (CmdUsage search_usage)
         | value # rest \<Rightarrow>
             if account \<noteq> None then Err (CmdUsage search_usage) else search_parts rest (Some value) words)
      else search_parts parts account (words @ [part]))"

definition parse_search :: "rstr list \<Rightarrow> (CommandError, Command) result" where
  "parse_search parts =
     and_then (search_parts parts None []) (\<lambda>(account, words).
       if words = [] then Err (CmdUsage search_usage) else Ok (CmdSearch account (join [32] words)))"

definition theme_usage :: rstr where
  "theme_usage = lit ''theme next|light|dark|high-contrast''"

definition parse_theme :: "rstr list \<Rightarrow> (CommandError, Command) result" where
  "parse_theme parts =
     (case parts of
        [] \<Rightarrow> Err (CmdUsage theme_usage)
      | name # rest \<Rightarrow>
          if rest \<noteq> [] then Err (CmdUsage theme_usage)
          else if name = lit ''next'' then Ok CmdThemeNext
          else and_then (map_err (\<lambda>_. CmdUsage theme_usage) (theme_from_str name)) (\<lambda>t. Ok (CmdTheme t)))"

definition no_arg_commands :: "(rstr \<times> Command) list" where
  "no_arg_commands =
     [(lit ''sync'', CmdSync), (lit ''start-sync'', CmdStartSync), (lit ''stop-sync'', CmdStopSync), (lit ''seen'', CmdSeen),
      (lit ''unseen'', CmdUnseen), (lit ''flag'', CmdFlag), (lit ''unflag'', CmdUnflag), (lit ''archive'', CmdArchive),
      (lit ''approvals'', CmdApprovals), (lit ''approve'', CmdApprove), (lit ''delete'', CmdDelete), (lit ''deny'', CmdDeny),
      (lit ''compose'', CmdCompose), (lit ''reply'', CmdReply), (lit ''reply-all'', CmdReplyAll), (lit ''forward'', CmdForward),
      (lit ''help'', CmdHelp), (lit ''w'', CmdWrite)]"

definition parse_command :: "rstr \<Rightarrow> (CommandError, Command) result" where
  "parse_command input =
     (case split_whitespace input of
        [] \<Rightarrow> Err CmdEmpty
      | name # parts \<Rightarrow>
          (case map_of no_arg_commands name of
             Some command \<Rightarrow> parse_no_args command name parts
           | None \<Rightarrow>
               if name = lit ''move'' then and_then (parse_remainder input (lit ''move'') parts) (\<lambda>f. Ok (CmdMove f))
               else if name = lit ''goto'' then and_then (parse_remainder input (lit ''goto'') parts) (\<lambda>f. Ok (CmdGoto f))
               else if name = lit ''account'' then parse_account parts
               else if name = lit ''search'' then parse_search parts
               else if name = lit ''theme'' then parse_theme parts
               else Err (CmdUnknown name)))"

subsection \<open>Edit distance\<close>

text \<open>
  \<^verbatim>\<open>damerau_levenshtein\<close> with its three rows.  \<open>dl_cells\<close> is the loop over the columns of row \<open>i\<close>,
  \<open>dl_rows\<close> the loop over the rows; the two swaps at the end of a row make the current row the
  previous one and leave the oldest row to be overwritten.
\<close>

function dl_cells :: "byte list \<Rightarrow> byte list \<Rightarrow> nat \<Rightarrow> nat list \<Rightarrow> nat list \<Rightarrow> nat \<Rightarrow> nat list \<Rightarrow> nat list" where
  "dl_cells a b i prev_prev prev j current =
     (if length b < j then current
      else
        (let cost = (if a ! (i - 1) \<noteq> b ! (j - 1) then 1 else 0);
             deletion = prev ! j + 1;
             insertion = current ! (j - 1) + 1;
             substitution = prev ! (j - 1) + cost;
             value = min (min deletion insertion) substitution;
             value = (if i > 1 \<and> j > 1 \<and> a ! (i - 1) = b ! (j - 2) \<and> a ! (i - 2) = b ! (j - 1)
                      then min value (prev_prev ! (j - 2) + 1) else value) in
         dl_cells a b i prev_prev prev (j + 1) (current[j := value])))"
  by pat_completeness auto

termination
  by (relation "measure (\<lambda>(a, b, i, pp, p, j, c). length b + 1 - j)") auto

function dl_rows :: "byte list \<Rightarrow> byte list \<Rightarrow> nat \<Rightarrow> nat list \<Rightarrow> nat list \<Rightarrow> nat list \<Rightarrow> nat list" where
  "dl_rows a b i prev_prev prev current =
     (if length a < i then prev
      else dl_rows a b (i + 1) prev (dl_cells a b i prev_prev prev 1 (current[0 := i])) prev_prev)"
  by pat_completeness auto

termination
  by (relation "measure (\<lambda>(a, b, i, pp, p, c). length a + 1 - i)") auto

declare dl_cells.simps [simp del] dl_rows.simps [simp del]

definition damerau_levenshtein :: "byte list \<Rightarrow> byte list \<Rightarrow> nat" where
  "damerau_levenshtein a b =
     (let rows = length a; cols = length b in
      if rows = 0 then cols
      else if cols = 0 then rows
      else dl_rows a b 1 (replicate (cols + 1) 0) [0..<cols + 1] (replicate (cols + 1) 0) ! cols)"

text \<open>One candidate after the other, with the best distance and its index so far.\<close>

fun nearest_from :: "byte list \<Rightarrow> nat \<Rightarrow> rstr list \<Rightarrow> (nat \<times> nat) option \<Rightarrow> (nat \<times> nat) option" where
  "nearest_from input index [] best = best"
| "nearest_from input index (name # names) best =
     (let name_bytes = as_bytes name;
          len_diff = max (length name_bytes) (length input) - min (length name_bytes) (length input) in
      if len_diff > 2 then nearest_from input (index + 1) names best
      else
        (let distance = damerau_levenshtein input name_bytes in
         if distance > 2 then nearest_from input (index + 1) names best
         else
           (case best of
              None \<Rightarrow> nearest_from input (index + 1) names (Some (distance, index))
            | Some (current_distance, current_index) \<Rightarrow>
                if distance < current_distance \<or> (distance = current_distance \<and> index < current_index)
                then nearest_from input (index + 1) names (Some (distance, index))
                else nearest_from input (index + 1) names best)))"

definition nearest_command_name :: "rstr \<Rightarrow> rstr option" where
  "nearest_command_name input =
     (if input = [] then None
      else map_option (\<lambda>(_, index). COMMAND_NAMES ! index) (nearest_from (as_bytes input) 0 COMMAND_NAMES None))"

subsection \<open>Completion\<close>

record CommandCompletion =
  cc_text :: rstr
  cc_matches :: "rstr list"
  cc_unique :: bool

text \<open>The loop of \<^verbatim>\<open>longest_common_prefix\<close> over the characters of the first word.\<close>

fun common_from :: "rstr list \<Rightarrow> nat \<Rightarrow> rstr \<Rightarrow> rstr" where
  "common_from words i [] = []"
| "common_from words i (ch # rest) =
     (if list_all (\<lambda>word. i < length word \<and> word ! i = ch) words then ch # common_from words (i + 1) rest else [])"

definition longest_common_prefix :: "rstr list \<Rightarrow> rstr" where
  "longest_common_prefix words = (case words of [] \<Rightarrow> [] | first # _ \<Rightarrow> common_from words 0 first)"

definition complete_command :: "rstr \<Rightarrow> CommandCompletion option" where
  "complete_command input =
     (if input = [] then None
      else if list_ex is_whitespace input then None
      else
        (case filter (\<lambda>name. starts_with name input) COMMAND_NAMES of
           [] \<Rightarrow> None
         | [only] \<Rightarrow> Some \<lparr>cc_text = only, cc_matches = [only], cc_unique = True\<rparr>
         | many \<Rightarrow> Some \<lparr>cc_text = longest_common_prefix many, cc_matches = many, cc_unique = False\<rparr>))"

subsection \<open>The distance is the least number of edits\<close>

text \<open>
  \<open>edits n xs ys\<close>: \<open>n\<close> insertions, deletions, replacements and swaps of neighbours, none touching
  what another produced, turn \<open>xs\<close> into \<open>ys\<close>.
\<close>

inductive edits :: "nat \<Rightarrow> 'a list \<Rightarrow> 'a list \<Rightarrow> bool" where
  edits_none: "edits 0 [] []"
| edits_keep: "edits n xs ys \<Longrightarrow> edits n (xs @ [x]) (ys @ [x])"
| edits_replace: "edits n xs ys \<Longrightarrow> edits (Suc n) (xs @ [x]) (ys @ [y])"
| edits_insert: "edits n xs ys \<Longrightarrow> edits (Suc n) xs (ys @ [y])"
| edits_delete: "edits n xs ys \<Longrightarrow> edits (Suc n) (xs @ [x]) ys"
| edits_swap: "edits n xs ys \<Longrightarrow> edits (Suc n) (xs @ [x, y]) (ys @ [y, x])"

text \<open>The recurrence on prefixes that the rows tabulate.\<close>

fun osa :: "'a list \<Rightarrow> 'a list \<Rightarrow> nat \<Rightarrow> nat \<Rightarrow> nat" where
  "osa a b 0 j = j"
| "osa a b (Suc i) 0 = Suc i"
| "osa a b (Suc i) (Suc j) =
     (let v = min (min (osa a b i (Suc j) + 1) (osa a b (Suc i) j + 1)) (osa a b i j + (if a ! i \<noteq> b ! j then 1 else 0)) in
      if 0 < i \<and> 0 < j \<and> a ! i = b ! (j - 1) \<and> a ! (i - 1) = b ! j then min v (osa a b (i - 1) (j - 1) + 1) else v)"

lemmas osa_Suc = osa.simps(3)

declare osa_Suc [simp del]

lemma osa_0 [simp]: "osa a b i 0 = i"
  by (cases i) simp_all

lemma edits_inserts: "edits n [] ys \<Longrightarrow> edits (n + length zs) [] (ys @ zs)"
  by (induction zs rule: rev_induct) (auto simp flip: append_assoc intro: edits.intros)

lemma edits_deletes: "edits n xs [] \<Longrightarrow> edits (n + length zs) (xs @ zs) []"
  by (induction zs rule: rev_induct) (auto simp flip: append_assoc intro: edits.intros)

lemma take_Suc_snoc: "i < length xs \<Longrightarrow> take (Suc i) xs = take i xs @ [xs ! i]"
  by (simp add: take_Suc_conv_app_nth)

lemma take_swap: "0 < i \<Longrightarrow> i < length xs \<Longrightarrow> take (Suc i) xs = take (i - 1) xs @ [xs ! (i - 1), xs ! i]"
  by (cases i) (simp_all add: take_Suc_conv_app_nth)

lemma osa_edits:
  "i \<le> length a \<Longrightarrow> j \<le> length b \<Longrightarrow> edits (osa a b i j) (take i a) (take j b)"
proof (induction a b i j rule: osa.induct)
  case (1 a b j)
  then show ?case using edits_inserts [OF edits_none, of "take j b"] by simp
next
  case (2 a b i)
  then show ?case using edits_deletes [OF edits_none, of "take (Suc i) a"] by simp
next
  case (3 a b i j)
  let ?new = "osa a b (Suc i) (Suc j)"
  have bounds: "i < length a" "j < length b" using 3(5,6) by simp_all
  note takes = take_Suc_snoc [OF bounds(1)] take_Suc_snoc [OF bounds(2)]
  have del: "edits (osa a b i (Suc j) + 1) (take (Suc i) a) (take (Suc j) b)"
    using 3(1) 3(5,6) edits_delete [of _ "take i a" "take (Suc j) b" "a ! i"] takes(1) by simp
  have ins: "edits (osa a b (Suc i) j + 1) (take (Suc i) a) (take (Suc j) b)"
    using 3(2) 3(5,6) edits_insert [of _ "take (Suc i) a" "take j b" "b ! j"] takes(2) by simp
  have sub: "edits (osa a b i j + (if a ! i \<noteq> b ! j then 1 else 0)) (take (Suc i) a) (take (Suc j) b)"
    using 3(3) 3(5,6) edits_keep [of _ "take i a" "take j b" "a ! i"]
      edits_replace [of _ "take i a" "take j b" "a ! i" "b ! j"] takes by auto
  have swap: "edits (osa a b (i - 1) (j - 1) + 1) (take (Suc i) a) (take (Suc j) b)"
    if "0 < i" "0 < j" "a ! i = b ! (j - 1)" "a ! (i - 1) = b ! j"
    using 3(4) 3(5,6) that edits_swap [of _ "take (i - 1) a" "take (j - 1) b" "a ! (i - 1)" "a ! i"]
      take_swap [OF that(1) bounds(1)] take_swap [OF that(2) bounds(2)] by (simp add: Let_def)
  show ?case using del ins sub swap by (auto simp: osa_Suc Let_def min_def)
qed

lemma osa_steps:
  "osa a b i (Suc j) \<le> osa a b i j + 1"
  "osa a b (Suc i) j \<le> osa a b i j + 1"
  "osa a b (Suc i) (Suc j) \<le> osa a b i j + (if a ! i = b ! j then 0 else 1)"
  "a ! Suc i = b ! j \<Longrightarrow> a ! i = b ! Suc j \<Longrightarrow> osa a b (Suc (Suc i)) (Suc (Suc j)) \<le> osa a b i j + 1"
proof -
  show "osa a b i (Suc j) \<le> osa a b i j + 1" by (cases i) (auto simp: osa_Suc Let_def min_le_iff_disj)
  show "osa a b (Suc i) j \<le> osa a b i j + 1" by (cases j) (auto simp: osa_Suc Let_def min_le_iff_disj)
qed (auto simp: osa_Suc [of a b i j] osa_Suc [of a b "Suc i" "Suc j"] Let_def min_le_iff_disj)

lemma snoc_takeD:
  assumes "xs @ [x] = take i a" and "i \<le> length a"
  shows "\<exists>k. i = Suc k \<and> xs = take k a \<and> x = a ! k"
proof -
  have "i = Suc (length xs)" using assms by (metis length_append_singleton length_take min.absorb2)
  with assms show ?thesis by (metis Suc_le_eq append1_eq_conv take_Suc_conv_app_nth)
qed

lemma osa_least:
  "edits n xs ys \<Longrightarrow> xs = take i a \<Longrightarrow> ys = take j b \<Longrightarrow> i \<le> length a \<Longrightarrow> j \<le> length b \<Longrightarrow> osa a b i j \<le> n"
proof (induction arbitrary: i j rule: edits.induct)
  case edits_none
  then show ?case by auto
next
  case (edits_keep n xs ys x)
  obtain k where k: "i = Suc k" "xs = take k a" "x = a ! k" using snoc_takeD [OF edits_keep.prems(1,3)] by auto
  obtain l where l: "j = Suc l" "ys = take l b" "x = b ! l" using snoc_takeD [OF edits_keep.prems(2,4)] by auto
  from k l edits_keep.IH [of k l] edits_keep.prems osa_steps(3) [of a b k l] show ?case by simp
next
  case (edits_replace n xs ys x y)
  obtain k where k: "i = Suc k" "xs = take k a" using snoc_takeD [OF edits_replace.prems(1,3)] by auto
  obtain l where l: "j = Suc l" "ys = take l b" using snoc_takeD [OF edits_replace.prems(2,4)] by auto
  from k l edits_replace.IH [of k l] edits_replace.prems osa_steps(3) [of a b k l] show ?case by (simp split: if_splits)
next
  case (edits_insert n xs ys y)
  obtain l where l: "j = Suc l" "ys = take l b" using snoc_takeD [OF edits_insert.prems(2,4)] by auto
  from l edits_insert.IH [of i l] edits_insert.prems osa_steps(1) [of a b i l] show ?case by simp
next
  case (edits_delete n xs ys x)
  obtain k where k: "i = Suc k" "xs = take k a" using snoc_takeD [OF edits_delete.prems(1,3)] by auto
  from k edits_delete.IH [of k j] edits_delete.prems osa_steps(2) [of a b k j] show ?case by simp
next
  case (edits_swap n xs ys x y)
  have "(xs @ [x]) @ [y] = take i a" "(ys @ [y]) @ [x] = take j b" using edits_swap.prems by simp_all
  from this [THEN snoc_takeD] edits_swap.prems(3,4)
  obtain k l where kl: "i = Suc k" "xs @ [x] = take k a" "y = a ! k" "j = Suc l" "ys @ [y] = take l b" "x = b ! l"
    by auto
  have "k \<le> length a" "l \<le> length b" using kl edits_swap.prems(3,4) by simp_all
  with snoc_takeD [OF kl(2)] snoc_takeD [OF kl(5)]
  obtain k' l' where "k = Suc k'" "xs = take k' a" "x = a ! k'" "l = Suc l'" "ys = take l' b" "y = b ! l'" by auto
  with kl edits_swap.IH [of k' l'] edits_swap.prems osa_steps(4) [of a k' b l'] show ?case by simp
qed

subsection \<open>The rows hold the recurrence\<close>

definition row_upto :: "byte list \<Rightarrow> byte list \<Rightarrow> nat \<Rightarrow> nat \<Rightarrow> nat list \<Rightarrow> bool" where
  "row_upto a b i n row \<longleftrightarrow> length row = length b + 1 \<and> (\<forall>j<n. row ! j = osa a b i j)"

lemma dl_cells_row:
  assumes prev: "row_upto a b (i - 1) (length b + 1) prev"
    and prev_prev: "1 < i \<Longrightarrow> row_upto a b (i - 2) (length b + 1) prev_prev"
    and "row_upto a b i j current" and "0 < i" and "0 < j" and "j \<le> length b + 1"
  shows "row_upto a b i (length b + 1) (dl_cells a b i prev_prev prev j current)"
  using assms(3-6)
proof (induction "length b + 1 - j" arbitrary: j current)
  case 0
  then show ?case by (subst dl_cells.simps) (simp add: row_upto_def)
next
  case (Suc n)
  obtain k l where kl: "i = Suc k" "j = Suc l" using Suc.prems by (metis gr0_implies_Suc)
  have le: "l < length b" using Suc.hyps(2) kl by simp
  define v where "v = (let value = min (min (prev ! Suc l + 1) (current ! l + 1)) (prev ! l + (if a ! k \<noteq> b ! l then 1 else 0)) in
      if 0 < k \<and> 0 < l \<and> a ! k = b ! (l - 1) \<and> a ! (k - 1) = b ! l then min value (prev_prev ! (l - 1) + 1) else value)"
  have cells: "prev ! Suc l = osa a b k (Suc l)" "prev ! l = osa a b k l" "current ! l = osa a b (Suc k) l"
    using prev Suc.prems(1) le kl by (simp_all add: row_upto_def)
  have "prev_prev ! (l - 1) = osa a b (k - 1) (l - 1)" if "0 < k"
    using prev_prev le kl that by (cases k) (simp_all add: row_upto_def)
  with cells have v: "v = osa a b i j" using kl by (auto simp: v_def osa_Suc Let_def)
  have step: "dl_cells a b i prev_prev prev j current = dl_cells a b i prev_prev prev (j + 1) (current[j := v])"
    using le kl by (subst dl_cells.simps) (simp add: v_def Let_def numeral_2_eq_2)
  have "row_upto a b i (j + 1) (current[j := v])"
    using Suc.prems(1) le kl v by (auto simp: row_upto_def nth_list_update elim: less_SucE)
  with Suc.hyps show ?case unfolding step using Suc.prems le kl by (intro Suc.hyps(1)) auto
qed

lemma dl_rows_row:
  assumes "row_upto a b (i - 1) (length b + 1) prev"
    and "1 < i \<Longrightarrow> row_upto a b (i - 2) (length b + 1) prev_prev"
    and "length current = length b + 1" and "length prev_prev = length b + 1" and "0 < i" and "i \<le> length a + 1"
  shows "row_upto a b (length a) (length b + 1) (dl_rows a b i prev_prev prev current)"
  using assms
proof (induction "length a + 1 - i" arbitrary: i prev_prev prev current)
  case 0
  then show ?case by (subst dl_rows.simps) simp
next
  case (Suc n)
  let ?row = "dl_cells a b i prev_prev prev 1 (current[0 := i])"
  have "row_upto a b i 1 (current[0 := i])" using Suc.prems(3) by (cases current) (simp_all add: row_upto_def)
  from dl_cells_row [OF Suc.prems(1,2) this Suc.prems(5)]
  have row: "row_upto a b i (length b + 1) ?row" by simp
  have "row_upto a b (length a) (length b + 1) (dl_rows a b (i + 1) prev ?row prev_prev)"
    using Suc row by (intro Suc.hyps(1)) (auto simp: row_upto_def)
  moreover have "\<not> length a < i" using Suc.hyps(2) by linarith
  ultimately show ?case by (subst dl_rows.simps) simp
qed

lemma damerau_levenshtein_osa: "damerau_levenshtein a b = osa a b (length a) (length b)"
proof -
  have "row_upto a b 0 (length b + 1) [0..<length b + 1]" by (auto simp: row_upto_def simp del: upt_Suc)
  from dl_rows_row [of a b 1, OF _ _ _ _ _ _] this
  have "row_upto a b (length a) (length b + 1)
      (dl_rows a b 1 (replicate (length b + 1) 0) [0..<length b + 1] (replicate (length b + 1) 0))"
    by (simp del: upt_Suc)
  then show ?thesis by (auto simp add: damerau_levenshtein_def row_upto_def Let_def del: upt_Suc replicate_Suc)
qed

lemma damerau_levenshtein_least:
  "edits (damerau_levenshtein a b) a b \<and> (\<forall>n. edits n a b \<longrightarrow> damerau_levenshtein a b \<le> n)"
  using osa_edits [of "length a" a "length b" b] osa_least [of _ a b "length a" a "length b" b]
  by (simp add: damerau_levenshtein_osa)

lemma edits_length: "edits n xs ys \<Longrightarrow> length xs \<le> length ys + n \<and> length ys \<le> length xs + n"
  by (induction rule: edits.induct) auto

subsection \<open>Suggestions\<close>

lemma far_apart:
  assumes "2 < max (length b) (length a) - min (length b) (length a)"
  shows "2 < damerau_levenshtein a b"
  using assms edits_length [of "damerau_levenshtein a b" a b] damerau_levenshtein_least [of a b] by linarith

text \<open>The shortcut on lengths changes nothing.\<close>

lemma nearest_from_step:
  "nearest_from input i (name # names) best =
     (let d = damerau_levenshtein input (as_bytes name) in
      nearest_from input (i + 1) names
        (if 2 < d then best
         else case best of None \<Rightarrow> Some (d, i)
                         | Some (d', i') \<Rightarrow> if d < d' \<or> (d = d' \<and> i < i') then Some (d, i) else best))"
  using far_apart [of "as_bytes name" input] by (auto simp: Let_def split: option.splits)

declare nearest_from.simps(2) [simp del]

lemma nearest_from_None: "nearest_from input i names best = None \<Longrightarrow>
    best = None \<and> (\<forall>name\<in>set names. 2 < damerau_levenshtein input (as_bytes name))"
proof (induction names arbitrary: i best)
  case (Cons name names)
  from Cons.IH [OF Cons.prems [unfolded nearest_from_step Let_def]] show ?case
    by (auto split: if_splits option.splits)
qed simp

lemma nearest_from_Some:
  assumes "nearest_from input i names best = Some (d, k)"
  shows "best = Some (d, k) \<or> i \<le> k \<and> k < i + length names \<and>
      d = damerau_levenshtein input (as_bytes (names ! (k - i))) \<and> d \<le> 2"
    and "\<And>d' k'. best = Some (d', k') \<Longrightarrow> d \<le> d'"
    and "\<And>name. name \<in> set names \<Longrightarrow> 2 < damerau_levenshtein input (as_bytes name) \<or> d \<le> damerau_levenshtein input (as_bytes name)"
proof -
  have "(best = Some (d, k) \<or> i \<le> k \<and> k < i + length names \<and>
          d = damerau_levenshtein input (as_bytes (names ! (k - i))) \<and> d \<le> 2) \<and>
        (\<forall>d' k'. best = Some (d', k') \<longrightarrow> d \<le> d') \<and>
        (\<forall>name\<in>set names. 2 < damerau_levenshtein input (as_bytes name) \<or> d \<le> damerau_levenshtein input (as_bytes name))"
    using assms
  proof (induction names arbitrary: i best)
    case (Cons name names)
    define d0 where "d0 = damerau_levenshtein input (as_bytes name)"
    define best' where "best' = (if 2 < d0 then best
         else case best of None \<Rightarrow> Some (d0, i)
                         | Some (d', i') \<Rightarrow> if d0 < d' \<or> (d0 = d' \<and> i < i') then Some (d0, i) else best)"
    have "nearest_from input (i + 1) names best' = Some (d, k)"
      using Cons.prems unfolding best'_def d0_def nearest_from_step Let_def .
    note IH = Cons.IH [OF this]
    have nth: "(name # names) ! (k - i) = names ! (k - Suc i)" if "Suc i \<le> k" using that by (simp add: nth_Cons')
    have "best' = Some (d, k) \<Longrightarrow> best = Some (d, k) \<or> (d = d0 \<and> k = i \<and> d0 \<le> 2)"
      by (auto simp: best'_def split: if_splits option.splits)
    moreover have "\<exists>d1 k1. best' = Some (d1, k1) \<and> d1 \<le> d'" if "best = Some (d', k')" for d' k'
      using that by (auto simp: best'_def)
    moreover have "2 < d0 \<or> (\<exists>d1 k1. best' = Some (d1, k1) \<and> d1 \<le> d0)"
      by (cases best) (auto simp: best'_def)
    ultimately show ?case using IH nth by (fastforce simp: d0_def)
  qed simp
  then show "best = Some (d, k) \<or> i \<le> k \<and> k < i + length names \<and>
      d = damerau_levenshtein input (as_bytes (names ! (k - i))) \<and> d \<le> 2"
    and "\<And>d' k'. best = Some (d', k') \<Longrightarrow> d \<le> d'"
    and "\<And>name. name \<in> set names \<Longrightarrow> 2 < damerau_levenshtein input (as_bytes name) \<or> d \<le> damerau_levenshtein input (as_bytes name)"
    by blast+
qed



subsection \<open>Completion\<close>

lemma common_from_prefix:
  assumes "\<And>w. w \<in> set words \<Longrightarrow> prefix pre w" and "pre @ rest \<in> set words"
  shows "prefix p (pre @ common_from words (length pre) rest) \<longleftrightarrow> (\<forall>w\<in>set words. prefix p w)"
  using assms
proof (induction rest arbitrary: pre)
  case Nil
  then show ?case by (auto intro: prefix_order.trans)
next
  case (Cons ch rest)
  show ?case
  proof (cases "list_all (\<lambda>w. length pre < length w \<and> w ! length pre = ch) words")
    case True
    have "prefix (pre @ [ch]) w" if w: "w \<in> set words" for w
    proof -
      obtain zs where "w = pre @ zs" using Cons.prems(1) [OF w] by (auto simp: prefix_def)
      with True w show ?thesis by (cases zs) (auto simp: list_all_iff nth_append)
    qed
    with Cons.IH [of "pre @ [ch]"] Cons.prems(2) True show ?thesis by simp
  next
    case False
    then obtain w where w: "w \<in> set words" "\<not> (length pre < length w \<and> w ! length pre = ch)"
      by (auto simp: list_all_iff)
    have "prefix p pre" if "\<forall>w\<in>set words. prefix p w"
    proof (rule ccontr)
      assume "\<not> prefix p pre"
      moreover have "prefix p (pre @ ch # rest)" using that Cons.prems(2) by blast
      ultimately have "length pre < length p" "p ! length pre = ch"
        by (auto simp: prefix_append) (auto simp: prefix_def nth_append Cons_eq_append_conv)
      with that w show False by (auto simp: prefix_def nth_append)
    qed
    with False Cons.prems(1) show ?thesis by (auto intro: prefix_order.trans)
  qed
qed

lemma longest_common_prefix_iff:
  "words \<noteq> [] \<Longrightarrow> prefix p (longest_common_prefix words) \<longleftrightarrow> (\<forall>w\<in>set words. prefix p w)"
  using common_from_prefix [of words "[]" "hd words" p] by (cases words) (auto simp: longest_common_prefix_def)

text \<open>
  A completion offers exactly the commands that begin with the input, at least one, and
  replaces the input by the longest text that all of them begin with, which extends the input.
\<close>

theorem completion_is_longest_common:
  assumes "complete_command input = Some c"
  shows "cc_matches c = filter (prefix input) COMMAND_NAMES \<and> cc_matches c \<noteq> [] \<and>
         (\<forall>p. prefix p (cc_text c) \<longleftrightarrow> (\<forall>name\<in>set (cc_matches c). prefix p name)) \<and>
         prefix input (cc_text c) \<and> (cc_unique c \<longleftrightarrow> length (cc_matches c) = 1)"
proof -
  define ms where "ms = filter (prefix input) COMMAND_NAMES"
  have inp: "prefix input name" if "name \<in> set ms" for name using that by (simp add: ms_def)
  have c: "(case ms of [] \<Rightarrow> None
      | [only] \<Rightarrow> Some \<lparr>cc_text = only, cc_matches = [only], cc_unique = True\<rparr>
      | many \<Rightarrow> Some \<lparr>cc_text = longest_common_prefix many, cc_matches = many, cc_unique = False\<rparr>) = Some c"
    using assms unfolding complete_command_def starts_with_def ms_def by (simp split: if_split_asm)
  show ?thesis
  proof (cases ms)
    case (Cons first rest)
    show ?thesis
    proof (cases rest)
      case Nil
      with Cons c inp show ?thesis by (auto simp flip: ms_def)
    next
      case (Cons second others)
      with \<open>ms = first # rest\<close> c have "c = \<lparr>cc_text = longest_common_prefix ms, cc_matches = ms, cc_unique = False\<rparr>"
        "ms \<noteq> []" "length ms \<noteq> 1" by auto
      with inp longest_common_prefix_iff [of ms] show ?thesis by (simp flip: ms_def)
    qed
  qed (use c in simp)
qed

theorem completion_is_longest_common_witness:
  "\<exists>c. complete_command (lit ''s'') = Some c \<and> \<not> cc_unique c \<and> prefix (lit ''s'') (cc_text c) \<and>
     cc_matches c = [lit ''search'', lit ''seen'', lit ''start-sync'', lit ''stop-sync'', lit ''sync'']"
proof -
  have "\<exists>c. complete_command (lit ''s'') = Some c \<and> \<not> cc_unique c \<and>
     cc_matches c = [lit ''search'', lit ''seen'', lit ''start-sync'', lit ''stop-sync'', lit ''sync'']"
    by (simp add: complete_command_def COMMAND_NAMES_def starts_with_def lit_def is_whitespace_def)
  then show ?thesis using completion_is_longest_common by blast
qed

subsection \<open>Parsing\<close>

lemma search_parts_usage: "search_parts parts account words = Err e \<Longrightarrow> e = CmdUsage search_usage"
  by (induction parts account words rule: search_parts.induct) (auto split: if_split_asm list.split_asm)

lemma no_unknown:
  "parse_no_args command usage parts \<noteq> Err (CmdUnknown n)"
  "parse_remainder input token parts \<noteq> Err (CmdUnknown n)"
  "parse_account parts \<noteq> Err (CmdUnknown n)"
  "parse_search parts \<noteq> Err (CmdUnknown n)"
  "parse_theme parts \<noteq> Err (CmdUnknown n)"
proof -
  show "parse_search parts \<noteq> Err (CmdUnknown n)"
    by (auto simp: parse_search_def result_simps split: if_split_asm prod.split_asm dest: search_parts_usage)
qed (auto simp: parse_no_args_def parse_remainder_def usage_for_def parse_account_def parse_theme_def result_simps Let_def
      split: list.split_asm if_split_asm)

lemma unknown_command_iff:
  assumes "split_whitespace input = name # parts"
  shows "parse_command input = Err (CmdUnknown name) \<longleftrightarrow> name \<notin> set COMMAND_NAMES"
proof -
  have known: "set COMMAND_NAMES = fst ` set no_arg_commands \<union> {lit ''move'', lit ''goto'', lit ''account'', lit ''search'', lit ''theme''}"
    by (simp add: COMMAND_NAMES_def no_arg_commands_def insert_commute)
  show ?thesis
  proof (cases "map_of no_arg_commands name")
    case None
    then have "name \<notin> fst ` set no_arg_commands" by (simp add: map_of_eq_None_iff)
    then show ?thesis unfolding known by (simp add: parse_command_def assms None no_unknown result_simps)
  next
    case (Some command)
    then have "name \<in> fst ` set no_arg_commands" by (metis domI dom_map_of_conv_image_fst)
    then show ?thesis unfolding known by (simp add: parse_command_def assms Some no_unknown)
  qed
qed

lemma blank_is_whitespace [simp]: "is_whitespace 32"
  by (simp add: is_whitespace_def)

lemma split_word:
  assumes "\<forall>c\<in>set w. \<not> is_whitespace c" and "w \<noteq> []"
  shows "split_whitespace (w @ 32 # t) = w # split_whitespace t"
  using split_ws_aux_word [OF assms(1), of "[]" "32 # t"] assms(2) by (simp add: split_whitespace_def)

lemma split_whitespace_ne:
  assumes "folder \<noteq> []" and "trim folder = folder"
  shows "split_whitespace folder \<noteq> []"
proof -
  have ne: "split_ws_aux cur t \<noteq> []" if "cur \<noteq> []" for cur t
    using that by (induction t arbitrary: cur) auto
  obtain c cs where folder: "folder = c # cs" using assms(1) by (cases folder) auto
  have "\<not> is_whitespace c" using trim_hd [of folder] assms folder by simp
  with ne folder show ?thesis by (simp add: split_whitespace_def)
qed

lemma remainder_word:
  assumes "\<forall>c\<in>set w. \<not> is_whitespace c" and "w \<noteq> []" and "folder \<noteq> []" and "trim folder = folder"
  shows "parse_remainder (w @ 32 # folder) w (split_whitespace folder) = Ok folder"
proof -
  have "trim_start (w @ 32 # folder) = w @ 32 # folder"
    using assms(1,2) by (intro trim_start_id) simp
  moreover have "trim (32 # folder) = trim folder" by (simp add: trim_def trim_start_def)
  ultimately show ?thesis
    using split_whitespace_ne [OF assms(3,4)] assms(3,4)
    by (simp add: parse_remainder_def remainder_after_token_def starts_with_def Let_def)
qed

text \<open>
  A folder name survives the command bar: after \<^verbatim>\<open>move\<close> or \<^verbatim>\<open>goto\<close> the command carries the whole
  rest of the line, with its inner blanks.
\<close>

theorem folder_argument_preserved:
  assumes "folder \<noteq> []" and "trim folder = folder"
  shows "parse_command (lit ''move '' @ folder) = Ok (CmdMove folder) \<and>
         parse_command (lit ''goto '' @ folder) = Ok (CmdGoto folder)"
proof -
  have plain: "\<forall>c\<in>set (lit ''move''). \<not> is_whitespace c" "\<forall>c\<in>set (lit ''goto''). \<not> is_whitespace c"
    by (simp_all add: lit_def is_whitespace_def)
  have none: "map_of no_arg_commands (lit ''move'') = None" "map_of no_arg_commands (lit ''goto'') = None"
    by (simp_all add: no_arg_commands_def)
  have blank: "lit ''move '' @ folder = lit ''move'' @ 32 # folder" "lit ''goto '' @ folder = lit ''goto'' @ 32 # folder"
    by (simp_all add: lit_def)
  have "parse_command (lit ''move'' @ 32 # folder) = Ok (CmdMove folder)"
    unfolding parse_command_def split_word [OF plain(1), simplified] by (simp add: none remainder_word [OF plain(1) _ assms])
  moreover have "parse_command (lit ''goto'' @ 32 # folder) = Ok (CmdGoto folder)"
    unfolding parse_command_def split_word [OF plain(2), simplified] by (simp add: none remainder_word [OF plain(2) _ assms])
  ultimately show ?thesis unfolding blank by blast
qed

theorem folder_argument_preserved_witness:
  "parse_command (lit ''move '' @ lit ''Old mail'') = Ok (CmdMove (lit ''Old mail''))"
  using folder_argument_preserved [of "lit ''Old mail''"]
  by (simp add: trim_def trim_start_def trim_end_def is_whitespace_def lit_def)

end
