(* ===== verification/TextLines.thy ===== *)
theory TextLines
  imports Prelude
begin

text \<open>
  \<^verbatim>\<open>src/tui/app.rs\<close>: the text buffers of the terminal interface.  A cache of the lines of a text in
  character and in byte offsets, the byte slices taken from it, and the conversion from a character
  index to a byte index.  A byte offset that is not on a character boundary has no slice; where the
  code would panic on one (\<^verbatim>\<open>String::insert\<close>, \<^verbatim>\<open>String::replace_range\<close>) the operation is \<open>None\<close>.
\<close>

subsection \<open>Byte offsets into a string\<close>

fun byte_prefix :: "nat \<Rightarrow> rstr \<Rightarrow> rstr option" where
  "byte_prefix n [] = (if n = 0 then Some [] else None)"
| "byte_prefix n (c # cs) =
     (if n = 0 then Some []
      else if n < len_utf8 c then None
      else map_option ((#) c) (byte_prefix (n - len_utf8 c) cs))"

text \<open>\<^verbatim>\<open>str::split_at_checked\<close>, and \<^verbatim>\<open>str::get(a..b)\<close>, \<^verbatim>\<open>String::insert\<close>, \<^verbatim>\<open>String::replace_range\<close> in terms of it.\<close>

definition split_at_byte :: "nat \<Rightarrow> rstr \<Rightarrow> (rstr \<times> rstr) option" where
  "split_at_byte n s = map_option (\<lambda>p. (p, drop (length p) s)) (byte_prefix n s)"

definition str_get :: "rstr \<Rightarrow> nat \<Rightarrow> nat \<Rightarrow> rstr option" where
  "str_get s a b =
     (if b < a then None
      else Option.bind (split_at_byte b s) (\<lambda>(upto_b, _). map_option snd (split_at_byte a upto_b)))"

definition str_insert :: "rstr \<Rightarrow> nat \<Rightarrow> rchar \<Rightarrow> rstr option" where
  "str_insert s i c = map_option (\<lambda>(before, after). before @ c # after) (split_at_byte i s)"

definition replace_range :: "rstr \<Rightarrow> nat \<Rightarrow> nat \<Rightarrow> rstr \<Rightarrow> rstr option" where
  "replace_range s a b new =
     (if b < a then None
      else Option.bind (split_at_byte b s) (\<lambda>(upto_b, after).
           map_option (\<lambda>(before, _). before @ new @ after) (split_at_byte a upto_b)))"

fun char_indices_from :: "nat \<Rightarrow> rstr \<Rightarrow> (nat \<times> rchar) list" where
  "char_indices_from n [] = []"
| "char_indices_from n (c # cs) = (n, c) # char_indices_from (n + len_utf8 c) cs"

definition char_indices :: "rstr \<Rightarrow> (nat \<times> rchar) list" where
  "char_indices s = char_indices_from 0 s"

definition list_get :: "'a list \<Rightarrow> nat \<Rightarrow> 'a option" where
  "list_get xs i = (if i < length xs then Some (xs ! i) else None)"

definition char_count :: "rstr \<Rightarrow> nat" where
  "char_count value = length value"

definition char_to_byte_index :: "rstr \<Rightarrow> nat \<Rightarrow> nat" where
  "char_to_byte_index value char_index =
     (if char_index = 0 then 0
      else (case list_get (char_indices value) char_index of Some (index, _) \<Rightarrow> index | None \<Rightarrow> str_len value))"

subsection \<open>The line cache\<close>

record LineBounds =
  char_start :: nat
  char_end :: nat
  byte_start :: nat
  byte_end :: nat

record LineCache =
  lc_bounds :: "LineBounds list"
  lc_char_len :: nat

text \<open>The loop of \<^verbatim>\<open>LineCache::from_text\<close> over the characters with their byte indices.\<close>

fun scan_lines ::
  "(nat \<times> rchar) list \<Rightarrow> LineBounds list \<Rightarrow> nat \<Rightarrow> nat \<Rightarrow> nat \<Rightarrow> LineBounds list \<times> nat \<times> nat \<times> nat" where
  "scan_lines [] bounds cstart bstart char_index = (bounds, cstart, bstart, char_index)"
| "scan_lines ((byte_index, ch) # rest) bounds cstart bstart char_index =
     (if ch = 10 then
        scan_lines rest
          (bounds @ [\<lparr>char_start = cstart, char_end = char_index, byte_start = bstart, byte_end = byte_index\<rparr>])
          (char_index + 1) (byte_index + len_utf8 ch) (char_index + 1)
      else scan_lines rest bounds cstart bstart (char_index + 1))"

definition lc_from_text :: "rstr \<Rightarrow> LineCache" where
  "lc_from_text value =
     (case scan_lines (char_indices value) [] 0 0 0 of
        (bounds, cstart, bstart, char_index) \<Rightarrow>
          \<lparr>lc_bounds = bounds @
             [\<lparr>char_start = cstart, char_end = char_index, byte_start = bstart, byte_end = str_len value\<rparr>],
           lc_char_len = char_index\<rparr>)"

definition lc_default :: LineCache where
  "lc_default = lc_from_text []"

definition lc_line_count :: "LineCache \<Rightarrow> nat" where
  "lc_line_count c = length (lc_bounds c)"

definition lc_clamped_line :: "LineCache \<Rightarrow> nat \<Rightarrow> LineBounds option" where
  "lc_clamped_line c i = list_get (lc_bounds c) (min i (length (lc_bounds c) - 1))"

definition lc_line_start :: "LineCache \<Rightarrow> nat \<Rightarrow> nat" where
  "lc_line_start c i = unwrap_or 0 (map_option char_start (lc_clamped_line c i))"

definition lc_line_end :: "LineCache \<Rightarrow> nat \<Rightarrow> nat" where
  "lc_line_end c i = unwrap_or 0 (map_option char_end (lc_clamped_line c i))"

text \<open>
  \<^verbatim>\<open>slice::partition_point\<close> gives the length of the prefix on which the predicate holds, provided the
  slice is partitioned by it; the ends of the lines are increasing (\<open>line_ends_sorted\<close>).
\<close>

definition partition_point :: "('a \<Rightarrow> bool) \<Rightarrow> 'a list \<Rightarrow> nat" where
  "partition_point P xs = length (takeWhile P xs)"

definition line_for_cursor :: "LineBounds list \<Rightarrow> nat \<Rightarrow> nat" where
  "line_for_cursor bounds cursor = min (partition_point (\<lambda>b. char_end b < cursor) bounds) (length bounds - 1)"

definition lc_line_for_cursor :: "LineCache \<Rightarrow> nat \<Rightarrow> nat" where
  "lc_line_for_cursor c cursor = line_for_cursor (lc_bounds c) cursor"

definition lc_line :: "LineCache \<Rightarrow> rstr \<Rightarrow> nat \<Rightarrow> rstr option" where
  "lc_line c value i =
     Option.bind (list_get (lc_bounds c) i) (\<lambda>b. str_get value (byte_start b) (byte_end b))"

definition lc_lines :: "LineCache \<Rightarrow> rstr \<Rightarrow> rstr list" where
  "lc_lines c value = List.map_filter (lc_line c value) [0..<lc_line_count c]"

record TextLineCache =
  tl_text :: rstr
  tl_lines :: LineCache

definition text_line_cache :: "rstr \<Rightarrow> TextLineCache" where
  "text_line_cache value = \<lparr>tl_text = value, tl_lines = lc_from_text value\<rparr>"

definition tl_line :: "TextLineCache \<Rightarrow> nat \<Rightarrow> rstr option" where
  "tl_line t i = lc_line (tl_lines t) (tl_text t) i"

definition tl_line_count :: "TextLineCache \<Rightarrow> nat" where
  "tl_line_count t = lc_line_count (tl_lines t)"

definition tl_line_start :: "TextLineCache \<Rightarrow> nat \<Rightarrow> nat" where
  "tl_line_start t i = lc_line_start (tl_lines t) i"

definition tl_line_end :: "TextLineCache \<Rightarrow> nat \<Rightarrow> nat" where
  "tl_line_end t i = lc_line_end (tl_lines t) i"

definition tl_line_for_cursor :: "TextLineCache \<Rightarrow> nat \<Rightarrow> nat" where
  "tl_line_for_cursor t cursor = lc_line_for_cursor (tl_lines t) cursor"

definition tl_char_len :: "TextLineCache \<Rightarrow> nat" where
  "tl_char_len t = lc_char_len (tl_lines t)"

definition tl_all_lines :: "TextLineCache \<Rightarrow> rstr list" where
  "tl_all_lines t = lc_lines (tl_lines t) (tl_text t)"

subsection \<open>Small helpers of the interface\<close>

text \<open>
  \<^verbatim>\<open>delta\<close> is an \<^verbatim>\<open>isize\<close>; the saturating additions of the code are followed by a minimum below the
  saturation point, so they are the additions of the natural numbers.
\<close>

definition move_index :: "nat \<Rightarrow> nat \<Rightarrow> int \<Rightarrow> nat \<times> bool" where
  "move_index index len delta =
     (if len = 0 then (0, False)
      else
        (let old = min index (len - 1);
             new = (if delta < 0 then old - nat (- delta) else min (old + nat delta) (len - 1)) in
         (new, new \<noteq> old)))"

definition clamp_index :: "nat \<Rightarrow> nat \<Rightarrow> nat" where
  "clamp_index index len = (if len = 0 then 0 else min index (len - 1))"

definition clamp_isize :: "int \<Rightarrow> int \<Rightarrow> int \<Rightarrow> int" where
  "clamp_isize v lo hi = min (max v lo) (max hi lo)"

text \<open>\<^verbatim>\<open>str::split([',', ';', '\n'])\<close>.\<close>

fun split_on :: "(rchar \<Rightarrow> bool) \<Rightarrow> rstr \<Rightarrow> rstr list" where
  "split_on P [] = [[]]"
| "split_on P (x # xs) =
     (if P x then [] # split_on P xs
      else case split_on P xs of [] \<Rightarrow> [[x]] | p # ps \<Rightarrow> (x # p) # ps)"

definition address_separator :: "rchar \<Rightarrow> bool" where
  "address_separator c \<longleftrightarrow> c = 44 \<or> c = 59 \<or> c = 10"

definition split_addresses :: "rstr \<Rightarrow> rstr list" where
  "split_addresses value = filter (\<lambda>p. p \<noteq> []) (map trim (split_on address_separator value))"

definition join_addresses :: "rstr list \<Rightarrow> rstr" where
  "join_addresses values = join [44, 32] values"

definition non_empty_string :: "rstr \<Rightarrow> rstr option" where
  "non_empty_string value = (if trim value = [] then None else Some value)"

text \<open>\<^verbatim>\<open>char::is_control\<close>: the Unicode category \<open>Cc\<close>.\<close>

definition is_control :: "rchar \<Rightarrow> bool" where
  "is_control c \<longleftrightarrow> c \<le> 31 \<or> (127 \<le> c \<and> c \<le> 159)"

subsection \<open>Byte offsets of character positions\<close>

lemma str_len_eqs [simp]:
  "str_len [] = 0" "str_len (c # s) = len_utf8 c + str_len s" "str_len (a @ b) = str_len a + str_len b"
  by (simp_all add: str_len_def)

lemma len_utf8_neq0 [simp]: "len_utf8 c \<noteq> 0" "0 < len_utf8 c"
  by (simp_all add: len_utf8_def)

lemma byte_prefix_append [simp]: "byte_prefix (str_len p) (p @ s) = Some p"
  by (induction p) (cases s, auto)

lemma split_at_byte_append: "split_at_byte (str_len p) (p @ s) = Some (p, s)"
  by (simp add: split_at_byte_def)

lemma split_at_byte_take: "split_at_byte (str_len (take k s)) s = Some (take k s, drop k s)"
  using split_at_byte_append [of "take k s" "drop k s"] by simp

lemma str_get_middle: "str_get (p @ q @ s) (str_len p) (str_len p + str_len q) = Some q"
proof -
  have "split_at_byte (str_len p + str_len q) (p @ q @ s) = Some (p @ q, s)"
    using split_at_byte_append [of "p @ q" s] by simp
  then show ?thesis by (simp add: str_get_def split_at_byte_append)
qed

lemma str_insert_take: "str_insert s (str_len (take k s)) c = Some (take k s @ c # drop k s)"
  by (simp add: str_insert_def split_at_byte_take)

lemma replace_range_take:
  assumes "j \<le> k"
  shows "replace_range s (str_len (take j s)) (str_len (take k s)) new = Some (take j s @ new @ drop k s)"
proof -
  have split: "take k s = take j s @ drop j (take k s)"
    using assms by (metis append_take_drop_id min.absorb1 take_take)
  then have "str_len (take j s) \<le> str_len (take k s)"
    by (metis le_add1 str_len_eqs(3))
  moreover have "split_at_byte (str_len (take j s)) (take k s) = Some (take j s, drop j (take k s))"
    by (subst split) (rule split_at_byte_append)
  ultimately show ?thesis by (simp add: replace_range_def split_at_byte_take)
qed

lemma char_indices_from_length [simp]: "length (char_indices_from n s) = length s"
  by (induction s arbitrary: n) auto

lemma char_indices_from_nth:
  "k < length s \<Longrightarrow> char_indices_from n s ! k = (n + str_len (take k s), s ! k)"
proof (induction s arbitrary: n k)
  case (Cons c s)
  then show ?case by (cases k) auto
qed simp

lemma char_to_byte_index_eq: "char_to_byte_index s k = str_len (take k s)"
  by (auto simp: char_to_byte_index_def list_get_def char_indices_def char_indices_from_nth)

subsection \<open>What the cache holds\<close>

fun bounds_of :: "nat \<Rightarrow> nat \<Rightarrow> rstr list \<Rightarrow> LineBounds list" where
  "bounds_of c b [] = []"
| "bounds_of c b (p # ps) =
     \<lparr>char_start = c, char_end = c + length p, byte_start = b, byte_end = b + str_len p\<rparr> #
     bounds_of (c + length p + 1) (b + str_len p + 1) ps"

lemma length_bounds_of [simp]: "length (bounds_of c b ps) = length ps"
  by (induction ps arbitrary: c b) auto

lemma len_utf8_newline [simp]: "len_utf8 10 = 1"
  by (simp add: len_utf8_def)

lemma scan_lines_eq:
  assumes "split_char 10 s = p # ps"
  shows "case scan_lines (char_indices_from bi s) acc cs bs ci of (bounds, cs', bs', ci') \<Rightarrow>
           bounds @ [\<lparr>char_start = cs', char_end = ci', byte_start = bs', byte_end = bi + str_len s\<rparr>] =
           acc @ \<lparr>char_start = cs, char_end = ci + length p, byte_start = bs, byte_end = bi + str_len p\<rparr> #
             bounds_of (ci + length p + 1) (bi + str_len p + 1) ps \<and>
           ci' = ci + length s"
  using assms
proof (induction s arbitrary: bi acc cs bs ci p ps)
  case Nil
  then show ?case by simp
next
  case (Cons x xs)
  obtain q qs where q: "split_char 10 xs = q # qs"
    using split_char_ne [of 10 xs] by (meson list.exhaust)
  show ?case
  proof (cases "x = 10")
    case True
    then have "p = []" "ps = q # qs" using Cons.prems q by auto
    then show ?thesis
      using True Cons.IH [OF q, of "bi + 1"
          "acc @ [\<lparr>char_start = cs, char_end = ci, byte_start = bs, byte_end = bi\<rparr>]" "ci + 1" "ci + 1" "bi + 1"]
      by (simp split: prod.splits)
  next
    case False
    then have "p = x # q" "ps = qs" using Cons.prems q by auto
    then show ?thesis
      using False Cons.IH [OF q, of "bi + len_utf8 x" acc cs "ci + 1" bs]
      by (simp add: add.assoc split: prod.splits)
  qed
qed

lemma lc_from_text_bounds: "lc_bounds (lc_from_text s) = bounds_of 0 0 (split_char 10 s)"
  and lc_from_text_len: "lc_char_len (lc_from_text s) = length s"
proof -
  obtain p ps where p: "split_char 10 s = p # ps"
    using split_char_ne [of 10 s] by (meson list.exhaust)
  show "lc_bounds (lc_from_text s) = bounds_of 0 0 (split_char 10 s)"
    "lc_char_len (lc_from_text s) = length s"
    using scan_lines_eq [OF p, of 0 "[]" 0 0 0]
    by (auto simp: lc_from_text_def char_indices_def p split: prod.splits)
qed

lemma bounds_of_nth:
  assumes "i < length ps" and "\<forall>p \<in> set ps. 10 \<notin> set p"
  shows "\<exists>pre suf. join [10] ps = pre @ ps ! i @ suf \<and> count_list pre 10 = i \<and>
           bounds_of c b ps ! i =
             \<lparr>char_start = c + length pre, char_end = c + length pre + length (ps ! i),
              byte_start = b + str_len pre, byte_end = b + str_len pre + str_len (ps ! i)\<rparr>"
  using assms
proof (induction ps arbitrary: i c b)
  case (Cons p ps)
  show ?case
  proof (cases i)
    case 0
    then show ?thesis
      by (intro exI [of _ "[]"] exI [of _ "if ps = [] then [] else 10 # join [10] ps"]) (auto simp: join_Cons)
  next
    case (Suc j)
    then have j: "j < length ps" and ps: "ps \<noteq> []" using Cons.prems by auto
    obtain pre suf where IH: "join [10] ps = pre @ ps ! j @ suf" "count_list pre 10 = j"
      "bounds_of (c + length p + 1) (b + str_len p + 1) ps ! j =
         \<lparr>char_start = c + length p + 1 + length pre, char_end = c + length p + 1 + length pre + length (ps ! j),
          byte_start = b + str_len p + 1 + str_len pre,
          byte_end = b + str_len p + 1 + str_len pre + str_len (ps ! j)\<rparr>"
      using Cons.IH [OF j] Cons.prems by (metis list.set_intros(2))
    have "count_list p 10 = 0" using Cons.prems by (simp add: count_list_0_iff)
    then show ?thesis
      using IH ps Suc by (intro exI [of _ "p @ 10 # pre"] exI [of _ suf]) (auto simp: join_Cons add.assoc)
  qed
qed simp

abbreviation text_pieces :: "rstr \<Rightarrow> rstr list" where
  "text_pieces s \<equiv> split_char 10 s"

lemma cached_line:
  assumes "i < length (text_pieces s)"
  obtains pre suf where "s = pre @ text_pieces s ! i @ suf" "count_list pre 10 = i"
    "lc_bounds (lc_from_text s) ! i =
       \<lparr>char_start = length pre, char_end = length pre + length (text_pieces s ! i),
        byte_start = str_len pre, byte_end = str_len pre + str_len (text_pieces s ! i)\<rparr>"
  using bounds_of_nth [OF assms, of 0 0] split_char_no_sep [of _ 10 s]
  by (auto simp: join_split_char lc_from_text_bounds)

lemma lc_line_count_eq: "lc_line_count (lc_from_text s) = length (text_pieces s)"
  by (simp add: lc_line_count_def lc_from_text_bounds)

lemma lc_line_eq:
  "lc_line (lc_from_text s) s i = (if i < length (text_pieces s) then Some (text_pieces s ! i) else None)"
proof (cases "i < length (text_pieces s)")
  case True
  then obtain pre suf where "s = pre @ text_pieces s ! i @ suf"
    "lc_bounds (lc_from_text s) ! i =
       \<lparr>char_start = length pre, char_end = length pre + length (text_pieces s ! i),
        byte_start = str_len pre, byte_end = str_len pre + str_len (text_pieces s ! i)\<rparr>"
    by (rule cached_line)
  then show ?thesis
    using True str_get_middle [of pre "text_pieces s ! i" suf]
    by (simp add: lc_line_def list_get_def lc_from_text_bounds)
next
  case False
  then show ?thesis by (simp add: lc_line_def list_get_def lc_from_text_bounds)
qed

lemma map_filter_total: "(\<And>x. x \<in> set xs \<Longrightarrow> f x = Some (g x)) \<Longrightarrow> List.map_filter f xs = map g xs"
  by (induction xs) (auto simp: List.map_filter_def)

text \<open>The slices of the cache are the lines of the text.\<close>

lemma lc_lines_eq: "lc_lines (lc_from_text s) s = text_pieces s"
proof -
  have "lc_lines (lc_from_text s) s = map ((!) (text_pieces s)) [0..<length (text_pieces s)]"
    unfolding lc_lines_def lc_line_count_eq by (rule map_filter_total) (simp add: lc_line_eq)
  then show ?thesis by (simp add: map_nth)
qed

subsection \<open>Cursor and line\<close>

lemma ends_after: "e \<in> set (bounds_of c b ps) \<Longrightarrow> c \<le> char_end e"
  by (induction ps arbitrary: c b) fastforce+

lemma line_ends_sorted: "sorted_wrt (\<lambda>x y. char_end x < char_end y) (lc_bounds (lc_from_text s))"
proof -
  have "sorted_wrt (\<lambda>x y. char_end x < char_end y) (bounds_of c b ps)" for c b and ps :: "rstr list"
    by (induction ps arbitrary: c b) (auto dest: ends_after)
  then show ?thesis by (simp add: lc_from_text_bounds)
qed

lemma takeWhile_bounds:
  assumes "c0 \<le> c" "c \<le> c0 + length (join [10] ps)" "ps \<noteq> []" "\<forall>p \<in> set ps. 10 \<notin> set p"
  shows "length (takeWhile (\<lambda>b. char_end b < c) (bounds_of c0 b0 ps)) = count_list (take (c - c0) (join [10] ps)) 10"
  using assms
proof (induction ps arbitrary: c0 b0)
  case (Cons p ps)
  have p0: "count_list (take n p) 10 = 0" for n
    using Cons.prems in_set_takeD [of 10 n p] by (auto simp: count_list_0_iff)
  show ?case
  proof (cases "c \<le> c0 + length p")
    case True
    then show ?thesis using p0 [of "c - c0"] by (simp add: join_Cons)
  next
    case False
    then have ps: "ps \<noteq> []" using Cons.prems by (auto simp: join_Cons)
    obtain d where d: "c - c0 = length p + Suc d" "c - (c0 + length p + 1) = d"
      using False by (intro that [of "c - c0 - length p - 1"]) auto
    have "length (takeWhile (\<lambda>b. char_end b < c) (bounds_of (c0 + length p + 1) (b0 + str_len p + 1) ps))
          = count_list (take d (join [10] ps)) 10"
      unfolding d(2) [symmetric] by (rule Cons.IH) (use False Cons.prems ps in \<open>auto simp: join_Cons\<close>)
    then show ?thesis using False ps d(1) p0 [of "length p"] by (simp add: join_Cons)
  qed
qed simp

lemma count_list_take_mono: "count_list (take n s) x \<le> count_list s x"
  by (metis append_take_drop_id count_list_append le_add1)

lemma count_newlines: "Suc (count_list s 10) = length (text_pieces s)"
proof (induction s)
  case (Cons x xs)
  then show ?case using split_char_ne [of 10 xs] by (cases "text_pieces xs") auto
qed simp

text \<open>The line of a cursor is the number of newlines before it.\<close>

lemma line_for_cursor_eq:
  assumes "c \<le> length s"
  shows "lc_line_for_cursor (lc_from_text s) c = count_list (take c s) 10"
proof -
  have "length (takeWhile (\<lambda>b. char_end b < c) (bounds_of 0 0 (text_pieces s))) =
        count_list (take (c - 0) (join [10] (text_pieces s))) 10"
    by (rule takeWhile_bounds) (use assms split_char_no_sep [of _ 10 s] in \<open>auto simp: join_split_char\<close>)
  moreover have "count_list (take c s) 10 \<le> length (text_pieces s) - 1"
    using count_list_take_mono [of c s 10] count_newlines [of s] by simp
  ultimately show ?thesis
    by (simp add: lc_line_for_cursor_def line_for_cursor_def partition_point_def lc_from_text_bounds join_split_char)
qed

lemma lc_line_start_eq: "i < lc_line_count c \<Longrightarrow> lc_line_start c i = char_start (lc_bounds c ! i)"
  and lc_line_end_eq: "i < lc_line_count c \<Longrightarrow> lc_line_end c i = char_end (lc_bounds c ! i)"
  by (auto simp: lc_line_start_def lc_line_end_def lc_clamped_line_def list_get_def lc_line_count_def)

lemma lc_line_end_start:
  assumes "i < length (text_pieces s)"
  shows "lc_line_end (lc_from_text s) i = lc_line_start (lc_from_text s) i + length (text_pieces s ! i)"
  using assms
  by (rule cached_line) (simp add: lc_line_start_eq lc_line_end_eq lc_line_count_eq assms)

lemma lc_line_end_le: "lc_line_end (lc_from_text s) i \<le> length s"
proof -
  let ?j = "min i (length (text_pieces s) - 1)"
  have j: "?j < length (text_pieces s)" by (cases "text_pieces s") auto
  obtain pre suf where "s = pre @ text_pieces s ! ?j @ suf"
    "lc_bounds (lc_from_text s) ! ?j =
       \<lparr>char_start = length pre, char_end = length pre + length (text_pieces s ! ?j),
        byte_start = str_len pre, byte_end = str_len pre + str_len (text_pieces s ! ?j)\<rparr>"
    using cached_line [OF j] by blast
  moreover from this(1) have "length s = length pre + length (text_pieces s ! ?j) + length suf"
    by (metis add.assoc length_append)
  ultimately show ?thesis
    using j by (simp add: lc_line_end_def lc_clamped_line_def list_get_def lc_from_text_bounds)
qed

lemma lc_line_for_cursor_less: "lc_line_for_cursor (lc_from_text s) c < lc_line_count (lc_from_text s)"
proof -
  have "0 < length (text_pieces s)" by simp
  then show ?thesis
    by (simp only: lc_line_for_cursor_def line_for_cursor_def lc_line_count_def lc_from_text_bounds length_bounds_of)
qed

text \<open>A cursor lies on the line it is assigned to.\<close>

lemma bounds_of_chain:
  "Suc i < length ps \<Longrightarrow> char_start (bounds_of c b ps ! Suc i) = Suc (char_end (bounds_of c b ps ! i))"
proof (induction ps arbitrary: c b i)
  case (Cons p ps)
  show ?case
  proof (cases i)
    case 0
    then show ?thesis using Cons.prems by (cases ps) auto
  next
    case (Suc j)
    then show ?thesis using Cons.prems Cons.IH [of j] by simp
  qed
qed simp

lemma bounds_of_first: "ps \<noteq> [] \<Longrightarrow> char_start (bounds_of c b ps ! 0) = c"
  by (cases ps) auto

lemma cursor_on_line:
  assumes "c \<le> length s"
  shows "lc_line_start (lc_from_text s) (lc_line_for_cursor (lc_from_text s) c) \<le> c"
    and "c \<le> lc_line_end (lc_from_text s) (lc_line_for_cursor (lc_from_text s) c)"
proof -
  let ?B = "bounds_of 0 0 (text_pieces s)" and ?l = "lc_line_for_cursor (lc_from_text s) c"
  let ?P = "\<lambda>b. char_end b < c"
  have tw: "length (takeWhile ?P ?B) = count_list (take c s) 10"
    using takeWhile_bounds [of 0 c "text_pieces s" 0] assms split_char_no_sep [of _ 10 s]
    by (auto simp: join_split_char)
  then have l: "?l = length (takeWhile ?P ?B)" using line_for_cursor_eq [OF assms] by simp
  have less: "?l < length ?B"
    using lc_line_for_cursor_less [of s c] by (simp add: lc_line_count_eq)
  then have "\<not> ?P (?B ! ?l)" unfolding l by (rule nth_length_takeWhile)
  then show "c \<le> lc_line_end (lc_from_text s) ?l"
    using less by (simp add: lc_line_end_eq lc_line_count_eq lc_from_text_bounds)
  have "char_start (?B ! ?l) \<le> c"
  proof (cases ?l)
    case 0
    then show ?thesis by (simp add: bounds_of_first)
  next
    case (Suc k)
    then have "k < length (takeWhile ?P ?B)" using l by simp
    then have "?P (?B ! k)" by (metis nth_mem set_takeWhileD takeWhile_nth)
    then show ?thesis using bounds_of_chain [of k "text_pieces s" 0 0] less Suc by simp
  qed
  then show "lc_line_start (lc_from_text s) ?l \<le> c"
    using less by (simp add: lc_line_start_eq lc_line_count_eq lc_from_text_bounds)
qed

lemma move_index_less: "0 < len \<Longrightarrow> fst (move_index i len d) < len"
  by (auto simp: move_index_def Let_def)

lemma clamp_index_less: "0 < len \<Longrightarrow> clamp_index i len < len"
  by (auto simp: clamp_index_def)

lemma split_on_ne [simp]: "split_on P s \<noteq> []"
  by (induction s) (auto split: list.splits)

end
