(* ===== verification/Composer.thy ===== *)
theory Composer
  imports TextLines DaemonWrite
begin

text \<open>
  \<^verbatim>\<open>src/tui/app.rs\<close>: the composer.  Five text fields with a cursor each, the line cache, scroll position
  and line selection of the body, and the staged attachments.  The fields of the record are those of
  \<^verbatim>\<open>ComposerState\<close>; an operation that returns whether something changed gives that with the new state,
  and an edit gives \<open>None\<close> where a string operation of the code would panic.
\<close>

definition MAX_COMPOSE_HEADER_CHARS :: nat where
  "MAX_COMPOSE_HEADER_CHARS = 4096"

definition MAX_COMPOSE_BODY_CHARS :: nat where
  "MAX_COMPOSE_BODY_CHARS = 100000"

definition MAX_COMPOSE_ATTACHMENT_BYTES :: nat where
  "MAX_COMPOSE_ATTACHMENT_BYTES = 25 * 1024 * 1024"

definition MAX_COMPOSE_PATH_CHARS :: nat where
  "MAX_COMPOSE_PATH_CHARS = 4096"

subsection \<open>Data\<close>

datatype ComposeField = ToField | CcField | BccField | SubjectField | BodyField

fun field_next :: "ComposeField \<Rightarrow> ComposeField" where
  "field_next ToField = CcField"
| "field_next CcField = BccField"
| "field_next BccField = SubjectField"
| "field_next SubjectField = BodyField"
| "field_next BodyField = ToField"

fun field_previous :: "ComposeField \<Rightarrow> ComposeField" where
  "field_previous ToField = BodyField"
| "field_previous CcField = ToField"
| "field_previous BccField = CcField"
| "field_previous SubjectField = BccField"
| "field_previous BodyField = SubjectField"

record ComposerAttachment =
  ca_path :: rstr
  ca_filename :: rstr
  ca_size_bytes :: nat
  ca_content_type :: rstr

record ComposerDraft =
  cd_account_id :: uuid
  cd_in_reply_to_msg :: "uuid option"
  cd_to_addrs :: "rstr list"
  cd_cc_addrs :: "rstr list"
  cd_bcc_addrs :: "rstr list"
  cd_subject :: "rstr option"
  cd_text_body :: "rstr option"
  cd_html_body :: "rstr option"
  cd_attachments :: "ComposerAttachment list"
  cd_in_reply_to :: "rstr option"
  cd_references_header :: "rstr option"

record ComposerPrefill =
  cp_in_reply_to_msg :: "uuid option"
  cp_to_addrs :: "rstr list"
  cp_cc_addrs :: "rstr list"
  cp_bcc_addrs :: "rstr list"
  cp_subject :: "rstr option"
  cp_body :: "rstr option"
  cp_in_reply_to :: "rstr option"
  cp_references_header :: "rstr option"
  cp_attachments :: "ComposerAttachment list"

datatype AttachError =
    AttachNotFound rstr
  | AttachNotAFile rstr
  | AttachTooLarge nat
  | AttachAggregateTooLarge nat
  | AttachIo rstr rstr

record ComposerState =
  cs_account_id :: uuid
  cs_draft_id :: "uuid option"
  cs_focused :: ComposeField
  cs_to :: rstr
  cs_to_cursor :: nat
  cs_cc :: rstr
  cs_cc_cursor :: nat
  cs_bcc :: rstr
  cs_bcc_cursor :: nat
  cs_subject :: rstr
  cs_subject_cursor :: nat
  cs_body :: rstr
  cs_body_cursor :: nat
  cs_body_line_cache :: LineCache
  cs_body_scroll :: nat
  cs_body_selection_anchor :: "nat option"
  cs_body_selection_focus :: nat
  cs_body_preferred_column :: "nat option"
  cs_dirty :: bool
  cs_attachments :: "ComposerAttachment list"
  cs_selected_attachment :: nat
  cs_attach_input :: rstr
  cs_in_reply_to_msg :: "uuid option"
  cs_in_reply_to :: "rstr option"
  cs_references_header :: "rstr option"

definition composer_new :: "uuid \<Rightarrow> ComposerState" where
  "composer_new account_id =
     \<lparr>cs_account_id = account_id, cs_draft_id = None, cs_focused = ToField, cs_to = [], cs_to_cursor = 0,
      cs_cc = [], cs_cc_cursor = 0, cs_bcc = [], cs_bcc_cursor = 0, cs_subject = [], cs_subject_cursor = 0,
      cs_body = [], cs_body_cursor = 0, cs_body_line_cache = lc_default, cs_body_scroll = 0,
      cs_body_selection_anchor = None, cs_body_selection_focus = 0, cs_body_preferred_column = None,
      cs_dirty = False, cs_attachments = [], cs_selected_attachment = 0, cs_attach_input = [],
      cs_in_reply_to_msg = None, cs_in_reply_to = None, cs_references_header = None\<rparr>"

definition has_content :: "ComposerState \<Rightarrow> bool" where
  "has_content st \<longleftrightarrow>
     list_ex (\<lambda>v. trim v \<noteq> []) [cs_to st, cs_cc st, cs_bcc st, cs_subject st, cs_body st] \<or> cs_attachments st \<noteq> []"

definition refresh_body_line_cache :: "ComposerState \<Rightarrow> ComposerState" where
  "refresh_body_line_cache st = st\<lparr>cs_body_line_cache := lc_from_text (cs_body st)\<rparr>"

text \<open>The three address fields, shared by the two ways to open a composer on existing data.\<close>

definition with_addresses :: "rstr list \<Rightarrow> rstr list \<Rightarrow> rstr list \<Rightarrow> ComposerState \<Rightarrow> ComposerState" where
  "with_addresses to_addrs cc_addrs bcc_addrs st =
     st\<lparr>cs_to := join_addresses to_addrs, cs_to_cursor := char_count (join_addresses to_addrs),
        cs_cc := join_addresses cc_addrs, cs_cc_cursor := char_count (join_addresses cc_addrs),
        cs_bcc := join_addresses bcc_addrs, cs_bcc_cursor := char_count (join_addresses bcc_addrs)\<rparr>"

definition with_subject :: "rstr option \<Rightarrow> ComposerState \<Rightarrow> ComposerState" where
  "with_subject subject st =
     (case subject of None \<Rightarrow> st | Some s \<Rightarrow> st\<lparr>cs_subject := s, cs_subject_cursor := char_count s\<rparr>)"

definition from_prefill :: "uuid \<Rightarrow> ComposerPrefill \<Rightarrow> ComposerState" where
  "from_prefill account_id p =
     (let st1 = with_subject (cp_subject p)
                  (with_addresses (cp_to_addrs p) (cp_cc_addrs p) (cp_bcc_addrs p) (composer_new account_id));
          st2 = (case cp_body p of
                   None \<Rightarrow> st1
                 | Some body \<Rightarrow> refresh_body_line_cache (st1\<lparr>cs_body := body, cs_body_cursor := char_count body\<rparr>));
          st3 = st2\<lparr>cs_attachments := cp_attachments p, cs_in_reply_to_msg := cp_in_reply_to_msg p,
                    cs_in_reply_to := cp_in_reply_to p, cs_references_header := cp_references_header p,
                    cs_focused := BodyField\<rparr> in
      st3\<lparr>cs_dirty := has_content st3\<rparr>)"

text \<open>The state that \<^verbatim>\<open>enter_composer_for_existing_draft\<close> builds.\<close>

definition from_existing_draft :: "uuid \<Rightarrow> ComposerDraft \<Rightarrow> ComposeField \<Rightarrow> ComposerState" where
  "from_existing_draft draft_id d focus =
     (let st1 = with_subject (cd_subject d)
                  (with_addresses (cd_to_addrs d) (cd_cc_addrs d) (cd_bcc_addrs d)
                     ((composer_new (cd_account_id d))\<lparr>cs_draft_id := Some draft_id\<rparr>));
          st2 = (case cd_text_body d of
                   None \<Rightarrow> st1
                 | Some body \<Rightarrow>
                     (let st = refresh_body_line_cache (st1\<lparr>cs_body := body, cs_body_cursor := 0\<rparr>) in
                      st\<lparr>cs_body_scroll := lc_line_count (cs_body_line_cache st) - 1\<rparr>)) in
      st2\<lparr>cs_in_reply_to_msg := cd_in_reply_to_msg d, cs_in_reply_to := cd_in_reply_to d,
          cs_references_header := cd_references_header d, cs_attachments := cd_attachments d,
          cs_focused := focus, cs_dirty := False\<rparr>)"

definition aggregate_attachment_size :: "ComposerState \<Rightarrow> nat" where
  "aggregate_attachment_size st = fold (\<lambda>a n. saturating_add_u64 n (ca_size_bytes a)) (cs_attachments st) 0"

fun focused_text :: "ComposerState \<Rightarrow> rstr" where
  "focused_text st =
     (case cs_focused st of
        ToField \<Rightarrow> cs_to st | CcField \<Rightarrow> cs_cc st | BccField \<Rightarrow> cs_bcc st
      | SubjectField \<Rightarrow> cs_subject st | BodyField \<Rightarrow> cs_body st)"

text \<open>The two references of \<^verbatim>\<open>focused_text_and_cursor_mut\<close>: reading the cursor, and writing both.\<close>

fun focused_cursor :: "ComposerState \<Rightarrow> nat" where
  "focused_cursor st =
     (case cs_focused st of
        ToField \<Rightarrow> cs_to_cursor st | CcField \<Rightarrow> cs_cc_cursor st | BccField \<Rightarrow> cs_bcc_cursor st
      | SubjectField \<Rightarrow> cs_subject_cursor st | BodyField \<Rightarrow> cs_body_cursor st)"

fun put_focused :: "rstr \<Rightarrow> nat \<Rightarrow> ComposerState \<Rightarrow> ComposerState" where
  "put_focused v c st =
     (case cs_focused st of
        ToField \<Rightarrow> st\<lparr>cs_to := v, cs_to_cursor := c\<rparr>
      | CcField \<Rightarrow> st\<lparr>cs_cc := v, cs_cc_cursor := c\<rparr>
      | BccField \<Rightarrow> st\<lparr>cs_bcc := v, cs_bcc_cursor := c\<rparr>
      | SubjectField \<Rightarrow> st\<lparr>cs_subject := v, cs_subject_cursor := c\<rparr>
      | BodyField \<Rightarrow> st\<lparr>cs_body := v, cs_body_cursor := c\<rparr>)"

declare focused_text.simps [simp del] focused_cursor.simps [simp del] put_focused.simps [simp del]

definition put_focused_cursor :: "nat \<Rightarrow> ComposerState \<Rightarrow> ComposerState" where
  "put_focused_cursor c st = put_focused (focused_text st) c st"

definition field_len :: "ComposerState \<Rightarrow> nat" where
  "field_len st = length (focused_text st)"

definition field_limit :: "ComposerState \<Rightarrow> nat" where
  "field_limit st = (if cs_focused st = BodyField then MAX_COMPOSE_BODY_CHARS else MAX_COMPOSE_HEADER_CHARS)"

definition composer_draft_of :: "ComposerState \<Rightarrow> ComposerDraft" where
  "composer_draft_of st =
     \<lparr>cd_account_id = cs_account_id st, cd_in_reply_to_msg = cs_in_reply_to_msg st,
      cd_to_addrs = split_addresses (cs_to st), cd_cc_addrs = split_addresses (cs_cc st),
      cd_bcc_addrs = split_addresses (cs_bcc st), cd_subject = non_empty_string (cs_subject st),
      cd_text_body = non_empty_string (cs_body st), cd_html_body = None, cd_attachments = cs_attachments st,
      cd_in_reply_to = cs_in_reply_to st, cd_references_header = cs_references_header st\<rparr>"

subsection \<open>The body as lines\<close>

definition body_lines :: "ComposerState \<Rightarrow> rstr list" where
  "body_lines st = lc_lines (cs_body_line_cache st) (cs_body st)"

definition body_line_count :: "ComposerState \<Rightarrow> nat" where
  "body_line_count st = lc_line_count (cs_body_line_cache st)"

definition body_line_start :: "ComposerState \<Rightarrow> nat \<Rightarrow> nat" where
  "body_line_start st i = lc_line_start (cs_body_line_cache st) i"

definition body_line_end :: "ComposerState \<Rightarrow> nat \<Rightarrow> nat" where
  "body_line_end st i = lc_line_end (cs_body_line_cache st) i"

definition body_line_len :: "ComposerState \<Rightarrow> nat \<Rightarrow> nat" where
  "body_line_len st i = body_line_end st i - body_line_start st i"

definition body_cursor_line_column :: "ComposerState \<Rightarrow> nat \<times> nat" where
  "body_cursor_line_column st =
     (let cursor = min (cs_body_cursor st) (lc_char_len (cs_body_line_cache st));
          line = lc_line_for_cursor (cs_body_line_cache st) cursor;
          start = lc_line_start (cs_body_line_cache st) line in
      (line, cursor - start))"

definition body_line_text :: "ComposerState \<Rightarrow> nat \<Rightarrow> rstr option" where
  "body_line_text st i = lc_line (cs_body_line_cache st) (cs_body st) i"

definition body_selected_line_range :: "ComposerState \<Rightarrow> (nat \<times> nat) option" where
  "body_selected_line_range st =
     (case cs_body_selection_anchor st of
        None \<Rightarrow> None
      | Some anchor \<Rightarrow>
          (let max_line = body_line_count st - 1;
               focus = cs_body_selection_focus st in
           Some (min (min anchor focus) max_line, min (max anchor focus) max_line)))"

definition body_visible_scroll :: "ComposerState \<Rightarrow> nat \<Rightarrow> nat" where
  "body_visible_scroll st viewport_height =
     (let h = max viewport_height 1;
          max_scroll = body_line_count st - h;
          scroll = min (cs_body_scroll st) max_scroll;
          cursor_line = fst (body_cursor_line_column st);
          scroll' = (if cursor_line < scroll then cursor_line
                     else if scroll + h \<le> cursor_line then cursor_line + 1 - h
                     else scroll) in
      min scroll' max_scroll)"

definition ensure_body_cursor_visible :: "nat \<Rightarrow> ComposerState \<Rightarrow> ComposerState" where
  "ensure_body_cursor_visible viewport_height st = st\<lparr>cs_body_scroll := body_visible_scroll st viewport_height\<rparr>"

definition clear_body_selection :: "ComposerState \<Rightarrow> bool \<times> ComposerState" where
  "clear_body_selection st =
     (let st' = st\<lparr>cs_body_selection_anchor := None\<rparr> in
      (cs_body_selection_anchor st \<noteq> None,
       st'\<lparr>cs_body_selection_focus := fst (body_cursor_line_column st')\<rparr>))"

definition reset_body_navigation_state :: "ComposerState \<Rightarrow> ComposerState" where
  "reset_body_navigation_state st =
     (if cs_focused st = BodyField
      then snd (clear_body_selection (st\<lparr>cs_body_preferred_column := None\<rparr>)) else st)"

definition after_text_edit :: "ComposerState \<Rightarrow> ComposerState" where
  "after_text_edit st =
     (if cs_focused st = BodyField
      then ensure_body_cursor_visible 1
             (snd (clear_body_selection ((refresh_body_line_cache st)\<lparr>cs_body_preferred_column := None\<rparr>)))
      else st)"

subsection \<open>Moving the cursor\<close>

definition move_focused_cursor_left :: "ComposerState \<Rightarrow> bool \<times> ComposerState" where
  "move_focused_cursor_left st =
     (if focused_cursor st = 0 then (False, st)
      else (True, reset_body_navigation_state (put_focused_cursor (focused_cursor st - 1) st)))"

definition move_focused_cursor_right :: "ComposerState \<Rightarrow> bool \<times> ComposerState" where
  "move_focused_cursor_right st =
     (let len = field_len st; old = min (focused_cursor st) len in
      if len \<le> old then (False, put_focused_cursor len st)
      else (True, reset_body_navigation_state (put_focused_cursor (old + 1) st)))"

definition set_focused_cursor :: "nat \<Rightarrow> ComposerState \<Rightarrow> bool \<times> ComposerState" where
  "set_focused_cursor target st =
     (let len = field_len st; new = min target len; old = min (focused_cursor st) len;
          st' = put_focused_cursor new st in
      if old \<noteq> new then (True, reset_body_navigation_state st') else (False, st'))"

definition move_focused_cursor_home :: "ComposerState \<Rightarrow> bool \<times> ComposerState" where
  "move_focused_cursor_home st =
     set_focused_cursor
       (if cs_focused st = BodyField then body_line_start st (fst (body_cursor_line_column st)) else 0) st"

definition move_focused_cursor_end :: "ComposerState \<Rightarrow> bool \<times> ComposerState" where
  "move_focused_cursor_end st =
     set_focused_cursor
       (if cs_focused st = BodyField then body_line_end st (fst (body_cursor_line_column st)) else field_len st) st"

definition move_body_line :: "int \<Rightarrow> nat \<Rightarrow> ComposerState \<Rightarrow> bool \<times> ComposerState" where
  "move_body_line delta viewport_height st =
     (if cs_focused st \<noteq> BodyField then (False, st)
      else
        (let max_line = body_line_count st - 1;
             line = fst (body_cursor_line_column st);
             column = snd (body_cursor_line_column st);
             preferred = unwrap_or column (cs_body_preferred_column st);
             next_line = (if delta < 0 then line - nat (- delta) else min (line + nat delta) max_line);
             next_column = min preferred (body_line_len st next_line);
             st1 = st\<lparr>cs_body_preferred_column := Some preferred,
                      cs_body_cursor := body_line_start st next_line + next_column,
                      cs_body_selection_focus :=
                        (if cs_body_selection_anchor st \<noteq> None then next_line else cs_body_selection_focus st)\<rparr>;
             st2 = ensure_body_cursor_visible viewport_height st1 in
         (cs_body_cursor st2 \<noteq> cs_body_cursor st \<or> cs_body_scroll st2 \<noteq> cs_body_scroll st \<or>
          cs_body_selection_focus st2 \<noteq> cs_body_selection_focus st, st2)))"

definition toggle_body_line_selection :: "ComposerState \<Rightarrow> bool \<times> ComposerState" where
  "toggle_body_line_selection st =
     (if cs_focused st \<noteq> BodyField then (False, st)
      else if cs_body_selection_anchor st \<noteq> None then clear_body_selection st
      else
        (let line = fst (body_cursor_line_column st) in
         (True, st\<lparr>cs_body_selection_anchor := Some line, cs_body_selection_focus := line\<rparr>)))"

definition start_body_line_selection :: "ComposerState \<Rightarrow> bool \<times> ComposerState" where
  "start_body_line_selection st =
     (if cs_focused st \<noteq> BodyField \<or> cs_body_selection_anchor st \<noteq> None then (False, st)
      else
        (let line = fst (body_cursor_line_column st) in
         (True, st\<lparr>cs_body_selection_anchor := Some line, cs_body_selection_focus := line\<rparr>)))"

subsection \<open>Editing\<close>

definition insert_focused_char :: "rchar \<Rightarrow> ComposerState \<Rightarrow> ComposerState option" where
  "insert_focused_char ch st =
     (let t = focused_text st; current = min (focused_cursor st) (char_count t) in
      map_option (\<lambda>t'. after_text_edit (put_focused t' (current + 1) st))
        (str_insert t (char_to_byte_index t current) ch))"

definition insert_body_newline :: "ComposerState \<Rightarrow> ComposerState option" where
  "insert_body_newline st =
     (let current = min (cs_body_cursor st) (char_count (cs_body st)) in
      map_option (\<lambda>t'. after_text_edit (st\<lparr>cs_body := t', cs_body_cursor := current + 1\<rparr>))
        (str_insert (cs_body st) (char_to_byte_index (cs_body st) current) 10))"

text \<open>Replacing a range of the focused text by nothing and moving the cursor to its start.\<close>

definition cut_focused :: "nat \<Rightarrow> nat \<Rightarrow> ComposerState \<Rightarrow> (bool \<times> ComposerState) option" where
  "cut_focused a b st =
     (let t = focused_text st in
      map_option (\<lambda>t'. (True, after_text_edit (put_focused t' a st)))
        (replace_range t (char_to_byte_index t a) (char_to_byte_index t b) []))"

definition delete_before_focused_cursor :: "ComposerState \<Rightarrow> (bool \<times> ComposerState) option" where
  "delete_before_focused_cursor st =
     (let current = min (focused_cursor st) (char_count (focused_text st)) in
      if current = 0 then Some (False, put_focused_cursor 0 st)
      else cut_focused (current - 1) current st)"

definition delete_at_focused_cursor :: "ComposerState \<Rightarrow> (bool \<times> ComposerState) option" where
  "delete_at_focused_cursor st =
     (let len = char_count (focused_text st); current = min (focused_cursor st) len in
      if len \<le> current then Some (False, put_focused_cursor len st)
      else cut_focused current (current + 1) st)"

text \<open>\<^verbatim>\<open>while n > 0 && p(chars[n - 1]) { n -= 1; }\<close>\<close>

fun skip_back :: "(rchar \<Rightarrow> bool) \<Rightarrow> rstr \<Rightarrow> nat \<Rightarrow> nat" where
  "skip_back P chars 0 = 0"
| "skip_back P chars (Suc n) = (if P (chars ! n) then skip_back P chars n else Suc n)"

definition delete_word_before_cursor :: "ComposerState \<Rightarrow> (bool \<times> ComposerState) option" where
  "delete_word_before_cursor st =
     (let chars = focused_text st; current = min (focused_cursor st) (char_count chars) in
      if current = 0 then Some (False, put_focused_cursor 0 st)
      else
        (let new_cursor = skip_back (\<lambda>c. \<not> is_whitespace c) chars (skip_back is_whitespace chars current) in
         if new_cursor = current then Some (False, st) else cut_focused new_cursor current st))"

subsection \<open>Attachments\<close>

definition probe_attachment :: "'w daemon_env \<Rightarrow> 'w \<Rightarrow> rstr \<Rightarrow> (AttachError, ComposerAttachment) result" where
  "probe_attachment env w path =
     (case dn_metadata env path w of
        Err e \<Rightarrow> Err (if dn_io_kind env e = IoNotFound then AttachNotFound path else AttachIo path e)
      | Ok (is_file, bytes_len) \<Rightarrow>
          if \<not> is_file then Err (AttachNotAFile path)
          else if bytes_len > MAX_COMPOSE_ATTACHMENT_BYTES then Err (AttachTooLarge bytes_len)
          else Ok \<lparr>ca_path = path, ca_filename = unwrap_or (lit ''attachment.bin'') (file_name path),
                   ca_size_bytes = bytes_len, ca_content_type = guess_content_type_for_path env path\<rparr>)"

subsection \<open>The invariant of a composer\<close>

definition composer_ok :: "ComposerState \<Rightarrow> bool" where
  "composer_ok st \<longleftrightarrow>
     cs_body_line_cache st = lc_from_text (cs_body st) \<and>
     cs_to_cursor st \<le> length (cs_to st) \<and> cs_cc_cursor st \<le> length (cs_cc st) \<and>
     cs_bcc_cursor st \<le> length (cs_bcc st) \<and> cs_subject_cursor st \<le> length (cs_subject st) \<and>
     cs_body_cursor st \<le> length (cs_body st) \<and>
     cs_body_scroll st < body_line_count st \<and>
     (\<forall>a. cs_body_selection_anchor st = Some a \<longrightarrow> a < body_line_count st) \<and>
     cs_body_selection_focus st < body_line_count st"

text \<open>What an edit other than of the body leaves alone, and what it needs of the new text.\<close>

definition cached :: "ComposerState \<Rightarrow> bool" where
  "cached st \<longleftrightarrow> cs_body_line_cache st = lc_from_text (cs_body st)"

lemmas focus_defs = focused_text.simps focused_cursor.simps put_focused.simps

lemma focused_put [simp]:
  "focused_text (put_focused v c st) = v" "focused_cursor (put_focused v c st) = c"
  "cs_focused (put_focused v c st) = cs_focused st"
  by (simp_all add: focus_defs split: ComposeField.splits)

lemma body_put [simp]:
  "cs_body_scroll (put_focused v c st) = cs_body_scroll st"
  "cs_body_line_cache (put_focused v c st) = cs_body_line_cache st"
  "cs_body_selection_anchor (put_focused v c st) = cs_body_selection_anchor st"
  "cs_body_selection_focus (put_focused v c st) = cs_body_selection_focus st"
  "body_line_count (put_focused v c st) = body_line_count st"
  by (simp_all add: focus_defs body_line_count_def split: ComposeField.splits)

lemma focused_cursor_le: "composer_ok st \<Longrightarrow> focused_cursor st \<le> field_len st"
  by (simp add: composer_ok_def focus_defs field_len_def split: ComposeField.splits)

lemma body_line_count_pos: "cached st \<Longrightarrow> 0 < body_line_count st"
  by (simp add: cached_def body_line_count_def lc_line_count_eq)

lemma cursor_line_less: "cached st \<Longrightarrow> fst (body_cursor_line_column st) < body_line_count st"
  by (simp add: cached_def body_line_count_def body_cursor_line_column_def Let_def lc_line_for_cursor_less)

lemma ok_cached: "composer_ok st \<Longrightarrow> cached st"
  by (simp add: composer_ok_def cached_def)

text \<open>The viewport after scrolling shows the line of the cursor and ends within the body.\<close>

lemma scroll_window:
  fixes l n h s :: nat
  assumes "l < n" "1 \<le> h" "s \<le> n - h"
  defines "t \<equiv> min (if l < s then l else if s + h \<le> l then l + 1 - h else s) (n - h)"
  shows "t \<le> l" "l < t + h" "t \<le> n - h"
  using assms(1-3) unfolding t_def by (auto split: if_splits)

lemma visible_scroll:
  assumes "cached st"
  shows "body_visible_scroll st h \<le> fst (body_cursor_line_column st)"
    and "fst (body_cursor_line_column st) < body_visible_scroll st h + max h 1"
    and "body_visible_scroll st h \<le> body_line_count st - max h 1"
  using scroll_window [OF cursor_line_less [OF assms], of "max h 1"
      "min (cs_body_scroll st) (body_line_count st - max h 1)"]
  by (simp_all only: body_visible_scroll_def Let_def max.cobounded2 min.cobounded2 simp_thms)

lemma visible_scroll_less: "cached st \<Longrightarrow> body_visible_scroll st h < body_line_count st"
  using visible_scroll(1) [of st h] cursor_line_less [of st] by simp

lemma cached_updates [simp]:
  "cached (st\<lparr>cs_body_preferred_column := p\<rparr>) = cached st"
  "cached (st\<lparr>cs_body_selection_anchor := a\<rparr>) = cached st"
  "cached (st\<lparr>cs_body_selection_focus := n\<rparr>) = cached st"
  "cached (st\<lparr>cs_body_scroll := n\<rparr>) = cached st"
  "cached (st\<lparr>cs_body_cursor := n\<rparr>) = cached st"
  "cached (refresh_body_line_cache st)"
  by (simp_all add: cached_def refresh_body_line_cache_def)

definition cursors_in :: "ComposerState \<Rightarrow> bool" where
  "cursors_in st \<longleftrightarrow>
     cs_to_cursor st \<le> length (cs_to st) \<and> cs_cc_cursor st \<le> length (cs_cc st) \<and>
     cs_bcc_cursor st \<le> length (cs_bcc st) \<and> cs_subject_cursor st \<le> length (cs_subject st) \<and>
     cs_body_cursor st \<le> length (cs_body st)"

definition view_in :: "ComposerState \<Rightarrow> bool" where
  "view_in st \<longleftrightarrow>
     cs_body_scroll st < body_line_count st \<and>
     (\<forall>a. cs_body_selection_anchor st = Some a \<longrightarrow> a < body_line_count st) \<and>
     cs_body_selection_focus st < body_line_count st"

lemma composer_ok_parts: "composer_ok st \<longleftrightarrow> cached st \<and> cursors_in st \<and> view_in st"
  by (auto simp: composer_ok_def cached_def cursors_in_def view_in_def)

lemma cursors_in_put: "cursors_in st \<Longrightarrow> c \<le> length v \<Longrightarrow> cursors_in (put_focused v c st)"
  by (simp add: cursors_in_def put_focused.simps split: ComposeField.splits)

lemma cursors_in_updates [simp]:
  "cursors_in (st\<lparr>cs_body_preferred_column := p\<rparr>) = cursors_in st"
  "cursors_in (st\<lparr>cs_body_selection_anchor := a\<rparr>) = cursors_in st"
  "cursors_in (st\<lparr>cs_body_selection_focus := n\<rparr>) = cursors_in st"
  "cursors_in (st\<lparr>cs_body_scroll := n\<rparr>) = cursors_in st"
  "cursors_in (refresh_body_line_cache st) = cursors_in st"
  by (simp_all add: cursors_in_def refresh_body_line_cache_def)

lemma view_in_put [simp]: "view_in (put_focused v c st) = view_in st"
  by (simp add: view_in_def)

lemma cached_put_header: "cs_focused st \<noteq> BodyField \<Longrightarrow> cached (put_focused v c st) = cached st"
  by (simp add: cached_def put_focused.simps split: ComposeField.splits)

lemma cached_put_cursor [simp]: "cached (put_focused_cursor c st) = cached st"
  by (simp add: cached_def put_focused_cursor_def focus_defs split: ComposeField.splits)

lemma clear_selection_ok: "composer_ok st \<Longrightarrow> composer_ok (snd (clear_body_selection st))"
  using cursor_line_less [of "st\<lparr>cs_body_selection_anchor := None\<rparr>"]
  by (simp add: composer_ok_parts clear_body_selection_def Let_def view_in_def body_line_count_def)

lemma preferred_ok [simp]: "composer_ok (st\<lparr>cs_body_preferred_column := p\<rparr>) = composer_ok st"
  by (simp add: composer_ok_parts view_in_def body_line_count_def)

lemma reset_navigation_ok: "composer_ok st \<Longrightarrow> composer_ok (reset_body_navigation_state st)"
  by (simp add: reset_body_navigation_state_def clear_selection_ok)

text \<open>After an edit of the focused text the whole state is consistent again, whatever the new text is.\<close>

lemma after_edit_ok:
  assumes "composer_ok st" and "c \<le> length v"
  shows "composer_ok (after_text_edit (put_focused v c st))"
proof (cases "cs_focused st = BodyField")
  case False
  then show ?thesis
    using assms by (simp add: after_text_edit_def composer_ok_parts cached_put_header cursors_in_put)
next
  case True
  let ?a = "(refresh_body_line_cache (put_focused v c st))\<lparr>cs_body_preferred_column := None\<rparr>"
  let ?b = "snd (clear_body_selection ?a)"
  have b: "cached ?b" "cursors_in ?b" "cs_body_selection_anchor ?b = None"
    "cs_body_selection_focus ?b < body_line_count ?b"
    using assms cursor_line_less [of "?a\<lparr>cs_body_selection_anchor := None\<rparr>"]
    by (simp_all add: clear_body_selection_def Let_def cursors_in_put composer_ok_parts body_line_count_def)
  then show ?thesis
    using True visible_scroll_less [OF b(1), of 1]
    by (simp add: after_text_edit_def composer_ok_parts ensure_body_cursor_visible_def view_in_def body_line_count_def)
qed

lemma put_cursor_ok: "composer_ok st \<Longrightarrow> c \<le> field_len st \<Longrightarrow> composer_ok (put_focused_cursor c st)"
  unfolding composer_ok_parts by (simp, simp add: put_focused_cursor_def cursors_in_put field_len_def)

subsection \<open>Every operation keeps the invariant\<close>

lemma composer_new_ok: "composer_ok (composer_new a)"
  by (simp add: composer_ok_def composer_new_def lc_default_def body_line_count_def lc_line_count_eq)

lemma from_prefill_ok: "composer_ok (from_prefill a p)"
  by (simp add: from_prefill_def Let_def composer_ok_def composer_new_def with_addresses_def with_subject_def
      refresh_body_line_cache_def lc_default_def body_line_count_def lc_line_count_eq char_count_def split: option.splits)

lemma from_existing_draft_ok: "composer_ok (from_existing_draft i d f)"
  by (simp add: from_existing_draft_def Let_def composer_ok_def composer_new_def with_addresses_def with_subject_def
      refresh_body_line_cache_def lc_default_def body_line_count_def lc_line_count_eq char_count_def split: option.splits)

lemma move_left_ok: "composer_ok st \<Longrightarrow> composer_ok (snd (move_focused_cursor_left st))"
  using focused_cursor_le [of st]
  by (simp add: move_focused_cursor_left_def reset_navigation_ok put_cursor_ok)

lemma move_right_ok: "composer_ok st \<Longrightarrow> composer_ok (snd (move_focused_cursor_right st))"
  by (simp add: move_focused_cursor_right_def Let_def reset_navigation_ok put_cursor_ok)

lemma set_cursor_ok: "composer_ok st \<Longrightarrow> composer_ok (snd (set_focused_cursor n st))"
  by (simp add: set_focused_cursor_def Let_def reset_navigation_ok put_cursor_ok)

lemma line_start_plus_len:
  assumes "cached st" and "i < body_line_count st" and "k \<le> body_line_len st i"
  shows "body_line_start st i + k \<le> length (cs_body st)"
  using assms lc_line_end_start [of i "cs_body st"] lc_line_end_le [of "cs_body st" i]
  by (simp add: cached_def body_line_count_def lc_line_count_eq body_line_len_def body_line_start_def body_line_end_def)

lemma ensure_visible_ok:
  assumes "cached st" "cursors_in st" "\<forall>a. cs_body_selection_anchor st = Some a \<longrightarrow> a < body_line_count st"
    "cs_body_selection_focus st < body_line_count st"
  shows "composer_ok (ensure_body_cursor_visible h st)"
  using assms visible_scroll_less [OF assms(1), of h]
  by (simp add: composer_ok_parts ensure_body_cursor_visible_def view_in_def body_line_count_def)

lemma placed_cursor_ok:
  assumes "composer_ok st" "c \<le> length (cs_body st)" "f < body_line_count st"
  shows "composer_ok (ensure_body_cursor_visible h
           (st\<lparr>cs_body_preferred_column := p, cs_body_cursor := c, cs_body_selection_focus := f\<rparr>))"
  using assms
  by (intro ensure_visible_ok) (simp_all add: composer_ok_parts cursors_in_def view_in_def body_line_count_def)

lemma move_body_line_ok:
  assumes "composer_ok st"
  shows "composer_ok (snd (move_body_line delta h st))"
proof (cases "cs_focused st = BodyField")
  case True
  have c: "cached st" "cursors_in st" "view_in st" using assms by (simp_all add: composer_ok_parts)
  let ?l = "fst (body_cursor_line_column st)"
  let ?n = "if delta < 0 then ?l - nat (- delta) else min (?l + nat delta) (body_line_count st - 1)"
  let ?k = "min (unwrap_or (snd (body_cursor_line_column st)) (cs_body_preferred_column st)) (body_line_len st ?n)"
  have n: "?n < body_line_count st" using cursor_line_less [OF c(1)] by auto
  then have "body_line_start st ?n + ?k \<le> length (cs_body st)"
    by (rule line_start_plus_len [OF c(1)]) simp
  then show ?thesis
    unfolding move_body_line_def Let_def
    by (simp only: True snd_conv simp_thms if_False, intro placed_cursor_ok [OF assms])
       (use n c(3) in \<open>simp_all only: view_in_def split: if_split\<close>, simp)
qed (use assms in \<open>simp add: move_body_line_def\<close>)

lemma select_line_ok:
  "composer_ok st \<Longrightarrow> l < body_line_count st \<Longrightarrow>
   composer_ok (st\<lparr>cs_body_selection_anchor := Some l, cs_body_selection_focus := l\<rparr>)"
  by (auto simp: composer_ok_parts view_in_def body_line_count_def)

lemma toggle_selection_ok: "composer_ok st \<Longrightarrow> composer_ok (snd (toggle_body_line_selection st))"
  by (simp add: toggle_body_line_selection_def Let_def clear_selection_ok select_line_ok cursor_line_less ok_cached)

lemma start_selection_ok: "composer_ok st \<Longrightarrow> composer_ok (snd (start_body_line_selection st))"
  by (simp add: start_body_line_selection_def Let_def select_line_ok cursor_line_less ok_cached)

subsection \<open>What an edit does\<close>

lemma after_edit_focused [simp]:
  "focused_text (after_text_edit st) = focused_text st" "focused_cursor (after_text_edit st) = focused_cursor st"
  "cs_focused (after_text_edit st) = cs_focused st"
  by (simp_all add: after_text_edit_def ensure_body_cursor_visible_def clear_body_selection_def Let_def
      refresh_body_line_cache_def focus_defs split: ComposeField.splits)

text \<open>No edit panics: every byte offset it uses is a character boundary.\<close>

lemma insert_focused_char_eq:
  "insert_focused_char ch st =
     (let t = focused_text st; k = min (focused_cursor st) (length t) in
      Some (after_text_edit (put_focused (take k t @ ch # drop k t) (k + 1) st)))"
  by (simp add: insert_focused_char_def Let_def char_to_byte_index_eq str_insert_take char_count_def)

lemma insert_body_newline_eq:
  "cs_focused st = BodyField \<Longrightarrow> insert_body_newline st = insert_focused_char 10 st"
  by (simp add: insert_body_newline_def insert_focused_char_def Let_def focus_defs)

lemma cut_focused_eq:
  assumes "a \<le> b"
  shows "cut_focused a b st =
     Some (True, after_text_edit (put_focused (take a (focused_text st) @ drop b (focused_text st)) a st))"
  using assms by (simp add: cut_focused_def Let_def char_to_byte_index_eq replace_range_take)

lemma skip_back_le: "skip_back P s n \<le> n"
  by (induction n) (auto intro: le_SucI)

lemma skip_back_spec:
  "(\<forall>i. skip_back P s n \<le> i \<and> i < n \<longrightarrow> P (s ! i)) \<and>
   (skip_back P s n \<noteq> 0 \<longrightarrow> \<not> P (s ! (skip_back P s n - 1)))"
  by (induction n) (auto simp: less_Suc_eq)

lemma delete_before_eq:
  "delete_before_focused_cursor st =
     (let t = focused_text st; k = min (focused_cursor st) (length t) in
      Some (if k = 0 then (False, put_focused_cursor 0 st)
            else (True, after_text_edit (put_focused (take (k - 1) t @ drop k t) (k - 1) st))))"
  by (simp only: delete_before_focused_cursor_def Let_def cut_focused_eq char_count_def diff_le_self split: if_split) blast

lemma delete_at_eq:
  "delete_at_focused_cursor st =
     (let t = focused_text st; k = min (focused_cursor st) (length t) in
      Some (if length t \<le> k then (False, put_focused_cursor (length t) st)
            else (True, after_text_edit (put_focused (take k t @ drop (k + 1) t) k st))))"
  by (simp add: delete_at_focused_cursor_def Let_def cut_focused_eq char_count_def)

definition word_start :: "rstr \<Rightarrow> nat \<Rightarrow> nat" where
  "word_start t k = skip_back (\<lambda>c. \<not> is_whitespace c) t (skip_back is_whitespace t k)"

lemma word_start_le: "word_start t k \<le> k"
  unfolding word_start_def by (meson le_trans skip_back_le)

lemma delete_word_eq:
  "delete_word_before_cursor st =
     (let t = focused_text st; k = min (focused_cursor st) (length t); n = word_start t k in
      Some (if k = 0 then (False, put_focused_cursor 0 st)
            else if n = k then (False, st)
            else (True, after_text_edit (put_focused (take n t @ drop k t) n st))))"
  using word_start_le [of "focused_text st" "min (focused_cursor st) (length (focused_text st))"]
  by (simp only: delete_word_before_cursor_def Let_def cut_focused_eq char_count_def word_start_def [symmetric]
      split: if_split) blast

lemma insert_ok: "composer_ok st \<Longrightarrow> insert_focused_char ch st = Some st' \<Longrightarrow> composer_ok st'"
  by (auto simp: insert_focused_char_eq Let_def intro!: after_edit_ok)

lemma delete_before_ok: "composer_ok st \<Longrightarrow> delete_before_focused_cursor st = Some (b, st') \<Longrightarrow> composer_ok st'"
  by (auto simp: delete_before_eq Let_def intro!: after_edit_ok put_cursor_ok split: if_splits)

lemma delete_at_ok: "composer_ok st \<Longrightarrow> delete_at_focused_cursor st = Some (b, st') \<Longrightarrow> composer_ok st'"
  by (auto simp: delete_at_eq Let_def field_len_def intro!: after_edit_ok put_cursor_ok split: if_splits)

lemma delete_word_ok: "composer_ok st \<Longrightarrow> delete_word_before_cursor st = Some (b, st') \<Longrightarrow> composer_ok st'"
  using word_start_le [of "focused_text st" "min (focused_cursor st) (length (focused_text st))"]
  by (auto simp: delete_word_eq Let_def intro!: after_edit_ok put_cursor_ok split: if_splits)

end
