(* ===== verification/TuiItems.thy ===== *)
theory TuiItems
  imports TextLines Attachments "HOL-Library.Multiset"
begin

text \<open>
  \<^verbatim>\<open>src/tui/app.rs\<close>: the rows the terminal interface shows and how they are made from the daemon's
  records, the grouping of a folder's messages into conversations, message flags, and the labels of
  approval rows.  Parameters, in the record \<open>tui_env\<close>: the date format of \<^verbatim>\<open>chrono\<close>, the JSON printer and
  parser of \<^verbatim>\<open>serde_json\<close>, the UUID texts of \<^verbatim>\<open>uuid\<close>, and the case tables of Unicode.
\<close>

record tui_env =
  te_minute :: "instant \<Rightarrow> rstr"
  te_json :: "json \<Rightarrow> rstr"
  te_json_pretty :: "json \<Rightarrow> rstr"
  te_json_parse :: "rstr \<Rightarrow> json option"
  te_parse_uuid :: "rstr \<Rightarrow> uuid option"
  te_uuid_simple :: "uuid \<Rightarrow> rstr"
  te_unicode :: unicode
  te_char_to_uppercase :: "rchar \<Rightarrow> rstr"

definition SEEN_FLAG :: rstr where
  "SEEN_FLAG = 92 # lit ''Seen''"

definition FLAGGED_FLAG :: rstr where
  "FLAGGED_FLAG = 92 # lit ''Flagged''"

definition MAX_APPROVAL_ARGS_CHARS :: nat where
  "MAX_APPROVAL_ARGS_CHARS = 48"

definition APPROVALS_FOLDER_NAME :: rstr where
  "APPROVALS_FOLDER_NAME = lit ''Approvals''"

definition APPROVALS_FOLDER_ROLE :: rstr where
  "APPROVALS_FOLDER_ROLE = lit ''system''"

subsection \<open>Sorting\<close>

text \<open>\<^verbatim>\<open>slice::sort_by\<close>: a stable sort; the argument says that the left element does not come after the right one.\<close>

fun insert_by :: "('a \<Rightarrow> 'a \<Rightarrow> bool) \<Rightarrow> 'a \<Rightarrow> 'a list \<Rightarrow> 'a list" where
  "insert_by le x [] = [x]"
| "insert_by le x (y # ys) = (if le x y then x # y # ys else y # insert_by le x ys)"

definition sort_by :: "('a \<Rightarrow> 'a \<Rightarrow> bool) \<Rightarrow> 'a list \<Rightarrow> 'a list" where
  "sort_by le xs = foldr (insert_by le) xs []"

text \<open>\<^verbatim>\<open>if let Some(x) = xs.iter_mut().find(p) { f(x) }\<close>, and \<^verbatim>\<open>Iterator::position\<close>.\<close>

fun update_first :: "('a \<Rightarrow> bool) \<Rightarrow> ('a \<Rightarrow> 'a) \<Rightarrow> 'a list \<Rightarrow> 'a list" where
  "update_first P f [] = []"
| "update_first P f (x # xs) = (if P x then f x # xs else x # update_first P f xs)"

fun index_where :: "('a \<Rightarrow> bool) \<Rightarrow> 'a list \<Rightarrow> nat option" where
  "index_where P [] = None"
| "index_where P (x # xs) = (if P x then Some 0 else map_option Suc (index_where P xs))"

subsection \<open>Text helpers\<close>

definition text_or_default :: "rstr option \<Rightarrow> rstr \<Rightarrow> rstr" where
  "text_or_default value dflt = unwrap_or dflt (filter_option (\<lambda>s. s \<noteq> []) (map_option trim value))"

definition first_chars_one_line :: "rstr \<Rightarrow> nat \<Rightarrow> rstr" where
  "first_chars_one_line value limit = take limit (join [32] (split_whitespace value))"

definition addrs_label :: "rstr list \<Rightarrow> rstr" where
  "addrs_label value =
     (let collected = filter (\<lambda>s. trim s \<noteq> []) value in
      if collected = [] then lit ''(no recipient)'' else join [44, 32] collected)"

text \<open>\<^verbatim>\<open>str::lines\<close>: split at newlines, without a last empty piece, and without a carriage return before the newline.\<close>

definition strip_cr :: "rstr \<Rightarrow> rstr" where
  "strip_cr l = (if l \<noteq> [] \<and> last l = 13 then butlast l else l)"

definition text_lines :: "rstr \<Rightarrow> rstr list" where
  "text_lines t =
     (let ps = split_char 10 t; closed = butlast ps; tail = last ps in
      map strip_cr closed @ (if tail = [] then [] else [tail]))"

definition first_line_or_default :: "rstr option \<Rightarrow> rstr" where
  "first_line_or_default value =
     (case value of
        None \<Rightarrow> lit ''(empty)''
      | Some t \<Rightarrow> unwrap_or (lit ''(empty)'') (find (\<lambda>l. l \<noteq> []) (map trim (text_lines t))))"

definition ellipsis :: rchar where
  "ellipsis = 8230"

definition truncate_chars :: "rstr \<Rightarrow> nat \<Rightarrow> rstr" where
  "truncate_chars value limit =
     (if length value \<le> limit then value else take (limit - 1) value @ [ellipsis])"

definition age_label :: "instant \<Rightarrow> instant \<Rightarrow> rstr" where
  "age_label created_at now =
     (let secs = max 0 ((now - created_at) div 1000000000) in
      if secs < 60 then show_int secs @ lit ''s ago''
      else
        (let minutes = secs div 60 in
         if minutes < 60 then show_int minutes @ lit ''m ago''
         else
           (let hours = minutes div 60 in
            if hours < 24 then show_int hours @ lit ''h ago''
            else show_int (hours div 24) @ lit ''d ago'')))"

definition short_id :: "tui_env \<Rightarrow> uuid \<Rightarrow> rstr" where
  "short_id env i = take 8 (te_uuid_simple env i)"

subsection \<open>Flags\<close>

definition has_flag :: "rstr list \<Rightarrow> rstr \<Rightarrow> bool" where
  "has_flag flags flag \<longleftrightarrow> list_ex (\<lambda>existing. existing = flag) flags"

text \<open>The loop of \<^verbatim>\<open>set_flag_preserving\<close> with its output and whether the flag was met.\<close>

fun set_flag_loop :: "rstr \<Rightarrow> bool \<Rightarrow> rstr list \<Rightarrow> rstr list \<Rightarrow> bool \<Rightarrow> rstr list \<times> bool" where
  "set_flag_loop flag enabled [] out saw = (out, saw)"
| "set_flag_loop flag enabled (existing # flags) out saw =
     (if existing = flag
      then set_flag_loop flag enabled flags
             (if enabled \<and> \<not> has_flag out flag then out @ [existing] else out) True
      else set_flag_loop flag enabled flags (out @ [existing]) saw)"

definition set_flag_preserving :: "rstr list \<Rightarrow> rstr \<Rightarrow> bool \<Rightarrow> rstr list" where
  "set_flag_preserving flags flag enabled =
     (case set_flag_loop flag enabled flags [] False of
        (out, saw_target) \<Rightarrow> if enabled \<and> \<not> saw_target then out @ [flag] else out)"

subsection \<open>Rows\<close>

record AccountItem =
  ai_id :: uuid
  ai_label :: rstr
  ai_email :: rstr
  ai_status :: rstr

definition account_item :: "Account \<Rightarrow> AccountItem" where
  "account_item a =
     \<lparr>ai_id = acc_id a,
      ai_label = unwrap_or (acc_email a) (filter_option (\<lambda>s. s \<noteq> []) (map_option trim (acc_display_name a))),
      ai_email = acc_email a, ai_status = sync_status_as_str (acc_sync_status a)\<rparr>"

datatype FolderKind = FolderMail | FolderApprovals

record FolderItem =
  fi_kind :: FolderKind
  fi_id :: uuid
  fi_name :: rstr
  fi_role :: rstr

definition folder_item :: "Folder \<Rightarrow> FolderItem" where
  "folder_item f =
     \<lparr>fi_kind = FolderMail, fi_id = fld_id f, fi_name = fld_name f, fi_role = folder_role_as_str (fld_role f)\<rparr>"

definition approvals_virtual :: FolderItem where
  "approvals_virtual =
     \<lparr>fi_kind = FolderApprovals, fi_id = 0, fi_name = APPROVALS_FOLDER_NAME, fi_role = APPROVALS_FOLDER_ROLE\<rparr>"

definition is_approvals_virtual :: "FolderItem \<Rightarrow> bool" where
  "is_approvals_virtual f \<longleftrightarrow> fi_kind f = FolderApprovals"

definition folders_with_approvals :: "FolderItem list \<Rightarrow> FolderItem list" where
  "folders_with_approvals fs = filter (\<lambda>f. \<not> is_approvals_virtual f) fs @ [approvals_virtual]"

definition virtual_folders :: "FolderItem list" where
  "virtual_folders = [approvals_virtual]"

record MessageItem =
  mi_id :: uuid
  mi_thread_id :: "uuid option"
  mi_subject :: rstr
  mi_from :: rstr
  mi_date :: rstr
  mi_snippet :: rstr
  mi_flags :: "rstr list"

definition no_subject :: rstr where
  "no_subject = lit ''(no subject)''"

definition message_item :: "tui_env \<Rightarrow> Message \<Rightarrow> MessageItem" where
  "message_item env m =
     \<lparr>mi_id = msg_id m, mi_thread_id = msg_thread_id m, mi_subject = text_or_default (msg_subject m) no_subject,
      mi_from = msg_from_addr m, mi_date = te_minute env (msg_internal_date m),
      mi_snippet = text_or_default (msg_snippet m) [], mi_flags = msg_flags m\<rparr>"

definition message_item_of_summary :: "tui_env \<Rightarrow> MessageSummary \<Rightarrow> MessageItem" where
  "message_item_of_summary env m =
     \<lparr>mi_id = ms_id m, mi_thread_id = ms_thread_id m, mi_subject = text_or_default (ms_subject m) no_subject,
      mi_from = ms_from_addr m, mi_date = te_minute env (ms_internal_date m),
      mi_snippet = text_or_default (ms_snippet m) [], mi_flags = ms_flags m\<rparr>"

definition mi_has_flag :: "MessageItem \<Rightarrow> rstr \<Rightarrow> bool" where
  "mi_has_flag m flag = has_flag (mi_flags m) flag"

definition with_flag :: "MessageItem \<Rightarrow> rstr \<Rightarrow> bool \<Rightarrow> rstr list" where
  "with_flag m flag enabled = set_flag_preserving (mi_flags m) flag enabled"

record ThreadItem =
  ti_key :: uuid
  ti_thread_id :: "uuid option"
  ti_subject :: rstr
  ti_message_count :: nat
  ti_latest_date :: rstr
  ti_latest_from :: rstr
  ti_unread :: bool
  ti_flagged :: bool

record MessageDetail =
  md_id :: uuid
  md_subject :: rstr
  md_from :: rstr
  md_snippet :: rstr
  md_body :: rstr
  md_flags :: "rstr list"

fun or_else :: "'a option \<Rightarrow> 'a option \<Rightarrow> 'a option" where
  "or_else None q = q"
| "or_else (Some x) q = Some x"

definition message_detail :: "Message \<Rightarrow> MessageDetail" where
  "message_detail m =
     \<lparr>md_id = msg_id m, md_subject = text_or_default (msg_subject m) no_subject, md_from = msg_from_addr m,
      md_snippet = text_or_default (msg_snippet m) [],
      md_body = unwrap_or [] (or_else (or_else (msg_text_body m) (msg_html_body m)) (msg_snippet m)),
      md_flags = msg_flags m\<rparr>"

record DraftItem =
  di_id :: uuid
  di_account_id :: uuid
  di_subject :: rstr
  di_to :: rstr
  di_date :: rstr
  di_snippet :: rstr

definition draft_item :: "tui_env \<Rightarrow> Draft \<Rightarrow> DraftItem" where
  "draft_item env d =
     \<lparr>di_id = dft_id d, di_account_id = dft_account_id d, di_subject = text_or_default (dft_subject d) no_subject,
      di_to = addrs_label (dft_to_addrs d), di_date = te_minute env (dft_updated_at d),
      di_snippet = first_line_or_default (dft_text_body d)\<rparr>"

record SearchHit =
  sh_message_id :: uuid
  sh_account_id :: uuid
  sh_folder_id :: uuid
  sh_subject :: rstr
  sh_from :: rstr
  sh_snippet :: rstr
  sh_date :: rstr

definition search_hit :: "tui_env \<Rightarrow> Message \<Rightarrow> SearchHit" where
  "search_hit env m =
     \<lparr>sh_message_id = msg_id m, sh_account_id = msg_account_id m, sh_folder_id = msg_folder_id m,
      sh_subject = text_or_default (msg_subject m) no_subject, sh_from = msg_from_addr m,
      sh_snippet = text_or_default (msg_snippet m) [], sh_date = te_minute env (msg_internal_date m)\<rparr>"

definition search_hit_of_summary :: "tui_env \<Rightarrow> MessageSummary \<Rightarrow> SearchHit" where
  "search_hit_of_summary env m =
     \<lparr>sh_message_id = ms_id m, sh_account_id = ms_account_id m, sh_folder_id = ms_folder_id m,
      sh_subject = text_or_default (ms_subject m) no_subject, sh_from = ms_from_addr m,
      sh_snippet = text_or_default (ms_snippet m) [], sh_date = te_minute env (ms_internal_date m)\<rparr>"

record AttachmentItem =
  ati_id :: uuid
  ati_message_id :: uuid
  ati_filename :: rstr
  ati_content_type :: rstr
  ati_size_bytes :: i64
  ati_disposition :: rstr
  ati_storage_path :: rstr

definition attachment_item :: "Attachment \<Rightarrow> AttachmentItem" where
  "attachment_item a =
     \<lparr>ati_id = att_id a, ati_message_id = att_message_id a, ati_filename = att_filename a,
      ati_content_type = att_content_type a, ati_size_bytes = att_size_bytes a,
      ati_disposition = attachment_disposition_as_str (att_disposition a), ati_storage_path = att_storage_path a\<rparr>"

record AttachmentPreviewItem =
  pi_attachment_id :: uuid
  pi_text :: "rstr option"
  pi_message :: rstr
  pi_truncated :: bool
  pi_preview_bytes :: nat

definition attachment_preview_item :: "AttachmentPreview \<Rightarrow> AttachmentPreviewItem" where
  "attachment_preview_item p =
     \<lparr>pi_attachment_id = att_id (ape_attachment p), pi_text = ape_inline_text p, pi_message = ape_message p,
      pi_truncated = ape_truncated p, pi_preview_bytes = ape_preview_bytes p\<rparr>"

subsection \<open>Conversations\<close>

definition message_thread_key :: "MessageItem \<Rightarrow> uuid" where
  "message_thread_key m = unwrap_or (mi_id m) (mi_thread_id m)"

definition absorb_message :: "MessageItem \<Rightarrow> ThreadItem \<Rightarrow> ThreadItem" where
  "absorb_message m t =
     (let t1 = t\<lparr>ti_message_count := ti_message_count t + 1\<rparr>;
          t2 = (if ti_latest_date t1 < mi_date m
                then t1\<lparr>ti_latest_date := mi_date m, ti_subject := text_or_default (Some (mi_subject m)) no_subject,
                        ti_latest_from := mi_from m\<rparr>
                else t1) in
      t2\<lparr>ti_unread := ti_unread t2 \<or> \<not> mi_has_flag m SEEN_FLAG,
         ti_flagged := ti_flagged t2 \<or> mi_has_flag m FLAGGED_FLAG\<rparr>)"

definition thread_of_message :: "MessageItem \<Rightarrow> ThreadItem" where
  "thread_of_message m =
     \<lparr>ti_key = message_thread_key m, ti_thread_id = mi_thread_id m,
      ti_subject = text_or_default (Some (mi_subject m)) no_subject, ti_message_count = 1,
      ti_latest_date = mi_date m, ti_latest_from = mi_from m,
      ti_unread = (\<not> mi_has_flag m SEEN_FLAG), ti_flagged = mi_has_flag m FLAGGED_FLAG\<rparr>"

definition add_message :: "MessageItem \<Rightarrow> ThreadItem list \<Rightarrow> ThreadItem list" where
  "add_message m ts =
     (let same = (\<lambda>t. ti_key t = message_thread_key m) in
      if list_ex same ts then update_first same (absorb_message m) ts else ts @ [thread_of_message m])"

definition thread_le :: "ThreadItem \<Rightarrow> ThreadItem \<Rightarrow> bool" where
  "thread_le l r \<longleftrightarrow>
     ti_latest_date r < ti_latest_date l \<or>
     (ti_latest_date r = ti_latest_date l \<and>
      (ti_subject l < ti_subject r \<or> (ti_subject l = ti_subject r \<and> ti_key l \<le> ti_key r)))"

definition group_threads :: "MessageItem list \<Rightarrow> ThreadItem list" where
  "group_threads ms = fold add_message ms []"

definition build_threads :: "MessageItem list \<Rightarrow> ThreadItem list" where
  "build_threads ms = sort_by thread_le (group_threads ms)"

definition message_le :: "MessageItem \<Rightarrow> MessageItem \<Rightarrow> bool" where
  "message_le l r \<longleftrightarrow> mi_date l < mi_date r \<or> (mi_date l = mi_date r \<and> mi_id l \<le> mi_id r)"

definition sort_messages_oldest_first :: "MessageItem list \<Rightarrow> MessageItem list" where
  "sort_messages_oldest_first ms = sort_by message_le ms"

subsection \<open>Approval rows\<close>

definition is_ascii_hexdigit :: "byte \<Rightarrow> bool" where
  "is_ascii_hexdigit b \<longleftrightarrow> (48 \<le> b \<and> b \<le> 57) \<or> (65 \<le> b \<and> b \<le> 70) \<or> (97 \<le> b \<and> b \<le> 102)"

definition uuid_slot_ok :: "nat \<Rightarrow> byte \<Rightarrow> bool" where
  "uuid_slot_ok index b \<longleftrightarrow> (if index \<in> {8, 13, 18, 23} then b = 45 else is_ascii_hexdigit b)"

definition shorten_uuid_like :: "rstr \<Rightarrow> rstr option" where
  "shorten_uuid_like value =
     (let bs = as_bytes value in
      if length bs \<noteq> 36 then None
      else if list_all (\<lambda>(i, b). uuid_slot_ok i b) (enumerate 0 bs)
      then Some (ellipsis # drop (length value - 4) value)
      else None)"

text \<open>
  The loop of \<^verbatim>\<open>shorten_uuid_like_in_text\<close> over the characters with their byte offsets; the inner loop
  skips the characters that begin before \<open>end\<close>.
\<close>

function shorten_scan :: "rstr \<Rightarrow> (nat \<times> rchar) list \<Rightarrow> rstr" where
  "shorten_scan value [] = []"
| "shorten_scan value ((byte_index, ch) # chars) =
     (case Option.bind (str_get value byte_index (byte_index + 36)) shorten_uuid_like of
        Some short \<Rightarrow> short @ shorten_scan value (dropWhile (\<lambda>(i, _). i < byte_index + 36) chars)
      | None \<Rightarrow> ch # shorten_scan value chars)"
  by pat_completeness auto
termination
  by (relation "measure (length \<circ> snd)") (auto simp: le_imp_less_Suc length_dropWhile_le)

definition shorten_uuid_like_in_text :: "rstr \<Rightarrow> rstr" where
  "shorten_uuid_like_in_text value = shorten_scan value (char_indices value)"

definition PREFERRED_KEYS :: "rstr list" where
  "PREFERRED_KEYS = map lit
     [''to'', ''to_addrs'', ''subject'', ''folder'', ''folder_name'', ''message_id'', ''draft_id'', ''attachment_id'', ''id'']"

definition compact_arg_label :: "rstr \<Rightarrow> rstr" where
  "compact_arg_label key =
     (if key = lit ''to_addrs'' then lit ''to''
      else if key = lit ''message_id'' then lit ''message''
      else if key = lit ''draft_id'' then lit ''draft''
      else if key = lit ''attachment_id'' then lit ''attachment''
      else key)"

fun compact_element :: "tui_env \<Rightarrow> json \<Rightarrow> rstr" where
  "compact_element env (JString value) = unwrap_or value (shorten_uuid_like value)"
| "compact_element env other = te_json env other"

fun compact_arg_value :: "tui_env \<Rightarrow> json \<Rightarrow> rstr" where
  "compact_arg_value env (JString value) = unwrap_or value (shorten_uuid_like value)"
| "compact_arg_value env (JArray values) = join [44, 32] (map (compact_element env) values)"
| "compact_arg_value env JNull = lit ''null''"
| "compact_arg_value env other = te_json env other"

definition preferred_parts :: "tui_env \<Rightarrow> jobject \<Rightarrow> rstr list" where
  "preferred_parts env m =
     List.map_filter (\<lambda>key. map_option (\<lambda>v. compact_arg_label key @ [61] @ compact_arg_value env v) (obj_get m key))
       PREFERRED_KEYS"

definition raw_args_summary :: "tui_env \<Rightarrow> json \<Rightarrow> rstr" where
  "raw_args_summary env args =
     truncate_chars (shorten_uuid_like_in_text (te_json env args)) MAX_APPROVAL_ARGS_CHARS"

definition compact_args_summary :: "tui_env \<Rightarrow> json \<Rightarrow> rstr" where
  "compact_args_summary env args =
     (case args of
        JObject m \<Rightarrow>
          (if m = [] then []
           else if preferred_parts env m \<noteq> []
           then truncate_chars (join [44, 32] (preferred_parts env m)) MAX_APPROVAL_ARGS_CHARS
           else raw_args_summary env args)
      | _ \<Rightarrow> raw_args_summary env args)"

definition approval_args_json :: "tui_env \<Rightarrow> json \<Rightarrow> rstr" where
  "approval_args_json env args = te_json_pretty env args"

fun arg_element :: "tui_env \<Rightarrow> json \<Rightarrow> rstr option" where
  "arg_element env (JString value) = non_empty_string value"
| "arg_element env JNull = None"
| "arg_element env other = Some (te_json env other)"

definition arg_text :: "tui_env \<Rightarrow> json \<Rightarrow> rstr \<Rightarrow> rstr option" where
  "arg_text env args key =
     (case value_get args key of
        None \<Rightarrow> None
      | Some (JString value) \<Rightarrow> non_empty_string value
      | Some (JArray values) \<Rightarrow>
          (let parts = List.map_filter (arg_element env) values in
           if parts = [] then None else Some (join [44, 32] parts))
      | Some JNull \<Rightarrow> None
      | Some other \<Rightarrow> Some (te_json env other))"

definition escape_quotes :: "rstr \<Rightarrow> rstr" where
  "escape_quotes value = concat (map (\<lambda>c. if c = 34 then [92, 34] else [c]) value)"

definition quote_inner :: "rstr \<Rightarrow> rstr" where
  "quote_inner value = escape_quotes value"

record ApprovalTargetContext =
  tc_target :: "rstr option"
  tc_from :: "rstr option"
  tc_to :: "rstr option"
  tc_snippet :: "rstr option"
  tc_attachment :: "rstr option"

definition target_non_empty :: "ApprovalTargetContext \<Rightarrow> ApprovalTargetContext option" where
  "target_non_empty c =
     (if tc_target c \<noteq> None \<or> tc_from c \<noteq> None \<or> tc_to c \<noteq> None \<or> tc_snippet c \<noteq> None \<or> tc_attachment c \<noteq> None
      then Some c else None)"

definition named_with_type :: "rstr \<Rightarrow> rstr \<Rightarrow> rstr" where
  "named_with_type name content_type = name @ lit '' ('' @ content_type @ lit '')''"

definition target_from_args :: "tui_env \<Rightarrow> json \<Rightarrow> ApprovalTargetContext option" where
  "target_from_args env args =
     (let arg = (\<lambda>k. arg_text env args (lit k));
          filename = arg ''filename'';
          folder = or_else (arg ''folder'') (arg ''folder_name'') in
      target_non_empty
        \<lparr>tc_target = or_else (or_else (arg ''subject'') filename) (map_option (\<lambda>n. lit ''folder '' @ n) folder),
         tc_from = or_else (arg ''from'') (arg ''from_addr''),
         tc_to = or_else (arg ''to'') (arg ''to_addrs''),
         tc_snippet = map_option (\<lambda>v. first_chars_one_line v 96)
                        (or_else (or_else (arg ''snippet'') (arg ''body'')) (arg ''text_body'')),
         tc_attachment = map_option (\<lambda>name. case arg ''content_type'' of
                            Some ct \<Rightarrow> named_with_type name ct | None \<Rightarrow> name) filename\<rparr>)"

definition target_from_message :: "Message \<Rightarrow> ApprovalTargetContext" where
  "target_from_message m =
     \<lparr>tc_target = Some (text_or_default (msg_subject m) no_subject), tc_from = Some (msg_from_addr m),
      tc_to = Some (addrs_label (msg_to_addrs m)),
      tc_snippet = filter_option (\<lambda>s. s \<noteq> []) (map_option (\<lambda>s. first_chars_one_line s 96) (msg_snippet m)),
      tc_attachment = None\<rparr>"

definition target_from_draft :: "Draft \<Rightarrow> ApprovalTargetContext" where
  "target_from_draft d =
     \<lparr>tc_target = Some (text_or_default (dft_subject d) no_subject), tc_from = None,
      tc_to = Some (addrs_label (dft_to_addrs d)),
      tc_snippet = filter_option (\<lambda>s. s \<noteq> []) (map_option (\<lambda>b. first_line_or_default (Some b)) (dft_text_body d)),
      tc_attachment = None\<rparr>"

definition target_from_attachment :: "AttachmentItem \<Rightarrow> ApprovalTargetContext" where
  "target_from_attachment a =
     \<lparr>tc_target = Some (ati_filename a), tc_from = None, tc_to = None, tc_snippet = None,
      tc_attachment = Some (named_with_type (ati_filename a) (ati_content_type a))\<rparr>"

definition quoted :: "rstr \<Rightarrow> rstr" where
  "quoted s = [34] @ s @ [34]"

definition target_row_summary :: "ApprovalTargetContext \<Rightarrow> rstr option" where
  "target_row_summary c =
     (case tc_attachment c of
        Some attachment \<Rightarrow> Some (lit ''attachment='' @ quoted (escape_quotes attachment))
      | None \<Rightarrow>
          (case (tc_target c, tc_from c, tc_to c) of
             (Some target, Some from_addr, _) \<Rightarrow> Some (quoted (quote_inner target) @ lit '' from '' @ from_addr)
           | (Some target, None, Some to_addr) \<Rightarrow>
               Some (lit ''to='' @ to_addr @ lit '' subject='' @ quoted (quote_inner target))
           | (Some target, None, None) \<Rightarrow> Some (quoted (quote_inner target))
           | (None, _, Some to_addr) \<Rightarrow> Some (lit ''to='' @ to_addr)
           | _ \<Rightarrow> None))"

definition bullet :: rstr where
  "bullet = [32, 8226, 32]"

definition combine_target_and_summary :: "rstr option \<Rightarrow> rstr option \<Rightarrow> rstr option" where
  "combine_target_and_summary target summary =
     (let s = filter_option (\<lambda>v. v \<noteq> []) (map_option trim summary) in
      case (filter_option (\<lambda>t. trim t \<noteq> []) target, s) of
        (Some t, Some v) \<Rightarrow> Some (trim t @ bullet @ v)
      | (Some t, None) \<Rightarrow> Some (trim t)
      | (None, Some v) \<Rightarrow> Some v
      | (None, None) \<Rightarrow> None)"

definition optional_summary_label :: "rstr \<Rightarrow> rstr option" where
  "optional_summary_label summary = (if trim summary = [] then None else Some (trim summary))"

definition capitalize_first_word :: "tui_env \<Rightarrow> rstr \<Rightarrow> rstr" where
  "capitalize_first_word env word =
     (case to_lowercase (te_unicode env) word of
        [] \<Rightarrow> []
      | c # cs \<Rightarrow> te_char_to_uppercase env c @ cs)"

definition fallback_tool_label :: "tui_env \<Rightarrow> rstr \<Rightarrow> rstr" where
  "fallback_tool_label env tool =
     (let normalized = (if starts_with tool (lit ''postblox_'') then drop 9 tool else tool) in
      case filter (\<lambda>w. w \<noteq> []) (split_char 95 normalized) of
        [] \<Rightarrow> lit ''Tool request''
      | first # words \<Rightarrow>
          capitalize_first_word env first @ concat (map (\<lambda>w. 32 # to_lowercase (te_unicode env) w) words))"

definition tool_label :: "tui_env \<Rightarrow> rstr \<Rightarrow> rstr" where
  "tool_label env tool =
     (if tool = lit ''postblox_message_delete'' then lit ''Delete message''
      else if tool = lit ''postblox_message_send'' then lit ''Send message''
      else if tool = lit ''postblox_draft_create'' then lit ''Create draft''
      else fallback_tool_label env tool)"

record ApprovalItem =
  it_id :: uuid
  it_tool :: rstr
  it_args_summary :: rstr
  it_args_json :: rstr
  it_summary :: "rstr option"
  it_target :: "ApprovalTargetContext option"
  it_created_at :: instant

definition approval_item :: "tui_env \<Rightarrow> McpApproval \<Rightarrow> ApprovalItem" where
  "approval_item env a =
     \<lparr>it_id = ap_id a, it_tool = ap_tool a, it_args_summary = compact_args_summary env (ap_args a),
      it_args_json = approval_args_json env (ap_args a), it_summary = optional_summary_label (ap_summary a),
      it_target = target_from_args env (ap_args a), it_created_at = ap_created_at a\<rparr>"

definition item_tool_label :: "tui_env \<Rightarrow> ApprovalItem \<Rightarrow> rstr" where
  "item_tool_label env a = tool_label env (it_tool a)"

definition args_value :: "tui_env \<Rightarrow> ApprovalItem \<Rightarrow> json option" where
  "args_value env a = te_json_parse env (it_args_json a)"

definition set_target_context :: "ApprovalTargetContext \<Rightarrow> ApprovalItem \<Rightarrow> ApprovalItem" where
  "set_target_context c a = a\<lparr>it_target := Some c\<rparr>"

definition item_row_summary :: "ApprovalItem \<Rightarrow> rstr option" where
  "item_row_summary a =
     combine_target_and_summary
       (or_else (Option.bind (it_target a) target_row_summary)
          (if trim (it_args_summary a) = [] then None else Some (trim (it_args_summary a))))
       (it_summary a)"

definition requested_item :: "tui_env \<Rightarrow> json \<Rightarrow> instant \<Rightarrow> uuid \<Rightarrow> rstr \<Rightarrow> ApprovalItem" where
  "requested_item env data now i tool =
     (let args = unwrap_or (JObject []) (value_get data (lit ''args'')) in
      \<lparr>it_id = i, it_tool = tool, it_args_summary = compact_args_summary env args,
       it_args_json = approval_args_json env args,
       it_summary = Option.bind (Option.bind (value_get data (lit ''summary'')) as_str) optional_summary_label,
       it_target = target_from_args env args, it_created_at = now\<rparr>)"

definition from_requested_event :: "tui_env \<Rightarrow> json \<Rightarrow> instant \<Rightarrow> ApprovalItem option" where
  "from_requested_event env data now =
     (if (case Option.bind (value_get data (lit ''state'')) as_str of
            Some state \<Rightarrow> state \<noteq> approval_state_as_str Pending | None \<Rightarrow> False)
      then None
      else
        Option.bind (Option.bind (Option.bind
            (or_else (value_get data (lit ''approval_id'')) (value_get data (lit ''id''))) as_str) (te_parse_uuid env)) (\<lambda>i.
        map_option (requested_item env data now i) (Option.bind (value_get data (lit ''tool'')) as_str)))"

definition age_label_at :: "ApprovalItem \<Rightarrow> instant \<Rightarrow> rstr" where
  "age_label_at a now = age_label (it_created_at a) now"

definition approval_le :: "ApprovalItem \<Rightarrow> ApprovalItem \<Rightarrow> bool" where
  "approval_le l r \<longleftrightarrow>
     it_created_at r < it_created_at l \<or>
     (it_created_at r = it_created_at l \<and>
      (it_tool l < it_tool r \<or> (it_tool l = it_tool r \<and> it_id l \<le> it_id r)))"

definition sorted_approvals :: "ApprovalItem list \<Rightarrow> ApprovalItem list" where
  "sorted_approvals xs = sort_by approval_le xs"

subsection \<open>Detail texts\<close>

definition detail_text :: "MessageDetail \<Rightarrow> rstr" where
  "detail_text d =
     lit ''Subject: '' @ md_subject d @ [10] @ lit ''From: '' @ md_from d @ [10] @ lit ''Snippet: '' @ md_snippet d @
     [10, 10] @ md_body d"

definition stack_detail_text :: "MessageDetail \<Rightarrow> rstr" where
  "stack_detail_text d =
     lit ''Subject: '' @ md_subject d @ [10] @ lit ''Snippet: '' @ md_snippet d @ [10, 10] @ md_body d"

definition message_summary_detail_text :: "MessageItem \<Rightarrow> rstr" where
  "message_summary_detail_text m =
     lit ''Subject: '' @ mi_subject m @ [10] @ lit ''Snippet: '' @ mi_snippet m @ [10, 10] @ mi_snippet m"

definition middle_dot :: rstr where
  "middle_dot = [32, 183, 32]"

definition focus_prefix :: "bool \<Rightarrow> rstr" where
  "focus_prefix focused = (if focused then [9654, 32] else [])"

definition expanded_message_header :: "MessageItem \<Rightarrow> bool \<Rightarrow> rstr" where
  "expanded_message_header m focused = focus_prefix focused @ lit ''[-] '' @ mi_from m @ middle_dot @ mi_date m"

definition collapsed_message_header :: "MessageItem \<Rightarrow> bool \<Rightarrow> rstr" where
  "collapsed_message_header m focused =
     (let snippet = first_chars_one_line (mi_snippet m) 72 in
      if snippet = [] then focus_prefix focused @ lit ''[+] '' @ mi_from m @ middle_dot @ mi_date m
      else focus_prefix focused @ lit ''[+] '' @ mi_from m @ middle_dot @ mi_date m @ middle_dot @ snippet)"

definition stack_message_body_line_count :: "MessageDetail option \<Rightarrow> MessageItem \<Rightarrow> nat" where
  "stack_message_body_line_count d m =
     lc_line_count (lc_from_text
       (case d of Some x \<Rightarrow> stack_detail_text x | None \<Rightarrow> message_summary_detail_text m))"

subsection \<open>Facts about sorting and positions\<close>

lemma set_insert_by [simp]: "set (insert_by le x xs) = insert x (set xs)"
  by (induction xs) auto

lemma set_sort_by [simp]: "set (sort_by le xs) = set xs"
  by (induction xs) (auto simp: sort_by_def)

lemma mset_insert_by: "mset (insert_by le x xs) = add_mset x (mset xs)"
  by (induction xs) auto

lemma mset_sort_by [simp]: "mset (sort_by le xs) = mset xs"
  by (induction xs) (auto simp: sort_by_def mset_insert_by)

lemma length_sort_by [simp]: "length (sort_by le xs) = length xs"
  by (metis mset_sort_by size_mset)

lemma sort_by_Nil [simp]: "sort_by le [] = []" "sort_by le xs = [] \<longleftrightarrow> xs = []"
  by (simp add: sort_by_def) (metis length_0_conv length_sort_by)

lemma distinct_map_sort_by: "distinct (map f (sort_by le xs)) = distinct (map f xs)"
proof -
  have "mset (map f (sort_by le xs)) = mset (map f xs)" by simp
  then show ?thesis by (rule mset_eq_imp_distinct_iff)
qed

lemma sum_list_sort_by: "sum_list (map f (sort_by le xs)) = sum_list (map (f :: 'a \<Rightarrow> nat) xs)"
  by (metis mset_map mset_sort_by sum_mset_sum_list)

lemma sorted_insert_by:
  assumes "\<And>x y. le x y \<or> le y x" and "\<And>x y z. le x y \<Longrightarrow> le y z \<Longrightarrow> le x z"
    and "sorted_wrt le xs"
  shows "sorted_wrt le (insert_by le x xs)"
  using assms(3) by (induction xs) (auto intro: assms(2), use assms(1) in blast)

lemma sorted_sort_by:
  assumes "\<And>x y. le x y \<or> le y x" and "\<And>x y z. le x y \<Longrightarrow> le y z \<Longrightarrow> le x z"
  shows "sorted_wrt le (sort_by le xs)"
  by (induction xs) (use sorted_insert_by [OF assms] in \<open>auto simp: sort_by_def\<close>)

lemma index_where_Some: "index_where P xs = Some i \<Longrightarrow> i < length xs \<and> P (xs ! i)"
  by (induction xs arbitrary: i) (auto split: if_splits)

lemma index_where_None: "index_where P xs = None \<longleftrightarrow> (\<forall>x \<in> set xs. \<not> P x)"
  by (induction xs) auto

lemma length_update_first [simp]: "length (update_first P f xs) = length xs"
  by (induction xs) auto

lemma map_update_first: "(\<And>x. g (f x) = g x) \<Longrightarrow> map g (update_first P f xs) = map g xs"
  by (induction xs) auto

end
