(* ===== verification/Conversations.thy ===== *)
theory Conversations
  imports TuiItems
begin

text \<open>
  What the conversation list of a folder shows: \<^verbatim>\<open>build_threads\<close> partitions the messages of the folder by
  thread, and each row summarises exactly its messages.  Also: what setting a flag does to the other flags.
\<close>

definition members :: "MessageItem list \<Rightarrow> uuid \<Rightarrow> MessageItem list" where
  "members ms k = filter (\<lambda>m. message_thread_key m = k) ms"

text \<open>The row of a conversation against its messages.\<close>

definition summarises :: "MessageItem list \<Rightarrow> ThreadItem \<Rightarrow> bool" where
  "summarises ms t \<longleftrightarrow>
     (let own = members ms (ti_key t) in
      ti_message_count t = length own \<and>
      ti_unread t = list_ex (\<lambda>m. \<not> mi_has_flag m SEEN_FLAG) own \<and>
      ti_flagged t = list_ex (\<lambda>m. mi_has_flag m FLAGGED_FLAG) own \<and>
      list_ex (\<lambda>m. mi_date m = ti_latest_date t \<and> mi_from m = ti_latest_from t \<and>
                   text_or_default (Some (mi_subject m)) no_subject = ti_subject t) own \<and>
      list_all (\<lambda>m. mi_date m \<le> ti_latest_date t) own)"

lemma members_snoc: "members (ms @ [m]) k = members ms k @ (if message_thread_key m = k then [m] else [])"
  by (simp add: members_def)

lemma absorb_key [simp]: "ti_key (absorb_message m t) = ti_key t"
  by (simp add: absorb_message_def Let_def)

lemma summarises_other: "message_thread_key m \<noteq> ti_key t \<Longrightarrow> summarises (ms @ [m]) t = summarises ms t"
  by (simp add: summarises_def members_snoc)

lemma summarises_absorb:
  assumes "summarises ms t" and "message_thread_key m = ti_key t"
  shows "summarises (ms @ [m]) (absorb_message m t)"
proof (cases "ti_latest_date t < mi_date m")
  case True
  then show ?thesis
    using assms by (auto simp: summarises_def members_snoc absorb_message_def Let_def list_all_iff intro: order.trans less_imp_le)
next
  case False
  then show ?thesis
    using assms by (auto simp: summarises_def members_snoc absorb_message_def Let_def not_less)
qed

lemma members_none: "message_thread_key m \<notin> message_thread_key ` set ms \<Longrightarrow> members ms (message_thread_key m) = []"
  by (metis (mono_tags, lifting) filter_empty_conv image_eqI members_def)

lemma summarises_new:
  "message_thread_key m \<notin> message_thread_key ` set ms \<Longrightarrow> summarises (ms @ [m]) (thread_of_message m)"
  by (simp add: summarises_def thread_of_message_def members_snoc members_none)

lemma update_first_cases:
  assumes "x \<in> set (update_first P f xs)" and "distinct (map k xs)" and "\<And>y. P y \<longleftrightarrow> k y = c"
  shows "(x \<in> set xs \<and> \<not> P x) \<or> (\<exists>y \<in> set xs. P y \<and> x = f y)"
  using assms(1,2)
proof (induction xs)
  case (Cons y ys)
  have "x \<in> set ys \<Longrightarrow> k y \<noteq> k x" using Cons.prems(2) by (metis distinct.simps(2) image_eqI list.simps(9) set_map)
  then show ?case using Cons by (auto simp: assms(3) split: if_splits)
qed simp

lemma group_threads_snoc: "group_threads (ms @ [m]) = add_message m (group_threads ms)"
  by (simp add: group_threads_def)

lemma add_message_keys:
  "map ti_key (add_message m ts) =
     (if message_thread_key m \<in> ti_key ` set ts then map ti_key ts else map ti_key ts @ [message_thread_key m])"
proof -
  have "list_ex (\<lambda>t. ti_key t = message_thread_key m) ts \<longleftrightarrow> message_thread_key m \<in> ti_key ` set ts"
    unfolding list_ex_iff image_iff by metis
  then show ?thesis by (simp add: add_message_def map_update_first thread_of_message_def)
qed

lemma group_threads_keys:
  "distinct (map ti_key (group_threads ms)) \<and> ti_key ` set (group_threads ms) = message_thread_key ` set ms"
proof (induction ms rule: rev_induct)
  case Nil
  then show ?case by (simp add: group_threads_def)
next
  case (snoc m ms)
  let ?ts = "group_threads ms"
  have keys: "ti_key ` set (add_message m ?ts) = set (map ti_key (add_message m ?ts))" by simp
  show ?case
    unfolding group_threads_snoc keys add_message_keys using snoc by auto
qed

lemma group_threads_summarise: "t \<in> set (group_threads ms) \<Longrightarrow> summarises ms t"
proof (induction ms arbitrary: t rule: rev_induct)
  case Nil
  then show ?case by (simp add: group_threads_def)
next
  case (snoc m ms)
  let ?ts = "group_threads ms" and ?P = "\<lambda>t. ti_key t = message_thread_key m"
  have keys: "distinct (map ti_key ?ts)" "ti_key ` set ?ts = message_thread_key ` set ms"
    using group_threads_keys [of ms] by auto
  show ?case
  proof (cases "list_ex ?P ?ts")
    case True
    then have "t \<in> set (update_first ?P (absorb_message m) ?ts)"
      using snoc.prems by (simp add: group_threads_snoc add_message_def)
    then have "t \<in> set ?ts \<and> \<not> ?P t \<or> (\<exists>u \<in> set ?ts. ?P u \<and> t = absorb_message m u)"
      by (rule update_first_cases [OF _ keys(1)]) (rule refl)
    then show ?thesis
      using snoc.IH summarises_absorb [of ms _ m] summarises_other [of m t ms] by auto
  next
    case False
    then have new: "message_thread_key m \<notin> message_thread_key ` set ms"
      unfolding keys(2) [symmetric] image_iff list_ex_iff by metis
    have "t \<in> set ?ts \<or> t = thread_of_message m"
      using False snoc.prems by (auto simp: group_threads_snoc add_message_def)
    then show ?thesis
    proof
      assume t: "t \<in> set ?ts"
      then have "message_thread_key m \<noteq> ti_key t" using False by (auto simp: list_ex_iff)
      then show ?thesis using snoc.IH [OF t] by (simp add: summarises_other)
    qed (simp add: summarises_new [OF new])
  qed
qed

lemma thread_le_total: "thread_le x y \<or> thread_le y x"
  by (auto simp: thread_le_def)

lemma thread_le_trans: "thread_le x y \<Longrightarrow> thread_le y z \<Longrightarrow> thread_le x z"
  by (auto simp: thread_le_def)

lemma message_le_total: "message_le x y \<or> message_le y x"
  by (auto simp: message_le_def)

lemma message_le_trans: "message_le x y \<Longrightarrow> message_le y z \<Longrightarrow> message_le x z"
  by (auto simp: message_le_def)

lemma approval_le_total: "approval_le x y \<or> approval_le y x"
  by (auto simp: approval_le_def)

lemma approval_le_trans: "approval_le x y \<Longrightarrow> approval_le y z \<Longrightarrow> approval_le x z"
  by (auto simp: approval_le_def)

lemmas sorted_threads = sorted_sort_by [OF thread_le_total thread_le_trans]
lemmas sorted_messages = sorted_sort_by [OF message_le_total message_le_trans]
lemmas sorted_approval_items = sorted_sort_by [OF approval_le_total approval_le_trans]

lemma members_sum:
  assumes "distinct ks" "message_thread_key ` set ms \<subseteq> set ks"
  shows "sum_list (map (\<lambda>k. length (members ms k)) ks) = length ms"
  using assms(2)
proof (induction ms)
  case Nil
  then show ?case by (simp add: members_def)
next
  case (Cons m ms)
  have split: "length (members (m # ms) k) = (if message_thread_key m = k then 1 else 0) + length (members ms k)" for k
    by (simp add: members_def)
  have "sum_list (map (\<lambda>k. if message_thread_key m = k then 1 else 0) ks) = (1 :: nat)"
    using assms(1) Cons.prems by (simp add: sum_list_distinct_conv_sum_set sum.delta)
  then show ?case using Cons by (simp add: split sum_list_addf)
qed


subsection \<open>Flags\<close>

lemma set_flag_loop_spec:
  "set_flag_loop flag enabled flags out saw = (out', saw') \<Longrightarrow>
   saw' = (saw \<or> flag \<in> set flags) \<and>
   filter (\<lambda>f. f \<noteq> flag) out' = filter (\<lambda>f. f \<noteq> flag) out @ filter (\<lambda>f. f \<noteq> flag) flags \<and>
   count_list out' flag =
     (if enabled \<and> count_list out flag = 0 \<and> flag \<in> set flags then 1 else count_list out flag)"
proof (induction flags arbitrary: out saw)
  case (Cons f fs)
  show ?case
  proof (cases "f = flag")
    case True
    have "has_flag out flag \<longleftrightarrow> count_list out flag \<noteq> 0"
      by (auto simp: has_flag_def list_ex_iff count_list_0_iff)
    then show ?thesis using True Cons.prems Cons.IH by (fastforce split: if_splits)
  next
    case False
    then show ?thesis using Cons.prems Cons.IH [of "out @ [f]" saw] by auto
  qed
qed auto

text \<open>
  Setting a flag gives a list with that flag exactly once, clearing it a list without it, and the
  other flags of the message keep their order and multiplicity.
\<close>

theorem flag_update_exact:
  "count_list (set_flag_preserving flags flag enabled) flag = (if enabled then 1 else 0) \<and>
   filter (\<lambda>f. f \<noteq> flag) (set_flag_preserving flags flag enabled) = filter (\<lambda>f. f \<noteq> flag) flags"
proof -
  obtain out saw where l: "set_flag_loop flag enabled flags [] False = (out, saw)" by fastforce
  show ?thesis
    using set_flag_loop_spec [OF l] by (auto simp: set_flag_preserving_def l split: if_splits)
qed

end
