(* ===== verification/FolderCache.thy ===== *)
theory FolderCache
  imports TuiItems
begin

text \<open>
  \<^verbatim>\<open>src/tui/app.rs\<close>: the cache of folder listings, a queue of at most six entries in the order of their
  last use, each good for sixty seconds.  \<^verbatim>\<open>Instant\<close>s are natural numbers of milliseconds; the
  generation counter exists in test builds only and is left out.
\<close>

definition FOLDER_CACHE_CAPACITY :: nat where
  "FOLDER_CACHE_CAPACITY = 6"

definition FOLDER_CACHE_TTL :: nat where
  "FOLDER_CACHE_TTL = 60 * 1000"

record MessageListSnapshot =
  mls_folder_messages :: "MessageItem list"
  mls_selected_thread :: nat
  mls_selected_message :: nat

record FolderSnapshot =
  sn_folder_messages :: "MessageItem list"
  sn_selected_thread_key :: "uuid option"
  sn_selected_message_id :: "uuid option"

record FolderCacheEntry =
  fce_account_id :: uuid
  fce_folder_id :: uuid
  fce_snapshot :: FolderSnapshot
  fce_stored_at :: nat

record FolderMessageCache =
  fmc_capacity :: nat
  fmc_ttl :: nat
  fmc_entries :: "FolderCacheEntry list"

definition default_folder_cache :: FolderMessageCache where
  "default_folder_cache = \<lparr>fmc_capacity = FOLDER_CACHE_CAPACITY, fmc_ttl = FOLDER_CACHE_TTL, fmc_entries = []\<rparr>"

definition entry_for :: "uuid \<Rightarrow> uuid \<Rightarrow> FolderCacheEntry \<Rightarrow> bool" where
  "entry_for account_id folder_id e \<longleftrightarrow> fce_account_id e = account_id \<and> fce_folder_id e = folder_id"

definition entry_index :: "FolderMessageCache \<Rightarrow> uuid \<Rightarrow> uuid \<Rightarrow> nat option" where
  "entry_index c account_id folder_id = index_where (entry_for account_id folder_id) (fmc_entries c)"

definition remove_nth :: "nat \<Rightarrow> 'a list \<Rightarrow> 'a list" where
  "remove_nth i xs = take i xs @ drop (Suc i) xs"

definition cache_lookup :: "uuid \<Rightarrow> uuid \<Rightarrow> nat \<Rightarrow> FolderMessageCache \<Rightarrow> FolderSnapshot option \<times> FolderMessageCache" where
  "cache_lookup account_id folder_id now c =
     (case entry_index c account_id folder_id of
        None \<Rightarrow> (None, c)
      | Some index \<Rightarrow>
          (let entry = fmc_entries c ! index; rest = remove_nth index (fmc_entries c) in
           if now - fce_stored_at entry > fmc_ttl c then (None, c\<lparr>fmc_entries := rest\<rparr>)
           else (Some (fce_snapshot entry), c\<lparr>fmc_entries := rest @ [entry]\<rparr>)))"

text \<open>\<^verbatim>\<open>while entries.len() >= capacity { entries.pop_front(); }\<close>\<close>

fun evict :: "nat \<Rightarrow> 'a list \<Rightarrow> 'a list" where
  "evict capacity [] = []"
| "evict capacity (e # es) = (if capacity \<le> length (e # es) then evict capacity es else e # es)"

definition cache_store :: "uuid \<Rightarrow> uuid \<Rightarrow> FolderSnapshot \<Rightarrow> nat \<Rightarrow> FolderMessageCache \<Rightarrow> FolderMessageCache" where
  "cache_store account_id folder_id snapshot now c =
     (let entries = (case entry_index c account_id folder_id of
                       Some index \<Rightarrow> remove_nth index (fmc_entries c) | None \<Rightarrow> fmc_entries c) in
      if fmc_capacity c = 0 then c\<lparr>fmc_entries := entries\<rparr>
      else c\<lparr>fmc_entries := evict (fmc_capacity c) entries @
               [\<lparr>fce_account_id = account_id, fce_folder_id = folder_id, fce_snapshot = snapshot, fce_stored_at = now\<rparr>]\<rparr>)"

definition invalidate_folder :: "uuid \<Rightarrow> uuid \<Rightarrow> FolderMessageCache \<Rightarrow> FolderMessageCache" where
  "invalidate_folder account_id folder_id c =
     c\<lparr>fmc_entries := filter (\<lambda>e. fce_account_id e \<noteq> account_id \<or> fce_folder_id e \<noteq> folder_id) (fmc_entries c)\<rparr>"

definition invalidate_account :: "uuid \<Rightarrow> FolderMessageCache \<Rightarrow> FolderMessageCache" where
  "invalidate_account account_id c = c\<lparr>fmc_entries := filter (\<lambda>e. fce_account_id e \<noteq> account_id) (fmc_entries c)\<rparr>"

definition retain_accounts :: "uuid list \<Rightarrow> FolderMessageCache \<Rightarrow> FolderMessageCache" where
  "retain_accounts account_ids c = c\<lparr>fmc_entries := filter (\<lambda>e. fce_account_id e \<in> set account_ids) (fmc_entries c)\<rparr>"

subsection \<open>Histories of the cache\<close>

datatype cache_op =
    OpLookup uuid uuid nat
  | OpStore uuid uuid FolderSnapshot nat
  | OpInvalidateFolder uuid uuid
  | OpInvalidateAccount uuid
  | OpRetainAccounts "uuid list"

fun cache_apply :: "cache_op \<Rightarrow> FolderMessageCache \<Rightarrow> FolderMessageCache" where
  "cache_apply (OpLookup a f now) c = snd (cache_lookup a f now c)"
| "cache_apply (OpStore a f s now) c = cache_store a f s now c"
| "cache_apply (OpInvalidateFolder a f) c = invalidate_folder a f c"
| "cache_apply (OpInvalidateAccount a) c = invalidate_account a c"
| "cache_apply (OpRetainAccounts ids) c = retain_accounts ids c"

definition cache_run :: "cache_op list \<Rightarrow> FolderMessageCache" where
  "cache_run ops = fold cache_apply ops default_folder_cache"

text \<open>
  The reference: what was last stored for a folder and not invalidated since.  It knows nothing of
  capacities, recency and time to live.
\<close>

fun last_stored :: "cache_op \<Rightarrow> (uuid \<times> uuid \<Rightarrow> (FolderSnapshot \<times> nat) option) \<Rightarrow> (uuid \<times> uuid \<Rightarrow> (FolderSnapshot \<times> nat) option)" where
  "last_stored (OpLookup a f now) m = m"
| "last_stored (OpStore a f s now) m = m((a, f) \<mapsto> (s, now))"
| "last_stored (OpInvalidateFolder a f) m = m((a, f) := None)"
| "last_stored (OpInvalidateAccount a) m = (\<lambda>k. if fst k = a then None else m k)"
| "last_stored (OpRetainAccounts ids) m = (\<lambda>k. if fst k \<in> set ids then m k else None)"

definition stored_map :: "cache_op list \<Rightarrow> uuid \<times> uuid \<Rightarrow> (FolderSnapshot \<times> nat) option" where
  "stored_map ops = fold last_stored ops (\<lambda>_. None)"

definition entry_key :: "FolderCacheEntry \<Rightarrow> uuid \<times> uuid" where
  "entry_key e = (fce_account_id e, fce_folder_id e)"

text \<open>Well-formedness: one entry per folder and no more than the capacity.\<close>

definition cache_wf :: "FolderMessageCache \<Rightarrow> bool" where
  "cache_wf c \<longleftrightarrow> distinct (map entry_key (fmc_entries c)) \<and> length (fmc_entries c) \<le> fmc_capacity c"

definition cache_agrees :: "FolderMessageCache \<Rightarrow> (uuid \<times> uuid \<Rightarrow> (FolderSnapshot \<times> nat) option) \<Rightarrow> bool" where
  "cache_agrees c m \<longleftrightarrow> list_all (\<lambda>e. m (entry_key e) = Some (fce_snapshot e, fce_stored_at e)) (fmc_entries c)"

lemma entry_for_key: "entry_for a f e \<longleftrightarrow> entry_key e = (a, f)"
  by (simp add: entry_for_def entry_key_def)

lemma evict_suffix: "suffix (evict n xs) xs"
  by (induction n xs rule: evict.induct) (auto simp: suffix_ConsI)

lemma evict_length: "0 < n \<Longrightarrow> length (evict n xs) < n"
  by (induction n xs rule: evict.induct) auto

lemma evict_id: "length xs < n \<Longrightarrow> evict n xs = xs"
  by (cases xs) auto

lemma set_remove_nth: "set (remove_nth i xs) \<subseteq> set xs"
  using set_take_subset [of i xs] set_drop_subset [of "Suc i" xs] by (auto simp: remove_nth_def)

lemma remove_nth_split: "i < length xs \<Longrightarrow> mset xs = add_mset (xs ! i) (mset (remove_nth i xs))"
  by (metis remove_nth_def id_take_nth_drop mset.simps(2) mset_append union_mset_add_mset_right)

lemma distinct_remove_nth:
  assumes "i < length xs" "distinct (map f xs)"
  shows "distinct (map f (remove_nth i xs))" "f (xs ! i) \<notin> f ` set (remove_nth i xs)"
proof -
  have "mset (map f xs) = mset (f (xs ! i) # map f (remove_nth i xs))"
    using remove_nth_split [OF assms(1)] by simp
  then have "distinct (f (xs ! i) # map f (remove_nth i xs))"
    using assms(2) mset_eq_imp_distinct_iff by blast
  then show "distinct (map f (remove_nth i xs))" "f (xs ! i) \<notin> f ` set (remove_nth i xs)" by auto
qed

lemma length_remove_nth: "i < length xs \<Longrightarrow> length (remove_nth i xs) = length xs - 1"
  by (simp add: remove_nth_def)

text \<open>The entries that remain when the entry of a folder is taken out.\<close>

definition others :: "uuid \<times> uuid \<Rightarrow> FolderCacheEntry list \<Rightarrow> FolderCacheEntry list" where
  "others k es = filter (\<lambda>e. entry_key e \<noteq> k) es"

lemma others_middle:
  assumes "distinct (map entry_key (xs @ e # ys))"
  shows "others (entry_key e) (xs @ e # ys) = xs @ ys"
proof -
  have "entry_key e \<notin> entry_key ` set xs" "entry_key e \<notin> entry_key ` set ys" using assms by auto
  then have "\<forall>d \<in> set xs. entry_key d \<noteq> entry_key e" "\<forall>d \<in> set ys. entry_key d \<noteq> entry_key e"
    by (metis image_eqI)+
  then show ?thesis by (simp add: others_def filter_id_conv)
qed

lemma filter_key_unique:
  assumes "distinct (map entry_key es)" "i < length es"
  shows "remove_nth i es = others (entry_key (es ! i)) es"
  unfolding remove_nth_def
  using others_middle [of "take i es" "es ! i" "drop (Suc i) es"] assms(1) id_take_nth_drop [OF assms(2)] by metis

lemma entry_index_Some:
  "entry_index c a f = Some i \<Longrightarrow> i < length (fmc_entries c) \<and> entry_key (fmc_entries c ! i) = (a, f)"
  using index_where_Some [of "entry_for a f"] by (simp add: entry_index_def entry_for_key)

lemma entry_index_None: "entry_index c a f = None \<Longrightarrow> (a, f) \<notin> entry_key ` set (fmc_entries c)"
  by (auto simp: entry_index_def index_where_None entry_for_key)

text \<open>Lookup and store without indices.\<close>

lemma cache_store_eq:
  assumes "cache_wf c"
  shows "cache_store a f s now c =
     (let es = others (a, f) (fmc_entries c) in
      c\<lparr>fmc_entries := (if fmc_capacity c = 0 then es
          else evict (fmc_capacity c) es @
            [\<lparr>fce_account_id = a, fce_folder_id = f, fce_snapshot = s, fce_stored_at = now\<rparr>])\<rparr>)"
proof (cases "entry_index c a f")
  case None
  then have "others (a, f) (fmc_entries c) = fmc_entries c"
    using entry_index_None [OF None] unfolding others_def filter_id_conv by (metis image_eqI)
  then show ?thesis using None by (simp add: cache_store_def Let_def)
next
  case (Some i)
  then show ?thesis
    using entry_index_Some [OF Some] assms filter_key_unique [of "fmc_entries c" i]
    by (simp add: cache_store_def cache_wf_def Let_def)
qed

lemma cache_lookup_Some:
  assumes "cache_wf c" and "cache_lookup a f now c = (Some s, c')"
  obtains e where "e \<in> set (fmc_entries c)" "entry_key e = (a, f)" "fce_snapshot e = s"
    "now - fce_stored_at e \<le> fmc_ttl c" "c' = c\<lparr>fmc_entries := others (a, f) (fmc_entries c) @ [e]\<rparr>"
proof -
  obtain i where i: "entry_index c a f = Some i"
    using assms(2) by (cases "entry_index c a f") (auto simp: cache_lookup_def)
  let ?e = "fmc_entries c ! i"
  have "?e \<in> set (fmc_entries c)" "entry_key ?e = (a, f)"
    using entry_index_Some [OF i] by auto
  then show ?thesis
    using that [of ?e] assms entry_index_Some [OF i] filter_key_unique [of "fmc_entries c" i] i
    by (auto simp: cache_lookup_def cache_wf_def Let_def split: if_splits)
qed

lemma cache_lookup_None:
  assumes "cache_wf c" and "cache_lookup a f now c = (None, c')"
  shows "c' = c \<or> c' = c\<lparr>fmc_entries := others (a, f) (fmc_entries c)\<rparr>"
  using assms entry_index_Some [of c a f] filter_key_unique [of "fmc_entries c"]
  by (auto simp: cache_lookup_def cache_wf_def Let_def split: if_splits option.splits)

lemma distinct_others: "distinct (map entry_key es) \<Longrightarrow> distinct (map entry_key (others k es))"
  by (simp add: others_def distinct_map_filter)

lemma others_less:
  assumes "e \<in> set es" "entry_key e = k"
  shows "length (others k es) < length es"
  using assms unfolding others_def by (intro length_filter_less [of e]) auto

lemma key_not_in_others: "k \<notin> entry_key ` set (others k es)"
  by (auto simp: others_def)

lemma length_others: "length (others k es) \<le> length es"
  by (simp add: others_def)

lemma suffix_distinct_map: "suffix xs ys \<Longrightarrow> distinct (map f ys) \<Longrightarrow> distinct (map f xs)"
  by (auto simp: suffix_def)

subsection \<open>The invariant\<close>

lemma default_cache_wf: "cache_wf default_folder_cache"
  by (simp add: cache_wf_def default_folder_cache_def)

lemma cache_store_wf:
  assumes "cache_wf c"
  shows "cache_wf (cache_store a f s now c)"
proof (cases "fmc_capacity c = 0")
  case True
  then show ?thesis
    using assms length_others [of "(a, f)" "fmc_entries c"]
    by (simp add: cache_store_eq cache_wf_def distinct_others)
next
  case False
  let ?es = "others (a, f) (fmc_entries c)" and ?n = "fmc_capacity c"
  have d: "distinct (map entry_key (evict ?n ?es))"
    using assms by (intro suffix_distinct_map [OF evict_suffix] distinct_others) (simp add: cache_wf_def)
  have "(a, f) \<notin> entry_key ` set (evict ?n ?es)"
    using set_mono_suffix [OF evict_suffix [of ?n ?es]] by (auto simp: others_def)
  then show ?thesis
    using False d assms evict_length [of ?n ?es]
    by (simp add: cache_store_eq cache_wf_def entry_key_def Suc_le_eq)
qed

lemma cache_lookup_wf:
  assumes "cache_wf c"
  shows "cache_wf (snd (cache_lookup a f now c))"
proof (cases "cache_lookup a f now c")
  case (Pair r c')
  show ?thesis
  proof (cases r)
    case None
    then show ?thesis
      using assms cache_lookup_None [OF assms, of a f now c'] Pair length_others [of "(a, f)" "fmc_entries c"]
      by (auto simp: cache_wf_def distinct_others)
  next
    case (Some s)
    obtain e where "e \<in> set (fmc_entries c)" "entry_key e = (a, f)"
      "c' = c\<lparr>fmc_entries := others (a, f) (fmc_entries c) @ [e]\<rparr>"
      using cache_lookup_Some [OF assms] Pair Some by blast
    then show ?thesis
      using assms Pair others_less [of e "fmc_entries c" "(a, f)"] key_not_in_others [of "(a, f)" "fmc_entries c"]
      by (simp add: cache_wf_def distinct_others)
  qed
qed

lemma cache_apply_wf: "cache_wf c \<Longrightarrow> cache_wf (cache_apply x c)"
proof (cases x)
  case (OpLookup a f now)
  then show "cache_wf c \<Longrightarrow> cache_wf (cache_apply x c)" by (simp add: cache_lookup_wf)
next
  case (OpStore a f s now)
  then show "cache_wf c \<Longrightarrow> cache_wf (cache_apply x c)" by (simp add: cache_store_wf)
qed (auto simp: cache_wf_def invalidate_folder_def invalidate_account_def retain_accounts_def
       distinct_map_filter intro: le_trans [OF length_filter_le])

lemma cache_lookup_frame [simp]:
  "fmc_capacity (snd (cache_lookup a f now c)) = fmc_capacity c" "fmc_ttl (snd (cache_lookup a f now c)) = fmc_ttl c"
  by (auto simp: cache_lookup_def Let_def split: option.splits)

lemma cache_store_frame [simp]:
  "fmc_capacity (cache_store a f s now c) = fmc_capacity c" "fmc_ttl (cache_store a f s now c) = fmc_ttl c"
  by (auto simp: cache_store_def Let_def)

lemma cache_apply_frame [simp]:
  "fmc_capacity (cache_apply x c) = fmc_capacity c" "fmc_ttl (cache_apply x c) = fmc_ttl c"
  by (cases x; simp add: invalidate_folder_def invalidate_account_def retain_accounts_def)+

lemma cache_apply_agrees:
  assumes "cache_wf c" "cache_agrees c m"
  shows "cache_agrees (cache_apply x c) (last_stored x m)"
proof (cases x)
  case (OpLookup a f now)
  obtain r c' where r: "cache_lookup a f now c = (r, c')" by fastforce
  have "set (fmc_entries c') \<subseteq> set (fmc_entries c)"
  proof (cases r)
    case None
    then have "c' = c \<or> c' = c\<lparr>fmc_entries := others (a, f) (fmc_entries c)\<rparr>"
      using cache_lookup_None [OF assms(1)] r by simp
    then show ?thesis by (auto simp: others_def)
  next
    case (Some s)
    then have "cache_lookup a f now c = (Some s, c')" using r by simp
    from cache_lookup_Some [OF assms(1) this] obtain e where
      "e \<in> set (fmc_entries c)" "c' = c\<lparr>fmc_entries := others (a, f) (fmc_entries c) @ [e]\<rparr>" by metis
    then show ?thesis by (auto simp: others_def)
  qed
  then show ?thesis using OpLookup assms(2) r by (auto simp: cache_agrees_def list_all_iff)
next
  case (OpStore a f s now)
  have "set (evict n (others (a, f) (fmc_entries c))) \<subseteq> {e \<in> set (fmc_entries c). entry_key e \<noteq> (a, f)}" for n
    using set_mono_suffix [OF evict_suffix [of n "others (a, f) (fmc_entries c)"]] by (auto simp: others_def)
  then show ?thesis
    using OpStore assms by (auto simp: cache_store_eq Let_def cache_agrees_def list_all_iff entry_key_def others_def)
qed (use assms in \<open>auto simp: cache_agrees_def list_all_iff invalidate_folder_def invalidate_account_def
       retain_accounts_def entry_key_def\<close>)

lemma cache_run_snoc: "cache_run (ops @ [x]) = cache_apply x (cache_run ops)"
  by (simp add: cache_run_def)

lemma stored_map_snoc: "stored_map (ops @ [x]) = last_stored x (stored_map ops)"
  by (simp add: stored_map_def)

lemma cache_run_ok:
  "cache_wf (cache_run ops) \<and> cache_agrees (cache_run ops) (stored_map ops) \<and>
   fmc_capacity (cache_run ops) = FOLDER_CACHE_CAPACITY \<and> fmc_ttl (cache_run ops) = FOLDER_CACHE_TTL"
proof (induction ops rule: rev_induct)
  case Nil
  then show ?case
    by (simp add: cache_run_def stored_map_def cache_agrees_def default_cache_wf) (simp add: default_folder_cache_def)
next
  case (snoc x ops)
  then show ?case by (simp add: cache_run_snoc stored_map_snoc cache_apply_wf cache_apply_agrees)
qed

text \<open>
  C36: whatever the history of the cache, it holds at most six listings, one per folder, and a hit is
  exactly what was last stored for that account and folder, not invalidated since, and at most sixty
  seconds old.
\<close>

theorem cache_hit_is_fresh:
  assumes "fst (cache_lookup a f now (cache_run ops)) = Some s"
  shows "\<exists>stored. stored_map ops (a, f) = Some (s, stored) \<and> now - stored \<le> 60000 \<and>
         length (fmc_entries (cache_run ops)) \<le> 6 \<and> distinct (map entry_key (fmc_entries (cache_run ops)))"
proof -
  let ?c = "cache_run ops"
  have ok: "cache_wf ?c" "cache_agrees ?c (stored_map ops)" "fmc_capacity ?c = 6" "fmc_ttl ?c = 60000"
    using cache_run_ok [of ops] by (auto simp: FOLDER_CACHE_CAPACITY_def FOLDER_CACHE_TTL_def)
  obtain c' where "cache_lookup a f now ?c = (Some s, c')" using assms by (metis prod.collapse)
  from cache_lookup_Some [OF ok(1) this] obtain e where
    e: "e \<in> set (fmc_entries ?c)" "entry_key e = (a, f)" "fce_snapshot e = s" "now - fce_stored_at e \<le> fmc_ttl ?c"
    by metis
  then have "stored_map ops (a, f) = Some (s, fce_stored_at e)"
    using ok(2) by (auto simp: cache_agrees_def list_all_iff)
  then show ?thesis using ok e by (auto simp: cache_wf_def)
qed

definition sample_snapshot :: FolderSnapshot where
  "sample_snapshot = \<lparr>sn_folder_messages = [], sn_selected_thread_key = None, sn_selected_message_id = None\<rparr>"

theorem cache_hit_is_fresh_witness:
  "fst (cache_lookup 1 2 10 (cache_run [OpStore 1 2 sample_snapshot 0])) = Some sample_snapshot \<and>
   (\<exists>stored. stored_map [OpStore 1 2 sample_snapshot 0] (1, 2) = Some (sample_snapshot, stored) \<and> 10 - stored \<le> (60000 :: nat))"
proof -
  have hit: "fst (cache_lookup 1 2 10 (cache_run [OpStore 1 2 sample_snapshot 0])) = Some sample_snapshot"
    by (simp add: cache_run_def cache_store_def default_folder_cache_def FOLDER_CACHE_CAPACITY_def FOLDER_CACHE_TTL_def
        entry_index_def cache_lookup_def entry_for_def Let_def)
  then show ?thesis using cache_hit_is_fresh [OF hit] by blast
qed

text \<open>What was just stored is found again until it is too old.\<close>

lemma just_stored_hits:
  assumes "cache_wf c" "0 < fmc_capacity c" "now' - now \<le> fmc_ttl c"
  shows "fst (cache_lookup a f now' (cache_store a f s now c)) = Some s"
proof -
  let ?e = "\<lparr>fce_account_id = a, fce_folder_id = f, fce_snapshot = s, fce_stored_at = now\<rparr>"
  let ?c = "cache_store a f s now c"
  have entries: "fmc_entries ?c = evict (fmc_capacity c) (others (a, f) (fmc_entries c)) @ [?e]"
    using assms(1,2) by (simp add: cache_store_eq)
  have wf: "cache_wf ?c" using cache_store_wf [OF assms(1)] .
  have "entry_index ?c a f \<noteq> None"
    using entry_index_None [of ?c a f] entries by (auto simp: entry_key_def)
  then obtain i where i: "entry_index ?c a f = Some i" by blast
  have "entry_key (fmc_entries ?c ! i) = entry_key (fmc_entries ?c ! (length (fmc_entries ?c) - 1))"
    using entry_index_Some [OF i] entries by (simp add: entry_key_def)
  then have "i = length (fmc_entries ?c) - 1"
    using wf entry_index_Some [OF i] unfolding cache_wf_def
    by (metis diff_less length_map less_nat_zero_code neq0_conv nth_eq_iff_index_eq nth_map zero_less_one)
  then have "fmc_entries ?c ! i = ?e" using entries by simp
  then show ?thesis using i assms(3) by (simp add: cache_lookup_def)
qed

end
