(* ===== verification/TuiApp.thy ===== *)
theory TuiApp
  imports Theme Composer Conversations FolderCache
begin

text \<open>
  \<^verbatim>\<open>src/tui/app.rs\<close>: the state of the terminal interface and its transitions.  The record has the
  fields of \<^verbatim>\<open>AppState\<close>; each operation is a function on it, with the value the code returns where it
  returns one.  \<^verbatim>\<open>Instant::now()\<close> is the argument \<open>now\<close> (milliseconds) of the operations that call it.
  Hash maps are partial functions and hash sets are sets.  Index sums that the code saturates are
  natural number sums: every one of them is followed by a minimum below the saturation point.
\<close>

definition MAX_COMMAND_CHARS :: nat where
  "MAX_COMMAND_CHARS = 128"

definition MAX_SEARCH_CHARS :: nat where
  "MAX_SEARCH_CHARS = 256"

definition MAX_TOASTS :: nat where
  "MAX_TOASTS = 3"

definition MAX_LIVE_APPROVALS :: nat where
  "MAX_LIVE_APPROVALS = 100"

definition TOAST_TTL_INFO :: nat where
  "TOAST_TTL_INFO = 3000"

definition TOAST_TTL_ERROR :: nat where
  "TOAST_TTL_ERROR = 6000"

definition COALESCE_ACCOUNT_SYNCED :: nat where
  "COALESCE_ACCOUNT_SYNCED = 5000"

definition COALESCE_SYNC_ERROR :: nat where
  "COALESCE_SYNC_ERROR = 10000"

definition COALESCE_PANE_REFUSAL :: nat where
  "COALESCE_PANE_REFUSAL = 3000"

subsection \<open>Data\<close>

datatype ActivePane = PaneAccounts | PaneFolders | PaneConversations | PaneDetails | PaneAttachments | PaneSearch

fun pane_next :: "ActivePane \<Rightarrow> ActivePane" where
  "pane_next PaneAccounts = PaneFolders"
| "pane_next PaneFolders = PaneConversations"
| "pane_next PaneConversations = PaneDetails"
| "pane_next PaneDetails = PaneAttachments"
| "pane_next PaneAttachments = PaneSearch"
| "pane_next PaneSearch = PaneAccounts"

fun pane_previous :: "ActivePane \<Rightarrow> ActivePane" where
  "pane_previous PaneAccounts = PaneSearch"
| "pane_previous PaneFolders = PaneAccounts"
| "pane_previous PaneConversations = PaneFolders"
| "pane_previous PaneDetails = PaneConversations"
| "pane_previous PaneAttachments = PaneDetails"
| "pane_previous PaneSearch = PaneAttachments"

datatype InputMode =
    ModeNormal | ModeCommand | ModeCompose | ModeComposeAttachPath | ModeConfirmDiscard | ModeConfirmDelete | ModeQuickSearch

record ConversationDetailState =
  cds_focused_message_id :: "uuid option"
  cds_expanded_message_ids :: "uuid set"
  cds_details_by_id :: "uuid \<Rightarrow> MessageDetail option"

definition default_conversation :: ConversationDetailState where
  "default_conversation =
     \<lparr>cds_focused_message_id = None, cds_expanded_message_ids = {}, cds_details_by_id = (\<lambda>_. None)\<rparr>"

definition cds_reset :: "MessageItem list \<Rightarrow> nat \<Rightarrow> ConversationDetailState" where
  "cds_reset ms selected =
     (let focused = map_option mi_id (list_get ms (min selected (length ms - 1))) in
      \<lparr>cds_focused_message_id = focused, cds_expanded_message_ids = set_option focused, cds_details_by_id = (\<lambda>_. None)\<rparr>)"

definition cds_is_expanded :: "ConversationDetailState \<Rightarrow> uuid \<Rightarrow> nat \<Rightarrow> bool" where
  "cds_is_expanded c message_id message_count \<longleftrightarrow> message_count = 1 \<or> message_id \<in> cds_expanded_message_ids c"

definition cds_toggle_focused :: "nat \<Rightarrow> ConversationDetailState \<Rightarrow> bool option \<times> ConversationDetailState" where
  "cds_toggle_focused message_count c =
     (if message_count = 0 then (None, c)
      else if message_count = 1 then (Some True, c)
      else
        (case cds_focused_message_id c of
           None \<Rightarrow> (None, c)
         | Some i \<Rightarrow>
             if i \<in> cds_expanded_message_ids c
             then (Some False, c\<lparr>cds_expanded_message_ids := cds_expanded_message_ids c - {i}\<rparr>)
             else (Some True, c\<lparr>cds_expanded_message_ids := insert i (cds_expanded_message_ids c)\<rparr>)))"

definition cds_expand_all :: "MessageItem list \<Rightarrow> ConversationDetailState \<Rightarrow> ConversationDetailState" where
  "cds_expand_all ms c = c\<lparr>cds_expanded_message_ids := cds_expanded_message_ids c \<union> mi_id ` set ms\<rparr>"

definition cds_cache_detail :: "MessageDetail \<Rightarrow> ConversationDetailState \<Rightarrow> ConversationDetailState" where
  "cds_cache_detail d c = c\<lparr>cds_details_by_id := (cds_details_by_id c)(md_id d \<mapsto> d)\<rparr>"

definition cds_has_detail :: "ConversationDetailState \<Rightarrow> uuid \<Rightarrow> bool" where
  "cds_has_detail c i \<longleftrightarrow> cds_details_by_id c i \<noteq> None"

record SearchState =
  ss_query :: rstr
  ss_scope_account :: "uuid option"
  ss_hits :: "SearchHit list"
  ss_selected :: nat
  ss_pending :: bool
  ss_previous_pane :: ActivePane

definition search_new :: "rstr \<Rightarrow> uuid option \<Rightarrow> ActivePane \<Rightarrow> SearchState" where
  "search_new q scope_account previous_pane =
     \<lparr>ss_query = q, ss_scope_account = scope_account, ss_hits = [], ss_selected = 0, ss_pending = True,
      ss_previous_pane = previous_pane\<rparr>"

record ApprovalsState =
  aps_items :: "ApprovalItem list"
  aps_selected :: nat
  aps_pending :: bool

datatype ToastKind = ToastInfo | ToastSuccess | ToastWarn | ToastError

definition toast_ttl :: "ToastKind \<Rightarrow> nat" where
  "toast_ttl kind = (if kind = ToastError then TOAST_TTL_ERROR else TOAST_TTL_INFO)"

record Toast =
  toast_id :: nat
  toast_kind :: ToastKind
  toast_text :: rstr
  toast_expires_at :: nat

datatype SyncStateUi = UiIdle | UiPolling | UiSyncing | UiError

record AccountStatus =
  as_state :: SyncStateUi
  as_last_error :: "rstr option"

record AppState =
  a_active :: ActivePane
  a_mode :: InputMode
  a_accounts :: "AccountItem list"
  a_folders :: "FolderItem list"
  a_folder_messages :: "MessageItem list"
  a_folder_cache :: FolderMessageCache
  a_threads :: "ThreadItem list"
  a_messages :: "MessageItem list"
  a_detail :: "MessageDetail option"
  a_conversation_detail :: ConversationDetailState
  a_detail_text_cache :: "TextLineCache option"
  a_detail_cursor :: nat
  a_detail_scroll :: nat
  a_detail_selection_anchor :: "nat option"
  a_detail_selection_focus :: nat
  a_detail_preferred_column :: "nat option"
  a_attachments :: "AttachmentItem list"
  a_attachment_preview :: "AttachmentPreviewItem option"
  a_preview_focused :: bool
  a_preview_scroll :: nat
  a_preview_selection :: "(nat \<times> nat) option"
  a_selected_account :: nat
  a_selected_folder :: nat
  a_selected_thread :: nat
  a_selected_message :: nat
  a_selected_attachment :: nat
  a_pending_open_attachment :: "AttachmentItem option"
  a_pending_delete_message :: "uuid option"
  a_command_input :: rstr
  a_status :: rstr
  a_error :: "rstr option"
  a_theme :: ThemeName
  a_composer :: "ComposerState option"
  a_toasts :: "Toast list"
  a_next_toast_id :: nat
  a_account_states :: "uuid \<Rightarrow> AccountStatus option"
  a_search :: "SearchState option"
  a_approvals :: ApprovalsState
  a_search_input :: rstr
  a_search_input_previous_pane :: ActivePane
  a_drafts :: "DraftItem list"
  a_selected_draft :: nat
  a_pending_delete_draft :: "uuid option"
  a_help_open :: bool
  a_help_scroll :: nat

definition default_app :: AppState where
  "default_app =
     \<lparr>a_active = PaneAccounts, a_mode = ModeNormal, a_accounts = [], a_folders = [], a_folder_messages = [],
      a_folder_cache = default_folder_cache, a_threads = [], a_messages = [], a_detail = None,
      a_conversation_detail = default_conversation, a_detail_text_cache = None, a_detail_cursor = 0,
      a_detail_scroll = 0, a_detail_selection_anchor = None, a_detail_selection_focus = 0,
      a_detail_preferred_column = None, a_attachments = [], a_attachment_preview = None,
      a_preview_focused = False, a_preview_scroll = 0, a_preview_selection = None, a_selected_account = 0,
      a_selected_folder = 0, a_selected_thread = 0, a_selected_message = 0, a_selected_attachment = 0,
      a_pending_open_attachment = None, a_pending_delete_message = None, a_command_input = [],
      a_status = lit ''Connecting'', a_error = None, a_theme = default_theme, a_composer = None, a_toasts = [],
      a_next_toast_id = 0, a_account_states = (\<lambda>_. None), a_search = None,
      a_approvals = \<lparr>aps_items = [], aps_selected = 0, aps_pending = False\<rparr>, a_search_input = [],
      a_search_input_previous_pane = PaneAccounts, a_drafts = [], a_selected_draft = 0,
      a_pending_delete_draft = None, a_help_open = False, a_help_scroll = 0\<rparr>"

subsection \<open>What is selected and what is visible\<close>

definition selected_account_id :: "AppState \<Rightarrow> uuid option" where
  "selected_account_id st = map_option ai_id (list_get (a_accounts st) (a_selected_account st))"

definition selected_folder_id :: "AppState \<Rightarrow> uuid option" where
  "selected_folder_id st =
     Option.bind (list_get (a_folders st) (a_selected_folder st)) (\<lambda>f.
       case fi_kind f of FolderMail \<Rightarrow> Some (fi_id f) | FolderApprovals \<Rightarrow> None)"

definition selected_folder_name :: "AppState \<Rightarrow> rstr option" where
  "selected_folder_name st = map_option fi_name (list_get (a_folders st) (a_selected_folder st))"

definition selected_folder_role :: "AppState \<Rightarrow> rstr option" where
  "selected_folder_role st = map_option fi_role (list_get (a_folders st) (a_selected_folder st))"

definition drafts_pane_active :: "AppState \<Rightarrow> bool" where
  "drafts_pane_active st \<longleftrightarrow> selected_folder_role st = Some (lit ''drafts'')"

definition approvals_folder_selected :: "AppState \<Rightarrow> bool" where
  "approvals_folder_selected st \<longleftrightarrow>
     (case list_get (a_folders st) (a_selected_folder st) of Some f \<Rightarrow> is_approvals_virtual f | None \<Rightarrow> False)"

definition approvals_pending_count :: "AppState \<Rightarrow> nat" where
  "approvals_pending_count st = length (aps_items (a_approvals st))"

definition approvals_folder_index :: "AppState \<Rightarrow> nat option" where
  "approvals_folder_index st = index_where is_approvals_virtual (a_folders st)"

definition selected_draft_id :: "AppState \<Rightarrow> uuid option" where
  "selected_draft_id st = map_option di_id (list_get (a_drafts st) (a_selected_draft st))"

definition selected_attachment :: "AppState \<Rightarrow> AttachmentItem option" where
  "selected_attachment st = list_get (a_attachments st) (a_selected_attachment st)"

definition selected_attachment_id :: "AppState \<Rightarrow> uuid option" where
  "selected_attachment_id st = map_option ati_id (selected_attachment st)"

definition selected_message :: "AppState \<Rightarrow> MessageItem option" where
  "selected_message st =
     (if approvals_folder_selected st then None else list_get (a_messages st) (a_selected_message st))"

definition selected_message_id :: "AppState \<Rightarrow> uuid option" where
  "selected_message_id st = map_option mi_id (selected_message st)"

definition selected_thread :: "AppState \<Rightarrow> ThreadItem option" where
  "selected_thread st = list_get (a_threads st) (a_selected_thread st)"

definition selected_thread_key :: "AppState \<Rightarrow> uuid option" where
  "selected_thread_key st = map_option ti_key (selected_thread st)"

definition selected_message_has_flag :: "AppState \<Rightarrow> rstr \<Rightarrow> bool option" where
  "selected_message_has_flag st flag = map_option (\<lambda>m. mi_has_flag m flag) (selected_message st)"

definition selected_message_flag_update :: "AppState \<Rightarrow> rstr \<Rightarrow> bool \<Rightarrow> (uuid \<times> rstr list) option" where
  "selected_message_flag_update st flag enabled =
     map_option (\<lambda>m. (mi_id m, with_flag m flag enabled)) (selected_message st)"

definition message_index :: "AppState \<Rightarrow> uuid \<Rightarrow> nat option" where
  "message_index st message_id = index_where (\<lambda>m. mi_id m = message_id) (a_messages st)"

definition selected_search_hit :: "AppState \<Rightarrow> SearchHit option" where
  "selected_search_hit st = Option.bind (a_search st) (\<lambda>s. list_get (ss_hits s) (ss_selected s))"

definition selected_approval :: "AppState \<Rightarrow> ApprovalItem option" where
  "selected_approval st = list_get (aps_items (a_approvals st)) (aps_selected (a_approvals st))"

definition attachments_pane_visible :: "AppState \<Rightarrow> bool" where
  "attachments_pane_visible st \<longleftrightarrow> \<not> approvals_folder_selected st \<and> a_detail st \<noteq> None \<and> a_attachments st \<noteq> []"

definition detail_pane_visible :: "AppState \<Rightarrow> bool" where
  "detail_pane_visible st \<longleftrightarrow> approvals_folder_selected st \<or> a_detail st \<noteq> None"

definition search_pane_visible :: "AppState \<Rightarrow> bool" where
  "search_pane_visible st \<longleftrightarrow> a_search st \<noteq> None"

definition pane_visible :: "AppState \<Rightarrow> ActivePane \<Rightarrow> bool" where
  "pane_visible st pane =
     (case pane of
        PaneDetails \<Rightarrow> detail_pane_visible st
      | PaneAttachments \<Rightarrow> attachments_pane_visible st
      | PaneSearch \<Rightarrow> search_pane_visible st
      | _ \<Rightarrow> True)"

text \<open>\<^verbatim>\<open>for _ in 0..6 { pane = step(pane); if visible { return pane } }\<close>\<close>

fun find_pane :: "(ActivePane \<Rightarrow> ActivePane) \<Rightarrow> (ActivePane \<Rightarrow> bool) \<Rightarrow> nat \<Rightarrow> ActivePane \<Rightarrow> ActivePane option" where
  "find_pane move vis 0 pane = None"
| "find_pane move vis (Suc n) pane = (if vis (move pane) then Some (move pane) else find_pane move vis n (move pane))"

definition next_visible_pane :: "AppState \<Rightarrow> ActivePane" where
  "next_visible_pane st = unwrap_or (a_active st) (find_pane pane_next (pane_visible st) 6 (a_active st))"

definition previous_visible_pane :: "AppState \<Rightarrow> ActivePane" where
  "previous_visible_pane st = unwrap_or (a_active st) (find_pane pane_previous (pane_visible st) 6 (a_active st))"

definition cycle_active_pane :: "AppState \<Rightarrow> AppState" where
  "cycle_active_pane st = st\<lparr>a_active := next_visible_pane st\<rparr>"

definition cycle_active_pane_reverse :: "AppState \<Rightarrow> AppState" where
  "cycle_active_pane_reverse st = st\<lparr>a_active := previous_visible_pane st\<rparr>"

definition normalize_active_pane :: "AppState \<Rightarrow> AppState" where
  "normalize_active_pane st =
     (let st1 = (if a_active st = PaneDetails \<and> \<not> detail_pane_visible st then st\<lparr>a_active := PaneConversations\<rparr> else st);
          st2 = (if a_active st1 = PaneAttachments \<and> \<not> attachments_pane_visible st1
                 then st1\<lparr>a_active := (if detail_pane_visible st1 then PaneDetails else PaneConversations)\<rparr> else st1) in
      if a_active st2 = PaneSearch \<and> \<not> search_pane_visible st2 then st2\<lparr>a_active := PaneConversations\<rparr> else st2)"

subsection \<open>Resetting dependent state\<close>

definition set_status :: "rstr \<Rightarrow> AppState \<Rightarrow> AppState" where
  "set_status s st = st\<lparr>a_status := s\<rparr>"

definition set_error :: "rstr \<Rightarrow> AppState \<Rightarrow> AppState" where
  "set_error e st = st\<lparr>a_error := Some e\<rparr>"

definition clear_error :: "AppState \<Rightarrow> AppState" where
  "clear_error st = st\<lparr>a_error := None\<rparr>"

definition reset_preview_navigation_state :: "AppState \<Rightarrow> AppState" where
  "reset_preview_navigation_state st =
     st\<lparr>a_preview_focused := False, a_preview_scroll := 0, a_preview_selection := None\<rparr>"

definition reset_detail_navigation_state :: "AppState \<Rightarrow> AppState" where
  "reset_detail_navigation_state st =
     st\<lparr>a_detail_cursor := 0, a_detail_scroll := 0, a_detail_selection_anchor := None,
        a_detail_selection_focus := 0, a_detail_preferred_column := None\<rparr>"

definition clear_attachments :: "AppState \<Rightarrow> AppState" where
  "clear_attachments st =
     normalize_active_pane (reset_preview_navigation_state
       (st\<lparr>a_attachments := [], a_attachment_preview := None, a_selected_attachment := 0,
           a_pending_open_attachment := None\<rparr>))"

definition clear_detail_state :: "AppState \<Rightarrow> AppState" where
  "clear_detail_state st =
     clear_attachments (reset_detail_navigation_state
       (st\<lparr>a_detail := None, a_detail_text_cache := None,
           a_conversation_detail := cds_reset (a_messages st) (a_selected_message st)\<rparr>))"

definition clear_drafts :: "AppState \<Rightarrow> AppState" where
  "clear_drafts st = st\<lparr>a_drafts := [], a_selected_draft := 0\<rparr>"

text \<open>The reset shared by every change of the selected account or folder.\<close>

definition clear_listing :: "AppState \<Rightarrow> AppState" where
  "clear_listing st =
     clear_detail_state (clear_drafts (st\<lparr>a_folder_messages := [], a_threads := [], a_messages := []\<rparr>))"

definition reset_to_virtual_folders :: "AppState \<Rightarrow> AppState" where
  "reset_to_virtual_folders st =
     (clear_listing (st\<lparr>a_folders := virtual_folders\<rparr>))\<lparr>a_selected_folder := 0, a_selected_thread := 0, a_selected_message := 0\<rparr>"

definition reset_folder_contents :: "AppState \<Rightarrow> AppState" where
  "reset_folder_contents st = (clear_listing st)\<lparr>a_selected_thread := 0, a_selected_message := 0\<rparr>"

subsection \<open>Conversations and their messages\<close>

definition rebuild_threads :: "uuid option \<Rightarrow> AppState \<Rightarrow> AppState" where
  "rebuild_threads selected_key st =
     (let threads' = build_threads (a_folder_messages st); st1 = st\<lparr>a_threads := threads'\<rparr> in
      case Option.bind selected_key (\<lambda>k. index_where (\<lambda>t. ti_key t = k) threads') of
        Some index \<Rightarrow> st1\<lparr>a_selected_thread := index\<rparr>
      | None \<Rightarrow> st1\<lparr>a_selected_thread := clamp_index (a_selected_thread st) (length threads')\<rparr>)"

definition visible_messages :: "AppState \<Rightarrow> MessageItem list" where
  "visible_messages st =
     (case selected_thread_key st of
        Some key \<Rightarrow> sort_messages_oldest_first (filter (\<lambda>m. message_thread_key m = key) (a_folder_messages st))
      | None \<Rightarrow> [])"

definition refresh_visible_messages :: "AppState \<Rightarrow> AppState" where
  "refresh_visible_messages st =
     (let previous = selected_message_id st;
          st1 = st\<lparr>a_messages := visible_messages st\<rparr> in
      if a_messages st1 = [] then st1\<lparr>a_selected_message := 0\<rparr>
      else
        (case Option.bind previous (message_index st1) of
           Some index \<Rightarrow> st1\<lparr>a_selected_message := index\<rparr>
         | None \<Rightarrow> st1\<lparr>a_selected_message := length (a_messages st1) - 1\<rparr>))"

definition folder_cache_store :: "uuid \<Rightarrow> uuid \<Rightarrow> nat \<Rightarrow> AppState \<Rightarrow> AppState" where
  "folder_cache_store account_id folder_id now st =
     (if approvals_folder_selected st then st
      else
        (let snapshot = \<lparr>sn_folder_messages = a_folder_messages st, sn_selected_thread_key = selected_thread_key st,
                         sn_selected_message_id = selected_message_id st\<rparr> in
         st\<lparr>a_folder_cache := cache_store account_id folder_id snapshot now (a_folder_cache st)\<rparr>))"

definition store_selected_folder_cache :: "uuid option \<Rightarrow> uuid option \<Rightarrow> nat \<Rightarrow> AppState \<Rightarrow> AppState" where
  "store_selected_folder_cache account_id folder_id now st =
     (case (account_id, folder_id) of
        (Some a, Some f) \<Rightarrow> folder_cache_store a f now st
      | _ \<Rightarrow> st)"

definition folder_cache_lookup :: "uuid \<Rightarrow> uuid \<Rightarrow> nat \<Rightarrow> AppState \<Rightarrow> FolderSnapshot option \<times> AppState" where
  "folder_cache_lookup account_id folder_id now st =
     (case cache_lookup account_id folder_id now (a_folder_cache st) of
        (r, c) \<Rightarrow> (r, st\<lparr>a_folder_cache := c\<rparr>))"

definition folder_cache_invalidate_folder :: "uuid \<Rightarrow> uuid \<Rightarrow> AppState \<Rightarrow> AppState" where
  "folder_cache_invalidate_folder account_id folder_id st =
     st\<lparr>a_folder_cache := invalidate_folder account_id folder_id (a_folder_cache st)\<rparr>"

definition folder_cache_invalidate_account :: "uuid \<Rightarrow> AppState \<Rightarrow> AppState" where
  "folder_cache_invalidate_account account_id st = st\<lparr>a_folder_cache := invalidate_account account_id (a_folder_cache st)\<rparr>"

subsection \<open>The detail pane\<close>

definition focused_conversation_message_id :: "AppState \<Rightarrow> uuid option" where
  "focused_conversation_message_id st =
     or_else (cds_focused_message_id (a_conversation_detail st)) (selected_message_id st)"

definition is_conversation_message_expanded :: "AppState \<Rightarrow> uuid \<Rightarrow> bool" where
  "is_conversation_message_expanded st message_id =
     cds_is_expanded (a_conversation_detail st) message_id (length (a_messages st))"

text \<open>The loaded body of a message: from the stack's cache, or the open detail when it is the same message.\<close>

definition loaded_detail :: "AppState \<Rightarrow> MessageItem \<Rightarrow> MessageDetail option" where
  "loaded_detail st m =
     or_else (cds_details_by_id (a_conversation_detail st) (mi_id m))
       (filter_option (\<lambda>d. md_id d = mi_id m) (a_detail st))"

definition stack_entry_text :: "AppState \<Rightarrow> MessageItem \<Rightarrow> rstr" where
  "stack_entry_text st m =
     (let focused = (focused_conversation_message_id st = Some (mi_id m)) in
      if is_conversation_message_expanded st (mi_id m)
      then expanded_message_header m focused @ [10] @
           (case loaded_detail st m of Some d \<Rightarrow> stack_detail_text d | None \<Rightarrow> message_summary_detail_text m)
      else collapsed_message_header m focused)"

definition conversation_detail_text :: "AppState \<Rightarrow> rstr option" where
  "conversation_detail_text st =
     (case a_messages st of
        [] \<Rightarrow> map_option detail_text (a_detail st)
      | [m] \<Rightarrow> Some (case loaded_detail st m of Some d \<Rightarrow> detail_text d | None \<Rightarrow> message_summary_detail_text m)
      | ms \<Rightarrow> Some (join [10] (map (stack_entry_text st) ms)))"

definition rebuild_detail_text_cache :: "AppState \<Rightarrow> AppState" where
  "rebuild_detail_text_cache st =
     st\<lparr>a_detail_text_cache := map_option text_line_cache (conversation_detail_text st)\<rparr>"

definition detail_lines :: "AppState \<Rightarrow> rstr list" where
  "detail_lines st = (case a_detail_text_cache st of Some c \<Rightarrow> tl_all_lines c | None \<Rightarrow> [])"

definition detail_line_count :: "AppState \<Rightarrow> nat" where
  "detail_line_count st = (case a_detail_text_cache st of Some c \<Rightarrow> tl_line_count c | None \<Rightarrow> 0)"

definition detail_line_start :: "AppState \<Rightarrow> nat \<Rightarrow> nat" where
  "detail_line_start st i = (case a_detail_text_cache st of Some c \<Rightarrow> tl_line_start c i | None \<Rightarrow> 0)"

definition detail_line_end :: "AppState \<Rightarrow> nat \<Rightarrow> nat" where
  "detail_line_end st i = (case a_detail_text_cache st of Some c \<Rightarrow> tl_line_end c i | None \<Rightarrow> 0)"

definition detail_len :: "AppState \<Rightarrow> nat" where
  "detail_len st = (case a_detail_text_cache st of Some c \<Rightarrow> tl_char_len c | None \<Rightarrow> 0)"

definition detail_line_len :: "AppState \<Rightarrow> nat \<Rightarrow> nat" where
  "detail_line_len st i = detail_line_end st i - detail_line_start st i"

definition detail_text_content :: "AppState \<Rightarrow> rstr option" where
  "detail_text_content st = map_option tl_text (a_detail_text_cache st)"

definition detail_line_text :: "AppState \<Rightarrow> nat \<Rightarrow> rstr option" where
  "detail_line_text st i = Option.bind (a_detail_text_cache st) (\<lambda>c. tl_line c i)"

definition detail_cursor_line_column :: "AppState \<Rightarrow> nat \<times> nat" where
  "detail_cursor_line_column st =
     (let cursor = min (a_detail_cursor st) (detail_len st) in
      case a_detail_text_cache st of
        None \<Rightarrow> (0, 0)
      | Some c \<Rightarrow> (tl_line_for_cursor c cursor, cursor - tl_line_start c (tl_line_for_cursor c cursor)))"

definition detail_selected_line_range :: "AppState \<Rightarrow> (nat \<times> nat) option" where
  "detail_selected_line_range st =
     (case a_detail_selection_anchor st of
        None \<Rightarrow> None
      | Some anchor \<Rightarrow>
          (let max_line = detail_line_count st - 1; focus = a_detail_selection_focus st in
           Some (min (min anchor focus) max_line, min (max anchor focus) max_line)))"

definition detail_visible_scroll :: "AppState \<Rightarrow> nat \<Rightarrow> nat" where
  "detail_visible_scroll st viewport_height =
     (let h = max viewport_height 1;
          max_scroll = detail_line_count st - h;
          scroll = min (a_detail_scroll st) max_scroll;
          cursor_line = fst (detail_cursor_line_column st);
          scroll' = (if cursor_line < scroll then cursor_line
                     else if scroll + h \<le> cursor_line then cursor_line + 1 - h
                     else scroll) in
      min scroll' max_scroll)"

definition ensure_detail_cursor_visible :: "nat \<Rightarrow> AppState \<Rightarrow> AppState" where
  "ensure_detail_cursor_visible viewport_height st = st\<lparr>a_detail_scroll := detail_visible_scroll st viewport_height\<rparr>"

definition move_detail_cursor_left :: "AppState \<Rightarrow> bool \<times> AppState" where
  "move_detail_cursor_left st =
     (if \<not> detail_pane_visible st \<or> snd (detail_cursor_line_column st) = 0 then (False, st)
      else (True, st\<lparr>a_detail_cursor := min (a_detail_cursor st) (detail_len st) - 1, a_detail_preferred_column := None\<rparr>))"

definition move_detail_cursor_right :: "AppState \<Rightarrow> bool \<times> AppState" where
  "move_detail_cursor_right st =
     (case detail_cursor_line_column st of
        (line, column) \<Rightarrow>
          if \<not> detail_pane_visible st \<or> detail_line_len st line \<le> column then (False, st)
          else (True, st\<lparr>a_detail_cursor := detail_line_start st line + column + 1, a_detail_preferred_column := None\<rparr>))"

definition set_detail_cursor :: "nat \<Rightarrow> AppState \<Rightarrow> bool \<times> AppState" where
  "set_detail_cursor target st =
     (let len = detail_len st; new = min target len; old = min (a_detail_cursor st) len in
      (old \<noteq> new, st\<lparr>a_detail_cursor := new, a_detail_preferred_column := None\<rparr>))"

definition detail_home :: "AppState \<Rightarrow> bool \<times> AppState" where
  "detail_home st =
     (if \<not> detail_pane_visible st then (False, st)
      else set_detail_cursor (detail_line_start st (fst (detail_cursor_line_column st))) st)"

definition detail_end :: "AppState \<Rightarrow> bool \<times> AppState" where
  "detail_end st =
     (if \<not> detail_pane_visible st then (False, st)
      else set_detail_cursor (detail_line_end st (fst (detail_cursor_line_column st))) st)"

definition move_detail_line :: "int \<Rightarrow> nat \<Rightarrow> AppState \<Rightarrow> bool \<times> AppState" where
  "move_detail_line delta viewport_height st =
     (if a_active st \<noteq> PaneDetails \<or> \<not> detail_pane_visible st \<or> detail_line_count st = 0 then (False, st)
      else
        (let max_line = detail_line_count st - 1;
             line = fst (detail_cursor_line_column st);
             column = snd (detail_cursor_line_column st);
             preferred = unwrap_or column (a_detail_preferred_column st);
             next_line = (if delta < 0 then line - nat (- delta) else min (line + nat delta) max_line);
             next_column = min preferred (detail_line_len st next_line);
             st1 = st\<lparr>a_detail_preferred_column := Some preferred,
                      a_detail_cursor := detail_line_start st next_line + next_column,
                      a_detail_selection_focus :=
                        (if a_detail_selection_anchor st \<noteq> None then next_line else a_detail_selection_focus st)\<rparr>;
             st2 = ensure_detail_cursor_visible viewport_height st1 in
         (a_detail_cursor st2 \<noteq> a_detail_cursor st \<or> a_detail_scroll st2 \<noteq> a_detail_scroll st \<or>
          a_detail_selection_focus st2 \<noteq> a_detail_selection_focus st, st2)))"

definition clear_detail_selection :: "AppState \<Rightarrow> bool \<times> AppState" where
  "clear_detail_selection st =
     (a_detail_selection_anchor st \<noteq> None,
      st\<lparr>a_detail_selection_anchor := None, a_detail_selection_focus := fst (detail_cursor_line_column st)\<rparr>)"

definition begin_detail_selection :: "AppState \<Rightarrow> bool \<times> AppState" where
  "begin_detail_selection st =
     (let line = fst (detail_cursor_line_column st) in
      (True, st\<lparr>a_detail_selection_anchor := Some line, a_detail_selection_focus := line\<rparr>))"

definition toggle_detail_line_selection :: "AppState \<Rightarrow> bool \<times> AppState" where
  "toggle_detail_line_selection st =
     (if a_active st \<noteq> PaneDetails \<or> \<not> detail_pane_visible st then (False, st)
      else if a_detail_selection_anchor st \<noteq> None then clear_detail_selection st
      else begin_detail_selection st)"

definition start_detail_line_selection :: "AppState \<Rightarrow> bool \<times> AppState" where
  "start_detail_line_selection st =
     (if a_active st \<noteq> PaneDetails \<or> \<not> detail_pane_visible st \<or> a_detail_selection_anchor st \<noteq> None then (False, st)
      else begin_detail_selection st)"

text \<open>The loop of \<^verbatim>\<open>focused_message_header_line\<close> with the line reached so far.\<close>

fun header_line :: "AppState \<Rightarrow> uuid \<Rightarrow> nat \<Rightarrow> MessageItem list \<Rightarrow> nat" where
  "header_line st focused line [] = 0"
| "header_line st focused line (m # ms) =
     (if mi_id m = focused then line
      else header_line st focused
             (line + 1 + (if is_conversation_message_expanded st (mi_id m)
                          then stack_message_body_line_count (loaded_detail st m) m else 0)) ms)"

definition focused_message_header_line :: "AppState \<Rightarrow> nat" where
  "focused_message_header_line st =
     (case focused_conversation_message_id st of
        None \<Rightarrow> 0
      | Some focused \<Rightarrow> if length (a_messages st) \<le> 1 then 0 else header_line st focused 0 (a_messages st))"

definition place_detail_cursor_at_focused_message :: "AppState \<Rightarrow> AppState" where
  "place_detail_cursor_at_focused_message st =
     (let line = focused_message_header_line st in
      st\<lparr>a_detail_cursor := detail_line_start st line, a_detail_selection_focus := line\<rparr>)"

definition redraw_detail :: "AppState \<Rightarrow> AppState" where
  "redraw_detail st =
     place_detail_cursor_at_focused_message (reset_detail_navigation_state (rebuild_detail_text_cache st))"

definition toggle_focused_message_expansion :: "AppState \<Rightarrow> bool option \<times> AppState" where
  "toggle_focused_message_expansion st =
     (case cds_toggle_focused (length (a_messages st)) (a_conversation_detail st) of
        (None, c) \<Rightarrow> (None, st\<lparr>a_conversation_detail := c\<rparr>)
      | (Some expanded, c) \<Rightarrow> (Some expanded, redraw_detail (st\<lparr>a_conversation_detail := c\<rparr>)))"

definition expand_all_conversation_messages :: "AppState \<Rightarrow> bool \<times> AppState" where
  "expand_all_conversation_messages st =
     (if a_messages st = [] then (False, st)
      else (True, redraw_detail
              (st\<lparr>a_conversation_detail := cds_expand_all (a_messages st) (a_conversation_detail st)\<rparr>)))"

definition move_conversation_detail_focus :: "int \<Rightarrow> AppState \<Rightarrow> bool \<times> AppState" where
  "move_conversation_detail_focus delta st =
     (if length (a_messages st) \<le> 1 then (False, st)
      else
        (let current = unwrap_or (min (a_selected_message st) (length (a_messages st) - 1))
                         (Option.bind (focused_conversation_message_id st) (message_index st));
             new = nat (clamp_isize (int current + delta) 0 (int (length (a_messages st) - 1))) in
         if new = current then (False, st)
         else
           (let message_id = mi_id (a_messages st ! new);
                st1 = st\<lparr>a_selected_message := new,
                         a_conversation_detail := (a_conversation_detail st)\<lparr>cds_focused_message_id := Some message_id\<rparr>\<rparr>;
                st2 = (case cds_details_by_id (a_conversation_detail st1) message_id of
                         Some d \<Rightarrow> st1\<lparr>a_detail := Some d\<rparr> | None \<Rightarrow> st1) in
            (True, redraw_detail (clear_attachments st2)))))"

definition expanded_message_ids_without_detail :: "AppState \<Rightarrow> uuid list" where
  "expanded_message_ids_without_detail st =
     map mi_id (filter (\<lambda>m. is_conversation_message_expanded st (mi_id m) \<and>
                            \<not> cds_has_detail (a_conversation_detail st) (mi_id m)) (a_messages st))"

subsection \<open>Flags and details from the daemon\<close>

definition set_item_flags :: "uuid \<Rightarrow> rstr list \<Rightarrow> MessageItem list \<Rightarrow> MessageItem list" where
  "set_item_flags message_id flags ms = update_first (\<lambda>m. mi_id m = message_id) (\<lambda>m. m\<lparr>mi_flags := flags\<rparr>) ms"

text \<open>
  The common part of \<^verbatim>\<open>apply_message_flags\<close> and \<^verbatim>\<open>update_message_flags_from_detail\<close>, which differ only in
  whether the open detail is updated in between.
\<close>

definition flags_to_lists :: "uuid \<Rightarrow> rstr list \<Rightarrow> AppState \<Rightarrow> AppState" where
  "flags_to_lists message_id flags st =
     st\<lparr>a_folder_messages := set_item_flags message_id flags (a_folder_messages st),
        a_messages := set_item_flags message_id flags (a_messages st)\<rparr>"

definition after_flag_change :: "uuid \<Rightarrow> uuid option \<Rightarrow> nat \<Rightarrow> AppState \<Rightarrow> AppState" where
  "after_flag_change message_id selected_key now st =
     (let st1 = (if a_folder_messages st \<noteq> [] then refresh_visible_messages (rebuild_threads selected_key st) else st) in
      if list_ex (\<lambda>m. mi_id m = message_id) (a_folder_messages st)
      then store_selected_folder_cache (selected_account_id st1) (selected_folder_id st1) now st1 else st1)"

definition update_message_flags_from_detail :: "MessageDetail \<Rightarrow> nat \<Rightarrow> AppState \<Rightarrow> AppState" where
  "update_message_flags_from_detail d now st =
     after_flag_change (md_id d) (selected_thread_key st) now (flags_to_lists (md_id d) (md_flags d) st)"

definition apply_message_flags :: "uuid \<Rightarrow> rstr list \<Rightarrow> nat \<Rightarrow> AppState \<Rightarrow> AppState" where
  "apply_message_flags message_id flags now st =
     (let st1 = flags_to_lists message_id flags st;
          st2 = st1\<lparr>a_detail := map_option (\<lambda>d. if md_id d = message_id then d\<lparr>md_flags := flags\<rparr> else d) (a_detail st1)\<rparr> in
      after_flag_change message_id (selected_thread_key st) now st2)"

definition cache_conversation_detail :: "MessageDetail \<Rightarrow> nat \<Rightarrow> AppState \<Rightarrow> AppState" where
  "cache_conversation_detail d now st =
     (let st1 = update_message_flags_from_detail d now st;
          st2 = st1\<lparr>a_conversation_detail := cds_cache_detail d (a_conversation_detail st1)\<rparr>;
          st3 = (if focused_conversation_message_id st2 = Some (md_id d) then st2\<lparr>a_detail := Some d\<rparr> else st2) in
      rebuild_detail_text_cache st3)"

definition apply_detail :: "MessageDetail option \<Rightarrow> nat \<Rightarrow> AppState \<Rightarrow> AppState" where
  "apply_detail d now st =
     (let was_detail_focused = (a_active st = PaneDetails);
          st1 = (if map_option md_id (a_detail st) \<noteq> map_option md_id d then clear_attachments st else st);
          st2 = (case d of
                   None \<Rightarrow> st1
                 | Some x \<Rightarrow>
                     (let u = update_message_flags_from_detail x now st1 in
                      u\<lparr>a_conversation_detail := cds_cache_detail x (a_conversation_detail u)\<rparr>));
          st3 = redraw_detail (st2\<lparr>a_detail := d\<rparr>);
          st4 = (if was_detail_focused \<and> a_detail st3 \<noteq> None then st3\<lparr>a_active := PaneDetails\<rparr> else st3);
          st5 = (if a_detail st4 = None then clear_attachments st4 else st4) in
      normalize_active_pane st5)"

subsection \<open>Lists from the daemon\<close>

definition apply_accounts :: "AccountItem list \<Rightarrow> AppState \<Rightarrow> AppState" where
  "apply_accounts items st =
     (let ids = map ai_id items;
          st1 = st\<lparr>a_folder_cache := retain_accounts ids (a_folder_cache st),
                   a_account_states := (\<lambda>i. if i \<in> set ids then a_account_states st i else None),
                   a_accounts := items, a_selected_account := clamp_index (a_selected_account st) (length items)\<rparr> in
      normalize_active_pane ((reset_to_virtual_folders st1)\<lparr>a_search := None\<rparr>))"

definition apply_folders :: "FolderItem list \<Rightarrow> AppState \<Rightarrow> AppState" where
  "apply_folders fs st =
     (let first_load = (\<not> list_ex (\<lambda>f. \<not> is_approvals_virtual f) (a_folders st));
          keep_approvals = (approvals_folder_selected st \<and> a_active st \<in> {PaneFolders, PaneConversations, PaneDetails});
          st1 = st\<lparr>a_folders := folders_with_approvals fs\<rparr>;
          st2 = st1\<lparr>a_selected_folder :=
                     (if keep_approvals then unwrap_or 0 (approvals_folder_index st1)
                      else if first_load then unwrap_or 0 (index_where (\<lambda>f. fi_role f = lit ''inbox'') (a_folders st1))
                      else clamp_index (a_selected_folder st1) (length (a_folders st1)))\<rparr> in
      normalize_active_pane (reset_folder_contents st2))"

definition apply_messages :: "MessageItem list \<Rightarrow> AppState \<Rightarrow> AppState" where
  "apply_messages ms st =
     clear_detail_state (st\<lparr>a_messages := ms, a_selected_message := clamp_index (a_selected_message st) (length ms)\<rparr>)"

definition apply_folder_messages :: "MessageItem list \<Rightarrow> nat \<Rightarrow> AppState \<Rightarrow> AppState" where
  "apply_folder_messages ms now st =
     store_selected_folder_cache (selected_account_id st) (selected_folder_id st) now
       (clear_detail_state (normalize_active_pane (refresh_visible_messages
          (rebuild_threads (selected_thread_key st) (st\<lparr>a_folder_messages := ms\<rparr>)))))"

definition apply_drafts :: "DraftItem list \<Rightarrow> AppState \<Rightarrow> AppState" where
  "apply_drafts ds st = st\<lparr>a_drafts := ds, a_selected_draft := clamp_index (a_selected_draft st) (length ds)\<rparr>"

definition remove_draft_locally :: "uuid \<Rightarrow> AppState \<Rightarrow> bool \<times> AppState" where
  "remove_draft_locally draft_id st =
     (let ds = filter (\<lambda>d. di_id d \<noteq> draft_id) (a_drafts st); removed = (length ds \<noteq> length (a_drafts st)) in
      (removed, st\<lparr>a_drafts := ds,
        a_selected_draft := (if removed then clamp_index (a_selected_draft st) (length ds) else a_selected_draft st)\<rparr>))"

definition apply_attachments :: "AttachmentItem list \<Rightarrow> AppState \<Rightarrow> AppState" where
  "apply_attachments items st =
     (let st1 = st\<lparr>a_attachments := items, a_selected_attachment := clamp_index (a_selected_attachment st) (length items)\<rparr>;
          st2 = (case a_attachment_preview st1 of
                   Some p \<Rightarrow>
                     if Some (pi_attachment_id p) \<noteq> selected_attachment_id st1
                     then reset_preview_navigation_state (st1\<lparr>a_attachment_preview := None\<rparr>) else st1
                 | None \<Rightarrow> st1);
          st3 = (if a_attachments st2 = []
                 then reset_preview_navigation_state
                        (st2\<lparr>a_attachment_preview := None, a_pending_open_attachment := None\<rparr>) else st2) in
      normalize_active_pane st3)"

definition apply_attachment_preview :: "AttachmentPreviewItem \<Rightarrow> AppState \<Rightarrow> AppState" where
  "apply_attachment_preview preview st =
     (let same = (map_option pi_attachment_id (a_attachment_preview st) = Some (pi_attachment_id preview));
          st1 = st\<lparr>a_attachment_preview := Some preview\<rparr> in
      if same then st1 else reset_preview_navigation_state st1)"

end
