(* ===== verification/TuiOps.thy ===== *)
theory TuiOps
  imports TuiApp
begin

text \<open>
  \<^verbatim>\<open>src/tui/app.rs\<close>, continued: the operations behind the keys.  The attachment preview, the moves of the
  selection, toasts, search, approvals, pending deletes, the command bar, the composer commands and the
  undo of an optimistic removal.
\<close>

subsection \<open>The attachment preview\<close>

definition is_preview_focus_active :: "AppState \<Rightarrow> bool" where
  "is_preview_focus_active st \<longleftrightarrow>
     a_preview_focused st \<and> a_attachment_preview st \<noteq> None \<and> a_active st = PaneAttachments"

definition preview_text :: "AppState \<Rightarrow> rstr option" where
  "preview_text st =
     map_option (\<lambda>p. pi_message p @ (case pi_text p of Some body \<Rightarrow> [10, 10] @ body | None \<Rightarrow> []) @
                     (if pi_truncated p then [10, 10] @ lit ''[truncated]'' else []))
       (a_attachment_preview st)"

definition preview_lines :: "AppState \<Rightarrow> rstr list" where
  "preview_lines st = (case preview_text st of Some t \<Rightarrow> split_char 10 t | None \<Rightarrow> [])"

definition preview_line_count :: "AppState \<Rightarrow> nat" where
  "preview_line_count st = length (preview_lines st)"

definition preview_max_scroll :: "AppState \<Rightarrow> nat \<Rightarrow> nat" where
  "preview_max_scroll st viewport_height = preview_line_count st - max viewport_height 1"

definition preview_visible_scroll :: "AppState \<Rightarrow> nat \<Rightarrow> nat" where
  "preview_visible_scroll st viewport_height = min (a_preview_scroll st) (preview_max_scroll st viewport_height)"

definition scroll_preview :: "int \<Rightarrow> nat \<Rightarrow> AppState \<Rightarrow> bool \<times> AppState" where
  "scroll_preview delta viewport_height st =
     (if \<not> is_preview_focus_active st then (False, st)
      else
        (let limit = preview_max_scroll st viewport_height;
             old = min (a_preview_scroll st) limit;
             new = (if delta < 0 then old - nat (- delta) else min (old + nat delta) limit) in
         (new \<noteq> old, st\<lparr>a_preview_scroll := new\<rparr>)))"

definition scroll_preview_to_top :: "AppState \<Rightarrow> bool \<times> AppState" where
  "scroll_preview_to_top st =
     (if \<not> is_preview_focus_active st then (False, st)
      else (a_preview_scroll st \<noteq> 0, st\<lparr>a_preview_scroll := 0\<rparr>))"

definition scroll_preview_to_bottom :: "nat \<Rightarrow> AppState \<Rightarrow> bool \<times> AppState" where
  "scroll_preview_to_bottom viewport_height st =
     (if \<not> is_preview_focus_active st then (False, st)
      else
        (let limit = preview_max_scroll st viewport_height in
         (a_preview_scroll st \<noteq> limit, st\<lparr>a_preview_scroll := limit\<rparr>)))"

definition move_preview_line :: "int \<Rightarrow> AppState \<Rightarrow> bool \<times> AppState" where
  "move_preview_line delta st =
     (if \<not> is_preview_focus_active st then (False, st)
      else
        (case a_preview_selection st of
           Some (anchor, focus) \<Rightarrow>
             (let new = nat (clamp_isize (int focus + delta) 0 (int (preview_line_count st - 1))) in
              if new = focus then (False, st) else (True, st\<lparr>a_preview_selection := Some (anchor, new)\<rparr>))
         | None \<Rightarrow> scroll_preview delta 1 st))"

definition preview_selected_line_range :: "AppState \<Rightarrow> (nat \<times> nat) option" where
  "preview_selected_line_range st =
     (case a_preview_selection st of
        None \<Rightarrow> None
      | Some (anchor, focus) \<Rightarrow>
          (let max_line = preview_line_count st - 1 in
           if max_line = 0 \<and> preview_line_count st = 0 then None
           else Some (min (min anchor focus) max_line, min (max anchor focus) max_line)))"

definition toggle_preview_selection :: "AppState \<Rightarrow> bool \<times> AppState" where
  "toggle_preview_selection st =
     (if \<not> is_preview_focus_active st then (False, st)
      else if a_preview_selection st \<noteq> None then (True, st\<lparr>a_preview_selection := None\<rparr>)
      else
        (let line = min (a_preview_scroll st) (preview_line_count st - 1) in
         (True, st\<lparr>a_preview_selection := Some (line, line)\<rparr>)))"

definition clear_preview_selection :: "AppState \<Rightarrow> bool \<times> AppState" where
  "clear_preview_selection st = (a_preview_selection st \<noteq> None, st\<lparr>a_preview_selection := None\<rparr>)"

definition preview_yank_text :: "AppState \<Rightarrow> rstr option" where
  "preview_yank_text st =
     (case preview_selected_line_range st of
        None \<Rightarrow> None
      | Some (start, stop) \<Rightarrow>
          (let ls = preview_lines st in
           if length ls \<le> start then None
           else
             (let stop' = min stop (length ls - 1) in
              Some (join [10] (take (stop' + 1 - start) (drop start ls))))))"

definition focus_preview :: "AppState \<Rightarrow> bool \<times> AppState" where
  "focus_preview st =
     (if a_attachment_preview st = None \<or> a_preview_focused st then (False, st)
      else (True, st\<lparr>a_preview_focused := True\<rparr>))"

definition defocus_preview :: "AppState \<Rightarrow> bool \<times> AppState" where
  "defocus_preview st =
     (if \<not> a_preview_focused st then (False, st)
      else (True, st\<lparr>a_preview_focused := False, a_preview_selection := None\<rparr>))"

subsection \<open>Attachments and help\<close>

definition toggle_attachment_focus :: "AppState \<Rightarrow> bool \<times> AppState" where
  "toggle_attachment_focus st =
     (if \<not> attachments_pane_visible st then (False, normalize_active_pane st)
      else if a_active st = PaneAttachments
      then (True, st\<lparr>a_preview_focused := False, a_preview_selection := None, a_active := PaneConversations\<rparr>)
      else (True, st\<lparr>a_active := PaneAttachments\<rparr>))"

definition begin_open_attachment_confirmation :: "AppState \<Rightarrow> bool \<times> AppState" where
  "begin_open_attachment_confirmation st =
     (case selected_attachment st of
        None \<Rightarrow> (False, st)
      | Some a \<Rightarrow> (True, st\<lparr>a_pending_open_attachment := Some a\<rparr>))"

definition cancel_open_attachment_confirmation :: "AppState \<Rightarrow> AppState" where
  "cancel_open_attachment_confirmation st = st\<lparr>a_pending_open_attachment := None\<rparr>"

definition take_pending_open_attachment :: "AppState \<Rightarrow> AttachmentItem option \<times> AppState" where
  "take_pending_open_attachment st = (a_pending_open_attachment st, st\<lparr>a_pending_open_attachment := None\<rparr>)"

definition open_help :: "AppState \<Rightarrow> bool \<times> AppState" where
  "open_help st =
     (if a_composer st \<noteq> None \<or> a_mode st \<noteq> ModeNormal then (False, st)
      else (True, st\<lparr>a_help_open := True, a_help_scroll := 0\<rparr>))"

definition close_help :: "AppState \<Rightarrow> AppState" where
  "close_help st = st\<lparr>a_help_open := False, a_help_scroll := 0\<rparr>"

definition toggle_help :: "AppState \<Rightarrow> bool \<times> AppState" where
  "toggle_help st = (if a_help_open st then (False, close_help st) else open_help st)"

text \<open>The offset is a \<^verbatim>\<open>usize\<close> and saturates.\<close>

definition scroll_help_down :: "nat \<Rightarrow> AppState \<Rightarrow> AppState" where
  "scroll_help_down rows st = st\<lparr>a_help_scroll := saturating_add_u64 (a_help_scroll st) rows\<rparr>"

definition scroll_help_up :: "nat \<Rightarrow> AppState \<Rightarrow> AppState" where
  "scroll_help_up rows st = st\<lparr>a_help_scroll := a_help_scroll st - rows\<rparr>"

definition scroll_help_home :: "AppState \<Rightarrow> AppState" where
  "scroll_help_home st = st\<lparr>a_help_scroll := 0\<rparr>"

definition scroll_help_end :: "nat \<Rightarrow> AppState \<Rightarrow> AppState" where
  "scroll_help_end limit st = st\<lparr>a_help_scroll := limit\<rparr>"

subsection \<open>Toasts\<close>

definition push_toast :: "ToastKind \<Rightarrow> rstr \<Rightarrow> nat \<Rightarrow> AppState \<Rightarrow> nat \<times> AppState" where
  "push_toast kind msg now st =
     (let i = a_next_toast_id st;
          toast = \<lparr>toast_id = i, toast_kind = kind, toast_text = msg, toast_expires_at = now + toast_ttl kind\<rparr>;
          kept = (if MAX_TOASTS \<le> length (a_toasts st) then tl (a_toasts st) else a_toasts st) in
      (i, st\<lparr>a_next_toast_id := (i + 1) mod u64_bound, a_toasts := kept @ [toast]\<rparr>))"

text \<open>The newest matching toast is refreshed: the search runs from the back of the queue.\<close>

definition coalesce_toast :: "ToastKind \<Rightarrow> rstr \<Rightarrow> nat \<Rightarrow> nat \<Rightarrow> AppState \<Rightarrow> bool \<times> AppState" where
  "coalesce_toast kind msg now window st =
     (let ttl = toast_ttl kind;
          matches = (\<lambda>t. toast_kind t = kind \<and> toast_text t = msg \<and> now + ttl \<le> toast_expires_at t + window) in
      if list_ex matches (a_toasts st)
      then (True, st\<lparr>a_toasts :=
              rev (update_first matches (\<lambda>t. t\<lparr>toast_expires_at := now + ttl\<rparr>) (rev (a_toasts st)))\<rparr>)
      else (False, st))"

definition push_or_coalesce :: "ToastKind \<Rightarrow> rstr \<Rightarrow> nat \<Rightarrow> nat \<Rightarrow> AppState \<Rightarrow> AppState" where
  "push_or_coalesce kind msg now window st =
     (case coalesce_toast kind msg now window st of
        (True, st') \<Rightarrow> st'
      | (False, st') \<Rightarrow> snd (push_toast kind msg now st'))"

definition dismiss_newest_toast :: "AppState \<Rightarrow> bool \<times> AppState" where
  "dismiss_newest_toast st = (a_toasts st \<noteq> [], st\<lparr>a_toasts := butlast (a_toasts st)\<rparr>)"

definition clear_toasts :: "AppState \<Rightarrow> bool \<times> AppState" where
  "clear_toasts st = (a_toasts st \<noteq> [], st\<lparr>a_toasts := []\<rparr>)"

definition tick_toasts :: "nat \<Rightarrow> AppState \<Rightarrow> AppState" where
  "tick_toasts now st = st\<lparr>a_toasts := filter (\<lambda>t. now < toast_expires_at t) (a_toasts st)\<rparr>"

definition account_label_for_toast :: "tui_env \<Rightarrow> AppState \<Rightarrow> uuid \<Rightarrow> rstr" where
  "account_label_for_toast env st account_id =
     unwrap_or (short_id env account_id) (map_option ai_label (find (\<lambda>a. ai_id a = account_id) (a_accounts st)))"

definition sync_error_label :: rstr where
  "sync_error_label = lit ''sync error''"

definition apply_sync_state :: "tui_env \<Rightarrow> uuid \<Rightarrow> SyncStateUi \<Rightarrow> rstr option \<Rightarrow> nat \<Rightarrow> AppState \<Rightarrow> AppState" where
  "apply_sync_state env account_id state last_error now st =
     (let st1 = (if state = UiError
                 then push_or_coalesce ToastError
                        (account_label_for_toast env st account_id @ lit '': '' @ unwrap_or sync_error_label last_error)
                        now COALESCE_SYNC_ERROR st
                 else st) in
      st1\<lparr>a_account_states := (a_account_states st1)(account_id \<mapsto>
            \<lparr>as_state = state,
             as_last_error = (if state = UiError then or_else last_error (Some sync_error_label) else None)\<rparr>)\<rparr>)"

definition push_mail_new_toast :: "tui_env \<Rightarrow> uuid \<Rightarrow> uuid option \<Rightarrow> nat \<Rightarrow> AppState \<Rightarrow> AppState" where
  "push_mail_new_toast env account_id folder_id now st =
     (let folder = unwrap_or (lit ''folder'')
                     (map_option fi_name (Option.bind folder_id (\<lambda>i. find (\<lambda>f. fi_id f = i) (a_folders st)))) in
      snd (push_toast ToastInfo
             (lit ''New mail in '' @ folder @ lit '' ('' @ account_label_for_toast env st account_id @ lit '')'') now st))"

definition push_account_synced_toast :: "tui_env \<Rightarrow> uuid \<Rightarrow> nat \<Rightarrow> AppState \<Rightarrow> AppState" where
  "push_account_synced_toast env account_id now st =
     push_or_coalesce ToastInfo (lit ''Synced '' @ account_label_for_toast env st account_id) now
       COALESCE_ACCOUNT_SYNCED st"

definition push_pane_refusal_toast :: "rstr \<Rightarrow> nat \<Rightarrow> AppState \<Rightarrow> AppState" where
  "push_pane_refusal_toast msg now st = set_status msg (push_or_coalesce ToastInfo msg now COALESCE_PANE_REFUSAL st)"

subsection \<open>Approvals\<close>

definition put_approvals :: "ApprovalItem list \<Rightarrow> AppState \<Rightarrow> AppState" where
  "put_approvals items st =
     st\<lparr>a_approvals := (a_approvals st)\<lparr>aps_items := items, aps_selected := clamp_index (aps_selected (a_approvals st)) (length items)\<rparr>\<rparr>"

definition apply_approvals :: "ApprovalItem list \<Rightarrow> AppState \<Rightarrow> AppState" where
  "apply_approvals items st =
     put_approvals (sorted_approvals items) (st\<lparr>a_approvals := (a_approvals st)\<lparr>aps_pending := False\<rparr>\<rparr>)"

definition move_approval_selection :: "int \<Rightarrow> AppState \<Rightarrow> bool \<times> AppState" where
  "move_approval_selection delta st =
     (let ap = a_approvals st in
      if aps_items ap = [] then (False, st\<lparr>a_approvals := ap\<lparr>aps_selected := 0\<rparr>\<rparr>)
      else
        (case move_index (aps_selected ap) (length (aps_items ap)) delta of
           (i, changed) \<Rightarrow> (changed, st\<lparr>a_approvals := ap\<lparr>aps_selected := i\<rparr>\<rparr>)))"

definition remove_selected_approval :: "AppState \<Rightarrow> ApprovalItem option \<times> AppState" where
  "remove_selected_approval st =
     (let ap = a_approvals st in
      if aps_items ap = [] then (None, st\<lparr>a_approvals := ap\<lparr>aps_selected := 0\<rparr>\<rparr>)
      else
        (let index = min (aps_selected ap) (length (aps_items ap) - 1) in
         (Some (aps_items ap ! index), put_approvals (remove_nth index (aps_items ap)) st)))"

definition remove_approval_by_id :: "uuid \<Rightarrow> AppState \<Rightarrow> bool \<times> AppState" where
  "remove_approval_by_id approval_id st =
     (let items = aps_items (a_approvals st); kept = filter (\<lambda>a. it_id a \<noteq> approval_id) items in
      if length kept \<noteq> length items then (True, put_approvals kept st)
      else (False, st\<lparr>a_approvals := (a_approvals st)\<lparr>aps_items := kept\<rparr>\<rparr>))"

definition merge_approval_request :: "ApprovalItem \<Rightarrow> AppState \<Rightarrow> AppState" where
  "merge_approval_request approval st =
     (let items = aps_items (a_approvals st);
          same = (\<lambda>a. it_id a = it_id approval);
          merged = (if list_ex same items then update_first same (\<lambda>_. approval) items else items @ [approval]) in
      put_approvals (take MAX_LIVE_APPROVALS (sorted_approvals merged)) st)"

definition select_approvals_folder :: "AppState \<Rightarrow> bool \<times> AppState" where
  "select_approvals_folder st =
     (let st1 = (if list_ex is_approvals_virtual (a_folders st) then st
                 else st\<lparr>a_folders := a_folders st @ [approvals_virtual]\<rparr>) in
      case approvals_folder_index st1 of
        None \<Rightarrow> (False, st1)
      | Some index \<Rightarrow>
          (True, clear_error (reset_folder_contents (st1\<lparr>a_selected_folder := index, a_active := PaneConversations\<rparr>))))"

definition begin_approvals :: "AppState \<Rightarrow> AppState" where
  "begin_approvals st =
     clear_error (snd (select_approvals_folder (st\<lparr>a_approvals := (a_approvals st)\<lparr>aps_pending := True\<rparr>\<rparr>)))"

subsection \<open>Search\<close>

definition enter_quick_search :: "AppState \<Rightarrow> AppState" where
  "enter_quick_search st =
     set_status (lit ''Search /'') (clear_error
       (st\<lparr>a_search_input_previous_pane := a_active st, a_search_input := [], a_mode := ModeQuickSearch\<rparr>))"

definition cancel_quick_search :: "AppState \<Rightarrow> AppState" where
  "cancel_quick_search st =
     set_status (lit ''Search cancelled'') ((clear_error (st\<lparr>a_mode := ModeNormal, a_search_input := []\<rparr>))
       \<lparr>a_active := a_search_input_previous_pane st\<rparr>)"

definition push_search_char :: "rchar \<Rightarrow> AppState \<Rightarrow> bool \<times> AppState" where
  "push_search_char ch st =
     (if is_control ch \<or> MAX_SEARCH_CHARS \<le> length (a_search_input st) then (False, st)
      else (True, st\<lparr>a_search_input := a_search_input st @ [ch]\<rparr>))"

definition backspace_search :: "AppState \<Rightarrow> bool \<times> AppState" where
  "backspace_search st = (a_search_input st \<noteq> [], st\<lparr>a_search_input := butlast (a_search_input st)\<rparr>)"

definition finish_quick_search :: "AppState \<Rightarrow> rstr \<times> AppState" where
  "finish_quick_search st = (a_search_input st, st\<lparr>a_mode := ModeNormal, a_search_input := []\<rparr>)"

definition begin_search :: "rstr \<Rightarrow> uuid option \<Rightarrow> AppState \<Rightarrow> AppState" where
  "begin_search q scope_account st =
     (let previous = (case a_search st of Some s \<Rightarrow> ss_previous_pane s | None \<Rightarrow> a_active st) in
      clear_error (st\<lparr>a_search := Some (search_new q scope_account previous), a_active := PaneSearch\<rparr>))"

definition apply_search_hits :: "SearchHit list \<Rightarrow> AppState \<Rightarrow> AppState" where
  "apply_search_hits found st =
     st\<lparr>a_search := map_option (\<lambda>s. s\<lparr>ss_hits := found, ss_pending := False,
                                     ss_selected := clamp_index (ss_selected s) (length found)\<rparr>) (a_search st)\<rparr>"

definition close_search :: "AppState \<Rightarrow> AppState" where
  "close_search st =
     normalize_active_pane
       (case a_search st of
          Some s \<Rightarrow> st\<lparr>a_search := None, a_active := ss_previous_pane s\<rparr>
        | None \<Rightarrow> st)"

definition move_search_selection :: "int \<Rightarrow> AppState \<Rightarrow> bool \<times> AppState" where
  "move_search_selection delta st =
     (case a_search st of
        None \<Rightarrow> (False, st)
      | Some s \<Rightarrow>
          if ss_hits s = [] then (False, st\<lparr>a_search := Some (s\<lparr>ss_selected := 0\<rparr>)\<rparr>)
          else
            (case move_index (ss_selected s) (length (ss_hits s)) delta of
               (i, changed) \<Rightarrow> (changed, st\<lparr>a_search := Some (s\<lparr>ss_selected := i\<rparr>)\<rparr>)))"

definition search_query :: "AppState \<Rightarrow> rstr option" where
  "search_query st = map_option ss_query (a_search st)"

definition search_scope_account :: "AppState \<Rightarrow> uuid option" where
  "search_scope_account st = Option.bind (a_search st) ss_scope_account"

definition search_is_pending :: "AppState \<Rightarrow> bool" where
  "search_is_pending st = (case a_search st of Some s \<Rightarrow> ss_pending s | None \<Rightarrow> False)"

definition jump_to_hit :: "SearchHit \<Rightarrow> AppState \<Rightarrow> bool \<times> AppState" where
  "jump_to_hit hit st =
     (case index_where (\<lambda>a. ai_id a = sh_account_id hit) (a_accounts st) of
        None \<Rightarrow> (False, st)
      | Some account_index \<Rightarrow>
          (let st1 = (if a_selected_account st \<noteq> account_index
                      then (clear_detail_state (st\<lparr>a_selected_account := account_index, a_folders := [],
                              a_folder_messages := [], a_threads := [], a_messages := []\<rparr>))
                             \<lparr>a_selected_folder := 0, a_selected_thread := 0\<rparr>
                      else st);
               st2 = (case index_where (\<lambda>f. fi_id f = sh_folder_id hit) (a_folders st1) of
                        Some i \<Rightarrow> st1\<lparr>a_selected_folder := i\<rparr> | None \<Rightarrow> st1);
               st3 = (case index_where (\<lambda>m. mi_id m = sh_message_id hit) (a_messages st2) of
                        Some i \<Rightarrow> st2\<lparr>a_selected_message := i\<rparr> | None \<Rightarrow> st2) in
           (True, normalize_active_pane (st3\<lparr>a_search := None, a_active := PaneConversations\<rparr>))))"

subsection \<open>Moving the selection\<close>

definition move_selection :: "int \<Rightarrow> AppState \<Rightarrow> bool \<times> AppState" where
  "move_selection delta st =
     (case a_active st of
        PaneAccounts \<Rightarrow>
          (case move_index (a_selected_account st) (length (a_accounts st)) delta of
             (i, changed) \<Rightarrow>
               (changed, if changed then reset_to_virtual_folders (st\<lparr>a_selected_account := i\<rparr>)
                         else st\<lparr>a_selected_account := i\<rparr>))
      | PaneFolders \<Rightarrow>
          (case move_index (a_selected_folder st) (length (a_folders st)) delta of
             (i, changed) \<Rightarrow>
               (changed, if changed then reset_folder_contents (st\<lparr>a_selected_folder := i\<rparr>)
                         else st\<lparr>a_selected_folder := i\<rparr>))
      | PaneConversations \<Rightarrow>
          if approvals_folder_selected st then move_approval_selection delta st
          else if drafts_pane_active st then
            (case move_index (a_selected_draft st) (length (a_drafts st)) delta of
               (i, changed) \<Rightarrow>
                 (changed, if changed then clear_detail_state (st\<lparr>a_selected_draft := i\<rparr>)
                           else st\<lparr>a_selected_draft := i\<rparr>))
          else
            (case move_index (a_selected_thread st) (length (a_threads st)) delta of
               (i, changed) \<Rightarrow>
                 (changed, if changed
                           then clear_detail_state (refresh_visible_messages
                                  (st\<lparr>a_selected_thread := i, a_selected_message := 0\<rparr>))
                           else st\<lparr>a_selected_thread := i\<rparr>))
      | PaneDetails \<Rightarrow> if approvals_folder_selected st then move_approval_selection delta st else (False, st)
      | PaneAttachments \<Rightarrow>
          if \<not> attachments_pane_visible st then (False, normalize_active_pane st)
          else if a_preview_focused st then move_preview_line delta st
          else
            (case move_index (a_selected_attachment st) (length (a_attachments st)) delta of
               (i, changed) \<Rightarrow>
                 (changed, if changed
                           then reset_preview_navigation_state
                                  (st\<lparr>a_selected_attachment := i, a_attachment_preview := None\<rparr>)
                           else st\<lparr>a_selected_attachment := i\<rparr>))
      | PaneSearch \<Rightarrow> move_search_selection delta st)"

definition account_named :: "tui_env \<Rightarrow> rstr \<Rightarrow> AccountItem \<Rightarrow> bool" where
  "account_named env lowered a \<longleftrightarrow>
     to_lowercase (te_unicode env) (ai_label a) = lowered \<or> to_lowercase (te_unicode env) (ai_email a) = lowered"

definition select_account_by_name :: "tui_env \<Rightarrow> rstr \<Rightarrow> AppState \<Rightarrow> bool \<times> AppState" where
  "select_account_by_name env name st =
     (if trim name = [] then (False, st)
      else
        (case index_where (account_named env (to_lowercase (te_unicode env) (trim name))) (a_accounts st) of
           None \<Rightarrow> (False, st)
         | Some index \<Rightarrow>
             if a_selected_account st = index then (True, st)
             else (True, normalize_active_pane
                     (reset_to_virtual_folders (st\<lparr>a_selected_account := index, a_active := PaneAccounts\<rparr>)))))"

definition account_id_by_name :: "tui_env \<Rightarrow> rstr \<Rightarrow> AppState \<Rightarrow> uuid option" where
  "account_id_by_name env name st =
     (let lowered = to_lowercase (te_unicode env) (trim name) in
      if lowered = [] then None else map_option ai_id (find (account_named env lowered) (a_accounts st)))"

definition select_folder_by_name :: "rstr \<Rightarrow> AppState \<Rightarrow> bool \<times> AppState" where
  "select_folder_by_name name st =
     (let needle = trim name in
      if needle = [] then (False, st)
      else
        (case or_else (index_where (\<lambda>f. fi_name f = needle) (a_folders st))
                (index_where (\<lambda>f. eq_ignore_ascii_case (fi_name f) needle) (a_folders st)) of
           None \<Rightarrow> (False, st)
         | Some index \<Rightarrow>
             if a_selected_folder st = index then (True, st)
             else (True, normalize_active_pane
                     (reset_folder_contents (st\<lparr>a_selected_folder := index, a_active := PaneFolders\<rparr>)))))"

subsection \<open>Optimistic removal and its undo\<close>

definition snapshot_message_list :: "AppState \<Rightarrow> MessageListSnapshot" where
  "snapshot_message_list st =
     \<lparr>mls_folder_messages = a_folder_messages st, mls_selected_thread = a_selected_thread st,
      mls_selected_message = a_selected_message st\<rparr>"

definition remove_message_locally :: "uuid \<Rightarrow> nat \<Rightarrow> AppState \<Rightarrow> bool \<times> AppState" where
  "remove_message_locally message_id now st =
     (let kept = filter (\<lambda>m. mi_id m \<noteq> message_id) (a_folder_messages st) in
      if length kept = length (a_folder_messages st) then (False, st\<lparr>a_folder_messages := kept\<rparr>)
      else
        (let st1 = refresh_visible_messages (rebuild_threads (selected_thread_key st) (st\<lparr>a_folder_messages := kept\<rparr>));
             st2 = (if map_option md_id (a_detail st1) = Some message_id then clear_detail_state st1 else st1);
             st3 = normalize_active_pane st2 in
         (True, store_selected_folder_cache (selected_account_id st3) (selected_folder_id st3) now st3)))"

definition restore_message_list_snapshot :: "MessageListSnapshot \<Rightarrow> nat \<Rightarrow> AppState \<Rightarrow> AppState" where
  "restore_message_list_snapshot s now st =
     (let st1 = rebuild_threads None (st\<lparr>a_folder_messages := mls_folder_messages s\<rparr>);
          st2 = refresh_visible_messages (st1\<lparr>a_selected_thread := clamp_index (mls_selected_thread s) (length (a_threads st1))\<rparr>);
          st3 = normalize_active_pane
                  (st2\<lparr>a_selected_message := clamp_index (mls_selected_message s) (length (a_messages st2))\<rparr>) in
      store_selected_folder_cache (selected_account_id st3) (selected_folder_id st3) now st3)"

definition restore_folder_snapshot :: "FolderSnapshot \<Rightarrow> AppState \<Rightarrow> AppState" where
  "restore_folder_snapshot s st =
     (let st1 = refresh_visible_messages
                  (rebuild_threads (sn_selected_thread_key s) (st\<lparr>a_folder_messages := sn_folder_messages s\<rparr>));
          st2 = (case Option.bind (sn_selected_message_id s) (message_index st1) of
                   Some i \<Rightarrow> st1\<lparr>a_selected_message := i\<rparr> | None \<Rightarrow> st1);
          st3 = st2\<lparr>a_selected_message := clamp_index (a_selected_message st2) (length (a_messages st2))\<rparr> in
      clear_detail_state (normalize_active_pane st3))"

subsection \<open>Pending deletes\<close>

definition begin_draft_delete :: "uuid \<Rightarrow> AppState \<Rightarrow> AppState" where
  "begin_draft_delete draft_id st =
     st\<lparr>a_pending_delete_message := None, a_pending_delete_draft := Some draft_id, a_mode := ModeConfirmDelete\<rparr>"

definition cancel_pending_delete_draft :: "AppState \<Rightarrow> AppState" where
  "cancel_pending_delete_draft st =
     st\<lparr>a_pending_delete_draft := None, a_mode := (if a_mode st = ModeConfirmDelete then ModeNormal else a_mode st)\<rparr>"

definition take_pending_delete_draft :: "AppState \<Rightarrow> uuid option \<times> AppState" where
  "take_pending_delete_draft st =
     (let i = a_pending_delete_draft st in
      (i, st\<lparr>a_pending_delete_draft := None,
             a_mode := (if i \<noteq> None \<and> a_mode st = ModeConfirmDelete then ModeNormal else a_mode st)\<rparr>))"

definition begin_delete_confirmation :: "uuid \<Rightarrow> AppState \<Rightarrow> AppState" where
  "begin_delete_confirmation message_id st =
     set_status (lit ''Delete? y/n'')
       (st\<lparr>a_pending_delete_draft := None, a_pending_delete_message := Some message_id, a_mode := ModeConfirmDelete\<rparr>)"

definition cancel_delete_confirmation :: "AppState \<Rightarrow> AppState" where
  "cancel_delete_confirmation st =
     set_status (lit ''Delete cancelled'') (st\<lparr>a_pending_delete_message := None, a_mode := ModeNormal\<rparr>)"

definition take_pending_delete_message :: "AppState \<Rightarrow> uuid option \<times> AppState" where
  "take_pending_delete_message st =
     (let i = a_pending_delete_message st in
      (i, st\<lparr>a_pending_delete_message := None, a_mode := (if i \<noteq> None then ModeNormal else a_mode st)\<rparr>))"

subsection \<open>The command bar and the theme\<close>

definition enter_command_mode :: "AppState \<Rightarrow> AppState" where
  "enter_command_mode st =
     set_status (lit ''Command mode'') (clear_error (st\<lparr>a_mode := ModeCommand, a_command_input := []\<rparr>))"

definition resting_mode :: "AppState \<Rightarrow> InputMode" where
  "resting_mode st = (if a_composer st \<noteq> None then ModeCompose else ModeNormal)"

definition cancel_command_mode :: "AppState \<Rightarrow> AppState" where
  "cancel_command_mode st =
     set_status (lit ''Command cancelled'') (clear_error (st\<lparr>a_mode := resting_mode st, a_command_input := []\<rparr>))"

definition push_command_char :: "rchar \<Rightarrow> AppState \<Rightarrow> bool \<times> AppState" where
  "push_command_char ch st =
     (if is_control ch \<or> MAX_COMMAND_CHARS \<le> length (a_command_input st) then (False, st)
      else (True, st\<lparr>a_command_input := a_command_input st @ [ch]\<rparr>))"

definition backspace_command :: "AppState \<Rightarrow> bool \<times> AppState" where
  "backspace_command st = (a_command_input st \<noteq> [], st\<lparr>a_command_input := butlast (a_command_input st)\<rparr>)"

definition finish_command :: "AppState \<Rightarrow> rstr \<times> AppState" where
  "finish_command st = (a_command_input st, st\<lparr>a_mode := resting_mode st, a_command_input := []\<rparr>)"

definition cycle_theme :: "AppState \<Rightarrow> ThemeName \<times> AppState" where
  "cycle_theme st = (theme_next (a_theme st), st\<lparr>a_theme := theme_next (a_theme st)\<rparr>)"

definition set_theme :: "ThemeName \<Rightarrow> AppState \<Rightarrow> AppState" where
  "set_theme t st = st\<lparr>a_theme := t\<rparr>"

subsection \<open>The composer commands\<close>

definition open_composer :: "ComposerState \<Rightarrow> AppState \<Rightarrow> AppState" where
  "open_composer c st =
     set_status (lit ''Compose'') (clear_error (st\<lparr>a_composer := Some c, a_mode := ModeCompose\<rparr>))"

definition enter_composer :: "uuid \<Rightarrow> AppState \<Rightarrow> AppState" where
  "enter_composer account_id st = open_composer (composer_new account_id) st"

definition enter_composer_with_prefill :: "uuid \<Rightarrow> ComposerPrefill \<Rightarrow> AppState \<Rightarrow> AppState" where
  "enter_composer_with_prefill account_id prefill st = open_composer (from_prefill account_id prefill) st"

definition enter_composer_for_existing_draft :: "uuid \<Rightarrow> ComposerDraft \<Rightarrow> ComposeField \<Rightarrow> AppState \<Rightarrow> AppState" where
  "enter_composer_for_existing_draft draft_id draft focus st = open_composer (from_existing_draft draft_id draft focus) st"

definition composer_draft :: "AppState \<Rightarrow> ComposerDraft option" where
  "composer_draft st = map_option composer_draft_of (a_composer st)"

definition composer_draft_id :: "AppState \<Rightarrow> uuid option" where
  "composer_draft_id st = Option.bind (a_composer st) cs_draft_id"

definition composer_account_id :: "AppState \<Rightarrow> uuid option" where
  "composer_account_id st = map_option cs_account_id (a_composer st)"

definition composer_is_dirty :: "AppState \<Rightarrow> bool" where
  "composer_is_dirty st = (case a_composer st of Some c \<Rightarrow> cs_dirty c | None \<Rightarrow> False)"

definition on_composer :: "(ComposerState \<Rightarrow> ComposerState) \<Rightarrow> AppState \<Rightarrow> AppState" where
  "on_composer f st = st\<lparr>a_composer := map_option f (a_composer st)\<rparr>"

text \<open>\<^verbatim>\<open>self.composer.as_mut().is_some_and(f)\<close>\<close>

definition composer_some_and :: "(ComposerState \<Rightarrow> bool \<times> ComposerState) \<Rightarrow> AppState \<Rightarrow> bool \<times> AppState" where
  "composer_some_and f st =
     (case a_composer st of
        None \<Rightarrow> (False, st)
      | Some c \<Rightarrow> (case f c of (b, c') \<Rightarrow> (b, st\<lparr>a_composer := Some c'\<rparr>)))"

text \<open>An edit of the composer that marks it dirty when it changed something; \<open>None\<close> where the edit panics.\<close>

definition composer_edit :: "(ComposerState \<Rightarrow> (bool \<times> ComposerState) option) \<Rightarrow> AppState \<Rightarrow> (bool \<times> AppState) option" where
  "composer_edit f st =
     (case a_composer st of
        None \<Rightarrow> Some (False, st)
      | Some c \<Rightarrow>
          map_option (\<lambda>(changed, c'). (changed,
            st\<lparr>a_composer := Some (if changed then c'\<lparr>cs_dirty := True\<rparr> else c')\<rparr>)) (f c))"

definition mark_composer_saved :: "uuid \<Rightarrow> AppState \<Rightarrow> AppState" where
  "mark_composer_saved draft_id st = on_composer (\<lambda>c. c\<lparr>cs_draft_id := Some draft_id, cs_dirty := False\<rparr>) st"

definition exit_composer :: "AppState \<Rightarrow> AppState" where
  "exit_composer st = st\<lparr>a_composer := None, a_mode := ModeNormal\<rparr>"

definition discard_composer :: "AppState \<Rightarrow> AppState" where
  "discard_composer st =
     set_status (lit ''Composer discarded'') (clear_error (st\<lparr>a_composer := None, a_mode := ModeNormal\<rparr>))"

definition composer_needs_discard_confirmation :: "AppState \<Rightarrow> bool" where
  "composer_needs_discard_confirmation st =
     (case a_composer st of Some c \<Rightarrow> cs_dirty c \<and> has_content c | None \<Rightarrow> False)"

definition begin_discard_composer_confirmation :: "AppState \<Rightarrow> AppState" where
  "begin_discard_composer_confirmation st =
     set_status (lit ''Discard unsaved compose? y/n'') (st\<lparr>a_mode := ModeConfirmDiscard\<rparr>)"

definition cancel_discard_composer_confirmation :: "AppState \<Rightarrow> AppState" where
  "cancel_discard_composer_confirmation st = set_status (lit ''Compose'') (st\<lparr>a_mode := ModeCompose\<rparr>)"

definition next_composer_field :: "AppState \<Rightarrow> AppState" where
  "next_composer_field st =
     on_composer (\<lambda>c. c\<lparr>cs_focused := field_next (cs_focused c), cs_body_preferred_column := None\<rparr>) st"

definition previous_composer_field :: "AppState \<Rightarrow> AppState" where
  "previous_composer_field st =
     on_composer (\<lambda>c. c\<lparr>cs_focused := field_previous (cs_focused c), cs_body_preferred_column := None\<rparr>) st"

definition push_composer_char :: "rchar \<Rightarrow> AppState \<Rightarrow> (bool \<times> AppState) option" where
  "push_composer_char ch st =
     composer_edit (\<lambda>c.
       if is_control ch \<or> field_limit c \<le> field_len c then Some (False, c)
       else map_option (\<lambda>c'. (True, c')) (insert_focused_char ch c)) st"

definition backspace_composer :: "AppState \<Rightarrow> (bool \<times> AppState) option" where
  "backspace_composer st = composer_edit delete_before_focused_cursor st"

definition delete_composer :: "AppState \<Rightarrow> (bool \<times> AppState) option" where
  "delete_composer st = composer_edit delete_at_focused_cursor st"

definition delete_word_before_composer_cursor :: "AppState \<Rightarrow> (bool \<times> AppState) option" where
  "delete_word_before_composer_cursor st = composer_edit delete_word_before_cursor st"

definition move_composer_cursor_left :: "AppState \<Rightarrow> bool \<times> AppState" where
  "move_composer_cursor_left st = composer_some_and move_focused_cursor_left st"

definition move_composer_cursor_right :: "AppState \<Rightarrow> bool \<times> AppState" where
  "move_composer_cursor_right st = composer_some_and move_focused_cursor_right st"

definition composer_home :: "AppState \<Rightarrow> bool \<times> AppState" where
  "composer_home st = composer_some_and move_focused_cursor_home st"

definition composer_end :: "AppState \<Rightarrow> bool \<times> AppState" where
  "composer_end st = composer_some_and move_focused_cursor_end st"

definition move_composer_body_line :: "int \<Rightarrow> nat \<Rightarrow> AppState \<Rightarrow> bool \<times> AppState" where
  "move_composer_body_line delta viewport_height st = composer_some_and (move_body_line delta viewport_height) st"

definition toggle_composer_body_line_selection :: "AppState \<Rightarrow> bool \<times> AppState" where
  "toggle_composer_body_line_selection st = composer_some_and toggle_body_line_selection st"

definition start_composer_body_line_selection :: "AppState \<Rightarrow> bool \<times> AppState" where
  "start_composer_body_line_selection st = composer_some_and start_body_line_selection st"

definition clear_composer_body_selection :: "AppState \<Rightarrow> bool \<times> AppState" where
  "clear_composer_body_selection st = composer_some_and clear_body_selection st"

definition composer_enter :: "AppState \<Rightarrow> (bool \<times> AppState) option" where
  "composer_enter st =
     (case a_composer st of
        None \<Rightarrow> Some (False, st)
      | Some c \<Rightarrow>
          if cs_focused c = BodyField then
            (if MAX_COMPOSE_BODY_CHARS \<le> length (cs_body c) then Some (False, st)
             else map_option (\<lambda>c'. (True, st\<lparr>a_composer := Some (c'\<lparr>cs_dirty := True\<rparr>)\<rparr>)) (insert_body_newline c))
          else Some (True, st\<lparr>a_composer := Some (c\<lparr>cs_focused := field_next (cs_focused c)\<rparr>)\<rparr>))"

definition begin_compose_attach :: "AppState \<Rightarrow> bool \<times> AppState" where
  "begin_compose_attach st =
     (case a_composer st of
        None \<Rightarrow> (False, st)
      | Some c \<Rightarrow> (True, st\<lparr>a_composer := Some (c\<lparr>cs_attach_input := []\<rparr>), a_mode := ModeComposeAttachPath\<rparr>))"

definition cancel_compose_attach :: "AppState \<Rightarrow> AppState" where
  "cancel_compose_attach st = (on_composer (\<lambda>c. c\<lparr>cs_attach_input := []\<rparr>) st)\<lparr>a_mode := ModeCompose\<rparr>"

definition push_compose_attach_char :: "rchar \<Rightarrow> AppState \<Rightarrow> bool \<times> AppState" where
  "push_compose_attach_char ch st =
     composer_some_and (\<lambda>c.
       if is_control ch \<or> MAX_COMPOSE_PATH_CHARS \<le> length (cs_attach_input c) then (False, c)
       else (True, c\<lparr>cs_attach_input := cs_attach_input c @ [ch]\<rparr>)) st"

definition backspace_compose_attach :: "AppState \<Rightarrow> bool \<times> AppState" where
  "backspace_compose_attach st =
     composer_some_and (\<lambda>c. (cs_attach_input c \<noteq> [], c\<lparr>cs_attach_input := butlast (cs_attach_input c)\<rparr>)) st"

definition compose_attach_input :: "AppState \<Rightarrow> rstr option" where
  "compose_attach_input st = map_option cs_attach_input (a_composer st)"

definition confirm_compose_attach :: "'w daemon_env \<Rightarrow> 'w \<Rightarrow> AppState \<Rightarrow> (AttachError, rstr) result \<times> AppState" where
  "confirm_compose_attach env w st =
     (case a_composer st of
        None \<Rightarrow> (Err (AttachIo [] (lit ''no composer'')), st)
      | Some c \<Rightarrow>
          (let raw = trim (cs_attach_input c) in
           if raw = [] then (Err (AttachNotFound (lit ''(empty)'')), st)
           else
             (case probe_attachment env w raw of
                Err e \<Rightarrow> (Err e, st)
              | Ok attachment \<Rightarrow>
                  (let aggregate = saturating_add_u64 (aggregate_attachment_size c) (ca_size_bytes attachment) in
                   if aggregate > MAX_COMPOSE_ATTACHMENT_BYTES then (Err (AttachAggregateTooLarge aggregate), st)
                   else (Ok (ca_filename attachment),
                         st\<lparr>a_composer := Some (c\<lparr>cs_attachments := cs_attachments c @ [attachment], cs_attach_input := [],
                                                 cs_dirty := True, cs_selected_attachment := length (cs_attachments c)\<rparr>),
                            a_mode := ModeCompose\<rparr>)))))"

definition remove_selected_compose_attachment :: "AppState \<Rightarrow> rstr option \<times> AppState" where
  "remove_selected_compose_attachment st =
     (case a_composer st of
        None \<Rightarrow> (None, st)
      | Some c \<Rightarrow>
          if cs_attachments c = [] then (None, st)
          else
            (let index = min (cs_selected_attachment c) (length (cs_attachments c) - 1);
                 removed = cs_attachments c ! index;
                 rest = remove_nth index (cs_attachments c);
                 sel = (if rest = [] then 0
                        else if length rest \<le> cs_selected_attachment c then length rest - 1
                        else cs_selected_attachment c) in
             (Some (ca_filename removed),
              st\<lparr>a_composer := Some (c\<lparr>cs_attachments := rest, cs_selected_attachment := sel, cs_dirty := True\<rparr>)\<rparr>)))"

definition move_compose_attachment_selection :: "int \<Rightarrow> AppState \<Rightarrow> bool \<times> AppState" where
  "move_compose_attachment_selection delta st =
     composer_some_and (\<lambda>c.
       if cs_attachments c = [] then (False, c)
       else (case move_index (cs_selected_attachment c) (length (cs_attachments c)) delta of
               (i, changed) \<Rightarrow> (changed, c\<lparr>cs_selected_attachment := i\<rparr>))) st"

end
