(* ===== verification/TuiInv.thy ===== *)
theory TuiInv
  imports TuiOps
begin

text \<open>
  Invariants of the terminal interface: every selection points into its list, the focused pane is
  visible, the conversation list is the grouping of the folder's messages, the overlays and queues stay
  within their bounds, and the composer stays consistent; each kept by every operation.
\<close>

subsection \<open>The invariants\<close>

text \<open>An index into a list is only looked at when the list is not empty.\<close>

definition index_ok :: "nat \<Rightarrow> 'a list \<Rightarrow> bool" where
  "index_ok i xs \<longleftrightarrow> xs = [] \<or> i < length xs"

definition threads_current :: "ThreadItem list \<Rightarrow> MessageItem list \<Rightarrow> bool" where
  "threads_current ts ms \<longleftrightarrow> ts = build_threads ms"

definition lists_ok :: "AppState \<Rightarrow> bool" where
  "lists_ok st \<longleftrightarrow>
     index_ok (a_selected_account st) (a_accounts st) \<and>
     index_ok (a_selected_folder st) (a_folders st) \<and>
     index_ok (a_selected_thread st) (a_threads st) \<and>
     index_ok (a_selected_message st) (a_messages st) \<and>
     index_ok (a_selected_attachment st) (a_attachments st) \<and>
     index_ok (a_selected_draft st) (a_drafts st) \<and>
     index_ok (aps_selected (a_approvals st)) (aps_items (a_approvals st)) \<and>
     (\<forall>s. a_search st = Some s \<longrightarrow> index_ok (ss_selected s) (ss_hits s)) \<and>
     threads_current (a_threads st) (a_folder_messages st)"

definition pane_ok :: "AppState \<Rightarrow> bool" where
  "pane_ok st \<longleftrightarrow> pane_visible st (a_active st)"

definition overlays_ok :: "AppState \<Rightarrow> bool" where
  "overlays_ok st \<longleftrightarrow>
     (a_preview_focused st \<longrightarrow> a_attachment_preview st \<noteq> None) \<and>
     (a_preview_selection st \<noteq> None \<longrightarrow> a_preview_focused st) \<and>
     length (a_toasts st) \<le> MAX_TOASTS \<and>
     sorted_wrt approval_le (aps_items (a_approvals st)) \<and>
     distinct (map it_id (aps_items (a_approvals st))) \<and>
     (a_pending_delete_message st = None \<or> a_pending_delete_draft st = None) \<and>
     (a_mode st = ModeConfirmDelete \<longrightarrow> a_pending_delete_message st \<noteq> None \<or> a_pending_delete_draft st \<noteq> None) \<and>
     length (a_command_input st) \<le> MAX_COMMAND_CHARS \<and> length (a_search_input st) \<le> MAX_SEARCH_CHARS \<and>
     cache_wf (a_folder_cache st)"

definition composer_inv :: "AppState \<Rightarrow> bool" where
  "composer_inv st \<longleftrightarrow>
     (\<forall>c. a_composer st = Some c \<longrightarrow>
        composer_ok c \<and> index_ok (cs_selected_attachment c) (cs_attachments c) \<and>
        length (cs_attach_input c) \<le> MAX_COMPOSE_PATH_CHARS)"

definition app_inv :: "AppState \<Rightarrow> bool" where
  "app_inv st \<longleftrightarrow> lists_ok st \<and> pane_ok st \<and> overlays_ok st \<and> composer_inv st"

subsection \<open>The shape of the helpers\<close>

definition norm_pane :: "AppState \<Rightarrow> ActivePane" where
  "norm_pane st = a_active (normalize_active_pane st)"

lemma normalize_eq: "normalize_active_pane st = st\<lparr>a_active := norm_pane st\<rparr>"
  by (simp add: norm_pane_def normalize_active_pane_def Let_def)

lemma pane_visible_active [simp]: "pane_visible (st\<lparr>a_active := p\<rparr>) q = pane_visible st q"
  by (simp add: pane_visible_def detail_pane_visible_def attachments_pane_visible_def search_pane_visible_def
      approvals_folder_selected_def split: ActivePane.splits)

lemma norm_pane_visible: "pane_visible st (norm_pane st)"
  by (cases "a_active st")
     (auto simp: norm_pane_def normalize_active_pane_def Let_def pane_visible_def detail_pane_visible_def
       attachments_pane_visible_def search_pane_visible_def approvals_folder_selected_def)

lemma norm_pane_id: "pane_visible st (a_active st) \<Longrightarrow> norm_pane st = a_active st"
  by (cases "a_active st") (auto simp: norm_pane_def normalize_active_pane_def pane_visible_def)

lemma normalize_pane_ok [simp]: "pane_ok (normalize_active_pane st)"
  by (simp add: pane_ok_def normalize_eq norm_pane_visible)

text \<open>What the visibility of a pane depends on.\<close>

lemma pane_visible_cong:
  assumes "a_folders st = a_folders st'" "a_selected_folder st = a_selected_folder st'"
    "(a_detail st = None) = (a_detail st' = None)" "(a_attachments st = []) = (a_attachments st' = [])"
    "(a_search st = None) = (a_search st' = None)"
  shows "pane_visible st p = pane_visible st' p"
  using assms
  by (simp add: pane_visible_def detail_pane_visible_def attachments_pane_visible_def search_pane_visible_def
      approvals_folder_selected_def split: ActivePane.splits)

lemma pane_ok_cong:
  assumes "a_active st = a_active st'" "a_folders st = a_folders st'" "a_selected_folder st = a_selected_folder st'"
    "(a_detail st = None) = (a_detail st' = None)" "(a_attachments st = []) = (a_attachments st' = [])"
    "(a_search st = None) = (a_search st' = None)"
  shows "pane_ok st = pane_ok st'"
  using assms pane_visible_cong [of st st'] by (simp add: pane_ok_def)

lemma pane_ok_plain: "a_active st \<in> {PaneAccounts, PaneFolders, PaneConversations} \<Longrightarrow> pane_ok st"
  by (auto simp: pane_ok_def pane_visible_def)

lemma lists_ok_cong:
  assumes "a_selected_account st = a_selected_account st'" "a_accounts st = a_accounts st'"
    "a_selected_folder st = a_selected_folder st'" "a_folders st = a_folders st'"
    "a_selected_thread st = a_selected_thread st'" "a_threads st = a_threads st'"
    "a_selected_message st = a_selected_message st'" "a_messages st = a_messages st'"
    "a_selected_attachment st = a_selected_attachment st'" "a_attachments st = a_attachments st'"
    "a_selected_draft st = a_selected_draft st'" "a_drafts st = a_drafts st'"
    "a_approvals st = a_approvals st'" "a_search st = a_search st'" "a_folder_messages st = a_folder_messages st'"
  shows "lists_ok st = lists_ok st'"
  using assms by (simp add: lists_ok_def)

lemma overlays_ok_cong:
  assumes "a_preview_focused st = a_preview_focused st'" "a_attachment_preview st = a_attachment_preview st'"
    "a_preview_selection st = a_preview_selection st'" "a_toasts st = a_toasts st'" "a_approvals st = a_approvals st'"
    "a_pending_delete_message st = a_pending_delete_message st'" "a_pending_delete_draft st = a_pending_delete_draft st'"
    "a_mode st = a_mode st'" "a_command_input st = a_command_input st'" "a_search_input st = a_search_input st'"
    "a_folder_cache st = a_folder_cache st'"
  shows "overlays_ok st = overlays_ok st'"
  using assms by (simp add: overlays_ok_def)

lemma composer_inv_cong: "a_composer st = a_composer st' \<Longrightarrow> composer_inv st = composer_inv st'"
  by (simp add: composer_inv_def)

text \<open>The lists left empty by a reset of the detail, and the fields it does not touch.\<close>

lemma clear_attachments_eq:
  "clear_attachments st =
     (let st1 = st\<lparr>a_attachments := [], a_attachment_preview := None, a_selected_attachment := 0,
                  a_pending_open_attachment := None, a_preview_focused := False, a_preview_scroll := 0,
                  a_preview_selection := None\<rparr> in
      st1\<lparr>a_active := norm_pane st1\<rparr>)"
  by (simp add: clear_attachments_def normalize_eq reset_preview_navigation_state_def Let_def)

lemma clear_attachments_pane [simp]: "pane_ok (clear_attachments st)"
  by (simp add: clear_attachments_def)

lemma clear_detail_pane [simp]: "pane_ok (clear_detail_state st)"
  by (simp add: clear_detail_state_def)

lemma clear_attachments_lists: "lists_ok st \<Longrightarrow> lists_ok (clear_attachments st)"
  by (simp add: clear_attachments_eq Let_def lists_ok_def index_ok_def)

lemma clear_attachments_overlays: "overlays_ok st \<Longrightarrow> overlays_ok (clear_attachments st)"
  by (simp add: clear_attachments_eq Let_def overlays_ok_def)

lemma clear_attachments_composer [simp]: "a_composer (clear_attachments st) = a_composer st"
  by (simp add: clear_attachments_eq Let_def)

lemma clear_attachments_frame [simp]:
  "a_folders (clear_attachments st) = a_folders st" "a_selected_folder (clear_attachments st) = a_selected_folder st"
  "a_detail (clear_attachments st) = a_detail st" "a_attachments (clear_attachments st) = []"
  "a_search (clear_attachments st) = a_search st" "a_folder_messages (clear_attachments st) = a_folder_messages st"
  "a_threads (clear_attachments st) = a_threads st" "a_messages (clear_attachments st) = a_messages st"
  "a_accounts (clear_attachments st) = a_accounts st" "a_selected_account (clear_attachments st) = a_selected_account st"
  "a_selected_thread (clear_attachments st) = a_selected_thread st"
  "a_selected_message (clear_attachments st) = a_selected_message st"
  "a_conversation_detail (clear_attachments st) = a_conversation_detail st"
  by (simp_all add: clear_attachments_eq Let_def)

lemma clear_detail_lists: "lists_ok st \<Longrightarrow> lists_ok (clear_detail_state st)"
  unfolding clear_detail_state_def
  by (rule clear_attachments_lists) (simp add: reset_detail_navigation_state_def lists_ok_def)

lemma clear_detail_overlays: "overlays_ok st \<Longrightarrow> overlays_ok (clear_detail_state st)"
  unfolding clear_detail_state_def
  by (rule clear_attachments_overlays) (simp add: reset_detail_navigation_state_def overlays_ok_def)

lemma clear_detail_frame [simp]:
  "a_composer (clear_detail_state st) = a_composer st"
  "a_folders (clear_detail_state st) = a_folders st" "a_selected_folder (clear_detail_state st) = a_selected_folder st"
  "a_detail (clear_detail_state st) = None" "a_attachments (clear_detail_state st) = []"
  "a_search (clear_detail_state st) = a_search st" "a_folder_messages (clear_detail_state st) = a_folder_messages st"
  "a_threads (clear_detail_state st) = a_threads st" "a_messages (clear_detail_state st) = a_messages st"
  "a_accounts (clear_detail_state st) = a_accounts st" "a_selected_account (clear_detail_state st) = a_selected_account st"
  "a_selected_thread (clear_detail_state st) = a_selected_thread st"
  "a_selected_message (clear_detail_state st) = a_selected_message st"
  by (simp_all add: clear_detail_state_def reset_detail_navigation_state_def)

subsection \<open>Indices\<close>

lemma index_ok_Nil [simp]: "index_ok i []"
  by (simp add: index_ok_def)

lemma index_ok_clamp [simp]: "index_ok (clamp_index i (length xs)) xs"
  by (cases xs) (auto simp: index_ok_def clamp_index_def)

lemma index_ok_move: "move_index i (length xs) d = (j, b) \<Longrightarrow> index_ok j xs"
  using move_index_less [of "length xs" i d] by (cases "xs = []") (auto simp: index_ok_def)

lemma index_ok_position: "index_where P xs = Some i \<Longrightarrow> index_ok i xs"
  by (simp add: index_ok_def index_where_Some)

lemma index_ok_same_length: "length xs = length ys \<Longrightarrow> index_ok i xs = index_ok i ys"
  by (auto simp: index_ok_def)

subsection \<open>Rebuilding conversations and messages\<close>

text \<open>The clauses about other lists than the conversations and the shown messages.\<close>

definition base_lists_ok :: "AppState \<Rightarrow> bool" where
  "base_lists_ok st \<longleftrightarrow>
     index_ok (a_selected_account st) (a_accounts st) \<and>
     index_ok (a_selected_folder st) (a_folders st) \<and>
     index_ok (a_selected_attachment st) (a_attachments st) \<and>
     index_ok (a_selected_draft st) (a_drafts st) \<and>
     index_ok (aps_selected (a_approvals st)) (aps_items (a_approvals st)) \<and>
     (\<forall>s. a_search st = Some s \<longrightarrow> index_ok (ss_selected s) (ss_hits s))"

lemma lists_ok_parts:
  "lists_ok st \<longleftrightarrow> base_lists_ok st \<and> index_ok (a_selected_thread st) (a_threads st) \<and>
     index_ok (a_selected_message st) (a_messages st) \<and> threads_current (a_threads st) (a_folder_messages st)"
  by (auto simp: lists_ok_def base_lists_ok_def)

lemma rebuild_threads_eq:
  "\<exists>i. rebuild_threads k st = st\<lparr>a_threads := build_threads (a_folder_messages st), a_selected_thread := i\<rparr> \<and>
       index_ok i (build_threads (a_folder_messages st))"
proof (cases "Option.bind k (\<lambda>k. index_where (\<lambda>t. ti_key t = k) (build_threads (a_folder_messages st)))")
  case None
  then show ?thesis
    by (intro exI [of _ "clamp_index (a_selected_thread st) (length (build_threads (a_folder_messages st)))"])
       (simp add: rebuild_threads_def Let_def)
next
  case (Some i)
  then have "index_ok i (build_threads (a_folder_messages st))"
    by (cases k) (simp_all add: index_ok_position)
  then show ?thesis using Some by (intro exI [of _ i]) (simp add: rebuild_threads_def Let_def)
qed

lemma refresh_messages_eq:
  "\<exists>i. refresh_visible_messages st = st\<lparr>a_messages := visible_messages st, a_selected_message := i\<rparr> \<and>
       index_ok i (visible_messages st)"
proof -
  let ?st1 = "st\<lparr>a_messages := visible_messages st\<rparr>"
  have shape: "refresh_visible_messages st = ?st1\<lparr>a_selected_message :=
      (if visible_messages st = [] then 0
       else case Option.bind (selected_message_id st) (message_index ?st1) of
              Some i \<Rightarrow> i | None \<Rightarrow> length (visible_messages st) - 1)\<rparr>"
    by (simp add: refresh_visible_messages_def Let_def split: option.split)
  have "index_ok (if visible_messages st = [] then 0
       else case Option.bind (selected_message_id st) (message_index ?st1) of
              Some i \<Rightarrow> i | None \<Rightarrow> length (visible_messages st) - 1) (visible_messages st)"
  proof (cases "Option.bind (selected_message_id st) (message_index ?st1)")
    case None
    then show ?thesis by (simp add: index_ok_def)
  next
    case (Some i)
    then have "index_ok i (visible_messages st)"
      by (cases "selected_message_id st") (simp_all add: message_index_def index_ok_position)
    then show ?thesis using Some by simp
  qed
  then show ?thesis unfolding shape by blast
qed

text \<open>Rebuilding the conversations and then showing the selected one's messages.\<close>

lemma rebuild_refresh_eq:
  "\<exists>i ms j. refresh_visible_messages (rebuild_threads k st) =
     st\<lparr>a_threads := build_threads (a_folder_messages st), a_selected_thread := i, a_messages := ms, a_selected_message := j\<rparr> \<and>
     index_ok i (build_threads (a_folder_messages st)) \<and> index_ok j ms"
proof -
  obtain i where i: "rebuild_threads k st = st\<lparr>a_threads := build_threads (a_folder_messages st), a_selected_thread := i\<rparr>"
    "index_ok i (build_threads (a_folder_messages st))"
    using rebuild_threads_eq by blast
  then show ?thesis using refresh_messages_eq [of "rebuild_threads k st"] by auto
qed

lemma rebuild_refresh_lists: "base_lists_ok st \<Longrightarrow> lists_ok (refresh_visible_messages (rebuild_threads k st))"
  using rebuild_refresh_eq [of k st] by (auto simp: lists_ok_parts base_lists_ok_def threads_current_def)

lemma rebuild_refresh_frame:
  "overlays_ok (refresh_visible_messages (rebuild_threads k st)) = overlays_ok st"
  "pane_ok (refresh_visible_messages (rebuild_threads k st)) = pane_ok st"
  "a_composer (refresh_visible_messages (rebuild_threads k st)) = a_composer st"
  "a_detail (refresh_visible_messages (rebuild_threads k st)) = a_detail st"
proof -
  obtain i ms j where r: "refresh_visible_messages (rebuild_threads k st) =
     st\<lparr>a_threads := build_threads (a_folder_messages st), a_selected_thread := i, a_messages := ms, a_selected_message := j\<rparr>"
    using rebuild_refresh_eq by blast
  show "overlays_ok (refresh_visible_messages (rebuild_threads k st)) = overlays_ok st"
    unfolding r by (rule overlays_ok_cong) simp_all
  show "pane_ok (refresh_visible_messages (rebuild_threads k st)) = pane_ok st"
    unfolding r by (rule pane_ok_cong) simp_all
  show "a_composer (refresh_visible_messages (rebuild_threads k st)) = a_composer st"
    "a_detail (refresh_visible_messages (rebuild_threads k st)) = a_detail st"
    unfolding r by simp_all
qed

text \<open>Storing a listing changes the cache only.\<close>

lemma folder_cache_store_eq:
  "cache_wf (a_folder_cache st) \<Longrightarrow>
   \<exists>c. store_selected_folder_cache a f now st = st\<lparr>a_folder_cache := c\<rparr> \<and> cache_wf c"
proof -
  assume wf: "cache_wf (a_folder_cache st)"
  then have "\<exists>c. st = st\<lparr>a_folder_cache := c\<rparr> \<and> cache_wf c" by (intro exI [of _ "a_folder_cache st"]) simp
  then show ?thesis
    using cache_store_wf [OF wf]
    by (auto simp: store_selected_folder_cache_def folder_cache_store_def split: option.splits)
qed

lemma cache_update_ok [simp]:
  "lists_ok (st\<lparr>a_folder_cache := c\<rparr>) = lists_ok st" "pane_ok (st\<lparr>a_folder_cache := c\<rparr>) = pane_ok st"
  "cache_wf c \<Longrightarrow> overlays_ok st \<Longrightarrow> overlays_ok (st\<lparr>a_folder_cache := c\<rparr>)"
  "composer_inv (st\<lparr>a_folder_cache := c\<rparr>) = composer_inv st"
     apply (rule lists_ok_cong; simp)
    apply (rule pane_ok_cong; simp)
   apply (simp add: overlays_ok_def)
  apply (simp add: composer_inv_def)
  done

lemma store_cache_ok: "app_inv st \<Longrightarrow> app_inv (store_selected_folder_cache a f now st)"
proof -
  assume inv: "app_inv st"
  then have "cache_wf (a_folder_cache st)" by (simp add: app_inv_def overlays_ok_def)
  then obtain c where "store_selected_folder_cache a f now st = st\<lparr>a_folder_cache := c\<rparr>" "cache_wf c"
    using folder_cache_store_eq by blast
  then show ?thesis using inv by (simp add: app_inv_def)
qed

lemma normalize_inv: "lists_ok st \<Longrightarrow> overlays_ok st \<Longrightarrow> composer_inv st \<Longrightarrow> app_inv (normalize_active_pane st)"
  unfolding app_inv_def
  by (intro conjI normalize_pane_ok)
     (simp_all add: normalize_eq lists_ok_def overlays_ok_def composer_inv_def)

lemma clear_detail_inv: "lists_ok st \<Longrightarrow> overlays_ok st \<Longrightarrow> composer_inv st \<Longrightarrow> app_inv (clear_detail_state st)"
  unfolding app_inv_def
  by (intro conjI clear_detail_pane clear_detail_lists clear_detail_overlays)
     (simp_all add: composer_inv_def)

lemma clear_attachments_inv: "lists_ok st \<Longrightarrow> overlays_ok st \<Longrightarrow> composer_inv st \<Longrightarrow> app_inv (clear_attachments st)"
  unfolding app_inv_def
  by (intro conjI clear_attachments_pane clear_attachments_lists clear_attachments_overlays)
     (simp_all add: composer_inv_def)

lemma build_threads_Nil [simp]: "build_threads [] = []"
  by (simp add: build_threads_def group_threads_def)

lemma clear_listing_inv:
  assumes "base_lists_ok st" "overlays_ok st" "composer_inv st"
  shows "app_inv (clear_listing st)"
  unfolding clear_listing_def clear_drafts_def
  by (rule clear_detail_inv)
     (use assms in \<open>simp_all add: lists_ok_parts base_lists_ok_def threads_current_def overlays_ok_def composer_inv_def\<close>)

lemma clear_listing_frame [simp]:
  "a_folders (clear_listing st) = a_folders st" "a_selected_folder (clear_listing st) = a_selected_folder st"
  "a_detail (clear_listing st) = None" "a_attachments (clear_listing st) = []" "a_search (clear_listing st) = a_search st"
  "a_threads (clear_listing st) = []" "a_messages (clear_listing st) = []" "a_folder_messages (clear_listing st) = []"
  "a_accounts (clear_listing st) = a_accounts st" "a_selected_account (clear_listing st) = a_selected_account st"
  by (simp_all add: clear_listing_def clear_drafts_def)

lemma reset_folder_contents_inv:
  assumes "base_lists_ok st" "overlays_ok st" "composer_inv st"
  shows "app_inv (reset_folder_contents st)"
proof -
  let ?c = "clear_listing st"
  have c: "app_inv ?c" using assms by (rule clear_listing_inv)
  have "pane_ok (?c\<lparr>a_selected_thread := 0, a_selected_message := 0\<rparr>) = pane_ok ?c"
    by (rule pane_ok_cong) simp_all
  then show ?thesis
    using c by (simp add: reset_folder_contents_def app_inv_def lists_ok_def overlays_ok_def composer_inv_def)
qed

lemma virtual_selected [simp]: "a_folders st = virtual_folders \<Longrightarrow> a_selected_folder st = 0 \<Longrightarrow> approvals_folder_selected st"
  by (simp add: approvals_folder_selected_def virtual_folders_def list_get_def is_approvals_virtual_def approvals_virtual_def)

lemma reset_to_virtual_folders_inv:
  assumes "index_ok (a_selected_account st) (a_accounts st)" "base_lists_ok (st\<lparr>a_selected_account := i, a_folders := fs, a_selected_folder := n\<rparr>)" "overlays_ok st" "composer_inv st"
  shows "app_inv (reset_to_virtual_folders st)"
proof -
  let ?c = "clear_listing (st\<lparr>a_folders := virtual_folders\<rparr>)"
  let ?r = "?c\<lparr>a_selected_folder := 0, a_selected_thread := 0, a_selected_message := 0\<rparr>"
  have p: "pane_ok ?c" by (simp add: clear_listing_def)
  have sel: "approvals_folder_selected ?r" by (rule virtual_selected) simp_all
  have vis: "pane_visible ?c (a_active ?c)" using p by (simp add: pane_ok_def)
  have "pane_ok ?r"
    using vis sel
    by (cases "a_active ?c")
       (auto simp: pane_ok_def pane_visible_def detail_pane_visible_def attachments_pane_visible_def search_pane_visible_def)
  moreover have "overlays_ok ?c"
    unfolding clear_listing_def clear_drafts_def
    by (rule clear_detail_overlays) (use assms(3) in \<open>simp add: overlays_ok_def\<close>)
  then have "overlays_ok ?r" by (simp add: overlays_ok_def)
  moreover have "lists_ok ?r"
    using assms(1,2)
    by (simp add: lists_ok_parts base_lists_ok_def threads_current_def index_ok_def virtual_folders_def
        clear_listing_def clear_drafts_def clear_detail_state_def clear_attachments_eq Let_def reset_detail_navigation_state_def)
  moreover have "composer_inv ?r"
    using assms(4) by (simp add: composer_inv_def clear_listing_def clear_drafts_def)
  ultimately show ?thesis by (simp add: app_inv_def reset_to_virtual_folders_def)
qed

end
