(* ===== verification/TuiSteps.thy ===== *)
theory TuiSteps
  imports TuiInv
begin

text \<open>
  The terminal interface as a state machine: one rule per operation of \<^verbatim>\<open>AppState\<close> that changes the state,
  in four relations by theme, and the invariant of \<open>TuiInv\<close> along every run.
\<close>

subsection \<open>Operations on panes and lists\<close>

inductive list_step :: "tui_env \<Rightarrow> AppState \<Rightarrow> AppState \<Rightarrow> bool" for env where
  cycle: "list_step env st (cycle_active_pane st)"
| cycle_reverse: "list_step env st (cycle_active_pane_reverse st)"
| move_selection: "list_step env st (snd (move_selection d st))"
| accounts: "list_step env st (apply_accounts as st)"
| folders: "list_step env st (apply_folders fs st)"
| messages: "list_step env st (apply_messages ms st)"
| folder_messages: "list_step env st (apply_folder_messages ms now st)"
| drafts: "list_step env st (apply_drafts ds st)"
| remove_draft: "list_step env st (snd (remove_draft_locally i st))"
| detail: "list_step env st (apply_detail dt now st)"
| attachments: "list_step env st (apply_attachments ats st)"
| message_flags: "list_step env st (apply_message_flags i flags now st)"
| conversation_detail: "list_step env st (cache_conversation_detail d now st)"
| conversation_focus: "list_step env st (snd (move_conversation_detail_focus delta st))"
| toggle_expansion: "list_step env st (snd (toggle_focused_message_expansion st))"
| expand_all: "list_step env st (snd (expand_all_conversation_messages st))"
| remove_message: "list_step env st (snd (remove_message_locally i now st))"
| restore_list: "list_step env st (restore_message_list_snapshot s now st)"
| restore_folder: "list_step env st (restore_folder_snapshot fsn st)"
| select_account: "list_step env st (snd (select_account_by_name env name st))"
| select_folder: "list_step env st (snd (select_folder_by_name name st))"
| select_approvals: "list_step env st (snd (select_approvals_folder st))"
| jump: "list_step env st (snd (jump_to_hit hit st))"
| toggle_attachments: "list_step env st (snd (toggle_attachment_focus st))"
| cache_lookup: "list_step env st (snd (folder_cache_lookup a f now st))"
| cache_invalidate_folder: "list_step env st (folder_cache_invalidate_folder a f st)"
| cache_invalidate_account: "list_step env st (folder_cache_invalidate_account a st)"

lemma app_invD:
  assumes "app_inv st"
  shows "lists_ok st" "pane_ok st" "overlays_ok st" "composer_inv st" "base_lists_ok st"
  using assms by (auto simp: app_inv_def lists_ok_parts)

text \<open>The fields the invariant depends on.\<close>

definition core :: "AppState \<Rightarrow> _" where
  "core st =
     ((a_active st, a_mode st, a_accounts st, a_folders st, a_folder_messages st, a_folder_cache st, a_threads st,
       a_messages st, a_detail st = None),
      (a_attachments st, a_attachment_preview st, a_preview_focused st, a_preview_selection st, a_selected_account st,
       a_selected_folder st, a_selected_thread st, a_selected_message st, a_selected_attachment st),
      (a_pending_delete_message st, a_command_input st, a_composer st, a_toasts st, a_search st, a_approvals st,
       a_search_input st, a_drafts st, a_selected_draft st, a_pending_delete_draft st))"

lemma core_eq: "core st = core st' \<Longrightarrow> app_inv st = app_inv st'"
  unfolding core_def app_inv_def
  using lists_ok_cong [of st st'] pane_ok_cong [of st st'] overlays_ok_cong [of st st'] composer_inv_cong [of st st']
  by simp

lemma find_pane_visible: "find_pane move vis n p = Some q \<Longrightarrow> vis q"
  by (induction n arbitrary: p) (auto split: if_splits)

lemma active_inv: "app_inv st \<Longrightarrow> pane_visible st p \<Longrightarrow> app_inv (st\<lparr>a_active := p\<rparr>)"
  by (simp add: app_inv_def pane_ok_def lists_ok_def overlays_ok_def composer_inv_def)

lemma next_pane_visible: "pane_ok st \<Longrightarrow> pane_visible st (next_visible_pane st)"
  using find_pane_visible [of pane_next "pane_visible st" 6 "a_active st"]
  by (cases "find_pane pane_next (pane_visible st) 6 (a_active st)") (auto simp: next_visible_pane_def pane_ok_def)

lemma previous_pane_visible: "pane_ok st \<Longrightarrow> pane_visible st (previous_visible_pane st)"
  using find_pane_visible [of pane_previous "pane_visible st" 6 "a_active st"]
  by (cases "find_pane pane_previous (pane_visible st) 6 (a_active st)") (auto simp: previous_visible_pane_def pane_ok_def)

lemma detail_some_pane: "pane_ok st \<Longrightarrow> pane_ok (st\<lparr>a_detail := Some d\<rparr>)"
  by (auto simp: pane_ok_def pane_visible_def detail_pane_visible_def attachments_pane_visible_def search_pane_visible_def
      approvals_folder_selected_def split: ActivePane.splits)

lemma detail_some_inv: "app_inv st \<Longrightarrow> app_inv (st\<lparr>a_detail := Some d\<rparr>)"
  using detail_some_pane [of st d] by (simp add: app_inv_def lists_ok_def overlays_ok_def composer_inv_def)

lemma redraw_core [simp]: "core (redraw_detail st) = core st"
  by (simp add: core_def redraw_detail_def place_detail_cursor_at_focused_message_def reset_detail_navigation_state_def
      rebuild_detail_text_cache_def Let_def)

lemma rebuild_cache_core [simp]: "core (rebuild_detail_text_cache st) = core st"
  by (simp add: core_def rebuild_detail_text_cache_def)

lemma conversation_core [simp]: "core (st\<lparr>a_conversation_detail := c\<rparr>) = core st"
  by (simp add: core_def)

lemma redraw_inv [simp]: "app_inv (redraw_detail st) = app_inv st"
  by (rule core_eq) simp

lemma rebuild_cache_inv [simp]: "app_inv (rebuild_detail_text_cache st) = app_inv st"
  by (rule core_eq) simp

lemma conversation_inv [simp]: "app_inv (st\<lparr>a_conversation_detail := c\<rparr>) = app_inv st"
  by (rule core_eq) simp

subsection \<open>Selections\<close>

lemma approvals_selection_inv:
  "app_inv st \<Longrightarrow> index_ok i (aps_items (a_approvals st)) \<Longrightarrow>
   app_inv (st\<lparr>a_approvals := (a_approvals st)\<lparr>aps_selected := i\<rparr>\<rparr>)"
  using pane_ok_cong [of "st\<lparr>a_approvals := (a_approvals st)\<lparr>aps_selected := i\<rparr>\<rparr>" st]
  by (simp add: app_inv_def lists_ok_def overlays_ok_def composer_inv_def)

lemma move_approval_inv: "app_inv st \<Longrightarrow> app_inv (snd (move_approval_selection d st))"
  using index_ok_move [of "aps_selected (a_approvals st)" "aps_items (a_approvals st)" d]
  by (auto simp: move_approval_selection_def Let_def intro!: approvals_selection_inv split: prod.splits)

lemma search_update_inv:
  "app_inv st \<Longrightarrow> a_search st = Some s \<Longrightarrow> index_ok (ss_selected s') (ss_hits s') \<Longrightarrow> app_inv (st\<lparr>a_search := Some s'\<rparr>)"
  using pane_ok_cong [of "st\<lparr>a_search := Some s'\<rparr>" st]
  by (simp add: app_inv_def lists_ok_def overlays_ok_def composer_inv_def)

lemma move_search_inv: "app_inv st \<Longrightarrow> app_inv (snd (move_search_selection d st))"
proof (cases "a_search st")
  case (Some s)
  assume "app_inv st"
  then show ?thesis
    using Some index_ok_move [of "ss_selected s" "ss_hits s" d]
    by (auto simp: move_search_selection_def intro!: search_update_inv split: prod.splits)
qed (simp add: move_search_selection_def)

lemma selected_inv:
  assumes "app_inv st"
  shows "index_ok i (a_accounts st) \<Longrightarrow> app_inv (st\<lparr>a_selected_account := i\<rparr>)"
    and "index_ok i (a_threads st) \<Longrightarrow> app_inv (st\<lparr>a_selected_thread := i\<rparr>)"
    and "index_ok i (a_messages st) \<Longrightarrow> app_inv (st\<lparr>a_selected_message := i\<rparr>)"
    and "index_ok i (a_attachments st) \<Longrightarrow> app_inv (st\<lparr>a_selected_attachment := i\<rparr>)"
    and "index_ok i (a_drafts st) \<Longrightarrow> app_inv (st\<lparr>a_selected_draft := i\<rparr>)"
  using assms pane_ok_cong [of "st\<lparr>a_selected_account := i\<rparr>" st] pane_ok_cong [of "st\<lparr>a_selected_thread := i\<rparr>" st]
    pane_ok_cong [of "st\<lparr>a_selected_message := i\<rparr>" st] pane_ok_cong [of "st\<lparr>a_selected_attachment := i\<rparr>" st]
    pane_ok_cong [of "st\<lparr>a_selected_draft := i\<rparr>" st]
  by (simp_all add: app_inv_def lists_ok_def overlays_ok_def composer_inv_def)

lemma preview_reset_inv: "app_inv st \<Longrightarrow> app_inv (reset_preview_navigation_state (st\<lparr>a_attachment_preview := None\<rparr>))"
  using pane_ok_cong [of "reset_preview_navigation_state (st\<lparr>a_attachment_preview := None\<rparr>)" st]
  by (simp add: app_inv_def lists_ok_def overlays_ok_def composer_inv_def reset_preview_navigation_state_def)

lemma move_preview_inv: "app_inv st \<Longrightarrow> app_inv (snd (move_preview_line d st))"
proof -
  assume inv: "app_inv st"
  have "app_inv (st\<lparr>a_preview_selection := Some p\<rparr>)" if "a_preview_focused st" for p
    using inv that pane_ok_cong [of "st\<lparr>a_preview_selection := Some p\<rparr>" st]
    by (simp add: app_inv_def lists_ok_def overlays_ok_def composer_inv_def)
  moreover have "app_inv (st\<lparr>a_preview_scroll := n\<rparr>)" for n
    using inv core_eq [of "st\<lparr>a_preview_scroll := n\<rparr>" st] by (simp add: core_def)
  ultimately show ?thesis
    using inv
    by (auto simp: move_preview_line_def scroll_preview_def is_preview_focus_active_def Let_def split: option.splits)
qed

lemma base_lists_update:
  "base_lists_ok st \<Longrightarrow> index_ok i (a_folders st) \<Longrightarrow> base_lists_ok (st\<lparr>a_selected_folder := i\<rparr>)"
  "base_lists_ok st \<Longrightarrow> base_lists_ok (st\<lparr>a_folder_messages := ms\<rparr>)"
  "base_lists_ok st \<Longrightarrow> base_lists_ok (st\<lparr>a_active := p\<rparr>)"
  by (simp_all add: base_lists_ok_def)

lemma overlays_update [simp]:
  "overlays_ok (st\<lparr>a_selected_folder := i\<rparr>) = overlays_ok st" "overlays_ok (st\<lparr>a_folder_messages := ms\<rparr>) = overlays_ok st"
  "overlays_ok (st\<lparr>a_active := p\<rparr>) = overlays_ok st" "overlays_ok (st\<lparr>a_selected_account := i\<rparr>) = overlays_ok st"
  "overlays_ok (st\<lparr>a_folders := fs\<rparr>) = overlays_ok st" "overlays_ok (st\<lparr>a_messages := ms\<rparr>) = overlays_ok st"
  "overlays_ok (st\<lparr>a_selected_message := i\<rparr>) = overlays_ok st" "overlays_ok (st\<lparr>a_threads := ts\<rparr>) = overlays_ok st"
  "overlays_ok (st\<lparr>a_selected_thread := i\<rparr>) = overlays_ok st" "overlays_ok (st\<lparr>a_search := s\<rparr>) = overlays_ok st"
  "overlays_ok (st\<lparr>a_detail := dt\<rparr>) = overlays_ok st" "overlays_ok (st\<lparr>a_accounts := as\<rparr>) = overlays_ok st"
  by (simp_all add: overlays_ok_def)

lemma composer_update [simp]:
  "composer_inv (st\<lparr>a_selected_folder := i\<rparr>) = composer_inv st" "composer_inv (st\<lparr>a_folder_messages := ms\<rparr>) = composer_inv st"
  "composer_inv (st\<lparr>a_active := p\<rparr>) = composer_inv st" "composer_inv (st\<lparr>a_selected_account := i\<rparr>) = composer_inv st"
  "composer_inv (st\<lparr>a_folders := fs\<rparr>) = composer_inv st" "composer_inv (st\<lparr>a_messages := ms\<rparr>) = composer_inv st"
  "composer_inv (st\<lparr>a_selected_message := i\<rparr>) = composer_inv st" "composer_inv (st\<lparr>a_threads := ts\<rparr>) = composer_inv st"
  "composer_inv (st\<lparr>a_selected_thread := i\<rparr>) = composer_inv st" "composer_inv (st\<lparr>a_search := s\<rparr>) = composer_inv st"
  "composer_inv (st\<lparr>a_detail := dt\<rparr>) = composer_inv st" "composer_inv (st\<lparr>a_accounts := as\<rparr>) = composer_inv st"
  by (simp_all add: composer_inv_def)

lemma switch_account_inv:
  assumes "app_inv st" "index_ok i (a_accounts st)"
  shows "app_inv (reset_to_virtual_folders (st\<lparr>a_selected_account := i\<rparr>))"
  using assms
  by (intro reset_to_virtual_folders_inv [where i = i and fs = "a_folders st" and n = "a_selected_folder st"])
     (simp_all add: app_inv_def lists_ok_parts base_lists_ok_def)

lemma switch_folder_inv:
  assumes "app_inv st" "index_ok i (a_folders st)"
  shows "app_inv (reset_folder_contents (st\<lparr>a_selected_folder := i\<rparr>))"
  using assms app_invD [OF assms(1)] by (intro reset_folder_contents_inv) (simp_all add: base_lists_update)

lemma show_thread_inv:
  assumes "app_inv st" "index_ok i (a_threads st)"
  shows "app_inv (clear_detail_state (refresh_visible_messages (st\<lparr>a_selected_thread := i, a_selected_message := n\<rparr>)))"
proof -
  let ?s = "st\<lparr>a_selected_thread := i, a_selected_message := n\<rparr>"
  obtain j where "refresh_visible_messages ?s = ?s\<lparr>a_messages := visible_messages ?s, a_selected_message := j\<rparr>"
    "index_ok j (visible_messages ?s)"
    using refresh_messages_eq [of ?s] by blast
  then show ?thesis
    using assms by (intro clear_detail_inv) (simp_all add: app_inv_def lists_ok_def)
qed

lemma move_selection_inv:
  assumes "app_inv st"
  shows "app_inv (snd (move_selection d st))"
proof (cases "a_active st")
  case PaneAccounts
  then show ?thesis
    using assms index_ok_move [of "a_selected_account st" "a_accounts st" d]
    by (auto simp: move_selection_def switch_account_inv selected_inv split: prod.splits)
next
  case PaneFolders
  have "app_inv (st\<lparr>a_selected_folder := i\<rparr>)" if "index_ok i (a_folders st)" for i
    using assms that PaneFolders pane_ok_plain [of "st\<lparr>a_selected_folder := i\<rparr>"]
    by (simp add: app_inv_def lists_ok_def)
  then show ?thesis
    using PaneFolders assms index_ok_move [of "a_selected_folder st" "a_folders st" d]
    by (auto simp: move_selection_def switch_folder_inv split: prod.splits)
next
  case PaneConversations
  have "app_inv (clear_detail_state (st\<lparr>a_selected_draft := i\<rparr>))" if "index_ok i (a_drafts st)" for i
    using selected_inv(5) [OF assms that] app_invD by (intro clear_detail_inv) blast+
  then show ?thesis
    using PaneConversations assms index_ok_move [of "a_selected_draft st" "a_drafts st" d]
      index_ok_move [of "a_selected_thread st" "a_threads st" d]
    by (auto simp: move_selection_def move_approval_inv selected_inv show_thread_inv split: prod.splits)
next
  case PaneDetails
  then show ?thesis using assms by (simp add: move_selection_def move_approval_inv)
next
  case PaneAttachments
  have "app_inv (reset_preview_navigation_state (st\<lparr>a_selected_attachment := i, a_attachment_preview := None\<rparr>))"
    if "index_ok i (a_attachments st)" for i
    using preview_reset_inv [OF selected_inv(4) [OF assms that]] by simp
  then show ?thesis
    using PaneAttachments assms app_invD [OF assms] index_ok_move [of "a_selected_attachment st" "a_attachments st" d]
    by (auto simp: move_selection_def normalize_inv move_preview_inv selected_inv split: prod.splits)
next
  case PaneSearch
  then show ?thesis using assms by (simp add: move_selection_def move_search_inv)
qed

subsection \<open>Lists from the daemon\<close>

lemma retain_accounts_wf: "cache_wf c \<Longrightarrow> cache_wf (retain_accounts ids c)"
  using cache_apply_wf [of c "OpRetainAccounts ids"] by simp

lemma apply_accounts_inv:
  assumes "app_inv st"
  shows "app_inv (apply_accounts as st)"
proof -
  let ?st1 = "st\<lparr>a_folder_cache := retain_accounts (map ai_id as) (a_folder_cache st),
      a_account_states := (\<lambda>i. if i \<in> set (map ai_id as) then a_account_states st i else None),
      a_accounts := as, a_selected_account := clamp_index (a_selected_account st) (length as)\<rparr>"
  note inv = app_invD [OF assms]
  have "app_inv (reset_to_virtual_folders ?st1)"
    by (rule reset_to_virtual_folders_inv [where i = 0 and fs = "a_folders st" and n = "a_selected_folder st"])
       (use inv in \<open>simp_all add: base_lists_ok_def overlays_ok_def composer_inv_def retain_accounts_wf, (simp add: index_ok_def)?\<close>)
  from app_invD [OF this] show ?thesis
    unfolding apply_accounts_def Let_def by (intro normalize_inv) (simp_all add: lists_ok_def)
qed

lemma apply_folders_inv:
  assumes "app_inv st"
  shows "app_inv (apply_folders fs st)"
proof -
  note inv = app_invD [OF assms]
  have ne: "folders_with_approvals fs \<noteq> []" by (simp add: folders_with_approvals_def)
  have pos: "index_ok (unwrap_or 0 (index_where P (folders_with_approvals fs))) (folders_with_approvals fs)" for P
    using ne by (cases "index_where P (folders_with_approvals fs)") (auto simp: index_ok_def dest: index_where_Some)
  have "app_inv (reset_folder_contents (st\<lparr>a_folders := folders_with_approvals fs, a_selected_folder := i\<rparr>))"
    if "index_ok i (folders_with_approvals fs)" for i
    by (rule reset_folder_contents_inv) (use inv that in \<open>simp_all add: base_lists_ok_def\<close>)
  from app_invD [OF this] show ?thesis
    unfolding apply_folders_def Let_def
    by (intro normalize_inv) (simp_all add: pos approvals_folder_index_def)
qed

lemma apply_messages_inv: "app_inv st \<Longrightarrow> app_inv (apply_messages ms st)"
  unfolding apply_messages_def by (rule clear_detail_inv) (simp_all add: app_inv_def lists_ok_def)

lemma relist_inv:
  assumes "app_inv st"
  shows "lists_ok (refresh_visible_messages (rebuild_threads k (st\<lparr>a_folder_messages := ms\<rparr>)))"
    and "overlays_ok (refresh_visible_messages (rebuild_threads k (st\<lparr>a_folder_messages := ms\<rparr>)))"
    and "composer_inv (refresh_visible_messages (rebuild_threads k (st\<lparr>a_folder_messages := ms\<rparr>)))"
  using app_invD [OF assms] rebuild_refresh_frame [of k "st\<lparr>a_folder_messages := ms\<rparr>"]
  by (auto simp: base_lists_update composer_inv_def intro!: rebuild_refresh_lists)

lemma normalize_clear_inv:
  "lists_ok st \<Longrightarrow> overlays_ok st \<Longrightarrow> composer_inv st \<Longrightarrow> app_inv (clear_detail_state (normalize_active_pane st))"
  using app_invD [OF normalize_inv [of st]] by (intro clear_detail_inv) blast+

lemma apply_folder_messages_inv: "app_inv st \<Longrightarrow> app_inv (apply_folder_messages ms now st)"
  unfolding apply_folder_messages_def
  by (rule store_cache_ok, rule normalize_clear_inv) (simp_all only: relist_inv)

lemma apply_drafts_inv: "app_inv st \<Longrightarrow> index_ok i ds \<Longrightarrow> app_inv (st\<lparr>a_drafts := ds, a_selected_draft := i\<rparr>)"
  using pane_ok_cong [of "st\<lparr>a_drafts := ds, a_selected_draft := i\<rparr>" st]
  by (simp add: app_inv_def lists_ok_def overlays_ok_def composer_inv_def)

lemma remove_draft_inv:
  assumes "app_inv st"
  shows "app_inv (snd (remove_draft_locally i st))"
proof -
  have "index_ok (a_selected_draft st) (filter P (a_drafts st))" if "length (filter P (a_drafts st)) = length (a_drafts st)" for P
    using app_invD(1) [OF assms] index_ok_same_length [OF that] by (simp add: lists_ok_def)
  then show ?thesis using assms by (simp add: remove_draft_locally_def Let_def apply_drafts_inv)
qed

lemma apply_attachments_inv:
  assumes "app_inv st"
  shows "app_inv (apply_attachments items st)"
proof -
  note inv = app_invD [OF assms]
  let ?st1 = "st\<lparr>a_attachments := items, a_selected_attachment := clamp_index (a_selected_attachment st) (length items)\<rparr>"
  have st1: "lists_ok ?st1" "overlays_ok ?st1" "composer_inv ?st1"
    using inv by (simp_all add: lists_ok_def overlays_ok_def composer_inv_def)
  have upd: "lists_ok (reset_preview_navigation_state (s\<lparr>a_attachment_preview := None, a_pending_open_attachment := x\<rparr>))"
    "overlays_ok (reset_preview_navigation_state (s\<lparr>a_attachment_preview := None, a_pending_open_attachment := x\<rparr>))"
    "composer_inv (reset_preview_navigation_state (s\<lparr>a_attachment_preview := None, a_pending_open_attachment := x\<rparr>))"
    "a_attachments (reset_preview_navigation_state (s\<lparr>a_attachment_preview := None, a_pending_open_attachment := x\<rparr>)) = a_attachments s"
    if "lists_ok s" "overlays_ok s" "composer_inv s" for s x
    using that by (simp_all add: reset_preview_navigation_state_def lists_ok_def overlays_ok_def composer_inv_def)
  define st2 where "st2 = (case a_attachment_preview ?st1 of
      Some p \<Rightarrow> if Some (pi_attachment_id p) \<noteq> selected_attachment_id ?st1
               then reset_preview_navigation_state (?st1\<lparr>a_attachment_preview := None\<rparr>) else ?st1
    | None \<Rightarrow> ?st1)"
  have st2: "lists_ok st2" "overlays_ok st2" "composer_inv st2"
    using st1 upd [OF st1, of "a_pending_open_attachment st"] by (auto simp: st2_def split: option.splits)
  show ?thesis
    unfolding apply_attachments_def Let_def st2_def [symmetric]
    by (intro normalize_inv) (use st2 in \<open>auto intro: upd\<close>)
qed

subsection \<open>Flags and details\<close>

lemma set_item_flags_length [simp]: "length (set_item_flags i flags ms) = length ms"
  by (simp add: set_item_flags_def)

lemma set_item_flags_Nil [simp]: "set_item_flags i flags ms = [] \<longleftrightarrow> ms = []"
  by (cases ms) (simp_all add: set_item_flags_def)

lemma flags_to_lists_base:
  assumes "app_inv st"
  shows "base_lists_ok (flags_to_lists i flags st)" "overlays_ok (flags_to_lists i flags st)"
    "composer_inv (flags_to_lists i flags st)" "pane_ok (flags_to_lists i flags st)"
    "index_ok (a_selected_message st) (set_item_flags i flags (a_messages st))"
  using app_invD [OF assms] pane_ok_cong [of "flags_to_lists i flags st" st]
    index_ok_same_length [of "set_item_flags i flags (a_messages st)" "a_messages st" "a_selected_message st"]
  by (auto simp: flags_to_lists_def base_lists_ok_def lists_ok_def)

lemma after_flag_change_inv:
  assumes inv: "app_inv st" and d: "d = None \<longleftrightarrow> a_detail st = None"
  shows "app_inv (after_flag_change i k now ((flags_to_lists i flags st)\<lparr>a_detail := d\<rparr>))"
proof -
  let ?s = "(flags_to_lists i flags st)\<lparr>a_detail := d\<rparr>"
  note fl = flags_to_lists_base [OF inv, of i flags]
  have s: "base_lists_ok ?s" "overlays_ok ?s" "composer_inv ?s" "pane_ok ?s"
    using fl pane_ok_cong [of ?s "flags_to_lists i flags st"] d by (simp_all add: base_lists_ok_def flags_to_lists_def)
  have "app_inv (if a_folder_messages ?s \<noteq> [] then refresh_visible_messages (rebuild_threads k ?s) else ?s)"
  proof (cases "a_folder_messages st = []")
    case True
    then have "lists_ok ?s"
      using app_invD(1) [OF inv] s(1) fl(5) by (simp add: lists_ok_parts flags_to_lists_def set_item_flags_def)
    then show ?thesis using True s by (simp add: app_inv_def flags_to_lists_def)
  next
    case False
    then show ?thesis
      using s rebuild_refresh_lists [of ?s k] rebuild_refresh_frame [of k ?s]
      by (simp add: app_inv_def flags_to_lists_def composer_inv_def)
  qed
  then show ?thesis unfolding after_flag_change_def Let_def by (auto intro: store_cache_ok)
qed

lemma after_flag_change_plain:
  "app_inv st \<Longrightarrow> app_inv (after_flag_change i k now (flags_to_lists i flags st))"
  using after_flag_change_inv [of st "a_detail st" i k now flags] by (simp add: flags_to_lists_def)

lemma apply_message_flags_inv: "app_inv st \<Longrightarrow> app_inv (apply_message_flags i flags now st)"
  unfolding apply_message_flags_def Let_def by (rule after_flag_change_inv) (simp_all add: flags_to_lists_def)

lemma update_flags_inv: "app_inv st \<Longrightarrow> app_inv (update_message_flags_from_detail d now st)"
  unfolding update_message_flags_from_detail_def by (rule after_flag_change_plain)

lemma cache_conversation_detail_inv: "app_inv st \<Longrightarrow> app_inv (cache_conversation_detail d now st)"
  using update_flags_inv [of st d now] by (simp add: cache_conversation_detail_def Let_def detail_some_inv)

lemma detail_none_parts:
  "app_inv st \<Longrightarrow> lists_ok (st\<lparr>a_detail := d\<rparr>) \<and> overlays_ok (st\<lparr>a_detail := d\<rparr>) \<and> composer_inv (st\<lparr>a_detail := d\<rparr>)"
  by (simp add: app_inv_def lists_ok_def)

lemma core_parts:
  assumes "core st = core st'"
  shows "lists_ok st = lists_ok st'" "overlays_ok st = overlays_ok st'" "composer_inv st = composer_inv st'"
  using assms lists_ok_cong [of st st'] overlays_ok_cong [of st st'] composer_inv_cong [of st st'] by (simp_all add: core_def)

lemma apply_detail_inv:
  assumes "app_inv st"
  shows "app_inv (apply_detail d now st)"
proof -
  define st1 where "st1 = (if map_option md_id (a_detail st) \<noteq> map_option md_id d then clear_attachments st else st)"
  have "app_inv st1" using assms app_invD [OF assms] by (simp add: st1_def clear_attachments_inv)
  define st2 where "st2 = (case d of None \<Rightarrow> st1 | Some x \<Rightarrow>
      (let u = update_message_flags_from_detail x now st1 in
       u\<lparr>a_conversation_detail := cds_cache_detail x (a_conversation_detail u)\<rparr>))"
  have st2: "app_inv st2" using \<open>app_inv st1\<close> by (simp add: st2_def Let_def update_flags_inv split: option.split)
  define st3 where "st3 = redraw_detail (st2\<lparr>a_detail := d\<rparr>)"
  have st3: "lists_ok st3" "overlays_ok st3" "composer_inv st3"
    using detail_none_parts [OF st2, of d] core_parts [OF redraw_core [of "st2\<lparr>a_detail := d\<rparr>"]] by (simp_all add: st3_def)
  define st4 where "st4 = (if a_active st = PaneDetails \<and> a_detail st3 \<noteq> None then st3\<lparr>a_active := PaneDetails\<rparr> else st3)"
  have st4: "lists_ok st4" "overlays_ok st4" "composer_inv st4" using st3 by (simp_all add: st4_def lists_ok_def)
  show ?thesis
    unfolding apply_detail_def Let_def st1_def [symmetric] st2_def [unfolded Let_def, symmetric]
      st3_def [symmetric] st4_def [symmetric]
    using st4 app_invD [OF clear_attachments_inv [OF st4]] by (auto intro: normalize_inv)
qed

subsection \<open>Conversation stack, undo, and jumps\<close>

lemma conversation_focus_inv:
  assumes "app_inv st"
  shows "app_inv (snd (move_conversation_detail_focus delta st))"
proof -
  have "app_inv (clear_attachments (case x of
      Some d \<Rightarrow> st\<lparr>a_selected_message := n, a_conversation_detail := c, a_detail := Some d\<rparr>
    | None \<Rightarrow> st\<lparr>a_selected_message := n, a_conversation_detail := c\<rparr>))"
    if "index_ok n (a_messages st)" for n c x
  proof -
    have "app_inv (st\<lparr>a_selected_message := n, a_conversation_detail := c\<rparr>)"
      using selected_inv(3) [OF assms that] by simp
    from this detail_some_inv [OF this] show ?thesis
      using app_invD by (cases x) (auto intro!: clear_attachments_inv)
  qed
  note step = this
  have "index_ok (nat (clamp_isize i 0 (int (length (a_messages st)) - 1))) (a_messages st)" for i
    by (cases "a_messages st") (auto simp: index_ok_def clamp_isize_def nat_less_iff)
  from step [OF this] show ?thesis
    using assms by (simp add: move_conversation_detail_focus_def Let_def)
qed

lemma toggle_expansion_inv: "app_inv st \<Longrightarrow> app_inv (snd (toggle_focused_message_expansion st))"
  by (simp add: toggle_focused_message_expansion_def split: prod.split option.split)

lemma expand_all_inv: "app_inv st \<Longrightarrow> app_inv (snd (expand_all_conversation_messages st))"
  by (simp add: expand_all_conversation_messages_def)

lemma store_normalized_inv:
  "lists_ok st \<Longrightarrow> overlays_ok st \<Longrightarrow> composer_inv st \<Longrightarrow>
   app_inv (store_selected_folder_cache a f now (normalize_active_pane st))"
  by (intro store_cache_ok normalize_inv)

lemma filter_same_length: "length (filter P xs) = length xs \<Longrightarrow> filter P xs = xs"
  by (metis filter_True length_filter_less nat_neq_iff)

lemma remove_message_inv:
  assumes "app_inv st"
  shows "app_inv (snd (remove_message_locally i now st))"
proof -
  define kept where "kept = filter (\<lambda>m. mi_id m \<noteq> i) (a_folder_messages st)"
  have same: "length kept = length (a_folder_messages st) \<Longrightarrow> st\<lparr>a_folder_messages := kept\<rparr> = st"
    unfolding kept_def by (simp add: filter_same_length)
  let ?r = "refresh_visible_messages (rebuild_threads (selected_thread_key st) (st\<lparr>a_folder_messages := kept\<rparr>))"
  note r = relist_inv [OF assms, of "selected_thread_key st" kept]
  note c = app_invD [OF clear_detail_inv [OF r]]
  have "app_inv (store_selected_folder_cache a f now (normalize_active_pane
      (if map_option md_id (a_detail ?r) = Some i then clear_detail_state ?r else ?r)))" for a f
    by (rule store_normalized_inv) (use r c in auto)
  then show ?thesis
    using assms same by (simp add: remove_message_locally_def Let_def kept_def [symmetric])
qed

lemma message_index_ok: "message_index st j = Some i \<Longrightarrow> index_ok i (a_messages st)"
  by (simp add: message_index_def index_ok_position)

lemma parts_select_message:
  "lists_ok st \<Longrightarrow> index_ok i (a_messages st) \<Longrightarrow> lists_ok (st\<lparr>a_selected_message := i\<rparr>)"
  by (simp add: lists_ok_def)

lemma restore_list_inv:
  assumes "app_inv st"
  shows "app_inv (restore_message_list_snapshot s now st)"
proof -
  let ?m = "st\<lparr>a_folder_messages := mls_folder_messages s\<rparr>"
  obtain i where i: "rebuild_threads None ?m = ?m\<lparr>a_threads := build_threads (mls_folder_messages s), a_selected_thread := i\<rparr>"
    using rebuild_threads_eq [of None ?m] by auto
  define st1 where "st1 = (rebuild_threads None ?m)\<lparr>a_selected_thread :=
      clamp_index (mls_selected_thread s) (length (a_threads (rebuild_threads None ?m)))\<rparr>"
  obtain j where j: "refresh_visible_messages st1 = st1\<lparr>a_messages := visible_messages st1, a_selected_message := j\<rparr>"
    using refresh_messages_eq [of st1] by blast
  have st1: "base_lists_ok st1" "overlays_ok st1" "composer_inv st1"
    "index_ok (a_selected_thread st1) (a_threads st1)" "threads_current (a_threads st1) (a_folder_messages st1)"
    using app_invD [OF assms] by (simp_all add: st1_def i base_lists_ok_def threads_current_def)
  have "app_inv (store_selected_folder_cache a f now (normalize_active_pane
      ((refresh_visible_messages st1)\<lparr>a_selected_message :=
         clamp_index n (length (a_messages (refresh_visible_messages st1)))\<rparr>)))" for a f n
    by (rule store_normalized_inv) (use st1 in \<open>simp_all add: j lists_ok_parts base_lists_ok_def\<close>)
  then show ?thesis unfolding restore_message_list_snapshot_def Let_def st1_def [symmetric] .
qed

lemma restore_folder_inv:
  assumes "app_inv st"
  shows "app_inv (restore_folder_snapshot s st)"
proof -
  define r where "r = refresh_visible_messages
      (rebuild_threads (sn_selected_thread_key s) (st\<lparr>a_folder_messages := sn_folder_messages s\<rparr>))"
  note rr = relist_inv [OF assms, of "sn_selected_thread_key s" "sn_folder_messages s", folded r_def]
  define q where "q = (case Option.bind (sn_selected_message_id s) (message_index r) of
      Some i \<Rightarrow> r\<lparr>a_selected_message := i\<rparr> | None \<Rightarrow> r)"
  have q: "lists_ok (q\<lparr>a_selected_message := clamp_index (a_selected_message q) (length (a_messages q))\<rparr>)"
    "overlays_ok q" "composer_inv q"
    using rr by (auto simp: q_def parts_select_message split: option.splits)
  then show ?thesis
    unfolding restore_folder_snapshot_def Let_def r_def [symmetric] q_def [symmetric]
    by (intro normalize_clear_inv) simp_all
qed

lemma select_account_inv: "app_inv st \<Longrightarrow> app_inv (snd (select_account_by_name env name st))"
proof -
  assume inv: "app_inv st"
  have acc: "app_inv (st\<lparr>a_active := PaneAccounts\<rparr>)" by (rule active_inv [OF inv]) (simp add: pane_visible_def)
  have "app_inv (normalize_active_pane (reset_to_virtual_folders (st\<lparr>a_selected_account := i, a_active := PaneAccounts\<rparr>)))"
    if "index_where P (a_accounts st) = Some i" for P i
  proof -
    have eq: "st\<lparr>a_selected_account := i, a_active := PaneAccounts\<rparr> = st\<lparr>a_active := PaneAccounts, a_selected_account := i\<rparr>"
      by simp
    have "app_inv (reset_to_virtual_folders (st\<lparr>a_selected_account := i, a_active := PaneAccounts\<rparr>))"
      unfolding eq by (rule switch_account_inv [OF acc]) (simp add: index_ok_position [OF that])
    from app_invD [OF this] show ?thesis by (intro normalize_inv)
  qed
  then show ?thesis using inv by (simp add: select_account_by_name_def split: option.split)
qed

lemma select_folder_inv: "app_inv st \<Longrightarrow> app_inv (snd (select_folder_by_name name st))"
proof -
  assume inv: "app_inv st"
  have act: "app_inv (st\<lparr>a_active := PaneFolders\<rparr>)" by (rule active_inv [OF inv]) (simp add: pane_visible_def)
  have "app_inv (normalize_active_pane (reset_folder_contents (st\<lparr>a_selected_folder := i, a_active := PaneFolders\<rparr>)))"
    if "index_ok i (a_folders st)" for i
  proof -
    have eq: "st\<lparr>a_selected_folder := i, a_active := PaneFolders\<rparr> = st\<lparr>a_active := PaneFolders, a_selected_folder := i\<rparr>"
      by simp
    have "app_inv (reset_folder_contents (st\<lparr>a_selected_folder := i, a_active := PaneFolders\<rparr>))"
      unfolding eq by (rule switch_folder_inv [OF act]) (simp add: that)
    from app_invD [OF this] show ?thesis by (intro normalize_inv)
  qed
  moreover have "index_ok i (a_folders st)" if "or_else (index_where P (a_folders st)) (index_where Q (a_folders st)) = Some i" for P Q i
    using that by (cases "index_where P (a_folders st)") (auto intro: index_ok_position)
  ultimately show ?thesis using inv by (simp add: select_folder_by_name_def Let_def split: option.split)
qed

lemma folders_update_inv:
  assumes "app_inv st" "index_ok i fs"
  shows "app_inv (reset_folder_contents (st\<lparr>a_folders := fs, a_selected_folder := i, a_active := p\<rparr>))"
  by (rule reset_folder_contents_inv) (use app_invD [OF assms(1)] assms(2) in \<open>simp_all add: base_lists_ok_def\<close>)

lemma clear_error_inv [simp]: "app_inv (clear_error st) = app_inv st"
  by (rule core_eq) (simp add: core_def clear_error_def)

lemma set_status_inv [simp]: "app_inv (set_status x st) = app_inv st"
  by (rule core_eq) (simp add: core_def set_status_def)

lemma set_error_inv [simp]: "app_inv (set_error x st) = app_inv st"
  by (rule core_eq) (simp add: core_def set_error_def)

lemma select_approvals_inv:
  assumes "app_inv st"
  shows "app_inv (snd (select_approvals_folder st))"
proof -
  define fs where "fs = (if list_ex is_approvals_virtual (a_folders st) then a_folders st else a_folders st @ [approvals_virtual])"
  have st1: "(if list_ex is_approvals_virtual (a_folders st) then st else st\<lparr>a_folders := a_folders st @ [approvals_virtual]\<rparr>)
      = st\<lparr>a_folders := fs\<rparr>"
    by (simp add: fs_def)
  have "\<exists>f \<in> set fs. is_approvals_virtual f"
    by (auto simp: fs_def list_ex_iff is_approvals_virtual_def approvals_virtual_def)
  then obtain i where i: "index_where is_approvals_virtual fs = Some i"
    using index_where_None [of is_approvals_virtual fs] by auto
  show ?thesis
    unfolding select_approvals_folder_def Let_def st1
    using folders_update_inv [OF assms index_ok_position [OF i]] by (simp add: approvals_folder_index_def i)
qed

lemma jump_inv:
  assumes "app_inv st"
  shows "app_inv (snd (jump_to_hit hit st))"
proof (cases "index_where (\<lambda>a. ai_id a = sh_account_id hit) (a_accounts st)")
  case None
  then show ?thesis using assms by (simp add: jump_to_hit_def)
next
  case (Some i)
  note inv = app_invD [OF assms]
  define st1 where "st1 = (if a_selected_account st \<noteq> i
      then (clear_detail_state (st\<lparr>a_selected_account := i, a_folders := [], a_folder_messages := [], a_threads := [],
              a_messages := []\<rparr>))\<lparr>a_selected_folder := 0, a_selected_thread := 0\<rparr> else st)"
  have "lists_ok (clear_detail_state (st\<lparr>a_selected_account := i, a_folders := [], a_folder_messages := [], a_threads := [],
              a_messages := []\<rparr>))"
    using inv index_ok_position [OF Some]
    by (intro clear_detail_lists) (simp add: lists_ok_parts base_lists_ok_def threads_current_def)
  moreover have "overlays_ok (clear_detail_state (st\<lparr>a_selected_account := i, a_folders := [], a_folder_messages := [],
              a_threads := [], a_messages := []\<rparr>))"
    using inv by (intro clear_detail_overlays) simp
  ultimately have st1: "lists_ok st1" "overlays_ok st1" "composer_inv st1"
    using inv by (simp_all add: st1_def lists_ok_def composer_inv_def)
  define st2 where "st2 = (case index_where (\<lambda>f. fi_id f = sh_folder_id hit) (a_folders st1) of
      Some i \<Rightarrow> st1\<lparr>a_selected_folder := i\<rparr> | None \<Rightarrow> st1)"
  have st2: "lists_ok st2" "overlays_ok st2" "composer_inv st2"
    using st1 index_ok_position [of "\<lambda>f. fi_id f = sh_folder_id hit" "a_folders st1"]
    by (auto simp: st2_def lists_ok_def split: option.splits)
  define st3 where "st3 = (case index_where (\<lambda>m. mi_id m = sh_message_id hit) (a_messages st2) of
      Some i \<Rightarrow> st2\<lparr>a_selected_message := i\<rparr> | None \<Rightarrow> st2)"
  have st3: "lists_ok st3" "overlays_ok st3" "composer_inv st3"
    using st2 index_ok_position [of "\<lambda>m. mi_id m = sh_message_id hit" "a_messages st2"]
    by (auto simp: st3_def lists_ok_def split: option.splits)
  show ?thesis
    unfolding jump_to_hit_def Let_def Some option.case snd_conv st1_def [symmetric] st2_def [symmetric] st3_def [symmetric]
    by (rule normalize_inv) (use st3 in \<open>simp_all add: lists_ok_def\<close>)
qed

lemma toggle_attachments_inv:
  assumes "app_inv st"
  shows "app_inv (snd (toggle_attachment_focus st))"
proof -
  have "app_inv (st\<lparr>a_preview_focused := False, a_preview_selection := None, a_active := PaneConversations\<rparr>)"
    using assms pane_ok_plain [of "st\<lparr>a_preview_focused := False, a_preview_selection := None, a_active := PaneConversations\<rparr>"]
    by (simp add: app_inv_def lists_ok_def overlays_ok_def composer_inv_def)
  moreover have "attachments_pane_visible st \<Longrightarrow> app_inv (st\<lparr>a_active := PaneAttachments\<rparr>)"
    by (rule active_inv [OF assms]) (simp add: pane_visible_def)
  ultimately show ?thesis
    using app_invD [OF assms] by (simp add: toggle_attachment_focus_def normalize_inv)
qed

lemma cache_update_inv: "app_inv st \<Longrightarrow> cache_wf c \<Longrightarrow> app_inv (st\<lparr>a_folder_cache := c\<rparr>)"
  by (simp add: app_inv_def)

lemma app_cache_wf: "app_inv st \<Longrightarrow> cache_wf (a_folder_cache st)"
  by (simp add: app_inv_def overlays_ok_def)

lemma cache_ops_inv:
  assumes "app_inv st"
  shows "app_inv (snd (folder_cache_lookup a f now st))" "app_inv (folder_cache_invalidate_folder a f st)"
    "app_inv (folder_cache_invalidate_account a st)"
  using cache_update_inv [OF assms] cache_lookup_wf [OF app_cache_wf [OF assms], of a f now]
    cache_apply_wf [OF app_cache_wf [OF assms], of "OpInvalidateFolder a f"]
    cache_apply_wf [OF app_cache_wf [OF assms], of "OpInvalidateAccount a"]
  by (auto simp: folder_cache_lookup_def folder_cache_invalidate_folder_def folder_cache_invalidate_account_def
      split: prod.split)

lemma list_step_inv: "list_step env st st' \<Longrightarrow> app_inv st \<Longrightarrow> app_inv st'"
proof (induction rule: list_step.induct)
  case (cycle st)
  then show ?case by (simp add: cycle_active_pane_def active_inv next_pane_visible app_invD)
next
  case (cycle_reverse st)
  then show ?case by (simp add: cycle_active_pane_reverse_def active_inv previous_pane_visible app_invD)
next
  case (drafts st ds)
  then show ?case by (simp add: TuiApp.apply_drafts_def apply_drafts_inv)
qed (simp_all add: move_selection_inv apply_accounts_inv apply_folders_inv apply_messages_inv apply_folder_messages_inv
       remove_draft_inv apply_detail_inv apply_attachments_inv apply_message_flags_inv cache_conversation_detail_inv
       conversation_focus_inv toggle_expansion_inv expand_all_inv remove_message_inv restore_list_inv restore_folder_inv
       select_account_inv select_folder_inv select_approvals_inv jump_inv toggle_attachments_inv cache_ops_inv)

end
