(* ===== verification/TuiMachine.thy ===== *)
theory TuiMachine
  imports TuiSteps
begin

text \<open>
  The rest of the state machine of the terminal interface: overlays, queues and the composer, the
  whole step relation, and the properties that hold along every run.
\<close>

subsection \<open>Overlays, queues and input lines\<close>

inductive overlay_step :: "tui_env \<Rightarrow> AppState \<Rightarrow> AppState \<Rightarrow> bool" for env where
  preview: "overlay_step env st (apply_attachment_preview p st)"
| preview_scroll: "overlay_step env st (snd (scroll_preview d h st))"
| preview_top: "overlay_step env st (snd (scroll_preview_to_top st))"
| preview_bottom: "overlay_step env st (snd (scroll_preview_to_bottom h st))"
| preview_line: "overlay_step env st (snd (move_preview_line d st))"
| preview_select: "overlay_step env st (snd (toggle_preview_selection st))"
| preview_unselect: "overlay_step env st (snd (clear_preview_selection st))"
| preview_focus: "overlay_step env st (snd (focus_preview st))"
| preview_defocus: "overlay_step env st (snd (defocus_preview st))"
| detail_left: "overlay_step env st (snd (move_detail_cursor_left st))"
| detail_right: "overlay_step env st (snd (move_detail_cursor_right st))"
| detail_home: "overlay_step env st (snd (detail_home st))"
| detail_end: "overlay_step env st (snd (detail_end st))"
| detail_line: "overlay_step env st (snd (move_detail_line d h st))"
| detail_select: "overlay_step env st (snd (toggle_detail_line_selection st))"
| detail_start_select: "overlay_step env st (snd (start_detail_line_selection st))"
| detail_unselect: "overlay_step env st (snd (clear_detail_selection st))"
| open_attachment: "overlay_step env st (snd (begin_open_attachment_confirmation st))"
| open_cancel: "overlay_step env st (cancel_open_attachment_confirmation st)"
| open_take: "overlay_step env st (snd (take_pending_open_attachment st))"
| status: "overlay_step env st (set_status msg st)"
| error: "overlay_step env st (set_error msg st)"
| error_cleared: "overlay_step env st (clear_error st)"
| help_toggle: "overlay_step env st (snd (toggle_help st))"
| help_open: "overlay_step env st (snd (open_help st))"
| help_close: "overlay_step env st (close_help st)"
| help_down: "overlay_step env st (scroll_help_down n st)"
| help_up: "overlay_step env st (scroll_help_up n st)"
| help_home: "overlay_step env st (scroll_help_home st)"
| help_end: "overlay_step env st (scroll_help_end n st)"
| toast: "overlay_step env st (snd (push_toast kind msg now st))"
| toast_dismiss: "overlay_step env st (snd (dismiss_newest_toast st))"
| toast_clear: "overlay_step env st (snd (clear_toasts st))"
| toast_tick: "overlay_step env st (tick_toasts now st)"
| toast_mail: "overlay_step env st (push_mail_new_toast env a fo now st)"
| toast_synced: "overlay_step env st (push_account_synced_toast env a now st)"
| toast_refusal: "overlay_step env st (push_pane_refusal_toast msg now st)"
| sync_state: "overlay_step env st (apply_sync_state env a state le now st)"
| theme_cycle: "overlay_step env st (snd (cycle_theme st))"
| theme_set: "overlay_step env st (set_theme t st)"

text \<open>
  Search, approvals, pending deletes and the command bar.  The approvals of an authoritative list have
  distinct ids (they are the primary keys of the table); the quick search is cancelled with the pane
  it was opened from still visible, since no other key is handled in between.
\<close>

inductive prompt_step :: "tui_env \<Rightarrow> AppState \<Rightarrow> AppState \<Rightarrow> bool" for env where
  search_enter: "prompt_step env st (enter_quick_search st)"
| search_cancel: "pane_visible st (a_search_input_previous_pane st) \<Longrightarrow> prompt_step env st (cancel_quick_search st)"
| search_push: "prompt_step env st (snd (push_search_char ch st))"
| search_backspace: "prompt_step env st (snd (backspace_search st))"
| search_finish: "prompt_step env st (snd (finish_quick_search st))"
| search_begin: "prompt_step env st (begin_search q scope st)"
| search_hits: "prompt_step env st (apply_search_hits found st)"
| search_close: "prompt_step env st (close_search st)"
| search_move: "prompt_step env st (snd (move_search_selection d st))"
| approvals_begin: "prompt_step env st (begin_approvals st)"
| approvals_apply: "distinct (map it_id items) \<Longrightarrow> prompt_step env st (apply_approvals items st)"
| approvals_move: "prompt_step env st (snd (move_approval_selection d st))"
| approvals_remove: "prompt_step env st (snd (remove_selected_approval st))"
| approvals_remove_id: "prompt_step env st (snd (remove_approval_by_id i st))"
| approvals_merge: "prompt_step env st (merge_approval_request ap st)"
| draft_delete: "prompt_step env st (begin_draft_delete i st)"
| draft_delete_cancel: "prompt_step env st (cancel_pending_delete_draft st)"
| draft_delete_take: "prompt_step env st (snd (take_pending_delete_draft st))"
| message_delete: "prompt_step env st (begin_delete_confirmation i st)"
| message_delete_cancel: "prompt_step env st (cancel_delete_confirmation st)"
| message_delete_take: "prompt_step env st (snd (take_pending_delete_message st))"
| command_enter: "prompt_step env st (enter_command_mode st)"
| command_cancel: "prompt_step env st (cancel_command_mode st)"
| command_push: "prompt_step env st (snd (push_command_char ch st))"
| command_backspace: "prompt_step env st (snd (backspace_command st))"
| command_finish: "prompt_step env st (snd (finish_command st))"

inductive composer_step :: "'w daemon_env \<Rightarrow> AppState \<Rightarrow> AppState \<Rightarrow> bool" for denv where
  open_new: "composer_step denv st (enter_composer a st)"
| open_prefill: "composer_step denv st (enter_composer_with_prefill a p st)"
| open_draft: "composer_step denv st (enter_composer_for_existing_draft i d focus st)"
| saved: "composer_step denv st (mark_composer_saved i st)"
| closed: "composer_step denv st (exit_composer st)"
| discarded: "composer_step denv st (discard_composer st)"
| discard_begin: "composer_step denv st (begin_discard_composer_confirmation st)"
| discard_cancel: "composer_step denv st (cancel_discard_composer_confirmation st)"
| field_forward: "composer_step denv st (next_composer_field st)"
| field_back: "composer_step denv st (previous_composer_field st)"
| typed: "push_composer_char ch st = Some (b, st') \<Longrightarrow> composer_step denv st st'"
| backspace: "backspace_composer st = Some (b, st') \<Longrightarrow> composer_step denv st st'"
| deleted: "delete_composer st = Some (b, st') \<Longrightarrow> composer_step denv st st'"
| word_deleted: "delete_word_before_composer_cursor st = Some (b, st') \<Longrightarrow> composer_step denv st st'"
| entered: "composer_enter st = Some (b, st') \<Longrightarrow> composer_step denv st st'"
| cursor_left: "composer_step denv st (snd (move_composer_cursor_left st))"
| cursor_right: "composer_step denv st (snd (move_composer_cursor_right st))"
| cursor_home: "composer_step denv st (snd (composer_home st))"
| cursor_end: "composer_step denv st (snd (composer_end st))"
| cursor_line: "composer_step denv st (snd (move_composer_body_line delta h st))"
| select_toggle: "composer_step denv st (snd (toggle_composer_body_line_selection st))"
| select_start: "composer_step denv st (snd (start_composer_body_line_selection st))"
| select_clear: "composer_step denv st (snd (clear_composer_body_selection st))"
| attach_begin: "composer_step denv st (snd (begin_compose_attach st))"
| attach_cancel: "composer_step denv st (cancel_compose_attach st)"
| attach_push: "composer_step denv st (snd (push_compose_attach_char ch st))"
| attach_backspace: "composer_step denv st (snd (backspace_compose_attach st))"
| attach_confirm: "composer_step denv st (snd (confirm_compose_attach denv w st))"
| attach_remove: "composer_step denv st (snd (remove_selected_compose_attachment st))"
| attach_move: "composer_step denv st (snd (move_compose_attachment_selection delta st))"

inductive app_step :: "tui_env \<Rightarrow> 'w daemon_env \<Rightarrow> AppState \<Rightarrow> AppState \<Rightarrow> bool" for env denv where
  lists: "list_step env st st' \<Longrightarrow> app_step env denv st st'"
| overlays: "overlay_step env st st' \<Longrightarrow> app_step env denv st st'"
| prompts: "prompt_step env st st' \<Longrightarrow> app_step env denv st st'"
| composer: "composer_step denv st st' \<Longrightarrow> app_step env denv st st'"

subsection \<open>Overlays keep the invariant\<close>

lemma core_inv: "app_inv st \<Longrightarrow> core st' = core st \<Longrightarrow> app_inv st'"
  using core_eq [of st' st] by simp

lemma only_overlays:
  assumes "app_inv st" "overlays_ok st'" "core (st'\<lparr>a_attachment_preview := a_attachment_preview st,
      a_preview_focused := a_preview_focused st, a_preview_selection := a_preview_selection st, a_toasts := a_toasts st,
      a_mode := a_mode st, a_pending_delete_message := a_pending_delete_message st,
      a_pending_delete_draft := a_pending_delete_draft st, a_command_input := a_command_input st,
      a_search_input := a_search_input st\<rparr>) = core st"
  shows "app_inv st'"
  using assms lists_ok_cong [of st' st] pane_ok_cong [of st' st] composer_inv_cong [of st' st]
  by (simp add: app_inv_def core_def)

lemma toasts_inv:
  assumes "app_inv st" "length ts \<le> MAX_TOASTS"
  shows "app_inv (st\<lparr>a_toasts := ts\<rparr>)"
  by (rule only_overlays [OF assms(1)]) (use assms in \<open>simp_all add: core_def app_inv_def overlays_ok_def\<close>)

lemma toasts_bound: "app_inv st \<Longrightarrow> length (a_toasts st) \<le> MAX_TOASTS"
  by (simp add: app_inv_def overlays_ok_def)

lemma next_toast_id_inv [simp]: "app_inv (st\<lparr>a_next_toast_id := n\<rparr>) = app_inv st"
  by (rule core_eq) (simp add: core_def)

lemma push_toast_inv: "app_inv st \<Longrightarrow> app_inv (snd (push_toast kind msg now st))"
proof -
  assume inv: "app_inv st"
  define kept where "kept = (if MAX_TOASTS \<le> length (a_toasts st) then tl (a_toasts st) else a_toasts st)"
  have "length kept < MAX_TOASTS"
    using toasts_bound [OF inv] by (auto simp: kept_def MAX_TOASTS_def)
  then have "app_inv ((st\<lparr>a_next_toast_id := n\<rparr>)\<lparr>a_toasts := kept @ [t]\<rparr>)" for n t
    using inv by (intro toasts_inv) simp_all
  then show ?thesis by (simp add: push_toast_def Let_def kept_def)
qed

lemma coalesce_inv: "app_inv st \<Longrightarrow> app_inv (snd (coalesce_toast kind msg now w st))"
  by (simp add: coalesce_toast_def Let_def toasts_inv toasts_bound)

lemma push_or_coalesce_inv: "app_inv st \<Longrightarrow> app_inv (push_or_coalesce kind msg now w st)"
proof -
  assume inv: "app_inv st"
  obtain b st' where c: "coalesce_toast kind msg now w st = (b, st')" by fastforce
  then have "app_inv st'" using coalesce_inv [OF inv, of kind msg now w] by simp
  then show ?thesis using c by (cases b) (simp_all add: push_or_coalesce_def push_toast_inv)
qed

lemma sync_state_inv: "app_inv st \<Longrightarrow> app_inv (apply_sync_state env a state le now st)"
proof -
  assume inv: "app_inv st"
  have "app_inv (s\<lparr>a_account_states := m\<rparr>) = app_inv s" for s m by (rule core_eq) (simp add: core_def)
  then show ?thesis using inv by (simp add: apply_sync_state_def Let_def push_or_coalesce_inv)
qed

lemma preview_inv:
  assumes "app_inv st"
  shows "app_inv (apply_attachment_preview p st)"
proof -
  have "app_inv (st\<lparr>a_attachment_preview := Some p\<rparr>)"
    by (rule only_overlays [OF assms]) (use assms in \<open>simp_all add: core_def app_inv_def overlays_ok_def\<close>)
  moreover have "app_inv (reset_preview_navigation_state (st\<lparr>a_attachment_preview := Some p\<rparr>))"
    by (rule only_overlays [OF assms])
       (use assms in \<open>simp_all add: core_def app_inv_def overlays_ok_def reset_preview_navigation_state_def\<close>)
  ultimately show ?thesis by (simp add: apply_attachment_preview_def Let_def)
qed

lemma preview_selection_inv:
  assumes "app_inv st" "sel \<noteq> None \<longrightarrow> foc" "foc \<longrightarrow> a_attachment_preview st \<noteq> None"
  shows "app_inv (st\<lparr>a_preview_focused := foc, a_preview_selection := sel\<rparr>)"
  by (rule only_overlays [OF assms(1)]) (use assms in \<open>simp_all add: core_def app_inv_def overlays_ok_def\<close>)

lemma preview_ops_inv:
  assumes "app_inv st"
  shows "app_inv (snd (toggle_preview_selection st))" "app_inv (snd (clear_preview_selection st))"
    "app_inv (snd (focus_preview st))" "app_inv (snd (defocus_preview st))"
proof -
  have ov: "a_preview_focused st \<Longrightarrow> a_attachment_preview st \<noteq> None" "a_preview_selection st \<noteq> None \<Longrightarrow> a_preview_focused st"
    using assms by (auto simp: app_inv_def overlays_ok_def)
  show "app_inv (snd (toggle_preview_selection st))"
    using assms ov preview_selection_inv [OF assms, of _ "a_preview_focused st"]
    by (auto simp: toggle_preview_selection_def is_preview_focus_active_def Let_def)
  show "app_inv (snd (clear_preview_selection st))"
    using ov preview_selection_inv [OF assms, of None "a_preview_focused st"] by (simp add: clear_preview_selection_def)
  show "app_inv (snd (focus_preview st))"
    using assms preview_selection_inv [OF assms, of "a_preview_selection st" True] by (simp add: focus_preview_def)
  show "app_inv (snd (defocus_preview st))"
    using assms preview_selection_inv [OF assms, of None False] by (simp add: defocus_preview_def)
qed

text \<open>Operations that touch nothing the invariant looks at.\<close>

lemma preview_scroll_core:
  "core (snd (scroll_preview d h st)) = core st" "core (snd (scroll_preview_to_top st)) = core st"
  "core (snd (scroll_preview_to_bottom h st)) = core st"
  by (simp_all add: core_def scroll_preview_def scroll_preview_to_top_def scroll_preview_to_bottom_def Let_def)

lemma set_detail_cursor_core: "core (snd (set_detail_cursor n st)) = core st"
  by (simp add: core_def set_detail_cursor_def Let_def)

lemma detail_cursor_core:
  "core (snd (move_detail_cursor_left st)) = core st" "core (snd (move_detail_cursor_right st)) = core st"
  "core (snd (detail_home st)) = core st" "core (snd (detail_end st)) = core st"
  by (simp_all add: move_detail_cursor_left_def move_detail_cursor_right_def detail_home_def detail_end_def
      set_detail_cursor_core split: prod.split) (simp_all add: core_def)

lemma detail_line_core: "core (snd (move_detail_line d h st)) = core st"
  by (simp add: move_detail_line_def Let_def ensure_detail_cursor_visible_def) (simp add: core_def)

lemma detail_selection_core:
  "core (snd (toggle_detail_line_selection st)) = core st" "core (snd (start_detail_line_selection st)) = core st"
  "core (snd (clear_detail_selection st)) = core st"
  by (simp_all add: toggle_detail_line_selection_def start_detail_line_selection_def clear_detail_selection_def
      begin_detail_selection_def Let_def) (simp_all add: core_def)

lemma open_attachment_core:
  "core (snd (begin_open_attachment_confirmation st)) = core st" "core (cancel_open_attachment_confirmation st) = core st"
  "core (snd (take_pending_open_attachment st)) = core st"
  by (simp_all add: begin_open_attachment_confirmation_def cancel_open_attachment_confirmation_def
      take_pending_open_attachment_def core_def split: option.split)

lemma help_core:
  "core (snd (open_help st)) = core st" "core (close_help st) = core st" "core (snd (toggle_help st)) = core st"
  "core (scroll_help_down n st) = core st" "core (scroll_help_up n st) = core st" "core (scroll_help_home st) = core st"
  "core (scroll_help_end n st) = core st" "core (snd (cycle_theme st)) = core st" "core (set_theme t st) = core st"
  by (simp_all add: core_def open_help_def close_help_def toggle_help_def scroll_help_down_def scroll_help_up_def
      scroll_help_home_def scroll_help_end_def cycle_theme_def set_theme_def)

lemmas cosmetic_core = preview_scroll_core detail_cursor_core detail_line_core detail_selection_core open_attachment_core help_core

lemma cosmetic_step: "core st' = core st \<Longrightarrow> app_inv st \<Longrightarrow> app_inv st'"
  using core_eq [of st' st] by simp

lemmas cosmetic_inv = cosmetic_core [THEN cosmetic_step]

lemma overlay_step_inv: "overlay_step env st st' \<Longrightarrow> app_inv st \<Longrightarrow> app_inv st'"
proof (induction rule: overlay_step.induct)
  case (toast_dismiss st)
  then show ?case using toasts_bound [of st] by (simp add: dismiss_newest_toast_def toasts_inv)
next
  case (toast_clear st)
  then show ?case by (simp add: clear_toasts_def toasts_inv)
next
  case (toast_tick st now)
  then show ?case
    using toasts_bound [of st] by (auto simp: tick_toasts_def intro!: toasts_inv order.trans [OF length_filter_le])
qed (simp_all only: preview_inv preview_ops_inv move_preview_inv push_toast_inv push_or_coalesce_inv sync_state_inv
      push_mail_new_toast_def push_account_synced_toast_def push_pane_refusal_toast_def Let_def
      set_status_inv set_error_inv clear_error_inv cosmetic_inv)

subsection \<open>Prompts keep the invariant\<close>

lemma prompt_fields_inv:
  assumes "app_inv st" "overlays_ok (st\<lparr>a_mode := m, a_pending_delete_message := pm, a_pending_delete_draft := pd,
      a_command_input := ci, a_search_input := si\<rparr>)"
  shows "app_inv (st\<lparr>a_mode := m, a_pending_delete_message := pm, a_pending_delete_draft := pd,
      a_command_input := ci, a_search_input := si\<rparr>)"
  by (rule only_overlays [OF assms]) (simp add: core_def)

lemma overlayD:
  assumes "app_inv st"
  shows "a_pending_delete_message st = None \<or> a_pending_delete_draft st = None"
    "a_mode st = ModeConfirmDelete \<longrightarrow> a_pending_delete_message st \<noteq> None \<or> a_pending_delete_draft st \<noteq> None"
    "length (a_command_input st) \<le> MAX_COMMAND_CHARS" "length (a_search_input st) \<le> MAX_SEARCH_CHARS"
    "sorted_wrt approval_le (aps_items (a_approvals st))" "distinct (map it_id (aps_items (a_approvals st)))"
  using assms by (simp_all add: app_inv_def overlays_ok_def)

lemma mode_inv: "app_inv st \<Longrightarrow> m \<noteq> ModeConfirmDelete \<Longrightarrow> app_inv (st\<lparr>a_mode := m\<rparr>)"
  by (rule only_overlays [of st]) (simp_all add: core_def, simp add: app_inv_def overlays_ok_def)

lemma command_input_inv: "app_inv st \<Longrightarrow> length ci \<le> MAX_COMMAND_CHARS \<Longrightarrow> app_inv (st\<lparr>a_command_input := ci\<rparr>)"
  by (rule only_overlays [of st]) (simp_all add: core_def, simp add: app_inv_def overlays_ok_def)

lemma search_input_inv: "app_inv st \<Longrightarrow> length si \<le> MAX_SEARCH_CHARS \<Longrightarrow> app_inv (st\<lparr>a_search_input := si\<rparr>)"
  by (rule only_overlays [of st]) (simp_all add: core_def, simp add: app_inv_def overlays_ok_def)

lemma previous_pane_inv [simp]: "app_inv (st\<lparr>a_search_input_previous_pane := p\<rparr>) = app_inv st"
  by (rule core_eq) (simp add: core_def)

lemma delete_ops_inv:
  assumes "app_inv st"
  shows "app_inv (begin_draft_delete i st)" "app_inv (cancel_pending_delete_draft st)"
    "app_inv (snd (take_pending_delete_draft st))" "app_inv (begin_delete_confirmation i st)"
    "app_inv (cancel_delete_confirmation st)" "app_inv (snd (take_pending_delete_message st))"
proof -
  note ov = overlayD [OF assms]
  have upd: "app_inv (st\<lparr>a_pending_delete_message := pm, a_pending_delete_draft := pd, a_mode := m\<rparr>)"
    if "pm = None \<or> pd = None" "m = ModeConfirmDelete \<longrightarrow> pm \<noteq> None \<or> pd \<noteq> None" for pm pd m
    by (rule only_overlays [OF assms])
       (use assms that in \<open>simp_all add: core_def, simp add: app_inv_def overlays_ok_def\<close>)
  have swap: "st\<lparr>a_pending_delete_draft := pd, a_pending_delete_message := pm, a_mode := m\<rparr> =
      st\<lparr>a_pending_delete_message := pm, a_pending_delete_draft := pd, a_mode := m\<rparr>"
    "st\<lparr>a_pending_delete_draft := pd, a_mode := m\<rparr> =
      st\<lparr>a_pending_delete_message := a_pending_delete_message st, a_pending_delete_draft := pd, a_mode := m\<rparr>"
    "st\<lparr>a_pending_delete_message := pm, a_mode := m\<rparr> =
      st\<lparr>a_pending_delete_message := pm, a_pending_delete_draft := a_pending_delete_draft st, a_mode := m\<rparr>" for pm pd m
    by simp_all
  show "app_inv (begin_draft_delete i st)"
    unfolding begin_draft_delete_def by (rule upd) simp_all
  show "app_inv (cancel_pending_delete_draft st)"
    unfolding cancel_pending_delete_draft_def swap by (rule upd) simp_all
  show "app_inv (snd (take_pending_delete_draft st))"
    unfolding take_pending_delete_draft_def Let_def snd_conv swap by (rule upd) (use ov in auto)
  show "app_inv (begin_delete_confirmation i st)"
    unfolding begin_delete_confirmation_def set_status_inv swap by (rule upd) simp_all
  show "app_inv (cancel_delete_confirmation st)"
    unfolding cancel_delete_confirmation_def set_status_inv swap by (rule upd) simp_all
  show "app_inv (snd (take_pending_delete_message st))"
    unfolding take_pending_delete_message_def Let_def snd_conv swap by (rule upd) (use ov in auto)
qed

lemma put_approvals_inv:
  assumes "app_inv st" "sorted_wrt approval_le items" "distinct (map it_id items)"
  shows "app_inv (put_approvals items st)"
  using assms pane_ok_cong [of "put_approvals items st" st]
  by (simp add: put_approvals_def app_inv_def lists_ok_def overlays_ok_def composer_inv_def)

lemma approvals_pending_inv [simp]: "app_inv (st\<lparr>a_approvals := (a_approvals st)\<lparr>aps_pending := b\<rparr>\<rparr>) = app_inv st"
  using pane_ok_cong [of "st\<lparr>a_approvals := (a_approvals st)\<lparr>aps_pending := b\<rparr>\<rparr>" st]
  by (simp add: app_inv_def lists_ok_def overlays_ok_def composer_inv_def)

lemma remove_nth_sorted: "sorted_wrt P xs \<Longrightarrow> sorted_wrt P (remove_nth i xs)"
proof (cases "i < length xs")
  case True
  assume s: "sorted_wrt P xs"
  have "xs = take i xs @ xs ! i # drop (Suc i) xs" by (rule id_take_nth_drop [OF True])
  then have "sorted_wrt P (take i xs @ xs ! i # drop (Suc i) xs)" using s by metis
  then show ?thesis by (simp add: remove_nth_def sorted_wrt_append)
qed (simp add: remove_nth_def)

lemma remove_selected_approval_inv:
  assumes "app_inv st"
  shows "app_inv (snd (remove_selected_approval st))"
proof (cases "aps_items (a_approvals st) = []")
  case True
  then show ?thesis using assms by (simp add: remove_selected_approval_def approvals_selection_inv)
next
  case False
  let ?i = "min (aps_selected (a_approvals st)) (length (aps_items (a_approvals st)) - 1)"
  have "?i < length (aps_items (a_approvals st))" using False by (cases "aps_items (a_approvals st)") auto
  then have "app_inv (put_approvals (remove_nth ?i (aps_items (a_approvals st))) st)"
    using overlayD [OF assms]
    by (intro put_approvals_inv [OF assms] remove_nth_sorted distinct_remove_nth(1))
  then show ?thesis using False by (simp add: remove_selected_approval_def Let_def)
qed

lemma remove_approval_by_id_inv:
  assumes "app_inv st"
  shows "app_inv (snd (remove_approval_by_id i st))"
proof -
  let ?items = "aps_items (a_approvals st)" and ?kept = "filter (\<lambda>a. it_id a \<noteq> i) (aps_items (a_approvals st))"
  have "app_inv (put_approvals ?kept st)"
    using overlayD [OF assms] by (intro put_approvals_inv [OF assms] sorted_wrt_filter distinct_map_filter)
  moreover have "length ?kept = length ?items \<Longrightarrow> st\<lparr>a_approvals := (a_approvals st)\<lparr>aps_items := ?kept\<rparr>\<rparr> = st"
    by (simp add: filter_same_length)
  ultimately show ?thesis using assms by (simp add: remove_approval_by_id_def Let_def)
qed

lemma update_first_same_key: "map it_id (update_first (\<lambda>a. it_id a = it_id x) (\<lambda>_. x) xs) = map it_id xs"
  by (induction xs) auto

lemma merge_distinct:
  assumes "distinct (map it_id items)"
  shows "distinct (map it_id (if list_ex (\<lambda>a. it_id a = it_id x) items
            then update_first (\<lambda>a. it_id a = it_id x) (\<lambda>_. x) items else items @ [x]))"
  using assms by (auto simp: update_first_same_key list_ex_iff)

lemma merge_inv:
  assumes "app_inv st"
  shows "app_inv (merge_approval_request ap st)"
  unfolding merge_approval_request_def Let_def
proof (rule put_approvals_inv [OF assms])
  let ?m = "if list_ex (\<lambda>a. it_id a = it_id ap) (aps_items (a_approvals st))
    then update_first (\<lambda>a. it_id a = it_id ap) (\<lambda>_. ap) (aps_items (a_approvals st)) else aps_items (a_approvals st) @ [ap]"
  show "sorted_wrt approval_le (take MAX_LIVE_APPROVALS (sorted_approvals ?m))"
    by (intro sorted_wrt_take) (simp add: sorted_approvals_def sorted_approval_items)
  have "distinct (map it_id (sorted_approvals ?m))"
    unfolding sorted_approvals_def distinct_map_sort_by by (rule merge_distinct [OF overlayD(6) [OF assms]])
  then show "distinct (map it_id (take MAX_LIVE_APPROVALS (sorted_approvals ?m)))"
    by (metis distinct_take take_map)
qed

lemma apply_approvals_inv: "app_inv st \<Longrightarrow> distinct (map it_id items) \<Longrightarrow> app_inv (apply_approvals items st)"
  unfolding apply_approvals_def
  by (rule put_approvals_inv) (simp_all add: sorted_approvals_def sorted_approval_items distinct_map_sort_by)

lemma begin_search_inv:
  assumes "app_inv st"
  shows "app_inv (begin_search q scope st)"
proof -
  have "app_inv (st\<lparr>a_search := Some (search_new q scope p), a_active := PaneSearch\<rparr>)" for p
    using assms
    by (simp add: app_inv_def lists_ok_def pane_ok_def search_new_def)
       (simp add: pane_visible_def search_pane_visible_def)
  then show ?thesis by (simp add: begin_search_def Let_def)
qed

lemma search_none_parts:
  "app_inv st \<Longrightarrow> lists_ok (st\<lparr>a_search := None, a_active := p\<rparr>) \<and> overlays_ok (st\<lparr>a_search := None, a_active := p\<rparr>) \<and>
     composer_inv (st\<lparr>a_search := None, a_active := p\<rparr>)"
  by (simp add: app_inv_def lists_ok_def)

lemma close_search_inv:
  assumes "app_inv st"
  shows "app_inv (close_search st)"
  unfolding close_search_def
  using app_invD [OF assms] search_none_parts [OF assms] by (auto intro!: normalize_inv split: option.splits)

lemma search_hits_inv: "app_inv st \<Longrightarrow> app_inv (apply_search_hits found st)"
proof (cases "a_search st")
  case None
  assume "app_inv st"
  then show ?thesis by (rule core_inv) (simp add: core_def apply_search_hits_def None)
next
  case (Some s)
  assume "app_inv st"
  then show ?thesis using search_update_inv [of st s] Some by (simp add: apply_search_hits_def)
qed

lemma butlast_le: "length xs \<le> n \<Longrightarrow> length (butlast xs) \<le> n"
  by simp

lemma begin_approvals_inv: "app_inv st \<Longrightarrow> app_inv (begin_approvals st)"
  by (simp add: begin_approvals_def select_approvals_inv)

lemma search_cancel_inv:
  assumes "app_inv st" "pane_visible st (a_search_input_previous_pane st)"
  shows "app_inv (cancel_quick_search st)"
proof -
  have a: "app_inv (clear_error (st\<lparr>a_mode := ModeNormal, a_search_input := []\<rparr>))"
    using assms(1) by (simp add: search_input_inv mode_inv)
  have "pane_visible (clear_error (st\<lparr>a_mode := ModeNormal, a_search_input := []\<rparr>)) p = pane_visible st p" for p
    by (rule pane_visible_cong) (simp_all add: clear_error_def)
  then show ?thesis using active_inv [OF a] assms(2) by (simp add: cancel_quick_search_def)
qed

lemma resting_mode_plain: "resting_mode st \<noteq> ModeConfirmDelete"
  by (simp add: resting_mode_def)

lemma command_ops_inv:
  assumes "app_inv st"
  shows "app_inv (enter_command_mode st)" "app_inv (cancel_command_mode st)" "app_inv (snd (push_command_char ch st))"
    "app_inv (snd (backspace_command st))" "app_inv (snd (finish_command st))"
  using assms overlayD(3) [OF assms] resting_mode_plain [of st]
  by (simp_all add: enter_command_mode_def cancel_command_mode_def push_command_char_def backspace_command_def
      finish_command_def command_input_inv mode_inv)

lemma search_ops_inv:
  assumes "app_inv st"
  shows "app_inv (enter_quick_search st)" "app_inv (snd (push_search_char ch st))"
    "app_inv (snd (backspace_search st))" "app_inv (snd (finish_quick_search st))"
  using assms overlayD(4) [OF assms]
  by (simp_all add: enter_quick_search_def push_search_char_def backspace_search_def finish_quick_search_def
      search_input_inv mode_inv)

lemma prompt_step_inv: "prompt_step env st st' \<Longrightarrow> app_inv st \<Longrightarrow> app_inv st'"
  by (induction rule: prompt_step.induct)
     (simp_all only: search_ops_inv search_cancel_inv begin_search_inv search_hits_inv close_search_inv move_search_inv
       begin_approvals_inv apply_approvals_inv move_approval_inv remove_selected_approval_inv remove_approval_by_id_inv
       merge_inv delete_ops_inv command_ops_inv)

subsection \<open>The composer keeps the invariant\<close>

definition composer_good :: "ComposerState \<Rightarrow> bool" where
  "composer_good c \<longleftrightarrow>
     composer_ok c \<and> index_ok (cs_selected_attachment c) (cs_attachments c) \<and>
     length (cs_attach_input c) \<le> MAX_COMPOSE_PATH_CHARS"

lemma composer_inv_good: "composer_inv st \<longleftrightarrow> (\<forall>c. a_composer st = Some c \<longrightarrow> composer_good c)"
  by (simp add: composer_inv_def composer_good_def)

lemma composer_put_inv:
  assumes "app_inv st" "\<forall>c. co = Some c \<longrightarrow> composer_good c"
  shows "app_inv (st\<lparr>a_composer := co\<rparr>)"
  using assms pane_ok_cong [of "st\<lparr>a_composer := co\<rparr>" st]
  by (simp add: app_inv_def lists_ok_def overlays_ok_def composer_inv_good)

lemma composer_goodD: "app_inv st \<Longrightarrow> a_composer st = Some c \<Longrightarrow> composer_good c"
  by (simp add: app_inv_def composer_inv_good)

text \<open>Fields of a composer outside its text.\<close>

lemma composer_ok_updates [simp]:
  "composer_ok (c\<lparr>cs_focused := f\<rparr>) = composer_ok c" "composer_ok (c\<lparr>cs_dirty := b\<rparr>) = composer_ok c"
  "composer_ok (c\<lparr>cs_draft_id := d\<rparr>) = composer_ok c" "composer_ok (c\<lparr>cs_attach_input := t\<rparr>) = composer_ok c"
  "composer_ok (c\<lparr>cs_attachments := as\<rparr>) = composer_ok c" "composer_ok (c\<lparr>cs_selected_attachment := n\<rparr>) = composer_ok c"
  by (simp_all add: composer_ok_def body_line_count_def)

lemma composer_good_updates [simp]:
  "composer_good (c\<lparr>cs_focused := f\<rparr>) = composer_good c" "composer_good (c\<lparr>cs_dirty := b\<rparr>) = composer_good c"
  "composer_good (c\<lparr>cs_draft_id := d\<rparr>) = composer_good c"
  "composer_good (c\<lparr>cs_body_preferred_column := p\<rparr>) = composer_good c"
  by (simp_all add: composer_good_def)

text \<open>The text operations leave the attachments of a composer alone.\<close>

definition side :: "ComposerState \<Rightarrow> nat \<times> ComposerAttachment list \<times> rstr" where
  "side c = (cs_selected_attachment c, cs_attachments c, cs_attach_input c)"

lemma composer_good_side: "composer_good c \<Longrightarrow> composer_ok c' \<Longrightarrow> side c' = side c \<Longrightarrow> composer_good c'"
  by (simp add: composer_good_def side_def)

lemma side_put [simp]: "side (put_focused v n c) = side c" "side (put_focused_cursor n c) = side c"
  by (simp_all add: put_focused_cursor_def side_def put_focused.simps split: ComposeField.split)

lemma side_clear [simp]: "side (snd (clear_body_selection c)) = side c"
  by (simp add: clear_body_selection_def Let_def side_def)

lemma side_reset [simp]: "side (reset_body_navigation_state c) = side c"
  by (simp add: reset_body_navigation_state_def) (simp add: side_def)

lemma side_after_edit [simp]: "side (after_text_edit c) = side c"
  by (simp add: after_text_edit_def ensure_body_cursor_visible_def clear_body_selection_def Let_def
      refresh_body_line_cache_def side_def)

lemma side_set_cursor [simp]: "side (snd (set_focused_cursor n c)) = side c"
  by (simp add: set_focused_cursor_def Let_def)

lemma side_moves [simp]:
  "side (snd (move_focused_cursor_left c)) = side c" "side (snd (move_focused_cursor_right c)) = side c"
  "side (snd (move_focused_cursor_home c)) = side c" "side (snd (move_focused_cursor_end c)) = side c"
  by (simp_all add: move_focused_cursor_left_def move_focused_cursor_right_def move_focused_cursor_home_def
      move_focused_cursor_end_def Let_def)

lemma side_body_line [simp]: "side (snd (move_body_line d h c)) = side c"
proof -
  have upd: "side (c\<lparr>cs_body_preferred_column := p, cs_body_cursor := k, cs_body_selection_focus := f, cs_body_scroll := n\<rparr>) = side c"
    for p k f n
    by (simp add: side_def)
  show ?thesis
    unfolding move_body_line_def Let_def ensure_body_cursor_visible_def
    by (cases "cs_focused c = BodyField") (simp_all only: simp_thms if_True if_False snd_conv upd)
qed

lemma side_selection [simp]:
  "side (snd (toggle_body_line_selection c)) = side c" "side (snd (start_body_line_selection c)) = side c"
  by (simp_all add: toggle_body_line_selection_def start_body_line_selection_def Let_def) (simp_all add: side_def)

lemma home_end_ok:
  "composer_ok c \<Longrightarrow> composer_ok (snd (move_focused_cursor_home c))"
  "composer_ok c \<Longrightarrow> composer_ok (snd (move_focused_cursor_end c))"
  by (simp_all add: move_focused_cursor_home_def move_focused_cursor_end_def set_cursor_ok)

lemma composer_some_and_inv:
  assumes "app_inv st" "\<And>c. composer_good c \<Longrightarrow> composer_good (snd (f c))"
  shows "app_inv (snd (composer_some_and f st))"
proof (cases "a_composer st")
  case (Some c)
  have "composer_good (snd (f c))" using assms(2) composer_goodD [OF assms(1) Some] .
  then show ?thesis
    using Some by (cases "f c") (simp add: composer_some_and_def composer_put_inv [OF assms(1)])
qed (simp add: composer_some_and_def assms(1))

lemma text_op_inv:
  assumes "app_inv st" "\<And>c. composer_ok c \<Longrightarrow> composer_ok (snd (f c))" "\<And>c. side (snd (f c)) = side c"
  shows "app_inv (snd (composer_some_and f st))"
  using assms(2,3) by (intro composer_some_and_inv [OF assms(1)]) (metis composer_good_def composer_good_side)

lemmas composer_move_defs = move_composer_cursor_left_def move_composer_cursor_right_def composer_home_def composer_end_def
  move_composer_body_line_def toggle_composer_body_line_selection_def start_composer_body_line_selection_def
  clear_composer_body_selection_def

lemma composer_moves_inv:
  assumes "app_inv st"
  shows "app_inv (snd (move_composer_cursor_left st))" "app_inv (snd (move_composer_cursor_right st))"
    "app_inv (snd (composer_home st))" "app_inv (snd (composer_end st))" "app_inv (snd (move_composer_body_line d h st))"
    "app_inv (snd (toggle_composer_body_line_selection st))" "app_inv (snd (start_composer_body_line_selection st))"
    "app_inv (snd (clear_composer_body_selection st))"
  unfolding composer_move_defs
  by (rule text_op_inv [OF assms] move_left_ok move_right_ok home_end_ok move_body_line_ok toggle_selection_ok
        start_selection_ok clear_selection_ok side_moves side_body_line side_selection side_clear | assumption)+

lemma composer_edit_inv:
  assumes "app_inv st" "composer_edit f st = Some (b, st')"
    "\<And>c b c'. composer_good c \<Longrightarrow> f c = Some (b, c') \<Longrightarrow> composer_good c'"
  shows "app_inv st'"
proof (cases "a_composer st")
  case None
  then show ?thesis using assms(1,2) by (simp add: composer_edit_def)
next
  case (Some c)
  then obtain c' where c': "f c = Some (b, c')" "st' = st\<lparr>a_composer := Some (if b then c'\<lparr>cs_dirty := True\<rparr> else c')\<rparr>"
    using assms(2) by (auto simp: composer_edit_def)
  have "composer_good c'" using assms(3) [OF composer_goodD [OF assms(1) Some] c'(1)] .
  then show ?thesis unfolding c'(2) by (intro composer_put_inv [OF assms(1)]) simp
qed

lemma edit_side:
  "insert_focused_char ch c = Some c' \<Longrightarrow> side c' = side c"
  "delete_before_focused_cursor c = Some (b, c') \<Longrightarrow> side c' = side c"
  "delete_at_focused_cursor c = Some (b, c') \<Longrightarrow> side c' = side c"
  "delete_word_before_cursor c = Some (b, c') \<Longrightarrow> side c' = side c"
  by (auto simp: insert_focused_char_eq delete_before_eq delete_at_eq delete_word_eq Let_def split: if_splits)

lemma edit_good:
  "composer_good c \<Longrightarrow> insert_focused_char ch c = Some c' \<Longrightarrow> composer_good c'"
  "composer_good c \<Longrightarrow> delete_before_focused_cursor c = Some (b, c') \<Longrightarrow> composer_good c'"
  "composer_good c \<Longrightarrow> delete_at_focused_cursor c = Some (b, c') \<Longrightarrow> composer_good c'"
  "composer_good c \<Longrightarrow> delete_word_before_cursor c = Some (b, c') \<Longrightarrow> composer_good c'"
  using insert_ok delete_before_ok delete_at_ok delete_word_ok edit_side
  by (meson composer_good_def composer_good_side)+

lemma typed_inv: "app_inv st \<Longrightarrow> push_composer_char ch st = Some (b, st') \<Longrightarrow> app_inv st'"
  unfolding push_composer_char_def
  by (erule composer_edit_inv, assumption) (auto intro: edit_good(1) split: if_splits)

lemma composer_edits_inv:
  "app_inv st \<Longrightarrow> backspace_composer st = Some (b, st') \<Longrightarrow> app_inv st'"
  "app_inv st \<Longrightarrow> delete_composer st = Some (b, st') \<Longrightarrow> app_inv st'"
  "app_inv st \<Longrightarrow> delete_word_before_composer_cursor st = Some (b, st') \<Longrightarrow> app_inv st'"
  unfolding backspace_composer_def delete_composer_def delete_word_before_composer_cursor_def
  by (erule composer_edit_inv, assumption, erule edit_good, assumption)+

lemma composer_enter_inv: "app_inv st \<Longrightarrow> composer_enter st = Some (b, st') \<Longrightarrow> app_inv st'"
proof (cases "a_composer st")
  case (Some c)
  assume inv: "app_inv st" and e: "composer_enter st = Some (b, st')"
  note good = composer_goodD [OF inv Some]
  show ?thesis
  proof (cases "cs_focused c = BodyField")
    case True
    then show ?thesis
      using e inv Some edit_good(1) [OF good, of 10]
      by (auto simp: composer_enter_def insert_body_newline_eq intro!: composer_put_inv split: if_splits)
  next
    case False
    then show ?thesis using e inv Some good by (auto simp: composer_enter_def intro!: composer_put_inv)
  qed
qed (simp add: composer_enter_def)

lemma open_composer_inv: "app_inv st \<Longrightarrow> composer_good c \<Longrightarrow> app_inv (open_composer c st)"
  using mode_inv [of "st\<lparr>a_composer := Some c\<rparr>" ModeCompose] composer_put_inv [of st "Some c"]
  by (simp add: open_composer_def)

lemma opened_good: "composer_good (composer_new a)" "composer_good (from_prefill a p)" "composer_good (from_existing_draft i d f)"
  by (simp_all add: composer_good_def composer_new_ok from_prefill_ok from_existing_draft_ok)
     (simp_all add: composer_new_def from_prefill_def from_existing_draft_def Let_def with_addresses_def with_subject_def
       refresh_body_line_cache_def index_ok_def split: option.split)

lemma on_composer_inv:
  assumes "app_inv st" "\<And>c. composer_good c \<Longrightarrow> composer_good (f c)"
  shows "app_inv (on_composer f st)"
  unfolding on_composer_def using composer_goodD [OF assms(1)] assms(2) by (intro composer_put_inv [OF assms(1)]) auto

lemma composer_closed_inv: "app_inv st \<Longrightarrow> app_inv (st\<lparr>a_composer := None, a_mode := ModeNormal\<rparr>)"
  using mode_inv [of "st\<lparr>a_composer := None\<rparr>" ModeNormal] composer_put_inv [of st None] by simp

lemma composer_mode_ops_inv:
  assumes "app_inv st"
  shows "app_inv (mark_composer_saved i st)" "app_inv (exit_composer st)" "app_inv (discard_composer st)"
    "app_inv (begin_discard_composer_confirmation st)" "app_inv (cancel_discard_composer_confirmation st)"
    "app_inv (next_composer_field st)" "app_inv (previous_composer_field st)"
  unfolding mark_composer_saved_def exit_composer_def discard_composer_def begin_discard_composer_confirmation_def
    cancel_discard_composer_confirmation_def next_composer_field_def previous_composer_field_def
  using assms by (simp_all add: on_composer_inv composer_closed_inv mode_inv)

lemma attach_input_good: "composer_good c \<Longrightarrow> length t \<le> MAX_COMPOSE_PATH_CHARS \<Longrightarrow> composer_good (c\<lparr>cs_attach_input := t\<rparr>)"
  by (simp add: composer_good_def)

lemma attach_begin_inv:
  assumes "app_inv st"
  shows "app_inv (snd (begin_compose_attach st))"
proof (cases "a_composer st")
  case (Some c)
  have c: "app_inv (st\<lparr>a_composer := Some (c\<lparr>cs_attach_input := []\<rparr>)\<rparr>)"
    using composer_goodD [OF assms Some] by (intro composer_put_inv [OF assms]) (simp add: attach_input_good)
  show ?thesis using Some mode_inv [OF c, of ModeComposeAttachPath] by (simp add: begin_compose_attach_def)
qed (simp add: begin_compose_attach_def assms)

lemma attach_cancel_inv: "app_inv st \<Longrightarrow> app_inv (cancel_compose_attach st)"
  unfolding cancel_compose_attach_def by (intro mode_inv on_composer_inv) (simp_all add: attach_input_good)

lemma attach_input_inv:
  assumes "app_inv st"
  shows "app_inv (snd (push_compose_attach_char ch st))" "app_inv (snd (backspace_compose_attach st))"
  unfolding push_compose_attach_char_def backspace_compose_attach_def
  by (rule composer_some_and_inv [OF assms], auto simp: composer_good_def)+

lemma attach_confirm_inv:
  assumes "app_inv st"
  shows "app_inv (snd (confirm_compose_attach denv w st))"
proof (cases "a_composer st")
  case (Some c)
  have "composer_good (c\<lparr>cs_attachments := cs_attachments c @ [x], cs_attach_input := [], cs_dirty := True,
      cs_selected_attachment := length (cs_attachments c)\<rparr>)" for x
    using composer_goodD [OF assms Some] by (simp add: composer_good_def index_ok_def)
  then have "app_inv (st\<lparr>a_composer := Some (c\<lparr>cs_attachments := cs_attachments c @ [x], cs_attach_input := [], cs_dirty := True,
      cs_selected_attachment := length (cs_attachments c)\<rparr>), a_mode := ModeCompose\<rparr>)" for x
    by (intro mode_inv composer_put_inv [OF assms]) simp_all
  then show ?thesis using assms Some by (simp add: confirm_compose_attach_def Let_def split: sum.split)
qed (simp add: confirm_compose_attach_def assms)

lemma attach_remove_inv:
  assumes "app_inv st"
  shows "app_inv (snd (remove_selected_compose_attachment st))"
proof (cases "a_composer st")
  case (Some c)
  have "composer_good (c\<lparr>cs_attachments := rest, cs_selected_attachment :=
      (if rest = [] then 0 else if length rest \<le> cs_selected_attachment c then length rest - 1 else cs_selected_attachment c),
      cs_dirty := True\<rparr>)" for rest
    using composer_goodD [OF assms Some] by (simp add: composer_good_def index_ok_def)
  then show ?thesis
    using assms Some by (simp add: remove_selected_compose_attachment_def Let_def composer_put_inv del: composer_good_updates)
qed (simp add: remove_selected_compose_attachment_def assms)

lemma attach_move_inv:
  assumes "app_inv st"
  shows "app_inv (snd (move_compose_attachment_selection d st))"
  unfolding move_compose_attachment_selection_def
proof (rule composer_some_and_inv [OF assms])
  fix c assume "composer_good c"
  then show "composer_good (snd (if cs_attachments c = [] then (False, c)
      else case move_index (cs_selected_attachment c) (length (cs_attachments c)) d of
             (i, changed) \<Rightarrow> (changed, c\<lparr>cs_selected_attachment := i\<rparr>)))"
    using index_ok_move [of "cs_selected_attachment c" "cs_attachments c" d]
    by (auto simp: composer_good_def split: prod.split)
qed

lemma composer_open_inv:
  "app_inv st \<Longrightarrow> app_inv (enter_composer a st)" "app_inv st \<Longrightarrow> app_inv (enter_composer_with_prefill a p st)"
  "app_inv st \<Longrightarrow> app_inv (enter_composer_for_existing_draft i d f st)"
  unfolding enter_composer_def enter_composer_with_prefill_def enter_composer_for_existing_draft_def
  by (erule open_composer_inv, rule opened_good)+

lemma composer_step_inv: "composer_step denv st st' \<Longrightarrow> app_inv st \<Longrightarrow> app_inv st'"
proof (induction rule: composer_step.induct)
  case (typed ch st b st')
  then show ?case using typed_inv by blast
next
  case (entered st b st')
  then show ?case using composer_enter_inv by blast
next
  case (backspace st b st')
  then show ?case using composer_edits_inv(1) by blast
next
  case (deleted st b st')
  then show ?case using composer_edits_inv(2) by blast
next
  case (word_deleted st b st')
  then show ?case using composer_edits_inv(3) by blast
qed (simp_all only: composer_open_inv composer_mode_ops_inv composer_moves_inv attach_begin_inv attach_cancel_inv
       attach_input_inv attach_confirm_inv attach_remove_inv attach_move_inv)

end
