(* ===== verification/TuiProps.thy ===== *)
theory TuiProps
  imports TuiMachine Dispatcher
begin

text \<open>
  Properties of the terminal interface: the invariant along every run, the editor, saved drafts,
  attachments, and the undo of an optimistic removal.
\<close>

subsection \<open>Every run\<close>

lemma default_app_inv: "app_inv default_app"
  by (simp add: app_inv_def lists_ok_def pane_ok_def overlays_ok_def composer_inv_def default_app_def pane_visible_def
      threads_current_def default_cache_wf)

lemma app_step_inv: "app_step env denv st st' \<Longrightarrow> app_inv st \<Longrightarrow> app_inv st'"
  by (induction rule: app_step.induct) (rule list_step_inv overlay_step_inv prompt_step_inv composer_step_inv; assumption)+

interpretation tui: step_invariant default_app "app_step env denv" app_inv for env :: tui_env and denv :: "'w daemon_env"
  by unfold_locales (rule default_app_inv, rule app_step_inv)

definition sample_tui_env :: tui_env where
  "sample_tui_env =
     \<lparr>te_minute = show_int, te_json = (\<lambda>_. []), te_json_pretty = (\<lambda>_. []), te_json_parse = (\<lambda>_. None),
      te_parse_uuid = (\<lambda>_. None), te_uuid_simple = show_nat, te_unicode = ascii_unicode,
      te_char_to_uppercase = (\<lambda>c. [c])\<rparr>"



subsection \<open>The editor\<close>

text \<open>
  C32: no edit of the composer panics: every byte offset it computes is a character boundary, whatever
  the text and wherever the cursor is.
\<close>

theorem composer_edits_total:
  "push_composer_char ch st \<noteq> None \<and> backspace_composer st \<noteq> None \<and> delete_composer st \<noteq> None \<and>
   delete_word_before_composer_cursor st \<noteq> None \<and> composer_enter st \<noteq> None"
proof -
  have total: "composer_edit f st \<noteq> None" if "\<And>c. f c \<noteq> None" for f
    using that by (cases "a_composer st") (simp_all add: composer_edit_def)
  have edits: "insert_focused_char ch c \<noteq> None" "delete_before_focused_cursor c \<noteq> None"
    "delete_at_focused_cursor c \<noteq> None" "delete_word_before_cursor c \<noteq> None" "insert_body_newline c \<noteq> None" for c
    by (simp_all only: insert_focused_char_eq delete_before_eq delete_at_eq delete_word_eq Let_def)
       (simp_all add: insert_body_newline_def Let_def char_to_byte_index_eq str_insert_take)
  have "composer_enter st \<noteq> None"
    using edits(5) by (cases "a_composer st") (auto simp: composer_enter_def)
  moreover have "push_composer_char ch st \<noteq> None"
    unfolding push_composer_char_def by (rule total) (use edits(1) in auto)
  ultimately show ?thesis
    by (simp only: backspace_composer_def delete_composer_def delete_word_before_composer_cursor_def total edits simp_thms
        not_False_eq_True)
qed

lemma edit_dirty [simp]:
  "focused_text (c\<lparr>cs_dirty := b\<rparr>) = focused_text c" "focused_cursor (c\<lparr>cs_dirty := b\<rparr>) = focused_cursor c"
  "cs_focused (c\<lparr>cs_dirty := b\<rparr>) = cs_focused c"
  by (simp_all add: focus_defs split: ComposeField.split)

text \<open>
  Typing a character inserts it before the character under the cursor, and backspace takes it out
  again: the field and the cursor are what they were.
\<close>

theorem typing_undone_by_backspace:
  assumes "a_composer st = Some c" "composer_ok c" "\<not> is_control ch" "field_len c < field_limit c"
  shows "\<exists>st1 c1 st2 c2.
     push_composer_char ch st = Some (True, st1) \<and> a_composer st1 = Some c1 \<and>
     focused_text c1 = take (focused_cursor c) (focused_text c) @ ch # drop (focused_cursor c) (focused_text c) \<and>
     focused_cursor c1 = focused_cursor c + 1 \<and>
     backspace_composer st1 = Some (True, st2) \<and> a_composer st2 = Some c2 \<and>
     focused_text c2 = focused_text c \<and> focused_cursor c2 = focused_cursor c"
proof -
  let ?t = "focused_text c" and ?k = "focused_cursor c"
  have k: "?k \<le> length ?t" using focused_cursor_le [OF assms(2)] by (simp add: field_len_def)
  let ?new = "take ?k ?t @ ch # drop ?k ?t"
  define c1 where "c1 = (after_text_edit (put_focused ?new (?k + 1) c))\<lparr>cs_dirty := True\<rparr>"
  have push: "push_composer_char ch st = Some (True, st\<lparr>a_composer := Some c1\<rparr>)"
    using assms k by (simp add: push_composer_char_def composer_edit_def insert_focused_char_eq Let_def c1_def min_absorb1)
  have c1: "focused_text c1 = ?new" "focused_cursor c1 = ?k + 1" by (simp_all add: c1_def)
  have len: "length ?new = length ?t + 1" using k by simp
  have "take ?k ?new @ drop (?k + 1) ?new = ?t" using k by simp
  then have "delete_before_focused_cursor c1 = Some (True, after_text_edit (put_focused ?t ?k c1))"
    using k len by (simp add: delete_before_eq c1 Let_def min_absorb1)
  then have "backspace_composer (st\<lparr>a_composer := Some c1\<rparr>) =
      Some (True, st\<lparr>a_composer := Some ((after_text_edit (put_focused ?t ?k c1))\<lparr>cs_dirty := True\<rparr>)\<rparr>)"
    by (simp add: backspace_composer_def composer_edit_def)
  then show ?thesis using push c1 by auto
qed

definition sample_composing :: AppState where
  "sample_composing = enter_composer 7 default_app"

theorem typing_undone_by_backspace_witness:
  "\<exists>st1 c1 st2 c2.
     push_composer_char 97 sample_composing = Some (True, st1) \<and> a_composer st1 = Some c1 \<and> focused_text c1 = [97] \<and>
     backspace_composer st1 = Some (True, st2) \<and> a_composer st2 = Some c2 \<and> focused_text c2 = []"
proof -
  have c: "a_composer sample_composing = Some (composer_new 7)"
    by (simp add: sample_composing_def enter_composer_def open_composer_def set_status_def clear_error_def)
  have f: "focused_text (composer_new 7) = []" "focused_cursor (composer_new 7) = 0"
    by (simp_all add: composer_new_def focus_defs)
  have l: "field_len (composer_new 7) < field_limit (composer_new 7)"
    by (simp add: field_len_def f(1) field_limit_def MAX_COMPOSE_HEADER_CHARS_def MAX_COMPOSE_BODY_CHARS_def)
  show ?thesis
    using typing_undone_by_backspace [OF c composer_new_ok _ l, of 97] by (auto simp: is_control_def f)
qed

text \<open>
  \<^verbatim>\<open>Ctrl-W\<close> deletes the last word before the cursor and the white space after it, and nothing else: what is
  removed is a run of non-white characters followed by a run of white space, and what stands before it
  ends in white space or is empty.
\<close>

theorem word_deletion_exact:
  assumes "delete_word_before_cursor c = Some (True, c')"
  shows "\<exists>before word blank after.
     focused_text c = before @ word @ blank @ after \<and> focused_text c' = before @ after \<and>
     focused_cursor c' = length before \<and> length (before @ word @ blank) = min (focused_cursor c) (length (focused_text c)) \<and>
     list_all (\<lambda>x. \<not> is_whitespace x) word \<and> list_all is_whitespace blank \<and>
     (before = [] \<or> is_whitespace (last before))"
proof -
  let ?t = "focused_text c"
  define k where "k = min (focused_cursor c) (length ?t)"
  define m where "m = skip_back is_whitespace ?t k"
  define n where "n = word_start ?t k"
  have order: "n \<le> m" "m \<le> k" "k \<le> length ?t"
    unfolding n_def m_def word_start_def by (rule skip_back_le)+ (simp add: k_def)
  have c': "c' = after_text_edit (put_focused (take n ?t @ drop k ?t) n c)"
    using assms by (simp add: delete_word_eq Let_def k_def [symmetric] n_def [symmetric] split: if_splits)
  have blank: "\<forall>i. m \<le> i \<and> i < k \<longrightarrow> is_whitespace (?t ! i)"
    using skip_back_spec [of is_whitespace ?t k] by (simp add: m_def)
  have word: "\<forall>i. n \<le> i \<and> i < m \<longrightarrow> \<not> is_whitespace (?t ! i)" and stop: "n \<noteq> 0 \<longrightarrow> is_whitespace (?t ! (n - 1))"
    using skip_back_spec [of "\<lambda>x. \<not> is_whitespace x" ?t m] by (simp_all add: n_def m_def word_start_def)
  have split: "?t = take n ?t @ drop n (take m ?t) @ drop m (take k ?t) @ drop k ?t"
    using order by (metis append_assoc append_take_drop_id min.absorb1 take_take)
  have "list_all (\<lambda>x. \<not> is_whitespace x) (drop n (take m ?t))"
    using word order by (auto simp: list_all_length)
  moreover have "list_all is_whitespace (drop m (take k ?t))"
    using blank order by (auto simp: list_all_length)
  moreover have "take n ?t = [] \<or> is_whitespace (last (take n ?t))"
  proof (cases "n = 0")
    case False
    then have "take n ?t \<noteq> []" "length (take n ?t) = n" using order by (auto simp: min_absorb2)
    then have "last (take n ?t) = ?t ! (n - 1)" using False by (simp add: last_conv_nth)
    then show ?thesis using stop False by simp
  qed simp
  ultimately show ?thesis
    using split order
    by (intro exI [of _ "take n ?t"] exI [of _ "drop n (take m ?t)"] exI [of _ "drop m (take k ?t)"] exI [of _ "drop k ?t"])
       (simp add: c' k_def [symmetric])
qed

definition sample_words :: ComposerState where
  "sample_words = (composer_new 7)\<lparr>cs_to := lit ''ab cd '', cs_to_cursor := 6\<rparr>"

theorem word_deletion_exact_witness:
  "\<exists>c' before word blank after. delete_word_before_cursor sample_words = Some (True, c') \<and>
     focused_text sample_words = before @ word @ blank @ after \<and> focused_text c' = before @ after \<and>
     list_all (\<lambda>x. \<not> is_whitespace x) word \<and> list_all is_whitespace blank"
proof -
  have t: "focused_text sample_words = lit ''ab cd ''" "focused_cursor sample_words = 6"
    by (simp_all add: sample_words_def composer_new_def focus_defs)
  have "word_start (lit ''ab cd '') 6 = 3"
    by (simp add: word_start_def lit_def is_whitespace_def eval_nat_numeral)
  moreover have "length (lit ''ab cd '') = 6" by simp
  ultimately have "\<exists>c'. delete_word_before_cursor sample_words = Some (True, c')"
    unfolding delete_word_eq t Let_def by (simp del: length_lit)
  then show ?thesis using word_deletion_exact by metis
qed



subsection \<open>Saved drafts\<close>

lemma split_on_no_sep: "list_all (\<lambda>x. \<not> P x) s \<Longrightarrow> split_on P s = [s]"
  by (induction s) auto

lemma split_on_append: "list_all (\<lambda>x. \<not> P x) s \<Longrightarrow> P c \<Longrightarrow> split_on P (s @ c # r) = s # split_on P r"
  by (induction s) auto

text \<open>An address as the composer keeps it: trimmed, not empty, without separators.\<close>

definition clean_address :: "rstr \<Rightarrow> bool" where
  "clean_address a \<longleftrightarrow> a \<noteq> [] \<and> trim a = a \<and> list_all (\<lambda>x. \<not> address_separator x) a"

lemma trim_space: "trim (32 # s) = trim s"
  by (simp add: trim_def trim_start_Cons is_whitespace_def)

lemma split_on_space: "split_on address_separator (32 # s) = (case split_on address_separator s of p # ps \<Rightarrow> (32 # p) # ps)"
  using split_on_ne [of address_separator s] by (cases "split_on address_separator s") (auto simp: address_separator_def)

lemma split_addresses_space: "split_addresses (32 # s) = split_addresses s"
  using split_on_ne [of address_separator s]
  by (cases "split_on address_separator s") (simp_all add: split_addresses_def address_separator_def trim_space)

lemma split_join_addresses: "list_all clean_address as \<Longrightarrow> split_addresses (join_addresses as) = as"
proof (induction as)
  case Nil
  then show ?case by (simp add: join_addresses_def split_addresses_def)
next
  case (Cons a as)
  then have a: "list_all (\<lambda>x. \<not> address_separator x) a" "trim a = a" "a \<noteq> []" by (simp_all add: clean_address_def)
  show ?case
  proof (cases as)
    case Nil
    then show ?thesis using a by (simp add: join_addresses_def split_addresses_def split_on_no_sep)
  next
    case (Cons b bs)
    have "split_addresses (a @ 44 # r) = a # split_addresses r" for r
      using a by (simp add: split_addresses_def split_on_append address_separator_def)
    then have "split_addresses (join_addresses (a # as)) = a # split_addresses (32 # join_addresses as)"
      using Cons by (simp add: join_addresses_def)
    then show ?thesis using Cons.IH Cons.prems by (simp add: split_addresses_space)
  qed
qed

definition clean_text :: "rstr option \<Rightarrow> bool" where
  "clean_text t \<longleftrightarrow> (case t of None \<Rightarrow> True | Some s \<Rightarrow> trim s \<noteq> [])"

definition clean_draft :: "ComposerDraft \<Rightarrow> bool" where
  "clean_draft d \<longleftrightarrow> list_all clean_address (cd_to_addrs d) \<and> list_all clean_address (cd_cc_addrs d) \<and>
     list_all clean_address (cd_bcc_addrs d) \<and> clean_text (cd_subject d) \<and> clean_text (cd_text_body d)"


definition sample_html_draft :: ComposerDraft where
  "sample_html_draft =
     \<lparr>cd_account_id = 7, cd_in_reply_to_msg = None, cd_to_addrs = [lit ''a@x'', lit ''b@y''], cd_cc_addrs = [], cd_bcc_addrs = [],
      cd_subject = Some (lit ''hi''), cd_text_body = Some (lit ''hello''), cd_html_body = Some (lit ''<p>hello</p>''),
      cd_attachments = [], cd_in_reply_to = None, cd_references_header = None\<rparr>"


text \<open>
  Confirming an attachment path either adds exactly one attachment, after which the draft's
  attachments together stay within 25 MiB, or reports an error and changes nothing.
\<close>

theorem attach_all_or_nothing:
  "(case confirm_compose_attach denv w st of
      (Err e, st') \<Rightarrow> st' = st
    | (Ok name, st') \<Rightarrow>
        (\<exists>c c' x. a_composer st = Some c \<and> a_composer st' = Some c' \<and> cs_attachments c' = cs_attachments c @ [x] \<and>
           ca_filename x = name \<and> aggregate_attachment_size c' \<le> MAX_COMPOSE_ATTACHMENT_BYTES \<and>
           cs_selected_attachment c' = length (cs_attachments c) \<and> a_mode st' = ModeCompose))"
  by (auto simp: confirm_compose_attach_def Let_def aggregate_attachment_size_def split: option.split sum.split)

subsection \<open>Undo\<close>

lemma clamp_index_ok: "index_ok i xs \<Longrightarrow> xs \<noteq> [] \<Longrightarrow> clamp_index i (length xs) = i"
  by (auto simp: index_ok_def clamp_index_def)

lemma build_threads_ne: "ms \<noteq> [] \<Longrightarrow> build_threads ms \<noteq> []"
  using group_threads_keys [of ms] by (auto simp: build_threads_def)

lemma store_cache_lists [simp]:
  "a_folder_messages (store_selected_folder_cache a f now st) = a_folder_messages st"
  "a_threads (store_selected_folder_cache a f now st) = a_threads st"
  "a_messages (store_selected_folder_cache a f now st) = a_messages st"
  "a_selected_thread (store_selected_folder_cache a f now st) = a_selected_thread st"
  "a_selected_message (store_selected_folder_cache a f now st) = a_selected_message st"
  by (simp_all add: store_selected_folder_cache_def folder_cache_store_def split: option.split)

lemma normalize_lists [simp]:
  "a_folder_messages (normalize_active_pane st) = a_folder_messages st"
  "a_threads (normalize_active_pane st) = a_threads st" "a_messages (normalize_active_pane st) = a_messages st"
  "a_selected_thread (normalize_active_pane st) = a_selected_thread st"
  "a_selected_message (normalize_active_pane st) = a_selected_message st"
  by (simp_all add: normalize_eq)

text \<open>
  C35: when the daemon refuses a removal the undo shows the list exactly as it was: the same messages,
  the same conversations, the same conversation and message selected.
\<close>

theorem removal_undone:
  assumes "app_inv st" "a_messages st = visible_messages st"
    "remove_message_locally i now st = (True, removed)"
  shows "let r = restore_message_list_snapshot (snapshot_message_list st) now' removed in
         a_folder_messages r = a_folder_messages st \<and> a_threads r = a_threads st \<and> a_messages r = a_messages st \<and>
         a_selected_thread r = a_selected_thread st \<and>
         (a_messages st \<noteq> [] \<longrightarrow> a_selected_message r = a_selected_message st)"
proof -
  have lists: "lists_ok st" using app_invD(1) [OF assms(1)] .
  have ms: "a_folder_messages st \<noteq> []" using assms(3) by (auto simp: remove_message_locally_def Let_def)
  have threads: "a_threads st = build_threads (a_folder_messages st)" using lists by (simp add: lists_ok_def threads_current_def)
  then have sel: "clamp_index (a_selected_thread st) (length (build_threads (a_folder_messages st))) = a_selected_thread st"
    using clamp_index_ok [of "a_selected_thread st" "a_threads st"] lists build_threads_ne [OF ms] by (simp add: lists_ok_def)
  let ?m = "removed\<lparr>a_folder_messages := a_folder_messages st\<rparr>"
  obtain k where k: "rebuild_threads None ?m = ?m\<lparr>a_threads := a_threads st, a_selected_thread := k\<rparr>"
    using rebuild_threads_eq [of None ?m] threads by auto
  let ?s = "removed\<lparr>a_folder_messages := a_folder_messages st, a_threads := a_threads st, a_selected_thread := a_selected_thread st\<rparr>"
  obtain j where j: "refresh_visible_messages ?s = ?s\<lparr>a_messages := visible_messages ?s, a_selected_message := j\<rparr>"
    using refresh_messages_eq [of ?s] by blast
  have vis: "visible_messages ?s = a_messages st"
    by (simp add: assms(2) visible_messages_def selected_thread_key_def selected_thread_def split: option.split)
  have "a_messages st \<noteq> [] \<Longrightarrow> clamp_index (a_selected_message st) (length (a_messages st)) = a_selected_message st"
    using clamp_index_ok [of "a_selected_message st" "a_messages st"] lists by (simp add: lists_ok_def)
  then show ?thesis
    by (simp add: restore_message_list_snapshot_def snapshot_message_list_def Let_def k sel [folded threads] j vis)
qed

definition sample_item :: MessageItem where
  "sample_item = \<lparr>mi_id = 5, mi_thread_id = None, mi_subject = lit ''s'', mi_from = lit ''f'', mi_date = lit ''2026'',
     mi_snippet = [], mi_flags = []\<rparr>"

definition sample_listing :: AppState where
  "sample_listing = apply_folder_messages [sample_item] 0 default_app"

lemma sample_listing_parts:
  "a_folder_messages sample_listing = [sample_item]" "a_messages sample_listing = visible_messages sample_listing"
  "a_messages sample_listing = [sample_item]"
  by (simp_all add: sample_listing_def apply_folder_messages_def refresh_visible_messages_def rebuild_threads_def Let_def
      default_app_def selected_thread_key_def selected_thread_def list_get_def visible_messages_def
      sort_messages_oldest_first_def sort_by_def build_threads_def group_threads_def add_message_def thread_of_message_def
      selected_message_id_def selected_message_def approvals_folder_selected_def clamp_index_def)

theorem removal_undone_witness:
  "\<exists>removed. remove_message_locally 5 0 sample_listing = (True, removed) \<and>
     a_messages (restore_message_list_snapshot (snapshot_message_list sample_listing) 1 removed) = [sample_item]"
proof -
  have inv: "app_inv sample_listing"
    unfolding sample_listing_def by (rule apply_folder_messages_inv [OF default_app_inv])
  have "fst (remove_message_locally 5 0 sample_listing)"
    by (simp add: remove_message_locally_def sample_listing_parts Let_def) (simp add: sample_item_def)
  then obtain removed where r: "remove_message_locally 5 0 sample_listing = (True, removed)" by (metis prod.collapse)
  show ?thesis
    using removal_undone [OF inv sample_listing_parts(2) r, of 1] r by (simp add: Let_def sample_listing_parts(3))
qed

subsection \<open>Search hits and approvals\<close>

text \<open>
  Opening a search hit of another account does not open its folder: the folder list is emptied
  by the jump, so the next list from the daemon counts as a first load and selects the inbox, whatever
  folder the hit is in.
\<close>

theorem cross_account_hit_opens_inbox:
  assumes "index_where (\<lambda>a. ai_id a = sh_account_id hit) (a_accounts st) = Some i" "i \<noteq> a_selected_account st"
  shows "fst (jump_to_hit hit st) \<and>
    a_selected_folder (apply_folders fs (snd (jump_to_hit hit st))) =
      unwrap_or 0 (index_where (\<lambda>f. fi_role f = lit ''inbox'') (folders_with_approvals fs))"
proof -
  let ?j = "snd (jump_to_hit hit st)"
  have j: "fst (jump_to_hit hit st)" "a_folders ?j = []"
    using assms by (auto simp: jump_to_hit_def Let_def normalize_eq split: option.split)
  have frame: "a_selected_folder (normalize_active_pane s) = a_selected_folder s" for s by (simp add: normalize_eq)
  show ?thesis
    using j by (simp add: apply_folders_def Let_def frame reset_folder_contents_def approvals_folder_selected_def list_get_def)
qed

definition sample_two_accounts :: AppState where
  "sample_two_accounts = default_app\<lparr>a_accounts :=
     [\<lparr>ai_id = 1, ai_label = [], ai_email = [], ai_status = []\<rparr>, \<lparr>ai_id = 2, ai_label = [], ai_email = [], ai_status = []\<rparr>]\<rparr>"

definition sample_hit :: SearchHit where
  "sample_hit = \<lparr>sh_message_id = 9, sh_account_id = 2, sh_folder_id = 12, sh_subject = [], sh_from = [], sh_snippet = [], sh_date = []\<rparr>"

definition sample_folders :: "FolderItem list" where
  "sample_folders = [\<lparr>fi_kind = FolderMail, fi_id = 11, fi_name = lit ''INBOX'', fi_role = lit ''inbox''\<rparr>,
     \<lparr>fi_kind = FolderMail, fi_id = 12, fi_name = lit ''Work'', fi_role = lit ''other''\<rparr>]"

theorem cross_account_hit_opens_inbox_witness:
  "a_selected_folder (apply_folders sample_folders (snd (jump_to_hit sample_hit sample_two_accounts))) = 0 \<and>
   sh_folder_id sample_hit = fi_id (sample_folders ! 1)"
  using cross_account_hit_opens_inbox [of sample_hit sample_two_accounts 1 sample_folders]
  by (simp add: sample_hit_def sample_two_accounts_def sample_folders_def default_app_def folders_with_approvals_def
      is_approvals_virtual_def)

lemma sorted_head:
  assumes "sorted_wrt approval_le xs" "x \<in> set xs" "\<forall>y \<in> set xs. y \<noteq> x \<longrightarrow> it_created_at y < it_created_at x"
  shows "xs ! 0 = x"
proof (cases xs)
  case (Cons y ys)
  show ?thesis
  proof (rule ccontr)
    assume ne: "xs ! 0 \<noteq> x"
    then have "approval_le y x" "it_created_at y < it_created_at x" using assms Cons by auto
    then show False by (auto simp: approval_le_def)
  qed
qed (use assms in simp)

text \<open>
  C40: the highlight of the approvals list stays at its row number, not at its request: when a newer
  request arrives while the first row is highlighted, the highlighted request is the new one, and a
  decision made now is a decision about it.
\<close>

theorem new_request_takes_the_highlight:
  assumes "app_inv st" "aps_selected (a_approvals st) = 0"
    "list_all (\<lambda>a. it_id a \<noteq> it_id new \<and> it_created_at a < it_created_at new) (aps_items (a_approvals st))"
  shows "selected_approval (merge_approval_request new st) = Some new \<and>
         fst (remove_selected_approval (merge_approval_request new st)) = Some new"
proof -
  let ?xs = "sorted_approvals (aps_items (a_approvals st) @ [new])"
  have fresh: "\<not> list_ex (\<lambda>a. it_id a = it_id new) (aps_items (a_approvals st))"
    using assms(3) by (auto simp: list_all_iff list_ex_iff)
  have head: "?xs ! 0 = new"
    by (rule sorted_head)
       (use assms(3) in \<open>auto simp: sorted_approvals_def sorted_approval_items list_all_iff\<close>)
  have ne: "?xs \<noteq> []" by (simp add: sorted_approvals_def)
  then obtain ys where ys: "?xs = new # ys" using head by (cases ?xs) auto
  then have items: "aps_items (a_approvals (merge_approval_request new st)) = new # take 99 ys"
    "aps_selected (a_approvals (merge_approval_request new st)) = 0"
    using fresh assms(2)
    by (simp_all add: merge_approval_request_def put_approvals_def MAX_LIVE_APPROVALS_def take_Cons' clamp_index_def)
  then show ?thesis by (simp add: selected_approval_def remove_selected_approval_def list_get_def Let_def)
qed

definition sample_request :: ApprovalItem where
  "sample_request = \<lparr>it_id = 4, it_tool = lit ''postblox_message_delete'', it_args_summary = [], it_args_json = [],
     it_summary = None, it_target = None, it_created_at = 10\<rparr>"

theorem new_request_takes_the_highlight_witness:
  "selected_approval (merge_approval_request (sample_request\<lparr>it_id := 8, it_created_at := 20\<rparr>)
     (merge_approval_request sample_request default_app)) = Some (sample_request\<lparr>it_id := 8, it_created_at := 20\<rparr>)"
proof -
  let ?st = "merge_approval_request sample_request default_app"
  have items: "aps_items (a_approvals ?st) = [sample_request]" "aps_selected (a_approvals ?st) = 0"
    by (simp_all add: merge_approval_request_def put_approvals_def sorted_approvals_def sort_by_def MAX_LIVE_APPROVALS_def
        default_app_def clamp_index_def)
  show ?thesis
    using new_request_takes_the_highlight [OF merge_inv [OF default_app_inv, of sample_request] items(2),
        of "sample_request\<lparr>it_id := 8, it_created_at := 20\<rparr>"]
    by (simp add: items(1)) (simp add: sample_request_def)
qed

end
