(* ===== verification/Spec2Isabelle.thy ===== *)
theory Spec2Isabelle
  imports ReplyExtract Reply MimeBuilder IpcServer IpcClient McpStdio ReconcilerSync SyncWorkerInv SyncManager Search OAuth Smtp DaemonProps Config Command TuiProps
begin

text \<open>
  A model of postblox, a terminal mail client: a daemon that keeps mail in SQLite and talks to
  IMAP and SMTP servers, a terminal interface and an MCP bridge that talk to the daemon over a
  Unix socket.

  \<^bold>\<open>Parts and theories.\<close>  Every theory names the source file it models at its start; the names of
  definitions are the names of the Rust items, prefixed by the module where Rust has the same
  name in several modules.

  \<^item> \<open>Prelude\<close>, \<open>Json\<close>: Rust results, options, strings (lists of code points), UTF-8 and
    \<^verbatim>\<open>serde_json::Value\<close>; the locale \<open>step_invariant\<close> for transition systems and \<open>keyed_map\<close> for
    objects built by inserts.
  \<^item> \<open>MailParser\<close>, \<open>Threading\<close>, \<open>Reply\<close>, \<open>ReplyExtract\<close>, \<open>MimeBuilder\<close>: the crate
    \<^verbatim>\<open>postblox-mail\<close>, from the parse tree of a message to the text of a sent one.
  \<^item> \<open>Enums\<close>: the text enumerations of \<^verbatim>\<open>models.rs\<close>, \<^verbatim>\<open>daemon/op.rs\<close> and \<^verbatim>\<open>ipc/hub.rs\<close>.
  \<^item> \<open>Wire\<close>, \<open>IpcProtocol\<close>, \<open>IpcServer\<close>, \<open>IpcClient\<close>: \<^verbatim>\<open>src/ipc\<close>.  Framing is a function on byte
    streams; a connection is a transition system whose steps are the turns of its reader, its
    request handlers and its forwarders, in every order.
  \<^item> \<open>Gates\<close>, \<open>McpProtocol\<close>, \<open>McpTools\<close>, \<open>McpBridge\<close>, \<open>McpStdio\<close>: \<^verbatim>\<open>src/mcp\<close>.  The daemon behind
    the bridge is a parameter, and the bridge records every request it makes, so that safety is a
    statement about that record.
  \<^item> \<open>StoreRows\<close>, \<open>Store\<close>, \<open>StoreInv\<close>, \<open>SqlQuery\<close>, \<open>Search\<close>: \<^verbatim>\<open>src/db\<close> and \<^verbatim>\<open>migrations\<close>.  A table is
    the list of its rows; every data access function is a function on the tables, with the
    constraint errors SQLite raises and the foreign key actions it takes.
  \<^item> \<open>Attachments\<close>, \<open>ImapFetch\<close>: \<^verbatim>\<open>src/attachments.rs\<close>, \<^verbatim>\<open>src/imap\<close>, \<^verbatim>\<open>src/auth.rs\<close>.
  \<^item> \<open>Reconciler\<close>, \<open>ReconcilerInv\<close>, \<open>ReconcilerSync\<close>: \<^verbatim>\<open>src/sync/reconciler.rs\<close>, composed of the
    parser, the thread matcher, the data access functions and the IMAP client as in the code.
  \<^item> \<open>SyncWorker\<close>, \<open>SyncWorkerInv\<close>, \<open>SyncManager\<close>: \<^verbatim>\<open>src/sync/worker.rs\<close>, \<^verbatim>\<open>state.rs\<close>, \<^verbatim>\<open>manager.rs\<close>.
  \<^item> \<open>Secrets\<close>, \<open>OAuth\<close>, \<open>Smtp\<close>: \<^verbatim>\<open>src/secrets\<close>, \<^verbatim>\<open>src/oauth/google.rs\<close>, \<^verbatim>\<open>src/smtp/mod.rs\<close>.
  \<^item> \<open>DaemonBase\<close>, \<open>DaemonJson\<close>, \<open>DaemonRead\<close>, \<open>DaemonWrite\<close>, \<open>DaemonNet\<close>, \<open>Dispatcher\<close>, \<open>DaemonProps\<close>:
    \<^verbatim>\<open>src/daemon/dispatcher.rs\<close>, every request of the daemon as an action on the tables, the
    published events and the worker registry, written over the theories above.
  \<^item> \<open>Config\<close>, \<open>Theme\<close>, \<open>Command\<close>: \<^verbatim>\<open>src/config.rs\<close>, \<^verbatim>\<open>src/tui/theme.rs\<close>, \<^verbatim>\<open>src/tui/command.rs\<close>.
  \<^item> \<open>TextLines\<close>, \<open>Composer\<close>, \<open>TuiItems\<close>, \<open>Conversations\<close>, \<open>FolderCache\<close>, \<open>TuiApp\<close>, \<open>TuiOps\<close>:
    \<^verbatim>\<open>src/tui/app.rs\<close>, the state of the terminal interface.  Texts are lists of code points, byte offsets
    are computed from their UTF-8 lengths as in Rust, and slicing inside a character is the value
    \<open>None\<close>, which stands for the panic.  Clocks and time zones are fields of \<open>tui_env\<close>.
  \<^item> \<open>TuiInv\<close>, \<open>TuiSteps\<close>, \<open>TuiMachine\<close>, \<open>TuiProps\<close>: the invariant of that state and the relation
    \<open>app_step\<close>, in which the event loop may take any operation in any order.

  \<^bold>\<open>What is shown.\<close>  For the bridge: every dangerous operation was authorised by a gate or an
  approval seen while handling the very line that asked for it, and the advertised schemas are
  what validation enforces.  For the database: every statement keeps the schema, an approval is
  decided once.  For synchronisation: the window loop ends, a successful sync has every message of
  the mailbox, a failed one moves no cursor, back-off delays follow the schedule, one worker runs
  per folder.  For the sockets: frames and values round-trip, responses match requests, the limits
  on connections hold under every interleaving.  For queries: the statement filter, the
  size of an answer, and the patterns of a search.  For credentials: the secrets file survives every
  file fault, an authorization URL reads back to its parameters, tokens expire within a day, and no
  secret is sent unencrypted.  For the daemon: every request is answered and keeps the schema, the
  recorded identities are allowed ones, a decision is final, the attachments of a draft stay within
  their limit, a draft is sent once, an update of a draft is atomic, the tools that skip the gates
  change nothing, a stored password is the credential used, a bearer token has not expired.  For the terminal interface: its state stays consistent under every order of
  operations, editing never slices a character, the lines and the cursor shown are those of the text, a
  removal can be undone, a cached listing is never stale, a suggested command is a nearest one.  The theorems about errors state behaviour that
  departs from what comments or names promise.

  \<^bold>\<open>Interfaces.\<close>  \<open>windowed_fetch\<close> is what the reconciler needs of an IMAP client, interpreted on
  the production client; \<open>ingest_contract\<close>, \<open>resync_contract\<close> and \<open>sync_contract\<close> say what a
  property of the sync state must satisfy to survive each stage of a sync, interpreted for the
  schema, the cursors and the presence of rows; \<open>secret_store\<close> is the trait \<^verbatim>\<open>SecretStore\<close>,
  interpreted on the encrypted file and on the keyring; \<open>dispatch_contract\<close> says what a property of
  the tables must satisfy to survive every request, with the sublocale \<open>statement_invariant\<close> for
  properties that every statement keeps, interpreted for the schema, decided approvals, recorded
  identities and attachment sizes; \<open>step_invariant\<close> is interpreted for every
  transition system.

  \<^bold>\<open>Bounds and loops.\<close>  The window loop of the reconciler is a partial function into options, and its
  termination is a theorem; no fuel is used for it.  UIDs are 32-bit words with their saturating
  arithmetic, bytes are 8-bit words, and rows hold unbounded integers for SQLite's 64-bit ones,
  which no operation of the code computes with beyond comparison and clamping.

  \<^bold>\<open>Parameters.\<close>  Code outside the repository is an argument: the mail-parser and mail date
  functions, Unicode case tables, base64, \<^verbatim>\<open>serde_json\<close> text, the IMAP session, files, clocks, fresh
  identifiers, the FTS5 index, the SQLite row stream, timers and
  cancellation, Argon2, AES-GCM, the keyring, HTTP, the \<^verbatim>\<open>lettre\<close> crate, and for
  the daemon the faults of the database pool and the text of deserialisation errors.

  \<^bold>\<open>Not modelled.\<close>  The drawing of the terminal interface and its key and refresh loop
  (\<^verbatim>\<open>src/tui/render.rs\<close>, \<^verbatim>\<open>mod.rs\<close>, \<^verbatim>\<open>ipc.rs\<close>), which call the operations of \<open>TuiOps\<close> and \<open>TuiApp\<close>; the
  binaries.  A sync and a request run alone in their
  models: another writer to the same rows between their statements is not considered.
\<close>

end
